(* ===== verification/Prelude.thy ===== *)
theory Prelude
  imports Main "HOL-Library.Word"
begin

text \<open>
  Shared base of the development: the machine integer types of the Rust code, little-endian
  byte strings (\<open>to_le_bytes\<close> / \<open>from_le_bytes\<close>), Rust strings as UTF-8 byte sequences, the
  \<open>Result\<close> type as a sum with its \<open>?\<close> operator, the state-threading variant of it for code
  that works on a \<open>&mut\<close> context, and generic lemmas on lists and signed words.
\<close>

named_theorems codec_simps \<open>one-step evaluation of readers on encoded input\<close>
named_theorems exec_simps \<open>unfolding of context-threading operations\<close>
named_theorems wf_defs \<open>well-formedness predicates of encodable data\<close>

section \<open>Machine integers\<close>

text \<open>
  Rust's \<open>u8 .. u64\<close> and \<open>i8 .. i64\<close> are words of that width; the signed reading of a word
  is \<^term>\<open>sint\<close>, the unsigned one \<^term>\<open>uint\<close> or \<^term>\<open>unat\<close>. Arithmetic on words wraps
  around, which is what Rust's operators do in the release profile (\<open>Cargo.toml\<close> sets no
  \<open>overflow-checks\<close>). The width 128 is used by the date arithmetic only.
\<close>

type_synonym byte = "8 word"
type_synonym u8 = "8 word"
type_synonym u16 = "16 word"
type_synonym u32 = "32 word"
type_synonym u64 = "64 word"
type_synonym i8 = "8 word"
type_synonym i16 = "16 word"
type_synonym i32 = "32 word"
type_synonym i64 = "64 word"

text \<open>The largest and the smallest value of a signed word, as integers.\<close>

definition signed_max :: "'a::len itself \<Rightarrow> int" where
  "signed_max _ = 2 ^ (LENGTH('a) - 1) - 1"

definition signed_min :: "'a::len itself \<Rightarrow> int" where
  "signed_min _ = - (2 ^ (LENGTH('a) - 1))"

lemma sint_bounds:
  fixes w :: "'a::len word"
  shows "signed_min TYPE('a) \<le> sint w" and "sint w \<le> signed_max TYPE('a)"
  using sint_ge [of w] sint_lt [of w] by (auto simp: signed_min_def signed_max_def)

lemma signed_take_bit_id:
  fixes x :: int
  assumes "signed_min TYPE('a::len) \<le> x" and "x \<le> signed_max TYPE('a)"
  shows "signed_take_bit (LENGTH('a) - Suc 0) x = x"
  using assms by (intro signed_take_bit_int_eq_self) (auto simp: signed_min_def signed_max_def)

lemma sint_of_int_id:
  assumes "signed_min TYPE('a::len) \<le> x" and "x \<le> signed_max TYPE('a)"
  shows "sint (word_of_int x :: 'a word) = x"
  using signed_take_bit_id [OF assms] by (simp add: sint_sbintrunc')

lemma sint_plus_no_wrap:
  fixes a b :: "'a::len word"
  assumes "signed_min TYPE('a) \<le> sint a + sint b" and "sint a + sint b \<le> signed_max TYPE('a)"
  shows "sint (a + b) = sint a + sint b"
  using signed_take_bit_id [OF assms] by (simp add: sint_word_ariths)

lemma sint_minus_no_wrap:
  fixes a b :: "'a::len word"
  assumes "signed_min TYPE('a) \<le> sint a - sint b" and "sint a - sint b \<le> signed_max TYPE('a)"
  shows "sint (a - b) = sint a - sint b"
  using signed_take_bit_id [OF assms] by (simp add: sint_word_ariths)

section \<open>Results\<close>

text \<open>
  \<open>Result<T, E>\<close> is \<open>'e + 't\<close> with \<open>Err\<close> as \<^const>\<open>Inl\<close> and \<open>Ok\<close> as
  \<^const>\<open>Inr\<close>; \<open>rbind m f\<close> is \<open>let x = m?; f(x)\<close>.
\<close>

definition rbind :: "'e + 'a \<Rightarrow> ('a \<Rightarrow> 'e + 'b) \<Rightarrow> 'e + 'b" where
  "rbind m f = (case m of Inl e \<Rightarrow> Inl e | Inr x \<Rightarrow> f x)"

lemma rbind_simps [simp]:
  "rbind (Inl e) f = Inl e"
  "rbind (Inr x) f = f x"
  by (simp_all add: rbind_def)

lemma rbind_eq_Inr: "rbind m f = Inr y \<longleftrightarrow> (\<exists>x. m = Inr x \<and> f x = Inr y)"
  by (cases m) auto

lemma rbind_eq_Inl:
  "rbind m f = Inl e \<longleftrightarrow> m = Inl e \<or> (\<exists>x. m = Inr x \<and> f x = Inl e)"
  by (cases m) auto

lemma rbind_cong [fundef_cong]:
  assumes "m = m'" and "\<And>x. m' = Inr x \<Longrightarrow> f x = f' x"
  shows "rbind m f = rbind m' f'"
  using assms by (cases m') auto

text \<open>\<open>guard c e\<close> is the early return \<open>if !c { return Err(e) }\<close>.\<close>

definition guard :: "bool \<Rightarrow> 'e \<Rightarrow> 'e + unit" where
  "guard c e = (if c then Inr () else Inl e)"

lemma guard_eq_Inr [simp]: "guard c e = Inr u \<longleftrightarrow> c"
  by (simp add: guard_def)

lemma guard_True [simp]: "guard True e = Inr ()"
  by (simp add: guard_def)

lemma guard_False [simp]: "guard False e = Inl e"
  by (simp add: guard_def)

text \<open>\<open>ok_or opt e\<close> is \<open>opt.ok_or(e)?\<close>; \<open>traverse f xs\<close> runs a checked step over a list.\<close>

definition ok_or :: "'a option \<Rightarrow> 'e \<Rightarrow> 'e + 'a" where
  "ok_or opt e = (case opt of None \<Rightarrow> Inl e | Some x \<Rightarrow> Inr x)"

lemma ok_or_simps [simp]:
  "ok_or None e = Inl e"
  "ok_or (Some x) e = Inr x"
  by (simp_all add: ok_or_def)

lemma ok_or_eq_Inr [simp]: "ok_or opt e = Inr x \<longleftrightarrow> opt = Some x"
  by (cases opt) auto

fun each :: "('a \<Rightarrow> 'e + unit) \<Rightarrow> 'a list \<Rightarrow> 'e + unit" where
  "each f [] = Inr ()"
| "each f (x # xs) = rbind (f x) (\<lambda>_. each f xs)"

lemma each_eq_Inr: "each f xs = Inr u \<longleftrightarrow> (\<forall>x\<in>set xs. f x = Inr ())"
  by (induction xs) (auto simp: rbind_eq_Inr)

lemma each_cong [fundef_cong]:
  assumes "xs = ys" and "\<And>x. x \<in> set ys \<Longrightarrow> f x = g x"
  shows "each f xs = each g ys"
  using assms by (induction ys arbitrary: xs) (auto intro: rbind_cong)

fun collect :: "('a \<Rightarrow> 'e + 'b) \<Rightarrow> 'a list \<Rightarrow> 'e + 'b list" where
  "collect f [] = Inr []"
| "collect f (x # xs) = rbind (f x) (\<lambda>y. rbind (collect f xs) (\<lambda>ys. Inr (y # ys)))"

lemma collect_eq_Inr: "collect f xs = Inr ys \<longleftrightarrow> list_all2 (\<lambda>x y. f x = Inr y) xs ys"
  by (induction xs arbitrary: ys) (auto simp: rbind_eq_Inr list_all2_Cons1)

lemma collect_ok:
  assumes "\<And>x. x \<in> set xs \<Longrightarrow> \<exists>y. f x = Inr y"
  shows "\<exists>ys. collect f xs = Inr ys"
  using assms by (induction xs) (auto, metis rbind_simps(2))

lemma collect_Inl:
  assumes "collect f xs = Inl e"
  shows "\<exists>x\<in>set xs. f x = Inl e"
  using assms by (induction xs) (auto simp: rbind_eq_Inl)

text \<open>
  A computation that may not return is an option of a result: \<open>None\<close> when the recursion depth
  (fuel) is used up. \<open>fbind\<close> is the \<open>?\<close> operator on it, and a result \<open>m\<close> that needs no fuel is
  \<open>Some m\<close>.
\<close>

type_synonym ('e, 'a) fueled = "('e + 'a) option"

definition fbind :: "('e, 'a) fueled \<Rightarrow> ('a \<Rightarrow> ('e, 'b) fueled) \<Rightarrow> ('e, 'b) fueled" where
  "fbind m f = (case m of None \<Rightarrow> None | Some (Inl e) \<Rightarrow> Some (Inl e) | Some (Inr x) \<Rightarrow> f x)"

lemma fbind_simps [simp]:
  "fbind None f = None"
  "fbind (Some (Inl e)) f = Some (Inl e)"
  "fbind (Some (Inr x)) f = f x"
  by (simp_all add: fbind_def)

lemma fbind_cong [fundef_cong]:
  assumes "m = m'" and "\<And>x. m' = Some (Inr x) \<Longrightarrow> f x = f' x"
  shows "fbind m f = fbind m' f'"
  using assms by (auto simp: fbind_def split: option.splits sum.splits)

lemma fbind_eq_ok:
  "fbind m f = Some (Inr y) \<longleftrightarrow> (\<exists>x. m = Some (Inr x) \<and> f x = Some (Inr y))"
  by (auto simp: fbind_def split: option.splits sum.splits)

lemma fbind_eq_None:
  "fbind m f = None \<longleftrightarrow> m = None \<or> (\<exists>x. m = Some (Inr x) \<and> f x = None)"
  by (auto simp: fbind_def split: option.splits sum.splits)

text \<open>\<open>fuel_le m m'\<close>: whenever \<open>m\<close> returns, \<open>m'\<close> returns the same.\<close>

definition fuel_le :: "'a option \<Rightarrow> 'a option \<Rightarrow> bool" where
  "fuel_le m m' \<longleftrightarrow> (\<forall>y. m = Some y \<longrightarrow> m' = Some y)"

named_theorems fuel_intros \<open>composition rules for \<open>fuel_le\<close>\<close>

lemma fuel_leD: "fuel_le m m' \<Longrightarrow> m = Some y \<Longrightarrow> m' = Some y"
  by (simp add: fuel_le_def)

lemma fuel_le_refl [fuel_intros]: "fuel_le m m"
  by (simp add: fuel_le_def)

lemma fuel_le_None [fuel_intros]: "fuel_le None m"
  by (simp add: fuel_le_def)

lemma fuel_le_bind [fuel_intros]:
  assumes "fuel_le m m'" and "\<And>x. fuel_le (f x) (f' x)"
  shows "fuel_le (fbind m f) (fbind m' f')"
  using assms by (auto simp: fuel_le_def fbind_def split: option.splits sum.splits)

lemma fuel_le_prod [fuel_intros]:
  "(\<And>x y. fuel_le (f x y) (f' x y)) \<Longrightarrow>
    fuel_le (case p of (x, y) \<Rightarrow> f x y) (case p of (x, y) \<Rightarrow> f' x y)"
  by (cases p) simp

text \<open>Indexing that returns \<open>None\<close> out of range: \<open>slice.get(i)\<close>.\<close>

definition nth_opt :: "'a list \<Rightarrow> nat \<Rightarrow> 'a option" where
  "nth_opt xs i = (if i < length xs then Some (xs ! i) else None)"

lemma nth_opt_eq_Some [simp]: "nth_opt xs i = Some x \<longleftrightarrow> i < length xs \<and> xs ! i = x"
  by (auto simp: nth_opt_def)

lemma nth_opt_eq_None [simp]: "nth_opt xs i = None \<longleftrightarrow> length xs \<le> i"
  by (auto simp: nth_opt_def)

lemma nth_opt_in_set: "nth_opt xs i = Some x \<Longrightarrow> x \<in> set xs"
  by auto

section \<open>Operations on a mutable context\<close>

text \<open>
  A function \<open>fn f(ctx: &mut C) -> Result<T, E>\<close> is \<open>'c \<Rightarrow> ('e + 't) \<times> 'c\<close>: the context is
  returned on the error path too, since what was written before the error stays written.
\<close>

type_synonym ('c, 'e, 'a) exec = "'c \<Rightarrow> ('e + 'a) \<times> 'c"

definition xret :: "'a \<Rightarrow> ('c, 'e, 'a) exec" where
  "xret x = (\<lambda>c. (Inr x, c))"

definition xfail :: "'e \<Rightarrow> ('c, 'e, 'a) exec" where
  "xfail e = (\<lambda>c. (Inl e, c))"

definition xbind :: "('c, 'e, 'a) exec \<Rightarrow> ('a \<Rightarrow> ('c, 'e, 'b) exec) \<Rightarrow> ('c, 'e, 'b) exec" where
  "xbind m f = (\<lambda>c. case m c of (Inl e, c') \<Rightarrow> (Inl e, c') | (Inr x, c') \<Rightarrow> f x c')"

definition xmodify :: "('c \<Rightarrow> 'c) \<Rightarrow> ('c, 'e, unit) exec" where
  "xmodify g = (\<lambda>c. (Inr (), g c))"

definition xlift :: "('c \<Rightarrow> 'e + 'a) \<Rightarrow> ('c, 'e, 'a) exec" where
  "xlift g = (\<lambda>c. (g c, c))"

lemma xbind_apply [exec_simps]:
  "xbind m f c = (case m c of (Inl e, c') \<Rightarrow> (Inl e, c') | (Inr x, c') \<Rightarrow> f x c')"
  by (simp add: xbind_def)

lemma xexec_apply [exec_simps]:
  "xret x c = (Inr x, c)"
  "xfail e c = (Inl e, c)"
  "xmodify g c = (Inr (), g c)"
  "xlift h c = (h c, c)"
  by (simp_all add: xret_def xfail_def xmodify_def xlift_def)

end
