(* ===== verification/Bytes.thy ===== *)
theory Bytes
  imports Prelude
begin

text \<open>
  Little-endian byte strings of machine words (\<open>to_le_bytes\<close> and \<open>from_le_bytes\<close> of Rust's
  integers) and Rust strings. A Rust \<open>str\<close> (and \<open>String\<close>, \<open>SmolStr\<close>) is the sequence of the
  bytes of its UTF-8 encoding; it is modelled as \<^typ>\<open>string\<close>, whose characters are bytes,
  so that literals can be written down; \<open>valid_utf8\<close> is what \<open>str::from_utf8\<close> checks.
\<close>

section \<open>Little-endian encodings\<close>

definition to_le :: "nat \<Rightarrow> 'a::len word \<Rightarrow> byte list" where
  "to_le n w = map (\<lambda>i. ucast (drop_bit (8 * i) w)) [0..<n]"

fun from_le :: "byte list \<Rightarrow> 'a::len word" where
  "from_le [] = 0"
| "from_le (b # bs) = or (ucast b) (push_bit 8 (from_le bs))"

lemma length_to_le [simp]: "length (to_le n w) = n"
  by (simp add: to_le_def)

lemma to_le_Suc: "to_le (Suc n) w = ucast w # to_le n (drop_bit 8 w)"
proof -
  have "map (\<lambda>i. ucast (drop_bit (8 * i) w)) [0..<Suc n] =
      ucast w # map (\<lambda>i. ucast (drop_bit (8 * Suc i) w)) [0..<n]"
    by (simp only: upt_rec [of 0 "Suc n"] map_Suc_upt [symmetric]) (simp add: comp_def)
  then show ?thesis
    by (simp add: to_le_def ac_simps)
qed

lemma from_le_to_le_take:
  fixes w :: "'a::len word"
  shows "from_le (to_le n w) = take_bit (8 * n) w"
proof (induction n arbitrary: w)
  case 0
  then show ?case by (simp add: to_le_def)
next
  case (Suc n)
  have "or (ucast (ucast w :: byte)) (push_bit 8 (take_bit (8 * n) (drop_bit 8 w))) =
      take_bit (8 * Suc n) w"
    by (rule bit_word_eqI)
      (auto simp: bit_simps)
  with Suc show ?case
    by (simp add: to_le_Suc)
qed

lemma from_le_to_le:
  fixes w :: "'a::len word"
  assumes "LENGTH('a) \<le> 8 * n"
  shows "from_le (to_le n w) = w"
  using assms by (simp add: from_le_to_le_take take_bit_word_eq_self)

definition le16 :: "u16 \<Rightarrow> byte list" where
  "le16 w = to_le 2 w"

definition le32 :: "u32 \<Rightarrow> byte list" where
  "le32 w = to_le 4 w"

definition le64 :: "u64 \<Rightarrow> byte list" where
  "le64 w = to_le 8 w"

lemma length_le [simp]:
  "length (le16 a) = 2"
  "length (le32 b) = 4"
  "length (le64 c) = 8"
  by (simp_all add: le16_def le32_def le64_def)

lemma from_le_le [simp]:
  "from_le (le16 a) = a"
  "from_le (le32 b) = b"
  "from_le (le64 c) = c"
  by (simp_all add: le16_def le32_def le64_def from_le_to_le)

section \<open>Rust strings\<close>

type_synonym rstr = string

definition byte_of_char :: "char \<Rightarrow> byte" where
  "byte_of_char c = word_of_nat (of_char c)"

definition char_of_byte :: "byte \<Rightarrow> char" where
  "char_of_byte b = char_of (unat b)"

definition as_bytes :: "rstr \<Rightarrow> byte list" where
  "as_bytes s = map byte_of_char s"

definition str_of_bytes :: "byte list \<Rightarrow> rstr" where
  "str_of_bytes bs = map char_of_byte bs"

lemma of_char_less: "(of_char c :: nat) < 256"
  by simp

lemma char_of_byte_of_char [simp]: "char_of_byte (byte_of_char c) = c"
  using of_char_less [of c] by (simp add: char_of_byte_def byte_of_char_def unat_of_nat)

lemma str_of_bytes_as_bytes [simp]: "str_of_bytes (as_bytes s) = s"
  by (simp add: str_of_bytes_def as_bytes_def comp_def)

lemma length_as_bytes [simp]: "length (as_bytes s) = length s"
  by (simp add: as_bytes_def)

text \<open>Well-formed UTF-8, by the table of byte ranges that \<open>str::from_utf8\<close> implements.\<close>

definition between :: "byte \<Rightarrow> byte \<Rightarrow> byte \<Rightarrow> bool" where
  "between lo hi b \<longleftrightarrow> lo \<le> b \<and> b \<le> hi"

definition continuation :: "byte \<Rightarrow> bool" where
  "continuation b \<longleftrightarrow> between 0x80 0xBF b"

fun valid_utf8 :: "byte list \<Rightarrow> bool" where
  "valid_utf8 [] = True"
| "valid_utf8 (a # bs) =
     (if a \<le> 0x7F then valid_utf8 bs
      else if between 0xC2 0xDF a then
        (case bs of b # r \<Rightarrow> continuation b \<and> valid_utf8 r | _ \<Rightarrow> False)
      else if between 0xE0 0xEF a then
        (case bs of
          b # c # r \<Rightarrow>
            (if a = 0xE0 then between 0xA0 0xBF b
             else if a = 0xED then between 0x80 0x9F b
             else continuation b) \<and> continuation c \<and> valid_utf8 r
        | _ \<Rightarrow> False)
      else if between 0xF0 0xF4 a then
        (case bs of
          b # c # d # r \<Rightarrow>
            (if a = 0xF0 then between 0x90 0xBF b
             else if a = 0xF4 then between 0x80 0x8F b
             else continuation b) \<and> continuation c \<and> continuation d \<and> valid_utf8 r
        | _ \<Rightarrow> False)
      else False)"

definition from_utf8 :: "byte list \<Rightarrow> rstr option" where
  "from_utf8 bs = (if valid_utf8 bs then Some (str_of_bytes bs) else None)"

text \<open>The invariant of Rust's string types: their bytes are well-formed UTF-8.\<close>

definition wf_str :: "rstr \<Rightarrow> bool" where
  "wf_str s \<longleftrightarrow> valid_utf8 (as_bytes s)"

lemma from_utf8_as_bytes: "wf_str s \<Longrightarrow> from_utf8 (as_bytes s) = Some s"
  by (simp add: from_utf8_def wf_str_def)

lemma ascii_valid: "(\<forall>b\<in>set bs. b \<le> 0x7F) \<Longrightarrow> valid_utf8 bs"
  by (induction bs) auto

text \<open>\<open>str::to_ascii_uppercase\<close> and \<open>str::to_ascii_lowercase\<close>.\<close>

definition to_upper_char :: "char \<Rightarrow> char" where
  "to_upper_char c =
     (let n = (of_char c :: nat) in if 97 \<le> n \<and> n \<le> 122 then char_of (n - 32) else c)"

definition to_ascii_uppercase :: "rstr \<Rightarrow> rstr" where
  "to_ascii_uppercase s = map to_upper_char s"

definition to_lower_char :: "char \<Rightarrow> char" where
  "to_lower_char c =
     (let n = (of_char c :: nat) in if 65 \<le> n \<and> n \<le> 90 then char_of (n + 32) else c)"

definition to_ascii_lowercase :: "rstr \<Rightarrow> rstr" where
  "to_ascii_lowercase s = map to_lower_char s"

lemma to_upper_char_idem [simp]: "to_upper_char (to_upper_char c) = to_upper_char c"
  by (auto simp: to_upper_char_def Let_def)

lemma to_ascii_uppercase_idem [simp]:
  "to_ascii_uppercase (to_ascii_uppercase s) = to_ascii_uppercase s"
  by (simp add: to_ascii_uppercase_def comp_def)

lemma length_to_ascii_uppercase [simp]: "length (to_ascii_uppercase s) = length s"
  by (simp add: to_ascii_uppercase_def)

end
