(* ===== verification/Bytecode_Format.thy ===== *)
theory Bytecode_Format
  imports Bytes
begin

text \<open>
  The data types of the bytecode container (\<open>bytecode/format.rs\<close>): the decoder's error type,
  the section identifiers with their raw numbers, one record per entry type of a section, the
  section data and the module. Struct fields keep their source names behind a short prefix.
\<close>

section \<open>Versions and constants\<close>

record bytecode_version =
  v_major :: u16
  v_minor :: u16

definition SUPPORTED_MAJOR_VERSION :: u16 where
  "SUPPORTED_MAJOR_VERSION = 1"

definition SUPPORTED_MINOR_VERSION :: u16 where
  "SUPPORTED_MINOR_VERSION = 1"

definition MAGIC :: "byte list" where
  "MAGIC = as_bytes ''STBC''"

definition HEADER_SIZE :: u16 where
  "HEADER_SIZE = 24"

definition SECTION_ENTRY_SIZE :: nat where
  "SECTION_ENTRY_SIZE = 12"

definition HEADER_FLAG_CRC32 :: u32 where
  "HEADER_FLAG_CRC32 = 1"

definition u32_MAX :: u32 where
  "u32_MAX = 0xFFFFFFFF"

section \<open>Errors\<close>

datatype bytecode_error =
    InvalidMagic
  | UnsupportedVersion u16 u16
  | InvalidHeader rstr
  | InvalidChecksum u32 u32
  | InvalidSectionTable rstr
  | SectionOutOfBounds
  | SectionOverlap
  | SectionAlignment
  | UnexpectedEof
  | InvalidSection rstr
  | MissingSection rstr
  | InvalidOpcode u8
  | InvalidJumpTarget i32
  | InvalidPouId u32
  | InvalidIndex rstr u32

section \<open>Section identifiers\<close>

datatype section_id =
    SidStringTable
  | SidTypeTable
  | SidConstPool
  | SidRefTable
  | SidPouIndex
  | SidPouBodies
  | SidResourceMeta
  | SidIoMap
  | SidDebugMap
  | SidDebugStringTable
  | SidVarMeta
  | SidRetainInit

fun section_id_as_raw :: "section_id \<Rightarrow> u16" where
  "section_id_as_raw SidStringTable = 0x0001"
| "section_id_as_raw SidTypeTable = 0x0002"
| "section_id_as_raw SidConstPool = 0x0003"
| "section_id_as_raw SidRefTable = 0x0004"
| "section_id_as_raw SidPouIndex = 0x0005"
| "section_id_as_raw SidPouBodies = 0x0006"
| "section_id_as_raw SidResourceMeta = 0x0007"
| "section_id_as_raw SidIoMap = 0x0008"
| "section_id_as_raw SidDebugMap = 0x0009"
| "section_id_as_raw SidDebugStringTable = 0x000A"
| "section_id_as_raw SidVarMeta = 0x000B"
| "section_id_as_raw SidRetainInit = 0x000C"

definition section_id_from_raw :: "u16 \<Rightarrow> section_id option" where
  "section_id_from_raw i =
     (if i = 0x0001 then Some SidStringTable
      else if i = 0x0002 then Some SidTypeTable
      else if i = 0x0003 then Some SidConstPool
      else if i = 0x0004 then Some SidRefTable
      else if i = 0x0005 then Some SidPouIndex
      else if i = 0x0006 then Some SidPouBodies
      else if i = 0x0007 then Some SidResourceMeta
      else if i = 0x0008 then Some SidIoMap
      else if i = 0x0009 then Some SidDebugMap
      else if i = 0x000A then Some SidDebugStringTable
      else if i = 0x000B then Some SidVarMeta
      else if i = 0x000C then Some SidRetainInit
      else None)"

lemma section_id_from_raw_as_raw [simp]: "section_id_from_raw (section_id_as_raw s) = Some s"
  by (cases s) (simp_all add: section_id_from_raw_def)

lemma section_id_from_raw_Some:
  "section_id_from_raw i = Some s \<longleftrightarrow> i = section_id_as_raw s"
proof
  show "i = section_id_as_raw s" if "section_id_from_raw i = Some s"
    using that by (auto simp: section_id_from_raw_def split: if_splits)
qed simp

lemma section_id_as_raw_inject [simp]:
  "section_id_as_raw a = section_id_as_raw b \<longleftrightarrow> a = b"
  by (metis option.inject section_id_from_raw_as_raw)

record section_entry =
  se_id :: u16
  se_flags :: u16
  se_offset :: u32
  se_length :: u32

section \<open>String, type and constant tables\<close>

record string_table =
  st_entries :: "rstr list"

datatype type_kind =
    TkPrimitive
  | TkArray
  | TkStruct
  | TkEnum
  | TkAlias
  | TkSubrange
  | TkReference
  | TkUnion
  | TkFunctionBlock
  | TkClass
  | TkInterface

fun type_kind_raw :: "type_kind \<Rightarrow> u8" where
  "type_kind_raw TkPrimitive = 0"
| "type_kind_raw TkArray = 1"
| "type_kind_raw TkStruct = 2"
| "type_kind_raw TkEnum = 3"
| "type_kind_raw TkAlias = 4"
| "type_kind_raw TkSubrange = 5"
| "type_kind_raw TkReference = 6"
| "type_kind_raw TkUnion = 7"
| "type_kind_raw TkFunctionBlock = 8"
| "type_kind_raw TkClass = 9"
| "type_kind_raw TkInterface = 10"

definition type_kind_from_raw :: "u8 \<Rightarrow> type_kind option" where
  "type_kind_from_raw v =
     (if v = 0 then Some TkPrimitive
      else if v = 1 then Some TkArray
      else if v = 2 then Some TkStruct
      else if v = 3 then Some TkEnum
      else if v = 4 then Some TkAlias
      else if v = 5 then Some TkSubrange
      else if v = 6 then Some TkReference
      else if v = 7 then Some TkUnion
      else if v = 8 then Some TkFunctionBlock
      else if v = 9 then Some TkClass
      else if v = 10 then Some TkInterface
      else None)"

lemma type_kind_from_raw_raw [simp]: "type_kind_from_raw (type_kind_raw k) = Some k"
  by (cases k) (simp_all add: type_kind_from_raw_def)

record field =
  fd_name_idx :: u32
  fd_type_id :: u32

record enum_variant =
  ev_name_idx :: u32
  ev_value :: i64

record interface_method =
  im_name_idx :: u32
  im_slot :: u32

datatype type_data =
    TdPrimitive u16 u16
  | TdArray u32 "(i64 \<times> i64) list"
  | TdStruct "field list"
  | TdEnum u32 "enum_variant list"
  | TdAlias u32
  | TdSubrange u32 i64 i64
  | TdReference u32
  | TdUnion "field list"
  | TdPou u32
  | TdInterface "interface_method list"

record type_entry =
  te_kind :: type_kind
  te_name_idx :: "u32 option"
  te_data :: type_data

record type_table =
  tt_offsets :: "u32 list"
  tt_entries :: "type_entry list"

record const_entry =
  ce_type_id :: u32
  ce_payload :: "byte list"

record const_pool =
  cp_entries :: "const_entry list"

section \<open>Reference table\<close>

datatype ref_location = LocGlobal | LocLocal | LocInstance | LocIo | LocRetain

fun ref_location_raw :: "ref_location \<Rightarrow> u8" where
  "ref_location_raw LocGlobal = 0"
| "ref_location_raw LocLocal = 1"
| "ref_location_raw LocInstance = 2"
| "ref_location_raw LocIo = 3"
| "ref_location_raw LocRetain = 4"

definition ref_location_from_raw :: "u8 \<Rightarrow> ref_location option" where
  "ref_location_from_raw v =
     (if v = 0 then Some LocGlobal
      else if v = 1 then Some LocLocal
      else if v = 2 then Some LocInstance
      else if v = 3 then Some LocIo
      else if v = 4 then Some LocRetain
      else None)"

lemma ref_location_from_raw_raw [simp]:
  "ref_location_from_raw (ref_location_raw l) = Some l"
  by (cases l) (simp_all add: ref_location_from_raw_def)

datatype ref_segment = SegIndex "i64 list" | SegField u32

record ref_entry =
  re_location :: ref_location
  re_owner_id :: u32
  re_offset :: u32
  re_segments :: "ref_segment list"

record ref_table =
  rt_entries :: "ref_entry list"

section \<open>Program organisation units\<close>

datatype pou_kind = PkProgram | PkFunctionBlock | PkFunction | PkClass | PkMethod

fun pou_kind_raw :: "pou_kind \<Rightarrow> u8" where
  "pou_kind_raw PkProgram = 0"
| "pou_kind_raw PkFunctionBlock = 1"
| "pou_kind_raw PkFunction = 2"
| "pou_kind_raw PkClass = 3"
| "pou_kind_raw PkMethod = 4"

definition pou_kind_from_raw :: "u8 \<Rightarrow> pou_kind option" where
  "pou_kind_from_raw v =
     (if v = 0 then Some PkProgram
      else if v = 1 then Some PkFunctionBlock
      else if v = 2 then Some PkFunction
      else if v = 3 then Some PkClass
      else if v = 4 then Some PkMethod
      else None)"

lemma pou_kind_from_raw_raw [simp]: "pou_kind_from_raw (pou_kind_raw k) = Some k"
  by (cases k) (simp_all add: pou_kind_from_raw_def)

fun is_class_like :: "pou_kind \<Rightarrow> bool" where
  "is_class_like PkFunctionBlock = True"
| "is_class_like PkClass = True"
| "is_class_like _ = False"

record param_entry =
  pa_name_idx :: u32
  pa_type_id :: u32
  pa_direction :: u8
  pa_default_const_idx :: "u32 option"

record interface_impl =
  ii_interface_type_id :: u32
  ii_vtable_slots :: "u32 list"

record method_entry =
  me_name_idx :: u32
  me_pou_id :: u32
  me_vtable_slot :: u32
  me_access :: u8
  me_flags :: u8

record pou_class_meta =
  cm_parent_pou_id :: "u32 option"
  cm_interfaces :: "interface_impl list"
  cm_methods :: "method_entry list"

record pou_entry =
  pe_id :: u32
  pe_name_idx :: u32
  pe_kind :: pou_kind
  pe_code_offset :: u32
  pe_code_length :: u32
  pe_local_ref_start :: u32
  pe_local_ref_count :: u32
  pe_return_type_id :: "u32 option"
  pe_owner_pou_id :: "u32 option"
  pe_params :: "param_entry list"
  pe_class_meta :: "pou_class_meta option"

record pou_index =
  pi_entries :: "pou_entry list"

section \<open>Metadata sections\<close>

record var_meta_entry =
  vm_name_idx :: u32
  vm_type_id :: u32
  vm_ref_idx :: u32
  vm_retain :: u8
  vm_init_const_idx :: "u32 option"

record var_meta =
  vt_entries :: "var_meta_entry list"

record retain_init_entry =
  ri_ref_idx :: u32
  ri_const_idx :: u32

record retain_init =
  rn_entries :: "retain_init_entry list"

record task_entry =
  tk_name_idx :: u32
  tk_priority :: u32
  tk_interval_nanos :: i64
  tk_single_name_idx :: "u32 option"
  tk_program_name_idx :: "u32 list"
  tk_fb_ref_idx :: "u32 list"

record resource_entry =
  rs_name_idx :: u32
  rs_inputs_size :: u32
  rs_outputs_size :: u32
  rs_memory_size :: u32
  rs_tasks :: "task_entry list"

record resource_meta =
  rm_resources :: "resource_entry list"

record io_binding =
  ib_address_str_idx :: u32
  ib_ref_idx :: u32
  ib_type_id :: "u32 option"

record io_map =
  io_bindings :: "io_binding list"

record debug_entry =
  de_pou_id :: u32
  de_code_offset :: u32
  de_file_idx :: u32
  de_line :: u32
  de_column :: u32
  de_kind :: u8

record debug_map =
  dm_entries :: "debug_entry list"

section \<open>Sections and modules\<close>

datatype section_data =
    SecStringTable string_table
  | SecDebugStringTable string_table
  | SecTypeTable type_table
  | SecConstPool const_pool
  | SecRefTable ref_table
  | SecPouIndex pou_index
  | SecPouBodies "byte list"
  | SecResourceMeta resource_meta
  | SecIoMap io_map
  | SecDebugMap debug_map
  | SecVarMeta var_meta
  | SecRetainInit retain_init
  | SecRaw "byte list"

record section_rec =
  sc_id :: u16
  sc_flags :: u16
  sc_data :: section_data

record bytecode_module =
  bm_version :: bytecode_version
  bm_flags :: u32
  bm_sections :: "section_rec list"

definition module_new :: "bytecode_version \<Rightarrow> bytecode_module" where
  "module_new version =
     \<lparr>bm_version = version,
      bm_flags = (if 1 \<le> v_minor version then HEADER_FLAG_CRC32 else 0),
      bm_sections = []\<rparr>"

definition module_section :: "bytecode_module \<Rightarrow> section_id \<Rightarrow> section_data option" where
  "module_section m i =
     map_option sc_data (find (\<lambda>s. sc_id s = section_id_as_raw i) (bm_sections m))"

section \<open>Small helpers (bytecode/util.rs)\<close>

text \<open>
  \<open>(value + 3) & !3\<close> on \<open>usize\<close>: clearing the two low bits rounds up to a multiple of four.
\<close>

definition align4 :: "nat \<Rightarrow> nat" where
  "align4 value = push_bit 2 (drop_bit 2 (value + 3))"

definition pad_to :: "byte list \<Rightarrow> nat \<Rightarrow> byte list" where
  "pad_to bytes target =
     (if length bytes < target then bytes @ replicate (target - length bytes) 0 else bytes)"

lemma align4_div: "align4 n = (n + 3) div 4 * 4"
  by (simp add: align4_def push_bit_eq_mult drop_bit_eq_div)

lemma align4_bounds: "n \<le> align4 n" "align4 n < n + 4"
  unfolding align4_div by presburger+

lemma align4_mod [simp]: "align4 n mod 4 = 0"
  by (simp add: align4_div)

lemma align4_id: "n mod 4 = 0 \<Longrightarrow> align4 n = n"
  unfolding align4_div by presburger

lemma align4_add: "m mod 4 = 0 \<Longrightarrow> align4 (m + n) = m + align4 n"
  unfolding align4_div by presburger

lemma align4_mono: "m \<le> n \<Longrightarrow> align4 m \<le> align4 n"
  unfolding align4_div by (intro mult_le_mono div_le_mono) simp_all

lemma length_pad_to [simp]: "length (pad_to bs n) = max (length bs) n"
  by (simp add: pad_to_def)

end
