(* ===== verification/Bytecode_Reader.thy ===== *)
theory Bytecode_Reader
  imports Bytecode_Format
begin

text \<open>
  The cursor reader of \<open>bytecode/reader.rs\<close> and the interface of an encoder with its decoder.
  A decoder is a function on readers; the locale \<open>codec\<close> states the law that decoding at the
  position where an encoding was written returns the value and leaves the cursor behind it,
  and derives the same law for the length-prefixed vectors that every section uses.
\<close>

section \<open>The reader\<close>

record reader =
  rd_data :: "byte list"
  rd_cursor :: nat

definition reader_new :: "byte list \<Rightarrow> reader" where
  "reader_new bytes = \<lparr>rd_data = bytes, rd_cursor = 0\<rparr>"

definition reader_pos :: "reader \<Rightarrow> nat" where
  "reader_pos r = rd_cursor r"

definition reader_remaining :: "reader \<Rightarrow> nat" where
  "reader_remaining r = length (rd_data r) - rd_cursor r"

type_synonym 'a decoder = "reader \<Rightarrow> bytecode_error + ('a \<times> reader)"

definition read_bytes :: "nat \<Rightarrow> byte list decoder" where
  "read_bytes len r =
     (if length (rd_data r) < rd_cursor r + len then Inl UnexpectedEof
      else Inr (take len (drop (rd_cursor r) (rd_data r)), r\<lparr>rd_cursor := rd_cursor r + len\<rparr>))"

definition read_u8 :: "u8 decoder" where
  "read_u8 r = rbind (read_bytes 1 r) (\<lambda>(bytes, r). Inr (bytes ! 0, r))"

definition read_u16 :: "u16 decoder" where
  "read_u16 r = rbind (read_bytes 2 r) (\<lambda>(bytes, r). Inr (from_le bytes, r))"

definition read_u32 :: "u32 decoder" where
  "read_u32 r = rbind (read_bytes 4 r) (\<lambda>(bytes, r). Inr (from_le bytes, r))"

definition read_u64 :: "u64 decoder" where
  "read_u64 r = rbind (read_bytes 8 r) (\<lambda>(bytes, r). Inr (from_le bytes, r))"

definition read_i32 :: "i32 decoder" where
  "read_i32 r = rbind (read_bytes 4 r) (\<lambda>(bytes, r). Inr (from_le bytes, r))"

definition read_i64 :: "i64 decoder" where
  "read_i64 r = rbind (read_bytes 8 r) (\<lambda>(bytes, r). Inr (from_le bytes, r))"

text \<open>The loop \<open>for _ in 0..count { entries.push(decode(reader)?) }\<close>.\<close>

fun read_n :: "'a decoder \<Rightarrow> nat \<Rightarrow> 'a list decoder" where
  "read_n dec 0 r = Inr ([], r)"
| "read_n dec (Suc n) r =
     rbind (dec r) (\<lambda>(x, r). rbind (read_n dec n r) (\<lambda>(xs, r). Inr (x # xs, r)))"

text \<open>
  A count as \<open>u32\<close> followed by that many entries, and its encoding \<open>len as u32\<close>, entries.
\<close>

definition read_vec :: "'a decoder \<Rightarrow> 'a list decoder" where
  "read_vec dec r = rbind (read_u32 r) (\<lambda>(count, r). read_n dec (unat count) r)"

definition write_vec :: "('a \<Rightarrow> byte list) \<Rightarrow> 'a list \<Rightarrow> byte list" where
  "write_vec enc xs = le32 (word_of_nat (length xs)) @ concat (map enc xs)"

text \<open>The encoding of \<open>Option<u32>\<close> with \<open>u32::MAX\<close> for \<open>None\<close>.\<close>

definition unwrap_or_max :: "u32 option \<Rightarrow> u32" where
  "unwrap_or_max i = (case i of None \<Rightarrow> u32_MAX | Some v \<Rightarrow> v)"

definition max_to_none :: "u32 \<Rightarrow> u32 option" where
  "max_to_none v = (if v = u32_MAX then None else Some v)"

definition wf_opt :: "u32 option \<Rightarrow> bool" where
  "wf_opt i \<longleftrightarrow> i \<noteq> Some u32_MAX"

lemma max_to_none_unwrap [simp]: "wf_opt i \<Longrightarrow> max_to_none (unwrap_or_max i) = i"
  by (auto simp: max_to_none_def unwrap_or_max_def wf_opt_def split: option.splits)

section \<open>Reading what was written\<close>

text \<open>\<open>at pre rest\<close> is a reader that has consumed \<open>pre\<close> and has \<open>rest\<close> before it.\<close>

definition at :: "byte list \<Rightarrow> byte list \<Rightarrow> reader" where
  "at pre rest = \<lparr>rd_data = pre @ rest, rd_cursor = length pre\<rparr>"

lemma reader_new_at: "reader_new bytes = at [] bytes"
  by (simp add: reader_new_def at_def)

lemma reader_remaining_at [simp]: "reader_remaining (at pre rest) = length rest"
  by (simp add: reader_remaining_def at_def)

lemma reader_pos_at [simp]: "reader_pos (at pre rest) = length pre"
  by (simp add: reader_pos_def at_def)

lemma reader_as_at:
  assumes "rd_cursor r \<le> length (rd_data r)"
  shows "r = at (take (rd_cursor r) (rd_data r)) (drop (rd_cursor r) (rd_data r))"
  using assms by (cases r) (simp add: at_def min_def)

lemma read_bytes_at [codec_simps]:
  assumes "length bs = n"
  shows "read_bytes n (at pre (bs @ ys)) = Inr (bs, at (pre @ bs) ys)"
  using assms by (auto simp: read_bytes_def at_def)

lemma read_bytes_at_short:
  assumes "length ys < n"
  shows "read_bytes n (at pre ys) = Inl UnexpectedEof"
  using assms by (simp add: read_bytes_def at_def)

lemma read_u8_at [codec_simps]: "read_u8 (at pre (b # ys)) = Inr (b, at (pre @ [b]) ys)"
  using read_bytes_at [of "[b]" 1 pre ys] by (simp add: read_u8_def)

lemma read_u16_at [codec_simps]: "read_u16 (at pre (le16 w @ ys)) = Inr (w, at (pre @ le16 w) ys)"
  by (simp add: read_u16_def read_bytes_at)

lemma read_u32_at [codec_simps]: "read_u32 (at pre (le32 w @ ys)) = Inr (w, at (pre @ le32 w) ys)"
  by (simp add: read_u32_def read_bytes_at)

lemma read_u64_at [codec_simps]: "read_u64 (at pre (le64 w @ ys)) = Inr (w, at (pre @ le64 w) ys)"
  by (simp add: read_u64_def read_bytes_at)

lemma read_i32_at [codec_simps]: "read_i32 (at pre (le32 w @ ys)) = Inr (w, at (pre @ le32 w) ys)"
  by (simp add: read_i32_def read_bytes_at)

lemma read_i64_at [codec_simps]: "read_i64 (at pre (le64 w @ ys)) = Inr (w, at (pre @ le64 w) ys)"
  by (simp add: read_i64_def read_bytes_at)

section \<open>Decoders move forward inside the data\<close>

definition forward_ok :: "'a decoder \<Rightarrow> bool" where
  "forward_ok dec \<longleftrightarrow> (\<forall>r x r'. dec r = Inr (x, r') \<longrightarrow>
     rd_data r' = rd_data r \<and> rd_cursor r \<le> rd_cursor r' \<and>
     (rd_cursor r \<le> length (rd_data r) \<longrightarrow> rd_cursor r' \<le> length (rd_data r)))"

named_theorems forward_intros \<open>composition rules for \<open>forward_ok\<close>\<close>

lemma forward_ok_cong: "(\<And>r. dec r = dec' r) \<Longrightarrow> forward_ok dec' \<Longrightarrow> forward_ok dec"
  by (simp add: forward_ok_def)

lemma forward_ret [forward_intros]: "forward_ok (\<lambda>r. Inr (x, r))"
  by (simp add: forward_ok_def)

lemma forward_err [forward_intros]: "forward_ok (\<lambda>r. Inl e)"
  by (simp add: forward_ok_def)

lemma forward_bind [forward_intros]:
  assumes "forward_ok d" and "\<And>x. forward_ok (f x)"
  shows "forward_ok (\<lambda>r. rbind (d r) (\<lambda>(x, r). f x r))"
  unfolding forward_ok_def
proof (intro allI impI)
  fix r z r'
  assume "rbind (d r) (\<lambda>(x, r). f x r) = Inr (z, r')"
  then obtain x r1 where 1: "d r = Inr (x, r1)" "f x r1 = Inr (z, r')"
    by (auto simp: rbind_eq_Inr)
  with assms(1) have "rd_data r1 = rd_data r \<and> rd_cursor r \<le> rd_cursor r1 \<and>
      (rd_cursor r \<le> length (rd_data r) \<longrightarrow> rd_cursor r1 \<le> length (rd_data r))"
    unfolding forward_ok_def by blast
  moreover from 1(2) assms(2) have "rd_data r' = rd_data r1 \<and> rd_cursor r1 \<le> rd_cursor r' \<and>
      (rd_cursor r1 \<le> length (rd_data r1) \<longrightarrow> rd_cursor r' \<le> length (rd_data r1))"
    unfolding forward_ok_def by blast
  ultimately show "rd_data r' = rd_data r \<and> rd_cursor r \<le> rd_cursor r' \<and>
      (rd_cursor r \<le> length (rd_data r) \<longrightarrow> rd_cursor r' \<le> length (rd_data r))"
    by auto
qed

lemma forward_check [forward_intros]:
  "(\<And>x. forward_ok (f x)) \<Longrightarrow> forward_ok (\<lambda>r. rbind m (\<lambda>x. f x r))"
  by (cases m) (simp_all add: forward_ok_def)

lemma forward_if [forward_intros]:
  "forward_ok d \<Longrightarrow> forward_ok d' \<Longrightarrow> forward_ok (\<lambda>r. if c then d r else d' r)"
  by (simp add: forward_ok_def)

lemma forward_option [forward_intros]:
  "forward_ok d \<Longrightarrow> (\<And>x. forward_ok (f x)) \<Longrightarrow>
    forward_ok (\<lambda>r. case opt of None \<Rightarrow> d r | Some x \<Rightarrow> f x r)"
  by (cases opt) simp_all

lemma forward_read_bytes [forward_intros]: "forward_ok (read_bytes n)"
  by (auto simp: forward_ok_def read_bytes_def)

lemma forward_read_word [forward_intros]:
  "forward_ok read_u8" "forward_ok read_u16" "forward_ok read_u32"
  "forward_ok read_u64" "forward_ok read_i32" "forward_ok read_i64"
  by (rule forward_ok_cong, rule read_u8_def read_u16_def read_u32_def read_u64_def
      read_i32_def read_i64_def, intro forward_intros)+

lemma forward_read_n [forward_intros]:
  assumes "forward_ok dec"
  shows "forward_ok (read_n dec n)"
proof (induction n)
  case 0
  show ?case
    by (rule forward_ok_cong, rule read_n.simps, rule forward_ret)
next
  case (Suc n)
  show ?case
    by (rule forward_ok_cong, rule read_n.simps, intro forward_intros assms Suc)
qed

lemma forward_read_vec [forward_intros]: "forward_ok dec \<Longrightarrow> forward_ok (read_vec dec)"
  by (rule forward_ok_cong, rule read_vec_def, intro forward_intros)

section \<open>The codec interface\<close>

text \<open>
  A decoder promises to move only forward and inside the data (\<open>forward\<close>); an encoder with
  its decoder promises that what was encoded is read back (\<open>round\<close>) for well-formed values.
\<close>

definition wf_vec :: "('a \<Rightarrow> bool) \<Rightarrow> 'a list \<Rightarrow> bool" where
  "wf_vec ok xs \<longleftrightarrow> (\<forall>x\<in>set xs. ok x) \<and> length xs < 2 ^ 32"

locale decoder =
  fixes dec :: "'a decoder"
  assumes forward: "forward_ok dec"
begin

lemma within:
  assumes "dec (reader_new bytes) = Inr (x, r)"
  shows "rd_data r = bytes \<and> rd_cursor r \<le> length bytes"
  using forward [unfolded forward_ok_def, rule_format, OF assms] by (simp add: reader_new_def)

lemma read_n_length: "read_n dec n r = Inr (xs, r') \<Longrightarrow> length xs = n"
  by (induction n arbitrary: r xs) (auto simp: rbind_eq_Inr)

end

locale codec = decoder dec
  for dec :: "'a decoder" +
  fixes enc :: "'a \<Rightarrow> byte list"
    and wf :: "'a \<Rightarrow> bool"
  assumes round: "wf x \<Longrightarrow> dec (at pre (enc x @ ys)) = Inr (x, at (pre @ enc x) ys)"
begin

lemma enc_inj:
  assumes "wf x" and "wf y" and "enc x = enc y"
  shows "x = y"
  using round [OF assms(1), of "[]" "[]"] round [OF assms(2), of "[]" "[]"] assms(3) by simp

lemma read_n_round:
  "(\<forall>x\<in>set xs. wf x) \<Longrightarrow> n = length xs \<Longrightarrow>
    read_n dec n (at pre (concat (map enc xs) @ ys)) =
      Inr (xs, at (pre @ concat (map enc xs)) ys)"
  by (induction xs arbitrary: n pre) (auto simp: round)

lemma read_vec_round:
  assumes "\<forall>x\<in>set xs. wf x" and "length xs < 2 ^ 32"
  shows "read_vec dec (at pre (write_vec enc xs @ ys)) =
    Inr (xs, at (pre @ write_vec enc xs) ys)"
  using assms
  by (simp add: read_vec_def write_vec_def codec_simps read_n_round unat_of_nat)

lemma vec_at_start:
  assumes "wf_vec wf xs"
  shows "read_vec dec (reader_new (write_vec enc xs)) = Inr (xs, at (write_vec enc xs) [])"
  using read_vec_round [of xs "[]" "[]"] assms by (simp add: wf_vec_def reader_new_at)

lemma vec_codec:
  "codec (read_vec dec) (write_vec enc) (\<lambda>xs. (\<forall>x\<in>set xs. wf x) \<and> length xs < 2 ^ 32)"
  by unfold_locales (simp_all add: forward_read_vec forward read_vec_round)

end

interpretation u8: codec read_u8 "\<lambda>b. [b]" "\<lambda>_. True"
  by unfold_locales (simp_all add: codec_simps forward_intros)

interpretation u16: codec read_u16 le16 "\<lambda>_. True"
  by unfold_locales (simp_all add: codec_simps forward_intros)

interpretation u32: codec read_u32 le32 "\<lambda>_. True"
  by unfold_locales (simp_all add: codec_simps forward_intros)

interpretation i64: codec read_i64 le64 "\<lambda>_. True"
  by unfold_locales (simp_all add: codec_simps forward_intros)

interpretation u32s: codec "read_vec read_u32" "write_vec le32"
    "\<lambda>xs. (\<forall>x\<in>set xs. True) \<and> length xs < 2 ^ 32"
  by (rule u32.vec_codec)

interpretation i64s: codec "read_vec read_i64" "write_vec le64"
    "\<lambda>xs. (\<forall>x\<in>set xs. True) \<and> length xs < 2 ^ 32"
  by (rule i64.vec_codec)

end
