(* ===== verification/Bytecode_Types.thy ===== *)
theory Bytecode_Types
  imports Bytecode_Reader
begin

text \<open>
  The type table section: \<open>encode_type_entry\<close>, \<open>compute_type_offsets\<close> and
  \<open>encode_type_table\<close> of \<open>bytecode/encode.rs\<close>, \<open>decode_type_entry\<close> and
  \<open>decode_type_table\<close> of \<open>bytecode/decode.rs\<close>, and their round trips. The loop bodies of the
  source (a field, a dimension, a variant, a method) are definitions of their own.
\<close>

section \<open>Encoding\<close>

definition enc_field :: "field \<Rightarrow> byte list" where
  "enc_field f = le32 (fd_name_idx f) @ le32 (fd_type_id f)"

definition enc_dim :: "i64 \<times> i64 \<Rightarrow> byte list" where
  "enc_dim d = le64 (fst d) @ le64 (snd d)"

definition enc_variant :: "enum_variant \<Rightarrow> byte list" where
  "enc_variant v = le32 (ev_name_idx v) @ le64 (ev_value v)"

definition enc_interface_method :: "interface_method \<Rightarrow> byte list" where
  "enc_interface_method m = le32 (im_name_idx m) @ le32 (im_slot m)"

fun enc_type_data :: "type_data \<Rightarrow> byte list" where
  "enc_type_data (TdPrimitive prim_id max_length) = le16 prim_id @ le16 max_length"
| "enc_type_data (TdArray elem_type_id dims) = le32 elem_type_id @ write_vec enc_dim dims"
| "enc_type_data (TdStruct flds) = write_vec enc_field flds"
| "enc_type_data (TdUnion flds) = write_vec enc_field flds"
| "enc_type_data (TdEnum base_type_id variants) =
     le32 base_type_id @ write_vec enc_variant variants"
| "enc_type_data (TdAlias target_type_id) = le32 target_type_id"
| "enc_type_data (TdSubrange base_type_id lower upper) =
     le32 base_type_id @ le64 lower @ le64 upper"
| "enc_type_data (TdReference target_type_id) = le32 target_type_id"
| "enc_type_data (TdPou pou_id) = le32 pou_id"
| "enc_type_data (TdInterface methods) = write_vec enc_interface_method methods"

definition encode_type_entry :: "type_entry \<Rightarrow> byte list" where
  "encode_type_entry entry =
     [type_kind_raw (te_kind entry)] @ [0] @ le16 0 @ le32 (unwrap_or_max (te_name_idx entry)) @
     enc_type_data (te_data entry)"

definition saturating_add_u32 :: "u32 \<Rightarrow> u32 \<Rightarrow> u32" where
  "saturating_add_u32 a b = (if unat a + unat b < 2 ^ 32 then a + b else u32_MAX)"

fun offsets_from :: "u32 \<Rightarrow> byte list list \<Rightarrow> u32 list" where
  "offsets_from cursor [] = []"
| "offsets_from cursor (buf # bufs) =
     cursor # offsets_from (saturating_add_u32 cursor (word_of_nat (length buf))) bufs"

definition compute_type_offsets :: "byte list list \<Rightarrow> u32 list" where
  "compute_type_offsets entry_buffers =
     offsets_from (4 + word_of_nat (length entry_buffers) * 4) entry_buffers"

definition compute_type_offsets_for_entries :: "type_entry list \<Rightarrow> u32 list" where
  "compute_type_offsets_for_entries entries =
     compute_type_offsets (map encode_type_entry entries)"

definition encode_type_table :: "bytecode_version \<Rightarrow> type_table \<Rightarrow> byte list" where
  "encode_type_table version table =
     le32 (word_of_nat (length (tt_entries table))) @
     (if 1 \<le> v_minor version then
        (let entry_buffers = map encode_type_entry (tt_entries table);
             offsets = compute_type_offsets entry_buffers
         in concat (map le32 offsets) @ concat entry_buffers)
      else concat (map encode_type_entry (tt_entries table)))"

section \<open>Decoding\<close>

definition dec_field :: "field decoder" where
  "dec_field r =
     rbind (read_u32 r) (\<lambda>(name_idx, r).
     rbind (read_u32 r) (\<lambda>(type_id, r).
     Inr (\<lparr>fd_name_idx = name_idx, fd_type_id = type_id\<rparr>, r)))"

definition dec_dim :: "(i64 \<times> i64) decoder" where
  "dec_dim r =
     rbind (read_i64 r) (\<lambda>(lower, r).
     rbind (read_i64 r) (\<lambda>(upper, r).
     Inr ((lower, upper), r)))"

definition dec_variant :: "enum_variant decoder" where
  "dec_variant r =
     rbind (read_u32 r) (\<lambda>(name_idx, r).
     rbind (read_i64 r) (\<lambda>(value, r).
     Inr (\<lparr>ev_name_idx = name_idx, ev_value = value\<rparr>, r)))"

definition dec_interface_method :: "interface_method decoder" where
  "dec_interface_method r =
     rbind (read_u32 r) (\<lambda>(name_idx, r).
     rbind (read_u32 r) (\<lambda>(slot, r).
     Inr (\<lparr>im_name_idx = name_idx, im_slot = slot\<rparr>, r)))"

fun dec_type_data :: "type_kind \<Rightarrow> type_data decoder" where
  "dec_type_data TkPrimitive r =
     rbind (read_u16 r) (\<lambda>(prim_id, r).
     rbind (read_u16 r) (\<lambda>(max_length, r).
     Inr (TdPrimitive prim_id max_length, r)))"
| "dec_type_data TkArray r =
     rbind (read_u32 r) (\<lambda>(elem_type_id, r).
     rbind (read_vec dec_dim r) (\<lambda>(dims, r).
     Inr (TdArray elem_type_id dims, r)))"
| "dec_type_data TkStruct r =
     rbind (read_vec dec_field r) (\<lambda>(flds, r). Inr (TdStruct flds, r))"
| "dec_type_data TkEnum r =
     rbind (read_u32 r) (\<lambda>(base_type_id, r).
     rbind (read_vec dec_variant r) (\<lambda>(variants, r).
     Inr (TdEnum base_type_id variants, r)))"
| "dec_type_data TkAlias r =
     rbind (read_u32 r) (\<lambda>(target_type_id, r). Inr (TdAlias target_type_id, r))"
| "dec_type_data TkSubrange r =
     rbind (read_u32 r) (\<lambda>(base_type_id, r).
     rbind (read_i64 r) (\<lambda>(lower, r).
     rbind (read_i64 r) (\<lambda>(upper, r).
     Inr (TdSubrange base_type_id lower upper, r))))"
| "dec_type_data TkReference r =
     rbind (read_u32 r) (\<lambda>(target_type_id, r). Inr (TdReference target_type_id, r))"
| "dec_type_data TkUnion r =
     rbind (read_vec dec_field r) (\<lambda>(flds, r). Inr (TdUnion flds, r))"
| "dec_type_data TkFunctionBlock r =
     rbind (read_u32 r) (\<lambda>(pou_id, r). Inr (TdPou pou_id, r))"
| "dec_type_data TkClass r =
     rbind (read_u32 r) (\<lambda>(pou_id, r). Inr (TdPou pou_id, r))"
| "dec_type_data TkInterface r =
     rbind (read_vec dec_interface_method r) (\<lambda>(methods, r). Inr (TdInterface methods, r))"

definition decode_type_entry :: "type_entry decoder" where
  "decode_type_entry r =
     rbind (read_u8 r) (\<lambda>(kind, r).
     rbind (read_u8 r) (\<lambda>(flags, r).
     rbind (read_u16 r) (\<lambda>(reserved, r).
     rbind (read_u32 r) (\<lambda>(name_idx, r).
     rbind (ok_or (type_kind_from_raw kind) (InvalidSection ''invalid type kind'')) (\<lambda>kind.
     rbind (dec_type_data kind r) (\<lambda>(data, r).
     Inr (\<lparr>te_kind = kind, te_name_idx = max_to_none name_idx, te_data = data\<rparr>, r)))))))"

text \<open>
  The loop over the offset table: \<open>prev\<close> is the offset of the entry before, \<open>None\<close> for the
  first; the slice of an entry ends where the next one starts.
\<close>

fun decode_entries_at ::
    "byte list \<Rightarrow> nat \<Rightarrow> nat option \<Rightarrow> u32 list \<Rightarrow> bytecode_error + type_entry list" where
  "decode_entries_at payload base prev [] = Inr []"
| "decode_entries_at payload base prev (off # offsets) =
     (let offset = unat off;
          next = (case offsets of [] \<Rightarrow> length payload | o' # _ \<Rightarrow> unat o')
      in if offset < base \<or> length payload < offset \<or> length payload < next \<or> next < offset
         then Inl (InvalidSection ''type table offset out of bounds'')
         else if (case prev of None \<Rightarrow> False | Some p \<Rightarrow> offset < p)
         then Inl (InvalidSection ''type table offsets not sorted'')
         else
           rbind (decode_type_entry (reader_new (take (next - offset) (drop offset payload))))
             (\<lambda>(entry, r).
           rbind (guard (reader_remaining r = 0) (InvalidSection ''type entry length mismatch''))
             (\<lambda>_.
           rbind (decode_entries_at payload base (Some offset) offsets) (\<lambda>entries.
           Inr (entry # entries)))))"

definition decode_type_table ::
    "bytecode_version \<Rightarrow> byte list \<Rightarrow> bytecode_error + type_table" where
  "decode_type_table version payload =
     rbind (read_u32 (reader_new payload)) (\<lambda>(count, r).
     if 1 \<le> v_minor version then
       rbind (read_n read_u32 (unat count) r) (\<lambda>(offsets, r).
       rbind (decode_entries_at payload (reader_pos r) None offsets) (\<lambda>entries.
       Inr \<lparr>tt_offsets = offsets, tt_entries = entries\<rparr>))
     else
       rbind (read_n decode_type_entry (unat count) r) (\<lambda>(entries, r).
       Inr \<lparr>tt_offsets = [], tt_entries = entries\<rparr>))"

section \<open>Round trip of an entry\<close>

fun kind_matches :: "type_kind \<Rightarrow> type_data \<Rightarrow> bool" where
  "kind_matches k (TdPrimitive _ _) = (k = TkPrimitive)"
| "kind_matches k (TdArray _ _) = (k = TkArray)"
| "kind_matches k (TdStruct _) = (k = TkStruct)"
| "kind_matches k (TdEnum _ _) = (k = TkEnum)"
| "kind_matches k (TdAlias _) = (k = TkAlias)"
| "kind_matches k (TdSubrange _ _ _) = (k = TkSubrange)"
| "kind_matches k (TdReference _) = (k = TkReference)"
| "kind_matches k (TdUnion _) = (k = TkUnion)"
| "kind_matches k (TdPou _) = (k = TkFunctionBlock \<or> k = TkClass)"
| "kind_matches k (TdInterface _) = (k = TkInterface)"

fun type_data_len :: "type_data \<Rightarrow> nat" where
  "type_data_len (TdArray _ dims) = length dims"
| "type_data_len (TdStruct flds) = length flds"
| "type_data_len (TdUnion flds) = length flds"
| "type_data_len (TdEnum _ variants) = length variants"
| "type_data_len (TdInterface methods) = length methods"
| "type_data_len _ = 0"

text \<open>
  An entry that the format can express: the kind byte fits the payload, the name index is not
  the \<open>u32::MAX\<close> that stands for none, and the list fits its \<open>u32\<close> count.
\<close>

definition wf_type_entry :: "type_entry \<Rightarrow> bool" where
  "wf_type_entry e \<longleftrightarrow>
     kind_matches (te_kind e) (te_data e) \<and> wf_opt (te_name_idx e) \<and>
     type_data_len (te_data e) < 2 ^ 32"

interpretation field: codec dec_field enc_field "\<lambda>_. True"
proof unfold_locales
  show "forward_ok dec_field"
    by (rule forward_ok_cong, rule dec_field_def, intro forward_intros)
qed (simp add: dec_field_def enc_field_def codec_simps)

interpretation dim: codec dec_dim enc_dim "\<lambda>_. True"
proof unfold_locales
  show "forward_ok dec_dim"
    by (rule forward_ok_cong, rule dec_dim_def, intro forward_intros)
qed (simp add: dec_dim_def enc_dim_def codec_simps)

interpretation variant: codec dec_variant enc_variant "\<lambda>_. True"
proof unfold_locales
  show "forward_ok dec_variant"
    by (rule forward_ok_cong, rule dec_variant_def, intro forward_intros)
qed (simp add: dec_variant_def enc_variant_def codec_simps)

interpretation imethod: codec dec_interface_method enc_interface_method "\<lambda>_. True"
proof unfold_locales
  show "forward_ok dec_interface_method"
    by (rule forward_ok_cong, rule dec_interface_method_def, intro forward_intros)
qed (simp add: dec_interface_method_def enc_interface_method_def codec_simps)

lemma forward_dec_type_data [forward_intros]: "forward_ok (dec_type_data k)"
  by (cases k; (hypsubst, rule forward_ok_cong, rule dec_type_data.simps,
      intro forward_intros field.forward dim.forward variant.forward imethod.forward))

lemma dec_type_data_round [codec_simps]:
  assumes "kind_matches k d" and "type_data_len d < 2 ^ 32"
  shows "dec_type_data k (at pre (enc_type_data d @ ys)) = Inr (d, at (pre @ enc_type_data d) ys)"
  using assms
  by (cases d)
    (auto simp: codec_simps field.read_vec_round dim.read_vec_round variant.read_vec_round
      imethod.read_vec_round)

interpretation type_entry: codec decode_type_entry encode_type_entry wf_type_entry
proof unfold_locales
  show "forward_ok decode_type_entry"
    by (rule forward_ok_cong, rule decode_type_entry_def, intro forward_intros)
qed (simp add: decode_type_entry_def encode_type_entry_def wf_type_entry_def codec_simps)

section \<open>Round trip of the table\<close>

lemma unat_saturating_add:
  assumes "unat a + n < 2 ^ 32"
  shows "unat (saturating_add_u32 a (word_of_nat n)) = unat a + n"
proof -
  have "unat (word_of_nat n :: u32) = n"
    using assms by (simp add: unat_of_nat)
  with assms show ?thesis
    by (simp add: saturating_add_u32_def unat_word_ariths)
qed

lemma slice_middle:
  "take (length b) (drop (length a) (a @ b @ c)) = b"
  by simp

lemma decode_entries_at_round:
  assumes "\<forall>e\<in>set es. wf_type_entry e"
    and "length (pre @ concat (map encode_type_entry es)) < 2 ^ 32"
    and "unat c = length pre" and "base \<le> length pre"
    and "case prev of None \<Rightarrow> True | Some p \<Rightarrow> p \<le> length pre"
  shows "decode_entries_at (pre @ concat (map encode_type_entry es)) base prev
    (offsets_from c (map encode_type_entry es)) = Inr es"
  using assms
proof (induction es arbitrary: pre c prev)
  case Nil
  then show ?case by simp
next
  case (Cons e es)
  let ?b = "encode_type_entry e"
  let ?rest = "concat (map encode_type_entry es)"
  define c' where "c' = saturating_add_u32 c (word_of_nat (length ?b))"
  have c': "unat c' = length pre + length ?b"
    using Cons.prems(2,3) by (simp add: c'_def unat_saturating_add)
  have round: "decode_type_entry (reader_new ?b) = Inr (e, at ?b [])"
    using type_entry.round [of e "[]" "[]"] Cons.prems(1) by (simp add: reader_new_at)
  have IH: "decode_entries_at ((pre @ ?b) @ ?rest) base (Some (length pre))
      (offsets_from c' (map encode_type_entry es)) = Inr es"
    using Cons.prems c' by (intro Cons.IH) auto
  have next_off: "(case offsets_from c' (map encode_type_entry es) of
      [] \<Rightarrow> length (pre @ ?b @ ?rest) | o' # _ \<Rightarrow> unat o') = length pre + length ?b"
    using c' by (cases es) auto
  show ?case
    using IH next_off round Cons.prems(3,4,5)
    by (simp add: c'_def [symmetric] Let_def split: option.splits)
qed

lemma length_offsets_from [simp]: "length (offsets_from c bufs) = length bufs"
  by (induction bufs arbitrary: c) auto

lemma length_encode_type_entry: "8 \<le> length (encode_type_entry e)"
  by (simp add: encode_type_entry_def)

lemma length_concat_entries: "8 * length es \<le> length (concat (map encode_type_entry es))"
  using length_encode_type_entry by (induction es) (auto simp: add_mono)

lemma length_concat_le32 [simp]: "length (concat (map le32 xs)) = 4 * length xs"
  by (induction xs) auto

definition normal_type_table :: "bytecode_version \<Rightarrow> type_table \<Rightarrow> type_table" where
  "normal_type_table version table =
     \<lparr>tt_offsets =
        (if 1 \<le> v_minor version then compute_type_offsets_for_entries (tt_entries table) else []),
      tt_entries = tt_entries table\<rparr>"

definition wf_type_table :: "bytecode_version \<Rightarrow> type_table \<Rightarrow> bool" where
  "wf_type_table version table \<longleftrightarrow>
     (\<forall>e\<in>set (tt_entries table). wf_type_entry e) \<and>
     length (encode_type_table version table) < 2 ^ 32"

lemma type_table_round:
  assumes "wf_type_table version table"
  shows "decode_type_table version (encode_type_table version table) =
    Inr (normal_type_table version table)"
proof -
  let ?es = "tt_entries table"
  let ?bufs = "map encode_type_entry ?es"
  have wf: "\<forall>e\<in>set ?es. wf_type_entry e"
    and small: "length (encode_type_table version table) < 2 ^ 32"
    using assms by (auto simp: wf_type_table_def)
  have "length (concat ?bufs) \<le> length (encode_type_table version table)"
    by (simp add: encode_type_table_def Let_def)
  with small length_concat_entries [of ?es] have n: "length ?es < 2 ^ 32"
    by linarith
  have count: "unat (word_of_nat (length ?es) :: u32) = length ?es"
    using n by (simp add: unat_of_nat)
  show ?thesis
  proof (cases "1 \<le> v_minor version")
    case True
    let ?c = "4 + word_of_nat (length ?bufs) * 4 :: u32"
    let ?pre = "le32 (word_of_nat (length ?es)) @ concat (map le32 (offsets_from ?c ?bufs))"
    have enc: "encode_type_table version table = ?pre @ concat ?bufs"
      using True by (simp add: encode_type_table_def compute_type_offsets_def Let_def)
    have pre: "length ?pre = 4 + 4 * length ?es"
      by simp
    with small enc have "4 + 4 * length ?es < 2 ^ 32"
      by simp
    then have "unat (word_of_nat (4 + 4 * length ?es) :: u32) = 4 + 4 * length ?es"
      by (subst unat_of_nat) simp
    moreover have "?c = word_of_nat (4 + 4 * length ?es)"
      by simp
    ultimately have c: "unat ?c = length ?pre"
      unfolding pre by metis
    have "decode_entries_at (?pre @ concat ?bufs) (length ?pre) None (offsets_from ?c ?bufs) =
        Inr ?es"
      using small enc c wf by (intro decode_entries_at_round) auto
    with True show ?thesis
      by (simp add: enc decode_type_table_def reader_new_at codec_simps count u32.read_n_round
          normal_type_table_def compute_type_offsets_for_entries_def compute_type_offsets_def)
  next
    case False
    then show ?thesis
      using wf type_entry.read_n_round [of ?es "length ?es" "le32 (word_of_nat (length ?es))" "[]"]
      by (simp add: encode_type_table_def decode_type_table_def reader_new_at codec_simps count
          normal_type_table_def)
  qed
qed

end
