(* ===== verification/Bytecode_Sections.thy ===== *)
theory Bytecode_Sections
  imports Bytecode_Types
begin

text \<open>
  The remaining sections of the container: \<open>encode_section_data\<close> of \<open>bytecode/encode.rs\<close> and
  \<open>decode_section_data\<close>, \<open>decode_string_table\<close> of \<open>bytecode/decode.rs\<close>. Each kind of entry has
  an encoder, a decoder and an interpretation of the \<open>codec\<close> interface, so that a section's
  round trip is one application of the vector law.
\<close>

lemma read_bytes_3 [codec_simps]:
  "read_bytes 3 (at pre (a # b # c # ys)) = Inr ([a, b, c], at (pre @ [a, b, c]) ys)"
  using read_bytes_at [of "[a, b, c]" 3 pre ys] by simp

lemma unat_len [simp]: "n < 2 ^ 32 \<Longrightarrow> unat (word_of_nat n :: u32) = n"
  by (simp add: unat_of_nat)

section \<open>String table\<close>

definition enc_string :: "bytecode_version \<Rightarrow> rstr \<Rightarrow> byte list" where
  "enc_string version entry =
     (let bytes = as_bytes entry;
          out = le32 (word_of_nat (length bytes)) @ bytes;
          entry_len = 4 + length bytes;
          padded = align4 entry_len
      in if 1 \<le> v_minor version then pad_to out (length out + padded - entry_len) else out)"

definition dec_string :: "bytecode_version \<Rightarrow> rstr decoder" where
  "dec_string version r =
     rbind (read_u32 r) (\<lambda>(len, r).
     rbind (read_bytes (unat len) r) (\<lambda>(bytes, r).
     rbind (ok_or (from_utf8 bytes) (InvalidSection ''invalid utf-8'')) (\<lambda>str.
     if 1 \<le> v_minor version then
       let entry_len = 4 + unat len;
           padding = align4 entry_len - entry_len
       in if 0 < padding then rbind (read_bytes padding r) (\<lambda>(_, r). Inr (str, r))
          else Inr (str, r)
     else Inr (str, r))))"

definition decode_string_table :: "bytecode_version \<Rightarrow> string_table decoder" where
  "decode_string_table version r =
     rbind (read_vec (dec_string version) r) (\<lambda>(entries, r).
     Inr (\<lparr>st_entries = entries\<rparr>, r))"

definition wf_string :: "rstr \<Rightarrow> bool" where
  "wf_string s \<longleftrightarrow> wf_str s \<and> length s < 2 ^ 32"

lemma forward_dec_string [forward_intros]: "forward_ok (dec_string version)"
  unfolding dec_string_def Let_def by (rule forward_ok_cong, rule refl, intro forward_intros)

interpretation str: codec "dec_string version" "enc_string version" wf_string
proof unfold_locales
  fix s :: rstr and pre ys
  assume wf: "wf_string s"
  define k where "k = align4 (4 + length s) - (4 + length s)"
  have enc: "enc_string version s = le32 (word_of_nat (length s)) @ as_bytes s @
      (if 1 \<le> v_minor version then replicate k 0 else [])"
    using align4_bounds(1) [of "4 + length s"]
    by (auto simp: enc_string_def Let_def pad_to_def k_def)
  have "k = 0" if "\<not> 4 + length s < align4 (4 + length s)"
    using that by (simp add: k_def)
  then show "dec_string version (at pre (enc_string version s @ ys)) =
      Inr (s, at (pre @ enc_string version s) ys)"
    using wf unfolding enc
    by (auto simp: dec_string_def Let_def codec_simps wf_string_def from_utf8_as_bytes
        k_def [symmetric])
qed (rule forward_dec_string)

section \<open>Constant pool\<close>

definition enc_const :: "const_entry \<Rightarrow> byte list" where
  "enc_const entry =
     le32 (ce_type_id entry) @ le32 (word_of_nat (length (ce_payload entry))) @ ce_payload entry"

definition dec_const :: "const_entry decoder" where
  "dec_const r =
     rbind (read_u32 r) (\<lambda>(type_id, r).
     rbind (read_u32 r) (\<lambda>(len, r).
     rbind (read_bytes (unat len) r) (\<lambda>(payload, r).
     Inr (\<lparr>ce_type_id = type_id, ce_payload = payload\<rparr>, r))))"

interpretation const: codec dec_const enc_const "\<lambda>e. length (ce_payload e) < 2 ^ 32"
proof unfold_locales
  show "forward_ok dec_const"
    by (rule forward_ok_cong, rule dec_const_def, intro forward_intros)
qed (simp add: dec_const_def enc_const_def codec_simps)

section \<open>Reference table\<close>

fun enc_segment :: "ref_segment \<Rightarrow> byte list" where
  "enc_segment (SegIndex indices) = [0] @ [0, 0, 0] @ write_vec le64 indices"
| "enc_segment (SegField name_idx) = [1] @ [0, 0, 0] @ le32 name_idx"

definition dec_segment :: "ref_segment decoder" where
  "dec_segment r =
     rbind (read_u8 r) (\<lambda>(kind, r).
     rbind (read_bytes 3 r) (\<lambda>(reserved, r).
     if kind = 0 then
       rbind (read_vec read_i64 r) (\<lambda>(indices, r). Inr (SegIndex indices, r))
     else if kind = 1 then
       rbind (read_u32 r) (\<lambda>(name_idx, r). Inr (SegField name_idx, r))
     else Inl (InvalidSection ''invalid ref segment'')))"

fun wf_segment :: "ref_segment \<Rightarrow> bool" where
  "wf_segment (SegIndex indices) = (length indices < 2 ^ 32)"
| "wf_segment (SegField _) = True"

interpretation segment: codec dec_segment enc_segment wf_segment
proof unfold_locales
  show "forward_ok dec_segment"
    by (rule forward_ok_cong, rule dec_segment_def, intro forward_intros)
next
  fix s pre ys
  assume "wf_segment s"
  then show "dec_segment (at pre (enc_segment s @ ys)) = Inr (s, at (pre @ enc_segment s) ys)"
    by (cases s) (simp_all add: dec_segment_def codec_simps i64.read_vec_round)
qed

definition enc_ref :: "ref_entry \<Rightarrow> byte list" where
  "enc_ref entry =
     [ref_location_raw (re_location entry)] @ [0] @ le16 0 @ le32 (re_owner_id entry) @
     le32 (re_offset entry) @ write_vec enc_segment (re_segments entry)"

definition dec_ref :: "ref_entry decoder" where
  "dec_ref r =
     rbind (read_u8 r) (\<lambda>(location, r).
     rbind (read_u8 r) (\<lambda>(flags, r).
     rbind (read_u16 r) (\<lambda>(reserved, r).
     rbind (read_u32 r) (\<lambda>(owner_id, r).
     rbind (read_u32 r) (\<lambda>(off, r).
     rbind (read_u32 r) (\<lambda>(segment_count, r).
     rbind (ok_or (ref_location_from_raw location) (InvalidSection ''invalid ref location''))
       (\<lambda>location.
     rbind (read_n dec_segment (unat segment_count) r) (\<lambda>(segments, r).
     Inr (\<lparr>re_location = location, re_owner_id = owner_id, re_offset = off,
           re_segments = segments\<rparr>, r)))))))))"

definition wf_ref :: "ref_entry \<Rightarrow> bool" where
  "wf_ref e \<longleftrightarrow> (\<forall>s\<in>set (re_segments e). wf_segment s) \<and> length (re_segments e) < 2 ^ 32"

interpretation refentry: codec dec_ref enc_ref wf_ref
proof unfold_locales
  show "forward_ok dec_ref"
    by (rule forward_ok_cong, rule dec_ref_def, intro forward_intros segment.forward)
qed (simp add: dec_ref_def enc_ref_def wf_ref_def write_vec_def codec_simps segment.read_n_round)

section \<open>Program organisation units\<close>

definition enc_param :: "bytecode_version \<Rightarrow> param_entry \<Rightarrow> byte list" where
  "enc_param version param =
     le32 (pa_name_idx param) @ le32 (pa_type_id param) @ [pa_direction param] @ [0] @ le16 0 @
     (if 1 \<le> v_minor version then le32 (unwrap_or_max (pa_default_const_idx param)) else [])"

definition dec_param :: "bytecode_version \<Rightarrow> param_entry decoder" where
  "dec_param version r =
     rbind (read_u32 r) (\<lambda>(name_idx, r).
     rbind (read_u32 r) (\<lambda>(type_id, r).
     rbind (read_u8 r) (\<lambda>(direction, r).
     rbind (read_u8 r) (\<lambda>(flags, r).
     rbind (read_u16 r) (\<lambda>(reserved, r).
     if 1 \<le> v_minor version then
       rbind (read_u32 r) (\<lambda>(idx, r).
       Inr (\<lparr>pa_name_idx = name_idx, pa_type_id = type_id, pa_direction = direction,
             pa_default_const_idx = max_to_none idx\<rparr>, r))
     else
       Inr (\<lparr>pa_name_idx = name_idx, pa_type_id = type_id, pa_direction = direction,
             pa_default_const_idx = None\<rparr>, r))))))"

definition wf_param :: "bytecode_version \<Rightarrow> param_entry \<Rightarrow> bool" where
  "wf_param version p \<longleftrightarrow> wf_opt (pa_default_const_idx p) \<and>
     (\<not> 1 \<le> v_minor version \<longrightarrow> pa_default_const_idx p = None)"

interpretation param: codec "dec_param version" "enc_param version" "wf_param version"
proof unfold_locales
  show "forward_ok (dec_param version)"
    by (rule forward_ok_cong, rule dec_param_def, intro forward_intros)
qed (auto simp: dec_param_def enc_param_def wf_param_def codec_simps)

definition enc_interface_impl :: "interface_impl \<Rightarrow> byte list" where
  "enc_interface_impl i =
     le32 (ii_interface_type_id i) @ write_vec le32 (ii_vtable_slots i)"

definition dec_interface_impl :: "interface_impl decoder" where
  "dec_interface_impl r =
     rbind (read_u32 r) (\<lambda>(interface_type_id, r).
     rbind (read_vec read_u32 r) (\<lambda>(vtable_slots, r).
     Inr (\<lparr>ii_interface_type_id = interface_type_id, ii_vtable_slots = vtable_slots\<rparr>, r)))"

interpretation iface: codec dec_interface_impl enc_interface_impl
  "\<lambda>i. length (ii_vtable_slots i) < 2 ^ 32"
proof unfold_locales
  show "forward_ok dec_interface_impl"
    by (rule forward_ok_cong, rule dec_interface_impl_def, intro forward_intros)
qed (simp add: dec_interface_impl_def enc_interface_impl_def codec_simps u32.read_vec_round)

definition enc_method :: "method_entry \<Rightarrow> byte list" where
  "enc_method m =
     le32 (me_name_idx m) @ le32 (me_pou_id m) @ le32 (me_vtable_slot m) @ [me_access m] @
     [me_flags m] @ le16 0"

definition dec_method :: "method_entry decoder" where
  "dec_method r =
     rbind (read_u32 r) (\<lambda>(name_idx, r).
     rbind (read_u32 r) (\<lambda>(pou_id, r).
     rbind (read_u32 r) (\<lambda>(vtable_slot, r).
     rbind (read_u8 r) (\<lambda>(access, r).
     rbind (read_u8 r) (\<lambda>(flags, r).
     rbind (read_u16 r) (\<lambda>(reserved, r).
     Inr (\<lparr>me_name_idx = name_idx, me_pou_id = pou_id, me_vtable_slot = vtable_slot,
           me_access = access, me_flags = flags\<rparr>, r)))))))"

interpretation meth: codec dec_method enc_method "\<lambda>_. True"
proof unfold_locales
  show "forward_ok dec_method"
    by (rule forward_ok_cong, rule dec_method_def, intro forward_intros)
qed (simp add: dec_method_def enc_method_def codec_simps)

definition enc_class_meta :: "pou_class_meta \<Rightarrow> byte list" where
  "enc_class_meta meta =
     le32 (unwrap_or_max (cm_parent_pou_id meta)) @
     write_vec enc_interface_impl (cm_interfaces meta) @
     write_vec enc_method (cm_methods meta)"

definition dec_class_meta :: "pou_class_meta decoder" where
  "dec_class_meta r =
     rbind (read_u32 r) (\<lambda>(parent_pou_id, r).
     rbind (read_vec dec_interface_impl r) (\<lambda>(interfaces, r).
     rbind (read_vec dec_method r) (\<lambda>(methods, r).
     Inr (\<lparr>cm_parent_pou_id = max_to_none parent_pou_id, cm_interfaces = interfaces,
           cm_methods = methods\<rparr>, r))))"

definition wf_class_meta :: "pou_class_meta \<Rightarrow> bool" where
  "wf_class_meta m \<longleftrightarrow> wf_opt (cm_parent_pou_id m) \<and>
     (\<forall>i\<in>set (cm_interfaces m). length (ii_vtable_slots i) < 2 ^ 32) \<and>
     length (cm_interfaces m) < 2 ^ 32 \<and> length (cm_methods m) < 2 ^ 32"

interpretation class_meta: codec dec_class_meta enc_class_meta wf_class_meta
proof unfold_locales
  show "forward_ok dec_class_meta"
    by (rule forward_ok_cong, rule dec_class_meta_def,
        intro forward_intros iface.forward meth.forward)
qed (simp add: dec_class_meta_def enc_class_meta_def wf_class_meta_def codec_simps
      iface.read_vec_round meth.read_vec_round)

definition enc_pou :: "bytecode_version \<Rightarrow> pou_entry \<Rightarrow> byte list" where
  "enc_pou version entry =
     le32 (pe_id entry) @ le32 (pe_name_idx entry) @ [pou_kind_raw (pe_kind entry)] @ [0] @
     le16 0 @ le32 (pe_code_offset entry) @ le32 (pe_code_length entry) @
     le32 (pe_local_ref_start entry) @ le32 (pe_local_ref_count entry) @
     le32 (unwrap_or_max (pe_return_type_id entry)) @
     le32 (unwrap_or_max (pe_owner_pou_id entry)) @
     write_vec (enc_param version) (pe_params entry) @
     (case pe_class_meta entry of
        Some meta \<Rightarrow> enc_class_meta meta
      | None \<Rightarrow> if is_class_like (pe_kind entry) then le32 u32_MAX @ le32 0 @ le32 0 else [])"

definition dec_pou :: "bytecode_version \<Rightarrow> pou_entry decoder" where
  "dec_pou version r =
     rbind (read_u32 r) (\<lambda>(id, r).
     rbind (read_u32 r) (\<lambda>(name_idx, r).
     rbind (read_u8 r) (\<lambda>(kind, r).
     rbind (read_u8 r) (\<lambda>(flags, r).
     rbind (read_u16 r) (\<lambda>(reserved, r).
     rbind (read_u32 r) (\<lambda>(code_offset, r).
     rbind (read_u32 r) (\<lambda>(code_length, r).
     rbind (read_u32 r) (\<lambda>(local_ref_start, r).
     rbind (read_u32 r) (\<lambda>(local_ref_count, r).
     rbind (read_u32 r) (\<lambda>(return_type_id, r).
     rbind (read_u32 r) (\<lambda>(owner_pou_id, r).
     rbind (read_u32 r) (\<lambda>(param_count, r).
     rbind (ok_or (pou_kind_from_raw kind) (InvalidSection ''invalid pou kind'')) (\<lambda>kind.
     rbind (read_n (dec_param version) (unat param_count) r) (\<lambda>(params, r).
     rbind (if is_class_like kind
            then rbind (dec_class_meta r) (\<lambda>(meta, r). Inr (Some meta, r))
            else Inr (None, r)) (\<lambda>(class_meta, r).
     Inr (\<lparr>pe_id = id, pe_name_idx = name_idx, pe_kind = kind, pe_code_offset = code_offset,
           pe_code_length = code_length, pe_local_ref_start = local_ref_start,
           pe_local_ref_count = local_ref_count, pe_return_type_id = max_to_none return_type_id,
           pe_owner_pou_id = max_to_none owner_pou_id, pe_params = params,
           pe_class_meta = class_meta\<rparr>, r))))))))))))))))"

text \<open>
  A unit the format can express. Class metadata is written whenever it is present but read
  only for function blocks and classes, so other kinds must not carry it.
\<close>

definition wf_pou :: "bytecode_version \<Rightarrow> pou_entry \<Rightarrow> bool" where
  "wf_pou version e \<longleftrightarrow>
     wf_opt (pe_return_type_id e) \<and> wf_opt (pe_owner_pou_id e) \<and>
     (\<forall>p\<in>set (pe_params e). wf_param version p) \<and> length (pe_params e) < 2 ^ 32 \<and>
     (case pe_class_meta e of
        Some meta \<Rightarrow> is_class_like (pe_kind e) \<and> wf_class_meta meta
      | None \<Rightarrow> \<not> is_class_like (pe_kind e))"

lemma forward_dec_pou: "forward_ok (dec_pou version)"
  by (rule forward_ok_cong, rule dec_pou_def,
      intro forward_intros param.forward class_meta.forward)

interpretation pou: codec "dec_pou version" "enc_pou version" "wf_pou version"
proof unfold_locales
  fix e pre ys
  assume "wf_pou version e"
  then show "dec_pou version (at pre (enc_pou version e @ ys)) =
      Inr (e, at (pre @ enc_pou version e) ys)"
    by (cases "pe_class_meta e")
      (simp_all add: dec_pou_def enc_pou_def wf_pou_def write_vec_def codec_simps
        param.read_n_round class_meta.round)
qed (rule forward_dec_pou)

section \<open>Resources, I/O bindings, debug map, variables and retained initial values\<close>

definition enc_task :: "task_entry \<Rightarrow> byte list" where
  "enc_task t =
     le32 (tk_name_idx t) @ le32 (tk_priority t) @ le64 (tk_interval_nanos t) @
     le32 (unwrap_or_max (tk_single_name_idx t)) @ write_vec le32 (tk_program_name_idx t) @
     write_vec le32 (tk_fb_ref_idx t)"

definition dec_task :: "task_entry decoder" where
  "dec_task r =
     rbind (read_u32 r) (\<lambda>(name_idx, r).
     rbind (read_u32 r) (\<lambda>(priority, r).
     rbind (read_i64 r) (\<lambda>(interval_nanos, r).
     rbind (read_u32 r) (\<lambda>(single_name_idx, r).
     rbind (read_vec read_u32 r) (\<lambda>(program_name_idx, r).
     rbind (read_vec read_u32 r) (\<lambda>(fb_ref_idx, r).
     Inr (\<lparr>tk_name_idx = name_idx, tk_priority = priority, tk_interval_nanos = interval_nanos,
           tk_single_name_idx = max_to_none single_name_idx,
           tk_program_name_idx = program_name_idx, tk_fb_ref_idx = fb_ref_idx\<rparr>, r)))))))"

definition wf_task :: "task_entry \<Rightarrow> bool" where
  "wf_task t \<longleftrightarrow> wf_opt (tk_single_name_idx t) \<and> length (tk_program_name_idx t) < 2 ^ 32 \<and>
     length (tk_fb_ref_idx t) < 2 ^ 32"

interpretation task: codec dec_task enc_task wf_task
proof unfold_locales
  show "forward_ok dec_task"
    by (rule forward_ok_cong, rule dec_task_def, intro forward_intros)
qed (simp add: dec_task_def enc_task_def wf_task_def codec_simps u32.read_vec_round)

definition enc_resource :: "resource_entry \<Rightarrow> byte list" where
  "enc_resource res =
     le32 (rs_name_idx res) @ le32 (rs_inputs_size res) @ le32 (rs_outputs_size res) @
     le32 (rs_memory_size res) @ write_vec enc_task (rs_tasks res)"

definition dec_resource :: "resource_entry decoder" where
  "dec_resource r =
     rbind (read_u32 r) (\<lambda>(name_idx, r).
     rbind (read_u32 r) (\<lambda>(inputs_size, r).
     rbind (read_u32 r) (\<lambda>(outputs_size, r).
     rbind (read_u32 r) (\<lambda>(memory_size, r).
     rbind (read_vec dec_task r) (\<lambda>(tasks, r).
     Inr (\<lparr>rs_name_idx = name_idx, rs_inputs_size = inputs_size,
           rs_outputs_size = outputs_size, rs_memory_size = memory_size,
           rs_tasks = tasks\<rparr>, r))))))"

definition wf_resource :: "resource_entry \<Rightarrow> bool" where
  "wf_resource res \<longleftrightarrow> (\<forall>t\<in>set (rs_tasks res). wf_task t) \<and> length (rs_tasks res) < 2 ^ 32"

interpretation resource: codec dec_resource enc_resource wf_resource
proof unfold_locales
  show "forward_ok dec_resource"
    by (rule forward_ok_cong, rule dec_resource_def, intro forward_intros task.forward)
qed (simp add: dec_resource_def enc_resource_def wf_resource_def codec_simps
      task.read_vec_round)

definition enc_binding :: "io_binding \<Rightarrow> byte list" where
  "enc_binding b =
     le32 (ib_address_str_idx b) @ le32 (ib_ref_idx b) @ le32 (unwrap_or_max (ib_type_id b))"

definition dec_binding :: "io_binding decoder" where
  "dec_binding r =
     rbind (read_u32 r) (\<lambda>(address_str_idx, r).
     rbind (read_u32 r) (\<lambda>(ref_idx, r).
     rbind (read_u32 r) (\<lambda>(type_id, r).
     Inr (\<lparr>ib_address_str_idx = address_str_idx, ib_ref_idx = ref_idx,
           ib_type_id = max_to_none type_id\<rparr>, r))))"

interpretation binding: codec dec_binding enc_binding "\<lambda>b. wf_opt (ib_type_id b)"
proof unfold_locales
  show "forward_ok dec_binding"
    by (rule forward_ok_cong, rule dec_binding_def, intro forward_intros)
qed (simp add: dec_binding_def enc_binding_def codec_simps)

definition enc_debug :: "debug_entry \<Rightarrow> byte list" where
  "enc_debug e =
     le32 (de_pou_id e) @ le32 (de_code_offset e) @ le32 (de_file_idx e) @ le32 (de_line e) @
     le32 (de_column e) @ [de_kind e] @ [0, 0, 0]"

definition dec_debug :: "debug_entry decoder" where
  "dec_debug r =
     rbind (read_u32 r) (\<lambda>(pou_id, r).
     rbind (read_u32 r) (\<lambda>(code_offset, r).
     rbind (read_u32 r) (\<lambda>(file_idx, r).
     rbind (read_u32 r) (\<lambda>(line, r).
     rbind (read_u32 r) (\<lambda>(column, r).
     rbind (read_u8 r) (\<lambda>(kind, r).
     rbind (read_bytes 3 r) (\<lambda>(reserved, r).
     Inr (\<lparr>de_pou_id = pou_id, de_code_offset = code_offset, de_file_idx = file_idx,
           de_line = line, de_column = column, de_kind = kind\<rparr>, r))))))))"

interpretation debug: codec dec_debug enc_debug "\<lambda>_. True"
proof unfold_locales
  show "forward_ok dec_debug"
    by (rule forward_ok_cong, rule dec_debug_def, intro forward_intros)
qed (simp add: dec_debug_def enc_debug_def codec_simps)

definition enc_var_meta :: "var_meta_entry \<Rightarrow> byte list" where
  "enc_var_meta e =
     le32 (vm_name_idx e) @ le32 (vm_type_id e) @ le32 (vm_ref_idx e) @ [vm_retain e] @ [0] @
     le16 0 @ le32 (unwrap_or_max (vm_init_const_idx e))"

definition dec_var_meta :: "var_meta_entry decoder" where
  "dec_var_meta r =
     rbind (read_u32 r) (\<lambda>(name_idx, r).
     rbind (read_u32 r) (\<lambda>(type_id, r).
     rbind (read_u32 r) (\<lambda>(ref_idx, r).
     rbind (read_u8 r) (\<lambda>(retain, r).
     rbind (read_u8 r) (\<lambda>(flags, r).
     rbind (read_u16 r) (\<lambda>(reserved, r).
     rbind (read_u32 r) (\<lambda>(init_const_idx, r).
     Inr (\<lparr>vm_name_idx = name_idx, vm_type_id = type_id, vm_ref_idx = ref_idx,
           vm_retain = retain, vm_init_const_idx = max_to_none init_const_idx\<rparr>, r))))))))"

interpretation var_meta: codec dec_var_meta enc_var_meta "\<lambda>e. wf_opt (vm_init_const_idx e)"
proof unfold_locales
  show "forward_ok dec_var_meta"
    by (rule forward_ok_cong, rule dec_var_meta_def, intro forward_intros)
qed (simp add: dec_var_meta_def enc_var_meta_def codec_simps)

definition enc_retain_init :: "retain_init_entry \<Rightarrow> byte list" where
  "enc_retain_init e = le32 (ri_ref_idx e) @ le32 (ri_const_idx e)"

definition dec_retain_init :: "retain_init_entry decoder" where
  "dec_retain_init r =
     rbind (read_u32 r) (\<lambda>(ref_idx, r).
     rbind (read_u32 r) (\<lambda>(const_idx, r).
     Inr (\<lparr>ri_ref_idx = ref_idx, ri_const_idx = const_idx\<rparr>, r)))"

interpretation retain_init: codec dec_retain_init enc_retain_init "\<lambda>_. True"
proof unfold_locales
  show "forward_ok dec_retain_init"
    by (rule forward_ok_cong, rule dec_retain_init_def, intro forward_intros)
qed (simp add: dec_retain_init_def enc_retain_init_def codec_simps)

section \<open>Section data\<close>

fun encode_section_data :: "bytecode_version \<Rightarrow> section_data \<Rightarrow> byte list" where
  "encode_section_data version (SecStringTable table) =
     write_vec (enc_string version) (st_entries table)"
| "encode_section_data version (SecDebugStringTable table) =
     write_vec (enc_string version) (st_entries table)"
| "encode_section_data version (SecTypeTable table) = encode_type_table version table"
| "encode_section_data version (SecConstPool pool) = write_vec enc_const (cp_entries pool)"
| "encode_section_data version (SecRefTable table) = write_vec enc_ref (rt_entries table)"
| "encode_section_data version (SecPouIndex index) =
     write_vec (enc_pou version) (pi_entries index)"
| "encode_section_data version (SecPouBodies bodies) = bodies"
| "encode_section_data version (SecResourceMeta meta) =
     write_vec enc_resource (rm_resources meta)"
| "encode_section_data version (SecIoMap io) = write_vec enc_binding (io_bindings io)"
| "encode_section_data version (SecDebugMap dm) = write_vec enc_debug (dm_entries dm)"
| "encode_section_data version (SecVarMeta meta) = write_vec enc_var_meta (vt_entries meta)"
| "encode_section_data version (SecRetainInit retain) =
     write_vec enc_retain_init (rn_entries retain)"
| "encode_section_data version (SecRaw raw) = raw"

definition decode_section_data ::
    "bytecode_version \<Rightarrow> u16 \<Rightarrow> byte list \<Rightarrow> bytecode_error + section_data" where
  "decode_section_data version i payload =
     (let r = reader_new payload in
      case section_id_from_raw i of
        None \<Rightarrow> Inr (SecRaw payload)
      | Some SidStringTable \<Rightarrow>
          rbind (decode_string_table version r) (\<lambda>(table, _). Inr (SecStringTable table))
      | Some SidDebugStringTable \<Rightarrow>
          rbind (decode_string_table version r) (\<lambda>(table, _). Inr (SecDebugStringTable table))
      | Some SidTypeTable \<Rightarrow>
          rbind (decode_type_table version payload) (\<lambda>table. Inr (SecTypeTable table))
      | Some SidConstPool \<Rightarrow>
          rbind (read_vec dec_const r) (\<lambda>(entries, _). Inr (SecConstPool \<lparr>cp_entries = entries\<rparr>))
      | Some SidRefTable \<Rightarrow>
          rbind (read_vec dec_ref r) (\<lambda>(entries, _). Inr (SecRefTable \<lparr>rt_entries = entries\<rparr>))
      | Some SidPouIndex \<Rightarrow>
          rbind (read_vec (dec_pou version) r) (\<lambda>(entries, _).
          Inr (SecPouIndex \<lparr>pi_entries = entries\<rparr>))
      | Some SidPouBodies \<Rightarrow> Inr (SecPouBodies payload)
      | Some SidResourceMeta \<Rightarrow>
          rbind (read_vec dec_resource r) (\<lambda>(resources, _).
          Inr (SecResourceMeta \<lparr>rm_resources = resources\<rparr>))
      | Some SidIoMap \<Rightarrow>
          rbind (read_vec dec_binding r) (\<lambda>(bindings, _).
          Inr (SecIoMap \<lparr>io_bindings = bindings\<rparr>))
      | Some SidDebugMap \<Rightarrow>
          rbind (read_vec dec_debug r) (\<lambda>(entries, _). Inr (SecDebugMap \<lparr>dm_entries = entries\<rparr>))
      | Some SidVarMeta \<Rightarrow>
          rbind (read_vec dec_var_meta r) (\<lambda>(entries, _).
          Inr (SecVarMeta \<lparr>vt_entries = entries\<rparr>))
      | Some SidRetainInit \<Rightarrow>
          rbind (read_vec dec_retain_init r) (\<lambda>(entries, _).
          Inr (SecRetainInit \<lparr>rn_entries = entries\<rparr>)))"

text \<open>
  \<open>wf_section_data v i d\<close>: the data \<open>d\<close> belongs under the section identifier \<open>i\<close> and the
  format of version \<open>v\<close> can express it; \<open>normal_section_data\<close> is what decoding returns: the
  value itself, except that the offsets of a type table are recomputed by the encoder.
\<close>

fun wf_section_data :: "bytecode_version \<Rightarrow> u16 \<Rightarrow> section_data \<Rightarrow> bool" where
  "wf_section_data v i (SecStringTable t) =
     (i = section_id_as_raw SidStringTable \<and> wf_vec wf_string (st_entries t))"
| "wf_section_data v i (SecDebugStringTable t) =
     (i = section_id_as_raw SidDebugStringTable \<and> wf_vec wf_string (st_entries t))"
| "wf_section_data v i (SecTypeTable t) =
     (i = section_id_as_raw SidTypeTable \<and> wf_type_table v t)"
| "wf_section_data v i (SecConstPool p) =
     (i = section_id_as_raw SidConstPool \<and>
      wf_vec (\<lambda>e. length (ce_payload e) < 2 ^ 32) (cp_entries p))"
| "wf_section_data v i (SecRefTable t) =
     (i = section_id_as_raw SidRefTable \<and> wf_vec wf_ref (rt_entries t))"
| "wf_section_data v i (SecPouIndex x) =
     (i = section_id_as_raw SidPouIndex \<and> wf_vec (wf_pou v) (pi_entries x))"
| "wf_section_data v i (SecPouBodies b) = (i = section_id_as_raw SidPouBodies)"
| "wf_section_data v i (SecResourceMeta m) =
     (i = section_id_as_raw SidResourceMeta \<and> wf_vec wf_resource (rm_resources m))"
| "wf_section_data v i (SecIoMap m) =
     (i = section_id_as_raw SidIoMap \<and> wf_vec (\<lambda>b. wf_opt (ib_type_id b)) (io_bindings m))"
| "wf_section_data v i (SecDebugMap m) =
     (i = section_id_as_raw SidDebugMap \<and> wf_vec (\<lambda>_. True) (dm_entries m))"
| "wf_section_data v i (SecVarMeta m) =
     (i = section_id_as_raw SidVarMeta \<and>
      wf_vec (\<lambda>e. wf_opt (vm_init_const_idx e)) (vt_entries m))"
| "wf_section_data v i (SecRetainInit n) =
     (i = section_id_as_raw SidRetainInit \<and> wf_vec (\<lambda>_. True) (rn_entries n))"
| "wf_section_data v i (SecRaw raw) = (section_id_from_raw i = None)"

definition normal_section_data :: "bytecode_version \<Rightarrow> section_data \<Rightarrow> section_data" where
  "normal_section_data v d =
     (case d of SecTypeTable t \<Rightarrow> SecTypeTable (normal_type_table v t) | _ \<Rightarrow> d)"


lemma section_data_round:
  assumes "wf_section_data v i d"
  shows "decode_section_data v i (encode_section_data v d) = Inr (normal_section_data v d)"
  using assms
  by (cases d)
    (simp_all add: decode_section_data_def normal_section_data_def decode_string_table_def
      str.vec_at_start type_table_round const.vec_at_start refentry.vec_at_start
      pou.vec_at_start resource.vec_at_start binding.vec_at_start debug.vec_at_start
      var_meta.vec_at_start retain_init.vec_at_start Let_def
      del: section_id_as_raw.simps)

end
