(* ===== verification/Bytecode_Container.thy ===== *)
theory Bytecode_Container
  imports Bytecode_Sections "HOL-Library.Multiset"
begin

text \<open>
  The container: \<open>BytecodeModule::encode\<close> (\<open>bytecode/encode.rs\<close>), \<open>BytecodeModule::decode\<close>
  and \<open>validate_section_entries\<close> (\<open>bytecode/decode.rs\<close>). The checksum function of the
  \<open>crc32fast\<close> package is the parameter \<open>crc\<close>. The theory shows that a module that the format
  can express is read back, and what a successful decoding says about the bytes.
\<close>

section \<open>Encoding\<close>

type_synonym payload = "u16 \<times> u16 \<times> byte list"

definition section_payload :: "bytecode_version \<Rightarrow> section_rec \<Rightarrow> payload" where
  "section_payload version s =
     (sc_id s, sc_flags s, encode_section_data version (sc_data s))"

fun section_entries :: "nat \<Rightarrow> payload list \<Rightarrow> section_entry list" where
  "section_entries offset [] = []"
| "section_entries offset ((i, flags, data) # payloads) =
     \<lparr>se_id = i, se_flags = flags, se_offset = word_of_nat offset,
      se_length = word_of_nat (length data)\<rparr> #
     section_entries (align4 (offset + length data)) payloads"

definition enc_section_entry :: "section_entry \<Rightarrow> byte list" where
  "enc_section_entry e =
     le16 (se_id e) @ le16 (se_flags e) @ le32 (se_offset e) @ le32 (se_length e)"

definition enc_header :: "bytecode_version \<Rightarrow> u32 \<Rightarrow> u16 \<Rightarrow> u32 \<Rightarrow> byte list" where
  "enc_header version flags section_count checksum =
     MAGIC @ le16 (v_major version) @ le16 (v_minor version) @ le32 flags @ le16 HEADER_SIZE @
     le16 section_count @ le32 (word_of_nat (unat HEADER_SIZE)) @ le32 checksum"

definition pad_to_align :: "byte list \<Rightarrow> byte list" where
  "pad_to_align bytes = pad_to bytes (align4 (length bytes))"

fun append_payloads :: "byte list \<Rightarrow> payload list \<Rightarrow> byte list" where
  "append_payloads bytes [] = bytes"
| "append_payloads bytes ((_, _, data) # payloads) =
     append_payloads (pad_to_align (bytes @ data)) payloads"

definition encode :: "(byte list \<Rightarrow> u32) \<Rightarrow> bytecode_module \<Rightarrow> bytecode_error + byte list" where
  "encode crc m =
     (let payloads = map (section_payload (bm_version m)) (bm_sections m);
          section_table_off = unat HEADER_SIZE;
          section_table_len = length payloads * SECTION_ENTRY_SIZE;
          entries = section_entries (align4 (section_table_off + section_table_len)) payloads
      in rbind (guard (length entries < 2 ^ 16) (InvalidHeader ''section count overflow''))
           (\<lambda>_.
         let header = enc_header (bm_version m) (bm_flags m) (word_of_nat (length entries)) 0;
             bytes = pad_to_align (header @ concat (map enc_section_entry entries));
             bytes = append_payloads bytes payloads
         in Inr (if and (bm_flags m) HEADER_FLAG_CRC32 \<noteq> 0
                 then take 20 bytes @ le32 (crc (drop section_table_off bytes)) @ drop 24 bytes
                 else bytes)))"

section \<open>Decoding\<close>

definition dec_section_entry :: "section_entry decoder" where
  "dec_section_entry r =
     rbind (read_u16 r) (\<lambda>(id, r).
     rbind (read_u16 r) (\<lambda>(flags, r).
     rbind (read_u32 r) (\<lambda>(offset, r).
     rbind (read_u32 r) (\<lambda>(len, r).
     Inr (\<lparr>se_id = id, se_flags = flags, se_offset = offset, se_length = len\<rparr>, r)))))"

definition section_start :: "section_entry \<Rightarrow> nat" where
  "section_start e = unat (se_offset e)"

definition section_end :: "section_entry \<Rightarrow> nat" where
  "section_end e = section_start e + unat (se_length e)"

fun validate_sorted :: "nat \<Rightarrow> nat \<Rightarrow> section_entry list \<Rightarrow> bytecode_error + unit" where
  "validate_sorted file_len last_end [] = Inr ()"
| "validate_sorted file_len last_end (entry # rest) =
     (if unat (se_offset entry) mod 4 \<noteq> 0 then Inl SectionAlignment
      else if file_len < section_end entry then Inl SectionOutOfBounds
      else if section_start entry < last_end then Inl SectionOverlap
      else validate_sorted file_len (section_end entry) rest)"

definition validate_section_entries ::
    "nat \<Rightarrow> section_entry list \<Rightarrow> bytecode_error + unit" where
  "validate_section_entries file_len entries =
     validate_sorted file_len 0 (sort_key section_start entries)"

text \<open>\<open>checked_mul\<close>, \<open>checked_add\<close>: the result as \<open>usize\<close> of a 64-bit target, if it fits.\<close>

definition checked_usize :: "nat \<Rightarrow> nat option" where
  "checked_usize n = (if n < 2 ^ 64 then Some n else None)"

definition decode_section ::
    "bytecode_version \<Rightarrow> byte list \<Rightarrow> section_entry \<Rightarrow> bytecode_error + section_rec" where
  "decode_section version bytes entry =
     (let payload = take (unat (se_length entry)) (drop (section_start entry) bytes)
      in rbind (decode_section_data version (se_id entry) payload) (\<lambda>data.
         Inr \<lparr>sc_id = se_id entry, sc_flags = se_flags entry, sc_data = data\<rparr>))"

definition decode ::
    "(byte list \<Rightarrow> u32) \<Rightarrow> byte list \<Rightarrow> bytecode_error + bytecode_module" where
  "decode crc bytes =
     rbind (read_bytes 4 (reader_new bytes)) (\<lambda>(magic, r).
     rbind (guard (magic = MAGIC) InvalidMagic) (\<lambda>_.
     rbind (read_u16 r) (\<lambda>(major, r).
     rbind (read_u16 r) (\<lambda>(minor, r).
     rbind (read_u32 r) (\<lambda>(flags, r).
     rbind (read_u16 r) (\<lambda>(header_size, r).
     rbind (read_u16 r) (\<lambda>(section_count, r).
     rbind (read_u32 r) (\<lambda>(section_table_off, r).
     rbind (read_u32 r) (\<lambda>(checksum, r).
     let count = unat section_count; table_off = unat section_table_off in
     rbind (guard (HEADER_SIZE \<le> header_size) (InvalidHeader ''header size too small'')) (\<lambda>_.
     rbind (guard (unat HEADER_SIZE \<le> table_off)
             (InvalidHeader ''section table before header'')) (\<lambda>_.
     rbind (guard (table_off mod 4 = 0) SectionAlignment) (\<lambda>_.
     rbind (ok_or (checked_usize (count * SECTION_ENTRY_SIZE))
             (InvalidSectionTable ''section table overflow'')) (\<lambda>table_len.
     rbind (ok_or (checked_usize (table_off + table_len))
             (InvalidSectionTable ''section table overflow'')) (\<lambda>table_end.
     rbind (guard (table_end \<le> length bytes)
             (InvalidSectionTable ''section table out of bounds'')) (\<lambda>_.
     rbind (if and flags HEADER_FLAG_CRC32 \<noteq> 0 then
              let actual = crc (drop table_off bytes)
              in guard (actual = checksum) (InvalidChecksum checksum actual)
            else Inr ()) (\<lambda>_.
     rbind (guard (major = SUPPORTED_MAJOR_VERSION) (UnsupportedVersion major minor)) (\<lambda>_.
     rbind (read_n dec_section_entry count
             (reader_new (take (table_end - table_off) (drop table_off bytes)))) (\<lambda>(entries, _).
     rbind (validate_section_entries (length bytes) entries) (\<lambda>_.
     rbind (collect (decode_section \<lparr>v_major = major, v_minor = minor\<rparr> bytes) entries)
       (\<lambda>sections.
     Inr \<lparr>bm_version = \<lparr>v_major = major, v_minor = minor\<rparr>, bm_flags = flags,
          bm_sections = sections\<rparr>))))))))))))))))))))"

section \<open>The section table\<close>

interpretation section_entry: codec dec_section_entry enc_section_entry "\<lambda>_. True"
proof unfold_locales
  show "forward_ok dec_section_entry"
    by (rule forward_ok_cong, rule dec_section_entry_def, intro forward_intros)
qed (simp add: dec_section_entry_def enc_section_entry_def codec_simps)

lemma length_section_entries [simp]: "length (section_entries off ps) = length ps"
  by (induction off ps rule: section_entries.induct) auto

lemma length_enc_section_entry [simp]: "length (enc_section_entry e) = 12"
  by (simp add: enc_section_entry_def)

lemma length_entry_table [simp]:
  "length (concat (map enc_section_entry es)) = 12 * length es"
  by (induction es) auto

lemma length_MAGIC [simp]: "length MAGIC = 4"
  by (simp add: MAGIC_def)

lemma length_enc_header [simp]: "length (enc_header v f n c) = 24"
  by (simp add: enc_header_def)

definition body :: "payload list \<Rightarrow> byte list" where
  "body payloads = concat (map (\<lambda>(_, _, data). pad_to_align data) payloads)"

lemma body_simps [simp]:
  "body [] = []"
  "body ((i, f, d) # ps) = pad_to_align d @ body ps"
  by (simp_all add: body_def)

lemma pad_to_align_append:
  "length bs mod 4 = 0 \<Longrightarrow> pad_to_align (bs @ d) = bs @ pad_to_align d"
  by (simp add: pad_to_align_def pad_to_def align4_add)

lemma length_pad_to_align [simp]: "length (pad_to_align d) = align4 (length d)"
  using align4_bounds(1) [of "length d"] by (simp add: pad_to_align_def)

lemma take_pad_to_align: "take (length d) (pad_to_align d @ ys) = d"
  by (simp add: pad_to_align_def pad_to_def)

lemma append_payloads_body:
  "length bs mod 4 = 0 \<Longrightarrow> append_payloads bs ps = bs @ body ps"
  by (induction bs ps rule: append_payloads.induct)
    (auto simp: pad_to_align_append mod_add_left_eq [symmetric])

lemma section_entries_start:
  assumes "off + length (body ps) < 2 ^ 32" and "off mod 4 = 0"
    and "e \<in> set (section_entries off ps)"
  shows "off \<le> section_start e"
  using assms
proof (induction ps arbitrary: off)
  case (Cons p ps)
  obtain i f d where p: "p = (i, f, d)"
    by (cases p)
  have "align4 (off + length d) = off + align4 (length d)"
    using Cons.prems(2) by (rule align4_add)
  moreover have "section_start \<lparr>se_id = i, se_flags = f, se_offset = word_of_nat off,
      se_length = word_of_nat (length d)\<rparr> = off"
    using Cons.prems(1) by (simp add: section_start_def)
  moreover have "align4 (off + length d) + length (body ps) < 2 ^ 32"
    using Cons.prems by (simp add: p align4_add)
  ultimately show ?case
    using Cons.prems Cons.IH [of "align4 (off + length d)"] align4_bounds(1) [of "off + length d"]
    by (auto simp: p)
qed simp

lemma section_entries_sorted:
  assumes "off + length (body ps) < 2 ^ 32" and "off mod 4 = 0"
  shows "sorted (map section_start (section_entries off ps))"
  using assms
proof (induction ps arbitrary: off)
  case (Cons p ps)
  obtain i f d where p: "p = (i, f, d)"
    by (cases p)
  let ?next = "align4 (off + length d)"
  have small: "?next + length (body ps) < 2 ^ 32"
    using Cons.prems by (simp add: p align4_add)
  have "off \<le> section_start e" if "e \<in> set (section_entries ?next ps)" for e
    using section_entries_start [OF small _ that] align4_bounds(1) [of "off + length d"] by simp
  moreover have "section_start \<lparr>se_id = i, se_flags = f, se_offset = word_of_nat off,
      se_length = word_of_nat (length d)\<rparr> = off"
    using Cons.prems(1) by (simp add: section_start_def)
  ultimately show ?case
    using Cons.IH [OF small] by (simp add: p)
qed simp

lemma section_entries_valid:
  fixes pre :: "byte list"
  assumes "length pre + length (body ps) < 2 ^ 32" and "length pre mod 4 = 0"
    and "last_end \<le> length pre"
  shows "validate_sorted (length pre + length (body ps)) last_end
    (section_entries (length pre) ps) = Inr ()"
  using assms
proof (induction ps arbitrary: pre last_end)
  case (Cons p ps)
  obtain i f d where p: "p = (i, f, d)"
    by (cases p)
  have d: "length d \<le> align4 (length d)"
    by (rule align4_bounds)
  have words: "unat (word_of_nat (length pre) :: u32) = length pre"
    "unat (word_of_nat (length d) :: u32) = length d"
    using Cons.prems(1) d by (simp_all add: p)
  have "validate_sorted (length (pre @ pad_to_align d) + length (body ps))
      (length pre + length d) (section_entries (length (pre @ pad_to_align d)) ps) = Inr ()"
    using Cons.prems d by (intro Cons.IH) (auto simp: p mod_add_left_eq [symmetric])
  then show ?case
    using Cons.prems words d
    by (simp add: p section_start_def section_end_def align4_add add.assoc)
qed simp

lemma section_entries_decode:
  assumes "length pre + length (body (map (section_payload v) ss)) < 2 ^ 32"
    and "length pre mod 4 = 0"
    and "\<forall>s\<in>set ss. wf_section_data v (sc_id s) (sc_data s)"
  shows "collect (decode_section v (pre @ body (map (section_payload v) ss)))
      (section_entries (length pre) (map (section_payload v) ss)) =
    Inr (map (\<lambda>s. s\<lparr>sc_data := normal_section_data v (sc_data s)\<rparr>) ss)"
  using assms
proof (induction ss arbitrary: pre)
  case (Cons s ss)
  define d where "d = encode_section_data v (sc_data s)"
  define ps where "ps = map (section_payload v) ss"
  define e where "e = \<lparr>se_id = sc_id s, se_flags = sc_flags s,
      se_offset = word_of_nat (length pre), se_length = word_of_nat (length d)\<rparr>"
  have payload: "section_payload v s = (sc_id s, sc_flags s, d)"
    by (simp add: section_payload_def d_def)
  have len: "length pre + (align4 (length d) + length (body ps)) < 2 ^ 32"
    using Cons.prems(1) by (simp add: payload ps_def)
  then have words: "section_start e = length pre" "unat (se_length e) = length d"
    using align4_bounds(1) [of "length d"] by (simp_all add: e_def section_start_def)
  have "decode_section_data v (sc_id s) d = Inr (normal_section_data v (sc_data s))"
    using Cons.prems(3) by (simp add: d_def section_data_round)
  moreover have "take (length d) (drop (length pre) (pre @ pad_to_align d @ body ps)) = d"
    by (simp only: drop_append) (simp add: take_pad_to_align del: take_append)
  ultimately have head: "decode_section v (pre @ pad_to_align d @ body ps) e =
      Inr (s\<lparr>sc_data := normal_section_data v (sc_data s)\<rparr>)"
    unfolding decode_section_def words by (simp add: Let_def e_def)
  have "collect (decode_section v ((pre @ pad_to_align d) @ body ps))
      (section_entries (length (pre @ pad_to_align d)) ps) =
    Inr (map (\<lambda>s. s\<lparr>sc_data := normal_section_data v (sc_data s)\<rparr>) ss)"
    using Cons.prems len unfolding ps_def
    by (intro Cons.IH) (auto simp: mod_add_left_eq [symmetric])
  then have tail: "collect (decode_section v (pre @ pad_to_align d @ body ps))
      (section_entries (length pre + align4 (length d)) ps) =
    Inr (map (\<lambda>s. s\<lparr>sc_data := normal_section_data v (sc_data s)\<rparr>) ss)"
    by simp
  have entries: "section_entries (length pre) ((sc_id s, sc_flags s, d) # ps) =
      e # section_entries (length pre + align4 (length d)) ps"
    using Cons.prems(2) by (simp add: e_def align4_add)
  show ?case
    unfolding list.map payload ps_def [symmetric] entries body_simps collect.simps head tail
    by simp
qed simp

section \<open>Round trip\<close>

text \<open>
  A module that the format can express: the version is supported, every section's data is
  expressible and stands under its identifier, and the file stays below 4 GiB, so that the
  offsets fit their \<open>u32\<close> fields.
\<close>

definition wf_module :: "bytecode_module \<Rightarrow> bool" where
  "wf_module m \<longleftrightarrow>
     v_major (bm_version m) = SUPPORTED_MAJOR_VERSION \<and>
     (\<forall>s\<in>set (bm_sections m). wf_section_data (bm_version m) (sc_id s) (sc_data s)) \<and>
     length (bm_sections m) < 2 ^ 16 \<and>
     24 + 12 * length (bm_sections m) +
       length (body (map (section_payload (bm_version m)) (bm_sections m))) < 2 ^ 32"

definition normal_module :: "bytecode_module \<Rightarrow> bytecode_module" where
  "normal_module m =
     m\<lparr>bm_sections :=
       map (\<lambda>s. s\<lparr>sc_data := normal_section_data (bm_version m) (sc_data s)\<rparr>) (bm_sections m)\<rparr>"

definition module_tail :: "bytecode_module \<Rightarrow> byte list" where
  "module_tail m =
     (let payloads = map (section_payload (bm_version m)) (bm_sections m)
      in concat (map enc_section_entry (section_entries (24 + 12 * length payloads) payloads)) @
         body payloads)"

lemma table_size_mod [simp]: "(24 + 12 * n) mod 4 = (0 :: nat)"
  by presburger

lemma encode_eq:
  assumes "length (bm_sections m) < 2 ^ 16"
  shows "encode crc m = Inr (enc_header (bm_version m) (bm_flags m)
      (word_of_nat (length (bm_sections m)))
      (if and (bm_flags m) HEADER_FLAG_CRC32 \<noteq> 0 then crc (module_tail m) else 0) @
    module_tail m)"
proof -
  let ?ps = "map (section_payload (bm_version m)) (bm_sections m)"
  let ?n = "length (bm_sections m)"
  let ?table = "concat (map enc_section_entry (section_entries (24 + 12 * ?n) ?ps))"
  let ?hdr = "\<lambda>c. enc_header (bm_version m) (bm_flags m) (word_of_nat ?n) c"
  have off: "align4 (24 + ?n * SECTION_ENTRY_SIZE) = 24 + 12 * ?n"
    by (subst align4_id) (simp_all add: SECTION_ENTRY_SIZE_def mult.commute)
  have pad: "pad_to_align (?hdr 0 @ ?table) = ?hdr 0 @ ?table"
    by (simp add: pad_to_align_def pad_to_def align4_id)
  have bytes: "append_payloads (?hdr 0 @ ?table) ?ps = ?hdr 0 @ module_tail m"
    by (subst append_payloads_body) (simp_all add: module_tail_def Let_def)
  have patch: "take 20 (?hdr 0 @ ys) @ le32 c @ drop 24 (?hdr 0 @ ys) = ?hdr c @ ys" for c ys
    by (simp add: enc_header_def)
  show ?thesis
    using assms off pad bytes patch
    by (simp add: encode_def Let_def HEADER_SIZE_def)
qed

lemma decode_header:
  assumes "length tail = 12 * n + k" and "n < 2 ^ 16"
  shows "decode crc (enc_header v f (word_of_nat n) c @ tail) =
    rbind (if and f HEADER_FLAG_CRC32 \<noteq> 0
           then guard (crc tail = c) (InvalidChecksum c (crc tail)) else Inr ()) (\<lambda>_.
    rbind (guard (v_major v = SUPPORTED_MAJOR_VERSION) (UnsupportedVersion (v_major v) (v_minor v)))
      (\<lambda>_.
    rbind (read_n dec_section_entry n (reader_new (take (12 * n) tail))) (\<lambda>(entries, _).
    rbind (validate_section_entries (24 + length tail) entries) (\<lambda>_.
    rbind (collect (decode_section v (enc_header v f (word_of_nat n) c @ tail)) entries)
      (\<lambda>sections. Inr \<lparr>bm_version = v, bm_flags = f, bm_sections = sections\<rparr>)))))"
proof -
  have n: "unat (word_of_nat n :: u16) = n"
    using assms(2) by (simp add: unat_of_nat)
  have drop: "drop 24 (enc_header v f (word_of_nat n) c @ tail) = tail"
    by simp
  have len: "length (enc_header v f (word_of_nat n) c @ tail) = 24 + length tail"
    by simp
  have checked: "checked_usize (n * SECTION_ENTRY_SIZE) = Some (12 * n)"
    "checked_usize (24 + 12 * n) = Some (24 + 12 * n)"
    using assms(2) by (simp_all add: checked_usize_def SECTION_ENTRY_SIZE_def)
  show ?thesis
    using assms(1) n drop len checked
    by (cases v) (simp add: decode_def enc_header_def reader_new_at codec_simps Let_def HEADER_SIZE_def
        del: drop_append)
qed

lemma decode_encode:
  assumes wf: "wf_module m"
  shows "\<exists>bytes. encode crc m = Inr bytes \<and> decode crc bytes = Inr (normal_module m)"
proof -
  define v where "v = bm_version m"
  define ps where "ps = map (section_payload v) (bm_sections m)"
  define n where "n = length (bm_sections m)"
  define entries where "entries = section_entries (24 + 12 * n) ps"
  define hdr where "hdr = enc_header v (bm_flags m) (word_of_nat n)
      (if and (bm_flags m) HEADER_FLAG_CRC32 \<noteq> 0 then crc (module_tail m) else 0)"
  define pre where "pre = hdr @ concat (map enc_section_entry entries)"
  have n: "n < 2 ^ 16" and size: "24 + 12 * n + length (body ps) < 2 ^ 32"
    and secs: "\<forall>s\<in>set (bm_sections m). wf_section_data v (sc_id s) (sc_data s)"
    and major: "v_major v = SUPPORTED_MAJOR_VERSION"
    using wf by (simp_all add: wf_module_def n_def v_def ps_def)
  have len_entries: "length entries = n"
    by (simp add: entries_def ps_def n_def)
  have pre: "length pre = 24 + 12 * n"
    by (simp add: pre_def hdr_def len_entries)
  have tail: "module_tail m = concat (map enc_section_entry entries) @ body ps"
    by (simp add: module_tail_def Let_def entries_def ps_def v_def n_def)
  have bytes: "hdr @ module_tail m = pre @ body ps"
    by (simp add: tail pre_def)
  have flen: "24 + length (module_tail m) = length pre + length (body ps)"
    by (simp add: tail pre len_entries)
  have enc: "encode crc m = Inr (hdr @ module_tail m)"
    using encode_eq [of m crc] n by (simp add: hdr_def v_def n_def)
  have table: "read_n dec_section_entry n (reader_new (take (12 * n) (module_tail m))) =
      Inr (entries, at (concat (map enc_section_entry entries)) [])"
    using section_entry.read_n_round [of entries n "[]" "[]"] len_entries
    by (simp add: tail reader_new_at)
  have "sort_key section_start entries = entries"
    using size by (intro sort_key_id_if_sorted) (simp add: entries_def section_entries_sorted)
  moreover have "validate_sorted (length pre + length (body ps)) 0
      (section_entries (length pre) ps) = Inr ()"
    using size by (intro section_entries_valid) (simp_all add: pre)
  ultimately have valid: "validate_section_entries (24 + length (module_tail m)) entries = Inr ()"
    unfolding flen by (simp add: validate_section_entries_def entries_def pre)
  have "collect (decode_section v (pre @ body ps)) (section_entries (length pre) ps) =
      Inr (map (\<lambda>s. s\<lparr>sc_data := normal_section_data v (sc_data s)\<rparr>) (bm_sections m))"
    unfolding ps_def using size secs
    by (intro section_entries_decode) (simp_all add: pre ps_def)
  then have secs': "collect (decode_section v (hdr @ module_tail m)) entries =
      Inr (map (\<lambda>s. s\<lparr>sc_data := normal_section_data v (sc_data s)\<rparr>) (bm_sections m))"
    unfolding bytes by (simp add: entries_def pre)
  have "decode crc (hdr @ module_tail m) = Inr (normal_module m)"
    unfolding hdr_def
    by (subst decode_header [of _ n "length (body ps)"])
      (use n table valid secs' major in
        \<open>simp_all add: tail len_entries hdr_def normal_module_def v_def\<close>)
  with enc show ?thesis
    by blast
qed

section \<open>What a successful decoding says\<close>

definition apart :: "section_entry \<Rightarrow> section_entry \<Rightarrow> bool" where
  "apart a b \<longleftrightarrow> section_end a \<le> section_start b \<or> section_end b \<le> section_start a"

definition entry_ok :: "nat \<Rightarrow> section_entry \<Rightarrow> bool" where
  "entry_ok file_len e \<longleftrightarrow> unat (se_offset e) mod 4 = 0 \<and> section_end e \<le> file_len"

lemma validate_sorted_ok:
  assumes "validate_sorted file_len last_end es = Inr ()"
  shows "(\<forall>e\<in>set es. entry_ok file_len e \<and> last_end \<le> section_start e) \<and> sorted_wrt apart es"
  using assms
proof (induction file_len last_end es rule: validate_sorted.induct)
  case (2 file_len last_end e rest)
  then have "validate_sorted file_len (section_end e) rest = Inr ()"
    "entry_ok file_len e" "last_end \<le> section_start e"
    by (auto simp: entry_ok_def split: if_splits)
  moreover have "section_start e \<le> section_end e"
    by (simp add: section_end_def)
  ultimately show ?case
    using 2 by (force simp: apart_def split: if_splits)
qed simp

text \<open>A symmetric relation that holds between the elements of a list holds after a permutation.\<close>

lemma sorted_wrt_mset_eq:
  assumes "\<And>x y. R x y \<Longrightarrow> R y x"
  shows "sorted_wrt R xs \<longleftrightarrow>
    (\<forall>x y zs. mset xs = add_mset x (add_mset y zs) \<longrightarrow> R x y)"
proof (induction xs)
  case (Cons a xs)
  show ?case
  proof
    assume sorted: "sorted_wrt R (a # xs)"
    show "\<forall>x y zs. mset (a # xs) = add_mset x (add_mset y zs) \<longrightarrow> R x y"
    proof (intro allI impI)
      fix x y zs assume eq: "mset (a # xs) = add_mset x (add_mset y zs)"
      have mem: "R a b" if "b \<in># mset xs" for b
        using sorted that by simp
      consider "x = a" | "y = a" | "x \<noteq> a" "y \<noteq> a"
        by blast
      then show "R x y"
      proof cases
        case 1
        with eq have "y \<in># mset xs" by simp
        with mem 1 show ?thesis by blast
      next
        case 2
        with eq have "x \<in># mset xs" by (simp add: add_mset_commute [of x])
        with mem 2 assms show ?thesis by blast
      next
        case 3
        moreover have "a \<in># add_mset x (add_mset y zs)"
          using eq [symmetric] by simp
        ultimately have "a \<in># zs"
          by auto
        then obtain zs' where "zs = add_mset a zs'" by (meson multi_member_split)
        with eq have "mset xs = add_mset x (add_mset y zs')"
          by (simp add: add_mset_commute)
        with Cons sorted show ?thesis by simp
      qed
    qed
  next
    assume all: "\<forall>x y zs. mset (a # xs) = add_mset x (add_mset y zs) \<longrightarrow> R x y"
    have "R a b" if mem: "b \<in> set xs" for b
    proof -
      obtain zs where "mset xs = add_mset b zs"
        using mem multi_member_split [of b "mset xs"] by auto
      with all show ?thesis by simp
    qed
    moreover have "R x y" if "mset xs = add_mset x (add_mset y zs)" for x y zs
    proof -
      have "mset (a # xs) = add_mset x (add_mset y (add_mset a zs))"
        using that by (simp add: add_mset_commute)
      with all show ?thesis by blast
    qed
    ultimately show "sorted_wrt R (a # xs)"
      using Cons by simp
  qed
qed simp

lemma sorted_wrt_symmetric:
  assumes "\<And>x y. R x y \<Longrightarrow> R y x" and "mset xs = mset ys" and "sorted_wrt R xs"
  shows "sorted_wrt R ys"
  using assms(2,3) sorted_wrt_mset_eq [of R xs, OF assms(1)] sorted_wrt_mset_eq [of R ys, OF assms(1)]
  by simp

lemma validate_section_entries_ok:
  assumes "validate_section_entries file_len es = Inr ()"
  shows "list_all (entry_ok file_len) es" and "sorted_wrt apart es"
proof -
  note ok = validate_sorted_ok [OF assms [unfolded validate_section_entries_def]]
  then show "list_all (entry_ok file_len) es"
    by (simp add: list_all_iff)
  show "sorted_wrt apart es"
    by (rule sorted_wrt_symmetric [of apart "sort_key section_start es"])
      (use ok in \<open>auto simp: apart_def\<close>)
qed

text \<open>The fields of the header, by their place in the file.\<close>

definition header_u16 :: "byte list \<Rightarrow> nat \<Rightarrow> u16" where
  "header_u16 bytes off = from_le (take 2 (drop off bytes))"

definition header_u32 :: "byte list \<Rightarrow> nat \<Rightarrow> u32" where
  "header_u32 bytes off = from_le (take 4 (drop off bytes))"

lemma read_header_ok:
  "read_bytes n r = Inr (bs, r') \<longleftrightarrow> rd_cursor r + n \<le> length (rd_data r) \<and>
     bs = take n (drop (rd_cursor r) (rd_data r)) \<and> r' = r\<lparr>rd_cursor := rd_cursor r + n\<rparr>"
  "read_u16 r = Inr (a, r') \<longleftrightarrow> rd_cursor r + 2 \<le> length (rd_data r) \<and>
     a = header_u16 (rd_data r) (rd_cursor r) \<and> r' = r\<lparr>rd_cursor := rd_cursor r + 2\<rparr>"
  "read_u32 r = Inr (b, r') \<longleftrightarrow> rd_cursor r + 4 \<le> length (rd_data r) \<and>
     b = header_u32 (rd_data r) (rd_cursor r) \<and> r' = r\<lparr>rd_cursor := rd_cursor r + 4\<rparr>"
  by (auto simp: read_u16_def read_u32_def rbind_eq_Inr read_bytes_def header_u16_def
      header_u32_def split: if_splits)

text \<open>The entries of the section table, by their place in the file.\<close>

definition entry_at :: "byte list \<Rightarrow> nat \<Rightarrow> section_entry" where
  "entry_at bytes pos =
     \<lparr>se_id = header_u16 bytes pos, se_flags = header_u16 bytes (pos + 2),
      se_offset = header_u32 bytes (pos + 4), se_length = header_u32 bytes (pos + 8)\<rparr>"

definition section_table :: "byte list \<Rightarrow> section_entry list" where
  "section_table bytes =
     map (\<lambda>i. entry_at bytes (unat (header_u32 bytes 16) + 12 * i)) [0..<unat (header_u16 bytes 14)]"

lemma dec_section_entry_ok:
  "dec_section_entry r = Inr (e, r') \<Longrightarrow> rd_cursor r + 12 \<le> length (rd_data r) \<and>
     e = entry_at (rd_data r) (rd_cursor r) \<and> r' = r\<lparr>rd_cursor := rd_cursor r + 12\<rparr>"
  by (auto simp: dec_section_entry_def rbind_eq_Inr read_header_ok entry_at_def add.commute
      numeral_eq_Suc)

lemma read_entries_ok:
  "read_n dec_section_entry n r = Inr (es, r') \<Longrightarrow> 0 < n \<longrightarrow> rd_cursor r + 12 * n \<le> length (rd_data r) \<Longrightarrow>
     es = map (\<lambda>i. entry_at (rd_data r) (rd_cursor r + 12 * i)) [0..<n]"
proof (induction n arbitrary: r es)
  case (Suc n)
  then obtain e r1 es1 where first: "dec_section_entry r = Inr (e, r1)"
    and rest: "read_n dec_section_entry n r1 = Inr (es1, r')" and es: "es = e # es1"
    by (auto simp: rbind_eq_Inr)
  note e = dec_section_entry_ok [OF first]
  have "es1 = map (\<lambda>i. entry_at (rd_data r1) (rd_cursor r1 + 12 * i)) [0..<n]"
    using Suc.IH [OF rest] Suc.prems(2) e by simp
  then show ?case
    using e es by (simp add: upt_conv_Cons map_Suc_upt [symmetric] add.assoc del: upt_Suc)
qed simp

lemma entry_of_part:
  assumes "pos + 12 \<le> len"
  shows "entry_at (take len (drop off bytes)) pos = entry_at bytes (off + pos)"
  using assms
  by (simp add: entry_at_def header_u16_def header_u32_def drop_take min_def ac_simps)

lemma table_read:
  assumes "read_n dec_section_entry n (reader_new (take (12 * n) (drop off bytes))) = Inr (es, r)"
    and "off + 12 * n \<le> length bytes"
  shows "es = map (\<lambda>i. entry_at bytes (off + 12 * i)) [0..<n]"
  using read_entries_ok [OF assms(1)] assms(2) by (simp add: reader_new_def entry_of_part)

lemma decode_ok:
  assumes "decode crc bytes = Inr m"
  shows "take 4 bytes = MAGIC \<and> header_u16 bytes 4 = SUPPORTED_MAJOR_VERSION \<and>
    HEADER_SIZE \<le> header_u16 bytes 12 \<and>
    bm_version m = \<lparr>v_major = header_u16 bytes 4, v_minor = header_u16 bytes 6\<rparr> \<and>
    bm_flags m = header_u32 bytes 8 \<and>
    (and (header_u32 bytes 8) HEADER_FLAG_CRC32 \<noteq> 0 \<longrightarrow>
      crc (drop (unat (header_u32 bytes 16)) bytes) = header_u32 bytes 20) \<and>
    24 \<le> unat (header_u32 bytes 16) \<and> unat (header_u32 bytes 16) mod 4 = 0 \<and>
    unat (header_u32 bytes 16) + 12 * unat (header_u16 bytes 14) \<le> length bytes \<and>
    list_all (entry_ok (length bytes)) (section_table bytes) \<and>
    sorted_wrt apart (section_table bytes) \<and>
    list_all2 (\<lambda>e s. decode_section (bm_version m) bytes e = Inr s) (section_table bytes) (bm_sections m)"
proof -
  let ?n = "unat (header_u16 bytes 14)" and ?off = "unat (header_u32 bytes 16)"
  obtain es r where "take 4 bytes = MAGIC" "header_u16 bytes 4 = SUPPORTED_MAJOR_VERSION"
    "HEADER_SIZE \<le> header_u16 bytes 12"
    "bm_version m = \<lparr>v_major = header_u16 bytes 4, v_minor = header_u16 bytes 6\<rparr>"
    "bm_flags m = header_u32 bytes 8"
    "and (header_u32 bytes 8) HEADER_FLAG_CRC32 \<noteq> 0 \<longrightarrow> crc (drop ?off bytes) = header_u32 bytes 20"
    "24 \<le> ?off" "?off mod 4 = 0" "?off + 12 * ?n \<le> length bytes"
    and table: "read_n dec_section_entry ?n (reader_new (take (12 * ?n) (drop ?off bytes))) = Inr (es, r)"
    "validate_section_entries (length bytes) es = Inr ()"
    "list_all2 (\<lambda>e s. decode_section (bm_version m) bytes e = Inr s) es (bm_sections m)"
    using assms unfolding decode_def Let_def
    by (auto simp: rbind_eq_Inr read_header_ok reader_new_def collect_eq_Inr HEADER_SIZE_def
        SECTION_ENTRY_SIZE_def checked_usize_def mult.commute split: if_splits)
  moreover from this have "es = section_table bytes"
    using table_read [OF table(1)] by (simp add: section_table_def)
  ultimately show ?thesis
    using validate_section_entries_ok [OF table(2)] by simp
qed

end
