(* ===== verification/Bytecode_Checks.thy ===== *)
theory Bytecode_Checks
  imports Bytecode_Container
begin

text \<open>
  The checks of \<open>bytecode/validate.rs\<close> on indices, type tables, constants and references, in
  the order of the source. The recursion of \<open>validate_const_payload_entry\<close> is bounded by a
  fuel that stands for the call depth, because it need not end: an alias of itself is accepted
  by \<open>validate_type_table\<close> and never consumes a byte.
\<close>

section \<open>Index checks\<close>

definition ensure_string_index :: "string_table \<Rightarrow> u32 \<Rightarrow> bytecode_error + unit" where
  "ensure_string_index strings idx =
     (if length (st_entries strings) \<le> unat idx then Inl (InvalidIndex ''string'' idx)
      else Inr ())"

definition ensure_type_index :: "type_table \<Rightarrow> u32 \<Rightarrow> bytecode_error + unit" where
  "ensure_type_index types idx =
     (if length (tt_entries types) \<le> unat idx then Inl (InvalidIndex ''type'' idx) else Inr ())"

definition ensure_const_index :: "const_pool \<Rightarrow> u32 \<Rightarrow> bytecode_error + unit" where
  "ensure_const_index pool idx =
     (if length (cp_entries pool) \<le> unat idx then Inl (InvalidIndex ''const'' idx) else Inr ())"

definition ensure_ref_index :: "ref_table \<Rightarrow> u32 \<Rightarrow> bytecode_error + unit" where
  "ensure_ref_index table idx =
     (if length (rt_entries table) \<le> unat idx then Inl (InvalidIndex ''ref'' idx) else Inr ())"

definition type_at :: "type_table \<Rightarrow> u32 \<Rightarrow> bytecode_error + type_entry" where
  "type_at types idx = ok_or (nth_opt (tt_entries types) (unat idx)) (InvalidIndex ''type'' idx)"

definition string_at :: "string_table \<Rightarrow> u32 \<Rightarrow> bytecode_error + rstr" where
  "string_at strings idx =
     ok_or (nth_opt (st_entries strings) (unat idx)) (InvalidIndex ''string'' idx)"

definition ensure_pou_id :: "pou_index \<Rightarrow> u32 \<Rightarrow> bytecode_error + unit" where
  "ensure_pou_id index i =
     guard (list_ex (\<lambda>pou. pe_id pou = i) (pi_entries index)) (InvalidPouId i)"

definition when_some :: "'a option \<Rightarrow> ('a \<Rightarrow> 'e + unit) \<Rightarrow> 'e + unit" where
  "when_some opt f = (case opt of None \<Rightarrow> Inr () | Some x \<Rightarrow> f x)"

named_theorems check_simps \<open>what a passed check says\<close>

lemma ensure_ok [check_simps]:
  "ensure_string_index strings idx = Inr u \<longleftrightarrow> unat idx < length (st_entries strings)"
  "ensure_type_index types idx = Inr u \<longleftrightarrow> unat idx < length (tt_entries types)"
  "ensure_const_index pool idx = Inr u \<longleftrightarrow> unat idx < length (cp_entries pool)"
  "ensure_ref_index table idx = Inr u \<longleftrightarrow> unat idx < length (rt_entries table)"
  by (auto simp: ensure_string_index_def ensure_type_index_def ensure_const_index_def
      ensure_ref_index_def)

lemma at_ok [check_simps]:
  "type_at types idx = Inr e \<longleftrightarrow>
     unat idx < length (tt_entries types) \<and> tt_entries types ! unat idx = e"
  "string_at strings idx = Inr s \<longleftrightarrow>
     unat idx < length (st_entries strings) \<and> st_entries strings ! unat idx = s"
  by (simp_all add: type_at_def string_at_def)

lemma ensure_pou_ok [check_simps]:
  "ensure_pou_id index i = Inr u \<longleftrightarrow> (\<exists>pou\<in>set (pi_entries index). pe_id pou = i)"
  by (simp add: ensure_pou_id_def list_ex_iff)

lemma when_some_ok [check_simps]:
  "when_some opt f = Inr u \<longleftrightarrow> (\<forall>x. opt = Some x \<longrightarrow> f x = Inr ())"
  by (cases opt) (simp_all add: when_some_def)

lemmas check_ok = check_simps each_eq_Inr rbind_eq_Inr

section \<open>Strings and types\<close>

definition validate_string_table :: "string_table \<Rightarrow> bytecode_error + unit" where
  "validate_string_table strings = Inr ()"

fun validate_type_data ::
    "string_table \<Rightarrow> type_table \<Rightarrow> type_data \<Rightarrow> bytecode_error + unit" where
  "validate_type_data strings types (TdArray elem_type_id dims) =
     rbind (ensure_type_index types elem_type_id) (\<lambda>_.
     each (\<lambda>(lower, upper).
       guard (\<not> sint upper < sint lower) (InvalidSection ''invalid array bounds'')) dims)"
| "validate_type_data strings types (TdStruct flds) =
     each (\<lambda>fld. rbind (ensure_string_index strings (fd_name_idx fld)) (\<lambda>_.
       ensure_type_index types (fd_type_id fld))) flds"
| "validate_type_data strings types (TdUnion flds) =
     each (\<lambda>fld. rbind (ensure_string_index strings (fd_name_idx fld)) (\<lambda>_.
       ensure_type_index types (fd_type_id fld))) flds"
| "validate_type_data strings types (TdEnum base_type_id variants) =
     rbind (ensure_type_index types base_type_id) (\<lambda>_.
     each (\<lambda>variant. ensure_string_index strings (ev_name_idx variant)) variants)"
| "validate_type_data strings types (TdAlias target_type_id) =
     ensure_type_index types target_type_id"
| "validate_type_data strings types (TdSubrange target_type_id _ _) =
     ensure_type_index types target_type_id"
| "validate_type_data strings types (TdReference target_type_id) =
     ensure_type_index types target_type_id"
| "validate_type_data strings types (TdPou _) = Inr ()"
| "validate_type_data strings types (TdInterface methods) =
     each (\<lambda>m. ensure_string_index strings (im_name_idx m)) methods"
| "validate_type_data strings types (TdPrimitive _ _) = Inr ()"

definition validate_type_table ::
    "string_table \<Rightarrow> type_table \<Rightarrow> bytecode_error + unit" where
  "validate_type_table strings types =
     each (\<lambda>entry.
       rbind (when_some (te_name_idx entry) (ensure_string_index strings)) (\<lambda>_.
       validate_type_data strings types (te_data entry))) (tt_entries types)"

section \<open>Constants\<close>

definition read_primitive ::
    "string_table \<Rightarrow> u16 \<Rightarrow> reader \<Rightarrow> bytecode_error + reader" where
  "read_primitive strings prim_id r =
     (if prim_id = 1 then rbind (read_u8 r) (\<lambda>(_, r). Inr r)
      else if prim_id \<in> {2, 6, 10, 26} then rbind (read_u8 r) (\<lambda>(_, r). Inr r)
      else if prim_id \<in> {3, 7, 11, 27} then rbind (read_u16 r) (\<lambda>(_, r). Inr r)
      else if prim_id \<in> {4, 8, 12} then rbind (read_u32 r) (\<lambda>(_, r). Inr r)
      else if prim_id \<in> {5, 9, 13, 15, 16, 17, 18, 19, 20, 21, 22, 23} then
        rbind (read_u64 r) (\<lambda>(_, r). Inr r)
      else if prim_id = 14 then rbind (read_u32 r) (\<lambda>(_, r). Inr r)
      else if prim_id \<in> {24, 25} then
        rbind (read_u32 r) (\<lambda>(idx, r).
        rbind (ensure_string_index strings idx) (\<lambda>_. Inr r))
      else Inl (InvalidSection ''unknown primitive''))"

fun repeat_reader ::
    "nat \<Rightarrow> (reader \<Rightarrow> (bytecode_error, reader) fueled) \<Rightarrow> reader \<Rightarrow> (bytecode_error, reader) fueled"
where
  "repeat_reader 0 f r = Some (Inr r)"
| "repeat_reader (Suc n) f r = fbind (f r) (repeat_reader n f)"

fun fold_reader ::
    "('a \<Rightarrow> reader \<Rightarrow> (bytecode_error, reader) fueled) \<Rightarrow> 'a list \<Rightarrow> reader \<Rightarrow>
      (bytecode_error, reader) fueled" where
  "fold_reader f [] r = Some (Inr r)"
| "fold_reader f (x # xs) r = fbind (f x r) (fold_reader f xs)"

fun validate_const_payload_entry ::
    "nat \<Rightarrow> string_table \<Rightarrow> type_table \<Rightarrow> type_entry \<Rightarrow> reader \<Rightarrow> (bytecode_error, reader) fueled"
where
  "validate_const_payload_entry 0 strings types entry r = None"
| "validate_const_payload_entry (Suc fuel) strings types entry r =
     (let fields_payload = (\<lambda>flds.
        fbind (Some (read_u32 r)) (\<lambda>(count, r).
        fbind (Some (guard (unat count = length flds)
                (InvalidSection ''struct/union constant count mismatch''))) (\<lambda>_.
        fold_reader (\<lambda>fld r.
          fbind (Some (type_at types (fd_type_id fld))) (\<lambda>field_type.
          validate_const_payload_entry fuel strings types field_type r)) flds r)))
      in case te_data entry of
        TdPrimitive prim_id _ \<Rightarrow> Some (read_primitive strings prim_id r)
      | TdArray elem_type_id _ \<Rightarrow>
          fbind (Some (read_u32 r)) (\<lambda>(count, r).
          fbind (Some (type_at types elem_type_id)) (\<lambda>elem.
          repeat_reader (unat count)
            (validate_const_payload_entry fuel strings types elem) r))
      | TdStruct flds \<Rightarrow> fields_payload flds
      | TdUnion flds \<Rightarrow> fields_payload flds
      | TdEnum _ _ \<Rightarrow> fbind (Some (read_i64 r)) (\<lambda>(_, r). Some (Inr r))
      | TdAlias target_type_id \<Rightarrow>
          fbind (Some (type_at types target_type_id)) (\<lambda>target.
          validate_const_payload_entry fuel strings types target r)
      | TdSubrange base_type_id _ _ \<Rightarrow>
          fbind (Some (type_at types base_type_id)) (\<lambda>base.
          validate_const_payload_entry fuel strings types base r)
      | TdReference _ \<Rightarrow> fbind (Some (read_u32 r)) (\<lambda>(_, r). Some (Inr r))
      | TdPou _ \<Rightarrow> Some (Inl (InvalidSection ''unsupported const type''))
      | TdInterface _ \<Rightarrow> Some (Inl (InvalidSection ''unsupported const type'')))"

definition validate_const_payload ::
    "nat \<Rightarrow> string_table \<Rightarrow> type_table \<Rightarrow> const_entry \<Rightarrow> (bytecode_error, unit) fueled" where
  "validate_const_payload fuel strings types entry =
     fbind (Some (type_at types (ce_type_id entry))) (\<lambda>type_entry.
     fbind (validate_const_payload_entry fuel strings types type_entry
             (reader_new (ce_payload entry))) (\<lambda>r.
     Some (guard (reader_remaining r = 0) (InvalidSection ''const payload length''))))"

fun feach :: "('a \<Rightarrow> ('e, unit) fueled) \<Rightarrow> 'a list \<Rightarrow> ('e, unit) fueled" where
  "feach f [] = Some (Inr ())"
| "feach f (x # xs) = fbind (f x) (\<lambda>_. feach f xs)"

definition validate_const_pool ::
    "nat \<Rightarrow> string_table \<Rightarrow> type_table \<Rightarrow> const_pool \<Rightarrow> (bytecode_error, unit) fueled" where
  "validate_const_pool fuel strings types pool =
     feach (validate_const_payload fuel strings types) (cp_entries pool)"

section \<open>References\<close>

fun validate_segment :: "string_table \<Rightarrow> ref_segment \<Rightarrow> bytecode_error + unit" where
  "validate_segment strings (SegField name_idx) = ensure_string_index strings name_idx"
| "validate_segment strings (SegIndex _) = Inr ()"

definition validate_ref_table ::
    "string_table \<Rightarrow> ref_table \<Rightarrow> bytecode_error + unit" where
  "validate_ref_table strings table =
     each (\<lambda>entry. each (validate_segment strings) (re_segments entry)) (rt_entries table)"

section \<open>Depth of the recursion\<close>

lemma fuel_le_repeat [fuel_intros]:
  assumes "\<And>r. fuel_le (f r) (f' r)"
  shows "fuel_le (repeat_reader n f r) (repeat_reader n f' r)"
  by (induction n arbitrary: r) (auto intro!: fuel_intros assms)

lemma fuel_le_fold [fuel_intros]:
  assumes "\<And>x r. fuel_le (f x r) (f' x r)"
  shows "fuel_le (fold_reader f xs r) (fold_reader f' xs r)"
  by (induction xs arbitrary: r) (auto intro!: fuel_intros assms)

lemma fuel_le_feach [fuel_intros]:
  assumes "\<And>x. fuel_le (f x) (f' x)"
  shows "fuel_le (feach f xs) (feach f' xs)"
  by (induction xs) (auto intro!: fuel_intros assms)

lemma fuel_le_payload_entry [fuel_intros]:
  assumes "n \<le> m"
  shows "fuel_le (validate_const_payload_entry n strings types entry r)
    (validate_const_payload_entry m strings types entry r)"
  using assms
proof (induction n arbitrary: m entry r)
  case 0
  show ?case by (simp add: fuel_le_None)
next
  case (Suc n)
  then obtain m' where m: "m = Suc m'" "n \<le> m'"
    by (cases m) auto
  show ?case
    unfolding m(1) validate_const_payload_entry.simps Let_def
    by (cases "te_data entry"; simp only: type_data.case; intro fuel_intros Suc.IH [OF m(2)])
qed

lemma fuel_le_const_pool:
  "n \<le> m \<Longrightarrow> fuel_le (validate_const_pool n strings types pool)
    (validate_const_pool m strings types pool)"
  unfolding validate_const_pool_def validate_const_payload_def by (intro fuel_intros)

text \<open>
  Only aliases and subranges recurse without reading a byte. \<open>resolves n types entry\<close>: the
  chain of aliases and subranges from \<open>entry\<close> ends, or leaves the table, within \<open>n\<close> steps.
\<close>

fun resolves :: "nat \<Rightarrow> type_table \<Rightarrow> type_entry \<Rightarrow> bool" where
  "resolves 0 types entry =
     (case te_data entry of TdAlias _ \<Rightarrow> False | TdSubrange _ _ _ \<Rightarrow> False | _ \<Rightarrow> True)"
| "resolves (Suc n) types entry =
     (case te_data entry of
        TdAlias t \<Rightarrow> (case type_at types t of Inr e \<Rightarrow> resolves n types e | Inl _ \<Rightarrow> True)
      | TdSubrange t _ _ \<Rightarrow> (case type_at types t of Inr e \<Rightarrow> resolves n types e | Inl _ \<Rightarrow> True)
      | _ \<Rightarrow> True)"

definition alias_free :: "type_table \<Rightarrow> bool" where
  "alias_free types \<longleftrightarrow>
     list_all (resolves (length (tt_entries types)) types) (tt_entries types)"

text \<open>A reader step that returns and does not move back, on every reader with few bytes left.\<close>

definition shrinks :: "nat \<Rightarrow> (reader \<Rightarrow> (bytecode_error, reader) fueled) \<Rightarrow> bool" where
  "shrinks k f \<longleftrightarrow> (\<forall>r. reader_remaining r \<le> k \<longrightarrow>
     (\<exists>y. f r = Some y \<and> (\<forall>r'. y = Inr r' \<longrightarrow> reader_remaining r' \<le> reader_remaining r)))"

lemma shrinks_cong: "(\<And>r. f r = g r) \<Longrightarrow> shrinks k g \<Longrightarrow> shrinks k f"
  by (simp add: shrinks_def)

lemma shrinks_ret: "shrinks k (\<lambda>r. Some (Inr r))"
  by (simp add: shrinks_def)

lemma shrinks_bind:
  assumes "shrinks k f" and "shrinks k g"
  shows "shrinks k (\<lambda>r. fbind (f r) g)"
  unfolding shrinks_def
proof (intro allI impI)
  fix r assume r: "reader_remaining r \<le> k"
  then obtain y where y: "f r = Some y"
    "\<And>r'. y = Inr r' \<Longrightarrow> reader_remaining r' \<le> reader_remaining r"
    using assms(1) unfolding shrinks_def by blast
  show "\<exists>z. fbind (f r) g = Some z \<and>
      (\<forall>r'. z = Inr r' \<longrightarrow> reader_remaining r' \<le> reader_remaining r)"
  proof (cases y)
    case (Inr r1)
    with y(2) r have "reader_remaining r1 \<le> k"
      by force
    then obtain z where "g r1 = Some z"
      "\<And>r'. z = Inr r' \<Longrightarrow> reader_remaining r' \<le> reader_remaining r1"
      using assms(2) unfolding shrinks_def by blast
    with y Inr show ?thesis
      by (auto intro: le_trans)
  qed (simp add: y(1))
qed

lemma shrinks_repeat: "shrinks k f \<Longrightarrow> shrinks k (repeat_reader n f)"
  by (induction n) (simp_all add: shrinks_ret shrinks_bind fun_eq_iff [symmetric]
      repeat_reader.simps [abs_def])

lemma shrinks_fold:
  assumes "\<And>x. x \<in> set xs \<Longrightarrow> shrinks k (f x)"
  shows "shrinks k (fold_reader f xs)"
  using assms
  by (induction xs) (simp_all add: shrinks_ret shrinks_bind fold_reader.simps [abs_def])

lemma remaining_read_bytes:
  "read_bytes n r = Inr (bs, r') \<Longrightarrow> reader_remaining r' = reader_remaining r - n"
  "read_bytes n r = Inr (bs, r') \<Longrightarrow> n \<le> reader_remaining r \<or> n = 0"
  by (auto simp: read_bytes_def reader_remaining_def split: if_splits)

lemma remaining_read_word:
  "read_u8 r = Inr (a, r') \<Longrightarrow> reader_remaining r' < reader_remaining r"
  "read_u16 r = Inr (b, r') \<Longrightarrow> reader_remaining r' < reader_remaining r"
  "read_u32 r = Inr (c, r') \<Longrightarrow> reader_remaining r' < reader_remaining r"
  "read_u64 r = Inr (d, r') \<Longrightarrow> reader_remaining r' < reader_remaining r"
  "read_i64 r = Inr (d, r') \<Longrightarrow> reader_remaining r' < reader_remaining r"
  by (auto simp: read_u8_def read_u16_def read_u32_def read_u64_def read_i64_def rbind_eq_Inr
      read_bytes_def reader_remaining_def split: if_splits)

lemma shrinks_read:
  assumes "\<And>r x r'. d r = Inr (x, r') \<Longrightarrow> reader_remaining r' < reader_remaining r"
    and "\<And>x k'. k = Suc k' \<Longrightarrow> shrinks k' (f x)"
  shows "shrinks k (\<lambda>r. fbind (Some (d r)) (\<lambda>(x, r). f x r))"
  unfolding shrinks_def
proof (intro allI impI)
  fix r assume r: "reader_remaining r \<le> k"
  show "\<exists>y. fbind (Some (d r)) (\<lambda>(x, r). f x r) = Some y \<and>
      (\<forall>r'. y = Inr r' \<longrightarrow> reader_remaining r' \<le> reader_remaining r)"
  proof (cases "d r")
    case (Inr p)
    then obtain x r1 where x: "d r = Inr (x, r1)"
      by (cases p) auto
    with assms(1) have less: "reader_remaining r1 < reader_remaining r" .
    with r obtain k' where "k = Suc k'" "reader_remaining r1 \<le> k'"
      by (cases k) auto
    with assms(2) obtain y where "f x r1 = Some y"
      "\<And>r'. y = Inr r' \<Longrightarrow> reader_remaining r' \<le> reader_remaining r1"
      unfolding shrinks_def by blast
    with x less show ?thesis
      by (auto intro: le_trans less_imp_le)
  qed simp
qed

lemma shrinks_check: "(\<And>x. m = Inr x \<Longrightarrow> shrinks k (f x)) \<Longrightarrow> shrinks k (\<lambda>r. fbind (Some m) (\<lambda>x. f x r))"
  by (cases m) (simp_all add: shrinks_def)

lemma shrinks_fail: "shrinks k (\<lambda>r. Some (Inl e))"
  by (simp add: shrinks_def)

lemma shrinks_primitive: "shrinks k (\<lambda>r. Some (read_primitive strings p r))"
  unfolding shrinks_def read_primitive_def
  by (auto simp: rbind_eq_Inr dest!: remaining_read_word)

lemma type_at_resolves:
  "alias_free types \<Longrightarrow> type_at types t = Inr e \<Longrightarrow> resolves (length (tt_entries types)) types e"
  by (auto simp: alias_free_def list_all_iff check_simps)

lemma payload_entry_shrinks:
  assumes "alias_free types" and "resolves d types entry"
    and "k * Suc (length (tt_entries types)) + d < fuel"
  shows "shrinks k (validate_const_payload_entry fuel strings types entry)"
  using assms(2,3)
proof (induction fuel arbitrary: k d entry)
  case (Suc fuel)
  let ?N = "length (tt_entries types)"
  let ?v = "validate_const_payload_entry fuel strings types"
  have inner: "shrinks k' (?v e)" if "k = Suc k'" "type_at types t = Inr e" for k' t e
    using Suc.prems(2) that(1)
    by (intro Suc.IH [OF type_at_resolves [OF assms(1) that(2)]]) simp
  have flds: "shrinks k (\<lambda>r. fbind (Some (read_u32 r)) (\<lambda>(count, r).
      fbind (Some (guard (unat count = length flds) err)) (\<lambda>_.
      fold_reader (\<lambda>fld r. fbind (Some (type_at types (fd_type_id fld))) (\<lambda>t. ?v t r)) flds r)))"
    for flds err
    by (rule shrinks_read, erule remaining_read_word)
      (intro shrinks_check shrinks_fold inner)
  have chain: "shrinks k (\<lambda>r. fbind (Some (type_at types t)) (\<lambda>e. ?v e r))"
    if res: "case type_at types t of Inr e \<Rightarrow> resolves d' types e | Inl _ \<Rightarrow> True" and d: "d = Suc d'"
    for t d'
    using res d Suc.prems(2) by (intro shrinks_check Suc.IH [of d']) simp_all
  show ?case
  proof (cases "te_data entry")
    case (TdArray t ds)
    show ?thesis
      by (rule shrinks_cong, unfold validate_const_payload_entry.simps Let_def TdArray
          type_data.case, rule refl, rule shrinks_read, erule remaining_read_word)
        (intro shrinks_check shrinks_repeat inner)
  next
    case (TdAlias t)
    with Suc.prems(1) obtain d' where "d = Suc d'"
      "case type_at types t of Inr e \<Rightarrow> resolves d' types e | Inl _ \<Rightarrow> True"
      by (cases d) auto
    then show ?thesis
      by (intro shrinks_cong [OF _ chain])
        (simp_all only: validate_const_payload_entry.simps Let_def TdAlias type_data.case)
  next
    case (TdSubrange t l u)
    with Suc.prems(1) obtain d' where "d = Suc d'"
      "case type_at types t of Inr e \<Rightarrow> resolves d' types e | Inl _ \<Rightarrow> True"
      by (cases d) auto
    then show ?thesis
      by (intro shrinks_cong [OF _ chain])
        (simp_all only: validate_const_payload_entry.simps Let_def TdSubrange type_data.case)
  qed (rule shrinks_cong, rule validate_const_payload_entry.simps(2),
      simp only: Let_def type_data.case, auto intro: flds shrinks_primitive shrinks_fail shrinks_read [OF remaining_read_word(3)]
        shrinks_read [OF remaining_read_word(5)] shrinks_ret)
qed simp

text \<open>The depth that is enough for a payload of \<open>n\<close> bytes.\<close>

definition payload_fuel :: "type_table \<Rightarrow> nat \<Rightarrow> nat" where
  "payload_fuel types n = Suc (n * Suc (length (tt_entries types)) + length (tt_entries types))"

lemma validate_const_payload_returns:
  assumes "alias_free types" and "payload_fuel types (length (ce_payload entry)) \<le> fuel"
  shows "validate_const_payload fuel strings types entry \<noteq> None"
proof (cases "type_at types (ce_type_id entry)")
  case (Inr e)
  have "shrinks (length (ce_payload entry)) (validate_const_payload_entry fuel strings types e)"
    using assms(2)
    by (intro payload_entry_shrinks [OF assms(1) type_at_resolves [OF assms(1) Inr]])
      (simp add: payload_fuel_def)
  then obtain y where "validate_const_payload_entry fuel strings types e
      (reader_new (ce_payload entry)) = Some y"
    unfolding shrinks_def by (force simp: reader_new_at)
  with Inr show ?thesis
    by (cases y) (simp_all add: validate_const_payload_def)
qed (simp add: validate_const_payload_def)

lemma feach_not_None: "(\<And>x. x \<in> set xs \<Longrightarrow> f x \<noteq> None) \<Longrightarrow> feach f xs \<noteq> None"
  by (induction xs) (auto simp: fbind_eq_None)

lemma feach_eq_ok: "feach f xs = Some (Inr u) \<longleftrightarrow> (\<forall>x\<in>set xs. f x = Some (Inr ()))"
  by (induction xs) (auto simp: fbind_eq_ok)

definition pool_fuel :: "type_table \<Rightarrow> const_pool \<Rightarrow> nat" where
  "pool_fuel types pool =
     payload_fuel types (Max (insert 0 (set (map (length \<circ> ce_payload) (cp_entries pool)))))"

lemma validate_const_pool_returns:
  assumes "alias_free types" and "pool_fuel types pool \<le> fuel"
  shows "validate_const_pool fuel strings types pool \<noteq> None"
  unfolding validate_const_pool_def
proof (rule feach_not_None)
  fix e assume "e \<in> set (cp_entries pool)"
  then have "length (ce_payload e) \<le> Max (insert 0 (set (map (length \<circ> ce_payload) (cp_entries pool))))"
    by (intro Max_ge) auto
  then have "payload_fuel types (length (ce_payload e)) \<le> pool_fuel types pool"
    unfolding payload_fuel_def pool_fuel_def by (simp add: add_mono)
  with assms show "validate_const_payload fuel strings types e \<noteq> None"
    by (intro validate_const_payload_returns) auto
qed

text \<open>An alias whose target is its own entry keeps recursing at every depth.\<close>

lemma self_alias_diverges:
  assumes "type_at types t = Inr entry" and "te_data entry = TdAlias t"
  shows "validate_const_payload_entry fuel strings types entry r = None"
  using assms by (induction fuel arbitrary: r) simp_all

end
