(* ===== verification/Bytecode_Code.thy ===== *)
theory Bytecode_Code
  imports Bytecode_Checks
begin

text \<open>
  \<open>validate_instruction_stream\<close> of \<open>bytecode/validate.rs\<close>: the instruction scan and the check of
  the jump targets, and what an accepted stream guarantees to an interpreter of it: control
  that starts at its first byte stays on instructions that are complete and known.
\<close>

section \<open>Instruction streams\<close>

definition plain_opcodes :: "byte list" where
  "plain_opcodes =
     [0x00, 0x01, 0x06, 0x11, 0x12, 0x13, 0x14, 0x15, 0x31, 0x32, 0x33, 0x40, 0x41, 0x42, 0x43,
      0x44, 0x45, 0x46, 0x47, 0x48, 0x49, 0x4A, 0x4B, 0x4C, 0x4D, 0x4E, 0x50, 0x51, 0x52, 0x53,
      0x54, 0x55]"

definition check_call_virtual ::
    "type_table \<Rightarrow> u32 \<Rightarrow> u32 \<Rightarrow> bytecode_error + unit" where
  "check_call_virtual types interface_type_id slot =
     rbind (type_at types interface_type_id) (\<lambda>entry.
     rbind (guard (te_kind entry = TkInterface)
             (InvalidSection ''CALL_VIRTUAL expects interface type'')) (\<lambda>_.
     case te_data entry of
       TdInterface methods \<Rightarrow>
         guard (\<not> length methods \<le> unat slot) (InvalidSection ''CALL_VIRTUAL slot out of range'')
     | _ \<Rightarrow> Inr ()))"

text \<open>
  One iteration of the loop of \<open>validate_instruction_stream\<close>: the jump that the instruction at
  \<open>pc\<close> pushes, if any, and the reader behind it.
\<close>

definition scan_instruction ::
    "pou_index \<Rightarrow> type_table \<Rightarrow> (i32 \<times> i32) option decoder" where
  "scan_instruction index types r =
     (let pc = reader_pos r in
      rbind (read_u8 r) (\<lambda>(opcode, r).
      if opcode \<in> set plain_opcodes then Inr (None, r)
      else if 0x02 \<le> opcode \<and> opcode \<le> 0x04 then
        rbind (read_i32 r) (\<lambda>(offset, r). Inr (Some (word_of_nat pc, offset), r))
      else if opcode = 0x05 then
        rbind (read_u32 r) (\<lambda>(pou_id, r).
        rbind (ensure_pou_id index pou_id) (\<lambda>_. Inr (None, r)))
      else if opcode = 0x07 then rbind (read_u32 r) (\<lambda>(_, r). Inr (None, r))
      else if opcode = 0x08 then
        rbind (read_u32 r) (\<lambda>(interface_type_id, r).
        rbind (read_u32 r) (\<lambda>(slot, r).
        rbind (check_call_virtual types interface_type_id slot) (\<lambda>_. Inr (None, r))))
      else if opcode = 0x10 then rbind (read_u32 r) (\<lambda>(_, r). Inr (None, r))
      else if opcode = 0x16 then rbind (read_u8 r) (\<lambda>(_, r). Inr (None, r))
      else if 0x20 \<le> opcode \<and> opcode \<le> 0x22 then rbind (read_u32 r) (\<lambda>(_, r). Inr (None, r))
      else if opcode = 0x23 then Inr (None, r)
      else if opcode = 0x30 then rbind (read_u32 r) (\<lambda>(_, r). Inr (None, r))
      else if opcode = 0x60 then
        rbind (read_u32 r) (\<lambda>(type_id, r).
        rbind (ensure_type_index types type_id) (\<lambda>_. Inr (None, r)))
      else if opcode = 0x70 then rbind (read_u32 r) (\<lambda>(_, r). Inr (None, r))
      else Inl (InvalidOpcode opcode)))"

text \<open>
  The instruction set as the format specification gives it (\<open>docs/specs/10-runtime.md\<close>,
  section 7.3): the length of the operands of each opcode.
\<close>

definition operand_length :: "byte \<Rightarrow> nat option" where
  "operand_length opcode =
     (if opcode \<in> set plain_opcodes \<or> opcode = 0x23 then Some 0
      else if opcode \<in> {0x02, 0x03, 0x04, 0x05, 0x07, 0x10, 0x20, 0x21, 0x22, 0x30, 0x60, 0x70}
        then Some 4
      else if opcode = 0x08 then Some 8
      else if opcode = 0x16 then Some 1
      else None)"

definition is_jump :: "byte \<Rightarrow> bool" where
  "is_jump opcode \<longleftrightarrow> opcode \<in> {0x02, 0x03, 0x04}"

definition operand_at :: "byte list \<Rightarrow> nat \<Rightarrow> u32" where
  "operand_at code pos = from_le (take 4 (drop pos code))"

lemma read_ok:
  "read_u8 r = Inr (a, r') \<longleftrightarrow> rd_cursor r + 1 \<le> length (rd_data r) \<and>
     a = rd_data r ! rd_cursor r \<and> r' = r\<lparr>rd_cursor := rd_cursor r + 1\<rparr>"
  "read_u32 r = Inr (b, r') \<longleftrightarrow> rd_cursor r + 4 \<le> length (rd_data r) \<and>
     b = operand_at (rd_data r) (rd_cursor r) \<and> r' = r\<lparr>rd_cursor := rd_cursor r + 4\<rparr>"
  "read_i32 r = Inr (b, r') \<longleftrightarrow> rd_cursor r + 4 \<le> length (rd_data r) \<and>
     b = operand_at (rd_data r) (rd_cursor r) \<and> r' = r\<lparr>rd_cursor := rd_cursor r + 4\<rparr>"
  by (auto simp: read_u8_def read_u32_def read_i32_def rbind_eq_Inr read_bytes_def operand_at_def
      split: if_splits)

lemma opcode_ranges:
  fixes opcode :: byte
  shows "0x02 \<le> opcode \<and> opcode \<le> 0x04 \<longleftrightarrow> opcode \<in> {0x02, 0x03, 0x04}"
    and "0x20 \<le> opcode \<and> opcode \<le> 0x22 \<longleftrightarrow> opcode \<in> {0x20, 0x21, 0x22}"
  by (auto simp: word_le_nat_alt word_unat_eq_iff)

text \<open>An instruction that the scan passes is complete, and its references are known.\<close>

definition instruction_ok :: "pou_index \<Rightarrow> type_table \<Rightarrow> byte list \<Rightarrow> nat \<Rightarrow> bool" where
  "instruction_ok index types code pos \<longleftrightarrow>
     (case operand_length (code ! pos) of None \<Rightarrow> False | Some n \<Rightarrow> pos + 1 + n \<le> length code) \<and>
     (code ! pos = 0x05 \<longrightarrow>
       (\<exists>pou\<in>set (pi_entries index). pe_id pou = operand_at code (pos + 1))) \<and>
     (code ! pos = 0x08 \<longrightarrow>
       check_call_virtual types (operand_at code (pos + 1)) (operand_at code (pos + 5)) = Inr ()) \<and>
     (code ! pos = 0x60 \<longrightarrow> unat (operand_at code (pos + 1)) < length (tt_entries types))"

definition next_pos :: "byte list \<Rightarrow> nat \<Rightarrow> nat" where
  "next_pos code pos =
     pos + 1 + (case operand_length (code ! pos) of None \<Rightarrow> 0 | Some n \<Rightarrow> n)"

definition jump_at :: "byte list \<Rightarrow> nat \<Rightarrow> (i32 \<times> i32) option" where
  "jump_at code pos =
     (if is_jump (code ! pos) then Some (word_of_nat pos, operand_at code (pos + 1)) else None)"

lemma plain_opcode:
  assumes "opcode \<in> set plain_opcodes"
  shows "operand_length opcode = Some 0" and "\<not> is_jump opcode"
    and "opcode \<noteq> 0x05" and "opcode \<noteq> 0x08" and "opcode \<noteq> 0x60"
  using assms by (auto simp: plain_opcodes_def operand_length_def is_jump_def)

lemma operand_length_simps [simp]:
  "opcode \<in> {0x02, 0x03, 0x04, 0x05, 0x07, 0x10, 0x20, 0x21, 0x22, 0x30, 0x60, 0x70} \<Longrightarrow>
    operand_length opcode = Some 4"
  "operand_length 0x08 = Some 8"
  "operand_length 0x16 = Some 1"
  "operand_length 0x23 = Some 0"
  by (auto simp: plain_opcodes_def operand_length_def)

lemma scan_instruction_ok:
  assumes "scan_instruction index types r = Inr (j, r')"
  shows "rd_cursor r < length (rd_data r)"
    and "instruction_ok index types (rd_data r) (rd_cursor r)"
    and "r' = r\<lparr>rd_cursor := next_pos (rd_data r) (rd_cursor r)\<rparr>"
    and "j = jump_at (rd_data r) (rd_cursor r)"
proof -
  define opcode where "opcode = rd_data r ! rd_cursor r"
  have facts: "rd_cursor r < length (rd_data r) \<and>
      instruction_ok index types (rd_data r) (rd_cursor r) \<and>
      r' = r\<lparr>rd_cursor := next_pos (rd_data r) (rd_cursor r)\<rparr> \<and>
      j = jump_at (rd_data r) (rd_cursor r)"
    using assms plain_opcode [of opcode]
    unfolding scan_instruction_def Let_def opcode_ranges instruction_ok_def next_pos_def jump_at_def
    by (auto simp: rbind_eq_Inr read_ok opcode_def [symmetric] check_simps is_jump_def
        reader_pos_def add.commute [of 5 "rd_cursor r"] split: if_splits)
  then show "rd_cursor r < length (rd_data r)"
    and "instruction_ok index types (rd_data r) (rd_cursor r)"
    and "r' = r\<lparr>rd_cursor := next_pos (rd_data r) (rd_cursor r)\<rparr>"
    and "j = jump_at (rd_data r) (rd_cursor r)"
    by blast+
qed

section \<open>The scan and the jump check\<close>

function scan_stream ::
    "pou_index \<Rightarrow> type_table \<Rightarrow> reader \<Rightarrow> i32 list \<Rightarrow> (i32 \<times> i32) list \<Rightarrow>
      bytecode_error + i32 list \<times> (i32 \<times> i32) list" where
  "scan_stream index types r starts jumps =
     (if 0 < reader_remaining r then
        let pc = reader_pos r; starts = starts @ [word_of_nat pc] in
        rbind (scan_instruction index types r) (\<lambda>(jump, r).
        scan_stream index types r starts
          (case jump of None \<Rightarrow> jumps | Some j \<Rightarrow> jumps @ [j]))
      else Inr (starts, jumps))"
  by pat_completeness auto

lemma next_pos_greater: "pos < next_pos code pos"
  by (simp add: next_pos_def)

lemma scan_instruction_remaining:
  "scan_instruction index types r = Inr (j, r') \<Longrightarrow> reader_remaining r' < reader_remaining r"
  using scan_instruction_ok(1,3) [of index types r j r'] next_pos_greater
  by (auto simp: reader_remaining_def intro: diff_less_mono2)

termination scan_stream
  by (relation "measure (\<lambda>(_, _, r, _, _). reader_remaining r)")
    (auto dest: scan_instruction_remaining)

declare scan_stream.simps [simp del]

definition check_jump :: "i32 \<Rightarrow> i32 list \<Rightarrow> i32 \<times> i32 \<Rightarrow> bytecode_error + unit" where
  "check_jump code_len start_set jump =
     (let target = fst jump + 1 + 4 + snd jump
      in if sint target < 0 \<or> sint code_len < sint target then Inl (InvalidJumpTarget target)
         else if target \<noteq> code_len \<and> target \<notin> set start_set then Inl (InvalidJumpTarget target)
         else Inr ())"

definition validate_instruction_stream ::
    "pou_index \<Rightarrow> type_table \<Rightarrow> nat \<Rightarrow> byte list \<Rightarrow> bytecode_error + unit" where
  "validate_instruction_stream index types base code =
     rbind (scan_stream index types (reader_new code) [] []) (\<lambda>(starts, jumps).
     each (check_jump (word_of_nat (length code)) starts) jumps)"

text \<open>The positions where the scan finds an instruction.\<close>

function instruction_starts :: "byte list \<Rightarrow> nat \<Rightarrow> nat list" where
  "instruction_starts code pos =
     (if pos < length code then pos # instruction_starts code (next_pos code pos) else [])"
  by pat_completeness auto

termination instruction_starts
proof (relation "measure (\<lambda>(code, pos). length code - pos)")
  fix code :: "byte list" and pos
  assume "pos < length code"
  with next_pos_greater [of pos code]
  show "((code, next_pos code pos), code, pos) \<in> measure (\<lambda>(code, pos). length code - pos)"
    by (simp add: diff_less_mono2)
qed simp

declare instruction_starts.simps [simp del]

lemma scan_stream_ok:
  assumes "scan_stream index types r starts jumps = Inr (starts', jumps')"
    and "rd_cursor r \<le> length (rd_data r)"
  shows "starts' = starts @ map word_of_nat (instruction_starts (rd_data r) (rd_cursor r)) \<and>
    jumps' = jumps @ List.map_filter (jump_at (rd_data r))
      (instruction_starts (rd_data r) (rd_cursor r)) \<and>
    (\<forall>pos\<in>set (instruction_starts (rd_data r) (rd_cursor r)).
      instruction_ok index types (rd_data r) pos)"
  using assms
proof (induction index types r starts jumps rule: scan_stream.induct)
  case (1 index types r starts jumps)
  let ?code = "rd_data r" and ?pos = "rd_cursor r"
  show ?case
  proof (cases "0 < reader_remaining r")
    case True
    then have less: "?pos < length ?code"
      by (simp add: reader_remaining_def)
    obtain j r1 where scan: "scan_instruction index types r = Inr (j, r1)"
      and rest: "scan_stream index types r1 (starts @ [word_of_nat ?pos])
        (case j of None \<Rightarrow> jumps | Some j \<Rightarrow> jumps @ [j]) = Inr (starts', jumps')"
      using 1(2) True
      by (subst (asm) scan_stream.simps) (auto simp: Let_def rbind_eq_Inr reader_pos_def)
    note ok = scan_instruction_ok [OF scan]
    have next_le: "next_pos ?code ?pos \<le> length ?code"
      using ok(2) by (auto simp: instruction_ok_def next_pos_def split: option.splits)
    have r1: "rd_data r1 = ?code" "rd_cursor r1 = next_pos ?code ?pos"
      using ok(3) by simp_all
    have IH: "starts' = (starts @ [word_of_nat ?pos]) @
          map word_of_nat (instruction_starts ?code (next_pos ?code ?pos)) \<and>
        jumps' = (case j of None \<Rightarrow> jumps | Some j \<Rightarrow> jumps @ [j]) @
          List.map_filter (jump_at ?code) (instruction_starts ?code (next_pos ?code ?pos)) \<and>
        (\<forall>pos\<in>set (instruction_starts ?code (next_pos ?code ?pos)).
          instruction_ok index types ?code pos)"
      using 1(1) [OF True refl refl scan refl] rest r1 next_le
      by (simp add: reader_pos_def)
    with ok(2,4) less show ?thesis
      by (subst (1 2 3) instruction_starts.simps)
        (auto simp: map_filter_simps split: option.splits)
  next
    case False
    then have "\<not> ?pos < length ?code"
      by (simp add: reader_remaining_def)
    with 1(2) False show ?thesis
      by (subst (asm) scan_stream.simps, subst (1 2 3) instruction_starts.simps)
        (simp add: map_filter_simps)
  qed
qed

section \<open>Control flow over an accepted stream\<close>

text \<open>
  The positions that an interpreter of the stream can come to: its first byte, the position
  behind an instruction, and the target of a jump, whose \<open>i32\<close> offset is relative to the next
  instruction (\<open>docs/specs/10-runtime.md\<close>, section 7.2). Positions are integers here, so the
  wrap-around of the check's \<open>i32\<close> arithmetic does not occur in the specification.
\<close>

inductive reaches :: "byte list \<Rightarrow> int \<Rightarrow> bool" for code where
  reaches_start: "reaches code 0"
| reaches_next:
    "reaches code pc \<Longrightarrow> 0 \<le> pc \<Longrightarrow> pc < int (length code) \<Longrightarrow>
      operand_length (code ! nat pc) = Some n \<Longrightarrow> reaches code (pc + 1 + int n)"
| reaches_jump:
    "reaches code pc \<Longrightarrow> 0 \<le> pc \<Longrightarrow> pc < int (length code) \<Longrightarrow> is_jump (code ! nat pc) \<Longrightarrow>
      reaches code (pc + 5 + sint (operand_at code (nat pc + 1)))"

lemma instruction_starts_closed:
  "p \<in> set (instruction_starts code q) \<Longrightarrow>
    p < length code \<and>
    (next_pos code p \<in> set (instruction_starts code q) \<or> length code \<le> next_pos code p)"
proof (induction code q rule: instruction_starts.induct)
  case (1 code q)
  show ?case
  proof (cases "q < length code")
    case True
    have first: "next_pos code q \<in> set (instruction_starts code (next_pos code q)) \<or>
        length code \<le> next_pos code q"
      by (subst instruction_starts.simps) auto
    with 1 True show ?thesis
      by (subst (asm) instruction_starts.simps, subst instruction_starts.simps) auto
  next
    case False
    with 1(2) show ?thesis
      by (subst (asm) instruction_starts.simps) simp
  qed
qed

lemma jump_target_exact:
  fixes off :: i32
  assumes "p + 5 < 2 ^ 31" and "0 \<le> sint (word_of_nat p + 1 + 4 + off :: i32)"
  shows "sint (word_of_nat p + 1 + 4 + off :: i32) = int p + 5 + sint off"
proof -
  define x where "x = int p + 5 + sint off"
  have word: "word_of_nat p + 1 + 4 + off = (word_of_int x :: i32)"
    by (simp add: x_def)
  have bounds: "- (2 ^ 31) \<le> x" "x < 2 ^ 32"
    using assms(1) sint_ge [of off] sint_lt [of off] by (auto simp: x_def)
  have "x < 2 ^ 31"
  proof (rule ccontr)
    assume "\<not> x < 2 ^ 31"
    have "(word_of_int x :: i32) = word_of_int (x - 2 ^ 32)"
      by (simp add: word_of_int_eq_iff take_bit_eq_mod)
    moreover have "sint (word_of_int (x - 2 ^ 32) :: i32) = x - 2 ^ 32"
      using bounds \<open>\<not> x < 2 ^ 31\<close>
      by (intro sint_of_int_id) (auto simp: signed_min_def signed_max_def)
    ultimately have "sint (word_of_int x :: i32) = x - 2 ^ 32"
      by (simp only:)
    with assms(2) bounds(2) show False
      unfolding word by linarith
  qed
  then have "sint (word_of_int x :: i32) = x"
    using bounds by (intro sint_of_int_id) (auto simp: signed_min_def signed_max_def)
  then show ?thesis
    unfolding word by (simp only: x_def)
qed

lemma sint_of_small_nat: "n < 2 ^ 31 \<Longrightarrow> sint (word_of_nat n :: i32) = int n"
  using sint_of_int_id [of "int n", where 'a = 32] by (simp add: signed_min_def signed_max_def)

lemma stream_accepted:
  assumes "validate_instruction_stream index types base code = Inr ()"
  shows "\<forall>p\<in>set (instruction_starts code 0). instruction_ok index types code p"
    and "p \<in> set (instruction_starts code 0) \<Longrightarrow> is_jump (code ! p) \<Longrightarrow>
      check_jump (word_of_nat (length code)) (map word_of_nat (instruction_starts code 0))
        (word_of_nat p, operand_at code (p + 1)) = Inr ()"
proof -
  obtain starts jumps where scan: "scan_stream index types (reader_new code) [] [] = Inr (starts, jumps)"
    and jumps: "\<forall>j\<in>set jumps. check_jump (word_of_nat (length code)) starts j = Inr ()"
    using assms by (auto simp: validate_instruction_stream_def rbind_eq_Inr each_eq_Inr)
  note ok = scan_stream_ok [OF scan]
  show "\<forall>p\<in>set (instruction_starts code 0). instruction_ok index types code p"
    using ok by (simp add: reader_new_def)
  show "check_jump (word_of_nat (length code)) (map word_of_nat (instruction_starts code 0))
      (word_of_nat p, operand_at code (p + 1)) = Inr ()"
    if "p \<in> set (instruction_starts code 0)" "is_jump (code ! p)"
  proof -
    have "(word_of_nat p, operand_at code (p + 1)) \<in> set jumps"
      using ok that by (force simp: reader_new_def List.map_filter_def jump_at_def)
    with ok jumps show ?thesis
      by (simp add: reader_new_def)
  qed
qed

lemma reaches_starts:
  assumes "validate_instruction_stream index types base code = Inr ()"
    and "length code < 2 ^ 31" and "reaches code pc"
  shows "pc = int (length code) \<or> 0 \<le> pc \<and> nat pc \<in> set (instruction_starts code 0)"
  using assms(3)
proof (induction rule: reaches.induct)
  case reaches_start
  show ?case
    by (cases code) (auto simp: instruction_starts.simps [of _ 0])
next
  case (reaches_next pc n)
  then have p: "nat pc \<in> set (instruction_starts code 0)"
    by auto
  have "next_pos code (nat pc) = nat (pc + 1 + int n)"
    using reaches_next by (simp add: next_pos_def nat_add_distrib)
  moreover have "next_pos code (nat pc) \<le> length code"
    using stream_accepted(1) [OF assms(1)] p
    by (auto simp: instruction_ok_def next_pos_def split: option.splits)
  ultimately show ?case
    using instruction_starts_closed [OF p] reaches_next by auto
next
  case (reaches_jump pc)
  define p where "p = nat pc"
  define off where "off = operand_at code (p + 1)"
  have p: "p \<in> set (instruction_starts code 0)" "is_jump (code ! p)" "pc = int p"
    using reaches_jump by (auto simp: p_def)
  then have "instruction_ok index types code p"
    using stream_accepted(1) [OF assms(1)] by blast
  with p(2) have len: "p + 5 \<le> length code"
    by (auto simp: instruction_ok_def is_jump_def)
  have jump: "check_jump (word_of_nat (length code))
      (map word_of_nat (instruction_starts code 0)) (word_of_nat p, off) = Inr ()"
    using stream_accepted(2) [OF assms(1) p(1,2)] by (simp add: off_def)
  define target :: i32 where "target = word_of_nat p + 1 + 4 + off"
  have ok: "0 \<le> sint target"
    "target = word_of_nat (length code) \<or> target \<in> word_of_nat ` set (instruction_starts code 0)"
    using jump by (auto simp: check_jump_def Let_def target_def split: if_splits)
  then have exact: "sint target = pc + 5 + sint off"
    using jump_target_exact [of p off] len assms(2) p(3) by (simp add: target_def)
  have small: "sint (word_of_nat q :: i32) = int q" if "q \<in> set (instruction_starts code 0)" for q
    using that instruction_starts_closed [OF that] assms(2) by (intro sint_of_small_nat) linarith
  from ok(2) show ?case
    using exact small sint_of_small_nat [OF assms(2)]
    by (auto simp: p_def off_def) (metis nat_int)
qed

lemma accepted_flow:
  assumes "validate_instruction_stream index types base code = Inr ()"
    and "length code < 2 ^ 31" and "reaches code pc"
  shows "0 \<le> pc \<and> pc \<le> int (length code) \<and>
    (pc < int (length code) \<longrightarrow> instruction_ok index types code (nat pc))"
  using reaches_starts [OF assms] stream_accepted(1) [OF assms(1)]
    instruction_starts_closed [of "nat pc" code 0]
  by auto

end
