(* ===== verification/Bytecode_Validate.thy ===== *)
theory Bytecode_Validate
  imports Bytecode_Code
begin

text \<open>
  The remaining checks of \<open>bytecode/validate.rs\<close> and \<open>BytecodeModule::validate\<close>, which runs
  them in the order of the source. The fuel is the recursion depth of the constant check.
\<close>

section \<open>Program organisation units\<close>

definition validate_interface_impl ::
    "type_table \<Rightarrow> interface_impl \<Rightarrow> bytecode_error + unit" where
  "validate_interface_impl types i =
     rbind (ensure_type_index types (ii_interface_type_id i)) (\<lambda>_.
     rbind (type_at types (ii_interface_type_id i)) (\<lambda>interface_entry.
     rbind (guard (te_kind interface_entry = TkInterface)
             (InvalidSection ''interface mapping expects interface type'')) (\<lambda>_.
     case te_data interface_entry of
       TdInterface methods \<Rightarrow>
         guard (length (ii_vtable_slots i) = length methods)
           (InvalidSection ''interface mapping slot mismatch'')
     | _ \<Rightarrow> Inr ())))"

definition validate_class_meta ::
    "string_table \<Rightarrow> type_table \<Rightarrow> pou_index \<Rightarrow> pou_class_meta \<Rightarrow> bytecode_error + unit" where
  "validate_class_meta strings types index meta =
     rbind (when_some (cm_parent_pou_id meta) (ensure_pou_id index)) (\<lambda>_.
     rbind (each (validate_interface_impl types) (cm_interfaces meta)) (\<lambda>_.
     each (\<lambda>m. rbind (ensure_string_index strings (me_name_idx m)) (\<lambda>_.
       ensure_pou_id index (me_pou_id m))) (cm_methods meta)))"

definition validate_param ::
    "string_table \<Rightarrow> type_table \<Rightarrow> const_pool \<Rightarrow> param_entry \<Rightarrow> bytecode_error + unit" where
  "validate_param strings types pool param =
     rbind (ensure_string_index strings (pa_name_idx param)) (\<lambda>_.
     rbind (ensure_type_index types (pa_type_id param)) (\<lambda>_.
     when_some (pa_default_const_idx param) (ensure_const_index pool)))"

definition pou_code :: "byte list \<Rightarrow> pou_entry \<Rightarrow> byte list" where
  "pou_code bodies entry =
     take (unat (pe_code_length entry)) (drop (unat (pe_code_offset entry)) bodies)"

definition validate_pou ::
    "string_table \<Rightarrow> type_table \<Rightarrow> const_pool \<Rightarrow> pou_index \<Rightarrow> byte list \<Rightarrow> pou_entry \<Rightarrow>
      bytecode_error + unit" where
  "validate_pou strings types pool index bodies entry =
     rbind (ensure_string_index strings (pe_name_idx entry)) (\<lambda>_.
     rbind (when_some (pe_return_type_id entry) (ensure_type_index types)) (\<lambda>_.
     rbind (when_some (pe_owner_pou_id entry) (ensure_pou_id index)) (\<lambda>_.
     rbind (each (validate_param strings types pool) (pe_params entry)) (\<lambda>_.
     rbind (when_some (pe_class_meta entry) (validate_class_meta strings types index)) (\<lambda>_.
     let start = unat (pe_code_offset entry);
         end_off = start + unat (pe_code_length entry)
     in rbind (guard (end_off \<le> length bodies) (InvalidSection ''POU code out of bounds'')) (\<lambda>_.
        validate_instruction_stream index types start (pou_code bodies entry)))))))"

definition validate_pou_index ::
    "string_table \<Rightarrow> type_table \<Rightarrow> const_pool \<Rightarrow> pou_index \<Rightarrow> byte list \<Rightarrow> bytecode_error + unit"
where
  "validate_pou_index strings types pool index bodies =
     each (validate_pou strings types pool index bodies) (pi_entries index)"

section \<open>Resources, bindings, variables\<close>

definition program_names ::
    "string_table \<Rightarrow> pou_index \<Rightarrow> bytecode_error + rstr list" where
  "program_names strings index =
     collect (\<lambda>entry. rbind (string_at strings (pe_name_idx entry)) (\<lambda>name.
       Inr (to_ascii_uppercase name)))
       (filter (\<lambda>entry. pe_kind entry = PkProgram) (pi_entries index))"

definition validate_task ::
    "string_table \<Rightarrow> ref_table \<Rightarrow> rstr list \<Rightarrow> task_entry \<Rightarrow> bytecode_error + unit" where
  "validate_task strings table names task =
     rbind (ensure_string_index strings (tk_name_idx task)) (\<lambda>_.
     rbind (when_some (tk_single_name_idx task) (ensure_string_index strings)) (\<lambda>_.
     rbind (each (\<lambda>idx.
         rbind (ensure_string_index strings idx) (\<lambda>_.
         rbind (string_at strings idx) (\<lambda>name.
         guard (to_ascii_uppercase name \<in> set names)
           (InvalidSection (''task references unknown program '' @ [CHR 0x27] @ name @ [CHR 0x27])))))
       (tk_program_name_idx task)) (\<lambda>_.
     each (ensure_ref_index table) (tk_fb_ref_idx task))))"

definition validate_resource_meta ::
    "string_table \<Rightarrow> ref_table \<Rightarrow> pou_index \<Rightarrow> resource_meta \<Rightarrow> bytecode_error + unit" where
  "validate_resource_meta strings table index meta =
     rbind (program_names strings index) (\<lambda>names.
     each (\<lambda>resource.
       rbind (ensure_string_index strings (rs_name_idx resource)) (\<lambda>_.
       each (validate_task strings table names) (rs_tasks resource))) (rm_resources meta))"

definition validate_io_map ::
    "string_table \<Rightarrow> type_table \<Rightarrow> ref_table \<Rightarrow> io_map \<Rightarrow> bytecode_error + unit" where
  "validate_io_map strings types table io =
     each (\<lambda>binding.
       rbind (ensure_string_index strings (ib_address_str_idx binding)) (\<lambda>_.
       rbind (ensure_ref_index table (ib_ref_idx binding)) (\<lambda>_.
       when_some (ib_type_id binding) (ensure_type_index types)))) (io_bindings io)"

definition validate_var_meta ::
    "string_table \<Rightarrow> type_table \<Rightarrow> const_pool \<Rightarrow> ref_table \<Rightarrow> var_meta \<Rightarrow> bytecode_error + unit"
where
  "validate_var_meta strings types pool table meta =
     each (\<lambda>entry.
       rbind (ensure_string_index strings (vm_name_idx entry)) (\<lambda>_.
       rbind (ensure_type_index types (vm_type_id entry)) (\<lambda>_.
       rbind (ensure_ref_index table (vm_ref_idx entry)) (\<lambda>_.
       rbind (guard (\<not> 3 < vm_retain entry) (InvalidSection ''invalid retain policy'')) (\<lambda>_.
       when_some (vm_init_const_idx entry) (ensure_const_index pool)))))) (vt_entries meta)"

definition validate_retain_init ::
    "const_pool \<Rightarrow> ref_table \<Rightarrow> retain_init \<Rightarrow> bytecode_error + unit" where
  "validate_retain_init pool table retain =
     each (\<lambda>entry.
       rbind (ensure_ref_index table (ri_ref_idx entry)) (\<lambda>_.
       ensure_const_index pool (ri_const_idx entry))) (rn_entries retain)"

definition validate_debug_map ::
    "string_table \<Rightarrow> pou_index \<Rightarrow> debug_map \<Rightarrow> bytecode_error + unit" where
  "validate_debug_map strings index dm =
     each (\<lambda>entry.
       rbind (ok_or (find (\<lambda>pou. pe_id pou = de_pou_id entry) (pi_entries index))
               (InvalidPouId (de_pou_id entry))) (\<lambda>pou.
       rbind (guard (unat (pe_code_offset pou) + unat (pe_code_length pou) < 2 ^ 32)
               (InvalidSection ''POU code range overflow'')) (\<lambda>_.
       let end_off = pe_code_offset pou + pe_code_length pou in
       rbind (guard (\<not> (de_code_offset entry < pe_code_offset pou \<or> end_off < de_code_offset entry))
               (InvalidSection ''debug map code offset out of bounds'')) (\<lambda>_.
       ensure_string_index strings (de_file_idx entry))))) (dm_entries dm)"

section \<open>The module\<close>

definition get_strings :: "bytecode_module \<Rightarrow> bytecode_error + string_table" where
  "get_strings m =
     (case module_section m SidStringTable of Some (SecStringTable t) \<Rightarrow> Inr t
      | _ \<Rightarrow> Inl (MissingSection ''STRING_TABLE''))"

definition get_debug_strings :: "bytecode_module \<Rightarrow> string_table option" where
  "get_debug_strings m =
     (case module_section m SidDebugStringTable of Some (SecDebugStringTable t) \<Rightarrow> Some t
      | _ \<Rightarrow> None)"

definition get_types :: "bytecode_module \<Rightarrow> bytecode_error + type_table" where
  "get_types m =
     (case module_section m SidTypeTable of Some (SecTypeTable t) \<Rightarrow> Inr t
      | _ \<Rightarrow> Inl (MissingSection ''TYPE_TABLE''))"

definition get_const_pool :: "bytecode_module \<Rightarrow> bytecode_error + const_pool" where
  "get_const_pool m =
     (case module_section m SidConstPool of Some (SecConstPool p) \<Rightarrow> Inr p
      | _ \<Rightarrow> Inl (MissingSection ''CONST_POOL''))"

definition get_ref_table :: "bytecode_module \<Rightarrow> bytecode_error + ref_table" where
  "get_ref_table m =
     (case module_section m SidRefTable of Some (SecRefTable t) \<Rightarrow> Inr t
      | _ \<Rightarrow> Inl (MissingSection ''REF_TABLE''))"

definition get_pou_index :: "bytecode_module \<Rightarrow> bytecode_error + pou_index" where
  "get_pou_index m =
     (case module_section m SidPouIndex of Some (SecPouIndex x) \<Rightarrow> Inr x
      | _ \<Rightarrow> Inl (MissingSection ''POU_INDEX''))"

definition get_pou_bodies :: "bytecode_module \<Rightarrow> bytecode_error + byte list" where
  "get_pou_bodies m =
     (case module_section m SidPouBodies of Some (SecPouBodies b) \<Rightarrow> Inr b
      | _ \<Rightarrow> Inl (MissingSection ''POU_BODIES''))"

definition get_resource_meta :: "bytecode_module \<Rightarrow> bytecode_error + resource_meta" where
  "get_resource_meta m =
     (case module_section m SidResourceMeta of Some (SecResourceMeta r) \<Rightarrow> Inr r
      | _ \<Rightarrow> Inl (MissingSection ''RESOURCE_META''))"

definition get_io_map :: "bytecode_module \<Rightarrow> bytecode_error + io_map" where
  "get_io_map m =
     (case module_section m SidIoMap of Some (SecIoMap io) \<Rightarrow> Inr io
      | _ \<Rightarrow> Inl (MissingSection ''IO_MAP''))"

definition validate :: "nat \<Rightarrow> bytecode_module \<Rightarrow> (bytecode_error, unit) fueled" where
  "validate fuel m =
     fbind (Some (get_strings m)) (\<lambda>strings.
     let debug_strings = get_debug_strings m in
     fbind (Some (get_types m)) (\<lambda>types.
     fbind (Some (get_const_pool m)) (\<lambda>pool.
     fbind (Some (get_ref_table m)) (\<lambda>table.
     fbind (Some (get_pou_index m)) (\<lambda>index.
     fbind (Some (get_pou_bodies m)) (\<lambda>bodies.
     fbind (Some (get_resource_meta m)) (\<lambda>resources.
     fbind (Some (get_io_map m)) (\<lambda>io.
     fbind (Some (validate_string_table strings)) (\<lambda>_.
     fbind (Some (when_some debug_strings validate_string_table)) (\<lambda>_.
     fbind (Some (validate_type_table strings types)) (\<lambda>_.
     fbind (validate_const_pool fuel strings types pool) (\<lambda>_.
     fbind (Some (validate_ref_table strings table)) (\<lambda>_.
     fbind (Some (validate_pou_index strings types pool index bodies)) (\<lambda>_.
     fbind (Some (validate_resource_meta strings table index resources)) (\<lambda>_.
     fbind (Some (validate_io_map strings types table io)) (\<lambda>_.
     fbind (Some (case module_section m SidVarMeta of
         Some (SecVarMeta meta) \<Rightarrow> validate_var_meta strings types pool table meta
       | _ \<Rightarrow> Inr ())) (\<lambda>_.
     fbind (Some (case module_section m SidRetainInit of
         Some (SecRetainInit retain) \<Rightarrow> validate_retain_init pool table retain
       | _ \<Rightarrow> Inr ())) (\<lambda>_.
     Some (case module_section m SidDebugMap of
         Some (SecDebugMap dm) \<Rightarrow>
           rbind (guard (\<not> (1 \<le> v_minor (bm_version m) \<and> debug_strings = None))
                   (MissingSection ''DEBUG_STRING_TABLE'')) (\<lambda>_.
           validate_debug_map (case debug_strings of None \<Rightarrow> strings | Some t \<Rightarrow> t) index dm)
       | _ \<Rightarrow> Inr ())))))))))))))))))))"

text \<open>The fuel is a bound only: a validation that returns gives the same result at any depth.\<close>

lemma validate_mono:
  assumes "validate n m = Some res" and "n \<le> k"
  shows "validate k m = Some res"
proof -
  have "fuel_le (validate n m) (validate k m)"
    unfolding validate_def Let_def by (intro fuel_intros fuel_le_const_pool assms(2))
  then show ?thesis
    using assms(1) by (rule fuel_leD)
qed

lemma validate_returns:
  assumes "get_types m = Inr types" and "alias_free types"
    and "get_const_pool m = Inr pool" and "pool_fuel types pool \<le> fuel"
  shows "validate fuel m \<noteq> None"
  using validate_const_pool_returns [OF assms(2,4)]
  by (simp add: validate_def assms(1,3) Let_def fbind_eq_None)

text \<open>What a passed validation says, as far as the consumers of a module need it.\<close>

lemma validate_ok:
  assumes "validate fuel m = Some (Inr ())"
  obtains strings types pool table index bodies resources io
  where "get_strings m = Inr strings" "get_types m = Inr types" "get_const_pool m = Inr pool"
    "get_ref_table m = Inr table" "get_pou_index m = Inr index"
    "get_pou_bodies m = Inr bodies" "get_resource_meta m = Inr resources"
    "get_io_map m = Inr io" "validate_type_table strings types = Inr ()"
    "validate_const_pool fuel strings types pool = Some (Inr ())"
    "validate_ref_table strings table = Inr ()"
    "validate_pou_index strings types pool index bodies = Inr ()"
    "validate_resource_meta strings table index resources = Inr ()"
    "validate_io_map strings types table io = Inr ()"
  using assms unfolding validate_def Let_def by (auto simp: fbind_eq_ok)

end
