(* ===== verification/Value_Ref.thy ===== *)
theory Value_Ref
  imports Bytes
begin

text \<open>
  Locations and references of the runtime: the identifiers of \<open>memory.rs\<close>, \<open>ValueRef\<close> of
  \<open>value/reference.rs\<close> and the \<open>Duration\<close> of \<open>value/datetime.rs\<close>. The newtypes \<open>FrameId\<close>,
  \<open>InstanceId\<close> are their \<open>u32\<close>, \<open>Duration\<close> is its number of nanoseconds.
\<close>

type_synonym frame_id = u32
type_synonym instance_id = u32
type_synonym duration = i64

datatype io_area = AreaInput | AreaOutput | AreaMemory

datatype memory_location =
    MGlobal
  | MLocal frame_id
  | MInstance instance_id
  | MIo io_area
  | MRetain

datatype path_segment =
    PIndex "i64 list"
  | PField rstr

record value_ref =
  vr_location :: memory_location
  vr_offset :: nat
  vr_path :: "path_segment list"

section \<open>Durations\<close>

definition from_nanos :: "i64 \<Rightarrow> duration" where
  "from_nanos nanos = nanos"

definition from_micros :: "i64 \<Rightarrow> duration" where
  "from_micros micros = micros * 1000"

definition from_millis :: "i64 \<Rightarrow> duration" where
  "from_millis millis = millis * 1000000"

definition from_secs :: "i64 \<Rightarrow> duration" where
  "from_secs secs = secs * 1000000000"

text \<open>The epoch of dates, in ticks, and the length of a tick.\<close>

record date_time_profile =
  dtp_epoch :: i64
  dtp_resolution :: duration

definition date_time_profile_default :: date_time_profile where
  "date_time_profile_default = \<lparr>dtp_epoch = 0, dtp_resolution = from_millis 1\<rparr>"

end
