(* ===== verification/Bytecode_Metadata.thy ===== *)
theory Bytecode_Metadata
  imports Bytecode_Validate Value_Ref
begin

text \<open>
  \<open>BytecodeModule::metadata\<close> (\<open>bytecode/metadata.rs\<close>): the configuration of resources and
  tasks that the runtime takes from a module, with \<open>TaskConfig\<close> of \<open>task.rs\<close>. On a validated
  module the extraction cannot miss a section or an index; one error is left.
\<close>

record task_config =
  tc_name :: rstr
  tc_interval :: duration
  tc_single :: "rstr option"
  tc_priority :: u32
  tc_programs :: "rstr list"
  tc_fb_instances :: "value_ref list"

record process_image_config =
  ic_inputs :: nat
  ic_outputs :: nat
  ic_memory :: nat

record resource_metadata =
  md_name :: rstr
  md_process_image :: process_image_config
  md_tasks :: "task_config list"

record bytecode_metadata =
  bd_version :: bytecode_version
  bd_resources :: "resource_metadata list"

definition metadata_resource :: "bytecode_metadata \<Rightarrow> rstr \<Rightarrow> resource_metadata option" where
  "metadata_resource meta name =
     find (\<lambda>resource. to_ascii_lowercase (md_name resource) = to_ascii_lowercase name)
       (bd_resources meta)"

definition primary_resource :: "bytecode_metadata \<Rightarrow> resource_metadata option" where
  "primary_resource meta = nth_opt (bd_resources meta) 0"

definition lookup_string :: "string_table \<Rightarrow> u32 \<Rightarrow> bytecode_error + rstr" where
  "lookup_string strings idx =
     ok_or (nth_opt (st_entries strings) (unat idx)) (InvalidIndex ''string'' idx)"

fun ref_location_to_memory :: "ref_location \<Rightarrow> u32 \<Rightarrow> bytecode_error + memory_location" where
  "ref_location_to_memory LocGlobal owner_id = Inr MGlobal"
| "ref_location_to_memory LocLocal owner_id = Inr (MLocal owner_id)"
| "ref_location_to_memory LocInstance owner_id = Inr (MInstance owner_id)"
| "ref_location_to_memory LocRetain owner_id = Inr MRetain"
| "ref_location_to_memory LocIo owner_id =
     (if owner_id = 0 then Inr (MIo AreaInput)
      else if owner_id = 1 then Inr (MIo AreaOutput)
      else if owner_id = 2 then Inr (MIo AreaMemory)
      else Inl (InvalidSection ''invalid IO area''))"

fun segment_to_path :: "string_table \<Rightarrow> ref_segment \<Rightarrow> bytecode_error + path_segment" where
  "segment_to_path strings (SegIndex indices) = Inr (PIndex indices)"
| "segment_to_path strings (SegField name_idx) =
     rbind (lookup_string strings name_idx) (\<lambda>name. Inr (PField name))"

definition to_value_ref :: "string_table \<Rightarrow> ref_entry \<Rightarrow> bytecode_error + value_ref" where
  "to_value_ref strings entry =
     rbind (ref_location_to_memory (re_location entry) (re_owner_id entry)) (\<lambda>location.
     rbind (collect (segment_to_path strings) (re_segments entry)) (\<lambda>path.
     Inr \<lparr>vr_location = location, vr_offset = unat (re_offset entry), vr_path = path\<rparr>))"

definition ref_at :: "ref_table \<Rightarrow> u32 \<Rightarrow> bytecode_error + ref_entry" where
  "ref_at table idx = ok_or (nth_opt (rt_entries table) (unat idx)) (InvalidIndex ''ref'' idx)"

definition task_to_config ::
    "string_table \<Rightarrow> ref_table \<Rightarrow> task_entry \<Rightarrow> bytecode_error + task_config" where
  "task_to_config strings table task =
     rbind (lookup_string strings (tk_name_idx task)) (\<lambda>task_name.
     rbind (collect (lookup_string strings) (tk_program_name_idx task)) (\<lambda>programs.
     rbind (case tk_single_name_idx task of
              Some idx \<Rightarrow> rbind (lookup_string strings idx) (\<lambda>s. Inr (Some s))
            | None \<Rightarrow> Inr None) (\<lambda>single.
     rbind (collect (\<lambda>idx. rbind (ref_at table idx) (to_value_ref strings))
             (tk_fb_ref_idx task)) (\<lambda>fb_instances.
     Inr \<lparr>tc_name = task_name, tc_interval = from_nanos (tk_interval_nanos task),
          tc_single = single, tc_priority = tk_priority task, tc_programs = programs,
          tc_fb_instances = fb_instances\<rparr>))))"

definition resource_to_metadata ::
    "string_table \<Rightarrow> ref_table \<Rightarrow> resource_entry \<Rightarrow> bytecode_error + resource_metadata" where
  "resource_to_metadata strings table resource =
     rbind (lookup_string strings (rs_name_idx resource)) (\<lambda>name.
     rbind (collect (task_to_config strings table) (rs_tasks resource)) (\<lambda>tasks.
     Inr \<lparr>md_name = name,
          md_process_image =
            \<lparr>ic_inputs = unat (rs_inputs_size resource),
             ic_outputs = unat (rs_outputs_size resource),
             ic_memory = unat (rs_memory_size resource)\<rparr>,
          md_tasks = tasks\<rparr>))"

definition metadata :: "bytecode_module \<Rightarrow> bytecode_error + bytecode_metadata" where
  "metadata m =
     rbind (get_strings m) (\<lambda>strings.
     rbind (get_resource_meta m) (\<lambda>resource_meta.
     rbind (get_ref_table m) (\<lambda>table.
     rbind (collect (resource_to_metadata strings table) (rm_resources resource_meta))
       (\<lambda>resources.
     Inr \<lparr>bd_version = bm_version m, bd_resources = resources\<rparr>))))"

section \<open>Extraction from validated modules\<close>

text \<open>\<open>only e m\<close>: the computation \<open>m\<close> fails with no other error than \<open>e\<close>.\<close>

definition only :: "'e \<Rightarrow> 'e + 'a \<Rightarrow> bool" where
  "only e m \<longleftrightarrow> (\<forall>e'. m = Inl e' \<longrightarrow> e' = e)"

named_theorems only_intros \<open>composition rules for \<open>only\<close>\<close>

lemma only_Inr [only_intros]: "only e (Inr x)"
  by (simp add: only_def)

lemma only_bind [only_intros]:
  "only e m \<Longrightarrow> (\<And>x. m = Inr x \<Longrightarrow> only e (f x)) \<Longrightarrow> only e (rbind m f)"
  by (cases m) (simp_all add: only_def)

lemma only_collect [only_intros]: "(\<And>x. x \<in> set xs \<Longrightarrow> only e (f x)) \<Longrightarrow> only e (collect f xs)"
  unfolding only_def using collect_Inl by metis

lemma only_lookup_string:
  "unat idx < length (st_entries strings) \<Longrightarrow> only e (lookup_string strings idx)"
  by (simp add: lookup_string_def only_def nth_opt_def)

lemma only_ref_at: "unat idx < length (rt_entries table) \<Longrightarrow> only e (ref_at table idx)"
  by (simp add: ref_at_def only_def nth_opt_def)

definition io_area_error :: bytecode_error where
  "io_area_error = InvalidSection ''invalid IO area''"

lemma only_location: "only io_area_error (ref_location_to_memory l i)"
  by (cases l) (auto simp: only_def io_area_error_def)

lemma only_value_ref:
  assumes "validate_ref_table strings table = Inr ()" and "ref_at table idx = Inr entry"
  shows "only io_area_error (to_value_ref strings entry)"
proof -
  have "entry \<in> set (rt_entries table)"
    using assms(2) by (auto simp: ref_at_def)
  then have "validate_segment strings s = Inr ()" if "s \<in> set (re_segments entry)" for s
    using assms(1) that by (auto simp: validate_ref_table_def check_ok)
  moreover have "only io_area_error (segment_to_path strings s)"
    if "validate_segment strings s = Inr ()" for s
    using that by (cases s) (auto simp: check_ok intro!: only_intros only_lookup_string)
  ultimately have "only io_area_error (segment_to_path strings s)"
    if "s \<in> set (re_segments entry)" for s
    using that by blast
  then show ?thesis
    unfolding to_value_ref_def by (intro only_intros only_location) auto
qed

lemma only_task:
  assumes "validate_ref_table strings table = Inr ()"
    and "validate_task strings table names task = Inr ()"
  shows "only io_area_error (task_to_config strings table task)"
  unfolding task_to_config_def
proof (intro only_intros)
  show "only io_area_error (case tk_single_name_idx task of
      Some idx \<Rightarrow> rbind (lookup_string strings idx) (\<lambda>s. Inr (Some s)) | None \<Rightarrow> Inr None)"
    using assms(2)
    by (auto simp: validate_task_def check_ok intro!: only_intros only_lookup_string
        split: option.splits)
qed (use assms in \<open>auto simp: validate_task_def check_ok
      intro!: only_lookup_string only_ref_at only_value_ref\<close>)

lemma only_resources:
  assumes "validate_ref_table strings table = Inr ()"
    and "validate_resource_meta strings table index meta = Inr ()"
    and "resource \<in> set (rm_resources meta)"
  shows "only io_area_error (resource_to_metadata strings table resource)"
  using assms unfolding resource_to_metadata_def
  by (intro only_intros)
    (auto simp: validate_resource_meta_def check_ok intro!: only_lookup_string only_task)

lemma metadata_after_validate:
  assumes "validate fuel m = Some (Inr ())"
  shows "only io_area_error (metadata m)"
proof -
  obtain strings types pool table index bodies resources io
    where ok: "get_strings m = Inr strings" "get_ref_table m = Inr table"
      "get_resource_meta m = Inr resources" "validate_ref_table strings table = Inr ()"
      "validate_resource_meta strings table index resources = Inr ()"
    using validate_ok [OF assms] by metis
  then show ?thesis
    unfolding metadata_def by (auto intro!: only_intros only_resources)
qed

end
