(* ===== verification/Bytecode_Properties.thy ===== *)
theory Bytecode_Properties
  imports Bytecode_Metadata
begin

text \<open>
  The properties of the bytecode container, with a small module on which each of them is
  applied: two strings, a primitive type with an alias of it, a constant, a program whose body
  is a loop, and one resource with one task.
\<close>

section \<open>A module\<close>

definition sum_crc :: "byte list \<Rightarrow> u32" where
  "sum_crc bs = foldr (\<lambda>b acc. ucast b + 31 * acc) bs 7"

definition loop_code :: "byte list" where
  "loop_code = [0x10, 0, 0, 0, 0, 0x03, 0xF6, 0xFF, 0xFF, 0xFF, 0x06]"

definition sample_types :: type_table where
  "sample_types =
     \<lparr>tt_offsets = [],
      tt_entries =
        [\<lparr>te_kind = TkPrimitive, te_name_idx = Some 0, te_data = TdPrimitive 2 0\<rparr>,
         \<lparr>te_kind = TkAlias, te_name_idx = None, te_data = TdAlias 0\<rparr>]\<rparr>"

definition sample_module :: bytecode_module where
  "sample_module =
     \<lparr>bm_version = \<lparr>v_major = 1, v_minor = 1\<rparr>, bm_flags = 1,
      bm_sections =
        [\<lparr>sc_id = 1, sc_flags = 0, sc_data = SecStringTable \<lparr>st_entries = [''SINT'', ''Main'']\<rparr>\<rparr>,
         \<lparr>sc_id = 2, sc_flags = 0, sc_data = SecTypeTable sample_types\<rparr>,
         \<lparr>sc_id = 3, sc_flags = 0,
          sc_data = SecConstPool \<lparr>cp_entries = [\<lparr>ce_type_id = 1, ce_payload = [5]\<rparr>]\<rparr>\<rparr>,
         \<lparr>sc_id = 4, sc_flags = 0,
          sc_data = SecRefTable
            \<lparr>rt_entries = [\<lparr>re_location = LocIo, re_owner_id = 1, re_offset = 3,
              re_segments = [SegField 1]\<rparr>]\<rparr>\<rparr>,
         \<lparr>sc_id = 5, sc_flags = 0,
          sc_data = SecPouIndex
            \<lparr>pi_entries = [\<lparr>pe_id = 7, pe_name_idx = 1, pe_kind = PkProgram, pe_code_offset = 0,
              pe_code_length = 11, pe_local_ref_start = 0, pe_local_ref_count = 0,
              pe_return_type_id = None, pe_owner_pou_id = None, pe_params = [],
              pe_class_meta = None\<rparr>]\<rparr>\<rparr>,
         \<lparr>sc_id = 6, sc_flags = 0, sc_data = SecPouBodies loop_code\<rparr>,
         \<lparr>sc_id = 7, sc_flags = 0,
          sc_data = SecResourceMeta
            \<lparr>rm_resources = [\<lparr>rs_name_idx = 0, rs_inputs_size = 8, rs_outputs_size = 8,
              rs_memory_size = 0,
              rs_tasks = [\<lparr>tk_name_idx = 0, tk_priority = 1, tk_interval_nanos = 1000000,
                tk_single_name_idx = None, tk_program_name_idx = [1], tk_fb_ref_idx = [0]\<rparr>]\<rparr>]\<rparr>\<rparr>,
         \<lparr>sc_id = 8, sc_flags = 0, sc_data = SecIoMap \<lparr>io_bindings = []\<rparr>\<rparr>]\<rparr>"

lemma sample_valid: "validate 5 sample_module = Some (Inr ())"
  by code_simp

lemma sample_wf: "wf_module sample_module"
  by (simp add: wf_module_def sample_module_def SUPPORTED_MAJOR_VERSION_def wf_vec_def
      wf_string_def wf_str_def as_bytes_def byte_of_char_def sample_types_def wf_type_table_def
      wf_type_entry_def wf_opt_def u32_MAX_def wf_ref_def wf_pou_def wf_resource_def wf_task_def
      encode_type_table_def encode_type_entry_def compute_type_offsets_def loop_code_def section_payload_def write_vec_def
      enc_string_def pad_to_def enc_const_def enc_ref_def enc_pou_def enc_resource_def enc_task_def
      Let_def align4_div)

text \<open>A module with one vendor section, and its bytes.\<close>

definition tiny_module :: bytecode_module where
  "tiny_module =
     \<lparr>bm_version = \<lparr>v_major = 1, v_minor = 1\<rparr>, bm_flags = 1,
      bm_sections = [\<lparr>sc_id = 0x8000, sc_flags = 0, sc_data = SecRaw [1, 2, 3]\<rparr>]\<rparr>"

definition tiny_bytes :: "byte list" where
  "tiny_bytes =
     [0x53, 0x54, 0x42, 0x43, 1, 0, 1, 0, 1, 0, 0, 0, 24, 0, 1, 0, 24, 0, 0, 0] @
     le32 (sum_crc [0, 0x80, 0, 0, 36, 0, 0, 0, 3, 0, 0, 0, 1, 2, 3, 0]) @
     [0, 0x80, 0, 0, 36, 0, 0, 0, 3, 0, 0, 0, 1, 2, 3, 0]"

lemma tiny_wf: "wf_module tiny_module"
  by (simp add: wf_module_def tiny_module_def SUPPORTED_MAJOR_VERSION_def section_payload_def
      section_id_from_raw_def align4_div)

lemma tiny_normal: "normal_module tiny_module = tiny_module"
  by (simp add: normal_module_def normal_section_data_def tiny_module_def)

lemma tiny_encode: "encode sum_crc tiny_module = Inr tiny_bytes"
proof -
  have "length (bm_sections tiny_module) < 2 ^ 16"
    by (simp add: tiny_module_def)
  moreover have "enc_header (bm_version tiny_module) (bm_flags tiny_module)
      (word_of_nat (length (bm_sections tiny_module)))
      (if and (bm_flags tiny_module) HEADER_FLAG_CRC32 \<noteq> 0 then sum_crc (module_tail tiny_module)
       else 0) @ module_tail tiny_module = tiny_bytes"
    by code_simp
  ultimately show ?thesis
    by (simp add: encode_eq)
qed

lemma tiny_decode: "decode sum_crc tiny_bytes = Inr tiny_module"
  using decode_encode [OF tiny_wf, of sum_crc] by (simp add: tiny_encode tiny_normal)

section \<open>The container\<close>

text \<open>C6: A module that the format can express is encoded, and decoding the bytes gives the module
  back, with the offsets of its type table filled in.\<close>

lemma container_round_trip:
  assumes "wf_module m"
  shows "\<exists>bytes. encode crc m = Inr bytes \<and> decode crc bytes = Inr (normal_module m)"
  using decode_encode [OF assms] .

lemma container_round_trip_witness:
  "\<exists>bytes. encode sum_crc sample_module = Inr bytes \<and>
    decode sum_crc bytes = Inr (normal_module sample_module)"
  by (rule container_round_trip [OF sample_wf])

text \<open>C29: With the checksum flag set, bytes whose section table or payloads were changed in a way
  that the checksum function sees are rejected with the stored and the actual checksum.\<close>

lemma corruption_detected:
  assumes "wf_module m" and "and (bm_flags m) HEADER_FLAG_CRC32 \<noteq> 0"
    and "encode crc m = Inr bytes" and "length bytes' = length bytes"
    and "take 24 bytes' = take 24 bytes" and "crc (drop 24 bytes') \<noteq> crc (drop 24 bytes)"
  shows "decode crc bytes' =
    Inl (InvalidChecksum (crc (drop 24 bytes)) (crc (drop 24 bytes')))"
proof -
  let ?n = "length (bm_sections m)"
  let ?hdr = "enc_header (bm_version m) (bm_flags m) (word_of_nat ?n) (crc (module_tail m))"
  have n: "?n < 2 ^ 16"
    using assms(1) by (simp add: wf_module_def)
  have bytes: "bytes = ?hdr @ module_tail m"
    using assms(2,3) encode_eq [OF n, of crc] by simp
  define tail where "tail = drop 24 bytes'"
  have "bytes' = take 24 bytes' @ tail"
    by (simp add: tail_def)
  then have bytes': "bytes' = ?hdr @ tail"
    using assms(5) by (simp add: bytes)
  have "length tail = length (module_tail m)"
    using assms(4) by (simp add: bytes bytes')
  then have "length tail = 12 * ?n + length (body (map (section_payload (bm_version m)) (bm_sections m)))"
    by (simp add: module_tail_def Let_def)
  with assms(2,6) n show ?thesis
    by (simp add: bytes bytes' decode_header)
qed

lemma corruption_detected_witness:
  "decode sum_crc (take 36 tiny_bytes @ [1, 2, 9, 0]) =
    Inl (InvalidChecksum (sum_crc (drop 24 tiny_bytes))
      (sum_crc (drop 24 (take 36 tiny_bytes @ [1, 2, 9, 0]))))"
proof (rule corruption_detected [OF tiny_wf _ tiny_encode])
  show "and (bm_flags tiny_module) HEADER_FLAG_CRC32 \<noteq> 0"
    by (simp add: tiny_module_def HEADER_FLAG_CRC32_def)
  show "sum_crc (drop 24 (take 36 tiny_bytes @ [1, 2, 9, 0])) \<noteq> sum_crc (drop 24 tiny_bytes)"
    by code_simp
qed (simp_all add: tiny_bytes_def)

text \<open>C28: Bytes that are accepted start with the magic number, have the supported major version, a
  header of at least 24 bytes and, with the flag set, the right checksum. The section table is read
  where the header says, at an aligned offset behind the header and inside the file; its entries, as
  they stand in the bytes, are aligned, lie inside the file and do not overlap, and the decoded
  sections are theirs, in their order.\<close>

lemma accepted_container:
  assumes "decode crc bytes = Inr m"
  shows "take 4 bytes = MAGIC \<and> header_u16 bytes 4 = SUPPORTED_MAJOR_VERSION \<and>
    HEADER_SIZE \<le> header_u16 bytes 12 \<and>
    bm_version m = \<lparr>v_major = header_u16 bytes 4, v_minor = header_u16 bytes 6\<rparr> \<and>
    bm_flags m = header_u32 bytes 8 \<and>
    (and (header_u32 bytes 8) HEADER_FLAG_CRC32 \<noteq> 0 \<longrightarrow>
      crc (drop (unat (header_u32 bytes 16)) bytes) = header_u32 bytes 20) \<and>
    24 \<le> unat (header_u32 bytes 16) \<and> unat (header_u32 bytes 16) mod 4 = 0 \<and>
    unat (header_u32 bytes 16) + 12 * unat (header_u16 bytes 14) \<le> length bytes \<and>
    list_all (entry_ok (length bytes)) (section_table bytes) \<and>
    sorted_wrt apart (section_table bytes) \<and>
    list_all2 (\<lambda>e s. decode_section (bm_version m) bytes e = Inr s) (section_table bytes) (bm_sections m)"
  by (rule decode_ok [OF assms])

lemma accepted_container_witness:
  "bm_flags tiny_module = header_u32 tiny_bytes 8 \<and> length (section_table tiny_bytes) = 1 \<and>
   list_all (entry_ok (length tiny_bytes)) (section_table tiny_bytes)"
proof -
  have "unat (header_u16 tiny_bytes 14) = 1"
    by code_simp
  then show ?thesis
    using accepted_container [OF tiny_decode] by (auto simp: section_table_def)
qed

text \<open>The container rules leave section lengths free: a section whose length is not a multiple
  of four, and a section that is flagged as compressed, are encoded and accepted as they are.\<close>

lemma unaligned_length_accepted:
  "\<exists>bytes. encode crc (tiny_module\<lparr>bm_flags := 0, bm_sections :=
      [\<lparr>sc_id = 0x8000, sc_flags = 1, sc_data = SecRaw [1, 2, 3]\<rparr>]\<rparr>) = Inr bytes \<and>
    header_u32 bytes 32 = 3 \<and>
    decode crc bytes = Inr (tiny_module\<lparr>bm_flags := 0, bm_sections :=
      [\<lparr>sc_id = 0x8000, sc_flags = 1, sc_data = SecRaw [1, 2, 3]\<rparr>]\<rparr>)"
proof -
  let ?m = "tiny_module\<lparr>bm_flags := 0, bm_sections :=
      [\<lparr>sc_id = 0x8000, sc_flags = 1, sc_data = SecRaw [1, 2, 3]\<rparr>]\<rparr>"
  have wf: "wf_module ?m" and normal: "normal_module ?m = ?m"
    by (simp_all add: wf_module_def tiny_module_def SUPPORTED_MAJOR_VERSION_def
        section_payload_def section_id_from_raw_def normal_module_def normal_section_data_def
        align4_div)
  have enc: "encode crc ?m = Inr (enc_header (bm_version ?m) 0 1 0 @ module_tail ?m)"
    using encode_eq [of ?m crc] by (simp add: tiny_module_def)
  moreover have "header_u32 (enc_header (bm_version ?m) 0 1 0 @ module_tail ?m) 32 = 3"
    by code_simp
  ultimately show ?thesis
    using decode_encode [OF wf, of crc] normal by auto
qed

section \<open>Validation\<close>

text \<open>C7: In a validated module the code of every unit lies inside the bodies section. In a unit of
  fewer than two to the 31 bytes, control flow that starts at its first byte stays inside its code:
  every position it reaches is the end of the code or a complete instruction of the instruction set,
  although the check computes jump targets in a wrapping \<open>i32\<close>. There a call names an existing unit, a
  call through an interface names an interface of the type table and one of the methods it lists, and
  a cast names a type of the table. The indices of constants and references are not checked, and
  nothing is said of them.\<close>

lemma validated_code_is_safe:
  assumes "validate fuel m = Some (Inr ())"
    and "get_pou_index m = Inr index" and "get_types m = Inr types"
    and "get_pou_bodies m = Inr bodies" and "pou \<in> set (pi_entries index)"
    and "unat (pe_code_length pou) < 2 ^ 31" and "reaches (pou_code bodies pou) pc"
  shows "unat (pe_code_offset pou) + unat (pe_code_length pou) \<le> length bodies \<and>
    0 \<le> pc \<and> pc \<le> int (unat (pe_code_length pou)) \<and>
    (pc < int (unat (pe_code_length pou)) \<longrightarrow>
      instruction_ok index types (pou_code bodies pou) (nat pc))"
proof -
  obtain strings pool where "validate_pou_index strings types pool index bodies = Inr ()"
    using validate_ok [OF assms(1)] assms(2-4) by (metis sum.inject(2))
  then have pou: "validate_pou strings types pool index bodies pou = Inr ()"
    using assms(5) by (simp add: validate_pou_index_def each_eq_Inr)
  then have len: "unat (pe_code_offset pou) + unat (pe_code_length pou) \<le> length bodies"
    and stream: "validate_instruction_stream index types (unat (pe_code_offset pou))
      (pou_code bodies pou) = Inr ()"
    by (auto simp: validate_pou_def Let_def rbind_eq_Inr)
  from len have code: "length (pou_code bodies pou) = unat (pe_code_length pou)"
    by (simp add: pou_code_def)
  show ?thesis
    using accepted_flow [OF stream _ assms(7)] assms(6) len by (simp add: code)
qed

lemma sample_index:
  "get_pou_index sample_module = Inr \<lparr>pi_entries = [\<lparr>pe_id = 7, pe_name_idx = 1,
     pe_kind = PkProgram, pe_code_offset = 0, pe_code_length = 11, pe_local_ref_start = 0,
     pe_local_ref_count = 0, pe_return_type_id = None, pe_owner_pou_id = None, pe_params = [],
     pe_class_meta = None\<rparr>]\<rparr>"
  "get_types sample_module = Inr sample_types"
  "get_pou_bodies sample_module = Inr loop_code"
  by (simp_all add: get_pou_index_def get_types_def get_pou_bodies_def module_section_def
      sample_module_def)

lemma validated_code_is_safe_witness:
  "\<exists>pou index. get_pou_index sample_module = Inr index \<and> pou \<in> set (pi_entries index) \<and>
    instruction_ok index sample_types (pou_code loop_code pou) 5"
proof -
  let ?pou = "\<lparr>pe_id = 7, pe_name_idx = 1, pe_kind = PkProgram, pe_code_offset = 0,
     pe_code_length = 11, pe_local_ref_start = 0, pe_local_ref_count = 0,
     pe_return_type_id = None, pe_owner_pou_id = None, pe_params = [], pe_class_meta = None\<rparr>"
  have code: "pou_code loop_code ?pou = loop_code"
    by (simp add: pou_code_def loop_code_def)
  have op: "operand_length (loop_code ! nat 0) = Some 4"
    by (simp add: loop_code_def)
  have "reaches loop_code (0 + 1 + int 4)"
    using reaches_next [OF reaches_start _ _ op] by (simp add: loop_code_def)
  then have "reaches (pou_code loop_code ?pou) 5"
    by (simp add: code)
  from validated_code_is_safe [OF sample_valid sample_index _ _ this] sample_index(1)
  show ?thesis
    by (intro exI [of _ ?pou]) simp
qed

text \<open>The index of a constant is not checked: a program that loads the constant 99 of a pool of one is
  valid.\<close>

lemma constant_index_unchecked:
  "validate 5 (sample_module\<lparr>bm_sections := map (\<lambda>s. if sc_id s = 6
      then s\<lparr>sc_data := SecPouBodies [0x10, 99, 0, 0, 0, 0x03, 0xF6, 0xFF, 0xFF, 0xFF, 0x06]\<rparr> else s)
    (bm_sections sample_module)\<rparr>) = Some (Inr ()) \<and>
   get_const_pool sample_module = Inr \<lparr>cp_entries = [\<lparr>ce_type_id = 1, ce_payload = [5]\<rparr>]\<rparr>"
  by code_simp

text \<open>C30: Validation returns, and its result does not depend on the bound, when every chain of
  aliases and subranges of the type table ends and the depth is at least the product of the
  payload and table sizes that \<open>pool_fuel\<close> gives.\<close>

lemma validation_terminates:
  assumes "get_types m = Inr types" and "alias_free types"
    and "get_const_pool m = Inr pool" and "pool_fuel types pool \<le> fuel"
  shows "\<exists>res. \<forall>k\<ge>fuel. validate k m = Some res"
proof -
  obtain res where "validate fuel m = Some res"
    using validate_returns [OF assms] by auto
  then show ?thesis
    using validate_mono by blast
qed

lemma validation_terminates_witness:
  "\<exists>res. \<forall>k\<ge>100. validate k sample_module = Some res"
proof -
  have pool: "get_const_pool sample_module =
      Inr \<lparr>cp_entries = [\<lparr>ce_type_id = 1, ce_payload = [5]\<rparr>]\<rparr>"
    by (simp add: get_const_pool_def module_section_def sample_module_def)
  have "alias_free sample_types"
    by (simp add: alias_free_def sample_types_def type_at_def nth_opt_def)
  then show ?thesis
    by (rule validation_terminates [OF sample_index(2) _ pool])
      (simp add: pool_fuel_def payload_fuel_def sample_types_def)
qed

text \<open>A constant whose type is an alias or subrange with a chain that never ends is checked
  forever: at every depth the check of its payload has not returned, although the type table
  itself passes its check.\<close>

lemma endless_alias_diverges:
  assumes "type_at types (ce_type_id c) = Inr entry" and "\<And>n. \<not> resolves n types entry"
  shows "validate_const_payload fuel strings types c = None"
proof -
  have "validate_const_payload_entry fuel strings types e r = None"
    if "\<And>n. \<not> resolves n types e" for e r
    using that
  proof (induction fuel arbitrary: e r)
    case (Suc fuel)
    consider (al) t where "te_data e = TdAlias t"
      | (sub) t l u where "te_data e = TdSubrange t l u"
      using Suc.prems [of 0] by (auto split: type_data.splits)
    then show ?case
    proof cases
      case (al t)
      then obtain e' where e': "type_at types t = Inr e'"
        using Suc.prems [of "Suc 0"] by (auto split: sum.splits)
      have "\<not> resolves n types e'" for n
        using Suc.prems [of "Suc n"] al e' by simp
      with Suc.IH al e' show ?thesis
        by simp
    next
      case (sub t l u)
      then obtain e' where e': "type_at types t = Inr e'"
        using Suc.prems [of "Suc 0"] by (auto split: sum.splits)
      have "\<not> resolves n types e'" for n
        using Suc.prems [of "Suc n"] sub e' by simp
      with Suc.IH sub e' show ?thesis
        by simp
    qed
  qed simp
  then show ?thesis
    using assms by (simp add: validate_const_payload_def)
qed

definition cyclic_types :: type_table where
  "cyclic_types =
     \<lparr>tt_offsets = [],
      tt_entries = [\<lparr>te_kind = TkAlias, te_name_idx = None, te_data = TdAlias 0\<rparr>]\<rparr>"

lemma endless_alias_diverges_witness:
  "\<forall>strings fuel. validate_type_table strings cyclic_types = Inr () \<and>
   validate_const_payload fuel strings cyclic_types \<lparr>ce_type_id = 0, ce_payload = []\<rparr> = None"
proof (intro allI conjI)
  fix strings fuel
  show "validate_type_table strings cyclic_types = Inr ()"
    by (simp add: validate_type_table_def cyclic_types_def when_some_def ensure_type_index_def)
  let ?e = "\<lparr>te_kind = TkAlias, te_name_idx = None, te_data = TdAlias 0\<rparr>"
  have at: "type_at cyclic_types 0 = Inr ?e"
    by (simp add: type_at_def cyclic_types_def nth_opt_def)
  have "\<not> resolves n cyclic_types ?e" for n
    by (induction n) (simp_all add: at)
  with at show "validate_const_payload fuel strings cyclic_types
      \<lparr>ce_type_id = 0, ce_payload = []\<rparr> = None"
    by (intro endless_alias_diverges) simp_all
qed

text \<open>Extracting the resource configuration from a validated module succeeds, or fails because a
  reference names an I/O area that does not exist; no section, string or reference is missing.\<close>

lemma metadata_of_validated:
  assumes "validate fuel m = Some (Inr ())"
  shows "(\<exists>meta. metadata m = Inr meta) \<or>
    metadata m = Inl (InvalidSection ''invalid IO area'')"
  using metadata_after_validate [OF assms]
  by (cases "metadata m") (auto simp: only_def io_area_error_def)

lemma metadata_of_validated_witness:
  "\<exists>meta. metadata sample_module = Inr meta"
proof -
  have "metadata sample_module \<noteq> Inl (InvalidSection ''invalid IO area'')"
    by code_simp
  then show ?thesis
    using metadata_of_validated [OF sample_valid] by blast
qed

section \<open>Validation and metadata survive the container\<close>

lemma normal_entries [simp]: "tt_entries (normal_type_table v t) = tt_entries t"
  by (simp add: normal_type_table_def)

lemma normal_type_checks [simp]:
  "type_at (normal_type_table v t) = type_at t"
  "ensure_type_index (normal_type_table v t) = ensure_type_index t"
  by (auto simp: type_at_def ensure_type_index_def fun_eq_iff)

lemma normal_type_data [simp]:
  "validate_type_data strings (normal_type_table v t) d = validate_type_data strings t d"
  by (cases d) simp_all

lemma normal_payload_entry [simp]:
  "validate_const_payload_entry n strings (normal_type_table v t) =
    validate_const_payload_entry n strings t"
proof (induction n)
  case (Suc n)
  show ?case
    by (intro ext) (unfold validate_const_payload_entry.simps normal_type_checks Suc, rule refl)
qed (simp add: fun_eq_iff)

lemma normal_scan [simp]:
  "scan_instruction index (normal_type_table v t) = scan_instruction index t"
  by (intro ext) (unfold scan_instruction_def check_call_virtual_def normal_type_checks, rule refl)

lemma normal_stream [simp]:
  "scan_stream index (normal_type_table v t) r ss js = scan_stream index t r ss js"
proof (induction index t r ss js rule: scan_stream.induct)
  case (1 index types r starts jumps)
  show ?case
    using 1 by (subst (1 2) scan_stream.simps) (auto simp: Let_def intro!: rbind_cong)
qed

lemma normal_pou_checks [simp]:
  "validate_const_payload n strings (normal_type_table v t) = validate_const_payload n strings t"
  "validate_instruction_stream index (normal_type_table v t) =
    validate_instruction_stream index t"
  "validate_param strings (normal_type_table v t) = validate_param strings t"
  "validate_interface_impl (normal_type_table v t) = validate_interface_impl t"
  by (intro ext; unfold validate_const_payload_def validate_instruction_stream_def
      validate_param_def validate_interface_impl_def normal_type_checks normal_payload_entry
      normal_stream; rule refl)+

lemma normal_validate_pou [simp]:
  "validate_class_meta strings (normal_type_table v t) = validate_class_meta strings t"
  "validate_pou strings (normal_type_table v t) = validate_pou strings t"
proof -
  show meta: "validate_class_meta strings (normal_type_table v t) = validate_class_meta strings t"
    by (intro ext) (unfold validate_class_meta_def normal_pou_checks, rule refl)
  show "validate_pou strings (normal_type_table v t) = validate_pou strings t"
    by (intro ext) (unfold validate_pou_def normal_pou_checks normal_type_checks meta, rule refl)
qed

lemma normal_validators:
  "validate_type_table strings (normal_type_table v t) = validate_type_table strings t"
  "validate_const_pool n strings (normal_type_table v t) = validate_const_pool n strings t"
  "validate_pou_index strings (normal_type_table v t) = validate_pou_index strings t"
  "validate_io_map strings (normal_type_table v t) = validate_io_map strings t"
  "validate_var_meta strings (normal_type_table v t) = validate_var_meta strings t"
  by ((intro ext)?; unfold validate_type_table_def validate_const_pool_def validate_pou_index_def
      validate_io_map_def validate_var_meta_def normal_type_data normal_entries normal_pou_checks
      normal_validate_pou normal_type_checks; rule refl)+

lemma normal_section:
  "module_section (normal_module m) i =
    map_option (normal_section_data (bm_version m)) (module_section m i)"
proof -
  have "find (\<lambda>s. sc_id s = k)
      (map (\<lambda>s. s\<lparr>sc_data := normal_section_data v (sc_data s)\<rparr>) ss) =
      map_option (\<lambda>s. s\<lparr>sc_data := normal_section_data v (sc_data s)\<rparr>)
        (find (\<lambda>s. sc_id s = k) ss)" for k v and ss :: "section_rec list"
    by (induction ss) auto
  then show ?thesis
    by (simp add: module_section_def normal_module_def option.map_comp comp_def)
qed

lemma normal_getters:
  "get_strings (normal_module m) = get_strings m"
  "get_debug_strings (normal_module m) = get_debug_strings m"
  "get_const_pool (normal_module m) = get_const_pool m"
  "get_ref_table (normal_module m) = get_ref_table m"
  "get_pou_index (normal_module m) = get_pou_index m"
  "get_pou_bodies (normal_module m) = get_pou_bodies m"
  "get_resource_meta (normal_module m) = get_resource_meta m"
  "get_io_map (normal_module m) = get_io_map m"
  by (simp_all add: get_strings_def get_debug_strings_def get_const_pool_def get_ref_table_def
      get_pou_index_def get_pou_bodies_def get_resource_meta_def get_io_map_def normal_section
      normal_section_data_def split: option.splits section_data.splits)

lemma normal_get_types:
  "get_types (normal_module m) =
    rbind (get_types m) (\<lambda>t. Inr (normal_type_table (bm_version m) t))"
  by (simp add: get_types_def normal_section normal_section_data_def
      split: option.splits section_data.splits)

lemma fbind_rbind: "fbind (Some (rbind m (\<lambda>x. Inr (g x)))) f = fbind (Some m) (\<lambda>x. f (g x))"
  by (cases m) simp_all

lemma normal_optional_sections:
  "(case module_section (normal_module m) i of Some (SecVarMeta vm) \<Rightarrow> f vm | _ \<Rightarrow> z) =
    (case module_section m i of Some (SecVarMeta vm) \<Rightarrow> f vm | _ \<Rightarrow> z)"
  "(case module_section (normal_module m) i of Some (SecRetainInit ri) \<Rightarrow> g ri | _ \<Rightarrow> z) =
    (case module_section m i of Some (SecRetainInit ri) \<Rightarrow> g ri | _ \<Rightarrow> z)"
  "(case module_section (normal_module m) i of Some (SecDebugMap dm) \<Rightarrow> h dm | _ \<Rightarrow> z) =
    (case module_section m i of Some (SecDebugMap dm) \<Rightarrow> h dm | _ \<Rightarrow> z)"
  by (simp_all add: normal_section normal_section_data_def
      split: option.splits section_data.splits)

lemma validate_normal: "validate fuel (normal_module m) = validate fuel m"
proof -
  have version: "bm_version (normal_module m) = bm_version m"
    by (simp add: normal_module_def)
  show ?thesis
    unfolding validate_def Let_def normal_getters normal_get_types fbind_rbind version
      normal_optional_sections normal_validators
    by (rule refl)
qed

lemma metadata_normal: "metadata (normal_module m) = metadata m"
  by (simp add: metadata_def normal_getters) (simp add: normal_module_def)

text \<open>Publishing a module through the container changes neither the verdict of the validation
  nor the configuration that the runtime extracts: both are the same for the decoded module.\<close>

lemma container_preserves_meaning:
  assumes "wf_module m"
  shows "\<exists>bytes m'. encode crc m = Inr bytes \<and> decode crc bytes = Inr m' \<and>
    (\<forall>fuel. validate fuel m' = validate fuel m) \<and> metadata m' = metadata m"
  using decode_encode [OF assms, of crc] validate_normal metadata_normal by blast

lemma container_preserves_meaning_witness:
  "\<exists>bytes m'. encode sum_crc sample_module = Inr bytes \<and> decode sum_crc bytes = Inr m' \<and>
    validate 5 m' = Some (Inr ())"
  using container_preserves_meaning [OF sample_wf, of sum_crc] sample_valid by metis

end
