(* ===== verification/Ordered_Map.thy ===== *)
theory Ordered_Map
  imports Prelude "HOL-Library.AList"
begin

text \<open>
  The insertion-ordered maps of the runtime (\<open>IndexMap\<close> of the package \<open>indexmap\<close>), as lists of
  entries in insertion order. The locale \<open>ordered_map\<close> states the documented behaviour that the
  runtime relies on: looking up by key and by position, and an insertion that keeps the
  position of a key that is present and appends a new one. The interpretation discharges it for
  the association lists used here.
\<close>

type_synonym ('k, 'v) index_map = "('k \<times> 'v) list"

definition im_get :: "('k, 'v) index_map \<Rightarrow> 'k \<Rightarrow> 'v option" where
  "im_get m k = map_of m k"

definition im_insert :: "'k \<Rightarrow> 'v \<Rightarrow> ('k, 'v) index_map \<Rightarrow> ('k, 'v) index_map" where
  "im_insert k v m = AList.update k v m"

definition im_contains :: "('k, 'v) index_map \<Rightarrow> 'k \<Rightarrow> bool" where
  "im_contains m k \<longleftrightarrow> im_get m k \<noteq> None"

fun im_index_of :: "('k, 'v) index_map \<Rightarrow> 'k \<Rightarrow> nat option" where
  "im_index_of [] k = None"
| "im_index_of (e # m) k = (if fst e = k then Some 0 else map_option Suc (im_index_of m k))"

definition im_at :: "('k, 'v) index_map \<Rightarrow> nat \<Rightarrow> 'v option" where
  "im_at m i = (if i < length m then Some (snd (m ! i)) else None)"

definition im_set_at :: "('k, 'v) index_map \<Rightarrow> nat \<Rightarrow> 'v \<Rightarrow> ('k, 'v) index_map" where
  "im_set_at m i v = (if i < length m then m[i := (fst (m ! i), v)] else m)"

text \<open>The invariant of an \<open>IndexMap\<close>: no key occurs twice.\<close>

definition im_ok :: "('k, 'v) index_map \<Rightarrow> bool" where
  "im_ok m \<longleftrightarrow> distinct (map fst m)"

lemma im_get_insert: "im_get (im_insert k v m) k' = (if k' = k then Some v else im_get m k')"
  by (simp add: im_get_def im_insert_def update_conv')

lemma im_index_of_less: "im_index_of m k = Some i \<Longrightarrow> i < length m"
  by (induction m arbitrary: i) (auto split: if_splits)

lemma im_index_of_None: "im_index_of m k = None \<longleftrightarrow> im_get m k = None"
  by (induction m) (auto simp: im_get_def split: if_splits)

lemma im_at_index_of: "im_index_of m k = Some i \<Longrightarrow> im_at m i = im_get m k"
proof (induction m arbitrary: i)
  case (Cons e m)
  then show ?case
    by (cases i) (auto simp: im_at_def im_get_def split: if_splits)
qed simp

lemma im_index_of_insert:
  "im_index_of m k = Some i \<Longrightarrow> im_index_of (im_insert k' v m) k = Some i"
  by (induction m arbitrary: i) (auto simp: im_insert_def split: if_splits)

lemma im_index_of_append:
  "im_index_of m k = None \<Longrightarrow> im_index_of (im_insert k v m) k = Some (length m)"
  by (induction m) (auto simp: im_insert_def split: if_splits)

lemma im_ok_insert: "im_ok m \<Longrightarrow> im_ok (im_insert k v m)"
  by (simp add: im_ok_def im_insert_def distinct_update)

lemma im_ok_Nil [simp]: "im_ok []"
  by (simp add: im_ok_def)

lemma im_at_set_at: "im_at (im_set_at m i v) j = (if i = j \<and> i < length m then Some v else im_at m j)"
  by (auto simp: im_at_def im_set_at_def nth_list_update)

lemma map_fst_set_at [simp]: "map fst (im_set_at m i v) = map fst m"
  by (simp add: im_set_at_def map_update list_update_same_conv)

lemma im_ok_set_at [simp]: "im_ok (im_set_at m i v) = im_ok m"
  by (simp add: im_ok_def)

lemma im_index_of_keys: "map fst m = map fst m' \<Longrightarrow> im_index_of m k = im_index_of m' k"
  by (induction m arbitrary: m') auto

lemma im_get_set_at:
  assumes "im_ok m" and "im_index_of m k = Some i"
  shows "im_get (im_set_at m i v) k' = (if k' = k then Some v else im_get m k')"
  using assms
proof (induction m arbitrary: i)
  case (Cons e m)
  then show ?case
    by (cases i) (auto simp: im_get_def im_set_at_def im_ok_def split: if_splits)
qed simp

text \<open>
  What a store of named variables with positional references needs of its map. Inside the
  locale: a reference taken for a name stays the reference of that name, and reading through it
  always gives the current value of the variable.
\<close>

locale ordered_map =
  fixes get :: "'m \<Rightarrow> 'k \<Rightarrow> 'v option"
    and insert_at :: "'k \<Rightarrow> 'v \<Rightarrow> 'm \<Rightarrow> 'm"
    and index_of :: "'m \<Rightarrow> 'k \<Rightarrow> nat option"
    and at_index :: "'m \<Rightarrow> nat \<Rightarrow> 'v option"
  assumes get_insert: "get (insert_at k v m) k' = (if k' = k then Some v else get m k')"
    and index_None: "index_of m k = None \<longleftrightarrow> get m k = None"
    and at_index_of: "index_of m k = Some i \<Longrightarrow> at_index m i = get m k"
    and index_stable: "index_of m k = Some i \<Longrightarrow> index_of (insert_at k' v m) k = Some i"
begin

definition insert_all :: "('k \<times> 'v) list \<Rightarrow> 'm \<Rightarrow> 'm" where
  "insert_all kvs m = foldl (\<lambda>m (k, v). insert_at k v m) m kvs"

lemma index_of_insert_all:
  "index_of m k = Some i \<Longrightarrow> index_of (insert_all kvs m) k = Some i"
  by (induction kvs arbitrary: m) (auto simp: insert_all_def index_stable)

lemma at_index_insert_all:
  assumes "index_of m k = Some i"
  shows "at_index (insert_all kvs m) i = get (insert_all kvs m) k"
  using at_index_of index_of_insert_all [OF assms] by blast

lemma get_insert_all:
  "get (insert_all kvs m) k =
    (case map_of (rev kvs) k of Some v \<Rightarrow> Some v | None \<Rightarrow> get m k)"
  by (induction kvs arbitrary: m)
    (auto simp: insert_all_def get_insert map_add_def split: option.splits)

lemma at_index_after_inserts:
  assumes "index_of m k = Some i"
  shows "at_index (insert_all kvs m) i =
    (case map_of (rev kvs) k of Some v \<Rightarrow> Some v | None \<Rightarrow> get m k)"
  using at_index_insert_all [OF assms] get_insert_all by simp

lemma index_of_present: "get m k = Some v \<Longrightarrow> \<exists>i. index_of m k = Some i"
  using index_None [of m k] by auto

end

interpretation im: ordered_map im_get im_insert im_index_of im_at
  by unfold_locales
    (simp_all add: im_get_insert im_index_of_None im_at_index_of im_index_of_insert)

end
