(* ===== verification/Values.thy ===== *)
theory Values
  imports Value_Ref Ordered_Map
begin

text \<open>
  Runtime values (\<open>value/types.rs\<close>), the access to bits, bytes and words of bit strings
  (\<open>value/partial_access.rs\<close>, \<open>value/reference.rs\<close>) and the combination of dates
  (\<open>value/datetime.rs\<close>). An \<open>f32\<close> or \<open>f64\<close> is the word of its bits; the operations modelled here
  only move them. The fields of a struct are a map in insertion order. Then \<open>RuntimeError\<close>
  (\<open>error.rs\<close>).
\<close>

type_synonym f32 = "32 word"
type_synonym f64 = "64 word"

datatype rvalue =
    VBool bool
  | VSInt i8
  | VInt i16
  | VDInt i32
  | VLInt i64
  | VUSInt u8
  | VUInt u16
  | VUDInt u32
  | VULInt u64
  | VReal f32
  | VLReal f64
  | VByte u8
  | VWord u16
  | VDWord u32
  | VLWord u64
  | VTime duration
  | VLTime duration
  | VDate i64
  | VLDate i64
  | VTod i64
  | VLTod i64
  | VDt i64
  | VLdt i64
  | VString rstr
  | VWString rstr
  | VChar u8
  | VWChar u16
  | VArray "rvalue list" "(i64 \<times> i64) list"
  | VStruct rstr "(rstr \<times> rvalue) list"
  | VEnum rstr rstr i64
  | VReference "value_ref option"
  | VInstance instance_id
  | VNull

section \<open>Partial access\<close>

datatype partial_access = PaBit u8 | PaByte u8 | PaWord u8 | PaDWord u8

datatype partial_access_error =
    PaIndexOutOfBounds i64 i64 i64
  | PaTypeMismatch

definition pa_check :: "u8 \<Rightarrow> u8 \<Rightarrow> partial_access_error + unit" where
  "pa_check index upper =
     (if upper < index then Inl (PaIndexOutOfBounds (ucast index) 0 (ucast upper)) else Inr ())"

definition read_bit :: "'a::len word \<Rightarrow> u8 \<Rightarrow> rvalue" where
  "read_bit v index = VBool (and (drop_bit (unat index) v) 1 = 1)"

definition write_bit :: "'a::len word \<Rightarrow> u8 \<Rightarrow> bool \<Rightarrow> 'a word" where
  "write_bit w index b =
     (if b then or w (push_bit (unat index) 1) else and w (not (push_bit (unat index) 1)))"

text \<open>
  \<open>(value >> shift) & mask\<close> cut to the width of the result, and
  \<open>word &= !(mask << shift); word |= part << shift\<close>.
\<close>

definition read_part :: "'a::len word \<Rightarrow> nat \<Rightarrow> 'a word \<Rightarrow> 'b::len word" where
  "read_part v shift msk = ucast (and (drop_bit shift v) msk)"

definition write_part :: "'a::len word \<Rightarrow> nat \<Rightarrow> 'a word \<Rightarrow> 'b::len word \<Rightarrow> 'a word" where
  "write_part w shift msk part =
     or (and w (not (push_bit shift msk))) (push_bit shift (ucast part))"

fun read_partial_access ::
    "rvalue \<Rightarrow> partial_access \<Rightarrow> partial_access_error + rvalue" where
  "read_partial_access target (PaBit index) =
     (case target of
        VByte value \<Rightarrow> rbind (pa_check index 7) (\<lambda>_. Inr (read_bit value index))
      | VWord value \<Rightarrow> rbind (pa_check index 15) (\<lambda>_. Inr (read_bit value index))
      | VDWord value \<Rightarrow> rbind (pa_check index 31) (\<lambda>_. Inr (read_bit value index))
      | VLWord value \<Rightarrow> rbind (pa_check index 63) (\<lambda>_. Inr (read_bit value index))
      | _ \<Rightarrow> Inl PaTypeMismatch)"
| "read_partial_access target (PaByte index) =
     (case target of
        VWord value \<Rightarrow> rbind (pa_check index 1) (\<lambda>_. Inr (VByte (read_part value (unat (index * 8)) 0xFF)))
      | VDWord value \<Rightarrow> rbind (pa_check index 3) (\<lambda>_. Inr (VByte (read_part value (unat (index * 8)) 0xFF)))
      | VLWord value \<Rightarrow> rbind (pa_check index 7) (\<lambda>_. Inr (VByte (read_part value (unat (index * 8)) 0xFF)))
      | _ \<Rightarrow> Inl PaTypeMismatch)"
| "read_partial_access target (PaWord index) =
     (case target of
        VDWord value \<Rightarrow> rbind (pa_check index 1) (\<lambda>_. Inr (VWord (read_part value (unat (index * 16)) 0xFFFF)))
      | VLWord value \<Rightarrow> rbind (pa_check index 3) (\<lambda>_. Inr (VWord (read_part value (unat (index * 16)) 0xFFFF)))
      | _ \<Rightarrow> Inl PaTypeMismatch)"
| "read_partial_access target (PaDWord index) =
     (case target of
        VLWord value \<Rightarrow>
          rbind (pa_check index 1) (\<lambda>_. Inr (VDWord (read_part value (unat (index * 32)) 0xFFFFFFFF)))
      | _ \<Rightarrow> Inl PaTypeMismatch)"

text \<open>
  The source matches on the triple of target, access and value; the model matches on the
  access, then on the value, then on the target.
\<close>

fun write_partial_access ::
    "rvalue \<Rightarrow> partial_access \<Rightarrow> rvalue \<Rightarrow> partial_access_error + rvalue" where
  "write_partial_access target (PaBit index) value =
     (case value of
        VBool b \<Rightarrow>
          (case target of
             VByte word \<Rightarrow> rbind (pa_check index 7) (\<lambda>_. Inr (VByte (write_bit word index b)))
           | VWord word \<Rightarrow> rbind (pa_check index 15) (\<lambda>_. Inr (VWord (write_bit word index b)))
           | VDWord word \<Rightarrow> rbind (pa_check index 31) (\<lambda>_. Inr (VDWord (write_bit word index b)))
           | VLWord word \<Rightarrow> rbind (pa_check index 63) (\<lambda>_. Inr (VLWord (write_bit word index b)))
           | _ \<Rightarrow> Inl PaTypeMismatch)
      | _ \<Rightarrow> Inl PaTypeMismatch)"
| "write_partial_access target (PaByte index) value =
     (case value of
        VByte byte \<Rightarrow>
          (case target of
             VWord word \<Rightarrow>
               rbind (pa_check index 1) (\<lambda>_. Inr (VWord (write_part word (unat (index * 8)) 0xFF byte)))
           | VDWord word \<Rightarrow>
               rbind (pa_check index 3) (\<lambda>_. Inr (VDWord (write_part word (unat (index * 8)) 0xFF byte)))
           | VLWord word \<Rightarrow>
               rbind (pa_check index 7) (\<lambda>_. Inr (VLWord (write_part word (unat (index * 8)) 0xFF byte)))
           | _ \<Rightarrow> Inl PaTypeMismatch)
      | _ \<Rightarrow> Inl PaTypeMismatch)"
| "write_partial_access target (PaWord index) value =
     (case value of
        VWord val \<Rightarrow>
          (case target of
             VDWord word \<Rightarrow>
               rbind (pa_check index 1) (\<lambda>_. Inr (VDWord (write_part word (unat (index * 16)) 0xFFFF val)))
           | VLWord word \<Rightarrow>
               rbind (pa_check index 3) (\<lambda>_. Inr (VLWord (write_part word (unat (index * 16)) 0xFFFF val)))
           | _ \<Rightarrow> Inl PaTypeMismatch)
      | _ \<Rightarrow> Inl PaTypeMismatch)"
| "write_partial_access target (PaDWord index) value =
     (case value of
        VDWord val \<Rightarrow>
          (case target of
             VLWord word \<Rightarrow>
               rbind (pa_check index 1)
                 (\<lambda>_. Inr (VLWord (write_part word (unat (index * 32)) 0xFFFFFFFF val)))
           | _ \<Rightarrow> Inl PaTypeMismatch)
      | _ \<Rightarrow> Inl PaTypeMismatch)"

section \<open>What a partial access reads and writes\<close>

text \<open>
  The specification: a bit string has a number of bits and a bit at each position; an access is
  the first bit and the number of bits it covers.
\<close>

definition bit_count :: "rvalue \<Rightarrow> nat option" where
  "bit_count v =
     (case v of VBool _ \<Rightarrow> Some 1 | VByte _ \<Rightarrow> Some 8 | VWord _ \<Rightarrow> Some 16 | VDWord _ \<Rightarrow> Some 32
      | VLWord _ \<Rightarrow> Some 64 | _ \<Rightarrow> None)"

definition bit_of :: "rvalue \<Rightarrow> nat \<Rightarrow> bool" where
  "bit_of v n =
     (case v of VBool b \<Rightarrow> b \<and> n = 0 | VByte w \<Rightarrow> bit w n | VWord w \<Rightarrow> bit w n
      | VDWord w \<Rightarrow> bit w n | VLWord w \<Rightarrow> bit w n | _ \<Rightarrow> False)"

fun access_width :: "partial_access \<Rightarrow> nat" where
  "access_width (PaBit _) = 1"
| "access_width (PaByte _) = 8"
| "access_width (PaWord _) = 16"
| "access_width (PaDWord _) = 32"

fun access_index :: "partial_access \<Rightarrow> nat" where
  "access_index (PaBit i) = unat i"
| "access_index (PaByte i) = unat i"
| "access_index (PaWord i) = unat i"
| "access_index (PaDWord i) = unat i"

definition access_start :: "partial_access \<Rightarrow> nat" where
  "access_start a = access_index a * access_width a"

lemma pa_check_ok: "pa_check index upper = Inr u \<longleftrightarrow> unat index \<le> unat upper"
  by (simp add: pa_check_def word_less_nat_alt not_less)

lemma bit_count_simps [simp]:
  "bit_count (VBool b) = Some 1" "bit_count (VByte w8) = Some 8"
  "bit_count (VWord w16) = Some 16" "bit_count (VDWord w32) = Some 32"
  "bit_count (VLWord w64) = Some 64"
  by (simp_all add: bit_count_def)

lemma bit_of_simps [simp]:
  "bit_of (VBool b) n \<longleftrightarrow> b \<and> n = 0" "bit_of (VByte w8) n \<longleftrightarrow> bit w8 n"
  "bit_of (VWord w16) n \<longleftrightarrow> bit w16 n" "bit_of (VDWord w32) n \<longleftrightarrow> bit w32 n"
  "bit_of (VLWord w64) n \<longleftrightarrow> bit w64 n"
  by (simp_all add: bit_of_def)

lemma read_bit_bits: "(and (drop_bit k w) 1 = 1) \<longleftrightarrow> bit w k"
  by (simp add: bit_iff_and_drop_bit_eq_1)

lemma bit_write_bit:
  fixes w :: "'a::len word"
  assumes "unat index < LENGTH('a)"
  shows "bit (write_bit w index b) n \<longleftrightarrow> (if n = unat index then b else bit w n)"
  using assms by (auto simp: write_bit_def bit_simps dest: bit_imp_le_length)

lemma bit_write_part:
  fixes w :: "'a::len word" and part :: "'b::len word"
  assumes "msk = mask LENGTH('b)" and "shift + LENGTH('b) \<le> LENGTH('a)"
  shows "bit (write_part w shift msk part) n \<longleftrightarrow>
    (if shift \<le> n \<and> n < shift + LENGTH('b) then bit part (n - shift) else bit w n)"
  using assms(2) by (auto simp: write_part_def bit_simps assms(1) dest: bit_imp_le_length)

lemma bit_read_part:
  fixes w :: "'a::len word"
  assumes "msk = mask LENGTH('b)" and "shift + LENGTH('b) \<le> LENGTH('a)"
  shows "bit (read_part w shift msk :: 'b::len word) n \<longleftrightarrow> n < LENGTH('b) \<and> bit w (shift + n)"
  using assms(2) by (auto simp: read_part_def bit_simps assms(1))

text \<open>The shift amounts are computed in \<open>u8\<close>; the index check keeps them from wrapping.\<close>

lemma shift_exact:
  "unat (index :: u8) \<le> 7 \<Longrightarrow> unat (index * 8) = unat index * 8"
  "unat (index :: u8) \<le> 3 \<Longrightarrow> unat (index * 16) = unat index * 16"
  "unat (index :: u8) \<le> 1 \<Longrightarrow> unat (index * 32) = unat index * 32"
  by (simp_all add: unat_word_ariths)

lemma case_rvalue_ok:
  "(case v of VBool b \<Rightarrow> f b | _ \<Rightarrow> Inl e) = Inr y \<longleftrightarrow> (\<exists>b. v = VBool b \<and> f b = Inr y)"
  "(case v of VByte w8 \<Rightarrow> f8 w8 | _ \<Rightarrow> Inl e) = Inr y \<longleftrightarrow> (\<exists>w. v = VByte w \<and> f8 w = Inr y)"
  "(case v of VWord w16 \<Rightarrow> f16 w16 | _ \<Rightarrow> Inl e) = Inr y \<longleftrightarrow> (\<exists>w. v = VWord w \<and> f16 w = Inr y)"
  "(case v of VDWord w32 \<Rightarrow> f32 w32 | _ \<Rightarrow> Inl e) = Inr y \<longleftrightarrow> (\<exists>w. v = VDWord w \<and> f32 w = Inr y)"
  "(case v of VLWord w64 \<Rightarrow> f64 w64 | _ \<Rightarrow> Inl e) = Inr y \<longleftrightarrow> (\<exists>w. v = VLWord w \<and> f64 w = Inr y)"
  "(case v of VDWord w32 \<Rightarrow> f32 w32 | VLWord w64 \<Rightarrow> f64 w64 | _ \<Rightarrow> Inl e) = Inr y \<longleftrightarrow>
    (\<exists>w. v = VDWord w \<and> f32 w = Inr y) \<or> (\<exists>w. v = VLWord w \<and> f64 w = Inr y)"
  "(case v of VWord w16 \<Rightarrow> f16 w16 | VDWord w32 \<Rightarrow> f32 w32 | VLWord w64 \<Rightarrow> f64 w64 | _ \<Rightarrow> Inl e) = Inr y
    \<longleftrightarrow> (\<exists>w. v = VWord w \<and> f16 w = Inr y) \<or> (\<exists>w. v = VDWord w \<and> f32 w = Inr y) \<or>
      (\<exists>w. v = VLWord w \<and> f64 w = Inr y)"
  "(case v of VByte w8 \<Rightarrow> f8 w8 | VWord w16 \<Rightarrow> f16 w16 | VDWord w32 \<Rightarrow> f32 w32 | VLWord w64 \<Rightarrow> f64 w64
    | _ \<Rightarrow> Inl e) = Inr y
    \<longleftrightarrow> (\<exists>w. v = VByte w \<and> f8 w = Inr y) \<or> (\<exists>w. v = VWord w \<and> f16 w = Inr y) \<or>
      (\<exists>w. v = VDWord w \<and> f32 w = Inr y) \<or> (\<exists>w. v = VLWord w \<and> f64 w = Inr y)"
  by (cases v; simp)+

lemma read_partial_bits:
  assumes "read_partial_access t a = Inr v"
  shows "\<exists>len. bit_count t = Some len \<and> access_start a + access_width a \<le> len \<and>
    bit_count v = Some (access_width a) \<and>
    (\<forall>n. bit_of v n \<longleftrightarrow> n < access_width a \<and> bit_of t (access_start a + n))"
  using assms
  by (cases a)
    (auto simp: case_rvalue_ok rbind_eq_Inr pa_check_ok read_bit_def read_bit_bits
      access_start_def shift_exact bit_read_part mask_eq_exp_minus_1)

lemma write_partial_bits:
  assumes "write_partial_access t a v = Inr t'"
  shows "\<exists>len. bit_count t = Some len \<and> access_start a + access_width a \<le> len \<and>
    bit_count v = Some (access_width a) \<and> bit_count t' = Some len \<and>
    (\<forall>n. bit_of t' n \<longleftrightarrow>
      (if access_start a \<le> n \<and> n < access_start a + access_width a
       then bit_of v (n - access_start a) else bit_of t n))"
  using assms
  by (cases a)
    (auto simp: case_rvalue_ok rbind_eq_Inr pa_check_ok bit_write_bit
      access_start_def shift_exact bit_write_part mask_eq_exp_minus_1)

lemma bit_of_less: "bit_of v n \<Longrightarrow> \<exists>len. bit_count v = Some len \<and> n < len"
  by (cases v) (auto simp: bit_of_def bit_count_def dest: bit_imp_le_length)

lemma bits_determine:
  assumes "bit_count v = bit_count w" and "bit_count v \<noteq> None" and "\<And>n. bit_of v n = bit_of w n"
  shows "v = w"
proof -
  have word: "a = b" if "\<And>n. bit a n = bit b n" for a b :: "'a::len word"
    by (rule bit_word_eqI) (rule that)
  from assms show ?thesis
    by (cases v; cases w)
      (auto simp: bit_count_def split: if_splits intro: word dest: spec [of _ 0])
qed

text \<open>Which accesses a value supports.\<close>

lemma read_partial_defined:
  "(\<exists>v. read_partial_access t a = Inr v) \<longleftrightarrow>
    (\<exists>len. bit_count t = Some len \<and> access_width a < len \<and>
      access_start a + access_width a \<le> len)"
proof (cases a)
  case (PaBit i)
  then show ?thesis
    by (cases t) (auto simp: rbind_eq_Inr pa_check_ok access_start_def bit_count_def)
next
  case (PaByte i)
  then show ?thesis
    by (cases t) (auto simp: rbind_eq_Inr pa_check_ok access_start_def bit_count_def)
next
  case (PaWord i)
  then show ?thesis
    by (cases t) (auto simp: rbind_eq_Inr pa_check_ok access_start_def bit_count_def)
next
  case (PaDWord i)
  then show ?thesis
    by (cases t) (auto simp: rbind_eq_Inr pa_check_ok access_start_def bit_count_def)
qed

section \<open>Dates\<close>

datatype date_time_error = DtOutOfRange | DtTimezoneNotSupported

text \<open>
  The sums of the source are computed in \<open>i128\<close>, where two \<open>i64\<close> cannot overflow; an \<open>i128\<close> is
  an integer here.
\<close>

definition try_from_ticks :: "int \<Rightarrow> date_time_error + i64" where
  "try_from_ticks ticks =
     (if - (2 ^ 63) \<le> ticks \<and> ticks < 2 ^ 63 then Inr (word_of_int ticks) else Inl DtOutOfRange)"

definition combine_date_and_tod :: "i64 \<Rightarrow> i64 \<Rightarrow> date_time_error + i64" where
  "combine_date_and_tod date tod = try_from_ticks (sint date + sint tod)"

definition combine_date_and_tod_with_tz ::
    "i64 \<Rightarrow> i64 \<Rightarrow> i32 option \<Rightarrow> date_time_error + i64" where
  "combine_date_and_tod_with_tz date tod tz_offset_minutes =
     (if tz_offset_minutes \<noteq> None then Inl DtTimezoneNotSupported
      else combine_date_and_tod date tod)"

lemma combine_exact:
  "combine_date_and_tod date tod = Inr dt \<longleftrightarrow> sint dt = sint date + sint tod"
proof -
  have "sint (word_of_int (sint date + sint tod) :: i64) = sint date + sint tod"
    if "- (2 ^ 63) \<le> sint date + sint tod" "sint date + sint tod < 2 ^ 63"
    using that by (intro sint_of_int_id) (simp_all add: signed_min_def signed_max_def)
  moreover have "- (2 ^ 63) \<le> sint dt" "sint dt < 2 ^ 63"
    using sint_ge [of dt] sint_lt [of dt] by simp_all
  moreover have "word_of_int (sint date + sint tod) = dt" if "sint dt = sint date + sint tod"
    unfolding that [symmetric] by simp
  ultimately show ?thesis
    by (auto simp: combine_date_and_tod_def try_from_ticks_def)
qed

section \<open>Errors\<close>

text \<open>
  \<open>RuntimeError\<close> of \<open>error.rs\<close> with its conversions, and the calculation errors of
  \<open>datetime.rs\<close> that one of them collapses.
\<close>

datatype date_time_calc_error = DcInvalidDate | DcInvalidResolution | DcOverflow

datatype runtime_error =
    UndefinedVariable rstr
  | UndefinedFunction rstr
  | UndefinedProgram rstr
  | UndefinedFunctionBlock rstr
  | UndefinedTask rstr
  | UndefinedLabel rstr
  | UndefinedField rstr
  | InvalidTaskSingle rstr
  | InvalidIoAddress rstr
  | TypeMismatch
  | InvalidArgumentCount nat nat
  | InvalidArgumentName rstr
  | AssertionFailed rstr
  | DivisionByZero
  | ModuloByZero
  | Overflow
  | IndexOutOfBounds i64 i64 i64
  | NullReference
  | InvalidControlFlow
  | ForStepZero
  | ConditionNotBool
  | CaseSelectorType
  | DateTimeRange date_time_error
  | InvalidFrame u32
  | ResourceFaulted
  | IoDriver rstr
  | UnsupportedBytecodeVersion u16 u16
  | InvalidBytecodeMetadata rstr
  | InvalidBytecode rstr
  | ThreadSpawn rstr
  | WatchdogTimeout
  | ExecutionTimeout
  | SimulationFault rstr
  | InvalidConfig rstr
  | InvalidBundle rstr
  | RetainStore rstr
  | ControlError rstr

definition from_date_time_error :: "date_time_error \<Rightarrow> runtime_error" where
  "from_date_time_error value = DateTimeRange value"

definition from_date_time_calc_error :: "date_time_calc_error \<Rightarrow> runtime_error" where
  "from_date_time_calc_error _ = Overflow"

end
