(* ===== verification/Memory.thy ===== *)
theory Memory
  imports Values
begin

text \<open>
  The variable storage of the runtime (\<open>memory.rs\<close>): globals, the stack of local frames,
  instances of function blocks and classes, retained variables, and reading and writing through
  references with paths into arrays and structs. A method with \<open>&mut self\<close> takes the storage
  last and returns it with its result.
\<close>

type_synonym var_map = "(rstr, rvalue) index_map"

record local_frame =
  lf_id :: frame_id
  lf_owner :: rstr
  lf_variables :: var_map
  lf_return_value :: "rvalue option"
  lf_instance_id :: "instance_id option"

record instance_data =
  in_type_name :: rstr
  in_variables :: var_map
  in_parent :: "instance_id option"

record variable_storage =
  vs_globals :: var_map
  vs_frames :: "local_frame list"
  vs_instances :: "instance_id \<rightharpoonup> instance_data"
  vs_retain :: var_map
  vs_next_frame_id :: u32
  vs_next_instance_id :: u32

definition storage_new :: variable_storage where
  "storage_new =
     \<lparr>vs_globals = [], vs_frames = [], vs_instances = Map.empty, vs_retain = [],
      vs_next_frame_id = 0, vs_next_instance_id = 0\<rparr>"

section \<open>Globals and retained variables\<close>

definition set_global :: "rstr \<Rightarrow> rvalue \<Rightarrow> variable_storage \<Rightarrow> variable_storage" where
  "set_global name value s = s\<lparr>vs_globals := im_insert name value (vs_globals s)\<rparr>"

definition get_global :: "variable_storage \<Rightarrow> rstr \<Rightarrow> rvalue option" where
  "get_global s name = im_get (vs_globals s) name"

definition set_retain :: "rstr \<Rightarrow> rvalue \<Rightarrow> variable_storage \<Rightarrow> variable_storage" where
  "set_retain name value s = s\<lparr>vs_retain := im_insert name value (vs_retain s)\<rparr>"

definition get_retain :: "variable_storage \<Rightarrow> rstr \<Rightarrow> rvalue option" where
  "get_retain s name = im_get (vs_retain s) name"

section \<open>Frames\<close>

text \<open>The top of the frame stack is the last element of the vector.\<close>

definition last_opt :: "'a list \<Rightarrow> 'a option" where
  "last_opt xs = (if xs = [] then None else Some (last xs))"

definition push_frame :: "rstr \<Rightarrow> variable_storage \<Rightarrow> frame_id \<times> variable_storage" where
  "push_frame owner s =
     (let i = vs_next_frame_id s in
      (i, s\<lparr>vs_next_frame_id := i + 1,
            vs_frames := vs_frames s @ [\<lparr>lf_id = i, lf_owner = owner, lf_variables = [],
              lf_return_value = None, lf_instance_id = None\<rparr>]\<rparr>))"

definition push_frame_with_instance ::
    "rstr \<Rightarrow> instance_id \<Rightarrow> variable_storage \<Rightarrow> frame_id \<times> variable_storage" where
  "push_frame_with_instance owner inst s =
     (let i = vs_next_frame_id s in
      (i, s\<lparr>vs_next_frame_id := i + 1,
            vs_frames := vs_frames s @ [\<lparr>lf_id = i, lf_owner = owner, lf_variables = [],
              lf_return_value = None, lf_instance_id = Some inst\<rparr>]\<rparr>))"

definition pop_frame :: "variable_storage \<Rightarrow> local_frame option \<times> variable_storage" where
  "pop_frame s = (last_opt (vs_frames s), s\<lparr>vs_frames := butlast (vs_frames s)\<rparr>)"

definition current_frame :: "variable_storage \<Rightarrow> local_frame option" where
  "current_frame s = last_opt (vs_frames s)"

text \<open>An update through \<open>current_frame_mut\<close>.\<close>

definition map_last :: "('a \<Rightarrow> 'a) \<Rightarrow> 'a list \<Rightarrow> 'a list" where
  "map_last f xs = (if xs = [] then [] else butlast xs @ [f (last xs)])"

definition update_current_frame ::
    "(local_frame \<Rightarrow> local_frame) \<Rightarrow> variable_storage \<Rightarrow> variable_storage" where
  "update_current_frame f s = s\<lparr>vs_frames := map_last f (vs_frames s)\<rparr>"

definition set_local :: "rstr \<Rightarrow> rvalue \<Rightarrow> variable_storage \<Rightarrow> bool \<times> variable_storage" where
  "set_local name value s =
     (case current_frame s of
        Some _ \<Rightarrow> (True, update_current_frame
          (\<lambda>fr. fr\<lparr>lf_variables := im_insert name value (lf_variables fr)\<rparr>) s)
      | None \<Rightarrow> (False, s))"

definition get_local :: "variable_storage \<Rightarrow> rstr \<Rightarrow> rvalue option" where
  "get_local s name = Option.bind (current_frame s) (\<lambda>fr. im_get (lf_variables fr) name)"

definition clear_locals :: "variable_storage \<Rightarrow> variable_storage" where
  "clear_locals s = update_current_frame (\<lambda>fr. fr\<lparr>lf_variables := []\<rparr>) s"

definition clear_frames :: "variable_storage \<Rightarrow> variable_storage" where
  "clear_frames s = s\<lparr>vs_frames := [], vs_next_frame_id := 0\<rparr>"

fun find_index :: "('a \<Rightarrow> bool) \<Rightarrow> 'a list \<Rightarrow> nat option" where
  "find_index P [] = None"
| "find_index P (x # xs) = (if P x then Some 0 else map_option Suc (find_index P xs))"

definition remove_at :: "nat \<Rightarrow> 'a list \<Rightarrow> 'a list" where
  "remove_at i xs = take i xs @ drop (Suc i) xs"

definition insert_at :: "nat \<Rightarrow> 'a \<Rightarrow> 'a list \<Rightarrow> 'a list" where
  "insert_at i x xs = take i xs @ x # drop i xs"

text \<open>
  \<open>with_frame\<close> runs the closure \<open>f\<close> with the frame moved to the top and puts the top frame back
  at the old position. The outer option is \<^const>\<open>None\<close> for a panic: \<open>f\<close> left no frame to pop,
  or fewer frames than the position to insert at.
\<close>

definition with_frame ::
    "frame_id \<Rightarrow> (variable_storage \<Rightarrow> 'a \<times> variable_storage) \<Rightarrow> variable_storage \<Rightarrow>
      ('a option \<times> variable_storage) option" where
  "with_frame frame_id f s =
     (case find_index (\<lambda>fr. lf_id fr = frame_id) (vs_frames s) of
        None \<Rightarrow> Some (None, s)
      | Some idx \<Rightarrow>
          if idx + 1 = length (vs_frames s) then
            (let (res, s) = f s in Some (Some res, s))
          else
            let fr = vs_frames s ! idx;
                s = s\<lparr>vs_frames := remove_at idx (vs_frames s) @ [fr]\<rparr>;
                (res, s) = f s;
                (popped, s) = pop_frame s
            in case popped of
                 None \<Rightarrow> None
               | Some fr \<Rightarrow>
                   if length (vs_frames s) < idx then None
                   else Some (Some res, s\<lparr>vs_frames := insert_at idx fr (vs_frames s)\<rparr>))"

section \<open>Instances\<close>

definition create_instance :: "rstr \<Rightarrow> variable_storage \<Rightarrow> instance_id \<times> variable_storage" where
  "create_instance type_name s =
     (let i = vs_next_instance_id s in
      (i, s\<lparr>vs_next_instance_id := i + 1,
            vs_instances := (vs_instances s)(i \<mapsto>
              \<lparr>in_type_name = type_name, in_variables = [], in_parent = None\<rparr>)\<rparr>))"

definition get_instance :: "variable_storage \<Rightarrow> instance_id \<Rightarrow> instance_data option" where
  "get_instance s i = vs_instances s i"

definition set_instance_var ::
    "instance_id \<Rightarrow> rstr \<Rightarrow> rvalue \<Rightarrow> variable_storage \<Rightarrow> bool \<times> variable_storage" where
  "set_instance_var i name value s =
     (case vs_instances s i of
        Some inst \<Rightarrow> (True, s\<lparr>vs_instances := (vs_instances s)(i \<mapsto>
          inst\<lparr>in_variables := im_insert name value (in_variables inst)\<rparr>)\<rparr>)
      | None \<Rightarrow> (False, s))"

definition get_instance_var :: "variable_storage \<Rightarrow> instance_id \<Rightarrow> rstr \<Rightarrow> rvalue option" where
  "get_instance_var s i name =
     Option.bind (vs_instances s i) (\<lambda>inst. im_get (in_variables inst) name)"

definition parent_of :: "variable_storage \<Rightarrow> instance_id \<Rightarrow> instance_id option" where
  "parent_of s i = Option.bind (vs_instances s i) in_parent"

text \<open>
  The loops over the chain of parents; the fuel bounds the number of rounds, and \<^const>\<open>None\<close>
  outside means that it did not suffice.
\<close>

fun walk_parents ::
    "nat \<Rightarrow> variable_storage \<Rightarrow> (instance_id \<Rightarrow> 'a option) \<Rightarrow> instance_id option \<Rightarrow> 'a option option"
where
  "walk_parents fuel s look None = Some None"
| "walk_parents 0 s look (Some i) = None"
| "walk_parents (Suc fuel) s look (Some i) =
     (case look i of Some x \<Rightarrow> Some (Some x) | None \<Rightarrow> walk_parents fuel s look (parent_of s i))"

definition get_instance_var_recursive ::
    "nat \<Rightarrow> variable_storage \<Rightarrow> instance_id \<Rightarrow> rstr \<Rightarrow> rvalue option option" where
  "get_instance_var_recursive fuel s i name =
     walk_parents fuel s (\<lambda>i. get_instance_var s i name) (Some i)"

section \<open>References\<close>

definition ref_for_map :: "var_map \<Rightarrow> memory_location \<Rightarrow> rstr \<Rightarrow> value_ref option" where
  "ref_for_map m location name =
     map_option (\<lambda>offset. \<lparr>vr_location = location, vr_offset = offset, vr_path = []\<rparr>)
       (im_index_of m name)"

definition ref_for_global :: "variable_storage \<Rightarrow> rstr \<Rightarrow> value_ref option" where
  "ref_for_global s name = ref_for_map (vs_globals s) MGlobal name"

definition ref_for_local :: "variable_storage \<Rightarrow> rstr \<Rightarrow> value_ref option" where
  "ref_for_local s name =
     Option.bind (current_frame s) (\<lambda>fr. ref_for_map (lf_variables fr) (MLocal (lf_id fr)) name)"

definition ref_for_instance :: "variable_storage \<Rightarrow> instance_id \<Rightarrow> rstr \<Rightarrow> value_ref option" where
  "ref_for_instance s i name =
     Option.bind (vs_instances s i) (\<lambda>inst. ref_for_map (in_variables inst) (MInstance i) name)"

definition ref_for_instance_recursive ::
    "nat \<Rightarrow> variable_storage \<Rightarrow> instance_id \<Rightarrow> rstr \<Rightarrow> value_ref option option" where
  "ref_for_instance_recursive fuel s i name =
     walk_parents fuel s (\<lambda>i. ref_for_instance s i name) (Some i)"

text \<open>
  \<open>array_offset_i64\<close>: differences and lengths are computed in \<open>i64\<close>, offset and stride in
  \<open>i128\<close>, over the reversed pairs of dimension and index.
\<close>

type_synonym i128 = "128 word"

fun offset_loop :: "((i64 \<times> i64) \<times> i64) list \<Rightarrow> i128 \<Rightarrow> i128 \<Rightarrow> i128 option" where
  "offset_loop [] offset stride = Some offset"
| "offset_loop (((lower, upper), index) # rest) offset stride =
     (if sint index < sint lower \<or> sint upper < sint index then None
      else offset_loop rest (offset + scast (index - lower) * stride)
             (stride * scast (upper - lower + 1)))"

definition usize_of_i128 :: "i128 \<Rightarrow> nat option" where
  "usize_of_i128 x = (if 0 \<le> sint x \<and> sint x < 2 ^ 64 then Some (nat (sint x)) else None)"

definition array_offset_i64 :: "(i64 \<times> i64) list \<Rightarrow> i64 list \<Rightarrow> nat option" where
  "array_offset_i64 dimensions indices =
     (if length dimensions \<noteq> length indices then None
      else Option.bind (offset_loop (rev (zip dimensions indices)) 0 1) usize_of_i128)"

fun read_by_ref_path :: "path_segment list \<Rightarrow> rvalue \<Rightarrow> rvalue option" where
  "read_by_ref_path [] v = Some v"
| "read_by_ref_path (PField name # path) v =
     (case v of
        VStruct _ flds \<Rightarrow> Option.bind (im_get flds name) (read_by_ref_path path)
      | _ \<Rightarrow> None)"
| "read_by_ref_path (PIndex indices # path) v =
     (case v of
        VArray elements dimensions \<Rightarrow>
          Option.bind (array_offset_i64 dimensions indices) (\<lambda>offset.
          Option.bind (nth_opt elements offset) (read_by_ref_path path))
      | _ \<Rightarrow> None)"

text \<open>\<open>write_by_ref_path\<close> mutates its target in place; the model returns the new target.\<close>

fun write_by_ref_path :: "path_segment list \<Rightarrow> rvalue \<Rightarrow> rvalue \<Rightarrow> bool \<times> rvalue" where
  "write_by_ref_path [] value target = (True, value)"
| "write_by_ref_path (PField name # path) value target =
     (case target of
        VStruct type_name flds \<Rightarrow>
          (case im_get flds name of
             Some old \<Rightarrow>
               (let (ok, new) = write_by_ref_path path value old
                in (ok, VStruct type_name (im_insert name new flds)))
           | None \<Rightarrow> (False, target))
      | _ \<Rightarrow> (False, target))"
| "write_by_ref_path (PIndex indices # path) value target =
     (case target of
        VArray elements dimensions \<Rightarrow>
          (case array_offset_i64 dimensions indices of
             Some offset \<Rightarrow>
               (case nth_opt elements offset of
                  Some old \<Rightarrow>
                    (let (ok, new) = write_by_ref_path path value old
                     in (ok, VArray (elements[offset := new]) dimensions))
                | None \<Rightarrow> (False, target))
           | None \<Rightarrow> (False, target))
      | _ \<Rightarrow> (False, target))"

definition find_frame :: "variable_storage \<Rightarrow> frame_id \<Rightarrow> local_frame option" where
  "find_frame s i = find (\<lambda>fr. lf_id fr = i) (vs_frames s)"

definition root_map :: "variable_storage \<Rightarrow> memory_location \<Rightarrow> var_map option" where
  "root_map s location =
     (case location of
        MGlobal \<Rightarrow> Some (vs_globals s)
      | MLocal i \<Rightarrow> map_option lf_variables (find_frame s i)
      | MInstance i \<Rightarrow> map_option in_variables (vs_instances s i)
      | MIo _ \<Rightarrow> None
      | MRetain \<Rightarrow> None)"

definition read_by_ref :: "variable_storage \<Rightarrow> value_ref \<Rightarrow> rvalue option" where
  "read_by_ref s r =
     Option.bind (root_map s (vr_location r)) (\<lambda>m.
     Option.bind (im_at m (vr_offset r)) (read_by_ref_path (vr_path r)))"

fun update_first :: "('a \<Rightarrow> bool) \<Rightarrow> ('a \<Rightarrow> 'a) \<Rightarrow> 'a list \<Rightarrow> 'a list" where
  "update_first P f [] = []"
| "update_first P f (x # xs) = (if P x then f x # xs else x # update_first P f xs)"

definition set_root_map ::
    "memory_location \<Rightarrow> var_map \<Rightarrow> variable_storage \<Rightarrow> variable_storage" where
  "set_root_map location m s =
     (case location of
        MGlobal \<Rightarrow> s\<lparr>vs_globals := m\<rparr>
      | MLocal i \<Rightarrow> s\<lparr>vs_frames := update_first (\<lambda>fr. lf_id fr = i)
          (\<lambda>fr. fr\<lparr>lf_variables := m\<rparr>) (vs_frames s)\<rparr>
      | MInstance i \<Rightarrow> s\<lparr>vs_instances := (vs_instances s)(i :=
          map_option (\<lambda>inst. inst\<lparr>in_variables := m\<rparr>) (vs_instances s i))\<rparr>
      | MIo _ \<Rightarrow> s
      | MRetain \<Rightarrow> s)"

definition write_by_ref ::
    "value_ref \<Rightarrow> rvalue \<Rightarrow> variable_storage \<Rightarrow> bool \<times> variable_storage" where
  "write_by_ref r value s =
     (case root_map s (vr_location r) of
        None \<Rightarrow> (False, s)
      | Some m \<Rightarrow>
          (case im_at m (vr_offset r) of
             None \<Rightarrow> (False, s)
           | Some old \<Rightarrow>
               (let (ok, new) = write_by_ref_path (vr_path r) value old
                in (ok, set_root_map (vr_location r) (im_set_at m (vr_offset r) new) s))))"

section \<open>Access bindings\<close>

record access_binding =
  ab_name :: rstr
  ab_reference :: value_ref
  ab_partial :: "partial_access option"

type_synonym access_map = "(rstr, access_binding) index_map"

definition access_bind ::
    "rstr \<Rightarrow> value_ref \<Rightarrow> partial_access option \<Rightarrow> access_map \<Rightarrow> access_map" where
  "access_bind name reference part m =
     im_insert name \<lparr>ab_name = name, ab_reference = reference, ab_partial = part\<rparr> m"

definition access_get :: "access_map \<Rightarrow> rstr \<Rightarrow> access_binding option" where
  "access_get m name = im_get m name"

end
