(* ===== verification/Array_Index.thy ===== *)
theory Array_Index
  imports Memory
begin

text \<open>
  The index arithmetic of arrays (\<open>array_offset_i64\<close> of \<open>memory.rs\<close>) against its specification
  over integers: row-major order, the last dimension varying fastest. For arrays of fewer than
  \<open>2 ^ 63\<close> elements the machine arithmetic does not wrap, the offset lies inside the array, and
  different index vectors have different offsets.
\<close>

lemma sint_mult_no_wrap:
  fixes a b :: "'a::len word"
  assumes "signed_min TYPE('a) \<le> sint a * sint b" and "sint a * sint b \<le> signed_max TYPE('a)"
  shows "sint (a * b) = sint a * sint b"
  using signed_take_bit_id [OF assms] by (simp add: sint_word_ariths)

lemma sint_scast_up: "sint (scast (w :: i64) :: i128) = sint w"
  by (simp add: sint_up_scast is_up)

section \<open>The specification\<close>

definition dim_len :: "i64 \<times> i64 \<Rightarrow> int" where
  "dim_len d = sint (snd d) - sint (fst d) + 1"

definition in_dim :: "i64 \<times> i64 \<Rightarrow> i64 \<Rightarrow> bool" where
  "in_dim d i \<longleftrightarrow> sint (fst d) \<le> sint i \<and> sint i \<le> sint (snd d)"

fun elements_of :: "(i64 \<times> i64) list \<Rightarrow> int" where
  "elements_of [] = 1"
| "elements_of (d # ds) = dim_len d * elements_of ds"

fun row_major :: "(i64 \<times> i64) list \<Rightarrow> i64 list \<Rightarrow> int" where
  "row_major (d # ds) (i # is) = (sint i - sint (fst d)) * elements_of ds + row_major ds is"
| "row_major _ _ = 0"

definition dims_ok :: "(i64 \<times> i64) list \<Rightarrow> bool" where
  "dims_ok ds \<longleftrightarrow> (\<forall>d\<in>set ds. 1 \<le> dim_len d) \<and> elements_of ds < 2 ^ 63"

lemma elements_pos: "\<forall>d\<in>set ds. 1 \<le> dim_len d \<Longrightarrow> 1 \<le> elements_of ds"
  by (induction ds) (auto intro: order_trans [OF _ mult_mono [of 1 _ 1]])

lemma row_major_bounds:
  assumes "\<forall>d\<in>set ds. 1 \<le> dim_len d" and "list_all2 in_dim ds is"
  shows "0 \<le> row_major ds is \<and> row_major ds is < elements_of ds"
  using assms(2,1)
proof (induction rule: list_all2_induct)
  case (Cons d ds i "is")
  define k where "k = sint i - sint (fst d)"
  have k: "0 \<le> k" "k + 1 \<le> dim_len d"
    using Cons.hyps by (auto simp: k_def in_dim_def dim_len_def)
  have e: "1 \<le> elements_of ds"
    using Cons.prems by (intro elements_pos) simp
  have "(k + 1) * elements_of ds \<le> dim_len d * elements_of ds"
    using k e by (intro mult_right_mono) auto
  then show ?case
    using Cons k e by (auto simp: k_def [symmetric] algebra_simps)
qed simp

lemma row_major_inj:
  assumes "\<forall>d\<in>set ds. 1 \<le> dim_len d" and "list_all2 in_dim ds is" and "list_all2 in_dim ds js"
    and "row_major ds is = row_major ds js"
  shows "is = js"
  using assms(2,1,3,4)
proof (induction arbitrary: js rule: list_all2_induct)
  case (Cons d ds i "is")
  then obtain j js' where js: "js = j # js'" "in_dim d j" "list_all2 in_dim ds js'"
    by (auto simp: list_all2_Cons1)
  let ?e = "elements_of ds" and ?k = "sint i - sint (fst d)" and ?l = "sint j - sint (fst d)"
  have r: "0 \<le> row_major ds is" "row_major ds is < ?e"
    and r': "0 \<le> row_major ds js'" "row_major ds js' < ?e"
    using row_major_bounds [of ds "is"] row_major_bounds [of ds js'] Cons js by auto
  have eq: "?k * ?e + row_major ds is = ?l * ?e + row_major ds js'"
    using Cons.prems(3) js by simp
  have "?k = (?k * ?e + row_major ds is) div ?e"
    using r by (simp add: div_pos_pos_trivial)
  also have "\<dots> = (?l * ?e + row_major ds js') div ?e"
    by (simp only: eq)
  also have "\<dots> = ?l"
    using r' by (simp add: div_pos_pos_trivial)
  finally have "?k = ?l" .
  then have "sint i = sint j"
    by simp
  then have "i = j"
    by (rule signed_word_eqI)
  moreover have "row_major ds is = row_major ds js'"
    using eq \<open>?k = ?l\<close> by simp
  ultimately show ?case
    using Cons.IH [OF _ js(3)] Cons.prems(1) js(1) by simp
qed simp

section \<open>The machine arithmetic\<close>

lemma elements_snoc: "elements_of (ds @ [d]) = elements_of ds * dim_len d"
  by (induction ds) auto

lemma row_major_snoc:
  assumes "length ds = length is"
  shows "row_major (ds @ [d]) (is @ [i]) =
    row_major ds is * dim_len d + (sint i - sint (fst d))"
  using assms by (induction ds "is" rule: list_induct2) (auto simp: elements_snoc algebra_simps)

lemma loop_step:
  assumes "in_dim (lower, upper) index" and "0 \<le> sint off" and "sint off < sint stride"
    and "1 \<le> sint stride" and "sint stride * dim_len (lower, upper) < 2 ^ 63"
  shows "sint (off + scast (index - lower) * stride :: i128) =
      sint off + (sint index - sint lower) * sint stride"
    and "sint (stride * scast (upper - lower + 1) :: i128) = sint stride * dim_len (lower, upper)"
proof -
  let ?k = "sint index - sint lower" and ?n = "dim_len (lower, upper)"
  have k: "0 \<le> ?k" "?k + 1 \<le> ?n"
    using assms(1) by (auto simp: in_dim_def dim_len_def)
  then have n: "1 \<le> ?n"
    by linarith
  have "?n \<le> sint stride * ?n"
    using assms(4) n mult_right_mono [of 1 "sint stride" ?n] by simp
  with assms(5) have nmax: "?n < 2 ^ 63"
    by linarith
  have diff: "sint (index - lower) = ?k"
    using k nmax by (intro sint_minus_no_wrap) (auto simp: signed_min_def signed_max_def)
  have "sint (upper - lower) = ?n - 1"
    using n nmax by (subst sint_minus_no_wrap) (auto simp: signed_min_def signed_max_def dim_len_def)
  then have len: "sint (upper - lower + 1) = ?n"
    using n nmax by (subst sint_plus_no_wrap) (auto simp: signed_min_def signed_max_def)
  have smax: "sint stride < 2 ^ 63"
    using assms(4,5) n mult_left_mono [of 1 ?n "sint stride"] by linarith
  have "?k * sint stride \<le> ?n * sint stride"
    using k assms(4) by (intro mult_right_mono) auto
  moreover have "?n * sint stride < 2 ^ 63"
    using assms(5) by (simp add: mult.commute)
  moreover have "0 \<le> ?k * sint stride"
    using k(1) assms(4) by (intro mult_nonneg_nonneg) auto
  ultimately have ks: "0 \<le> ?k * sint stride" "?k * sint stride < 2 ^ 63"
    by linarith+
  have prod: "sint (scast (index - lower) * stride :: i128) = ?k * sint stride"
    using ks by (subst sint_mult_no_wrap) (auto simp: sint_scast_up diff signed_min_def signed_max_def)
  show "sint (off + scast (index - lower) * stride :: i128) = sint off + ?k * sint stride"
    using ks assms(2,3) smax prod
    by (subst sint_plus_no_wrap) (auto simp: signed_min_def signed_max_def)
  show "sint (stride * scast (upper - lower + 1) :: i128) = sint stride * ?n"
    using assms(4,5) n
    by (subst sint_mult_no_wrap) (auto simp: sint_scast_up len signed_min_def signed_max_def
        intro: order_trans [OF _ mult_nonneg_nonneg])
qed

lemma offset_loop_row_major:
  assumes "length ds = length is" and "\<forall>d\<in>set ds. 1 \<le> dim_len d"
    and "0 \<le> sint off" and "sint off < sint stride" and "1 \<le> sint stride"
    and "sint stride * elements_of ds < 2 ^ 63"
  shows "if list_all2 in_dim ds is
    then \<exists>r. offset_loop (rev (zip ds is)) off stride = Some r \<and>
      sint r = sint off + sint stride * row_major ds is
    else offset_loop (rev (zip ds is)) off stride = None"
  using assms
proof (induction ds arbitrary: "is" off stride rule: rev_induct)
  case (snoc d ds)
  obtain "is'" i where "is": "is = is' @ [i]" and len: "length ds = length is'"
    using snoc.prems(1) by (cases "is" rule: rev_cases) auto
  obtain lower upper where d: "d = (lower, upper)"
    by (cases d)
  show ?case
  proof (cases "in_dim d i")
    case True
    define off' stride' where "off' = off + scast (i - lower) * stride"
      and "stride' = stride * scast (upper - lower + 1)"
    have e: "1 \<le> elements_of ds" and n: "1 \<le> dim_len d"
      using snoc.prems(2) elements_pos [of ds] by auto
    have total: "sint stride * dim_len d * elements_of ds < 2 ^ 63"
      using snoc.prems(6) by (simp add: elements_snoc ac_simps)
    have "0 \<le> sint stride * dim_len d"
      using snoc.prems(5) n by auto
    then have "sint stride * dim_len d \<le> sint stride * dim_len d * elements_of ds"
      using e mult_left_mono [of 1 "elements_of ds" "sint stride * dim_len d"] by simp
    with total have "sint stride * dim_len d < 2 ^ 63"
      by linarith
    note step = loop_step [OF True [unfolded d] snoc.prems(3-5) this [unfolded d]]
    have off': "sint off' = sint off + (sint i - sint lower) * sint stride"
      and stride': "sint stride' = sint stride * dim_len d"
      using step by (simp_all add: off'_def stride'_def d)
    have k: "0 \<le> sint i - sint lower" "sint i - sint lower + 1 \<le> dim_len d"
      using True by (auto simp: d in_dim_def dim_len_def)
    have "(sint i - sint lower + 1) * sint stride \<le> dim_len d * sint stride"
      using k snoc.prems(5) by (intro mult_right_mono) auto
    then have "(sint i - sint lower) * sint stride + 1 * sint stride \<le> sint stride * dim_len d"
      by (simp only: distrib_right mult.commute [of "sint stride" "dim_len d"])
    moreover have "0 \<le> (sint i - sint lower) * sint stride"
      using k(1) snoc.prems(5) by (intro mult_nonneg_nonneg) auto
    moreover have "1 * 1 \<le> sint stride * dim_len d"
      using snoc.prems(5) n by (intro mult_mono) auto
    ultimately have bound: "0 \<le> sint off'" "sint off' < sint stride'" "1 \<le> sint stride'"
      unfolding off' stride' using snoc.prems(3,4) by linarith+
    have IH: "if list_all2 in_dim ds is'
      then \<exists>r. offset_loop (rev (zip ds is')) off' stride' = Some r \<and>
        sint r = sint off' + sint stride' * row_major ds is'
      else offset_loop (rev (zip ds is')) off' stride' = None"
      using snoc.prems(2) len bound total stride' by (intro snoc.IH) auto
    have loop: "offset_loop (rev (zip (ds @ [d]) is)) off stride =
        offset_loop (rev (zip ds is')) off' stride'"
      using True len by (auto simp: "is" d in_dim_def off'_def stride'_def)
    have "sint off' + sint stride' * row_major ds is' =
        sint off + sint stride * row_major (ds @ [d]) is"
      using len by (simp add: "is" row_major_snoc off' stride' d algebra_simps)
    with IH loop True len show ?thesis
      by (auto simp: "is" list_all2_append split: if_splits)
  next
    case False
    then show ?thesis
      using len by (auto simp: "is" d in_dim_def list_all2_append not_le)
  qed
qed simp

lemma array_offset_row_major:
  assumes "dims_ok ds" and "length ds = length is"
  shows "array_offset_i64 ds is =
    (if list_all2 in_dim ds is then Some (nat (row_major ds is)) else None)"
proof -
  note loop = offset_loop_row_major [OF assms(2), of 0 1]
  have "\<forall>d\<in>set ds. 1 \<le> dim_len d" "elements_of ds < 2 ^ 63"
    using assms(1) by (auto simp: dims_ok_def)
  with loop row_major_bounds [of ds "is"] assms(2) show ?thesis
    by (auto simp: array_offset_i64_def usize_of_i128_def split: if_splits)
qed

end
