(* ===== verification/Memory_Laws.thy ===== *)
theory Memory_Laws
  imports Memory
begin

text \<open>
  The laws of the variable storage: reading back what was written through a reference, writes
  that leave other references alone, references that stay valid while variables are added, the
  borrowed frame of \<open>with_frame\<close>, and the end of the walk over parent instances.
\<close>

section \<open>Paths\<close>

lemma im_insert_same: "im_get m k = Some v \<Longrightarrow> im_insert k v m = m"
  by (induction m) (auto simp: im_get_def im_insert_def split: if_splits)

lemma write_path_defined:
  "fst (write_by_ref_path p v t) \<longleftrightarrow> read_by_ref_path p t \<noteq> None"
proof (induction p arbitrary: t)
  case (Cons seg p)
  show ?case
  proof (cases seg)
    case (PField name)
    with Cons show ?thesis
      by (cases t) (auto split: option.splits prod.splits simp: prod_eq_iff)
  next
    case (PIndex ix)
    with Cons show ?thesis
      by (cases t) (auto split: option.splits prod.splits if_splits simp: prod_eq_iff nth_opt_def)
  qed
qed simp

lemma write_path_fails: "write_by_ref_path p v t = (False, t') \<Longrightarrow> t' = t"
proof (induction p arbitrary: t t')
  case (Cons seg p)
  show ?case
  proof (cases seg)
    case (PField name)
    with Cons show ?thesis
      by (cases t) (auto split: option.splits prod.splits dest!: Cons.IH simp: im_insert_same)
  next
    case (PIndex ix)
    with Cons show ?thesis
      by (cases t) (auto split: option.splits prod.splits dest!: Cons.IH)
  qed
qed simp

lemma write_path_read:
  "write_by_ref_path p v t = (True, t') \<Longrightarrow> read_by_ref_path p t' = Some v"
proof (induction p arbitrary: t t')
  case (Cons seg p)
  show ?case
  proof (cases seg)
    case (PField name)
    with Cons show ?thesis
      by (cases t) (auto split: option.splits prod.splits simp: im_get_insert)
  next
    case (PIndex ix)
    with Cons show ?thesis
      by (cases t) (auto split: option.splits prod.splits if_splits simp: nth_opt_def)
  qed
qed simp

text \<open>Two paths that part at some step of the walk into a value.\<close>

fun diverge :: "path_segment list \<Rightarrow> path_segment list \<Rightarrow> rvalue \<Rightarrow> bool" where
  "diverge [] _ _ = False"
| "diverge (_ # _) [] _ = False"
| "diverge (PField a # p) (PField b # q) t =
     (case t of
        VStruct _ flds \<Rightarrow>
          a \<noteq> b \<or> (case im_get flds a of Some x \<Rightarrow> diverge p q x | None \<Rightarrow> True)
      | _ \<Rightarrow> True)"
| "diverge (PIndex a # p) (PIndex b # q) t =
     (case t of
        VArray elements dims \<Rightarrow>
          (case array_offset_i64 dims a of
             None \<Rightarrow> True
           | Some i \<Rightarrow> array_offset_i64 dims b \<noteq> Some i \<or>
               (case nth_opt elements i of Some x \<Rightarrow> diverge p q x | None \<Rightarrow> True))
      | _ \<Rightarrow> True)"
| "diverge (PField _ # _) (PIndex _ # _) _ = True"
| "diverge (PIndex _ # _) (PField _ # _) _ = True"

lemma write_path_other:
  "diverge p q t \<Longrightarrow> write_by_ref_path p v t = (ok, t') \<Longrightarrow>
    read_by_ref_path q t' = read_by_ref_path q t"
proof (induction p q t arbitrary: t' ok rule: diverge.induct)
  case (3 a p b q t)
  then show ?case
    by (cases t) (auto split: option.splits prod.splits if_splits simp: im_get_insert)
next
  case (4 a p b q t)
  then show ?case
    by (cases t) (auto split: option.splits prod.splits if_splits bind_splits
        simp: nth_opt_def nth_list_update)
next
  case (5 a p b q t)
  then show ?case
    by (cases t) (auto split: option.splits prod.splits)
next
  case (6 a p b q t)
  then show ?case
    by (cases t) (auto split: option.splits prod.splits)
qed simp_all

section \<open>Variables behind locations\<close>

lemma find_update_first:
  assumes "\<And>x. key (f x) = key x"
  shows "find (\<lambda>x. key x = j) (update_first (\<lambda>x. key x = i) f xs) =
    (if i = j then map_option f (find (\<lambda>x. key x = i) xs) else find (\<lambda>x. key x = j) xs)"
  by (induction xs) (auto simp: assms)

lemma root_set_root:
  "root_map (set_root_map l m s) l' =
    (if l = l' \<and> root_map s l \<noteq> None then Some m else root_map s l')"
  by (cases l; cases l')
    (auto simp: root_map_def set_root_map_def find_frame_def find_update_first [of lf_id])

text \<open>
  The interface of a storage of variable maps behind locations: an update of one map is seen at
  its location and nowhere else. Reads and writes through references rest on it.
\<close>

locale root_store =
  fixes root :: "'s \<Rightarrow> 'l \<Rightarrow> var_map option"
    and set_root :: "'l \<Rightarrow> var_map \<Rightarrow> 's \<Rightarrow> 's"
  assumes root_set: "root (set_root l m s) l' =
    (if l = l' \<and> root s l \<noteq> None then Some m else root s l')"
begin

lemma im_at_less: "im_at m i = Some v \<Longrightarrow> i < length m"
  by (simp add: im_at_def split: if_splits)

definition slot :: "'s \<Rightarrow> 'l \<Rightarrow> nat \<Rightarrow> rvalue option" where
  "slot s l i = Option.bind (root s l) (\<lambda>m. im_at m i)"

definition put_slot :: "'l \<Rightarrow> nat \<Rightarrow> rvalue \<Rightarrow> 's \<Rightarrow> 's" where
  "put_slot l i v s =
     (case root s l of None \<Rightarrow> s | Some m \<Rightarrow> set_root l (im_set_at m i v) s)"

lemma slot_put:
  assumes "slot s l i \<noteq> None"
  shows "slot (put_slot l i v s) l' j = (if l = l' \<and> i = j then Some v else slot s l' j)"
  using assms
  by (auto simp: slot_def put_slot_def root_set im_at_set_at dest: im_at_less
      split: option.splits bind_splits)

lemma keys_put:
  "map_option (map fst) (root (put_slot l i v s) l') = map_option (map fst) (root s l')"
  by (auto simp: put_slot_def root_set split: option.splits)

end

interpretation st: root_store root_map set_root_map
  by unfold_locales (rule root_set_root)

lemma read_by_ref_slot:
  "read_by_ref s r = Option.bind (st.slot s (vr_location r) (vr_offset r)) (read_by_ref_path (vr_path r))"
  by (auto simp: read_by_ref_def st.slot_def split: bind_splits)

lemma write_by_ref_slot:
  "write_by_ref r v s =
    (case st.slot s (vr_location r) (vr_offset r) of
       None \<Rightarrow> (False, s)
     | Some old \<Rightarrow>
         (let (ok, new) = write_by_ref_path (vr_path r) v old
          in (ok, st.put_slot (vr_location r) (vr_offset r) new s)))"
  by (auto simp: write_by_ref_def st.slot_def st.put_slot_def split: option.splits)

lemma write_by_ref_defined: "fst (write_by_ref r v s) \<longleftrightarrow> read_by_ref s r \<noteq> None"
  by (cases "st.slot s (vr_location r) (vr_offset r)")
    (simp_all add: read_by_ref_slot write_by_ref_slot write_path_defined Let_def case_prod_beta)

lemma read_after_write:
  assumes "write_by_ref r v s = (True, s')"
  shows "read_by_ref s' r = Some v"
  using assms
  by (auto simp: read_by_ref_slot write_by_ref_slot st.slot_put write_path_read
      split: option.splits prod.splits)

definition refs_apart :: "variable_storage \<Rightarrow> value_ref \<Rightarrow> value_ref \<Rightarrow> bool" where
  "refs_apart s r q \<longleftrightarrow>
     vr_location r \<noteq> vr_location q \<or> vr_offset r \<noteq> vr_offset q \<or>
     (case st.slot s (vr_location r) (vr_offset r) of
        None \<Rightarrow> True | Some t \<Rightarrow> diverge (vr_path r) (vr_path q) t)"

lemma write_leaves_others:
  assumes "refs_apart s r q" and "write_by_ref r v s = (ok, s')"
  shows "read_by_ref s' q = read_by_ref s q"
proof (cases "st.slot s (vr_location r) (vr_offset r)")
  case None
  with assms(2) show ?thesis
    by (simp add: write_by_ref_slot)
next
  case (Some old)
  then obtain new where new: "write_by_ref_path (vr_path r) v old = (ok, new)"
    and s': "s' = st.put_slot (vr_location r) (vr_offset r) new s"
    using assms(2) by (auto simp: write_by_ref_slot split: prod.splits)
  show ?thesis
  proof (cases "vr_location r = vr_location q \<and> vr_offset r = vr_offset q")
    case True
    with assms(1) Some have "diverge (vr_path r) (vr_path q) old"
      by (simp add: refs_apart_def)
    with write_path_other [OF _ new] True Some show ?thesis
      by (simp add: read_by_ref_slot s' st.slot_put)
  next
    case False
    with Some show ?thesis
      by (auto simp: read_by_ref_slot s' st.slot_put)
  qed
qed

lemma set_at_same: "im_at m i = Some old \<Longrightarrow> im_set_at m i old = m"
  by (auto simp: im_at_def im_set_at_def split: if_splits)

lemma update_first_same:
  "find P xs = Some x \<Longrightarrow> f x = x \<Longrightarrow> update_first P f xs = xs"
  by (induction xs) (auto split: if_splits)

lemma set_root_same: "root_map s l = Some m \<Longrightarrow> set_root_map l m s = s"
  by (cases l)
    (auto simp: root_map_def set_root_map_def find_frame_def
      intro!: update_first_same variable_storage.equality ext)

lemma write_by_ref_fails:
  assumes "write_by_ref r v s = (False, s')"
  shows "s' = s"
  using assms
  by (auto simp: write_by_ref_def set_at_same set_root_same dest!: write_path_fails
      split: option.splits prod.splits)

section \<open>References stay valid\<close>

lemma ref_for_global_reads:
  assumes "ref_for_global s name = Some r"
  shows "read_by_ref s r = get_global s name"
  using assms
  by (auto simp: ref_for_global_def ref_for_map_def read_by_ref_def root_map_def get_global_def
      im.at_index_of split: bind_splits)

definition set_globals :: "(rstr \<times> rvalue) list \<Rightarrow> variable_storage \<Rightarrow> variable_storage" where
  "set_globals kvs s = foldl (\<lambda>s (k, v). set_global k v s) s kvs"

lemma set_globals_map:
  "vs_globals (set_globals kvs s) = im.insert_all kvs (vs_globals s)"
  by (induction kvs arbitrary: s)
    (auto simp: set_globals_def set_global_def im.insert_all_def)

lemma ref_for_global_stable:
  assumes "ref_for_global s name = Some r"
  shows "ref_for_global (set_globals kvs s) name = Some r"
  using assms
  by (auto simp: ref_for_global_def ref_for_map_def set_globals_map im.index_of_insert_all)

section \<open>The borrowed frame\<close>

lemma find_index_Some:
  "find_index P xs = Some i \<Longrightarrow> i < length xs \<and> P (xs ! i) \<and> find P xs = Some (xs ! i)"
  by (induction xs arbitrary: i) (auto split: if_splits)

lemma find_index_None: "find_index P xs = None \<longleftrightarrow> find P xs = None"
  by (induction xs) auto

text \<open>
  A closure that works on the current frame only: it may change that frame and the rest of the
  storage, but it leaves the stack below the frame, and the frame in place.
\<close>

definition frame_local ::
    "(variable_storage \<Rightarrow> 'a \<times> variable_storage) \<Rightarrow> (variable_storage \<Rightarrow> local_frame) \<Rightarrow> bool" where
  "frame_local f new \<longleftrightarrow>
     (\<forall>s. vs_frames s \<noteq> [] \<longrightarrow> vs_frames (snd (f s)) = butlast (vs_frames s) @ [new s])"

lemma remove_insert_at:
  assumes "idx < length xs"
  shows "insert_at idx y (remove_at idx xs) = xs[idx := y]"
  using assms by (simp add: insert_at_def remove_at_def upd_conv_take_nth_drop)

definition borrow :: "nat \<Rightarrow> variable_storage \<Rightarrow> variable_storage" where
  "borrow idx s = s\<lparr>vs_frames := remove_at idx (vs_frames s) @ [vs_frames s ! idx]\<rparr>"

lemma borrow_last:
  "idx + 1 = length (vs_frames s) \<Longrightarrow> borrow idx s = s"
  by (cases s) (auto simp: borrow_def remove_at_def take_Suc_conv_app_nth [symmetric])

lemma current_frame_borrow: "current_frame (borrow idx s) = Some (vs_frames s ! idx)"
  by (simp add: current_frame_def borrow_def last_opt_def)

lemma with_frame_local:
  assumes "frame_local f new" and "find_index (\<lambda>fr. lf_id fr = i) (vs_frames s) = Some idx"
  shows "\<exists>s'. with_frame i f s = Some (Some (fst (f (borrow idx s))), s') \<and>
    vs_frames s' = (vs_frames s)[idx := new (borrow idx s)] \<and>
    s' = (snd (f (borrow idx s)))\<lparr>vs_frames := vs_frames s'\<rparr>"
proof -
  have idx: "idx < length (vs_frames s)"
    using find_index_Some [OF assms(2)] by blast
  have frames: "vs_frames (snd (f (borrow idx s))) =
      remove_at idx (vs_frames s) @ [new (borrow idx s)]"
    using assms(1) by (simp add: frame_local_def borrow_def)
  show ?thesis
  proof (cases "idx + 1 = length (vs_frames s)")
    case True
    then have "borrow idx s = s"
      by (rule borrow_last)
    moreover have "remove_at idx (vs_frames s) @ [x] = (vs_frames s)[idx := x]" for x
      using idx True by (simp add: remove_at_def upd_conv_take_nth_drop)
    ultimately show ?thesis
      using True assms(2) frames by (auto simp: with_frame_def split: prod.splits)
  next
    case False
    have "length (remove_at idx (vs_frames s)) = length (vs_frames s) - 1"
      using idx by (simp add: remove_at_def)
    then show ?thesis
      using False assms(2) frames idx
      by (auto simp: with_frame_def borrow_def [symmetric] pop_frame_def last_opt_def
          remove_insert_at Let_def split: prod.splits)
  qed
qed

section \<open>The walk over parents ends\<close>

text \<open>Instances are created after their parents, so a parent has a smaller identifier.\<close>

definition parents_ok :: "variable_storage \<Rightarrow> bool" where
  "parents_ok s \<longleftrightarrow> (\<forall>i p. parent_of s i = Some p \<longrightarrow> p < i)"

definition set_parent :: "instance_id \<Rightarrow> instance_id \<Rightarrow> variable_storage \<Rightarrow> variable_storage" where
  "set_parent i p s =
     s\<lparr>vs_instances := (vs_instances s)(i :=
       map_option (\<lambda>inst. inst\<lparr>in_parent := Some p\<rparr>) (vs_instances s i))\<rparr>"

lemma parents_ok_create: "parents_ok s \<Longrightarrow> parents_ok (snd (create_instance t s))"
  by (auto simp: parents_ok_def parent_of_def create_instance_def Let_def split: bind_splits)

lemma parents_ok_set_var: "parents_ok s \<Longrightarrow> parents_ok (snd (set_instance_var i n v s))"
  by (auto simp: parents_ok_def parent_of_def set_instance_var_def split: option.splits bind_splits)

lemma parents_ok_set_parent: "parents_ok s \<Longrightarrow> p < i \<Longrightarrow> parents_ok (set_parent i p s)"
  by (auto simp: parents_ok_def parent_of_def set_parent_def split: bind_splits)

lemma walk_parents_returns:
  assumes "parents_ok s" and "case i of None \<Rightarrow> True | Some i \<Rightarrow> unat i < fuel"
  shows "walk_parents fuel s look i \<noteq> None"
  using assms(2)
proof (induction fuel arbitrary: i)
  case (Suc fuel)
  show ?case
  proof (cases i)
    case (Some j)
    have "case parent_of s j of None \<Rightarrow> True | Some p \<Rightarrow> unat p < fuel"
    proof (cases "parent_of s j")
      case (Some p)
      then have "unat p < unat j"
        using assms(1) by (simp add: parents_ok_def word_less_nat_alt)
      with Suc.prems \<open>i = Some j\<close> Some show ?thesis
        by simp
    qed simp
    from Suc.IH [OF this] Some show ?thesis
      by (auto split: option.splits)
  qed simp
qed (auto split: option.splits)

text \<open>The declarative meaning of the walk: the first hit on the chain of parents.\<close>

inductive ancestor :: "variable_storage \<Rightarrow> instance_id \<Rightarrow> instance_id \<Rightarrow> bool" for s where
  ancestor_refl: "ancestor s i i"
| ancestor_step: "parent_of s i = Some p \<Longrightarrow> ancestor s p j \<Longrightarrow> ancestor s i j"

lemma walk_parents_Some:
  "walk_parents fuel s look (Some i) = Some (Some x) \<Longrightarrow> \<exists>j. ancestor s i j \<and> look j = Some x"
proof (induction fuel arbitrary: i)
  case (Suc fuel)
  then show ?case
    by (cases "look i"; cases "parent_of s i")
      (auto intro: ancestor_refl ancestor_step split: option.splits)
qed simp

lemma walk_parents_None:
  "walk_parents fuel s look (Some i) = Some None \<Longrightarrow> ancestor s i j \<Longrightarrow> look j = None"
proof (induction fuel arbitrary: i)
  case (Suc fuel)
  from Suc.prems(1) have here: "look i = None"
    and rest: "walk_parents fuel s look (parent_of s i) = Some None"
    by (auto split: option.splits)
  from Suc.prems(2) consider "i = j" | p where "parent_of s i = Some p" "ancestor s p j"
    by (auto elim: ancestor.cases)
  then show ?case
    using here rest Suc.IH by cases auto
qed simp

end
