(* ===== verification/Memory_Properties.thy ===== *)
theory Memory_Properties
  imports Array_Index Memory_Laws
begin

text \<open>
  The properties of the variable storage, of array indexing and of partial access, with a small
  storage on which each of them is applied.
\<close>

section \<open>A storage\<close>

definition sample_dims :: "(i64 \<times> i64) list" where
  "sample_dims = [(1, 2), (-1, 1)]"

definition sample_storage :: variable_storage where
  "sample_storage =
     \<lparr>vs_globals =
        [(''a'', VArray (map VInt [1, 2, 3, 4, 5, 6]) sample_dims),
         (''s'', VStruct ''Point'' [(''x'', VInt 7), (''y'', VInt 8)])],
      vs_frames =
        [\<lparr>lf_id = 0, lf_owner = ''Main'', lf_variables = [(''v'', VBool True)],
          lf_return_value = None, lf_instance_id = None\<rparr>,
         \<lparr>lf_id = 1, lf_owner = ''F'', lf_variables = [], lf_return_value = None,
          lf_instance_id = Some 1\<rparr>],
      vs_instances =
        [0 \<mapsto> \<lparr>in_type_name = ''Base'', in_variables = [(''n'', VInt 3)], in_parent = None\<rparr>,
         1 \<mapsto> \<lparr>in_type_name = ''Derived'', in_variables = [], in_parent = Some 0\<rparr>],
      vs_retain = [], vs_next_frame_id = 2, vs_next_instance_id = 2\<rparr>"

definition ref_a21 :: value_ref where
  "ref_a21 = \<lparr>vr_location = MGlobal, vr_offset = 0, vr_path = [PIndex [2, 1]]\<rparr>"

definition ref_a11 :: value_ref where
  "ref_a11 = \<lparr>vr_location = MGlobal, vr_offset = 0, vr_path = [PIndex [1, 1]]\<rparr>"

lemmas sample_defs = sample_storage_def sample_dims_def ref_a21_def ref_a11_def

section \<open>References\<close>

text \<open>C8: A write through a reference succeeds exactly when the reference can be read; then the
  value read back is the one written, and otherwise the storage is as it was.\<close>

theorem write_read_back:
  assumes "write_by_ref r v s = (ok, s')"
  shows "ok = (read_by_ref s r \<noteq> None) \<and> (ok \<longrightarrow> read_by_ref s' r = Some v) \<and> (\<not> ok \<longrightarrow> s' = s)"
  using write_by_ref_defined [of r v s] read_after_write [of r v s s'] write_by_ref_fails [of r v s s']
    assms by (cases ok) auto

lemma write_read_back_witness:
  "read_by_ref (snd (write_by_ref ref_a21 (VInt 99) sample_storage)) ref_a21 = Some (VInt 99)"
proof -
  have "write_by_ref ref_a21 (VInt 99) sample_storage =
      (True, snd (write_by_ref ref_a21 (VInt 99) sample_storage))"
    by code_simp
  from write_read_back [OF this] show ?thesis
    by simp
qed

text \<open>C31: A write through a reference leaves what every other reference reads: one to another
  location or variable, or to the same variable along a path that parts from it.\<close>

theorem write_disturbs_no_other:
  assumes "refs_apart s r q" and "write_by_ref r v s = (ok, s')"
  shows "read_by_ref s' q = read_by_ref s q"
  using assms by (rule write_leaves_others)

lemma write_disturbs_no_other_witness:
  "read_by_ref (snd (write_by_ref ref_a21 (VInt 99) sample_storage)) ref_a11 = Some (VInt 3)"
proof -
  have "st.slot sample_storage MGlobal 0 =
      Some (VArray (map VInt [1, 2, 3, 4, 5, 6]) sample_dims)"
    by (simp add: st.slot_def root_map_def sample_storage_def im_at_def)
  moreover have "diverge [PIndex [2, 1]] [PIndex [1, 1]]
      (VArray (map VInt [1, 2, 3, 4, 5, 6]) sample_dims)"
    by code_simp
  ultimately have apart: "refs_apart sample_storage ref_a21 ref_a11"
    by (simp add: refs_apart_def ref_a21_def ref_a11_def)
  have read: "read_by_ref sample_storage ref_a11 = Some (VInt 3)"
    by code_simp
  show ?thesis
    using write_disturbs_no_other [OF apart surjective_pairing] read by simp
qed

text \<open>A reference taken to a global stays valid: after any further assignments to globals it
  is still the reference of that global, and it reads its current value.\<close>

theorem global_reference_stable:
  assumes "ref_for_global s name = Some r"
  shows "ref_for_global (set_globals kvs s) name = Some r \<and>
    read_by_ref (set_globals kvs s) r = get_global (set_globals kvs s) name"
  using ref_for_global_stable [OF assms, of kvs] ref_for_global_reads by blast

lemma global_reference_stable_witness:
  "read_by_ref (set_globals [(''new'', VNull), (''s'', VInt 1)] sample_storage)
     \<lparr>vr_location = MGlobal, vr_offset = 1, vr_path = []\<rparr> = Some (VInt 1)"
proof -
  have "ref_for_global sample_storage ''s'' =
      Some \<lparr>vr_location = MGlobal, vr_offset = 1, vr_path = []\<rparr>"
    by code_simp
  from global_reference_stable [OF this, of "[(''new'', VNull), (''s'', VInt 1)]"]
  have "read_by_ref (set_globals [(''new'', VNull), (''s'', VInt 1)] sample_storage)
      \<lparr>vr_location = MGlobal, vr_offset = 1, vr_path = []\<rparr> =
      get_global (set_globals [(''new'', VNull), (''s'', VInt 1)] sample_storage) ''s''"
    by blast
  also have "\<dots> = Some (VInt 1)"
    by code_simp
  finally show ?thesis .
qed

section \<open>Frames and instances\<close>

text \<open>Running a closure on the current frame with \<open>with_frame\<close> on a frame anywhere in the
  stack does not panic, changes that frame as the closure does, and puts the stack back in order.\<close>

theorem with_frame_keeps_stack:
  assumes "frame_local f new" and "find_index (\<lambda>fr. lf_id fr = i) (vs_frames s) = Some idx"
  shows "\<exists>s'. with_frame i f s = Some (Some (fst (f (borrow idx s))), s') \<and>
    vs_frames s' = (vs_frames s)[idx := new (borrow idx s)] \<and>
    current_frame (borrow idx s) = Some (vs_frames s ! idx)"
  using with_frame_local [OF assms] current_frame_borrow by blast

definition with_local :: "variable_storage \<Rightarrow> local_frame" where
  "with_local s =
     (last (vs_frames s))\<lparr>lf_variables := im_insert ''v'' VNull (lf_variables (last (vs_frames s)))\<rparr>"

lemma set_local_frame_local: "frame_local (set_local ''v'' VNull) with_local"
  by (auto simp: frame_local_def set_local_def with_local_def current_frame_def last_opt_def
      update_current_frame_def map_last_def)

lemma with_frame_keeps_stack_witness:
  "\<exists>s'. with_frame 0 (set_local ''v'' VNull) sample_storage = Some (Some True, s') \<and>
    map lf_id (vs_frames s') = [0, 1] \<and> map lf_variables (vs_frames s') = [[(''v'', VNull)], []]"
proof -
  have "find_index (\<lambda>fr. lf_id fr = 0) (vs_frames sample_storage) = Some 0"
    by (simp add: sample_storage_def)
  from with_frame_keeps_stack [OF set_local_frame_local this] show ?thesis
    by (auto simp: sample_storage_def borrow_def remove_at_def with_local_def im_insert_def
        set_local_def current_frame_def last_opt_def)
qed

text \<open>Looking a variable up along the chain of parents ends within as many rounds as the
  identifier of the instance says, since parents are created first; it gives the variable of an
  ancestor, and \<^const>\<open>None\<close> only when no ancestor has it.\<close>

theorem recursive_lookup_ends:
  assumes "parents_ok s" and "unat i < fuel"
  shows "\<exists>res. get_instance_var_recursive fuel s i name = Some res \<and>
    (case res of
       Some v \<Rightarrow> \<exists>j. ancestor s i j \<and> get_instance_var s j name = Some v
     | None \<Rightarrow> \<forall>j. ancestor s i j \<longrightarrow> get_instance_var s j name = None)"
proof -
  obtain res where res: "get_instance_var_recursive fuel s i name = Some res"
    using walk_parents_returns [OF assms(1), where i = "Some i" and fuel = fuel] assms(2)
    by (fastforce simp: get_instance_var_recursive_def)
  then show ?thesis
    using walk_parents_Some [of fuel s _ i] walk_parents_None [of fuel s _ i]
    by (fastforce simp: get_instance_var_recursive_def split: option.split)
qed

lemma recursive_lookup_ends_witness:
  "parents_ok sample_storage \<and> get_instance_var_recursive 2 sample_storage 1 ''n'' = Some (Some (VInt 3)) \<and>
   (\<exists>j. ancestor sample_storage 1 j \<and> get_instance_var sample_storage j ''n'' = Some (VInt 3))"
proof -
  have ok: "parents_ok sample_storage"
    by (auto simp: parents_ok_def parent_of_def sample_storage_def split: bind_splits if_splits)
  have found: "get_instance_var_recursive 2 sample_storage 1 ''n'' = Some (Some (VInt 3))"
    by code_simp
  show ?thesis
    using recursive_lookup_ends [OF ok, of 1 2 "''n''"] ok found by simp
qed

section \<open>Array indices\<close>

text \<open>C32: The machine computation of an array offset gives, for an array with fewer than
  \<open>2 ^ 63\<close> elements, the row-major position of the index vector when every index is in its range
  and nothing otherwise; the position is inside the array, and no two index vectors share one.\<close>

theorem array_offset_exact:
  assumes "dims_ok ds" and "length is = length ds"
  shows "array_offset_i64 ds is =
      (if list_all2 in_dim ds is then Some (nat (row_major ds is)) else None) \<and>
    (\<forall>k. array_offset_i64 ds is = Some k \<longrightarrow> int k < elements_of ds) \<and>
    (\<forall>js k. array_offset_i64 ds is = Some k \<longrightarrow> array_offset_i64 ds js = Some k \<longrightarrow> js = is)"
proof (intro conjI allI impI)
  have pos: "\<forall>d\<in>set ds. 1 \<le> dim_len d"
    using assms(1) by (auto simp: dims_ok_def)
  show spec: "array_offset_i64 ds is =
      (if list_all2 in_dim ds is then Some (nat (row_major ds is)) else None)"
    using array_offset_row_major [OF assms(1)] assms(2) by simp
  fix k
  assume k: "array_offset_i64 ds is = Some k"
  then show "int k < elements_of ds"
    using row_major_bounds [OF pos, of "is"] spec by (auto split: if_splits)
  fix js
  assume js: "array_offset_i64 ds js = Some k"
  then have "length js = length ds"
    by (auto simp: array_offset_i64_def split: if_splits)
  then have "list_all2 in_dim ds js" and "k = nat (row_major ds js)"
    using js array_offset_row_major [OF assms(1), of js] by (auto split: if_splits)
  moreover have "list_all2 in_dim ds is" and "k = nat (row_major ds is)"
    using k spec by (auto split: if_splits)
  ultimately show "js = is"
    using row_major_inj [OF pos] row_major_bounds [OF pos] by (metis nat_eq_iff2)
qed

lemma array_offset_exact_witness:
  "array_offset_i64 sample_dims [2, -1] = Some 3 \<and>
   array_offset_i64 sample_dims [2, 0] \<noteq> Some 3"
proof -
  have ok: "dims_ok sample_dims" "length [2, -1 :: i64] = length sample_dims"
    by (simp_all add: dims_ok_def sample_dims_def dim_len_def)
  have "array_offset_i64 sample_dims [2, -1] = Some 3"
    by code_simp
  moreover have "[2, 0] \<noteq> [2, -1 :: i64]"
    by simp
  ultimately show ?thesis
    using array_offset_exact [OF ok] by blast
qed

section \<open>Partial access\<close>

text \<open>Writing a bit, byte, word or double word of a bit string replaces exactly the bits that
  the access covers, all inside the target; reading the same access gives back the value written.\<close>

theorem partial_access_exact:
  assumes "write_partial_access t a v = Inr t'"
  shows "bit_count t' = bit_count t \<and>
    (\<forall>n. bit_of t' n =
      (if access_start a \<le> n \<and> n < access_start a + access_width a
       then bit_of v (n - access_start a) else bit_of t n)) \<and>
    (access_width a < the (bit_count t) \<longrightarrow> read_partial_access t' a = Inr v)"
proof -
  obtain len where len: "bit_count t = Some len" "access_start a + access_width a \<le> len"
      "bit_count v = Some (access_width a)" "bit_count t' = Some len"
    and bits: "\<forall>n. bit_of t' n \<longleftrightarrow>
      (if access_start a \<le> n \<and> n < access_start a + access_width a
       then bit_of v (n - access_start a) else bit_of t n)"
    using write_partial_bits [OF assms] by blast
  have "read_partial_access t' a = Inr v" if "access_width a < len"
  proof -
    obtain w where w: "read_partial_access t' a = Inr w"
      using read_partial_defined [of t' a] len \<open>access_width a < len\<close> by auto
    have "bit_of w n = bit_of v n" for n
      using read_partial_bits [OF w] bits bit_of_less [of v n] len(3) by auto
    moreover have "bit_count w = bit_count v"
      using read_partial_bits [OF w] len(3) by auto
    ultimately show ?thesis
      using w bits_determine [of w v] len(3) by simp
  qed
  then show ?thesis
    using len bits by simp
qed

lemma partial_access_exact_witness:
  "write_partial_access (VDWord 0x11223344) (PaByte 2) (VByte 0xAB) = Inr (VDWord 0x11AB3344) \<and>
   read_partial_access (VDWord 0x11AB3344) (PaByte 2) = Inr (VByte 0xAB)"
proof -
  have "write_partial_access (VDWord 0x11223344) (PaByte 2) (VByte 0xAB) = Inr (VDWord 0x11AB3344)"
    by code_simp
  with partial_access_exact [OF this] show ?thesis
    by simp
qed

end
