(* ===== verification/Fb_Instance.thy ===== *)
theory Fb_Instance
  imports Memory_Laws Values
begin

text \<open>
  The variables of a function block instance as the standard blocks use them
  (\<open>stdlib/fbs/instance.rs\<close> and the time helpers of \<open>stdlib/fbs/timers.rs\<close>). Of the evaluation
  context only the storage and the current time are touched. The locale \<open>instance_store\<close> is
  what the blocks rely on: a variable that was set is read back, the others keep their value.
\<close>

record fb_ctx =
  fx_storage :: variable_storage
  fx_now :: duration

type_synonym 'a fb_exec = "(fb_ctx, runtime_error, 'a) exec"

definition inst_get :: "fb_ctx \<Rightarrow> instance_id \<Rightarrow> rstr \<Rightarrow> rvalue option" where
  "inst_get c i name = get_instance_var (fx_storage c) i name"

definition inst_set :: "instance_id \<Rightarrow> rstr \<Rightarrow> rvalue \<Rightarrow> fb_ctx \<Rightarrow> fb_ctx" where
  "inst_set i name v c = c\<lparr>fx_storage := snd (set_instance_var i name v (fx_storage c))\<rparr>"

section \<open>Reading and writing\<close>

definition read_bool :: "instance_id \<Rightarrow> rstr \<Rightarrow> bool fb_exec" where
  "read_bool i name = xlift (\<lambda>c.
     case inst_get c i name of
       None \<Rightarrow> Inr False
     | Some v \<Rightarrow> (case v of VBool b \<Rightarrow> Inr b | VNull \<Rightarrow> Inr False | _ \<Rightarrow> Inl TypeMismatch))"

definition write_bool :: "instance_id \<Rightarrow> rstr \<Rightarrow> bool \<Rightarrow> unit fb_exec" where
  "write_bool i name b = xmodify (inst_set i name (VBool b))"

definition get_or_init_bool :: "instance_id \<Rightarrow> rstr \<Rightarrow> bool \<Rightarrow> bool fb_exec" where
  "get_or_init_bool i name dflt c =
     (case inst_get c i name of
        None \<Rightarrow> (Inr dflt, inst_set i name (VBool dflt) c)
      | Some v \<Rightarrow>
          (case v of
             VBool b \<Rightarrow> (Inr b, c)
           | VNull \<Rightarrow> (Inr dflt, inst_set i name (VBool dflt) c)
           | _ \<Rightarrow> (Inl TypeMismatch, c)))"

definition read_value :: "instance_id \<Rightarrow> rstr \<Rightarrow> rvalue fb_exec" where
  "read_value i name = xlift (\<lambda>c. ok_or (inst_get c i name) TypeMismatch)"

definition read_value_or_null :: "instance_id \<Rightarrow> rstr \<Rightarrow> rvalue fb_exec" where
  "read_value_or_null i name = xlift (\<lambda>c.
     Inr (case inst_get c i name of None \<Rightarrow> VNull | Some v \<Rightarrow> v))"

definition set_instance_value :: "instance_id \<Rightarrow> rstr \<Rightarrow> rvalue \<Rightarrow> unit fb_exec" where
  "set_instance_value i name v = xmodify (inst_set i name v)"

section \<open>Times\<close>

definition normalize_duration :: "duration \<Rightarrow> duration" where
  "normalize_duration d = (if sint d < 0 then 0 else d)"

definition read_time_input :: "instance_id \<Rightarrow> rstr \<Rightarrow> (duration \<times> bool) fb_exec" where
  "read_time_input i name = xlift (\<lambda>c.
     case inst_get c i name of
       None \<Rightarrow> Inr (0, False)
     | Some v \<Rightarrow>
         (case v of
            VTime d \<Rightarrow> Inr (d, False)
          | VLTime d \<Rightarrow> Inr (d, True)
          | VNull \<Rightarrow> Inr (0, False)
          | _ \<Rightarrow> Inl TypeMismatch))"

definition read_time_value :: "instance_id \<Rightarrow> rstr \<Rightarrow> duration fb_exec" where
  "read_time_value i name = xlift (\<lambda>c.
     case inst_get c i name of
       None \<Rightarrow> Inr 0
     | Some v \<Rightarrow>
         (case v of
            VTime d \<Rightarrow> Inr d
          | VLTime d \<Rightarrow> Inr d
          | VNull \<Rightarrow> Inr 0
          | _ \<Rightarrow> Inl TypeMismatch))"

definition write_time_value :: "instance_id \<Rightarrow> rstr \<Rightarrow> duration \<Rightarrow> bool \<Rightarrow> unit fb_exec" where
  "write_time_value i name d is_ltime =
     xmodify (inst_set i name (if is_ltime then VLTime d else VTime d))"

definition set_internal_duration :: "instance_id \<Rightarrow> rstr \<Rightarrow> duration \<Rightarrow> unit fb_exec" where
  "set_internal_duration i name d = xmodify (inst_set i name (VLTime d))"

definition get_or_init_duration :: "instance_id \<Rightarrow> rstr \<Rightarrow> duration \<Rightarrow> duration fb_exec" where
  "get_or_init_duration i name dflt c =
     (case inst_get c i name of
        None \<Rightarrow> (Inr dflt, inst_set i name (VLTime dflt) c)
      | Some v \<Rightarrow>
          (case v of
             VTime d \<Rightarrow> (Inr d, c)
           | VLTime d \<Rightarrow> (Inr d, c)
           | VNull \<Rightarrow> (Inr dflt, inst_set i name (VLTime dflt) c)
           | _ \<Rightarrow> (Inl TypeMismatch, c)))"

definition STATE_PREV_CU :: rstr where "STATE_PREV_CU = ''__ST_PREV_CU''"
definition STATE_PREV_CD :: rstr where "STATE_PREV_CD = ''__ST_PREV_CD''"
definition STATE_TRIG_M :: rstr where "STATE_TRIG_M = ''__ST_TRIG_M''"
definition STATE_LAST_TIME :: rstr where "STATE_LAST_TIME = ''__ST_LAST_TIME''"
definition STATE_PREV_IN :: rstr where "STATE_PREV_IN = ''__ST_PREV_IN''"
definition STATE_TIMING :: rstr where "STATE_TIMING = ''__ST_TIMING''"
definition STATE_ACTIVE :: rstr where "STATE_ACTIVE = ''__ST_ACTIVE''"

lemmas state_names = STATE_PREV_CU_def STATE_PREV_CD_def STATE_TRIG_M_def STATE_LAST_TIME_def
  STATE_PREV_IN_def STATE_TIMING_def STATE_ACTIVE_def

definition elapsed_since :: "instance_id \<Rightarrow> duration fb_exec" where
  "elapsed_since i =
     xbind (xlift (\<lambda>c. Inr (fx_now c))) (\<lambda>now.
     xbind (get_or_init_duration i STATE_LAST_TIME now) (\<lambda>last_time.
     let delta_nanos = now - last_time;
         delta = if sint delta_nanos \<le> 0 then 0 else delta_nanos
     in xbind (set_internal_duration i STATE_LAST_TIME now) (\<lambda>_. xret delta)))"

section \<open>The interface of an instance\<close>

locale instance_store =
  fixes get :: "'c \<Rightarrow> 'n \<Rightarrow> 'v option"
    and put :: "'n \<Rightarrow> 'v \<Rightarrow> 'c \<Rightarrow> 'c"
    and live :: "'c \<Rightarrow> bool"
  assumes get_put: "live c \<Longrightarrow> get (put n v c) n' = (if n' = n then Some v else get c n')"
    and live_put: "live (put n v c) = live c"
begin

fun puts :: "('n \<times> 'v) list \<Rightarrow> 'c \<Rightarrow> 'c" where
  "puts [] c = c"
| "puts ((n, v) # rest) c = puts rest (put n v c)"

lemma live_puts: "live (puts kvs c) = live c"
  by (induction kvs c rule: puts.induct) (simp_all add: live_put)

lemma get_puts:
  "live c \<Longrightarrow> get (puts kvs c) n =
    (case map_of (rev kvs) n of Some v \<Rightarrow> Some v | None \<Rightarrow> get c n)"
  by (induction kvs c rule: puts.induct)
    (auto simp: get_put live_put map_add_def split: option.splits)

end

definition has_instance :: "instance_id \<Rightarrow> fb_ctx \<Rightarrow> bool" where
  "has_instance i c \<longleftrightarrow> vs_instances (fx_storage c) i \<noteq> None"

lemma inst_get_set:
  "has_instance i c \<Longrightarrow> inst_get (inst_set i n v c) i n' = (if n' = n then Some v else inst_get c i n')"
  by (auto simp: has_instance_def inst_get_def inst_set_def get_instance_var_def
      set_instance_var_def im_get_insert split: option.splits)

lemma has_instance_set [simp]: "has_instance j (inst_set i n v c) = has_instance j c"
  by (auto simp: has_instance_def inst_set_def set_instance_var_def split: option.splits)

interpretation fbi: instance_store "\<lambda>c. inst_get c i" "inst_set i" "has_instance i"
  by unfold_locales (simp_all add: inst_get_set)

lemma inst_get_other [simp]:
  "j \<noteq> i \<Longrightarrow> inst_get (inst_set i n v c) j m = inst_get c j m"
  by (auto simp: inst_get_def inst_set_def get_instance_var_def set_instance_var_def
      split: option.splits)

lemma now_set [simp]: "fx_now (inst_set i n v c) = fx_now c"
  by (simp add: inst_set_def)

lemma globals_set [simp]:
  "vs_globals (fx_storage (inst_set i n v c)) = vs_globals (fx_storage c)"
  "vs_frames (fx_storage (inst_set i n v c)) = vs_frames (fx_storage c)"
  "vs_retain (fx_storage (inst_set i n v c)) = vs_retain (fx_storage c)"
  by (auto simp: inst_set_def set_instance_var_def split: option.splits)

text \<open>
  What an instance variable is for a block: the Boolean or time it reads, with the default for a
  variable that is absent or null, and \<^const>\<open>None\<close> for a value of another type.
\<close>

definition bool_var :: "bool \<Rightarrow> rvalue option \<Rightarrow> bool option" where
  "bool_var dflt v =
     (case v of
        None \<Rightarrow> Some dflt
      | Some w \<Rightarrow> (case w of VBool b \<Rightarrow> Some b | VNull \<Rightarrow> Some dflt | _ \<Rightarrow> None))"

definition time_var :: "duration \<Rightarrow> rvalue option \<Rightarrow> duration option" where
  "time_var dflt v =
     (case v of
        None \<Rightarrow> Some dflt
      | Some w \<Rightarrow>
          (case w of VTime d \<Rightarrow> Some d | VLTime d \<Rightarrow> Some d | VNull \<Rightarrow> Some dflt | _ \<Rightarrow> None))"

definition is_ltime_var :: "rvalue option \<Rightarrow> bool" where
  "is_ltime_var v \<longleftrightarrow> (case v of None \<Rightarrow> False | Some w \<Rightarrow> (case w of VLTime _ \<Rightarrow> True | _ \<Rightarrow> False))"

lemma var_simps [simp]:
  "bool_var d (Some (VBool b)) = Some b" "bool_var d None = Some d"
  "bool_var d (Some VNull) = Some d"
  "time_var t (Some (VTime x)) = Some x" "time_var t (Some (VLTime x)) = Some x"
  "time_var t None = Some t" "time_var t (Some VNull) = Some t"
  by (simp_all add: bool_var_def time_var_def)

lemma read_bool_eq [exec_simps]:
  "read_bool i name c =
    (case bool_var False (inst_get c i name) of None \<Rightarrow> Inl TypeMismatch | Some b \<Rightarrow> Inr b, c)"
  by (simp add: read_bool_def exec_simps bool_var_def split: option.split rvalue.split)

text \<open>The write of a default to a variable that is absent or null.\<close>

definition init_if :: "instance_id \<Rightarrow> rstr \<Rightarrow> rvalue \<Rightarrow> fb_ctx \<Rightarrow> fb_ctx" where
  "init_if i name v c =
     (if inst_get c i name = None \<or> inst_get c i name = Some VNull then inst_set i name v c else c)"

lemma inst_get_init:
  "has_instance i c \<Longrightarrow> inst_get (init_if i n v c) i n' =
    (if n' = n \<and> (inst_get c i n = None \<or> inst_get c i n = Some VNull) then Some v
     else inst_get c i n')"
  by (simp add: init_if_def inst_get_set)

lemma init_if_simps [simp]:
  "has_instance j (init_if i n v c) = has_instance j c"
  "fx_now (init_if i n v c) = fx_now c"
  "j \<noteq> i \<Longrightarrow> inst_get (init_if i n v c) j m = inst_get c j m"
  by (simp_all add: init_if_def)

lemma get_or_init_bool_eq [exec_simps]:
  "get_or_init_bool i n d c =
    (case bool_var d (inst_get c i n) of
       None \<Rightarrow> (Inl TypeMismatch, c) | Some b \<Rightarrow> (Inr b, init_if i n (VBool d) c))"
  by (auto simp: get_or_init_bool_def bool_var_def init_if_def split: option.split rvalue.split)

lemma get_or_init_duration_eq [exec_simps]:
  "get_or_init_duration i n d c =
    (case time_var d (inst_get c i n) of
       None \<Rightarrow> (Inl TypeMismatch, c) | Some t \<Rightarrow> (Inr t, init_if i n (VLTime d) c))"
  by (auto simp: get_or_init_duration_def time_var_def init_if_def split: option.split rvalue.split)

lemma read_time_value_eq [exec_simps]:
  "read_time_value i n c =
    (case time_var 0 (inst_get c i n) of None \<Rightarrow> Inl TypeMismatch | Some d \<Rightarrow> Inr d, c)"
  by (simp add: read_time_value_def exec_simps time_var_def split: option.split rvalue.split)

lemma read_time_input_eq [exec_simps]:
  "read_time_input i n c =
    (case time_var 0 (inst_get c i n) of
       None \<Rightarrow> Inl TypeMismatch | Some d \<Rightarrow> Inr (d, is_ltime_var (inst_get c i n)), c)"
  by (simp add: read_time_input_def exec_simps time_var_def is_ltime_var_def
      split: option.split rvalue.split)

lemma write_eq [exec_simps]:
  "write_bool i n b c = (Inr (), inst_set i n (VBool b) c)"
  "set_instance_value i n v c = (Inr (), inst_set i n v c)"
  "write_time_value i n d l c = (Inr (), inst_set i n (if l then VLTime d else VTime d) c)"
  "set_internal_duration i n d c = (Inr (), inst_set i n (VLTime d) c)"
  by (simp_all add: write_bool_def set_instance_value_def write_time_value_def
      set_internal_duration_def exec_simps)

lemma read_value_eq [exec_simps]:
  "read_value i n c = (case inst_get c i n of None \<Rightarrow> Inl TypeMismatch | Some v \<Rightarrow> Inr v, c)"
  "read_value_or_null i n c = (Inr (case inst_get c i n of None \<Rightarrow> VNull | Some v \<Rightarrow> v), c)"
  by (simp_all add: read_value_def read_value_or_null_def exec_simps ok_or_def)

definition elapsed :: "duration \<Rightarrow> duration \<Rightarrow> duration" where
  "elapsed now last_time = (if sint (now - last_time) \<le> 0 then 0 else now - last_time)"

lemma elapsed_since_eq [exec_simps]:
  "elapsed_since i c =
    (case time_var (fx_now c) (inst_get c i STATE_LAST_TIME) of
       None \<Rightarrow> (Inl TypeMismatch, c)
     | Some t \<Rightarrow> (Inr (elapsed (fx_now c) t),
         inst_set i STATE_LAST_TIME (VLTime (fx_now c))
           (init_if i STATE_LAST_TIME (VLTime (fx_now c)) c)))"
  by (simp add: elapsed_since_def exec_simps elapsed_def Let_def split: option.split)

text \<open>
  A block touches its own instance only: the clock, the other instances, the globals, the frames
  and the retained variables are as before, and the instance still exists.
\<close>

definition only_instance :: "instance_id \<Rightarrow> fb_ctx \<Rightarrow> fb_ctx \<Rightarrow> bool" where
  "only_instance i c c' \<longleftrightarrow>
     fx_now c' = fx_now c \<and> has_instance i c' = has_instance i c \<and>
     (\<forall>j. j \<noteq> i \<longrightarrow> inst_get c' j = inst_get c j) \<and>
     vs_globals (fx_storage c') = vs_globals (fx_storage c) \<and>
     vs_frames (fx_storage c') = vs_frames (fx_storage c) \<and>
     vs_retain (fx_storage c') = vs_retain (fx_storage c)"

lemma only_instance_intros [simp]:
  "only_instance i c c"
  "only_instance i c0 c \<Longrightarrow> only_instance i c0 (inst_set i n v c)"
  "only_instance i c0 c \<Longrightarrow> only_instance i c0 (init_if i n v c)"
  by (auto simp: only_instance_def init_if_def fun_eq_iff)

lemmas fb_simps = exec_simps inst_get_set inst_get_init

section \<open>Histories of a step function\<close>

text \<open>
  The calls of a block in the order of the scans: \<open>run step s is\<close> feeds the inputs \<open>is\<close> and gives
  the outputs and the last state.
\<close>

fun run :: "('s \<Rightarrow> 'i \<Rightarrow> 'o \<times> 's) \<Rightarrow> 's \<Rightarrow> 'i list \<Rightarrow> 'o list \<times> 's" where
  "run step s [] = ([], s)"
| "run step s (i # is) =
     (let (out, s) = step s i; (outs, s) = run step s is in (out # outs, s))"

text \<open>
  The interface of a step machine with an abstract account of its history: \<open>abs h s\<close> says that
  the inputs \<open>h\<close> (newest first) have led to the state \<open>s\<close>, and \<open>spec h\<close> is the output the
  account prescribes.
\<close>

locale step_machine =
  fixes step :: "'s \<Rightarrow> 'i \<Rightarrow> 'o \<times> 's"
    and start :: 's
    and abs :: "'i list \<Rightarrow> 's \<Rightarrow> bool"
    and spec :: "'i list \<Rightarrow> 'o"
    and ok :: "'i list \<Rightarrow> bool"
  assumes start: "abs [] start"
    and step_abs: "abs h s \<Longrightarrow> ok (i # h) \<Longrightarrow> step s i = (out, s') \<Longrightarrow> abs (i # h) s' \<and> out = spec (i # h)"
    and ok_prefix: "ok (i # h) \<Longrightarrow> ok h"
begin

lemma ok_suffix: "ok (xs @ h) \<Longrightarrow> ok h"
  by (induction xs) (auto dest: ok_prefix)

lemma run_from:
  assumes "abs h s" and "ok (rev is @ h)" and "run step s is = (outs, s')"
  shows "abs (rev is @ h) s' \<and> length outs = length is \<and>
    (\<forall>n<length is. outs ! n = spec (rev (take (Suc n) is) @ h))"
  using assms
proof (induction "is" arbitrary: h s outs)
  case (Cons i "is")
  obtain out s1 where step1: "step s i = (out, s1)"
    by fastforce
  obtain outs1 where rest: "run step s1 is = (outs1, s')" and outs: "outs = out # outs1"
    using Cons.prems(3) step1 by (auto split: prod.splits)
  have "ok (rev is @ (i # h))"
    using Cons.prems(2) by simp
  moreover have "ok (i # h)"
    using calculation by (rule ok_suffix)
  ultimately show ?case
    using Cons.IH [of "i # h" s1 outs1] step_abs [OF Cons.prems(1) _ step1] rest outs
    by (auto simp: nth_Cons split: nat.split)
qed simp

lemma run_outputs:
  assumes "ok (rev is)" and "run step start is = (outs, s')" and "n < length is"
  shows "outs ! n = spec (rev (take (Suc n) is))"
  using run_from [of "[]" start "is" outs s'] start assms by simp

lemma run_length: "ok (rev is) \<Longrightarrow> run step start is = (outs, s') \<Longrightarrow> length outs = length is"
  using run_from [of "[]" start "is" outs s'] start by simp

end

end
