(* ===== verification/Fb_Logic.thy ===== *)
theory Fb_Logic
  imports Fb_Instance
begin

text \<open>
  Bistables and edge detectors (\<open>stdlib/fbs/bistable.rs\<close>, \<open>stdlib/fbs/triggers.rs\<close>): the step
  functions of the structs and the handlers that run a block on an instance. A method with
  \<open>&mut self\<close> takes the state first and returns it with its result.
\<close>

section \<open>Bistables\<close>

record sr =
  sr_q :: bool

definition sr_new :: sr where
  "sr_new = \<lparr>sr_q = False\<rparr>"

definition sr_step :: "sr \<Rightarrow> bool \<times> bool \<Rightarrow> bool \<times> sr" where
  "sr_step s inp =
     (case inp of (set_in, reset) \<Rightarrow>
        let s = (if set_in then s\<lparr>sr_q := True\<rparr> else if reset then s\<lparr>sr_q := False\<rparr> else s)
        in (sr_q s, s))"

record rs =
  rs_q :: bool

definition rs_new :: rs where
  "rs_new = \<lparr>rs_q = False\<rparr>"

definition rs_step :: "rs \<Rightarrow> bool \<times> bool \<Rightarrow> bool \<times> rs" where
  "rs_step s inp =
     (case inp of (set_in, reset) \<Rightarrow>
        let s = (if reset then s\<lparr>rs_q := False\<rparr> else if set_in then s\<lparr>rs_q := True\<rparr> else s)
        in (rs_q s, s))"

definition exec_rs :: "instance_id \<Rightarrow> unit fb_exec" where
  "exec_rs i =
     xbind (read_bool i ''S'') (\<lambda>set_in.
     xbind (read_bool i ''R1'') (\<lambda>reset.
     xbind (read_bool i ''Q1'') (\<lambda>q.
     let q = (if reset then False else if set_in then True else q)
     in xbind (write_bool i ''Q1'' q) (\<lambda>_. xret ()))))"

definition exec_sr :: "instance_id \<Rightarrow> unit fb_exec" where
  "exec_sr i =
     xbind (read_bool i ''S1'') (\<lambda>set_in.
     xbind (read_bool i ''R'') (\<lambda>reset.
     xbind (read_bool i ''Q1'') (\<lambda>q.
     let q = (if set_in then True else if reset then False else q)
     in xbind (write_bool i ''Q1'' q) (\<lambda>_. xret ()))))"

section \<open>Edge detectors\<close>

record r_trig =
  rt_prev :: bool

definition r_trig_new :: r_trig where
  "r_trig_new = \<lparr>rt_prev = False\<rparr>"

definition r_trig_step :: "r_trig \<Rightarrow> bool \<Rightarrow> bool \<times> r_trig" where
  "r_trig_step s clk = (clk \<and> \<not> rt_prev s, s\<lparr>rt_prev := clk\<rparr>)"

record f_trig =
  ft_prev :: bool

definition f_trig_new :: f_trig where
  "f_trig_new = \<lparr>ft_prev = False\<rparr>"

definition f_trig_step :: "f_trig \<Rightarrow> bool \<Rightarrow> bool \<times> f_trig" where
  "f_trig_step s clk =
     (let not_clk = (\<not> clk) in (not_clk \<and> \<not> ft_prev s, s\<lparr>ft_prev := not_clk\<rparr>))"

definition exec_r_trig :: "instance_id \<Rightarrow> unit fb_exec" where
  "exec_r_trig i =
     xbind (read_bool i ''CLK'') (\<lambda>clk.
     xbind (get_or_init_bool i STATE_TRIG_M False) (\<lambda>prev.
     xbind (write_bool i ''Q'' (clk \<and> \<not> prev)) (\<lambda>_.
     xbind (write_bool i STATE_TRIG_M clk) (\<lambda>_. xret ()))))"

definition exec_f_trig :: "instance_id \<Rightarrow> unit fb_exec" where
  "exec_f_trig i =
     xbind (read_bool i ''CLK'') (\<lambda>clk.
     xbind (get_or_init_bool i STATE_TRIG_M False) (\<lambda>prev_not_clk.
     let not_clk = (\<not> clk)
     in xbind (write_bool i ''Q'' (not_clk \<and> \<not> prev_not_clk)) (\<lambda>_.
        xbind (write_bool i STATE_TRIG_M not_clk) (\<lambda>_. xret ()))))"

section \<open>The handlers run the steps\<close>

text \<open>The state that an instance holds for a block, and its inputs.\<close>

definition bool_at :: "instance_id \<Rightarrow> rstr \<Rightarrow> fb_ctx \<Rightarrow> bool option" where
  "bool_at i name c = bool_var False (inst_get c i name)"

lemma exec_rs_step:
  assumes "has_instance i c" and "bool_at i ''S'' c = Some s" and "bool_at i ''R1'' c = Some r"
    and "bool_at i ''Q1'' c = Some q" and "rs_step \<lparr>rs_q = q\<rparr> (s, r) = (out, st)"
  shows "\<exists>c'. exec_rs i c = (Inr (), c') \<and> only_instance i c c' \<and>
    inst_get c' i = (inst_get c i)(''Q1'' \<mapsto> VBool out) \<and> bool_at i ''Q1'' c' = Some (rs_q st)"
  using assms
  by (auto simp: exec_rs_def bool_at_def rs_step_def Let_def fb_simps fun_eq_iff split: if_splits)

lemma exec_sr_step:
  assumes "has_instance i c" and "bool_at i ''S1'' c = Some s" and "bool_at i ''R'' c = Some r"
    and "bool_at i ''Q1'' c = Some q" and "sr_step \<lparr>sr_q = q\<rparr> (s, r) = (out, st)"
  shows "\<exists>c'. exec_sr i c = (Inr (), c') \<and> only_instance i c c' \<and>
    inst_get c' i = (inst_get c i)(''Q1'' \<mapsto> VBool out) \<and> bool_at i ''Q1'' c' = Some (sr_q st)"
  using assms
  by (auto simp: exec_sr_def bool_at_def sr_step_def Let_def fb_simps fun_eq_iff split: if_splits)

lemma exec_r_trig_step:
  assumes "has_instance i c" and "bool_at i ''CLK'' c = Some clk"
    and "bool_at i STATE_TRIG_M c = Some prev"
    and "r_trig_step \<lparr>rt_prev = prev\<rparr> clk = (out, st)"
  shows "\<exists>c'. exec_r_trig i c = (Inr (), c') \<and> only_instance i c c' \<and>
    inst_get c' i = (inst_get c i)(''Q'' \<mapsto> VBool out, STATE_TRIG_M \<mapsto> VBool (rt_prev st))"
  using assms
  by (auto simp: exec_r_trig_def bool_at_def r_trig_step_def fb_simps fun_eq_iff state_names)

lemma exec_f_trig_step:
  assumes "has_instance i c" and "bool_at i ''CLK'' c = Some clk"
    and "bool_at i STATE_TRIG_M c = Some prev"
    and "f_trig_step \<lparr>ft_prev = prev\<rparr> clk = (out, st)"
  shows "\<exists>c'. exec_f_trig i c = (Inr (), c') \<and> only_instance i c c' \<and>
    inst_get c' i = (inst_get c i)(''Q'' \<mapsto> VBool out, STATE_TRIG_M \<mapsto> VBool (ft_prev st))"
  using assms
  by (auto simp: exec_f_trig_def bool_at_def f_trig_step_def Let_def fb_simps fun_eq_iff state_names)

section \<open>What the outputs are over a history\<close>

text \<open>
  Histories are lists of inputs, newest first. A bistable holds the effect of the last set or
  reset; the dominant input wins where both are present.
\<close>

fun last_command :: "(bool \<Rightarrow> bool \<Rightarrow> bool option) \<Rightarrow> (bool \<times> bool) list \<Rightarrow> bool" where
  "last_command eff [] = False"
| "last_command eff ((s, r) # h) =
     (case eff s r of Some q \<Rightarrow> q | None \<Rightarrow> last_command eff h)"

definition set_dominant :: "bool \<Rightarrow> bool \<Rightarrow> bool option" where
  "set_dominant s r = (if s then Some True else if r then Some False else None)"

definition reset_dominant :: "bool \<Rightarrow> bool \<Rightarrow> bool option" where
  "reset_dominant s r = (if r then Some False else if s then Some True else None)"

interpretation sr: step_machine sr_step sr_new "\<lambda>h s. sr_q s = last_command set_dominant h"
    "last_command set_dominant" "\<lambda>_. True"
  by unfold_locales
    (auto simp: sr_new_def sr_step_def set_dominant_def Let_def split: prod.splits if_splits)

interpretation rs: step_machine rs_step rs_new "\<lambda>h s. rs_q s = last_command reset_dominant h"
    "last_command reset_dominant" "\<lambda>_. True"
  by unfold_locales
    (auto simp: rs_new_def rs_step_def reset_dominant_def Let_def split: prod.splits if_splits)

definition clock_before :: "bool list \<Rightarrow> bool option" where
  "clock_before h = (case h of [] \<Rightarrow> None | clk # _ \<Rightarrow> Some clk)"

definition rising_edge :: "bool list \<Rightarrow> bool" where
  "rising_edge h = (case h of [] \<Rightarrow> False | clk # h \<Rightarrow> clk \<and> clock_before h \<noteq> Some True)"

definition falling_edge :: "bool list \<Rightarrow> bool" where
  "falling_edge h = (case h of [] \<Rightarrow> False | clk # h \<Rightarrow> \<not> clk \<and> clock_before h \<noteq> Some False)"

interpretation r_trig: step_machine r_trig_step r_trig_new
    "\<lambda>h s. rt_prev s \<longleftrightarrow> clock_before h = Some True" rising_edge "\<lambda>_. True"
  by unfold_locales
    (auto simp: r_trig_new_def r_trig_step_def rising_edge_def clock_before_def)

interpretation f_trig: step_machine f_trig_step f_trig_new
    "\<lambda>h s. ft_prev s \<longleftrightarrow> clock_before h = Some False" falling_edge "\<lambda>_. True"
  by unfold_locales
    (auto simp: f_trig_new_def f_trig_step_def falling_edge_def clock_before_def Let_def)

end
