(* ===== verification/Fb_Counters.thy ===== *)
theory Fb_Counters
  imports Fb_Logic
begin

text \<open>
  Counters (\<open>stdlib/fbs/counters.rs\<close>): the step functions of the structs on \<open>i16\<close>, the six
  counting macros on a word of any width, and the handlers that count in the type of the preset
  value. A macro is a pair of functions, one that compares signed and one that compares unsigned;
  the refinement to integers says that both clamp at the ends of the type.
\<close>

section \<open>The structs\<close>

record counter_output =
  co_q :: bool
  co_cv :: i16

record counter_up_down_output =
  cud_qu :: bool
  cud_qd :: bool
  cud_cv :: i16

definition i16_max :: int where "i16_max = 32767"
definition i16_min :: int where "i16_min = -32768"

record ctu =
  ctu_cv :: i16
  ctu_prev_cu :: bool

definition ctu_new :: ctu where
  "ctu_new = \<lparr>ctu_cv = 0, ctu_prev_cu = False\<rparr>"

definition ctu_step :: "ctu \<Rightarrow> bool \<times> bool \<times> i16 \<Rightarrow> counter_output \<times> ctu" where
  "ctu_step s inp =
     (case inp of (cu, reset, pv) \<Rightarrow>
        let rising = (\<not> ctu_prev_cu s \<and> cu);
            s = (if reset then s\<lparr>ctu_cv := 0\<rparr>
                 else if rising \<and> sint (ctu_cv s) < i16_max then s\<lparr>ctu_cv := ctu_cv s + 1\<rparr>
                 else s);
            s = s\<lparr>ctu_prev_cu := cu\<rparr>
        in (\<lparr>co_q = (sint (ctu_cv s) \<ge> sint pv), co_cv = ctu_cv s\<rparr>, s))"

record ctd =
  ctd_cv :: i16
  ctd_prev_cd :: bool

definition ctd_new :: ctd where
  "ctd_new = \<lparr>ctd_cv = 0, ctd_prev_cd = False\<rparr>"

definition ctd_step :: "ctd \<Rightarrow> bool \<times> bool \<times> i16 \<Rightarrow> counter_output \<times> ctd" where
  "ctd_step s inp =
     (case inp of (cd, load, pv) \<Rightarrow>
        let rising = (\<not> ctd_prev_cd s \<and> cd);
            s = (if load then s\<lparr>ctd_cv := pv\<rparr>
                 else if rising \<and> sint (ctd_cv s) > i16_min then s\<lparr>ctd_cv := ctd_cv s - 1\<rparr>
                 else s);
            s = s\<lparr>ctd_prev_cd := cd\<rparr>
        in (\<lparr>co_q = (sint (ctd_cv s) \<le> 0), co_cv = ctd_cv s\<rparr>, s))"

record ctud =
  ctud_cv :: i16
  ctud_prev_cu :: bool
  ctud_prev_cd :: bool

definition ctud_new :: ctud where
  "ctud_new = \<lparr>ctud_cv = 0, ctud_prev_cu = False, ctud_prev_cd = False\<rparr>"

definition ctud_step ::
    "ctud \<Rightarrow> bool \<times> bool \<times> bool \<times> bool \<times> i16 \<Rightarrow> counter_up_down_output \<times> ctud" where
  "ctud_step s inp =
     (case inp of (cu, cd, reset, load, pv) \<Rightarrow>
        let rising_cu = (\<not> ctud_prev_cu s \<and> cu);
            rising_cd = (\<not> ctud_prev_cd s \<and> cd);
            s = (if reset then s\<lparr>ctud_cv := 0\<rparr>
                 else if load then s\<lparr>ctud_cv := pv\<rparr>
                 else if \<not> (rising_cu \<and> rising_cd) then
                   (if rising_cu \<and> sint (ctud_cv s) < i16_max
                    then s\<lparr>ctud_cv := ctud_cv s + 1\<rparr>
                    else if rising_cd \<and> sint (ctud_cv s) > i16_min
                    then s\<lparr>ctud_cv := ctud_cv s - 1\<rparr>
                    else s)
                 else s);
            s = s\<lparr>ctud_prev_cu := cu, ctud_prev_cd := cd\<rparr>
        in (\<lparr>cud_qu = (sint (ctud_cv s) \<ge> sint pv), cud_qd = (sint (ctud_cv s) \<le> 0),
             cud_cv = ctud_cv s\<rparr>, s))"

section \<open>The macros\<close>

text \<open>\<open>MAX\<close> of the unsigned type of a width.\<close>

definition unsigned_max :: "'a::len itself \<Rightarrow> int" where
  "unsigned_max _ = 2 ^ LENGTH('a) - 1"

definition counter_up_signed ::
    "'a::len word \<Rightarrow> 'a word \<Rightarrow> bool \<Rightarrow> bool \<Rightarrow> 'a word \<times> bool" where
  "counter_up_signed pv cv reset rising =
     (let cv = (if reset then 0
                else if rising \<and> sint cv < signed_max TYPE('a) then cv + 1 else cv)
      in (cv, sint cv \<ge> sint pv))"

definition counter_up_unsigned ::
    "'a::len word \<Rightarrow> 'a word \<Rightarrow> bool \<Rightarrow> bool \<Rightarrow> 'a word \<times> bool" where
  "counter_up_unsigned pv cv reset rising =
     (let cv = (if reset then 0
                else if rising \<and> uint cv < unsigned_max TYPE('a) then cv + 1 else cv)
      in (cv, uint cv \<ge> uint pv))"

definition counter_down_signed ::
    "'a::len word \<Rightarrow> 'a word \<Rightarrow> bool \<Rightarrow> bool \<Rightarrow> 'a word \<times> bool" where
  "counter_down_signed pv cv load rising =
     (let cv = (if load then pv
                else if rising \<and> sint cv > signed_min TYPE('a) then cv - 1 else cv)
      in (cv, sint cv \<le> 0))"

definition counter_down_unsigned ::
    "'a::len word \<Rightarrow> 'a word \<Rightarrow> bool \<Rightarrow> bool \<Rightarrow> 'a word \<times> bool" where
  "counter_down_unsigned pv cv load rising =
     (let cv = (if load then pv else if rising \<and> uint cv > 0 then cv - 1 else cv)
      in (cv, cv = 0))"

definition counter_up_down_signed ::
    "'a::len word \<Rightarrow> 'a word \<Rightarrow> bool \<Rightarrow> bool \<Rightarrow> bool \<Rightarrow> bool \<Rightarrow> 'a word \<times> bool \<times> bool" where
  "counter_up_down_signed pv cv reset load rising_cu rising_cd =
     (let cv = (if reset then 0
                else if load then pv
                else if \<not> (rising_cu \<and> rising_cd) then
                  (if rising_cu \<and> sint cv < signed_max TYPE('a) then cv + 1
                   else if rising_cd \<and> sint cv > signed_min TYPE('a) then cv - 1
                   else cv)
                else cv)
      in (cv, sint cv \<ge> sint pv, sint cv \<le> 0))"

definition counter_up_down_unsigned ::
    "'a::len word \<Rightarrow> 'a word \<Rightarrow> bool \<Rightarrow> bool \<Rightarrow> bool \<Rightarrow> bool \<Rightarrow> 'a word \<times> bool \<times> bool" where
  "counter_up_down_unsigned pv cv reset load rising_cu rising_cd =
     (let cv = (if reset then 0
                else if load then pv
                else if \<not> (rising_cu \<and> rising_cd) then
                  (if rising_cu \<and> uint cv < unsigned_max TYPE('a) then cv + 1
                   else if rising_cd \<and> uint cv > 0 then cv - 1
                   else cv)
                else cv)
      in (cv, uint cv \<ge> uint pv, cv = 0))"

section \<open>The handlers\<close>

text \<open>
  The second component of the match on \<open>(&pv, &cv)\<close>: the current value when it has the type of
  the preset value, 0 when it is null, no match otherwise.
\<close>

definition as_SInt :: "rvalue \<Rightarrow> i8 option" where
  "as_SInt v = (case v of VSInt c \<Rightarrow> Some c | VNull \<Rightarrow> Some 0 | _ \<Rightarrow> None)"

definition as_Int :: "rvalue \<Rightarrow> i16 option" where
  "as_Int v = (case v of VInt c \<Rightarrow> Some c | VNull \<Rightarrow> Some 0 | _ \<Rightarrow> None)"

definition as_DInt :: "rvalue \<Rightarrow> i32 option" where
  "as_DInt v = (case v of VDInt c \<Rightarrow> Some c | VNull \<Rightarrow> Some 0 | _ \<Rightarrow> None)"

definition as_LInt :: "rvalue \<Rightarrow> i64 option" where
  "as_LInt v = (case v of VLInt c \<Rightarrow> Some c | VNull \<Rightarrow> Some 0 | _ \<Rightarrow> None)"

definition as_USInt :: "rvalue \<Rightarrow> u8 option" where
  "as_USInt v = (case v of VUSInt c \<Rightarrow> Some c | VNull \<Rightarrow> Some 0 | _ \<Rightarrow> None)"

definition as_UInt :: "rvalue \<Rightarrow> u16 option" where
  "as_UInt v = (case v of VUInt c \<Rightarrow> Some c | VNull \<Rightarrow> Some 0 | _ \<Rightarrow> None)"

definition as_UDInt :: "rvalue \<Rightarrow> u32 option" where
  "as_UDInt v = (case v of VUDInt c \<Rightarrow> Some c | VNull \<Rightarrow> Some 0 | _ \<Rightarrow> None)"

definition as_ULInt :: "rvalue \<Rightarrow> u64 option" where
  "as_ULInt v = (case v of VULInt c \<Rightarrow> Some c | VNull \<Rightarrow> Some 0 | _ \<Rightarrow> None)"

lemmas as_counts = as_SInt_def as_Int_def 
  as_DInt_def as_LInt_def as_USInt_def as_UInt_def as_UDInt_def as_ULInt_def

definition count_up :: "rvalue \<Rightarrow> rvalue \<Rightarrow> bool \<Rightarrow> bool \<Rightarrow> (rvalue \<times> bool) option" where
  "count_up pv cv reset rising =
     (case pv of
        VSInt p \<Rightarrow>
          map_option (\<lambda>c. map_prod VSInt id (counter_up_signed p c reset rising)) (as_SInt cv)
      | VInt p \<Rightarrow>
          map_option (\<lambda>c. map_prod VInt id (counter_up_signed p c reset rising)) (as_Int cv)
      | VDInt p \<Rightarrow>
          map_option (\<lambda>c. map_prod VDInt id (counter_up_signed p c reset rising)) (as_DInt cv)
      | VLInt p \<Rightarrow>
          map_option (\<lambda>c. map_prod VLInt id (counter_up_signed p c reset rising)) (as_LInt cv)
      | VUSInt p \<Rightarrow>
          map_option (\<lambda>c. map_prod VUSInt id (counter_up_unsigned p c reset rising)) (as_USInt cv)
      | VUInt p \<Rightarrow>
          map_option (\<lambda>c. map_prod VUInt id (counter_up_unsigned p c reset rising)) (as_UInt cv)
      | VUDInt p \<Rightarrow>
          map_option (\<lambda>c. map_prod VUDInt id (counter_up_unsigned p c reset rising)) (as_UDInt cv)
      | VULInt p \<Rightarrow>
          map_option (\<lambda>c. map_prod VULInt id (counter_up_unsigned p c reset rising)) (as_ULInt cv)
      | _ \<Rightarrow> None)"

definition count_down :: "rvalue \<Rightarrow> rvalue \<Rightarrow> bool \<Rightarrow> bool \<Rightarrow> (rvalue \<times> bool) option" where
  "count_down pv cv load rising =
     (case pv of
        VSInt p \<Rightarrow>
          map_option (\<lambda>c. map_prod VSInt id (counter_down_signed p c load rising)) (as_SInt cv)
      | VInt p \<Rightarrow>
          map_option (\<lambda>c. map_prod VInt id (counter_down_signed p c load rising)) (as_Int cv)
      | VDInt p \<Rightarrow>
          map_option (\<lambda>c. map_prod VDInt id (counter_down_signed p c load rising)) (as_DInt cv)
      | VLInt p \<Rightarrow>
          map_option (\<lambda>c. map_prod VLInt id (counter_down_signed p c load rising)) (as_LInt cv)
      | VUSInt p \<Rightarrow>
          map_option (\<lambda>c. map_prod VUSInt id (counter_down_unsigned p c load rising)) (as_USInt cv)
      | VUInt p \<Rightarrow>
          map_option (\<lambda>c. map_prod VUInt id (counter_down_unsigned p c load rising)) (as_UInt cv)
      | VUDInt p \<Rightarrow>
          map_option (\<lambda>c. map_prod VUDInt id (counter_down_unsigned p c load rising)) (as_UDInt cv)
      | VULInt p \<Rightarrow>
          map_option (\<lambda>c. map_prod VULInt id (counter_down_unsigned p c load rising)) (as_ULInt cv)
      | _ \<Rightarrow> None)"

definition count_up_down :: "rvalue \<Rightarrow> rvalue \<Rightarrow> bool \<Rightarrow> bool \<Rightarrow> bool \<Rightarrow> bool
      \<Rightarrow> (rvalue \<times> bool \<times> bool) option" where
  "count_up_down pv cv reset load rising_cu rising_cd =
     (case pv of
        VSInt p \<Rightarrow>
          map_option (\<lambda>c. map_prod VSInt id (counter_up_down_signed p c reset load rising_cu rising_cd)) (as_SInt cv)
      | VInt p \<Rightarrow>
          map_option (\<lambda>c. map_prod VInt id (counter_up_down_signed p c reset load rising_cu rising_cd)) (as_Int cv)
      | VDInt p \<Rightarrow>
          map_option (\<lambda>c. map_prod VDInt id (counter_up_down_signed p c reset load rising_cu rising_cd)) (as_DInt cv)
      | VLInt p \<Rightarrow>
          map_option (\<lambda>c. map_prod VLInt id (counter_up_down_signed p c reset load rising_cu rising_cd)) (as_LInt cv)
      | VUSInt p \<Rightarrow>
          map_option (\<lambda>c. map_prod VUSInt id (counter_up_down_unsigned p c reset load rising_cu rising_cd)) (as_USInt cv)
      | VUInt p \<Rightarrow>
          map_option (\<lambda>c. map_prod VUInt id (counter_up_down_unsigned p c reset load rising_cu rising_cd)) (as_UInt cv)
      | VUDInt p \<Rightarrow>
          map_option (\<lambda>c. map_prod VUDInt id (counter_up_down_unsigned p c reset load rising_cu rising_cd)) (as_UDInt cv)
      | VULInt p \<Rightarrow>
          map_option (\<lambda>c. map_prod VULInt id (counter_up_down_unsigned p c reset load rising_cu rising_cd)) (as_ULInt cv)
      | _ \<Rightarrow> None)"

definition exec_ctu :: "instance_id \<Rightarrow> unit fb_exec" where
  "exec_ctu i =
     xbind (read_bool i ''CU'') (\<lambda>cu.
     xbind (read_bool i ''R'') (\<lambda>reset.
     xbind (read_value i ''PV'') (\<lambda>pv.
     xbind (read_value_or_null i ''CV'') (\<lambda>cv.
     xbind (get_or_init_bool i STATE_PREV_CU False) (\<lambda>prev_cu.
     let rising = (cu \<and> \<not> prev_cu)
     in xbind (xlift (\<lambda>_. ok_or (count_up pv cv reset rising) TypeMismatch)) (\<lambda>(new_cv, q).
        xbind (set_instance_value i ''CV'' new_cv) (\<lambda>_.
        xbind (write_bool i ''Q'' q) (\<lambda>_.
        xbind (write_bool i STATE_PREV_CU cu) (\<lambda>_. xret ())))))))))"

definition exec_ctd :: "instance_id \<Rightarrow> unit fb_exec" where
  "exec_ctd i =
     xbind (read_bool i ''CD'') (\<lambda>cd.
     xbind (read_bool i ''LD'') (\<lambda>load.
     xbind (read_value i ''PV'') (\<lambda>pv.
     xbind (read_value_or_null i ''CV'') (\<lambda>cv.
     xbind (get_or_init_bool i STATE_PREV_CD False) (\<lambda>prev_cd.
     let rising = (cd \<and> \<not> prev_cd)
     in xbind (xlift (\<lambda>_. ok_or (count_down pv cv load rising) TypeMismatch)) (\<lambda>(new_cv, q).
        xbind (set_instance_value i ''CV'' new_cv) (\<lambda>_.
        xbind (write_bool i ''Q'' q) (\<lambda>_.
        xbind (write_bool i STATE_PREV_CD cd) (\<lambda>_. xret ())))))))))"

definition exec_ctud :: "instance_id \<Rightarrow> unit fb_exec" where
  "exec_ctud i =
     xbind (read_bool i ''CU'') (\<lambda>cu.
     xbind (read_bool i ''CD'') (\<lambda>cd.
     xbind (read_bool i ''R'') (\<lambda>reset.
     xbind (read_bool i ''LD'') (\<lambda>load.
     xbind (read_value i ''PV'') (\<lambda>pv.
     xbind (read_value_or_null i ''CV'') (\<lambda>cv.
     xbind (get_or_init_bool i STATE_PREV_CU False) (\<lambda>prev_cu.
     xbind (get_or_init_bool i STATE_PREV_CD False) (\<lambda>prev_cd.
     let rising_cu = (cu \<and> \<not> prev_cu);
         rising_cd = (cd \<and> \<not> prev_cd)
     in xbind (xlift (\<lambda>_.
          ok_or (count_up_down pv cv reset load rising_cu rising_cd) TypeMismatch))
          (\<lambda>(new_cv, qu, qd).
        xbind (set_instance_value i ''CV'' new_cv) (\<lambda>_.
        xbind (write_bool i ''QU'' qu) (\<lambda>_.
        xbind (write_bool i ''QD'' qd) (\<lambda>_.
        xbind (write_bool i STATE_PREV_CU cu) (\<lambda>_.
        xbind (write_bool i STATE_PREV_CD cd) (\<lambda>_. xret ()))))))))))))))"

section \<open>The contract on integers\<close>

text \<open>
  The eight integer types as a sign and a width, the number a value stands for, and the range of
  a type. A counter adds or subtracts one and stays in the range.
\<close>

type_synonym int_kind = "bool \<times> nat"

definition int_val :: "rvalue \<Rightarrow> (int_kind \<times> int) option" where
  "int_val v =
     (case v of
        VSInt c \<Rightarrow> Some ((True, 8), sint c)
      | VInt c \<Rightarrow> Some ((True, 16), sint c)
      | VDInt c \<Rightarrow> Some ((True, 32), sint c)
      | VLInt c \<Rightarrow> Some ((True, 64), sint c)
      | VUSInt c \<Rightarrow> Some ((False, 8), uint c)
      | VUInt c \<Rightarrow> Some ((False, 16), uint c)
      | VUDInt c \<Rightarrow> Some ((False, 32), uint c)
      | VULInt c \<Rightarrow> Some ((False, 64), uint c)
      | _ \<Rightarrow> None)"

definition kind_max :: "int_kind \<Rightarrow> int" where
  "kind_max k = (if fst k then 2 ^ (snd k - 1) - 1 else 2 ^ snd k - 1)"

definition kind_min :: "int_kind \<Rightarrow> int" where
  "kind_min k = (if fst k then - (2 ^ (snd k - 1)) else 0)"

definition count_of :: "int_kind \<Rightarrow> rvalue \<Rightarrow> int option" where
  "count_of k cv =
     (if cv = VNull then Some 0
      else case int_val cv of None \<Rightarrow> None | Some (k', c) \<Rightarrow> if k' = k then Some c else None)"

definition up_spec :: "int_kind \<Rightarrow> int \<Rightarrow> bool \<Rightarrow> bool \<Rightarrow> int" where
  "up_spec k c reset rising = (if reset then 0 else if rising then min (kind_max k) (c + 1) else c)"

definition down_spec :: "int_kind \<Rightarrow> int \<Rightarrow> int \<Rightarrow> bool \<Rightarrow> bool \<Rightarrow> int" where
  "down_spec k p c load rising =
     (if load then p else if rising then max (kind_min k) (c - 1) else c)"

definition up_down_spec ::
    "int_kind \<Rightarrow> int \<Rightarrow> int \<Rightarrow> bool \<Rightarrow> bool \<Rightarrow> bool \<Rightarrow> bool \<Rightarrow> int" where
  "up_down_spec k p c reset load up down =
     (if reset then 0 else if load then p
      else max (kind_min k) (min (kind_max k) (c + of_bool up - of_bool down)))"

lemma sint_succ: "sint (w :: 'a::len word) < signed_max TYPE('a) \<Longrightarrow> sint (w + 1) = sint w + 1"
  using sint_greater_eq [of w]
  by (cases "LENGTH('a) = 1", cases "sint w = -1")
    (auto simp: signed_max_def sint_word_ariths signed_take_bit_int_eq_self)

lemma sint_pred: "signed_min TYPE('a) < sint (w :: 'a::len word) \<Longrightarrow> sint (w - 1) = sint w - 1"
  using sint_less [of w]
  by (cases "LENGTH('a) = 1")
    (auto simp: signed_min_def sint_word_ariths signed_take_bit_int_eq_self)

lemma uint_succ: "uint (w :: 'a::len word) < unsigned_max TYPE('a) \<Longrightarrow> uint (w + 1) = uint w + 1"
  by (simp add: unsigned_max_def uint_word_ariths)

lemma uint_pred: "0 < uint (w :: 'a::len word) \<Longrightarrow> uint (w - 1) = uint w - 1"
proof -
  assume "0 < uint w"
  then have "0 \<le> uint w - 1" and "uint w - 1 < 2 ^ LENGTH('a)"
    using uint_lt2p [of w] by linarith+
  then have "(uint w - 1) mod 2 ^ LENGTH('a) = uint w - 1"
    by (rule mod_pos_pos_trivial)
  then show ?thesis
    by (simp add: uint_word_ariths)
qed

lemma unsigned_range: "uint (w :: 'a::len word) \<le> unsigned_max TYPE('a)"
  using uint_lt2p [of w] by (simp add: unsigned_max_def)

lemma zero_range: "0 \<le> signed_max TYPE('a::len)" "signed_min TYPE('a::len) \<le> 0"
    "0 \<le> unsigned_max TYPE('a::len)"
  by (simp_all add: signed_max_def signed_min_def unsigned_max_def)

lemma word_zero_iff: "w = 0 \<longleftrightarrow> uint w \<le> 0" for w :: "'a::len word"
  using uint_0_iff [of w] by (simp add: order_antisym_conv)

lemma uint_zero_or_pos:
  "0 < uint w \<longleftrightarrow> uint w \<noteq> 0" "uint w < 1 \<longleftrightarrow> uint w = 0" "1 \<le> uint w \<longleftrightarrow> uint w \<noteq> 0"
  using uint_ge_0 [of w] by linarith+

lemma kind_ends:
  "kind_max (True, LENGTH('a::len)) = signed_max TYPE('a)"
  "kind_min (True, LENGTH('a)) = signed_min TYPE('a)"
  "kind_max (False, LENGTH('a)) = unsigned_max TYPE('a)"
  "kind_min (False, n) = 0"
  by (simp_all add: kind_max_def kind_min_def signed_max_def signed_min_def unsigned_max_def)

lemma counter_up_signed_spec:
  "counter_up_signed (p :: 'a::len word) c r e = (w, q) \<Longrightarrow>
    sint w = up_spec (True, LENGTH('a)) (sint c) r e \<and> q = (sint p \<le> sint w)"
  using sint_bounds(2) [of c]
  by (auto simp: counter_up_signed_def up_spec_def kind_ends Let_def sint_succ)

lemma counter_up_unsigned_spec:
  "counter_up_unsigned (p :: 'a::len word) c r e = (w, q) \<Longrightarrow>
    uint w = up_spec (False, LENGTH('a)) (uint c) r e \<and> q = (uint p \<le> uint w)"
  using unsigned_range [of c]
  by (auto simp: counter_up_unsigned_def up_spec_def kind_ends Let_def uint_succ)

lemma counter_down_signed_spec:
  "counter_down_signed (p :: 'a::len word) c l e = (w, q) \<Longrightarrow>
    sint w = down_spec (True, LENGTH('a)) (sint p) (sint c) l e \<and> q = (sint w \<le> 0)"
  using sint_bounds(1) [of c]
  by (auto simp: counter_down_signed_def down_spec_def kind_ends Let_def sint_pred)

lemma counter_down_unsigned_spec:
  "counter_down_unsigned (p :: 'a::len word) c l e = (w, q) \<Longrightarrow>
    uint w = down_spec (False, LENGTH('a)) (uint p) (uint c) l e \<and> q = (uint w \<le> 0)"
  using unsigned_range [of c]
  unfolding counter_down_unsigned_def Let_def word_zero_iff
  by (auto simp: down_spec_def kind_ends uint_pred uint_zero_or_pos split: if_splits)

lemma counter_up_down_signed_spec:
  "counter_up_down_signed (p :: 'a::len word) c r l u d = (w, qu, qd) \<Longrightarrow>
    sint w = up_down_spec (True, LENGTH('a)) (sint p) (sint c) r l u d \<and>
    qu = (sint p \<le> sint w) \<and> qd = (sint w \<le> 0)"
  using sint_bounds [of c]
  by (auto simp: counter_up_down_signed_def up_down_spec_def kind_ends Let_def sint_succ sint_pred)

lemma counter_up_down_unsigned_spec:
  "counter_up_down_unsigned (p :: 'a::len word) c r l u d = (w, qu, qd) \<Longrightarrow>
    uint w = up_down_spec (False, LENGTH('a)) (uint p) (uint c) r l u d \<and>
    qu = (uint p \<le> uint w) \<and> qd = (uint w \<le> 0)"
  using unsigned_range [of c]
  unfolding counter_up_down_unsigned_def Let_def word_zero_iff
  by (auto simp: up_down_spec_def kind_ends uint_succ uint_pred uint_zero_or_pos zero_range max_def min_def
      split: if_splits)

lemma count_of_as:
  "count_of (True, 8) v = map_option sint (as_SInt v)"
  "count_of (True, 16) v = map_option sint (as_Int v)"
  "count_of (True, 32) v = map_option sint (as_DInt v)"
  "count_of (True, 64) v = map_option sint (as_LInt v)"
  "count_of (False, 8) v = map_option uint (as_USInt v)"
  "count_of (False, 16) v = map_option uint (as_UInt v)"
  "count_of (False, 32) v = map_option uint (as_UDInt v)"
  "count_of (False, 64) v = map_option uint (as_ULInt v)"
  by (cases v; simp add: count_of_def int_val_def as_counts)+

lemma map_prod_eq: "map_prod f g x = (f (fst x), g (snd x))"
  by (cases x) simp

lemma counter_specs:
  "sint (fst (counter_up_signed (p :: 'a::len word) c r e)) =
    up_spec (True, LENGTH('a)) (sint c) r e"
  "snd (counter_up_signed p c r e) = (sint p \<le> up_spec (True, LENGTH('a)) (sint c) r e)"
  "uint (fst (counter_up_unsigned p c r e)) = up_spec (False, LENGTH('a)) (uint c) r e"
  "snd (counter_up_unsigned p c r e) = (uint p \<le> up_spec (False, LENGTH('a)) (uint c) r e)"
  "sint (fst (counter_down_signed p c l e)) = down_spec (True, LENGTH('a)) (sint p) (sint c) l e"
  "snd (counter_down_signed p c l e) = (down_spec (True, LENGTH('a)) (sint p) (sint c) l e \<le> 0)"
  "uint (fst (counter_down_unsigned p c l e)) =
    down_spec (False, LENGTH('a)) (uint p) (uint c) l e"
  "snd (counter_down_unsigned p c l e) =
    (down_spec (False, LENGTH('a)) (uint p) (uint c) l e \<le> 0)"
  using counter_up_signed_spec [of p c r e] counter_up_unsigned_spec [of p c r e]
    counter_down_signed_spec [of p c l e] counter_down_unsigned_spec [of p c l e]
  by (metis prod.collapse)+

lemma counter_up_down_specs:
  "sint (fst (counter_up_down_signed (p :: 'a::len word) c r l u d)) =
    up_down_spec (True, LENGTH('a)) (sint p) (sint c) r l u d"
  "snd (counter_up_down_signed p c r l u d) =
    (sint p \<le> up_down_spec (True, LENGTH('a)) (sint p) (sint c) r l u d,
     up_down_spec (True, LENGTH('a)) (sint p) (sint c) r l u d \<le> 0)"
  "uint (fst (counter_up_down_unsigned p c r l u d)) =
    up_down_spec (False, LENGTH('a)) (uint p) (uint c) r l u d"
  "snd (counter_up_down_unsigned p c r l u d) =
    (uint p \<le> up_down_spec (False, LENGTH('a)) (uint p) (uint c) r l u d,
     up_down_spec (False, LENGTH('a)) (uint p) (uint c) r l u d \<le> 0)"
  by (cases "counter_up_down_signed p c r l u d"; cases "counter_up_down_unsigned p c r l u d";
    auto dest: counter_up_down_signed_spec counter_up_down_unsigned_spec)+

lemma count_up_spec:
  assumes "int_val pv = Some (k, p)" and "count_of k cv = Some c"
  shows "\<exists>v. count_up pv cv reset rising = Some (v, p \<le> up_spec k c reset rising) \<and>
    int_val v = Some (k, up_spec k c reset rising)"
  using assms
  by (cases pv) (auto simp: count_up_def int_val_def count_of_as map_prod_eq counter_specs)

lemma count_down_spec:
  assumes "int_val pv = Some (k, p)" and "count_of k cv = Some c"
  shows "\<exists>v. count_down pv cv load rising = Some (v, down_spec k p c load rising \<le> 0) \<and>
    int_val v = Some (k, down_spec k p c load rising)"
  using assms
  by (cases pv) (auto simp: count_down_def int_val_def count_of_as map_prod_eq counter_specs)

lemma count_up_down_spec:
  assumes "int_val pv = Some (k, p)" and "count_of k cv = Some c"
  shows "\<exists>v. count_up_down pv cv reset load up down =
      Some (v, p \<le> up_down_spec k p c reset load up down,
        up_down_spec k p c reset load up down \<le> 0) \<and>
    int_val v = Some (k, up_down_spec k p c reset load up down)"
  using assms
  by (cases pv)
    (auto simp: count_up_down_def int_val_def count_of_as map_prod_eq counter_up_down_specs)

lemma count_mismatch:
  assumes "\<forall>k p. int_val pv = Some (k, p) \<longrightarrow> count_of k cv = None"
  shows "count_up pv cv reset rising = None" and "count_down pv cv load rising = None"
    and "count_up_down pv cv reset load up down = None"
  using assms
  by (cases pv; simp add: count_up_def count_down_def count_up_down_def int_val_def count_of_as)+

section \<open>The handlers meet the contract\<close>

definition num_at :: "int_kind \<Rightarrow> instance_id \<Rightarrow> rstr \<Rightarrow> fb_ctx \<Rightarrow> int option" where
  "num_at k i name c =
     count_of k (case inst_get c i name of None \<Rightarrow> VNull | Some v \<Rightarrow> v)"

lemma exec_ctu_counts:
  assumes "has_instance i c" and "bool_at i ''CU'' c = Some cu" and "bool_at i ''R'' c = Some r"
    and "bool_at i STATE_PREV_CU c = Some prev" and "inst_get c i ''PV'' = Some pv"
    and "int_val pv = Some (k, p)" and "num_at k i ''CV'' c = Some n"
    and m: "m = up_spec k n r (cu \<and> \<not> prev)"
  shows "\<exists>c' v. exec_ctu i c = (Inr (), c') \<and> only_instance i c c' \<and> int_val v = Some (k, m) \<and>
    inst_get c' i = (inst_get c i)
      (''CV'' \<mapsto> v, ''Q'' \<mapsto> VBool (p \<le> m), STATE_PREV_CU \<mapsto> VBool cu)"
  using assms count_up_spec [OF assms(6) assms(7) [unfolded num_at_def], of r "cu \<and> \<not> prev"]
  by (auto simp: exec_ctu_def bool_at_def Let_def fb_simps ok_or_def fun_eq_iff state_names
      simp flip: m)

lemma exec_ctd_counts:
  assumes "has_instance i c" and "bool_at i ''CD'' c = Some cd" and "bool_at i ''LD'' c = Some l"
    and "bool_at i STATE_PREV_CD c = Some prev" and "inst_get c i ''PV'' = Some pv"
    and "int_val pv = Some (k, p)" and "num_at k i ''CV'' c = Some n"
    and m: "m = down_spec k p n l (cd \<and> \<not> prev)"
  shows "\<exists>c' v. exec_ctd i c = (Inr (), c') \<and> only_instance i c c' \<and> int_val v = Some (k, m) \<and>
    inst_get c' i = (inst_get c i)
      (''CV'' \<mapsto> v, ''Q'' \<mapsto> VBool (m \<le> 0), STATE_PREV_CD \<mapsto> VBool cd)"
  using assms count_down_spec [OF assms(6) assms(7) [unfolded num_at_def], of l "cd \<and> \<not> prev"]
  by (auto simp: exec_ctd_def bool_at_def Let_def fb_simps ok_or_def fun_eq_iff state_names
      simp flip: m)

lemma exec_ctud_counts:
  assumes "has_instance i c" and "bool_at i ''CU'' c = Some cu" and "bool_at i ''CD'' c = Some cd"
    and "bool_at i ''R'' c = Some r" and "bool_at i ''LD'' c = Some l"
    and "bool_at i STATE_PREV_CU c = Some prev_cu" and "bool_at i STATE_PREV_CD c = Some prev_cd"
    and "inst_get c i ''PV'' = Some pv" and "int_val pv = Some (k, p)"
    and "num_at k i ''CV'' c = Some n"
    and m: "m = up_down_spec k p n r l (cu \<and> \<not> prev_cu) (cd \<and> \<not> prev_cd)"
  shows "\<exists>c' v. exec_ctud i c = (Inr (), c') \<and> only_instance i c c' \<and> int_val v = Some (k, m) \<and>
    inst_get c' i = (inst_get c i)
      (''CV'' \<mapsto> v, ''QU'' \<mapsto> VBool (p \<le> m), ''QD'' \<mapsto> VBool (m \<le> 0),
       STATE_PREV_CU \<mapsto> VBool cu, STATE_PREV_CD \<mapsto> VBool cd)"
  using assms count_up_down_spec [OF assms(9) assms(10) [unfolded num_at_def],
      of r l "cu \<and> \<not> prev_cu" "cd \<and> \<not> prev_cd"]
  by (auto simp: exec_ctud_def bool_at_def Let_def fb_simps ok_or_def fun_eq_iff state_names
      simp flip: m)

text \<open>Values of different types: the handler fails, and only its edge memory may be initialised.\<close>

lemma exec_ctu_mismatch:
  assumes "bool_at i ''CU'' c = Some cu" and "bool_at i ''R'' c = Some r"
    and "bool_at i STATE_PREV_CU c = Some prev" and "inst_get c i ''PV'' = Some pv"
    and "\<forall>k p. int_val pv = Some (k, p) \<longrightarrow> num_at k i ''CV'' c = None"
  shows "exec_ctu i c = (Inl TypeMismatch, init_if i STATE_PREV_CU (VBool False) c)"
  using assms count_mismatch(1) [OF assms(5) [unfolded num_at_def]]
  by (simp add: exec_ctu_def bool_at_def Let_def fb_simps ok_or_def)

section \<open>Histories of the structs\<close>

text \<open>
  The count of a history (newest first): the rising edges since the last reset or load. An up
  counter shows them up to the largest \<open>i16\<close>; a down counter subtracts them from the loaded value
  down to the smallest.
\<close>

fun edges_since :: "(bool \<times> bool \<times> i16) list \<Rightarrow> nat" where
  "edges_since [] = 0"
| "edges_since ((clk, stop, _) # h) =
     (if stop then 0 else of_bool (rising_edge (clk # map fst h)) + edges_since h)"

fun loaded_value :: "(bool \<times> bool \<times> i16) list \<Rightarrow> i16" where
  "loaded_value [] = 0"
| "loaded_value ((_, load, pv) # h) = (if load then pv else loaded_value h)"

definition ctu_count :: "(bool \<times> bool \<times> i16) list \<Rightarrow> int" where
  "ctu_count h = min i16_max (int (edges_since h))"

definition ctd_count :: "(bool \<times> bool \<times> i16) list \<Rightarrow> int" where
  "ctd_count h = max i16_min (sint (loaded_value h) - int (edges_since h))"

definition ctu_output :: "(bool \<times> bool \<times> i16) list \<Rightarrow> counter_output" where
  "ctu_output h =
     \<lparr>co_q = (sint (snd (snd (hd h))) \<le> ctu_count h), co_cv = word_of_int (ctu_count h)\<rparr>"

definition ctd_output :: "(bool \<times> bool \<times> i16) list \<Rightarrow> counter_output" where
  "ctd_output h = \<lparr>co_q = (ctd_count h \<le> 0), co_cv = word_of_int (ctd_count h)\<rparr>"

lemma i16_signed: "i16_max = signed_max TYPE(16)" "i16_min = signed_min TYPE(16)"
  by (simp_all add: i16_max_def i16_min_def signed_max_def signed_min_def)

lemma i16_range: "sint (w :: i16) \<le> i16_max" "i16_min \<le> sint w"
  by (simp_all add: i16_signed sint_bounds)

lemma edge_clock: "rising_edge (clk # h) \<longleftrightarrow> clk \<and> clock_before h \<noteq> Some True"
  by (simp add: rising_edge_def)

lemma clock_before_Cons [simp]: "clock_before (x # h) = Some x" "clock_before [] = None"
  by (simp_all add: clock_before_def)

lemma ctu_step_count:
  assumes "sint (ctu_cv s) = ctu_count h"
    and "ctu_prev_cu s \<longleftrightarrow> clock_before (map fst h) = Some True"
    and "ctu_step s (cu, r, pv) = (out, s')"
  shows "sint (ctu_cv s') = ctu_count ((cu, r, pv) # h) \<and> ctu_prev_cu s' = cu \<and>
    out = ctu_output ((cu, r, pv) # h)"
proof -
  have "sint (ctu_cv s') = ctu_count ((cu, r, pv) # h)" and "ctu_prev_cu s' = cu"
    and "out = \<lparr>co_q = (sint pv \<le> sint (ctu_cv s')), co_cv = ctu_cv s'\<rparr>"
    using assms sint_succ [of "ctu_cv s"]
    by (auto simp: ctu_step_def ctu_count_def edge_clock Let_def i16_max_def signed_max_def
        split: if_splits)
  then show ?thesis
    by (simp add: ctu_output_def flip: \<open>sint (ctu_cv s') = _\<close>)
qed

lemma ctd_step_count:
  assumes "sint (ctd_cv s) = ctd_count h"
    and "ctd_prev_cd s \<longleftrightarrow> clock_before (map fst h) = Some True"
    and "ctd_step s (cd, l, pv) = (out, s')"
  shows "sint (ctd_cv s') = ctd_count ((cd, l, pv) # h) \<and> ctd_prev_cd s' = cd \<and>
    out = ctd_output ((cd, l, pv) # h)"
proof -
  have "sint (ctd_cv s') = ctd_count ((cd, l, pv) # h)" and "ctd_prev_cd s' = cd"
    and "out = \<lparr>co_q = (sint (ctd_cv s') \<le> 0), co_cv = ctd_cv s'\<rparr>"
    using assms sint_pred [of "ctd_cv s"] i16_range(2) [of pv]
    by (auto simp: ctd_step_def ctd_count_def edge_clock Let_def i16_min_def signed_min_def
        split: if_splits)
  then show ?thesis
    by (simp add: ctd_output_def flip: \<open>sint (ctd_cv s') = _\<close>)
qed

interpretation ctu: step_machine ctu_step ctu_new
    "\<lambda>h s. sint (ctu_cv s) = ctu_count h \<and>
       (ctu_prev_cu s \<longleftrightarrow> clock_before (map fst h) = Some True)"
    ctu_output "\<lambda>_. True"
proof (unfold_locales, goal_cases)
  case 1
  show ?case
    by (simp add: ctu_new_def ctu_count_def i16_max_def)
next
  case (2 h s i out s')
  then show ?case
    by (cases i) (auto dest: ctu_step_count)
qed

interpretation ctd: step_machine ctd_step ctd_new
    "\<lambda>h s. sint (ctd_cv s) = ctd_count h \<and>
       (ctd_prev_cd s \<longleftrightarrow> clock_before (map fst h) = Some True)"
    ctd_output "\<lambda>_. True"
proof (unfold_locales, goal_cases)
  case 1
  show ?case
    by (simp add: ctd_new_def ctd_count_def i16_min_def)
next
  case (2 h s i out s')
  then show ?case
    by (cases i) (auto dest: ctd_step_count)
qed

end
