(* ===== verification/Fb_Timers.thy ===== *)
theory Fb_Timers
  imports Fb_Logic
begin

text \<open>
  Timers (\<open>stdlib/fbs/timers.rs\<close>). A step gets the input, the preset time and the time since the
  last step; the handlers take the last from the clock of the context. Durations are signed 64-bit
  nanoseconds and \<open>+\<close> wraps as in a release build; the accounts of the histories bound the sum.
\<close>

section \<open>The structs\<close>

record timer_output =
  to_q :: bool
  to_et :: duration

type_synonym timer_input = "bool \<times> duration \<times> duration"

definition capped :: "duration \<Rightarrow> duration \<Rightarrow> duration" where
  "capped et pt = (if sint et \<ge> sint pt then pt else et)"

record ton =
  ton_et :: duration
  ton_q :: bool

definition ton_new :: ton where
  "ton_new = \<lparr>ton_et = 0, ton_q = False\<rparr>"

definition ton_step :: "ton \<Rightarrow> timer_input \<Rightarrow> timer_output \<times> ton" where
  "ton_step s inp =
     (case inp of (input, pt, delta) \<Rightarrow>
        let pt = normalize_duration pt;
            s = (if \<not> input then s\<lparr>ton_et := 0, ton_q := False\<rparr>
                 else let s = s\<lparr>ton_et := ton_et s + delta\<rparr>
                      in s\<lparr>ton_q := (sint (ton_et s) \<ge> sint pt)\<rparr>)
        in (\<lparr>to_q = ton_q s, to_et = capped (ton_et s) pt\<rparr>, s))"

record tof =
  tof_et :: duration
  tof_q :: bool
  tof_prev_in :: bool
  tof_timing :: bool

definition tof_new :: tof where
  "tof_new = \<lparr>tof_et = 0, tof_q = False, tof_prev_in = False, tof_timing = False\<rparr>"

definition tof_step :: "tof \<Rightarrow> timer_input \<Rightarrow> timer_output \<times> tof" where
  "tof_step s inp =
     (case inp of (input, pt, delta) \<Rightarrow>
        let pt = normalize_duration pt;
            s = (if input then s\<lparr>tof_q := True, tof_et := 0, tof_timing := False\<rparr>
                 else
                   let s = (if tof_prev_in s then s\<lparr>tof_timing := True, tof_et := 0\<rparr> else s)
                   in if tof_timing s then
                        let s = s\<lparr>tof_et := tof_et s + delta\<rparr>
                        in if sint (tof_et s) \<ge> sint pt
                           then s\<lparr>tof_q := False, tof_timing := False\<rparr>
                           else s\<lparr>tof_q := True\<rparr>
                      else s\<lparr>tof_q := False, tof_et := 0\<rparr>);
            s = s\<lparr>tof_prev_in := input\<rparr>
        in (\<lparr>to_q = tof_q s, to_et = capped (tof_et s) pt\<rparr>, s))"

record tp =
  tp_et :: duration
  tp_q :: bool
  tp_prev_in :: bool
  tp_active :: bool

definition tp_new :: tp where
  "tp_new = \<lparr>tp_et = 0, tp_q = False, tp_prev_in = False, tp_active = False\<rparr>"

definition tp_step :: "tp \<Rightarrow> timer_input \<Rightarrow> timer_output \<times> tp" where
  "tp_step s inp =
     (case inp of (input, pt, delta) \<Rightarrow>
        let pt = normalize_duration pt;
            rising = (\<not> tp_prev_in s \<and> input);
            s = (if rising then s\<lparr>tp_active := True, tp_et := 0\<rparr> else s);
            s = (if tp_active s then
                   let s = s\<lparr>tp_et := tp_et s + delta\<rparr>
                   in if sint (tp_et s) \<ge> sint pt then s\<lparr>tp_active := False, tp_et := pt\<rparr> else s
                 else s);
            s = s\<lparr>tp_q := tp_active s, tp_prev_in := input\<rparr>;
            et = (if tp_active s then tp_et s else 0)
        in (\<lparr>to_q = tp_q s, to_et = et\<rparr>, s))"

section \<open>The handlers\<close>

definition exec_ton :: "instance_id \<Rightarrow> unit fb_exec" where
  "exec_ton i =
     xbind (read_bool i ''IN'') (\<lambda>input.
     xbind (read_time_input i ''PT'') (\<lambda>(pt, is_ltime).
     xbind (read_time_value i ''ET'') (\<lambda>et.
     xbind (read_bool i ''Q'') (\<lambda>q.
     xbind (elapsed_since i) (\<lambda>delta.
     let (out, ton) = ton_step \<lparr>ton_et = et, ton_q = q\<rparr> (input, pt, delta)
     in xbind (write_bool i ''Q'' (to_q out)) (\<lambda>_.
        xbind (write_time_value i ''ET'' (to_et out) is_ltime) (\<lambda>_. xret ())))))))"

definition exec_tof :: "instance_id \<Rightarrow> unit fb_exec" where
  "exec_tof i =
     xbind (read_bool i ''IN'') (\<lambda>input.
     xbind (read_time_input i ''PT'') (\<lambda>(pt, is_ltime).
     xbind (read_time_value i ''ET'') (\<lambda>et.
     xbind (read_bool i ''Q'') (\<lambda>q.
     xbind (get_or_init_bool i STATE_PREV_IN False) (\<lambda>prev_in.
     xbind (get_or_init_bool i STATE_TIMING False) (\<lambda>timing.
     xbind (elapsed_since i) (\<lambda>delta.
     let (out, tof) = tof_step
           \<lparr>tof_et = et, tof_q = q, tof_prev_in = prev_in, tof_timing = timing\<rparr>
           (input, pt, delta)
     in xbind (write_bool i ''Q'' (to_q out)) (\<lambda>_.
        xbind (write_time_value i ''ET'' (to_et out) is_ltime) (\<lambda>_.
        xbind (write_bool i STATE_PREV_IN (tof_prev_in tof)) (\<lambda>_.
        xbind (write_bool i STATE_TIMING (tof_timing tof)) (\<lambda>_. xret ())))))))))))"

definition exec_tp :: "instance_id \<Rightarrow> unit fb_exec" where
  "exec_tp i =
     xbind (read_bool i ''IN'') (\<lambda>input.
     xbind (read_time_input i ''PT'') (\<lambda>(pt, is_ltime).
     xbind (read_time_value i ''ET'') (\<lambda>et.
     xbind (read_bool i ''Q'') (\<lambda>q.
     xbind (get_or_init_bool i STATE_PREV_IN False) (\<lambda>prev_in.
     xbind (get_or_init_bool i STATE_ACTIVE False) (\<lambda>active.
     xbind (elapsed_since i) (\<lambda>delta.
     let (out, tp) = tp_step
           \<lparr>tp_et = et, tp_q = q, tp_prev_in = prev_in, tp_active = active\<rparr>
           (input, pt, delta)
     in xbind (write_bool i ''Q'' (to_q out)) (\<lambda>_.
        xbind (write_time_value i ''ET'' (to_et out) is_ltime) (\<lambda>_.
        xbind (write_bool i STATE_PREV_IN (tp_prev_in tp)) (\<lambda>_.
        xbind (write_bool i STATE_ACTIVE (tp_active tp)) (\<lambda>_. xret ())))))))))))"

text \<open>What a timer instance holds, and the time that has passed for it.\<close>

definition time_at :: "instance_id \<Rightarrow> rstr \<Rightarrow> fb_ctx \<Rightarrow> duration option" where
  "time_at i name c = time_var 0 (inst_get c i name)"

definition passed :: "instance_id \<Rightarrow> fb_ctx \<Rightarrow> duration option" where
  "passed i c = map_option (elapsed (fx_now c))
     (time_var (fx_now c) (inst_get c i STATE_LAST_TIME))"

definition time_as :: "rvalue option \<Rightarrow> duration \<Rightarrow> rvalue" where
  "time_as pt d = (if is_ltime_var pt then VLTime d else VTime d)"

definition timer_ready :: "instance_id \<Rightarrow> fb_ctx \<Rightarrow> timer_input \<Rightarrow> bool" where
  "timer_ready i c inp \<longleftrightarrow>
     (case inp of (input, pt, delta) \<Rightarrow>
        has_instance i c \<and> bool_at i ''IN'' c = Some input \<and> time_at i ''PT'' c = Some pt \<and>
        passed i c = Some delta)"

lemmas timer_simps = fb_simps bool_at_def time_at_def passed_def time_as_def timer_ready_def
  Let_def

lemma exec_ton_step:
  assumes "timer_ready i c inp" and "time_at i ''ET'' c = Some et" and "bool_at i ''Q'' c = Some q"
    and "ton_step \<lparr>ton_et = et, ton_q = q\<rparr> inp = (out, st)"
  shows "\<exists>c'. exec_ton i c = (Inr (), c') \<and> only_instance i c c' \<and>
    inst_get c' i = (inst_get c i)
      (STATE_LAST_TIME \<mapsto> VLTime (fx_now c), ''Q'' \<mapsto> VBool (to_q out),
       ''ET'' \<mapsto> time_as (inst_get c i ''PT'') (to_et out))"
  using assms
  by (cases inp) (auto simp: exec_ton_def timer_simps fun_eq_iff state_names)

lemma exec_tof_step:
  assumes "timer_ready i c inp" and "time_at i ''ET'' c = Some et" and "bool_at i ''Q'' c = Some q"
    and "bool_at i STATE_PREV_IN c = Some prev" and "bool_at i STATE_TIMING c = Some timing"
    and "tof_step \<lparr>tof_et = et, tof_q = q, tof_prev_in = prev, tof_timing = timing\<rparr> inp = (out, st)"
  shows "\<exists>c'. exec_tof i c = (Inr (), c') \<and> only_instance i c c' \<and>
    inst_get c' i = (inst_get c i)
      (STATE_LAST_TIME \<mapsto> VLTime (fx_now c), ''Q'' \<mapsto> VBool (to_q out),
       ''ET'' \<mapsto> time_as (inst_get c i ''PT'') (to_et out),
       STATE_PREV_IN \<mapsto> VBool (tof_prev_in st), STATE_TIMING \<mapsto> VBool (tof_timing st))"
  using assms
  by (cases inp) (auto simp: exec_tof_def timer_simps fun_eq_iff state_names)

lemma exec_tp_step:
  assumes "timer_ready i c inp" and "time_at i ''ET'' c = Some et" and "bool_at i ''Q'' c = Some q"
    and "bool_at i STATE_PREV_IN c = Some prev" and "bool_at i STATE_ACTIVE c = Some active"
    and "tp_step \<lparr>tp_et = et, tp_q = q, tp_prev_in = prev, tp_active = active\<rparr> inp = (out, st)"
  shows "\<exists>c'. exec_tp i c = (Inr (), c') \<and> only_instance i c c' \<and>
    inst_get c' i = (inst_get c i)
      (STATE_LAST_TIME \<mapsto> VLTime (fx_now c), ''Q'' \<mapsto> VBool (to_q out),
       ''ET'' \<mapsto> time_as (inst_get c i ''PT'') (to_et out),
       STATE_PREV_IN \<mapsto> VBool (tp_prev_in st), STATE_ACTIVE \<mapsto> VBool (tp_active st))"
  using assms
  by (cases inp) (auto simp: exec_tp_def timer_simps fun_eq_iff state_names)

section \<open>What the timers measure\<close>

text \<open>
  A history (newest first) of a timer with the constant preset time \<open>p\<close>: the times between the
  steps are not negative and add up to less than \<open>2 ^ 63\<close> nanoseconds, almost three centuries.
\<close>

definition deltas :: "timer_input list \<Rightarrow> int" where
  "deltas h = (\<Sum>(_, _, d)\<leftarrow>h. sint d)"

definition timer_history :: "duration \<Rightarrow> timer_input list \<Rightarrow> bool" where
  "timer_history p h \<longleftrightarrow>
     0 \<le> sint p \<and> (\<forall>(_, pt, d)\<in>set h. pt = p \<and> 0 \<le> sint d) \<and> deltas h < 2 ^ 63"

lemma timer_history_Cons:
  "timer_history p ((input, pt, d) # h) \<longleftrightarrow>
     pt = p \<and> 0 \<le> sint d \<and> sint d + deltas h < 2 ^ 63 \<and> timer_history p h"
  by (auto simp: timer_history_def deltas_def)

lemma timer_history_prefix: "timer_history p (inp # h) \<Longrightarrow> timer_history p h"
  by (cases inp) (simp add: timer_history_Cons)

text \<open>
  The time the input has been TRUE without a break, the time since it was last TRUE, and the time
  since its last rising edge; each counts the whole step in which the input changed.
\<close>

fun on_time :: "timer_input list \<Rightarrow> int" where
  "on_time [] = 0"
| "on_time ((input, _, d) # h) = (if input then on_time h + sint d else 0)"

fun off_time :: "timer_input list \<Rightarrow> int" where
  "off_time [] = 0"
| "off_time ((input, _, d) # h) = (if input then 0 else off_time h + sint d)"

fun pulse_time :: "timer_input list \<Rightarrow> int" where
  "pulse_time [] = 0"
| "pulse_time ((input, _, d) # h) =
     (if rising_edge (input # map fst h) then sint d else pulse_time h + sint d)"

definition was_on :: "timer_input list \<Rightarrow> bool" where
  "was_on h \<longleftrightarrow> (\<exists>(input, _)\<in>set h. input)"

lemma was_on_simps [simp]: "was_on [] = False" "was_on ((input, t) # h) = (input \<or> was_on h)"
  by (auto simp: was_on_def)

lemma measured_le_deltas:
  assumes "timer_history p h"
  shows "0 \<le> on_time h \<and> on_time h \<le> deltas h \<and> 0 \<le> off_time h \<and> off_time h \<le> deltas h \<and>
    0 \<le> pulse_time h \<and> pulse_time h \<le> deltas h"
  using assms by (induction h) (auto simp: timer_history_Cons deltas_def)

lemma timer_history_step:
  assumes "timer_history p (inp # h)"
  obtains input d where "inp = (input, p, d)" and "0 \<le> sint p" and "0 \<le> sint d"
    and "0 \<le> on_time h" and "on_time h + sint d < 2 ^ 63"
    and "0 \<le> off_time h" and "off_time h + sint d < 2 ^ 63"
    and "0 \<le> pulse_time h" and "pulse_time h + sint d < 2 ^ 63"
proof -
  obtain input pt d where inp: "inp = (input, pt, d)"
    by (cases inp)
  then have "pt = p" and "0 \<le> sint d" and "sint d + deltas h < 2 ^ 63" and "timer_history p h"
    using assms by (simp_all add: timer_history_Cons)
  moreover have "0 \<le> sint p"
    using assms by (simp add: timer_history_def)
  ultimately show ?thesis
    using measured_le_deltas [of p h] inp by (intro that) auto
qed

lemma sint_add_small:
  assumes "sint (a :: duration) = m" and "0 \<le> m" and "0 \<le> sint d" and "m + sint d < 2 ^ 63"
  shows "sint (a + d) = m + sint d"
  using assms by (simp add: sint_word_ariths signed_take_bit_int_eq_self)

lemma normalize_nonneg: "0 \<le> sint p \<Longrightarrow> normalize_duration p = p"
  by (simp add: normalize_duration_def)

lemma sint_capped: "sint (capped et pt) = min (sint et) (sint pt)"
  by (simp add: capped_def)

text \<open>A duration is determined by its number of nanoseconds.\<close>

definition timer_shows :: "timer_output \<Rightarrow> bool \<Rightarrow> int \<Rightarrow> bool" where
  "timer_shows out q et \<longleftrightarrow> to_q out = q \<and> sint (to_et out) = et"

definition timer_out :: "bool \<Rightarrow> int \<Rightarrow> timer_output" where
  "timer_out q et = \<lparr>to_q = q, to_et = word_of_int et\<rparr>"

lemma timer_out_eq: "timer_shows out q et \<Longrightarrow> out = timer_out q et"
  by (auto simp: timer_shows_def timer_out_def)

definition ton_output :: "duration \<Rightarrow> timer_input list \<Rightarrow> timer_output" where
  "ton_output p h = timer_out (fst (hd h) \<and> sint p \<le> on_time h) (min (on_time h) (sint p))"

definition tof_on :: "duration \<Rightarrow> timer_input list \<Rightarrow> bool" where
  "tof_on p h \<longleftrightarrow> was_on h \<and> (fst (hd h) \<or> off_time h < sint p)"

definition tof_output :: "duration \<Rightarrow> timer_input list \<Rightarrow> timer_output" where
  "tof_output p h = timer_out (tof_on p h)
     (if tof_on p (tl h) then min (off_time h) (sint p) else 0)"

definition tp_on :: "duration \<Rightarrow> timer_input list \<Rightarrow> bool" where
  "tp_on p h \<longleftrightarrow> was_on h \<and> pulse_time h < sint p"

definition tp_output :: "duration \<Rightarrow> timer_input list \<Rightarrow> timer_output" where
  "tp_output p h = timer_out (tp_on p h) (if tp_on p h then pulse_time h else 0)"

lemma on_clock: "clock_before (map fst h) = Some True \<longleftrightarrow> h \<noteq> [] \<and> fst (hd h)"
  by (cases h) (auto simp: clock_before_def)

lemma on_at_edge: "h \<noteq> [] \<Longrightarrow> fst (hd h) \<Longrightarrow> was_on h \<and> off_time h = 0"
  by (cases h) auto

lemma edge_hd: "rising_edge (input # map fst h) \<longleftrightarrow> input \<and> \<not> (h \<noteq> [] \<and> fst (hd h))"
  by (simp add: rising_edge_def on_clock)

lemma ton_step_measures:
  assumes "sint (ton_et s) = on_time h" and "timer_history p (inp # h)"
    and "ton_step s inp = (out, s')"
  shows "sint (ton_et s') = on_time (inp # h) \<and> out = ton_output p (inp # h)"
proof -
  obtain input d where inp: "inp = (input, p, d)" and "0 \<le> sint p"
    and d: "0 \<le> sint d" "0 \<le> on_time h" "on_time h + sint d < 2 ^ 63"
    using assms(2) by (rule timer_history_step)
  then show ?thesis
    using assms(1,3) sint_add_small [OF assms(1) d(2,1,3)]
    by (auto simp: ton_step_def ton_output_def timer_shows_def Let_def normalize_nonneg sint_capped
        intro!: timer_out_eq)
qed

definition tof_tracks :: "duration \<Rightarrow> timer_input list \<Rightarrow> tof \<Rightarrow> bool" where
  "tof_tracks p h s \<longleftrightarrow>
     (tof_prev_in s \<longleftrightarrow> h \<noteq> [] \<and> fst (hd h)) \<and>
     (tof_timing s \<longleftrightarrow> \<not> tof_prev_in s \<and> tof_on p h) \<and>
     (tof_timing s \<longrightarrow> sint (tof_et s) = off_time h)"

lemma tof_step_measures:
  assumes "tof_tracks p h s" and "timer_history p (inp # h)" and "tof_step s inp = (out, s')"
  shows "tof_tracks p (inp # h) s' \<and> out = tof_output p (inp # h)"
proof -
  obtain input d where inp: "inp = (input, p, d)" and "0 \<le> sint p"
    and d: "0 \<le> sint d" "0 \<le> off_time h" "off_time h + sint d < 2 ^ 63"
    using assms(2) by (rule timer_history_step)
  have et: "tof_timing s \<Longrightarrow> sint (tof_et s + d) = off_time h + sint d"
    using assms(1) d by (intro sint_add_small) (auto simp: tof_tracks_def)
  consider (on) input | (fall) "\<not> input" "tof_prev_in s"
    | (timing) "\<not> input" "\<not> tof_prev_in s" "tof_timing s"
    | (idle) "\<not> input" "\<not> tof_prev_in s" "\<not> tof_timing s"
    by blast
  then show ?thesis
  proof cases
    case on
    then show ?thesis
      using assms(3) \<open>0 \<le> sint p\<close>
      by (auto simp: inp tof_step_def tof_output_def tof_tracks_def tof_on_def timer_shows_def
          Let_def normalize_nonneg sint_capped intro!: timer_out_eq)
  next
    case fall
    then have "was_on h" and "off_time h = 0" and "h \<noteq> []" and "fst (hd h)"
      using assms(1) on_at_edge [of h] by (auto simp: tof_tracks_def)
    then show ?thesis
      using assms(3) \<open>0 \<le> sint p\<close> d fall
      by (auto simp: inp tof_step_def tof_output_def tof_tracks_def tof_on_def timer_shows_def
          Let_def normalize_nonneg sint_capped intro!: timer_out_eq split: if_splits)
  next
    case timing
    then show ?thesis
      using assms(1,3) \<open>0 \<le> sint p\<close> d et
      by (auto simp: inp tof_step_def tof_output_def tof_tracks_def tof_on_def timer_shows_def
          Let_def normalize_nonneg sint_capped intro!: timer_out_eq split: if_splits)
  next
    case idle
    then show ?thesis
      using assms(1,3) \<open>0 \<le> sint p\<close> d
      by (auto simp: inp tof_step_def tof_output_def tof_tracks_def tof_on_def timer_shows_def
          Let_def normalize_nonneg sint_capped intro!: timer_out_eq split: if_splits)
  qed
qed

definition tp_tracks :: "duration \<Rightarrow> timer_input list \<Rightarrow> tp \<Rightarrow> bool" where
  "tp_tracks p h s \<longleftrightarrow>
     (tp_prev_in s \<longleftrightarrow> h \<noteq> [] \<and> fst (hd h)) \<and> (tp_active s \<longleftrightarrow> tp_on p h) \<and>
     (tp_active s \<longrightarrow> sint (tp_et s) = pulse_time h)"

lemma tp_step_measures:
  assumes "tp_tracks p h s" and "timer_history p (inp # h)" and "tp_step s inp = (out, s')"
  shows "tp_tracks p (inp # h) s' \<and> out = tp_output p (inp # h)"
proof -
  obtain input d where inp: "inp = (input, p, d)" and "0 \<le> sint p"
    and d: "0 \<le> sint d" "0 \<le> pulse_time h" "pulse_time h + sint d < 2 ^ 63"
    using assms(2) by (rule timer_history_step)
  have et: "tp_active s \<Longrightarrow> sint (tp_et s + d) = pulse_time h + sint d"
    using assms(1) d by (intro sint_add_small) (auto simp: tp_tracks_def)
  consider (rising) input "\<not> tp_prev_in s" | (steady) input "tp_prev_in s" | (low) "\<not> input"
    by blast
  then show ?thesis
  proof cases
    case rising
    then show ?thesis
      using assms(1,3) \<open>0 \<le> sint p\<close>
      by (auto simp: inp tp_step_def tp_output_def tp_tracks_def tp_on_def timer_shows_def
          Let_def edge_hd normalize_nonneg intro!: timer_out_eq split: if_splits)
  next
    case steady
    then have "was_on h"
      using assms(1) on_at_edge [of h] by (auto simp: tp_tracks_def)
    then show ?thesis
      using assms(1,3) \<open>0 \<le> sint p\<close> d et steady
      by (auto simp: inp tp_step_def tp_output_def tp_tracks_def tp_on_def timer_shows_def
          Let_def edge_hd normalize_nonneg intro!: timer_out_eq split: if_splits)
  next
    case low
    then show ?thesis
      using assms(1,3) \<open>0 \<le> sint p\<close> d et
      by (auto simp: inp tp_step_def tp_output_def tp_tracks_def tp_on_def timer_shows_def
          Let_def edge_hd normalize_nonneg intro!: timer_out_eq split: if_splits)
  qed
qed

interpretation ton: step_machine ton_step ton_new "\<lambda>h s. sint (ton_et s) = on_time h"
    "ton_output p" "timer_history p" for p
  by unfold_locales
    (simp_all add: ton_new_def ton_step_measures timer_history_prefix del: on_time.simps(2))

interpretation tof: step_machine tof_step tof_new "tof_tracks p" "tof_output p"
    "timer_history p" for p
  by unfold_locales
    (simp_all add: tof_new_def tof_tracks_def [of p "[]"] tof_on_def tof_step_measures
      timer_history_prefix)

interpretation tp: step_machine tp_step tp_new "tp_tracks p" "tp_output p" "timer_history p" for p
  by unfold_locales
    (simp_all add: tp_new_def tp_tracks_def [of p "[]"] tp_on_def tp_step_measures
      timer_history_prefix)

end
