(* ===== verification/Hir_Types.thy ===== *)
theory Hir_Types
  imports Values
begin

text \<open>
  The types of the language (crate \<open>trust-hir\<close>: \<open>types/defs.rs\<close>, \<open>types/builtins.rs\<close>,
  \<open>types/registry.rs\<close>, \<open>types/compat.rs\<close>): type identifiers, types, the registry that maps the one
  to the other, and the compatibility of types for assignment.
\<close>

section \<open>Type identifiers\<close>

type_synonym type_id = u32

definition TypeId_UNKNOWN :: type_id where "TypeId_UNKNOWN = 0"
definition TypeId_VOID :: type_id where "TypeId_VOID = 1"
definition TypeId_BOOL :: type_id where "TypeId_BOOL = 2"
definition TypeId_SINT :: type_id where "TypeId_SINT = 3"
definition TypeId_INT :: type_id where "TypeId_INT = 4"
definition TypeId_DINT :: type_id where "TypeId_DINT = 5"
definition TypeId_LINT :: type_id where "TypeId_LINT = 6"
definition TypeId_USINT :: type_id where "TypeId_USINT = 7"
definition TypeId_UINT :: type_id where "TypeId_UINT = 8"
definition TypeId_UDINT :: type_id where "TypeId_UDINT = 9"
definition TypeId_ULINT :: type_id where "TypeId_ULINT = 10"
definition TypeId_REAL :: type_id where "TypeId_REAL = 11"
definition TypeId_LREAL :: type_id where "TypeId_LREAL = 12"
definition TypeId_BYTE :: type_id where "TypeId_BYTE = 13"
definition TypeId_WORD :: type_id where "TypeId_WORD = 14"
definition TypeId_DWORD :: type_id where "TypeId_DWORD = 15"
definition TypeId_LWORD :: type_id where "TypeId_LWORD = 16"
definition TypeId_TIME :: type_id where "TypeId_TIME = 17"
definition TypeId_LTIME :: type_id where "TypeId_LTIME = 18"
definition TypeId_DATE :: type_id where "TypeId_DATE = 19"
definition TypeId_TOD :: type_id where "TypeId_TOD = 20"
definition TypeId_DT :: type_id where "TypeId_DT = 21"
definition TypeId_STRING :: type_id where "TypeId_STRING = 22"
definition TypeId_WSTRING :: type_id where "TypeId_WSTRING = 23"
definition TypeId_LTOD :: type_id where "TypeId_LTOD = 24"
definition TypeId_LDT :: type_id where "TypeId_LDT = 25"
definition TypeId_ANY :: type_id where "TypeId_ANY = 26"
definition TypeId_ANY_INT :: type_id where "TypeId_ANY_INT = 27"
definition TypeId_ANY_REAL :: type_id where "TypeId_ANY_REAL = 28"
definition TypeId_ANY_NUM :: type_id where "TypeId_ANY_NUM = 29"
definition TypeId_ANY_BIT :: type_id where "TypeId_ANY_BIT = 30"
definition TypeId_ANY_STRING :: type_id where "TypeId_ANY_STRING = 31"
definition TypeId_ANY_DATE :: type_id where "TypeId_ANY_DATE = 32"
definition TypeId_NULL :: type_id where "TypeId_NULL = 33"
definition TypeId_CHAR :: type_id where "TypeId_CHAR = 34"
definition TypeId_WCHAR :: type_id where "TypeId_WCHAR = 35"
definition TypeId_LDATE :: type_id where "TypeId_LDATE = 36"
definition TypeId_ANY_DERIVED :: type_id where "TypeId_ANY_DERIVED = 37"
definition TypeId_ANY_ELEMENTARY :: type_id where "TypeId_ANY_ELEMENTARY = 38"
definition TypeId_ANY_MAGNITUDE :: type_id where "TypeId_ANY_MAGNITUDE = 39"
definition TypeId_ANY_UNSIGNED :: type_id where "TypeId_ANY_UNSIGNED = 40"
definition TypeId_ANY_SIGNED :: type_id where "TypeId_ANY_SIGNED = 41"
definition TypeId_ANY_DURATION :: type_id where "TypeId_ANY_DURATION = 42"
definition TypeId_ANY_CHARS :: type_id where "TypeId_ANY_CHARS = 43"
definition TypeId_ANY_CHAR :: type_id where "TypeId_ANY_CHAR = 44"

text \<open>The first identifier of a user type.\<close>

definition USER_TYPES_START :: type_id where "USER_TYPES_START = 100"

lemmas type_ids =
  TypeId_UNKNOWN_def TypeId_VOID_def TypeId_BOOL_def TypeId_SINT_def
  TypeId_INT_def TypeId_DINT_def TypeId_LINT_def TypeId_USINT_def
  TypeId_UINT_def TypeId_UDINT_def TypeId_ULINT_def TypeId_REAL_def
  TypeId_LREAL_def TypeId_BYTE_def TypeId_WORD_def TypeId_DWORD_def
  TypeId_LWORD_def TypeId_TIME_def TypeId_LTIME_def TypeId_DATE_def
  TypeId_TOD_def TypeId_DT_def TypeId_STRING_def TypeId_WSTRING_def
  TypeId_LTOD_def TypeId_LDT_def TypeId_ANY_def TypeId_ANY_INT_def
  TypeId_ANY_REAL_def TypeId_ANY_NUM_def TypeId_ANY_BIT_def TypeId_ANY_STRING_def
  TypeId_ANY_DATE_def TypeId_NULL_def TypeId_CHAR_def TypeId_WCHAR_def
  TypeId_LDATE_def TypeId_ANY_DERIVED_def TypeId_ANY_ELEMENTARY_def TypeId_ANY_MAGNITUDE_def
  TypeId_ANY_UNSIGNED_def TypeId_ANY_SIGNED_def TypeId_ANY_DURATION_def TypeId_ANY_CHARS_def
  TypeId_ANY_CHAR_def

definition builtin_type_names :: "(rstr \<times> type_id) list" where
  "builtin_type_names =
     [(''BOOL'', TypeId_BOOL),
      (''SINT'', TypeId_SINT),
      (''INT'', TypeId_INT),
      (''DINT'', TypeId_DINT),
      (''LINT'', TypeId_LINT),
      (''USINT'', TypeId_USINT),
      (''UINT'', TypeId_UINT),
      (''UDINT'', TypeId_UDINT),
      (''ULINT'', TypeId_ULINT),
      (''REAL'', TypeId_REAL),
      (''LREAL'', TypeId_LREAL),
      (''BYTE'', TypeId_BYTE),
      (''WORD'', TypeId_WORD),
      (''DWORD'', TypeId_DWORD),
      (''LWORD'', TypeId_LWORD),
      (''TIME'', TypeId_TIME),
      (''LTIME'', TypeId_LTIME),
      (''DATE'', TypeId_DATE),
      (''LDATE'', TypeId_LDATE),
      (''TOD'', TypeId_TOD),
      (''TIME_OF_DAY'', TypeId_TOD),
      (''LTOD'', TypeId_LTOD),
      (''LTIME_OF_DAY'', TypeId_LTOD),
      (''DT'', TypeId_DT),
      (''DATE_AND_TIME'', TypeId_DT),
      (''LDT'', TypeId_LDT),
      (''LDATE_AND_TIME'', TypeId_LDT),
      (''ANY'', TypeId_ANY),
      (''ANY_DERIVED'', TypeId_ANY_DERIVED),
      (''ANY_ELEMENTARY'', TypeId_ANY_ELEMENTARY),
      (''ANY_MAGNITUDE'', TypeId_ANY_MAGNITUDE),
      (''ANY_INT'', TypeId_ANY_INT),
      (''ANY_UNSIGNED'', TypeId_ANY_UNSIGNED),
      (''ANY_SIGNED'', TypeId_ANY_SIGNED),
      (''ANY_REAL'', TypeId_ANY_REAL),
      (''ANY_NUM'', TypeId_ANY_NUM),
      (''ANY_DURATION'', TypeId_ANY_DURATION),
      (''ANY_BIT'', TypeId_ANY_BIT),
      (''ANY_CHARS'', TypeId_ANY_CHARS),
      (''ANY_STRING'', TypeId_ANY_STRING),
      (''ANY_CHAR'', TypeId_ANY_CHAR),
      (''ANY_DATE'', TypeId_ANY_DATE),
      (''STRING'', TypeId_STRING),
      (''WSTRING'', TypeId_WSTRING),
      (''CHAR'', TypeId_CHAR),
      (''WCHAR'', TypeId_WCHAR)]"

definition from_builtin_name :: "rstr \<Rightarrow> type_id option" where
  "from_builtin_name name = map_of builtin_type_names (to_ascii_uppercase name)"

definition canonical_type_names :: "(type_id \<times> rstr) list" where
  "canonical_type_names =
     [(TypeId_BOOL, ''BOOL''),
      (TypeId_SINT, ''SINT''),
      (TypeId_INT, ''INT''),
      (TypeId_DINT, ''DINT''),
      (TypeId_LINT, ''LINT''),
      (TypeId_USINT, ''USINT''),
      (TypeId_UINT, ''UINT''),
      (TypeId_UDINT, ''UDINT''),
      (TypeId_ULINT, ''ULINT''),
      (TypeId_REAL, ''REAL''),
      (TypeId_LREAL, ''LREAL''),
      (TypeId_BYTE, ''BYTE''),
      (TypeId_WORD, ''WORD''),
      (TypeId_DWORD, ''DWORD''),
      (TypeId_LWORD, ''LWORD''),
      (TypeId_TIME, ''TIME''),
      (TypeId_LTIME, ''LTIME''),
      (TypeId_DATE, ''DATE''),
      (TypeId_LDATE, ''LDATE''),
      (TypeId_TOD, ''TIME_OF_DAY''),
      (TypeId_LTOD, ''LTIME_OF_DAY''),
      (TypeId_DT, ''DATE_AND_TIME''),
      (TypeId_LDT, ''LDATE_AND_TIME''),
      (TypeId_ANY, ''ANY''),
      (TypeId_ANY_DERIVED, ''ANY_DERIVED''),
      (TypeId_ANY_ELEMENTARY, ''ANY_ELEMENTARY''),
      (TypeId_ANY_MAGNITUDE, ''ANY_MAGNITUDE''),
      (TypeId_ANY_INT, ''ANY_INT''),
      (TypeId_ANY_UNSIGNED, ''ANY_UNSIGNED''),
      (TypeId_ANY_SIGNED, ''ANY_SIGNED''),
      (TypeId_ANY_REAL, ''ANY_REAL''),
      (TypeId_ANY_NUM, ''ANY_NUM''),
      (TypeId_ANY_DURATION, ''ANY_DURATION''),
      (TypeId_ANY_BIT, ''ANY_BIT''),
      (TypeId_ANY_CHARS, ''ANY_CHARS''),
      (TypeId_ANY_STRING, ''ANY_STRING''),
      (TypeId_ANY_CHAR, ''ANY_CHAR''),
      (TypeId_ANY_DATE, ''ANY_DATE''),
      (TypeId_STRING, ''STRING''),
      (TypeId_WSTRING, ''WSTRING''),
      (TypeId_CHAR, ''CHAR''),
      (TypeId_WCHAR, ''WCHAR''),
      (TypeId_NULL, ''NULL'')]"

definition builtin_name :: "type_id \<Rightarrow> rstr option" where
  "builtin_name tid = map_of canonical_type_names tid"

section \<open>Types\<close>

text \<open>A field of a structure or a variant of a union.\<close>

record struct_field =
  sf_name :: rstr
  sf_type_id :: type_id
  sf_address :: "rstr option"

datatype hir_type =
    TyUnknown | TyVoid | TyNull
  | TyBool
  | TySInt | TyInt | TyDInt | TyLInt
  | TyUSInt | TyUInt | TyUDInt | TyULInt
  | TyReal | TyLReal
  | TyByte | TyWord | TyDWord | TyLWord
  | TyTime | TyLTime | TyDate | TyLDate | TyTod | TyLTod | TyDt | TyLdt
  | TyString "u32 option"
  | TyWString "u32 option"
  | TyChar | TyWChar
  | TyArray type_id "(i64 \<times> i64) list"
  | TyStruct rstr "struct_field list"
  | TyUnion rstr "struct_field list"
  | TyEnum rstr type_id "(rstr \<times> i64) list"
  | TyPointer type_id
  | TyReference type_id
  | TySubrange type_id i64 i64
  | TyFunctionBlock rstr
  | TyClass rstr
  | TyInterface rstr
  | TyAny | TyAnyDerived | TyAnyElementary | TyAnyMagnitude | TyAnyInt | TyAnyUnsigned
  | TyAnySigned | TyAnyReal | TyAnyNum | TyAnyDuration | TyAnyBit | TyAnyChars | TyAnyString
  | TyAnyChar | TyAnyDate
  | TyAlias rstr type_id

definition ty_is_numeric :: "hir_type \<Rightarrow> bool" where
  "ty_is_numeric ty \<longleftrightarrow>
     (case ty of
        TySInt \<Rightarrow> True
      | TyInt \<Rightarrow> True
      | TyDInt \<Rightarrow> True
      | TyLInt \<Rightarrow> True
      | TyUSInt \<Rightarrow> True
      | TyUInt \<Rightarrow> True
      | TyUDInt \<Rightarrow> True
      | TyULInt \<Rightarrow> True
      | TyReal \<Rightarrow> True
      | TyLReal \<Rightarrow> True
      | TySubrange _ _ _ \<Rightarrow> True
      | _ \<Rightarrow> False)"

definition ty_is_integer :: "hir_type \<Rightarrow> bool" where
  "ty_is_integer ty \<longleftrightarrow>
     (case ty of
        TySInt \<Rightarrow> True
      | TyInt \<Rightarrow> True
      | TyDInt \<Rightarrow> True
      | TyLInt \<Rightarrow> True
      | TyUSInt \<Rightarrow> True
      | TyUInt \<Rightarrow> True
      | TyUDInt \<Rightarrow> True
      | TyULInt \<Rightarrow> True
      | TySubrange _ _ _ \<Rightarrow> True
      | _ \<Rightarrow> False)"

definition ty_is_signed :: "hir_type \<Rightarrow> bool" where
  "ty_is_signed ty \<longleftrightarrow>
     (case ty of
        TySInt \<Rightarrow> True
      | TyInt \<Rightarrow> True
      | TyDInt \<Rightarrow> True
      | TyLInt \<Rightarrow> True
      | _ \<Rightarrow> False)"

definition ty_is_unsigned :: "hir_type \<Rightarrow> bool" where
  "ty_is_unsigned ty \<longleftrightarrow>
     (case ty of
        TyUSInt \<Rightarrow> True
      | TyUInt \<Rightarrow> True
      | TyUDInt \<Rightarrow> True
      | TyULInt \<Rightarrow> True
      | _ \<Rightarrow> False)"

definition ty_is_float :: "hir_type \<Rightarrow> bool" where
  "ty_is_float ty \<longleftrightarrow>
     (case ty of
        TyReal \<Rightarrow> True
      | TyLReal \<Rightarrow> True
      | _ \<Rightarrow> False)"

definition ty_is_bit_string :: "hir_type \<Rightarrow> bool" where
  "ty_is_bit_string ty \<longleftrightarrow>
     (case ty of
        TyBool \<Rightarrow> True
      | TyByte \<Rightarrow> True
      | TyWord \<Rightarrow> True
      | TyDWord \<Rightarrow> True
      | TyLWord \<Rightarrow> True
      | _ \<Rightarrow> False)"

definition ty_is_string :: "hir_type \<Rightarrow> bool" where
  "ty_is_string ty \<longleftrightarrow>
     (case ty of
        TyString _ \<Rightarrow> True
      | TyWString _ \<Rightarrow> True
      | _ \<Rightarrow> False)"

definition ty_is_char :: "hir_type \<Rightarrow> bool" where
  "ty_is_char ty \<longleftrightarrow>
     (case ty of
        TyChar \<Rightarrow> True
      | TyWChar \<Rightarrow> True
      | _ \<Rightarrow> False)"

definition ty_is_duration :: "hir_type \<Rightarrow> bool" where
  "ty_is_duration ty \<longleftrightarrow>
     (case ty of
        TyTime \<Rightarrow> True
      | TyLTime \<Rightarrow> True
      | _ \<Rightarrow> False)"

definition ty_is_date :: "hir_type \<Rightarrow> bool" where
  "ty_is_date ty \<longleftrightarrow>
     (case ty of
        TyDate \<Rightarrow> True
      | TyLDate \<Rightarrow> True
      | TyTod \<Rightarrow> True
      | TyLTod \<Rightarrow> True
      | TyDt \<Rightarrow> True
      | TyLdt \<Rightarrow> True
      | _ \<Rightarrow> False)"

definition ty_is_time :: "hir_type \<Rightarrow> bool" where
  "ty_is_time ty \<longleftrightarrow>
     (case ty of
        TyTime \<Rightarrow> True
      | TyLTime \<Rightarrow> True
      | TyDate \<Rightarrow> True
      | TyLDate \<Rightarrow> True
      | TyTod \<Rightarrow> True
      | TyLTod \<Rightarrow> True
      | TyDt \<Rightarrow> True
      | TyLdt \<Rightarrow> True
      | _ \<Rightarrow> False)"

definition ty_is_elementary :: "hir_type \<Rightarrow> bool" where
  "ty_is_elementary ty \<longleftrightarrow>
     (case ty of
        TyBool \<Rightarrow> True
      | TySInt \<Rightarrow> True
      | TyInt \<Rightarrow> True
      | TyDInt \<Rightarrow> True
      | TyLInt \<Rightarrow> True
      | TyUSInt \<Rightarrow> True
      | TyUInt \<Rightarrow> True
      | TyUDInt \<Rightarrow> True
      | TyULInt \<Rightarrow> True
      | TyReal \<Rightarrow> True
      | TyLReal \<Rightarrow> True
      | TyByte \<Rightarrow> True
      | TyWord \<Rightarrow> True
      | TyDWord \<Rightarrow> True
      | TyLWord \<Rightarrow> True
      | TyTime \<Rightarrow> True
      | TyLTime \<Rightarrow> True
      | TyDate \<Rightarrow> True
      | TyLDate \<Rightarrow> True
      | TyTod \<Rightarrow> True
      | TyLTod \<Rightarrow> True
      | TyDt \<Rightarrow> True
      | TyLdt \<Rightarrow> True
      | TyString _ \<Rightarrow> True
      | TyWString _ \<Rightarrow> True
      | TyChar \<Rightarrow> True
      | TyWChar \<Rightarrow> True
      | _ \<Rightarrow> False)"

definition ty_is_derived :: "hir_type \<Rightarrow> bool" where
  "ty_is_derived ty \<longleftrightarrow>
     (case ty of
        TyArray _ _ \<Rightarrow> True
      | TyStruct _ _ \<Rightarrow> True
      | TyUnion _ _ \<Rightarrow> True
      | TyEnum _ _ _ \<Rightarrow> True
      | TyPointer _ \<Rightarrow> True
      | TyReference _ \<Rightarrow> True
      | TyFunctionBlock _ \<Rightarrow> True
      | TyClass _ \<Rightarrow> True
      | TyInterface _ \<Rightarrow> True
      | TyAlias _ _ \<Rightarrow> True
      | _ \<Rightarrow> False)"

definition ty_is_chars :: "hir_type \<Rightarrow> bool" where
  "ty_is_chars ty \<longleftrightarrow> ty_is_string ty \<or> ty_is_char ty"

definition subrange_bits :: "type_id \<Rightarrow> nat option" where
  "subrange_bits base =
     (if base = TypeId_SINT \<or> base = TypeId_USINT \<or> base = TypeId_BYTE then Some 8
      else if base = TypeId_INT \<or> base = TypeId_UINT \<or> base = TypeId_WORD then Some 16
      else if base = TypeId_DINT \<or> base = TypeId_UDINT \<or> base = TypeId_DWORD then Some 32
      else if base = TypeId_LINT \<or> base = TypeId_ULINT \<or> base = TypeId_LWORD then Some 64
      else None)"

definition bit_size :: "hir_type \<Rightarrow> nat option" where
  "bit_size ty =
     (case ty of
        TyBool \<Rightarrow> Some 1
      | TySInt \<Rightarrow> Some 8 | TyUSInt \<Rightarrow> Some 8 | TyByte \<Rightarrow> Some 8
      | TyInt \<Rightarrow> Some 16 | TyUInt \<Rightarrow> Some 16 | TyWord \<Rightarrow> Some 16
      | TyDInt \<Rightarrow> Some 32 | TyUDInt \<Rightarrow> Some 32 | TyDWord \<Rightarrow> Some 32 | TyReal \<Rightarrow> Some 32 | TyTime \<Rightarrow> Some 32
      | TyLInt \<Rightarrow> Some 64 | TyULInt \<Rightarrow> Some 64 | TyLWord \<Rightarrow> Some 64 | TyLReal \<Rightarrow> Some 64
      | TyLTime \<Rightarrow> Some 64 | TyLDate \<Rightarrow> Some 64
      | TyChar \<Rightarrow> Some 8
      | TyWChar \<Rightarrow> Some 16
      | TySubrange base _ _ \<Rightarrow> subrange_bits base
      | _ \<Rightarrow> None)"

section \<open>The registry\<close>

text \<open>The hash maps of the source are maps; \<open>str::to_uppercase\<close> of Unicode is an argument.\<close>

record type_registry =
  tr_types :: "type_id \<rightharpoonup> hir_type"
  tr_names :: "rstr \<rightharpoonup> type_id"
  tr_next_id :: u32

definition register_builtin :: "type_id \<times> rstr \<times> hir_type \<Rightarrow> type_registry \<Rightarrow> type_registry" where
  "register_builtin entry r =
     (case entry of (tid, name, ty) \<Rightarrow>
        r\<lparr>tr_types := (tr_types r)(tid \<mapsto> ty), tr_names := (tr_names r)(name \<mapsto> tid)\<rparr>)"

definition builtin_types :: "(type_id \<times> rstr \<times> hir_type) list" where
  "builtin_types =
     [(TypeId_UNKNOWN, ''UNKNOWN'', TyUnknown),
      (TypeId_VOID, ''VOID'', TyVoid),
      (TypeId_NULL, ''NULL'', TyNull),
      (TypeId_BOOL, ''BOOL'', TyBool),
      (TypeId_SINT, ''SINT'', TySInt),
      (TypeId_INT, ''INT'', TyInt),
      (TypeId_DINT, ''DINT'', TyDInt),
      (TypeId_LINT, ''LINT'', TyLInt),
      (TypeId_USINT, ''USINT'', TyUSInt),
      (TypeId_UINT, ''UINT'', TyUInt),
      (TypeId_UDINT, ''UDINT'', TyUDInt),
      (TypeId_ULINT, ''ULINT'', TyULInt),
      (TypeId_REAL, ''REAL'', TyReal),
      (TypeId_LREAL, ''LREAL'', TyLReal),
      (TypeId_BYTE, ''BYTE'', TyByte),
      (TypeId_WORD, ''WORD'', TyWord),
      (TypeId_DWORD, ''DWORD'', TyDWord),
      (TypeId_LWORD, ''LWORD'', TyLWord),
      (TypeId_TIME, ''TIME'', TyTime),
      (TypeId_LTIME, ''LTIME'', TyLTime),
      (TypeId_DATE, ''DATE'', TyDate),
      (TypeId_LDATE, ''LDATE'', TyLDate),
      (TypeId_TOD, ''TOD'', TyTod),
      (TypeId_LTOD, ''LTOD'', TyLTod),
      (TypeId_DT, ''DT'', TyDt),
      (TypeId_LDT, ''LDT'', TyLdt),
      (TypeId_STRING, ''STRING'', TyString None),
      (TypeId_WSTRING, ''WSTRING'', TyWString None),
      (TypeId_CHAR, ''CHAR'', TyChar),
      (TypeId_WCHAR, ''WCHAR'', TyWChar),
      (TypeId_ANY, ''ANY'', TyAny),
      (TypeId_ANY_DERIVED, ''ANY_DERIVED'', TyAnyDerived),
      (TypeId_ANY_ELEMENTARY, ''ANY_ELEMENTARY'', TyAnyElementary),
      (TypeId_ANY_MAGNITUDE, ''ANY_MAGNITUDE'', TyAnyMagnitude),
      (TypeId_ANY_INT, ''ANY_INT'', TyAnyInt),
      (TypeId_ANY_UNSIGNED, ''ANY_UNSIGNED'', TyAnyUnsigned),
      (TypeId_ANY_SIGNED, ''ANY_SIGNED'', TyAnySigned),
      (TypeId_ANY_REAL, ''ANY_REAL'', TyAnyReal),
      (TypeId_ANY_NUM, ''ANY_NUM'', TyAnyNum),
      (TypeId_ANY_DURATION, ''ANY_DURATION'', TyAnyDuration),
      (TypeId_ANY_BIT, ''ANY_BIT'', TyAnyBit),
      (TypeId_ANY_CHARS, ''ANY_CHARS'', TyAnyChars),
      (TypeId_ANY_STRING, ''ANY_STRING'', TyAnyString),
      (TypeId_ANY_CHAR, ''ANY_CHAR'', TyAnyChar),
      (TypeId_ANY_DATE, ''ANY_DATE'', TyAnyDate)]"

definition registry_new :: type_registry where
  "registry_new =
     fold register_builtin builtin_types
       \<lparr>tr_types = Map.empty, tr_names = Map.empty, tr_next_id = USER_TYPES_START\<rparr>"

definition registry_register :: "rstr \<Rightarrow> hir_type \<Rightarrow> type_registry \<Rightarrow> type_id \<times> type_registry" where
  "registry_register name ty r =
     (let tid = tr_next_id r;
          names = (tr_names r)(name \<mapsto> tid);
          upper = to_ascii_uppercase name;
          names = (if upper \<noteq> name then names(upper \<mapsto> tid) else names)
      in (tid, r\<lparr>tr_next_id := tid + 1, tr_names := names, tr_types := (tr_types r)(tid \<mapsto> ty)\<rparr>))"

definition register_struct ::
    "rstr \<Rightarrow> struct_field list \<Rightarrow> type_registry \<Rightarrow> type_id \<times> type_registry" where
  "register_struct name flds r = registry_register name (TyStruct name flds) r"

definition register_union ::
    "rstr \<Rightarrow> struct_field list \<Rightarrow> type_registry \<Rightarrow> type_id \<times> type_registry" where
  "register_union name variants r = registry_register name (TyUnion name variants) r"

definition register_enum ::
    "rstr \<Rightarrow> type_id \<Rightarrow> (rstr \<times> i64) list \<Rightarrow> type_registry \<Rightarrow> type_id \<times> type_registry" where
  "register_enum name base values r = registry_register name (TyEnum name base values) r"

definition registry_get :: "type_registry \<Rightarrow> type_id \<Rightarrow> hir_type option" where
  "registry_get r tid = tr_types r tid"

definition registry_lookup :: "(rstr \<Rightarrow> rstr) \<Rightarrow> type_registry \<Rightarrow> rstr \<Rightarrow> type_id option" where
  "registry_lookup to_uppercase r name =
     (case tr_names r name of Some tid \<Rightarrow> Some tid | None \<Rightarrow> tr_names r (to_uppercase name))"

section \<open>Compatibility\<close>

definition normalize_subrange :: "type_registry \<Rightarrow> hir_type \<Rightarrow> hir_type" where
  "normalize_subrange r ty =
     (case ty of
        TySubrange base _ _ \<Rightarrow> (case registry_get r base of Some t \<Rightarrow> t | None \<Rightarrow> ty)
      | _ \<Rightarrow> ty)"

definition wildcard_dim :: "i64 \<times> i64 \<Rightarrow> bool" where
  "wildcard_dim d \<longleftrightarrow> fst d = 0 \<and> sint (snd d) = 2 ^ 63 - 1"

definition dims_compatible :: "(i64 \<times> i64) list \<Rightarrow> (i64 \<times> i64) list \<Rightarrow> bool" where
  "dims_compatible td sd \<longleftrightarrow>
     length td = length sd \<and>
     list_all (\<lambda>(t, s). wildcard_dim t \<or> wildcard_dim s \<or> t = s) (zip td sd)"

definition widens :: "hir_type \<Rightarrow> hir_type \<Rightarrow> bool" where
  "widens target source \<longleftrightarrow>
     (case target of
        TyInt \<Rightarrow> source = TySInt
      | TyDInt \<Rightarrow> source \<in> {TySInt, TyInt}
      | TyLInt \<Rightarrow> source \<in> {TySInt, TyInt, TyDInt}
      | TyUInt \<Rightarrow> source = TyUSInt
      | TyUDInt \<Rightarrow> source \<in> {TyUSInt, TyUInt}
      | TyULInt \<Rightarrow> source \<in> {TyUSInt, TyUInt, TyUDInt}
      | TyReal \<Rightarrow> source \<in> {TySInt, TyInt, TyDInt}
      | TyLReal \<Rightarrow> source \<in> {TySInt, TyInt, TyDInt, TyLInt, TyReal}
      | TyWord \<Rightarrow> source = TyByte
      | TyDWord \<Rightarrow> source \<in> {TyByte, TyWord}
      | TyLWord \<Rightarrow> source \<in> {TyByte, TyWord, TyDWord}
      | _ \<Rightarrow> False)"

definition generic_accepts :: "hir_type \<Rightarrow> hir_type \<Rightarrow> bool" where
  "generic_accepts target t \<longleftrightarrow>
     (case target of
        TyAny \<Rightarrow> True
      | TyAnyDerived \<Rightarrow> ty_is_derived t
      | TyAnyElementary \<Rightarrow> ty_is_elementary t
      | TyAnyMagnitude \<Rightarrow> ty_is_numeric t \<or> ty_is_duration t
      | TyAnyInt \<Rightarrow> ty_is_integer t
      | TyAnyUnsigned \<Rightarrow> ty_is_unsigned t
      | TyAnySigned \<Rightarrow> ty_is_signed t
      | TyAnyReal \<Rightarrow> ty_is_float t
      | TyAnyNum \<Rightarrow> ty_is_numeric t
      | TyAnyDuration \<Rightarrow> ty_is_duration t
      | TyAnyBit \<Rightarrow> ty_is_bit_string t
      | TyAnyChars \<Rightarrow> ty_is_chars t
      | TyAnyString \<Rightarrow> ty_is_string t
      | TyAnyChar \<Rightarrow> ty_is_char t
      | TyAnyDate \<Rightarrow> ty_is_date t
      | _ \<Rightarrow> False)"

text \<open>
  The recursion follows the element types of arrays through the registry; fuel bounds its depth,
  \<^const>\<open>None\<close> means that it did not suffice.
\<close>

fun types_compatible :: "nat \<Rightarrow> type_registry \<Rightarrow> hir_type \<Rightarrow> hir_type \<Rightarrow> bool option" where
  "types_compatible 0 r target source = None"
| "types_compatible (Suc fuel) r target source =
     (let target = normalize_subrange r target; source = normalize_subrange r source in
      if target = source then Some True
      else
        (case (target, source) of
           (TyArray te td, TyArray se sd) \<Rightarrow>
             if \<not> dims_compatible td sd then Some False
             else
               types_compatible fuel r
                 (case registry_get r te of Some t \<Rightarrow> t | None \<Rightarrow> TyUnknown)
                 (case registry_get r se of Some t \<Rightarrow> t | None \<Rightarrow> TyUnknown)
         | (TyPointer _, TyNull) \<Rightarrow> Some True
         | (TyReference _, TyNull) \<Rightarrow> Some True
         | (TyString _, TyString _) \<Rightarrow> Some True
         | (TyWString _, TyWString _) \<Rightarrow> Some True
         | _ \<Rightarrow> Some (widens target source \<or> generic_accepts target source)))"

definition is_assignable :: "nat \<Rightarrow> type_registry \<Rightarrow> type_id \<Rightarrow> type_id \<Rightarrow> bool option" where
  "is_assignable fuel r target source =
     (if target = source then Some True
      else
        (case (registry_get r target, registry_get r source) of
           (Some t, Some s) \<Rightarrow> types_compatible fuel r t s
         | _ \<Rightarrow> Some False))"

end
