(* ===== verification/Fb_Registry.thy ===== *)
theory Fb_Registry
  imports Fb_Counters Fb_Timers Hir_Types
begin

text \<open>
  The standard function blocks by name (\<open>stdlib/fbs/registry.rs\<close>) and their dispatch
  (\<open>stdlib/fbs/mod.rs\<close>). A definition of a standard block has no base, variables, methods or body;
  its parameters are kept with their type and direction.
\<close>

datatype builtin_fb_kind =
    KindRs | KindSr | KindRTrig | KindFTrig | KindCtu | KindCtd | KindCtud | KindTp | KindTon | KindTof

definition builtin_kind :: "rstr \<Rightarrow> builtin_fb_kind option" where
  "builtin_kind name =
     (let upper = to_ascii_uppercase name in
      if upper = ''RS'' then Some KindRs
      else if upper = ''SR'' then Some KindSr
      else if upper \<in> set [''R_TRIG'', ''DIFU''] then Some KindRTrig
      else if upper \<in> set [''F_TRIG'', ''DIFD''] then Some KindFTrig
      else if upper \<in> set [''CTU'', ''CTU_INT'', ''CTU_DINT'', ''CTU_LINT'', ''CTU_UDINT'', ''CTU_ULINT'']
        then Some KindCtu
      else if upper \<in> set [''CTD'', ''CTD_INT'', ''CTD_DINT'', ''CTD_LINT'', ''CTD_UDINT'', ''CTD_ULINT'']
        then Some KindCtd
      else if upper \<in> set [''CTUD'', ''CTUD_INT'', ''CTUD_DINT'', ''CTUD_LINT'', ''CTUD_UDINT'',
          ''CTUD_ULINT'']
        then Some KindCtud
      else if upper \<in> set [''TP'', ''TP_LTIME''] then Some KindTp
      else if upper \<in> set [''TON'', ''TON_LTIME''] then Some KindTon
      else if upper \<in> set [''TOF'', ''TOF_LTIME''] then Some KindTof
      else None)"

definition execute_builtin :: "instance_id \<Rightarrow> builtin_fb_kind \<Rightarrow> unit fb_exec" where
  "execute_builtin i kind =
     (case kind of
        KindRs \<Rightarrow> exec_rs i
      | KindSr \<Rightarrow> exec_sr i
      | KindRTrig \<Rightarrow> exec_r_trig i
      | KindFTrig \<Rightarrow> exec_f_trig i
      | KindCtu \<Rightarrow> exec_ctu i
      | KindCtd \<Rightarrow> exec_ctd i
      | KindCtud \<Rightarrow> exec_ctud i
      | KindTp \<Rightarrow> exec_tp i
      | KindTon \<Rightarrow> exec_ton i
      | KindTof \<Rightarrow> exec_tof i)"

section \<open>The definitions\<close>

datatype param_direction = DirIn | DirOut | DirInOut

record fb_def =
  fbd_name :: rstr
  fbd_params :: "(rstr \<times> type_id \<times> param_direction) list"

definition fb :: "rstr \<Rightarrow> (rstr \<times> type_id \<times> param_direction) list \<Rightarrow> fb_def" where
  "fb name params = \<lparr>fbd_name = name, fbd_params = params\<rparr>"

definition counter_types :: "(rstr \<times> type_id) list" where
  "counter_types =
     [('''', TypeId_ANY_INT), (''_INT'', TypeId_INT), (''_DINT'', TypeId_DINT),
      (''_LINT'', TypeId_LINT), (''_UDINT'', TypeId_UDINT), (''_ULINT'', TypeId_ULINT)]"

definition timer_types :: "(rstr \<times> type_id) list" where
  "timer_types =
     [(''TP'', TypeId_TIME), (''TON'', TypeId_TIME), (''TOF'', TypeId_TIME),
      (''TP_LTIME'', TypeId_LTIME), (''TON_LTIME'', TypeId_LTIME), (''TOF_LTIME'', TypeId_LTIME)]"

definition logic_blocks :: "fb_def list" where
  "logic_blocks =
     [fb ''RS'' [(''S'', TypeId_BOOL, DirIn), (''R1'', TypeId_BOOL, DirIn), (''Q1'', TypeId_BOOL, DirOut)],
      fb ''SR'' [(''S1'', TypeId_BOOL, DirIn), (''R'', TypeId_BOOL, DirIn), (''Q1'', TypeId_BOOL, DirOut)],
      fb ''R_TRIG'' [(''CLK'', TypeId_BOOL, DirIn), (''Q'', TypeId_BOOL, DirOut)],
      fb ''F_TRIG'' [(''CLK'', TypeId_BOOL, DirIn), (''Q'', TypeId_BOOL, DirOut)],
      fb ''DIFU'' [(''CLK'', TypeId_BOOL, DirIn), (''Q'', TypeId_BOOL, DirOut)],
      fb ''DIFD'' [(''CLK'', TypeId_BOOL, DirIn), (''Q'', TypeId_BOOL, DirOut)]]"

definition counter_blocks :: "rstr \<Rightarrow> type_id \<Rightarrow> fb_def list" where
  "counter_blocks suffix ty =
     [fb (''CTU'' @ suffix)
        [(''CU'', TypeId_BOOL, DirIn), (''R'', TypeId_BOOL, DirIn), (''PV'', ty, DirIn),
         (''Q'', TypeId_BOOL, DirOut), (''CV'', ty, DirOut)],
      fb (''CTD'' @ suffix)
        [(''CD'', TypeId_BOOL, DirIn), (''LD'', TypeId_BOOL, DirIn), (''PV'', ty, DirIn),
         (''Q'', TypeId_BOOL, DirOut), (''CV'', ty, DirOut)],
      fb (''CTUD'' @ suffix)
        [(''CU'', TypeId_BOOL, DirIn), (''CD'', TypeId_BOOL, DirIn), (''R'', TypeId_BOOL, DirIn),
         (''LD'', TypeId_BOOL, DirIn), (''PV'', ty, DirIn), (''QU'', TypeId_BOOL, DirOut),
         (''QD'', TypeId_BOOL, DirOut), (''CV'', ty, DirOut)]]"

definition timer_block :: "rstr \<Rightarrow> type_id \<Rightarrow> fb_def" where
  "timer_block name ty =
     fb name
       [(''IN'', TypeId_BOOL, DirIn), (''PT'', ty, DirIn), (''Q'', TypeId_BOOL, DirOut),
        (''ET'', ty, DirOut)]"

definition standard_function_blocks :: "fb_def list" where
  "standard_function_blocks =
     logic_blocks
     @ concat (map (\<lambda>(suffix, ty). counter_blocks suffix ty) counter_types)
     @ map (\<lambda>(name, ty). timer_block name ty) timer_types"

lemmas block_defs = standard_function_blocks_def logic_blocks_def counter_blocks_def
  timer_block_def counter_types_def timer_types_def fb_def

text \<open>Every standard block is dispatched, in the order of the definitions.\<close>

definition standard_kinds :: "builtin_fb_kind list" where
  "standard_kinds =
     [KindRs, KindSr, KindRTrig, KindFTrig, KindRTrig, KindFTrig]
     @ concat (replicate 6 [KindCtu, KindCtd, KindCtud])
     @ [KindTp, KindTon, KindTof, KindTp, KindTon, KindTof]"

lemma standard_blocks_dispatch:
  "map (\<lambda>d. builtin_kind (fbd_name d)) standard_function_blocks = map Some standard_kinds"
  by code_simp

lemma dispatched_is_standard:
  assumes "builtin_kind name = Some kind"
  shows "\<exists>d\<in>set standard_function_blocks. fbd_name d = to_ascii_uppercase name"
  using assms
  by (auto simp: builtin_kind_def Let_def block_defs split: if_splits)

section \<open>Typed instances\<close>

text \<open>
  What the declared types promise of the variables of an instance: a parameter holds a value of
  its type, and the hidden state, when it is there, a Boolean or a duration.
\<close>

definition type_int_kind :: "type_id \<Rightarrow> int_kind option" where
  "type_int_kind ty =
     (if ty = TypeId_INT then Some (True, 16)
      else if ty = TypeId_DINT then Some (True, 32)
      else if ty = TypeId_LINT then Some (True, 64)
      else if ty = TypeId_UDINT then Some (False, 32)
      else if ty = TypeId_ULINT then Some (False, 64)
      else None)"

definition has_type :: "type_id \<Rightarrow> rvalue option \<Rightarrow> bool" where
  "has_type ty v \<longleftrightarrow>
     (if ty = TypeId_BOOL then \<exists>b. v = Some (VBool b)
      else if ty = TypeId_TIME then \<exists>d. v = Some (VTime d)
      else if ty = TypeId_LTIME then \<exists>d. v = Some (VLTime d)
      else if ty = TypeId_ANY_INT then \<exists>w. v = Some w \<and> int_val w \<noteq> None
      else \<exists>w k n. v = Some w \<and> type_int_kind ty = Some k \<and> int_val w = Some (k, n))"

definition state_bools :: "rstr list" where
  "state_bools =
     [STATE_PREV_CU, STATE_PREV_CD, STATE_TRIG_M, STATE_PREV_IN, STATE_TIMING, STATE_ACTIVE]"

definition typed_instance :: "instance_id \<Rightarrow> fb_def \<Rightarrow> fb_ctx \<Rightarrow> bool" where
  "typed_instance i d c \<longleftrightarrow>
     has_instance i c \<and>
     (\<forall>(name, ty, _)\<in>set (fbd_params d). has_type ty (inst_get c i name)) \<and>
     (\<forall>name\<in>set state_bools. bool_at i name c \<noteq> None) \<and>
     time_at i STATE_LAST_TIME c \<noteq> None"

lemma has_type_simps:
  "has_type TypeId_BOOL v \<longleftrightarrow> (\<exists>b. v = Some (VBool b))"
  "has_type TypeId_TIME v \<longleftrightarrow> (\<exists>d. v = Some (VTime d))"
  "has_type TypeId_LTIME v \<longleftrightarrow> (\<exists>d. v = Some (VLTime d))"
  "type_int_kind ty = Some k \<Longrightarrow> has_type ty v \<longleftrightarrow> (\<exists>w n. v = Some w \<and> int_val w = Some (k, n))"
  by (auto simp: has_type_def type_int_kind_def type_ids)

lemma typed_state:
  assumes "typed_instance i d c"
  shows "has_instance i c \<and> (\<exists>b. bool_at i STATE_PREV_CU c = Some b) \<and>
    (\<exists>b. bool_at i STATE_PREV_CD c = Some b) \<and> (\<exists>b. bool_at i STATE_TRIG_M c = Some b) \<and>
    (\<exists>b. bool_at i STATE_PREV_IN c = Some b) \<and> (\<exists>b. bool_at i STATE_TIMING c = Some b) \<and>
    (\<exists>b. bool_at i STATE_ACTIVE c = Some b) \<and> (\<exists>t. passed i c = Some t)"
proof -
  have "\<exists>t. passed i c = Some t"
    using assms unfolding typed_instance_def time_at_def passed_def
    by (cases "inst_get c i STATE_LAST_TIME") (auto simp: time_var_def split: rvalue.splits)
  then show ?thesis
    using assms by (simp add: typed_instance_def state_bools_def)
qed

definition runs_typed :: "unit fb_exec \<Rightarrow> instance_id \<Rightarrow> fb_def \<Rightarrow> fb_ctx \<Rightarrow> bool" where
  "runs_typed f i d c \<longleftrightarrow>
     (\<exists>c'. f c = (Inr (), c') \<and> only_instance i c c' \<and> typed_instance i d c')"

definition typed_vars :: "fb_def \<Rightarrow> (rstr \<Rightarrow> rvalue option) \<Rightarrow> bool" where
  "typed_vars d m \<longleftrightarrow>
     (\<forall>(name, ty, _)\<in>set (fbd_params d). has_type ty (m name)) \<and>
     (\<forall>name\<in>set state_bools. bool_var False (m name) \<noteq> None) \<and>
     time_var 0 (m STATE_LAST_TIME) \<noteq> None"

lemma typed_instance_vars: "typed_instance i d c \<longleftrightarrow> has_instance i c \<and> typed_vars d (inst_get c i)"
  by (simp add: typed_instance_def typed_vars_def bool_at_def time_at_def)

lemma runs_typedI:
  assumes "\<exists>c'. f c = (Inr (), c') \<and> only_instance i c c' \<and> inst_get c' i = m"
    and "typed_instance i d c" and "typed_vars d m"
  shows "runs_typed f i d c"
  using assms by (auto simp: runs_typed_def typed_instance_vars only_instance_def)

lemma typed_vars_upd:
  assumes "typed_vars d m" and "\<forall>(n', ty, _)\<in>set (fbd_params d). n' = n \<longrightarrow> has_type ty (Some v)"
    and "n \<in> set state_bools \<Longrightarrow> bool_var False (Some v) \<noteq> None"
    and "n = STATE_LAST_TIME \<Longrightarrow> time_var 0 (Some v) \<noteq> None"
  shows "typed_vars d (m(n \<mapsto> v))"
  using assms by (fastforce simp: typed_vars_def)

lemma typed_param:
  "typed_instance i d c \<Longrightarrow> (name, ty, dir) \<in> set (fbd_params d) \<Longrightarrow> has_type ty (inst_get c i name)"
  by (auto simp: typed_instance_def)

lemma bool_params:
  "typed_instance i d c \<Longrightarrow>
    \<forall>x\<in>set (fbd_params d). fst (snd x) = TypeId_BOOL \<longrightarrow> (\<exists>b. bool_at i (fst x) c = Some b)"
  by (auto simp: bool_at_def has_type_simps dest!: typed_param)

lemma time_params:
  "typed_instance i d c \<Longrightarrow>
    \<forall>x\<in>set (fbd_params d). fst (snd x) \<in> {TypeId_TIME, TypeId_LTIME} \<longrightarrow>
      (\<exists>t. time_at i (fst x) c = Some t)"
  by (auto simp: time_at_def has_type_simps dest!: typed_param)

lemma int_params:
  assumes "typed_instance i d c" and "type_int_kind ty = Some k"
  shows "\<forall>x\<in>set (fbd_params d). fst (snd x) = ty \<longrightarrow>
    (\<exists>v n. inst_get c i (fst x) = Some v \<and> int_val v = Some (k, n) \<and> num_at k i (fst x) c = Some n)"
proof -
  have "\<exists>v n. inst_get c i name = Some v \<and> int_val v = Some (k, n) \<and> num_at k i name c = Some n"
    if mem: "(name, ty, dir) \<in> set (fbd_params d)" for name dir
  proof -
    obtain v n where v: "inst_get c i name = Some v" "int_val v = Some (k, n)"
      using typed_param [OF assms(1) mem] assms(2) by (auto simp: has_type_simps)
    then have "v \<noteq> VNull"
      by (auto simp: int_val_def)
    with v show ?thesis
      by (simp add: num_at_def count_of_def)
  qed
  then show ?thesis
    by auto
qed

lemma bool_not_other:
  "TypeId_BOOL \<noteq> TypeId_TIME" "TypeId_BOOL \<noteq> TypeId_LTIME" "TypeId_TIME \<noteq> TypeId_BOOL"
  "TypeId_LTIME \<noteq> TypeId_BOOL" "type_int_kind TypeId_BOOL = None"
  by (simp_all add: type_int_kind_def type_ids)

lemmas typed_simps = fb_def has_type_simps(1-3) state_bools_def state_names

lemma typed_rs:
  assumes "d = logic_blocks ! 0" and "typed_instance i d c"
  shows "runs_typed (exec_rs i) i d c"
proof -
  obtain s r q where "bool_at i ''S'' c = Some s" "bool_at i ''R1'' c = Some r"
      "bool_at i ''Q1'' c = Some q"
    using bool_params [OF assms(2)] typed_state [OF assms(2)] using assms(1)
    by (auto simp: logic_blocks_def fb_def)
  moreover obtain out st where "rs_step \<lparr>rs_q = q\<rparr> (s, r) = (out, st)"
    by fastforce
  ultimately have "\<exists>c'. exec_rs i c = (Inr (), c') \<and> only_instance i c c' \<and>
      inst_get c' i = (inst_get c i)(''Q1'' \<mapsto> VBool out)"
    using exec_rs_step assms(2) by (fastforce simp: typed_instance_def)
  then show ?thesis
    using assms
    by (rule_tac runs_typedI) (auto simp: typed_instance_vars typed_simps logic_blocks_def intro!: typed_vars_upd)
qed

lemma typed_sr:
  assumes "d = logic_blocks ! 1" and "typed_instance i d c"
  shows "runs_typed (exec_sr i) i d c"
proof -
  obtain s r q where "bool_at i ''S1'' c = Some s" "bool_at i ''R'' c = Some r"
      "bool_at i ''Q1'' c = Some q"
    using bool_params [OF assms(2)] typed_state [OF assms(2)] using assms(1)
    by (auto simp: logic_blocks_def fb_def)
  moreover obtain out st where "sr_step \<lparr>sr_q = q\<rparr> (s, r) = (out, st)"
    by fastforce
  ultimately have "\<exists>c'. exec_sr i c = (Inr (), c') \<and> only_instance i c c' \<and>
      inst_get c' i = (inst_get c i)(''Q1'' \<mapsto> VBool out)"
    using exec_sr_step assms(2) by (fastforce simp: typed_instance_def)
  then show ?thesis
    using assms
    by (rule_tac runs_typedI) (auto simp: typed_instance_vars typed_simps logic_blocks_def intro!: typed_vars_upd)
qed

lemma typed_r_trig:
  assumes "d = logic_blocks ! 2 \<or> d = logic_blocks ! 4" and "typed_instance i d c"
  shows "runs_typed (exec_r_trig i) i d c"
proof -
  obtain clk prev where "bool_at i ''CLK'' c = Some clk"
      "bool_at i STATE_TRIG_M c = Some prev"
    using bool_params [OF assms(2)] typed_state [OF assms(2)] using assms(1)
    by (auto simp: logic_blocks_def fb_def)
  moreover obtain out st where "r_trig_step \<lparr>rt_prev = prev\<rparr> clk = (out, st)"
    by fastforce
  ultimately have "\<exists>c'. exec_r_trig i c = (Inr (), c') \<and> only_instance i c c' \<and>
      inst_get c' i = (inst_get c i)(''Q'' \<mapsto> VBool out, STATE_TRIG_M \<mapsto> VBool (rt_prev st))"
    using exec_r_trig_step assms(2) by (fastforce simp: typed_instance_def)
  then show ?thesis
    using assms
    by (rule_tac runs_typedI) (auto simp: typed_instance_vars typed_simps logic_blocks_def intro!: typed_vars_upd)
qed

lemma typed_f_trig:
  assumes "d = logic_blocks ! 3 \<or> d = logic_blocks ! 5" and "typed_instance i d c"
  shows "runs_typed (exec_f_trig i) i d c"
proof -
  obtain clk prev where "bool_at i ''CLK'' c = Some clk"
      "bool_at i STATE_TRIG_M c = Some prev"
    using bool_params [OF assms(2)] typed_state [OF assms(2)] using assms(1)
    by (auto simp: logic_blocks_def fb_def)
  moreover obtain out st where "f_trig_step \<lparr>ft_prev = prev\<rparr> clk = (out, st)"
    by fastforce
  ultimately have "\<exists>c'. exec_f_trig i c = (Inr (), c') \<and> only_instance i c c' \<and>
      inst_get c' i = (inst_get c i)(''Q'' \<mapsto> VBool out, STATE_TRIG_M \<mapsto> VBool (ft_prev st))"
    using exec_f_trig_step assms(2) by (fastforce simp: typed_instance_def)
  then show ?thesis
    using assms
    by (rule_tac runs_typedI) (auto simp: typed_instance_vars typed_simps logic_blocks_def intro!: typed_vars_upd)
qed

lemma typed_ctu:
  assumes "d = counter_blocks suffix ty ! 0" and "type_int_kind ty = Some k"
    and "typed_instance i d c"
  shows "runs_typed (exec_ctu i) i d c"
proof -
  obtain pv p n where num: "inst_get c i ''PV'' = Some pv" "int_val pv = Some (k, p)"
      "num_at k i ''CV'' c = Some n"
    using int_params [OF assms(3,2)] assms(1) by (auto simp: counter_blocks_def fb_def)
  moreover obtain cu r prev where "has_instance i c" "bool_at i ''CU'' c = Some cu"
      "bool_at i ''R'' c = Some r" "bool_at i STATE_PREV_CU c = Some prev"
    using bool_params [OF assms(3)] typed_state [OF assms(3)] assms(1)
    by (auto simp: counter_blocks_def fb_def)
  moreover define m where "m = up_spec k n r (cu \<and> \<not> prev)"
  ultimately obtain v where "int_val v = Some (k, m)" and
    "\<exists>c'. exec_ctu i c = (Inr (), c') \<and> only_instance i c c' \<and>
      inst_get c' i = (inst_get c i)
        (''CV'' \<mapsto> v, ''Q'' \<mapsto> VBool (p \<le> m), STATE_PREV_CU \<mapsto> VBool cu)"
    using exec_ctu_counts by blast
  moreover have "ty \<noteq> TypeId_BOOL"
    using assms(2) by (auto simp: type_int_kind_def type_ids)
  moreover have "typed_vars d ((inst_get c i)
        (''CV'' \<mapsto> v, ''Q'' \<mapsto> VBool (p \<le> m), STATE_PREV_CU \<mapsto> VBool cu))"
    using assms(3)
    by (intro typed_vars_upd)
      (use calculation assms(2) in \<open>simp_all add: typed_instance_vars typed_simps assms(1)
        has_type_simps counter_blocks_def\<close>)
  ultimately show ?thesis
    using assms(3) by (intro runs_typedI)
qed

lemma typed_ctd:
  assumes "d = counter_blocks suffix ty ! 1" and "type_int_kind ty = Some k"
    and "typed_instance i d c"
  shows "runs_typed (exec_ctd i) i d c"
proof -
  obtain pv p n where num: "inst_get c i ''PV'' = Some pv" "int_val pv = Some (k, p)"
      "num_at k i ''CV'' c = Some n"
    using int_params [OF assms(3,2)] assms(1) by (auto simp: counter_blocks_def fb_def)
  moreover obtain cd l prev where "has_instance i c" "bool_at i ''CD'' c = Some cd"
      "bool_at i ''LD'' c = Some l" "bool_at i STATE_PREV_CD c = Some prev"
    using bool_params [OF assms(3)] typed_state [OF assms(3)] assms(1)
    by (auto simp: counter_blocks_def fb_def)
  moreover define m where "m = down_spec k p n l (cd \<and> \<not> prev)"
  ultimately obtain v where "int_val v = Some (k, m)" and
    "\<exists>c'. exec_ctd i c = (Inr (), c') \<and> only_instance i c c' \<and>
      inst_get c' i = (inst_get c i)
        (''CV'' \<mapsto> v, ''Q'' \<mapsto> VBool (m \<le> 0), STATE_PREV_CD \<mapsto> VBool cd)"
    using exec_ctd_counts by blast
  moreover have "ty \<noteq> TypeId_BOOL"
    using assms(2) by (auto simp: type_int_kind_def type_ids)
  moreover have "typed_vars d ((inst_get c i)
        (''CV'' \<mapsto> v, ''Q'' \<mapsto> VBool (m \<le> 0), STATE_PREV_CD \<mapsto> VBool cd))"
    using assms(3)
    by (intro typed_vars_upd)
      (use calculation assms(2) in \<open>simp_all add: typed_instance_vars typed_simps assms(1)
        has_type_simps counter_blocks_def\<close>)
  ultimately show ?thesis
    using assms(3) by (intro runs_typedI)
qed

lemma typed_ctud:
  assumes "d = counter_blocks suffix ty ! 2" and "type_int_kind ty = Some k"
    and "typed_instance i d c"
  shows "runs_typed (exec_ctud i) i d c"
proof -
  obtain pv p n where num: "inst_get c i ''PV'' = Some pv" "int_val pv = Some (k, p)"
      "num_at k i ''CV'' c = Some n"
    using int_params [OF assms(3,2)] assms(1) by (auto simp: counter_blocks_def fb_def)
  moreover obtain cu cd r l prev_cu prev_cd where "has_instance i c" "bool_at i ''CU'' c = Some cu"
      "bool_at i ''CD'' c = Some cd" "bool_at i ''R'' c = Some r" "bool_at i ''LD'' c = Some l"
      "bool_at i STATE_PREV_CU c = Some prev_cu" "bool_at i STATE_PREV_CD c = Some prev_cd"
    using bool_params [OF assms(3)] typed_state [OF assms(3)] assms(1)
    by (auto simp: counter_blocks_def fb_def)
  moreover define m where "m = up_down_spec k p n r l (cu \<and> \<not> prev_cu) (cd \<and> \<not> prev_cd)"
  ultimately obtain v where "int_val v = Some (k, m)" and
    "\<exists>c'. exec_ctud i c = (Inr (), c') \<and> only_instance i c c' \<and>
      inst_get c' i = (inst_get c i)
        (''CV'' \<mapsto> v, ''QU'' \<mapsto> VBool (p \<le> m), ''QD'' \<mapsto> VBool (m \<le> 0),
         STATE_PREV_CU \<mapsto> VBool cu, STATE_PREV_CD \<mapsto> VBool cd)"
    using exec_ctud_counts by blast
  moreover have "ty \<noteq> TypeId_BOOL"
    using assms(2) by (auto simp: type_int_kind_def type_ids)
  moreover have "typed_vars d ((inst_get c i)
        (''CV'' \<mapsto> v, ''QU'' \<mapsto> VBool (p \<le> m), ''QD'' \<mapsto> VBool (m \<le> 0),
         STATE_PREV_CU \<mapsto> VBool cu, STATE_PREV_CD \<mapsto> VBool cd))"
    using assms(3)
    by (intro typed_vars_upd)
      (use calculation assms(2) in \<open>simp_all add: typed_instance_vars typed_simps assms(1)
        has_type_simps counter_blocks_def\<close>)
  ultimately show ?thesis
    using assms(3) by (intro runs_typedI)
qed

lemma typed_ton:
  assumes "d = timer_block name ty" and "ty \<in> {TypeId_TIME, TypeId_LTIME}"
    and "typed_instance i d c"
  shows "runs_typed (exec_ton i) i d c"
proof -
  obtain input pt delta et q  where ready: "timer_ready i c (input, pt, delta)"
      "time_at i ''ET'' c = Some et" "bool_at i ''Q'' c = Some q"
    using bool_params [OF assms(3)] time_params [OF assms(3)] typed_state [OF assms(3)] assms(1,2)
    by (auto simp: timer_block_def fb_def timer_ready_def bool_not_other)
  moreover obtain out st where "ton_step \<lparr>ton_et = et, ton_q = q\<rparr> (input, pt, delta) = (out, st)"
    by fastforce
  ultimately have "\<exists>c'. exec_ton i c = (Inr (), c') \<and> only_instance i c c' \<and>
      inst_get c' i = (inst_get c i)
        (STATE_LAST_TIME \<mapsto> VLTime (fx_now c), ''Q'' \<mapsto> VBool (to_q out),
         ''ET'' \<mapsto> time_as (inst_get c i ''PT'') (to_et out))"
    using exec_ton_step by blast
  moreover have "has_type ty (Some (time_as (inst_get c i ''PT'') (to_et out)))"
    using typed_param [OF assms(3), of "''PT''" ty DirIn] assms(1,2)
    by (auto simp: timer_block_def fb_def time_as_def is_ltime_var_def has_type_simps)
  moreover have "typed_vars d ((inst_get c i)
        (STATE_LAST_TIME \<mapsto> VLTime (fx_now c), ''Q'' \<mapsto> VBool (to_q out),
         ''ET'' \<mapsto> time_as (inst_get c i ''PT'') (to_et out)))"
    using assms(3)
    by (intro typed_vars_upd)
      (use calculation assms(2) in \<open>simp_all add: typed_instance_vars typed_simps assms(1)
        has_type_simps timer_block_def\<close>)
  ultimately show ?thesis
    using assms(3) by (intro runs_typedI)
qed

lemma typed_tof:
  assumes "d = timer_block name ty" and "ty \<in> {TypeId_TIME, TypeId_LTIME}"
    and "typed_instance i d c"
  shows "runs_typed (exec_tof i) i d c"
proof -
  obtain input pt delta et q prev timing where ready: "timer_ready i c (input, pt, delta)"
      "time_at i ''ET'' c = Some et" "bool_at i ''Q'' c = Some q"
      "bool_at i STATE_PREV_IN c = Some prev" "bool_at i STATE_TIMING c = Some timing"
    using bool_params [OF assms(3)] time_params [OF assms(3)] typed_state [OF assms(3)] assms(1,2)
    by (auto simp: timer_block_def fb_def timer_ready_def bool_not_other)
  moreover obtain out st where "tof_step \<lparr>tof_et = et, tof_q = q, tof_prev_in = prev, tof_timing = timing\<rparr> (input, pt, delta) = (out, st)"
    by fastforce
  ultimately have "\<exists>c'. exec_tof i c = (Inr (), c') \<and> only_instance i c c' \<and>
      inst_get c' i = (inst_get c i)
        (STATE_LAST_TIME \<mapsto> VLTime (fx_now c), ''Q'' \<mapsto> VBool (to_q out),
         ''ET'' \<mapsto> time_as (inst_get c i ''PT'') (to_et out),
         STATE_PREV_IN \<mapsto> VBool (tof_prev_in st), STATE_TIMING \<mapsto> VBool (tof_timing st))"
    using exec_tof_step by blast
  moreover have "has_type ty (Some (time_as (inst_get c i ''PT'') (to_et out)))"
    using typed_param [OF assms(3), of "''PT''" ty DirIn] assms(1,2)
    by (auto simp: timer_block_def fb_def time_as_def is_ltime_var_def has_type_simps)
  moreover have "typed_vars d ((inst_get c i)
        (STATE_LAST_TIME \<mapsto> VLTime (fx_now c), ''Q'' \<mapsto> VBool (to_q out),
         ''ET'' \<mapsto> time_as (inst_get c i ''PT'') (to_et out),
         STATE_PREV_IN \<mapsto> VBool (tof_prev_in st), STATE_TIMING \<mapsto> VBool (tof_timing st)))"
    using assms(3)
    by (intro typed_vars_upd)
      (use calculation assms(2) in \<open>simp_all add: typed_instance_vars typed_simps assms(1)
        has_type_simps timer_block_def\<close>)
  ultimately show ?thesis
    using assms(3) by (intro runs_typedI)
qed

lemma typed_tp:
  assumes "d = timer_block name ty" and "ty \<in> {TypeId_TIME, TypeId_LTIME}"
    and "typed_instance i d c"
  shows "runs_typed (exec_tp i) i d c"
proof -
  obtain input pt delta et q prev active where ready: "timer_ready i c (input, pt, delta)"
      "time_at i ''ET'' c = Some et" "bool_at i ''Q'' c = Some q"
      "bool_at i STATE_PREV_IN c = Some prev" "bool_at i STATE_ACTIVE c = Some active"
    using bool_params [OF assms(3)] time_params [OF assms(3)] typed_state [OF assms(3)] assms(1,2)
    by (auto simp: timer_block_def fb_def timer_ready_def bool_not_other)
  moreover obtain out st where "tp_step \<lparr>tp_et = et, tp_q = q, tp_prev_in = prev, tp_active = active\<rparr> (input, pt, delta) = (out, st)"
    by fastforce
  ultimately have "\<exists>c'. exec_tp i c = (Inr (), c') \<and> only_instance i c c' \<and>
      inst_get c' i = (inst_get c i)
        (STATE_LAST_TIME \<mapsto> VLTime (fx_now c), ''Q'' \<mapsto> VBool (to_q out),
         ''ET'' \<mapsto> time_as (inst_get c i ''PT'') (to_et out),
         STATE_PREV_IN \<mapsto> VBool (tp_prev_in st), STATE_ACTIVE \<mapsto> VBool (tp_active st))"
    using exec_tp_step by blast
  moreover have "has_type ty (Some (time_as (inst_get c i ''PT'') (to_et out)))"
    using typed_param [OF assms(3), of "''PT''" ty DirIn] assms(1,2)
    by (auto simp: timer_block_def fb_def time_as_def is_ltime_var_def has_type_simps)
  moreover have "typed_vars d ((inst_get c i)
        (STATE_LAST_TIME \<mapsto> VLTime (fx_now c), ''Q'' \<mapsto> VBool (to_q out),
         ''ET'' \<mapsto> time_as (inst_get c i ''PT'') (to_et out),
         STATE_PREV_IN \<mapsto> VBool (tp_prev_in st), STATE_ACTIVE \<mapsto> VBool (tp_active st)))"
    using assms(3)
    by (intro typed_vars_upd)
      (use calculation assms(2) in \<open>simp_all add: typed_instance_vars typed_simps assms(1)
        has_type_simps timer_block_def\<close>)
  ultimately show ?thesis
    using assms(3) by (intro runs_typedI)
qed

section \<open>The dispatch runs every typed block\<close>

lemma logic_kinds:
  "map (\<lambda>d. builtin_kind (fbd_name d)) logic_blocks =
    map Some [KindRs, KindSr, KindRTrig, KindFTrig, KindRTrig, KindFTrig]"
  by code_simp

lemma counter_kinds:
  "\<forall>(suffix, ty)\<in>set counter_types.
    map (\<lambda>d. builtin_kind (fbd_name d)) (counter_blocks suffix ty) =
      map Some [KindCtu, KindCtd, KindCtud]"
  by code_simp

lemma timer_kinds:
  "map (\<lambda>(name, _). builtin_kind name) timer_types =
    map Some [KindTp, KindTon, KindTof, KindTp, KindTon, KindTof]"
  by code_simp

lemma nth_kinds: "map f xs = map Some ks \<Longrightarrow> n < length ks \<Longrightarrow> f (xs ! n) = Some (ks ! n)"
  by (metis length_map nth_map)

lemma logic_runs:
  assumes "d \<in> set logic_blocks" and "typed_instance i d c"
  shows "\<exists>k. builtin_kind (fbd_name d) = Some k \<and> runs_typed (execute_builtin i k) i d c"
proof -
  have six: "d = logic_blocks ! 0 \<or> d = logic_blocks ! 1 \<or> d = logic_blocks ! 2 \<or>
      d = logic_blocks ! 3 \<or> d = logic_blocks ! 4 \<or> d = logic_blocks ! 5"
    using assms(1) by (simp add: logic_blocks_def)
  have kind: "builtin_kind (fbd_name (logic_blocks ! n)) =
      Some ([KindRs, KindSr, KindRTrig, KindFTrig, KindRTrig, KindFTrig] ! n)" if "n < 6" for n
    using nth_kinds [OF logic_kinds] that by simp
  show ?thesis
    using six assms(2) kind [of 0] kind [of 1] kind [of 2] kind [of 3] kind [of 4] kind [of 5]
      typed_rs typed_sr typed_r_trig typed_f_trig
    by (elim disjE) (simp_all add: execute_builtin_def)
qed

lemma counter_runs:
  assumes "(suffix, ty) \<in> set counter_types" and "d \<in> set (counter_blocks suffix ty)"
    and "ty \<noteq> TypeId_ANY_INT" and "typed_instance i d c"
  shows "\<exists>k. builtin_kind (fbd_name d) = Some k \<and> runs_typed (execute_builtin i k) i d c"
proof -
  have "type_int_kind ty \<noteq> None"
    using assms(1,3) by (auto simp: counter_types_def type_int_kind_def type_ids)
  then obtain k where k: "type_int_kind ty = Some k"
    by blast
  have three: "d = counter_blocks suffix ty ! 0 \<or> d = counter_blocks suffix ty ! 1 \<or>
      d = counter_blocks suffix ty ! 2"
    using assms(2) by (simp add: counter_blocks_def)
  have kinds: "map (\<lambda>d. builtin_kind (fbd_name d)) (counter_blocks suffix ty) =
      map Some [KindCtu, KindCtd, KindCtud]"
    using counter_kinds assms(1) by blast
  have kind: "builtin_kind (fbd_name (counter_blocks suffix ty ! n)) =
      Some ([KindCtu, KindCtd, KindCtud] ! n)" if "n < 3" for n
    using nth_kinds [OF kinds] that by simp
  show ?thesis
    using three assms(4) kind [of 0] kind [of 1] kind [of 2] k typed_ctu typed_ctd typed_ctud
    by (elim disjE) (simp_all add: execute_builtin_def)
qed

lemma timer_runs:
  assumes "(name, ty) \<in> set timer_types" and "d = timer_block name ty" and "typed_instance i d c"
  shows "\<exists>k. builtin_kind (fbd_name d) = Some k \<and> runs_typed (execute_builtin i k) i d c"
proof -
  have "ty \<in> {TypeId_TIME, TypeId_LTIME}"
    using assms(1) by (auto simp: timer_types_def)
  note typed = assms(2) this assms(3)
  have runs: "runs_typed (exec_ton i) i d c" "runs_typed (exec_tof i) i d c"
      "runs_typed (exec_tp i) i d c"
    by (rule typed_ton [OF typed] typed_tof [OF typed] typed_tp [OF typed])+
  have "fbd_name d = name"
    using assms(2) by (simp add: timer_block_def fb_def)
  moreover have "builtin_kind name \<in> set (map (\<lambda>(name, _). builtin_kind name) timer_types)"
    using assms(1) by (metis (mono_tags, lifting) case_prod_conv imageI list.set_map)
  then have "builtin_kind name \<in> {Some KindTp, Some KindTon, Some KindTof}"
    unfolding timer_kinds by auto
  ultimately show ?thesis
    using runs by (auto simp: execute_builtin_def)
qed

lemma standard_block_runs:
  assumes "d \<in> set standard_function_blocks" and "typed_instance i d c"
    and "TypeId_ANY_INT \<notin> (fst \<circ> snd) ` set (fbd_params d)"
  shows "\<exists>k. builtin_kind (fbd_name d) = Some k \<and> runs_typed (execute_builtin i k) i d c"
proof -
  consider "d \<in> set logic_blocks"
    | suffix ty where "(suffix, ty) \<in> set counter_types" "d \<in> set (counter_blocks suffix ty)"
    | name ty where "(name, ty) \<in> set timer_types" "d = timer_block name ty"
    using assms(1) by (auto simp: standard_function_blocks_def)
  then show ?thesis
  proof cases
    case 2
    then have "ty \<noteq> TypeId_ANY_INT"
      using assms(3) by (auto simp: counter_blocks_def fb_def)
    with 2 show ?thesis
      using counter_runs assms(2) by blast
  qed (use logic_runs timer_runs assms(2) in blast)+
qed

end
