(* ===== verification/Fb_Properties.thy ===== *)
theory Fb_Properties
  imports Fb_Registry
begin

text \<open>
  The properties of the standard function blocks: what the handlers compute, what the blocks show
  over a history of calls, and that a typed instance stays typed. Each is applied to a small
  context or a short history.
\<close>

section \<open>A context\<close>

definition block_ctx :: "(rstr \<times> rvalue) list \<Rightarrow> fb_ctx" where
  "block_ctx vars =
     \<lparr>fx_storage =
        \<lparr>vs_globals = [], vs_frames = [],
         vs_instances = [0 \<mapsto> \<lparr>in_type_name = ''FB'', in_variables = vars, in_parent = None\<rparr>],
         vs_retain = [], vs_next_frame_id = 0, vs_next_instance_id = 1\<rparr>,
      fx_now = 1000\<rparr>"

lemma block_ctx_get:
  "inst_get (block_ctx vars) 0 name = im_get vars name" "has_instance 0 (block_ctx vars)"
  by (simp_all add: block_ctx_def inst_get_def get_instance_var_def has_instance_def)

lemmas ctx_simps = block_ctx_get bool_at_def time_at_def num_at_def count_of_def int_val_def im_get_def
  state_names

section \<open>Bistables and edges\<close>

text \<open>Over any history of calls the output of an SR or RS block is the effect of the last call
  with a set or reset input, where the set input wins for SR and the reset input for RS.\<close>

theorem bistable_history:
  assumes "n < length is"
  shows "fst (run sr_step sr_new is) ! n = last_command set_dominant (rev (take (Suc n) is)) \<and>
    fst (run rs_step rs_new is) ! n = last_command reset_dominant (rev (take (Suc n) is))"
  using sr.run_outputs [of "is", OF _ prod.collapse [symmetric] assms]
    rs.run_outputs [of "is", OF _ prod.collapse [symmetric] assms] by simp

lemma bistable_history_witness:
  "fst (run rs_step rs_new [(True, False), (True, True), (False, False)]) ! 2 = False"
  using bistable_history [of 2 "[(True, False), (True, True), (False, False)]"]
  by (simp add: reset_dominant_def)

text \<open>R_TRIG is TRUE exactly in the calls whose clock is TRUE and was not in the call before,
  F_TRIG in those whose clock is FALSE and was not; the first call counts as a change for both.\<close>

theorem edge_history:
  assumes "n < length is"
  shows "fst (run r_trig_step r_trig_new is) ! n = rising_edge (rev (take (Suc n) is)) \<and>
    fst (run f_trig_step f_trig_new is) ! n = falling_edge (rev (take (Suc n) is))"
  using r_trig.run_outputs [of "is", OF _ prod.collapse [symmetric] assms]
    f_trig.run_outputs [of "is", OF _ prod.collapse [symmetric] assms] by simp

lemma edge_history_witness:
  "fst (run r_trig_step r_trig_new [True, True, False, True]) ! 3 \<and>
   fst (run f_trig_step f_trig_new [False]) ! 0"
  using edge_history [of 3 "[True, True, False, True]"] edge_history [of 0 "[False]"]
  by (simp add: rising_edge_def falling_edge_def clock_before_def)

section \<open>Counters\<close>

text \<open>The CTU handler, for a preset value of any of the eight integer types and a count of that
  type, sets CV to the count plus one at a rising edge, clamped at the largest value of the type,
  or to 0 on reset; Q says that CV has reached PV; nothing but CV, Q and the edge memory changes.\<close>

theorem ctu_counts:
  assumes "has_instance i c" and "bool_at i ''CU'' c = Some cu" and "bool_at i ''R'' c = Some r"
    and "bool_at i STATE_PREV_CU c = Some prev" and "inst_get c i ''PV'' = Some pv"
    and "int_val pv = Some (k, p)" and "num_at k i ''CV'' c = Some n"
    and "m = (if r then 0 else if cu \<and> \<not> prev then min (kind_max k) (n + 1) else n)"
  shows "\<exists>c' v. exec_ctu i c = (Inr (), c') \<and> only_instance i c c' \<and> int_val v = Some (k, m) \<and>
    inst_get c' i = (inst_get c i)
      (''CV'' \<mapsto> v, ''Q'' \<mapsto> VBool (p \<le> m), STATE_PREV_CU \<mapsto> VBool cu)"
  using exec_ctu_counts [OF assms(1-7)] assms(8) by (simp add: up_spec_def)

lemma ctu_counts_witness:
  "\<exists>c'. exec_ctu 0 (block_ctx [(''CU'', VBool True), (''PV'', VSInt 127), (''CV'', VSInt 127)]) =
    (Inr (), c') \<and> inst_get c' 0 ''CV'' = Some (VSInt 127)"
proof -
  let ?c = "block_ctx [(''CU'', VBool True), (''PV'', VSInt 127), (''CV'', VSInt 127)]"
  obtain c' v where step: "exec_ctu 0 ?c = (Inr (), c')" and v: "int_val v = Some ((True, 8), 127)"
    and c': "inst_get c' 0 = (inst_get ?c 0)
      (''CV'' \<mapsto> v, ''Q'' \<mapsto> VBool True, STATE_PREV_CU \<mapsto> VBool True)"
    using ctu_counts [of 0 ?c True False False "VSInt 127" "(True, 8)" 127 127 127]
    by (auto simp: ctx_simps kind_max_def)
  have "v = VSInt 127"
    using v by (cases v) (auto simp: int_val_def intro: signed_word_eqI)
  then show ?thesis
    using step c' by (simp add: state_names)
qed

text \<open>The CTUD handler counts up and down between the smallest and the largest value of the
  type of its preset value: reset goes before load, load before counting, and two edges in the
  same call cancel out.\<close>

theorem ctud_counts:
  assumes "has_instance i c" and "bool_at i ''CU'' c = Some cu" and "bool_at i ''CD'' c = Some cd"
    and "bool_at i ''R'' c = Some r" and "bool_at i ''LD'' c = Some l"
    and "bool_at i STATE_PREV_CU c = Some prev_cu" and "bool_at i STATE_PREV_CD c = Some prev_cd"
    and "inst_get c i ''PV'' = Some pv" and "int_val pv = Some (k, p)"
    and "num_at k i ''CV'' c = Some n"
    and "m = (if r then 0 else if l then p
      else max (kind_min k) (min (kind_max k)
        (n + of_bool (cu \<and> \<not> prev_cu) - of_bool (cd \<and> \<not> prev_cd))))"
  shows "\<exists>c' v. exec_ctud i c = (Inr (), c') \<and> only_instance i c c' \<and> int_val v = Some (k, m) \<and>
    inst_get c' i = (inst_get c i)
      (''CV'' \<mapsto> v, ''QU'' \<mapsto> VBool (p \<le> m), ''QD'' \<mapsto> VBool (m \<le> 0),
       STATE_PREV_CU \<mapsto> VBool cu, STATE_PREV_CD \<mapsto> VBool cd)"
  using exec_ctud_counts [OF assms(1-10)] assms(11) by (simp add: up_down_spec_def)

lemma ctud_counts_witness:
  "\<exists>c'. exec_ctud 0 (block_ctx [(''CD'', VBool True), (''PV'', VUSInt 3)]) = (Inr (), c') \<and>
    inst_get c' 0 ''QD'' = Some (VBool True)"
proof -
  let ?c = "block_ctx [(''CD'', VBool True), (''PV'', VUSInt 3)]"
  show ?thesis
    using ctud_counts [of 0 ?c False True False False False False "VUSInt 3" "(False, 8)" 3 0 0]
    by (auto simp: ctx_simps kind_max_def kind_min_def)
qed

text \<open>When the preset value is no integer, or the current value is neither null nor of the type
  of the preset value, CTU fails with a type mismatch; its outputs keep their values, and at most
  its edge memory gets its default.\<close>

theorem ctu_type_mismatch:
  assumes "bool_at i ''CU'' c = Some cu" and "bool_at i ''R'' c = Some r"
    and "bool_at i STATE_PREV_CU c = Some prev" and "inst_get c i ''PV'' = Some pv"
    and "\<forall>k p. int_val pv = Some (k, p) \<longrightarrow> num_at k i ''CV'' c = None"
  shows "exec_ctu i c = (Inl TypeMismatch, init_if i STATE_PREV_CU (VBool False) c)"
  using assms by (rule exec_ctu_mismatch)

lemma ctu_type_mismatch_witness:
  "fst (exec_ctu 0 (block_ctx [(''PV'', VInt 3), (''CV'', VDInt 0)])) = Inl TypeMismatch"
  using ctu_type_mismatch [of 0 "block_ctx [(''PV'', VInt 3), (''CV'', VDInt 0)]" False False False
      "VInt 3"] by (simp add: ctx_simps)

text \<open>C34: Over any history of calls the CTU step shows the number of rising edges since the last
  reset, up to 32767, and the CTD step the value loaded last minus the rising edges since then,
  down to -32768.\<close>

theorem counter_history:
  assumes "n < length is"
  shows "fst (run ctu_step ctu_new is) ! n = ctu_output (rev (take (Suc n) is)) \<and>
    fst (run ctd_step ctd_new is) ! n = ctd_output (rev (take (Suc n) is))"
  using ctu.run_outputs [of "is", OF _ prod.collapse [symmetric] assms]
    ctd.run_outputs [of "is", OF _ prod.collapse [symmetric] assms] by simp

lemma counter_history_witness:
  "fst (run ctu_step ctu_new [(True, False, 2), (False, False, 2), (True, False, 2)]) ! 2 =
    \<lparr>co_q = True, co_cv = 2\<rparr>"
  using counter_history [of 2 "[(True, False, 2), (False, False, 2), (True, False, 2)]"]
  by (simp add: ctu_output_def ctu_count_def rising_edge_def clock_before_def i16_max_def)

section \<open>Timers\<close>

text \<open>C36: With a constant preset time, TON shows the time for which its input has been TRUE without
  a break, the call that saw it rise included, up to PT, and Q as soon as that time reaches PT
  while the input is TRUE.\<close>

theorem ton_history:
  assumes "timer_history p (rev is)" and "n < length is"
  shows "fst (run ton_step ton_new is) ! n = ton_output p (rev (take (Suc n) is))"
  using ton.run_outputs [OF assms(1) prod.collapse [symmetric] assms(2)] .

lemma ton_history_witness:
  "fst (run ton_step ton_new [(False, 5, 3), (True, 5, 3), (True, 5, 3)]) ! 2 = timer_out True 5"
  using ton_history [of 5 "[(False, 5, 3), (True, 5, 3), (True, 5, 3)]" 2]
  by (simp add: timer_history_def deltas_def ton_output_def)

text \<open>C37: With a constant preset time, the output of TOF is TRUE while its input is TRUE and, once
  the input has been TRUE, until the time since then reaches PT.\<close>

theorem tof_history:
  assumes "timer_history p (rev is)" and "n < length is"
  shows "fst (run tof_step tof_new is) ! n = tof_output p (rev (take (Suc n) is)) \<and>
    to_q (fst (run tof_step tof_new is) ! n) =
      (was_on (take (Suc n) is) \<and> (fst (is ! n) \<or> off_time (rev (take (Suc n) is)) < sint p))"
proof -
  have "hd (rev (take (Suc n) is)) = is ! n"
    using assms(2) by (simp add: take_Suc_conv_app_nth)
  then show ?thesis
    using tof.run_outputs [OF assms(1) prod.collapse [symmetric] assms(2)]
    by (simp add: tof_output_def tof_on_def timer_out_def was_on_def)
qed

lemma tof_history_witness:
  "to_q (fst (run tof_step tof_new [(True, 5, 3), (False, 5, 3), (False, 5, 3)]) ! 1) \<and>
   \<not> to_q (fst (run tof_step tof_new [(True, 5, 3), (False, 5, 3), (False, 5, 3)]) ! 2)"
  using tof_history [of 5 "[(True, 5, 3), (False, 5, 3), (False, 5, 3)]" 1]
    tof_history [of 5 "[(True, 5, 3), (False, 5, 3), (False, 5, 3)]" 2]
  by (simp add: timer_history_def deltas_def tof_output_def tof_on_def timer_out_def
      del: run.simps)

text \<open>C35: With a constant preset time, the pulse of TP lasts until PT has passed since the last
  rising edge of its input, not since the edge that started the pulse: an edge during the pulse
  starts it anew.\<close>

theorem tp_history:
  assumes "timer_history p (rev is)" and "n < length is"
  shows "fst (run tp_step tp_new is) ! n = tp_output p (rev (take (Suc n) is)) \<and>
    to_q (fst (run tp_step tp_new is) ! n) =
      (was_on (take (Suc n) is) \<and> pulse_time (rev (take (Suc n) is)) < sint p)"
  using tp.run_outputs [OF assms(1) prod.collapse [symmetric] assms(2)]
  by (simp add: tp_output_def tp_on_def timer_out_def was_on_def)

text \<open>The pulse started at the first call is still on in the fifth, when PT has long passed.\<close>

definition retriggering :: "timer_input list" where
  "retriggering = [(True, 10, 4), (False, 10, 4), (True, 10, 4), (False, 10, 1), (False, 10, 4)]"

lemma tp_history_witness:
  "to_q (fst (run tp_step tp_new retriggering) ! 4) \<and> 10 < deltas (rev retriggering)"
  using tp_history [of 10 retriggering 4]
  by (simp add: timer_history_def deltas_def retriggering_def rising_edge_def clock_before_def
      tp_output_def tp_on_def timer_out_def del: run.simps)

section \<open>Types\<close>

text \<open>C33: Every standard function block of fixed types is dispatched by its name, and its handler
  succeeds on an instance whose variables have their declared types, leaves them so, and touches
  no other instance, global, frame or retained variable.\<close>

theorem standard_block_typed:
  assumes "d \<in> set standard_function_blocks" and "typed_instance i d c"
    and "TypeId_ANY_INT \<notin> (fst \<circ> snd) ` set (fbd_params d)"
  shows "\<exists>k c'. builtin_kind (fbd_name d) = Some k \<and> execute_builtin i k c = (Inr (), c') \<and>
    only_instance i c c' \<and> typed_instance i d c'"
  using standard_block_runs [OF assms] by (auto simp: runs_typed_def)

definition tp_vars :: "(rstr \<times> rvalue) list" where
  "tp_vars = [(''IN'', VBool True), (''PT'', VTime 5), (''Q'', VBool False), (''ET'', VTime 0)]"

lemma standard_block_typed_witness:
  "\<exists>k c'. builtin_kind ''TP'' = Some k \<and> execute_builtin 0 k (block_ctx tp_vars) = (Inr (), c') \<and>
    typed_instance 0 (timer_block ''TP'' TypeId_TIME) c'"
proof -
  have "timer_block ''TP'' TypeId_TIME \<in> set standard_function_blocks"
    by (simp add: standard_function_blocks_def timer_types_def)
  moreover have "typed_instance 0 (timer_block ''TP'' TypeId_TIME) (block_ctx tp_vars)"
    by (simp add: typed_instance_def timer_block_def fb_def has_type_simps tp_vars_def ctx_simps
        state_bools_def ex_bool_eq)
  moreover have "TypeId_ANY_INT \<notin> (fst \<circ> snd) ` set (fbd_params (timer_block ''TP'' TypeId_TIME))"
    by (simp add: timer_block_def fb_def type_ids)
  ultimately show ?thesis
    using standard_block_typed [of "timer_block ''TP'' TypeId_TIME" 0 "block_ctx tp_vars"]
    by (auto simp: timer_block_def fb_def)
qed

end
