(* ===== verification/Retain_Codec.thy ===== *)
theory Retain_Codec
  imports Values
begin

text \<open>
  The binary format of retained values (\<open>retain.rs\<close>): the reader, the encoding and decoding of a
  value and of a snapshot. A snapshot is an \<open>IndexMap\<close>, a map in insertion order. The recursion of
  the decoder over nested arrays and structs takes fuel; every level reads a tag byte, so the
  number of bytes is enough.
\<close>

definition RETAIN_MAGIC :: "byte list" where
  "RETAIN_MAGIC = as_bytes ''STRN''"

definition RETAIN_VERSION :: u16 where
  "RETAIN_VERSION = 1"

section \<open>The reader\<close>

record retain_reader =
  rr_data :: "byte list"
  rr_offset :: nat

type_synonym 'a rread = "retain_reader \<Rightarrow> runtime_error + ('a \<times> retain_reader)"

definition rr_new :: "byte list \<Rightarrow> retain_reader" where
  "rr_new bytes = \<lparr>rr_data = bytes, rr_offset = 0\<rparr>"

definition rr_bytes :: "nat \<Rightarrow> byte list rread" where
  "rr_bytes len r =
     (let stop = rr_offset r + len in
      if length (rr_data r) < stop then Inl (RetainStore ''retain data truncated'')
      else Inr (take len (drop (rr_offset r) (rr_data r)), r\<lparr>rr_offset := stop\<rparr>))"

definition rr_u8 :: "u8 rread" where
  "rr_u8 r = rbind (rr_bytes 1 r) (\<lambda>(bytes, r). Inr (bytes ! 0, r))"

text \<open>
  \<open>read_u16\<close>, \<open>read_u32\<close> and \<open>read_u64\<close>; the signed readers cast the word and the float readers
  take its bits.
\<close>

definition rr_word :: "nat \<Rightarrow> 'a::len word rread" where
  "rr_word n r = rbind (rr_bytes n r) (\<lambda>(bytes, r). Inr (from_le bytes, r))"

definition rr_u16 :: "u16 rread" where "rr_u16 = rr_word 2"
definition rr_u32 :: "u32 rread" where "rr_u32 = rr_word 4"
definition rr_u64 :: "u64 rread" where "rr_u64 = rr_word 8"

definition rr_string :: "rstr rread" where
  "rr_string r =
     rbind (rr_u32 r) (\<lambda>(len, r).
     rbind (rr_bytes (unat len) r) (\<lambda>(bytes, r).
     rbind (ok_or (from_utf8 bytes) (RetainStore ''invalid utf-8 in retain'')) (\<lambda>s.
     Inr (s, r))))"

section \<open>Values\<close>

datatype value_tag =
    TagBool | TagSInt | TagInt | TagDInt | TagLInt
  | TagUSInt | TagUInt | TagUDInt | TagULInt | TagReal | TagLReal
  | TagByte | TagWord | TagDWord | TagLWord | TagTime | TagLTime | TagDate
  | TagLDate | TagTod | TagLTod | TagDt | TagLdt | TagString | TagWString
  | TagChar | TagWChar | TagArray | TagStruct | TagEnum | TagNull

fun tag_byte :: "value_tag \<Rightarrow> u8" where
  "tag_byte TagBool = 1"
| "tag_byte TagSInt = 2"
| "tag_byte TagInt = 3"
| "tag_byte TagDInt = 4"
| "tag_byte TagLInt = 5"
| "tag_byte TagUSInt = 6"
| "tag_byte TagUInt = 7"
| "tag_byte TagUDInt = 8"
| "tag_byte TagULInt = 9"
| "tag_byte TagReal = 10"
| "tag_byte TagLReal = 11"
| "tag_byte TagByte = 12"
| "tag_byte TagWord = 13"
| "tag_byte TagDWord = 14"
| "tag_byte TagLWord = 15"
| "tag_byte TagTime = 16"
| "tag_byte TagLTime = 17"
| "tag_byte TagDate = 18"
| "tag_byte TagLDate = 19"
| "tag_byte TagTod = 20"
| "tag_byte TagLTod = 21"
| "tag_byte TagDt = 22"
| "tag_byte TagLdt = 23"
| "tag_byte TagString = 24"
| "tag_byte TagWString = 25"
| "tag_byte TagChar = 26"
| "tag_byte TagWChar = 27"
| "tag_byte TagArray = 28"
| "tag_byte TagStruct = 29"
| "tag_byte TagEnum = 30"
| "tag_byte TagNull = 31"

definition encode_string :: "rstr \<Rightarrow> byte list" where
  "encode_string value = le32 (word_of_nat (length (as_bytes value))) @ as_bytes value"

definition encode_dimension :: "i64 \<times> i64 \<Rightarrow> byte list" where
  "encode_dimension dim = (case dim of (lower, upper) \<Rightarrow> le64 lower @ le64 upper)"

fun encode_value :: "rvalue \<Rightarrow> runtime_error + byte list"
  and encode_elements :: "rvalue list \<Rightarrow> runtime_error + byte list"
  and encode_fields :: "(rstr \<times> rvalue) list \<Rightarrow> runtime_error + byte list" where
  "encode_value (VBool v) = Inr (tag_byte TagBool # [of_bool v])"
| "encode_value (VSInt v) = Inr (tag_byte TagSInt # [v])"
| "encode_value (VInt v) = Inr (tag_byte TagInt # le16 v)"
| "encode_value (VDInt v) = Inr (tag_byte TagDInt # le32 v)"
| "encode_value (VLInt v) = Inr (tag_byte TagLInt # le64 v)"
| "encode_value (VUSInt v) = Inr (tag_byte TagUSInt # [v])"
| "encode_value (VUInt v) = Inr (tag_byte TagUInt # le16 v)"
| "encode_value (VUDInt v) = Inr (tag_byte TagUDInt # le32 v)"
| "encode_value (VULInt v) = Inr (tag_byte TagULInt # le64 v)"
| "encode_value (VReal v) = Inr (tag_byte TagReal # le32 v)"
| "encode_value (VLReal v) = Inr (tag_byte TagLReal # le64 v)"
| "encode_value (VByte v) = Inr (tag_byte TagByte # [v])"
| "encode_value (VWord v) = Inr (tag_byte TagWord # le16 v)"
| "encode_value (VDWord v) = Inr (tag_byte TagDWord # le32 v)"
| "encode_value (VLWord v) = Inr (tag_byte TagLWord # le64 v)"
| "encode_value (VTime v) = Inr (tag_byte TagTime # le64 v)"
| "encode_value (VLTime v) = Inr (tag_byte TagLTime # le64 v)"
| "encode_value (VDate v) = Inr (tag_byte TagDate # le64 v)"
| "encode_value (VLDate v) = Inr (tag_byte TagLDate # le64 v)"
| "encode_value (VTod v) = Inr (tag_byte TagTod # le64 v)"
| "encode_value (VLTod v) = Inr (tag_byte TagLTod # le64 v)"
| "encode_value (VDt v) = Inr (tag_byte TagDt # le64 v)"
| "encode_value (VLdt v) = Inr (tag_byte TagLdt # le64 v)"
| "encode_value (VString v) = Inr (tag_byte TagString # encode_string v)"
| "encode_value (VWString v) = Inr (tag_byte TagWString # encode_string v)"
| "encode_value (VChar v) = Inr (tag_byte TagChar # [v])"
| "encode_value (VWChar v) = Inr (tag_byte TagWChar # le16 v)"
| "encode_value (VArray elements dimensions) =
     rbind (encode_elements elements) (\<lambda>bytes.
     Inr (tag_byte TagArray # le32 (word_of_nat (length elements))
       @ le32 (word_of_nat (length dimensions)) @ concat (map encode_dimension dimensions) @ bytes))"
| "encode_value (VStruct type_name members) =
     rbind (encode_fields members) (\<lambda>bytes.
     Inr (tag_byte TagStruct # encode_string type_name
       @ le32 (word_of_nat (length members)) @ bytes))"
| "encode_value (VEnum type_name variant_name numeric_value) =
     Inr (tag_byte TagEnum # encode_string type_name @ encode_string variant_name
       @ le64 numeric_value)"
| "encode_value VNull = Inr [tag_byte TagNull]"
| "encode_value (VReference _) = Inl (RetainStore ''cannot retain reference/instance values'')"
| "encode_value (VInstance _) = Inl (RetainStore ''cannot retain reference/instance values'')"
| "encode_elements [] = Inr []"
| "encode_elements (element # rest) =
     rbind (encode_value element) (\<lambda>bytes.
     rbind (encode_elements rest) (\<lambda>others. Inr (bytes @ others)))"
| "encode_fields [] = Inr []"
| "encode_fields ((name, field) # rest) =
     rbind (encode_value field) (\<lambda>bytes.
     rbind (encode_fields rest) (\<lambda>others. Inr (encode_string name @ bytes @ others)))"

text \<open>
  The loops of the decoder: the dimensions, the elements, and the fields, which go into an
  \<open>IndexMap\<close> one by one.
\<close>

fun read_dims :: "nat \<Rightarrow> (i64 \<times> i64) list rread" where
  "read_dims 0 r = Inr ([], r)"
| "read_dims (Suc n) r =
     rbind (rr_u64 r) (\<lambda>(lower, r).
     rbind (rr_u64 r) (\<lambda>(upper, r).
     rbind (read_dims n r) (\<lambda>(dims, r). Inr ((lower, upper) # dims, r))))"

type_synonym 'a fread = "retain_reader \<Rightarrow> (runtime_error, 'a \<times> retain_reader) fueled"

fun read_elements :: "rvalue fread \<Rightarrow> nat \<Rightarrow> rvalue list fread" where
  "read_elements dec 0 r = Some (Inr ([], r))"
| "read_elements dec (Suc n) r =
     fbind (dec r) (\<lambda>(v, r).
     fbind (read_elements dec n r) (\<lambda>(vs, r). Some (Inr (v # vs, r))))"

fun read_fields ::
    "rvalue fread \<Rightarrow> nat \<Rightarrow> (rstr \<times> rvalue) list \<Rightarrow> (rstr \<times> rvalue) list fread" where
  "read_fields dec 0 m r = Some (Inr (m, r))"
| "read_fields dec (Suc n) m r =
     fbind (Some (rr_string r)) (\<lambda>(name, r).
     fbind (dec r) (\<lambda>(v, r).
     read_fields dec n (im_insert name v m) r))"

definition read_as :: "('a \<Rightarrow> rvalue) \<Rightarrow> 'a rread \<Rightarrow> rvalue fread" where
  "read_as con rd r = Some (rbind (rd r) (\<lambda>(x, r). Inr (con x, r)))"

fun decode_value :: "nat \<Rightarrow> rvalue fread" where
  "decode_value 0 r = None"
| "decode_value (Suc fuel) r =
     fbind (Some (rr_u8 r)) (\<lambda>(tag, r).
       if tag = tag_byte TagBool then read_as (\<lambda>b. VBool (b \<noteq> 0)) rr_u8 r
       else if tag = tag_byte TagSInt then read_as VSInt rr_u8 r
       else if tag = tag_byte TagInt then read_as VInt rr_u16 r
       else if tag = tag_byte TagDInt then read_as VDInt rr_u32 r
       else if tag = tag_byte TagLInt then read_as VLInt rr_u64 r
       else if tag = tag_byte TagUSInt then read_as VUSInt rr_u8 r
       else if tag = tag_byte TagUInt then read_as VUInt rr_u16 r
       else if tag = tag_byte TagUDInt then read_as VUDInt rr_u32 r
       else if tag = tag_byte TagULInt then read_as VULInt rr_u64 r
       else if tag = tag_byte TagReal then read_as VReal rr_u32 r
       else if tag = tag_byte TagLReal then read_as VLReal rr_u64 r
       else if tag = tag_byte TagByte then read_as VByte rr_u8 r
       else if tag = tag_byte TagWord then read_as VWord rr_u16 r
       else if tag = tag_byte TagDWord then read_as VDWord rr_u32 r
       else if tag = tag_byte TagLWord then read_as VLWord rr_u64 r
       else if tag = tag_byte TagTime then read_as VTime rr_u64 r
       else if tag = tag_byte TagLTime then read_as VLTime rr_u64 r
       else if tag = tag_byte TagDate then read_as VDate rr_u64 r
       else if tag = tag_byte TagLDate then read_as VLDate rr_u64 r
       else if tag = tag_byte TagTod then read_as VTod rr_u64 r
       else if tag = tag_byte TagLTod then read_as VLTod rr_u64 r
       else if tag = tag_byte TagDt then read_as VDt rr_u64 r
       else if tag = tag_byte TagLdt then read_as VLdt rr_u64 r
       else if tag = tag_byte TagString then read_as VString rr_string r
       else if tag = tag_byte TagWString then read_as VWString rr_string r
       else if tag = tag_byte TagChar then read_as VChar rr_u8 r
       else if tag = tag_byte TagWChar then read_as VWChar rr_u16 r
       else if tag = tag_byte TagArray then
         fbind (Some (rr_u32 r)) (\<lambda>(len, r).
         fbind (Some (rr_u32 r)) (\<lambda>(dims, r).
         fbind (Some (read_dims (unat dims) r)) (\<lambda>(dimensions, r).
         fbind (read_elements (decode_value fuel) (unat len) r) (\<lambda>(elements, r).
         Some (Inr (VArray elements dimensions, r))))))
       else if tag = tag_byte TagStruct then
         fbind (Some (rr_string r)) (\<lambda>(type_name, r).
         fbind (Some (rr_u32 r)) (\<lambda>(count, r).
         fbind (read_fields (decode_value fuel) (unat count) [] r) (\<lambda>(members, r).
         Some (Inr (VStruct type_name members, r)))))
       else if tag = tag_byte TagEnum then
         fbind (Some (rr_string r)) (\<lambda>(type_name, r).
         fbind (Some (rr_string r)) (\<lambda>(variant_name, r).
         fbind (Some (rr_u64 r)) (\<lambda>(numeric_value, r).
         Some (Inr (VEnum type_name variant_name numeric_value, r)))))
       else if tag = tag_byte TagNull then Some (Inr (VNull, r))
       else Some (Inl (RetainStore ''unknown retain value tag'')))"

section \<open>Snapshots\<close>

type_synonym retain_snapshot = "(rstr \<times> rvalue) list"

definition encode_snapshot :: "retain_snapshot \<Rightarrow> runtime_error + byte list" where
  "encode_snapshot snapshot =
     rbind (encode_fields snapshot) (\<lambda>bytes.
     Inr (RETAIN_MAGIC @ le16 RETAIN_VERSION @ le32 (word_of_nat (length snapshot)) @ bytes))"

text \<open>The decimal digits of a number, as \<open>format!\<close> prints it.\<close>

fun decimal :: "nat \<Rightarrow> rstr" where
  "decimal n =
     (if n < 10 then [char_of (48 + n)] else decimal (n div 10) @ [char_of (48 + n mod 10)])"

declare decimal.simps [simp del]

definition decode_snapshot ::
    "nat \<Rightarrow> byte list \<Rightarrow> (runtime_error, retain_snapshot) fueled" where
  "decode_snapshot fuel bytes =
     fbind (Some (rr_bytes 4 (rr_new bytes))) (\<lambda>(magic, r).
     fbind (Some (guard (magic = RETAIN_MAGIC) (RetainStore ''invalid retain magic''))) (\<lambda>_.
     fbind (Some (rr_u16 r)) (\<lambda>(version, r).
     fbind (Some (guard (version = RETAIN_VERSION) (RetainStore (''unsupported retain version '' @ decimal (unat version))))) (\<lambda>_.
     fbind (Some (rr_u32 r)) (\<lambda>(count, r).
     fbind (read_fields (decode_value fuel) (unat count) [] r) (\<lambda>(values, r).
     Some (Inr values)))))))"

section \<open>What can be retained\<close>

text \<open>\<open>value_is_retainable\<close> of \<open>runtime/restart.rs\<close>: no reference or instance at any depth.\<close>

fun value_is_retainable :: "rvalue \<Rightarrow> bool" where
  "value_is_retainable (VArray elements _) = list_all value_is_retainable elements"
| "value_is_retainable (VStruct _ members) = list_all (\<lambda>(_, v). value_is_retainable v) members"
| "value_is_retainable (VReference _) = False"
| "value_is_retainable (VInstance _) = False"
| "value_is_retainable _ = True"

lemma encode_iff_retainable:
  "(\<exists>bytes. encode_value v = Inr bytes) \<longleftrightarrow> value_is_retainable v"
  "(\<exists>bytes. encode_elements vs = Inr bytes) \<longleftrightarrow> list_all value_is_retainable vs"
  "(\<exists>bytes. encode_fields fs = Inr bytes) \<longleftrightarrow> list_all (\<lambda>(_, v). value_is_retainable v) fs"
  by (induction v and vs and fs rule: encode_value_encode_elements_encode_fields.induct)
    (auto simp: rbind_eq_Inr)

text \<open>The invariants of Rust's types and the lengths that a \<open>u32\<close> can count.\<close>

definition wf_rstr :: "rstr \<Rightarrow> bool" where
  "wf_rstr s \<longleftrightarrow> wf_str s \<and> length s < 2 ^ 32"

fun wf_value :: "rvalue \<Rightarrow> bool" where
  "wf_value (VString s) = wf_rstr s"
| "wf_value (VWString s) = wf_rstr s"
| "wf_value (VArray elements dims) \<longleftrightarrow>
     length elements < 2 ^ 32 \<and> length dims < 2 ^ 32 \<and> list_all wf_value elements"
| "wf_value (VStruct name members) \<longleftrightarrow>
     wf_rstr name \<and> length members < 2 ^ 32 \<and> im_ok members \<and>
     list_all (\<lambda>(n, v). wf_rstr n \<and> wf_value v) members"
| "wf_value (VEnum name variant _) \<longleftrightarrow> wf_rstr name \<and> wf_rstr variant"
| "wf_value _ = True"

section \<open>Reading what was written\<close>

definition rat :: "byte list \<Rightarrow> byte list \<Rightarrow> retain_reader" where
  "rat pre rest = \<lparr>rr_data = pre @ rest, rr_offset = length pre\<rparr>"

lemma rr_new_rat: "rr_new bytes = rat [] bytes"
  by (simp add: rr_new_def rat_def)

lemma rr_bytes_rat:
  "length bs = n \<Longrightarrow> rr_bytes n (rat pre (bs @ ys)) = Inr (bs, rat (pre @ bs) ys)"
  by (simp add: rr_bytes_def rat_def Let_def)

lemma rr_rat [simp]:
  "rr_u8 (rat pre (b # ys)) = Inr (b, rat (pre @ [b]) ys)"
  "rr_u16 (rat pre (le16 w @ ys)) = Inr (w, rat (pre @ le16 w) ys)"
  "rr_u32 (rat pre (le32 x @ ys)) = Inr (x, rat (pre @ le32 x) ys)"
  "rr_u64 (rat pre (le64 y @ ys)) = Inr (y, rat (pre @ le64 y) ys)"
  using rr_bytes_rat [of "[b]" 1 pre ys]
  by (simp_all add: rr_u8_def rr_u16_def rr_u32_def rr_u64_def rr_word_def rr_bytes_rat)

lemma rr_unat_len: "n < 2 ^ 32 \<Longrightarrow> unat (word_of_nat n :: u32) = n"
  by (simp add: unat_of_nat)

lemma rr_string_rat [simp]:
  "wf_rstr s \<Longrightarrow>
    rr_string (rat pre (encode_string s @ ys)) = Inr (s, rat (pre @ encode_string s) ys)"
  by (simp add: wf_rstr_def rr_string_def encode_string_def rr_unat_len rr_bytes_rat
      from_utf8_as_bytes)

lemma read_dims_rat [simp]:
  "read_dims (length dims) (rat pre (concat (map encode_dimension dims) @ ys)) =
    Inr (dims, rat (pre @ concat (map encode_dimension dims)) ys)"
  by (induction dims arbitrary: pre) (auto simp: encode_dimension_def)

lemma read_as_rat [simp]:
  "rd (rat pre bytes) = Inr (x, r) \<Longrightarrow> read_as con rd (rat pre bytes) = Some (Inr (con x, r))"
  by (simp add: read_as_def)

definition decodes :: "nat \<Rightarrow> byte list \<Rightarrow> rvalue \<Rightarrow> bool" where
  "decodes fuel bytes v \<longleftrightarrow>
     (\<forall>pre ys. decode_value fuel (rat pre (bytes @ ys)) = Some (Inr (v, rat (pre @ bytes) ys)))"

lemma decodes_rat:
  "decodes fuel bytes v \<Longrightarrow>
    decode_value fuel (rat pre (bytes @ ys)) = Some (Inr (v, rat (pre @ bytes) ys))"
  by (simp add: decodes_def)

lemma of_bool_byte [simp]: "(of_bool b :: u8) \<noteq> 0 \<longleftrightarrow> b"
  by simp

lemma decode_tag:
  "(\<And>pre ys. decode_value (Suc fuel) (rat pre (tag # bytes @ ys)) =
      Some (Inr (v, rat (pre @ tag # bytes) ys))) \<Longrightarrow> decodes (Suc fuel) (tag # bytes) v"
  by (simp add: decodes_def)

lemma encode_nonempty: "encode_value v = Inr bytes \<Longrightarrow> bytes \<noteq> []"
  by (cases v) (auto simp: rbind_eq_Inr)

lemma encode_fuel: "encode_value v = Inr bytes \<Longrightarrow> length bytes \<le> fuel \<Longrightarrow> \<exists>f. fuel = Suc f"
  using encode_nonempty by (cases fuel) auto

lemma im_insert_new: "k \<notin> fst ` set m \<Longrightarrow> im_insert k v m = m @ [(k, v)]"
  by (induction m) (auto simp: im_insert_def)

definition elements_round :: "nat \<Rightarrow> rvalue list \<Rightarrow> byte list \<Rightarrow> bool" where
  "elements_round fuel vs bytes \<longleftrightarrow>
     (\<forall>pre ys. read_elements (decode_value fuel) (length vs) (rat pre (bytes @ ys)) =
        Some (Inr (vs, rat (pre @ bytes) ys)))"

definition fields_round :: "nat \<Rightarrow> (rstr \<times> rvalue) list \<Rightarrow> byte list \<Rightarrow> bool" where
  "fields_round fuel fs bytes \<longleftrightarrow>
     (\<forall>m pre ys. distinct (map fst (m @ fs)) \<longrightarrow>
        read_fields (decode_value fuel) (length fs) m (rat pre (bytes @ ys)) =
          Some (Inr (m @ fs, rat (pre @ bytes) ys)))"

lemma array_round:
  assumes "elements_round fuel elements bytes" and "length elements < 2 ^ 32" and "length dims < 2 ^ 32"
  shows "decodes (Suc fuel) (tag_byte TagArray # le32 (word_of_nat (length elements))
    @ le32 (word_of_nat (length dims)) @ concat (map encode_dimension dims) @ bytes)
    (VArray elements dims)"
  using assms by (simp add: decodes_def elements_round_def rr_unat_len)

lemma struct_round:
  assumes "fields_round fuel members bytes" and "length members < 2 ^ 32" and "wf_rstr name"
    and "im_ok members"
  shows "decodes (Suc fuel) (tag_byte TagStruct # encode_string name
    @ le32 (word_of_nat (length members)) @ bytes) (VStruct name members)"
  using assms by (simp add: decodes_def fields_round_def rr_unat_len im_ok_def)

lemma elements_round_Cons:
  assumes "decodes fuel bytes v" and "elements_round fuel vs others"
  shows "elements_round fuel (v # vs) (bytes @ others)"
  using assms by (simp add: elements_round_def decodes_rat)

lemma fields_round_Cons:
  assumes "decodes fuel bytes v" and "fields_round fuel fs others" and "wf_rstr name"
  shows "fields_round fuel ((name, v) # fs) (encode_string name @ bytes @ others)"
  unfolding fields_round_def
proof (intro allI impI)
  fix m pre ys
  assume distinct: "distinct (map fst (m @ (name, v) # fs))"
  then have "im_insert name v m = m @ [(name, v)]"
    by (intro im_insert_new) auto
  moreover have "distinct (map fst ((m @ [(name, v)]) @ fs))"
    using distinct by simp
  ultimately show "read_fields (decode_value fuel) (length ((name, v) # fs)) m
      (rat pre ((encode_string name @ bytes @ others) @ ys)) =
      Some (Inr (m @ (name, v) # fs, rat (pre @ encode_string name @ bytes @ others) ys))"
    using assms by (simp add: decodes_rat fields_round_def)
qed

lemma encode_decode:
  "encode_value v = Inr bytes \<Longrightarrow> wf_value v \<Longrightarrow> length bytes \<le> fuel \<Longrightarrow> decodes fuel bytes v"
  "encode_elements vs = Inr bytes \<Longrightarrow> list_all wf_value vs \<Longrightarrow> length bytes \<le> fuel \<Longrightarrow>
    elements_round fuel vs bytes"
  "encode_fields fs = Inr bytes \<Longrightarrow> list_all (\<lambda>(n, v). wf_rstr n \<and> wf_value v) fs \<Longrightarrow>
    length bytes \<le> fuel \<Longrightarrow> fields_round fuel fs bytes"
proof (induction v and vs and fs arbitrary: bytes fuel and bytes fuel and bytes fuel
    rule: encode_value_encode_elements_encode_fields.induct)
  case (28 elements dims)
  then obtain b where b: "encode_elements elements = Inr b"
    by (auto simp: rbind_eq_Inr)
  obtain f where f: "fuel = Suc f"
    using encode_fuel 28 by blast
  have "elements_round f elements b"
    using 28 b f by (intro "28.IH") auto
  then show ?case
    using 28 b f by (auto intro: array_round simp del: tag_byte.simps decode_value.simps)
next
  case (29 name members)
  then obtain b where b: "encode_fields members = Inr b"
    by (auto simp: rbind_eq_Inr)
  obtain f where f: "fuel = Suc f"
    using encode_fuel 29 by blast
  have "fields_round f members b"
    using 29 b f by (intro "29.IH") auto
  then show ?case
    using 29 b f by (auto intro: struct_round simp del: tag_byte.simps decode_value.simps)
next
  case (35 element rest)
  then show ?case
    by (auto simp: rbind_eq_Inr intro!: elements_round_Cons)
next
  case (37 name field rest)
  then show ?case
    by (auto simp: rbind_eq_Inr intro!: fields_round_Cons)
qed ((case_tac fuel; auto simp: decodes_def elements_round_def fields_round_def)+)

section \<open>Snapshots round trip\<close>

definition wf_snapshot :: "retain_snapshot \<Rightarrow> bool" where
  "wf_snapshot s \<longleftrightarrow>
     length s < 2 ^ 32 \<and> im_ok s \<and> list_all (\<lambda>(n, v). wf_rstr n \<and> wf_value v) s"

definition retainable_snapshot :: "retain_snapshot \<Rightarrow> bool" where
  "retainable_snapshot s \<longleftrightarrow> list_all (\<lambda>(_, v). value_is_retainable v) s"

lemma encode_snapshot_iff: "(\<exists>bytes. encode_snapshot s = Inr bytes) \<longleftrightarrow> retainable_snapshot s"
  using encode_iff_retainable(3) [of s]
  by (auto simp: encode_snapshot_def rbind_eq_Inr retainable_snapshot_def)

lemma length_magic [simp]: "length RETAIN_MAGIC = 4"
  by (simp add: RETAIN_MAGIC_def)

lemma snapshot_round:
  assumes "encode_snapshot s = Inr bytes" and "wf_snapshot s" and "length bytes \<le> fuel"
  shows "decode_snapshot fuel bytes = Some (Inr s)"
proof -
  obtain b where b: "encode_fields s = Inr b"
    and bytes: "bytes = RETAIN_MAGIC @ le16 RETAIN_VERSION @ le32 (word_of_nat (length s)) @ b"
    using assms(1) by (auto simp: encode_snapshot_def rbind_eq_Inr)
  have "fields_round fuel s b"
    using assms b bytes by (intro encode_decode) (auto simp: wf_snapshot_def)
  then have "read_fields (decode_value fuel) (length s) [] (rat pre (b @ [])) =
      Some (Inr ([] @ s, rat (pre @ b) []))" for pre
    using assms(2) unfolding fields_round_def wf_snapshot_def im_ok_def by (metis append_Nil)
  then show ?thesis
    using assms(2) rr_bytes_rat [of RETAIN_MAGIC 4 "[]"]
    by (simp add: decode_snapshot_def bytes rr_new_rat rr_unat_len wf_snapshot_def)
qed

section \<open>The decoder returns\<close>

text \<open>
  \<open>rr_left\<close> is what the reader has before it. A read that succeeds leaves no more than there was,
  and a value at least one byte less; so the fuel is not used up when it exceeds the bytes.
\<close>

definition rr_left :: "retain_reader \<Rightarrow> nat" where
  "rr_left r = length (rr_data r) - rr_offset r"

definition settles :: "nat \<Rightarrow> (runtime_error, 'a \<times> retain_reader) fueled \<Rightarrow> bool" where
  "settles n m \<longleftrightarrow> (\<exists>y. m = Some y) \<and> (\<forall>x r. m = Some (Inr (x, r)) \<longrightarrow> rr_left r \<le> n)"

definition rr_shrinks :: "'a rread \<Rightarrow> bool" where
  "rr_shrinks rd \<longleftrightarrow> (\<forall>r x r'. rd r = Inr (x, r') \<longrightarrow> rr_left r' \<le> rr_left r)"

named_theorems settle_intros \<open>composition rules for \<open>settles\<close> and \<open>rr_shrinks\<close>\<close>

lemma settles_ret [settle_intros]: "rr_left r \<le> n \<Longrightarrow> settles n (Some (Inr (x, r)))"
  by (simp add: settles_def)

lemma settles_err [settle_intros]: "settles n (Some (Inl e))"
  by (simp add: settles_def)

lemma settles_bind:
  assumes "settles n m" and "\<And>x r. rr_left r \<le> n \<Longrightarrow> settles k (f (x, r))"
  shows "settles k (fbind m f)"
  using assms unfolding settles_def fbind_def
  by (auto split: option.splits sum.splits)

lemma settles_read:
  assumes "rr_shrinks rd" and "rr_left r \<le> n"
  shows "settles n (Some (rd r))"
  using assms by (fastforce simp: settles_def rr_shrinks_def)

lemma rr_shrinks_bytes: "rr_shrinks (rr_bytes n)"
  by (auto simp: rr_shrinks_def rr_bytes_def rr_left_def Let_def split: if_splits)

lemma rr_shrinks_word [settle_intros]: "rr_shrinks rr_u8" "rr_shrinks rr_u16" "rr_shrinks rr_u32" "rr_shrinks rr_u64"
  using rr_shrinks_bytes
  by (fastforce simp: rr_shrinks_def rr_u8_def rr_u16_def rr_u32_def rr_u64_def rr_word_def
      rbind_eq_Inr)+

lemma u8_less: "rr_u8 r = Inr (b, r') \<Longrightarrow> rr_left r' < rr_left r"
  by (auto simp: rr_u8_def rbind_eq_Inr rr_bytes_def rr_left_def Let_def split: if_splits)

lemma rr_shrinks_ret: "rr_shrinks (\<lambda>r. Inr (x, r))" "rr_shrinks (\<lambda>r. Inl e)"
  by (simp_all add: rr_shrinks_def)

lemma rr_shrinks_bind:
  assumes "rr_shrinks rd" and "\<And>x. rr_shrinks (f x)"
  shows "rr_shrinks (\<lambda>r. rbind (rd r) (\<lambda>(x, r). f x r))"
  unfolding rr_shrinks_def
proof (intro allI impI)
  fix r x r'
  assume "rbind (rd r) (\<lambda>(x, r). f x r) = Inr (x, r')"
  then obtain y s where "rd r = Inr (y, s)" and "f y s = Inr (x, r')"
    by (auto simp: rbind_eq_Inr)
  then show "rr_left r' \<le> rr_left r"
    using assms unfolding rr_shrinks_def by (meson order_trans)
qed

lemma rr_shrinks_check: "(\<And>x. rr_shrinks (f x)) \<Longrightarrow> rr_shrinks (\<lambda>r. rbind m (\<lambda>x. f x r))"
  by (cases m) (simp_all add: rr_shrinks_ret)

lemma rr_shrinks_string [settle_intros]: "rr_shrinks rr_string"
  unfolding rr_string_def [abs_def]
  by (intro rr_shrinks_bind rr_shrinks_check rr_shrinks_word rr_shrinks_bytes rr_shrinks_ret)

lemma rr_shrinks_dims [settle_intros]: "rr_shrinks (read_dims n)"
proof (induction n)
  case 0
  have "read_dims 0 = (\<lambda>r. Inr ([], r))"
    by (simp add: fun_eq_iff)
  then show ?case
    by (simp add: rr_shrinks_ret)
next
  case (Suc n)
  have "read_dims (Suc n) = (\<lambda>r. rbind (rr_u64 r) (\<lambda>(lower, r). rbind (rr_u64 r) (\<lambda>(upper, r).
      rbind (read_dims n r) (\<lambda>(dims, r). Inr ((lower, upper) # dims, r)))))"
    by (simp add: fun_eq_iff)
  then show ?case
    using Suc by (simp only:) (intro rr_shrinks_bind rr_shrinks_word rr_shrinks_ret)
qed

lemma settles_read_as [settle_intros]: "rr_shrinks rd \<Longrightarrow> rr_left r \<le> n \<Longrightarrow> settles n (read_as con rd r)"
  by (fastforce simp: settles_def rr_shrinks_def read_as_def rbind_eq_Inr)

lemma settles_elements:
  assumes "\<And>r. rr_left r \<le> n \<Longrightarrow> settles n (dec r)" and "rr_left r \<le> n"
  shows "settles n (read_elements dec k r)"
  using assms(2) by (induction k arbitrary: r) (auto intro!: settle_intros settles_bind assms(1))

lemma settles_fields:
  assumes "\<And>r. rr_left r \<le> n \<Longrightarrow> settles n (dec r)" and "rr_left r \<le> n"
  shows "settles n (read_fields dec k m r)"
  using assms(2)
  by (induction k arbitrary: r m) (auto intro!: settle_intros settles_bind settles_read assms(1))

text \<open>
  A decoder run with the fuel \<open>f\<close> settles on every reader that has fewer than \<open>f\<close> bytes left.
\<close>

lemma settles_branch:
  "(c \<Longrightarrow> settles n m) \<Longrightarrow> (\<not> c \<Longrightarrow> settles n m') \<Longrightarrow> settles n (if c then m else m')"
  by simp

lemma settles_weaken: "settles n m \<Longrightarrow> n \<le> k \<Longrightarrow> settles k m"
  by (fastforce simp: settles_def)

lemma decode_settles: "rr_left r < fuel \<Longrightarrow> settles (rr_left r) (decode_value fuel r)"
proof (induction fuel arbitrary: r)
  case (Suc fuel)
  have rec: "settles n (decode_value fuel s)" if "rr_left s \<le> n" and "n < fuel" for s n
    using Suc.IH [of s] that settles_weaken by fastforce
  show ?case
  proof (cases "rr_u8 r")
    case (Inr p)
    obtain tag s where p: "p = (tag, s)"
      by fastforce
    then have less: "rr_left s < rr_left r"
      using u8_less Inr by simp
    then have "settles (rr_left s) (decode_value fuel t)" if "rr_left t \<le> rr_left s" for t
      using rec [of t "rr_left s"] Suc.prems that by simp
    note inner = settles_elements [where n = "rr_left s", OF this]
      settles_fields [where n = "rr_left s", OF this]
    show ?thesis
      unfolding decode_value.simps Inr p fbind_simps prod.case
      by (rule settles_weaken [of "rr_left s"])
        (intro settles_branch settle_intros settles_bind [where n = "rr_left s"]
          settles_read [where n = "rr_left s"] inner order_refl | simp add: less less_imp_le)+
  qed (simp add: settles_err)
qed simp

lemma rr_left_new [simp]: "rr_left (rr_new bytes) = length bytes"
  by (simp add: rr_left_def rr_new_def)

lemma settles_returns: "settles n m \<Longrightarrow> \<exists>y. m = Some y"
  by (simp add: settles_def)

lemma bind_returns:
  assumes "settles n m" and "\<And>x r. rr_left r \<le> n \<Longrightarrow> \<exists>y. f (x, r) = Some y"
  shows "\<exists>y. fbind m f = Some y"
  using assms unfolding settles_def fbind_def
  by (auto split: option.splits sum.splits)

lemma check_returns:
  "(\<And>x. \<exists>y. f x = Some y) \<Longrightarrow> \<exists>y. fbind (Some (guard c e)) f = Some y"
  by (cases c) auto

lemma decode_snapshot_returns:
  assumes "length bytes < fuel"
  shows "\<exists>y. decode_snapshot fuel bytes = Some y"
proof -
  have fields: "settles (length bytes) (read_fields (decode_value fuel) k m r)"
    if left: "rr_left r \<le> length bytes" for k m r
  proof (rule settles_fields [OF _ left])
    fix s
    assume "rr_left s \<le> length bytes"
    then show "settles (length bytes) (decode_value fuel s)"
      using decode_settles [of s fuel] assms by (auto elim: settles_weaken)
  qed
  have read: "settles (length bytes) (Some (rd r))"
    if "rr_shrinks rd" and "rr_left r \<le> length bytes" for rd :: "'x rread" and r
    using that by (rule settles_read)
  show ?thesis
    unfolding decode_snapshot_def
    by (intro bind_returns [where n = "length bytes"] check_returns read fields rr_shrinks_bytes
        rr_shrinks_word | simp)+
qed

section \<open>More fuel gives the same\<close>

lemma fuel_le_elements:
  "(\<And>r. fuel_le (dec r) (dec' r)) \<Longrightarrow> fuel_le (read_elements dec k r) (read_elements dec' k r)"
  by (induction k arbitrary: r) (auto intro!: fuel_intros)

lemma fuel_le_fields:
  "(\<And>r. fuel_le (dec r) (dec' r)) \<Longrightarrow> fuel_le (read_fields dec k m r) (read_fields dec' k m r)"
  by (induction k arbitrary: m r) (auto intro!: fuel_intros)

lemma fuel_le_branch: "fuel_le m n \<Longrightarrow> fuel_le m' n' \<Longrightarrow> fuel_le (if c then m else m') (if c then n else n')"
  by simp

lemma decode_more_fuel: "f \<le> f' \<Longrightarrow> fuel_le (decode_value f r) (decode_value f' r)"
proof (induction f arbitrary: f' r)
  case (Suc f)
  then obtain g where "f' = Suc g" and "f \<le> g"
    by (metis Suc_le_D Suc_le_mono)
  then show ?case
    using Suc.IH [of g] unfolding \<open>f' = Suc g\<close> decode_value.simps
    by (intro fuel_intros fuel_le_branch fuel_le_elements fuel_le_fields) blast+
qed (simp add: fuel_intros)

lemma decode_snapshot_more_fuel:
  "f \<le> f' \<Longrightarrow> fuel_le (decode_snapshot f bytes) (decode_snapshot f' bytes)"
  unfolding decode_snapshot_def by (intro fuel_intros fuel_le_fields decode_more_fuel)

section \<open>What is decoded can be retained\<close>

definition yields :: "('a \<Rightarrow> bool) \<Rightarrow> (runtime_error, 'a \<times> retain_reader) fueled \<Rightarrow> bool" where
  "yields P m \<longleftrightarrow> (\<forall>x r. m = Some (Inr (x, r)) \<longrightarrow> P x)"

lemma yields_bind:
  assumes "yields Q m" and "\<And>x r. Q x \<Longrightarrow> yields P (f (x, r))"
  shows "yields P (fbind m f)"
  using assms by (fastforce simp: yields_def fbind_def split: option.splits sum.splits)

lemma yields_any: "yields (\<lambda>_. True) m"
  by (simp add: yields_def)

lemma yields_ret: "P x \<Longrightarrow> yields P (Some (Inr (x, r)))" "yields P (Some (Inl e))"
  by (simp_all add: yields_def)

lemma yields_read_as: "(\<And>x. P (con x)) \<Longrightarrow> yields P (read_as con rd r)"
  by (auto simp: yields_def read_as_def rbind_eq_Inr)

lemma yields_elements:
  "(\<And>r. yields P (dec r)) \<Longrightarrow> yields (list_all P) (read_elements dec k r)"
  by (induction k arbitrary: r) (auto intro!: yields_ret yields_bind)

lemma list_all_insert:
  "list_all (\<lambda>(_, v). P v) m \<Longrightarrow> P v \<Longrightarrow> list_all (\<lambda>(_, v). P v) (im_insert k v m)"
  by (induction m) (auto simp: im_insert_def)

lemma yields_fields:
  assumes "\<And>r. yields P (dec r)" and "list_all (\<lambda>(_, v). P v) m"
  shows "yields (list_all (\<lambda>(_, v). P v)) (read_fields dec k m r)"
  using assms(2)
proof (induction k arbitrary: m r)
  case (Suc k)
  show ?case
    unfolding read_fields.simps
    by (rule yields_bind [OF yields_any], unfold prod.case, rule yields_bind [OF assms(1)])
      (simp add: Suc list_all_insert)
qed (simp add: yields_ret)

lemma yields_branch: "yields P m \<Longrightarrow> yields P m' \<Longrightarrow> yields P (if c then m else m')"
  by simp

lemma decode_retainable: "yields value_is_retainable (decode_value fuel r)"
proof (induction fuel arbitrary: r)
  case (Suc fuel)
  have array: "yields value_is_retainable (fbind (read_elements (decode_value fuel) k r)
      (\<lambda>(vs, r). Some (Inr (VArray vs dims, r))))" for k dims r
    by (rule yields_bind [OF yields_elements [OF Suc.IH]]) (simp add: yields_ret)
  have struct: "yields value_is_retainable (fbind (read_fields (decode_value fuel) k [] r)
      (\<lambda>(fs, r). Some (Inr (VStruct name fs, r))))" for k name r
    by (rule yields_bind [OF yields_fields [OF Suc.IH]]) (simp_all add: yields_ret)
  show ?case
    unfolding decode_value.simps
    by (intro array struct yields_branch yields_read_as yields_ret yields_bind [OF yields_any]
        | simp only: prod.case | simp)+
qed (simp add: yields_def)

end
