(* ===== verification/Retain.thy ===== *)
theory Retain
  imports Retain_Codec Memory_Laws
begin

text \<open>
  Retained variables across restarts (\<open>retain.rs\<close>, \<open>runtime/retain_store.rs\<close> and the snapshot
  part of \<open>runtime/restart.rs\<close>): the manager with its save cadence, the store in a file, and what
  of the globals is saved and restored. The trait \<open>RetainStore\<close> is a pair of functions on the state
  of the store. The equality of snapshots is the derived \<open>PartialEq\<close> of an \<open>IndexMap\<close> with
  floating-point numbers in it, an argument \<open>same\<close> of the model.
\<close>

section \<open>The manager\<close>

record 'st retain_manager =
  rm_store :: "'st option"
  rm_save_interval :: "duration option"
  rm_last_save :: duration
  rm_dirty :: bool
  rm_last_snapshot :: "retain_snapshot option"

definition retain_manager_default :: "'st retain_manager" where
  "retain_manager_default =
     \<lparr>rm_store = None, rm_save_interval = None, rm_last_save = 0, rm_dirty = False,
      rm_last_snapshot = None\<rparr>"

definition rm_configure ::
    "'st option \<Rightarrow> duration option \<Rightarrow> duration \<Rightarrow> 'st retain_manager \<Rightarrow> 'st retain_manager" where
  "rm_configure store save_interval now m =
     m\<lparr>rm_store := store, rm_save_interval := save_interval, rm_last_save := now,
       rm_dirty := False, rm_last_snapshot := None\<rparr>"

definition rm_set_save_interval ::
    "duration option \<Rightarrow> 'st retain_manager \<Rightarrow> 'st retain_manager" where
  "rm_set_save_interval interval m = m\<lparr>rm_save_interval := interval\<rparr>"

definition rm_mark_dirty :: "'st retain_manager \<Rightarrow> 'st retain_manager" where
  "rm_mark_dirty m = m\<lparr>rm_dirty := True\<rparr>"

definition rm_has_store :: "'st retain_manager \<Rightarrow> bool" where
  "rm_has_store m \<longleftrightarrow> rm_store m \<noteq> None"

definition rm_load ::
    "('st \<Rightarrow> runtime_error + retain_snapshot) \<Rightarrow> 'st retain_manager
      \<Rightarrow> runtime_error + retain_snapshot" where
  "rm_load load m = (case rm_store m of None \<Rightarrow> Inr [] | Some st \<Rightarrow> load st)"

text \<open>\<open>i64::saturating_sub\<close>.\<close>

definition saturating_sub :: "i64 \<Rightarrow> i64 \<Rightarrow> i64" where
  "saturating_sub a b =
     (let d = sint a - sint b in
      word_of_int (max (signed_min TYPE(64)) (min (signed_max TYPE(64)) d)))"

lemma sint_saturating_sub:
  "sint (saturating_sub a b) = max (signed_min TYPE(64)) (min (signed_max TYPE(64)) (sint a - sint b))"
  by (simp add: saturating_sub_def) (rule sint_of_int_id, auto simp: signed_min_def signed_max_def)

definition rm_should_save :: "'st retain_manager \<Rightarrow> duration \<Rightarrow> bool" where
  "rm_should_save m now =
     (case rm_save_interval m of
        None \<Rightarrow> False
      | Some interval \<Rightarrow>
          if \<not> rm_dirty m then False
          else if sint interval \<le> 0 then True
          else sint (saturating_sub now (rm_last_save m)) \<ge> sint interval)"

definition rm_save_snapshot ::
    "(retain_snapshot \<Rightarrow> retain_snapshot \<Rightarrow> bool)
      \<Rightarrow> ('st \<Rightarrow> retain_snapshot \<Rightarrow> (runtime_error + unit) \<times> 'st)
      \<Rightarrow> retain_snapshot \<Rightarrow> duration \<Rightarrow> 'st retain_manager
      \<Rightarrow> (runtime_error + unit) \<times> 'st retain_manager" where
  "rm_save_snapshot same store snapshot now m =
     (case rm_store m of
        None \<Rightarrow> (Inr (), m)
      | Some st \<Rightarrow>
          if (case rm_last_snapshot m of None \<Rightarrow> False | Some s \<Rightarrow> same s snapshot)
          then (Inr (), m\<lparr>rm_dirty := False, rm_last_save := now\<rparr>)
          else
            (case store st snapshot of
               (Inl e, st) \<Rightarrow> (Inl e, m\<lparr>rm_store := Some st\<rparr>)
             | (Inr _, st) \<Rightarrow>
                 (Inr (), m\<lparr>rm_store := Some st, rm_last_snapshot := Some snapshot,
                   rm_dirty := False, rm_last_save := now\<rparr>)))"

section \<open>The store in a file\<close>

text \<open>
  The content of the file at the path, \<^const>\<open>None\<close> when there is no file, and what the operating
  system does to a call: it succeeds, the file cannot be created, or the write stops after a number
  of bytes. \<open>File::create\<close> truncates the file. The error texts of the system are part of the outcome.
\<close>

record file_store =
  fs_file :: "byte list option"

datatype io_outcome = IoOk | CreateFails rstr | WriteFails nat rstr

datatype read_outcome = ReadOk | ReadFails rstr

definition fs_write_bytes ::
    "io_outcome \<Rightarrow> byte list \<Rightarrow> file_store \<Rightarrow> (runtime_error + unit) \<times> file_store" where
  "fs_write_bytes io bytes fs =
     (case io of
        IoOk \<Rightarrow> (Inr (), fs\<lparr>fs_file := Some bytes\<rparr>)
      | CreateFails msg \<Rightarrow> (Inl (RetainStore msg), fs)
      | WriteFails n msg \<Rightarrow> (Inl (RetainStore msg), fs\<lparr>fs_file := Some (take n bytes)\<rparr>))"

definition fs_store ::
    "io_outcome \<Rightarrow> file_store \<Rightarrow> retain_snapshot \<Rightarrow> (runtime_error + unit) \<times> file_store" where
  "fs_store io fs snapshot =
     (case encode_snapshot snapshot of
        Inl e \<Rightarrow> (Inl e, fs)
      | Inr bytes \<Rightarrow> fs_write_bytes io bytes fs)"

definition decode_all :: "byte list \<Rightarrow> runtime_error + retain_snapshot" where
  "decode_all bytes = the (decode_snapshot (Suc (length bytes)) bytes)"

definition fs_load :: "read_outcome \<Rightarrow> file_store \<Rightarrow> runtime_error + retain_snapshot" where
  "fs_load io fs =
     (case fs_file fs of
        None \<Rightarrow> Inr []
      | Some bytes \<Rightarrow>
          (case io of ReadFails msg \<Rightarrow> Inl (RetainStore msg) | ReadOk \<Rightarrow> decode_all bytes))"

lemma decode_all_eq: "length bytes < fuel \<Longrightarrow> decode_snapshot fuel bytes = Some (decode_all bytes)"
proof -
  assume "length bytes < fuel"
  moreover obtain y where y: "decode_snapshot (Suc (length bytes)) bytes = Some y"
    using decode_snapshot_returns [of bytes "Suc (length bytes)"] by auto
  ultimately have "decode_snapshot fuel bytes = Some y"
    using decode_snapshot_more_fuel [of "Suc (length bytes)" fuel bytes] by (auto dest: fuel_leD)
  then show ?thesis
    using y by (simp add: decode_all_def)
qed

lemma decode_all_encode:
  "encode_snapshot s = Inr bytes \<Longrightarrow> wf_snapshot s \<Longrightarrow> decode_all bytes = Inr s"
  using snapshot_round [of s bytes "Suc (length bytes)"] by (simp add: decode_all_def)

section \<open>What a store promises\<close>

text \<open>
  A store that accepted a snapshot gives it back. The client is the manager: as long as the store
  holds its last snapshot, a successful save leaves the store with the new one.
\<close>

locale retain_store =
  fixes load :: "'st \<Rightarrow> runtime_error + retain_snapshot"
    and store :: "'st \<Rightarrow> retain_snapshot \<Rightarrow> (runtime_error + unit) \<times> 'st"
    and good :: "retain_snapshot \<Rightarrow> bool"
  assumes stored: "good s \<Longrightarrow> store st s = (Inr u, st') \<Longrightarrow> load st' = Inr s"
begin

definition in_sync :: "'st retain_manager \<Rightarrow> bool" where
  "in_sync m \<longleftrightarrow>
     (\<forall>st s. rm_store m = Some st \<longrightarrow> rm_last_snapshot m = Some s \<longrightarrow> load st = Inr s)"

lemma configured_in_sync: "in_sync (rm_configure st interval now m)"
  by (simp add: in_sync_def rm_configure_def)

lemma save_in_sync:
  assumes "in_sync m" and "good snapshot"
    and "rm_save_snapshot same store snapshot now m = (Inr u, m')"
  shows "in_sync m'"
  using assms
  by (auto simp: in_sync_def rm_save_snapshot_def stored split: option.splits if_splits sum.splits
      prod.splits)

lemma save_then_load:
  assumes "in_sync m" and "good snapshot" and "rm_has_store m"
    and "rm_save_snapshot same store snapshot now m = (Inr u, m')"
  shows "rm_load load m' = Inr snapshot \<or> (\<exists>s. rm_load load m' = Inr s \<and> same s snapshot)"
  using assms
  by (auto simp: in_sync_def rm_save_snapshot_def rm_load_def rm_has_store_def stored
      split: option.splits if_splits sum.splits prod.splits)

end

interpretation disk: retain_store "fs_load ReadOk" "fs_store io" wf_snapshot for io
  by unfold_locales
    (auto simp: fs_store_def fs_write_bytes_def fs_load_def decode_all_encode
      split: sum.splits io_outcome.splits)

section \<open>The runtime saves and restores its globals\<close>

datatype retain_policy = PolicyRetain | PolicyNonRetain | PolicyUnspecified | PolicyPersistent

datatype global_init = InitValue rvalue | InitFunctionBlock rstr | InitClass rstr

record global_meta =
  gm_type_id :: u32
  gm_retain :: retain_policy
  gm_init :: global_init

record 'st runtime =
  rt_storage :: variable_storage
  rt_globals :: "(rstr, global_meta) index_map"
  rt_current_time :: duration
  rt_retain :: "'st retain_manager"

definition retain_on_warm :: "retain_policy \<Rightarrow> bool" where
  "retain_on_warm policy \<longleftrightarrow> policy = PolicyRetain \<or> policy = PolicyPersistent"

definition snapshot_entry ::
    "variable_storage \<Rightarrow> retain_snapshot \<Rightarrow> rstr \<times> global_meta \<Rightarrow> retain_snapshot" where
  "snapshot_entry s snapshot entry =
     (case entry of (name, meta) \<Rightarrow>
        if \<not> retain_on_warm (gm_retain meta) then snapshot
        else
          (case get_global s name of
             None \<Rightarrow> snapshot
           | Some value \<Rightarrow>
               if value_is_retainable value then im_insert name value snapshot else snapshot))"

definition rt_retain_snapshot :: "('st, 'x) runtime_scheme \<Rightarrow> retain_snapshot" where
  "rt_retain_snapshot rt = foldl (snapshot_entry (rt_storage rt)) [] (rt_globals rt)"

definition apply_entry ::
    "(rstr, global_meta) index_map \<Rightarrow> variable_storage \<Rightarrow> rstr \<times> rvalue \<Rightarrow> variable_storage" where
  "apply_entry globals s entry =
     (case entry of (name, value) \<Rightarrow>
        (case im_get globals name of
           None \<Rightarrow> s
         | Some meta \<Rightarrow>
             if retain_on_warm (gm_retain meta) \<and> value_is_retainable value
             then set_global name value s else s))"

definition rt_apply_retain_snapshot ::
    "retain_snapshot \<Rightarrow> ('st, 'x) runtime_scheme \<Rightarrow> ('st, 'x) runtime_scheme" where
  "rt_apply_retain_snapshot snapshot rt =
     rt\<lparr>rt_storage := foldl (apply_entry (rt_globals rt)) (rt_storage rt) snapshot\<rparr>"

definition rt_set_retain_store ::
    "'st option \<Rightarrow> duration option \<Rightarrow> ('st, 'x) runtime_scheme \<Rightarrow> ('st, 'x) runtime_scheme" where
  "rt_set_retain_store store save_interval rt =
     rt\<lparr>rt_retain := rm_configure store save_interval (rt_current_time rt) (rt_retain rt)\<rparr>"

definition rt_load_retain_store ::
    "('st \<Rightarrow> runtime_error + retain_snapshot) \<Rightarrow> ('st, 'x) runtime_scheme
      \<Rightarrow> (runtime_error + unit) \<times> ('st, 'x) runtime_scheme" where
  "rt_load_retain_store load rt =
     (case rm_load load (rt_retain rt) of
        Inl e \<Rightarrow> (Inl e, rt)
      | Inr snapshot \<Rightarrow> (Inr (), rt_apply_retain_snapshot snapshot rt))"

definition rt_save_retain_store ::
    "(retain_snapshot \<Rightarrow> retain_snapshot \<Rightarrow> bool)
      \<Rightarrow> ('st \<Rightarrow> retain_snapshot \<Rightarrow> (runtime_error + unit) \<times> 'st)
      \<Rightarrow> ('st, 'x) runtime_scheme \<Rightarrow> (runtime_error + unit) \<times> ('st, 'x) runtime_scheme" where
  "rt_save_retain_store same store rt =
     (let (res, m) = rm_save_snapshot same store (rt_retain_snapshot rt) (rt_current_time rt)
            (rt_retain rt)
      in (res, rt\<lparr>rt_retain := m\<rparr>))"

definition rt_maybe_save_retain_store ::
    "(retain_snapshot \<Rightarrow> retain_snapshot \<Rightarrow> bool)
      \<Rightarrow> ('st \<Rightarrow> retain_snapshot \<Rightarrow> (runtime_error + unit) \<times> 'st)
      \<Rightarrow> ('st, 'x) runtime_scheme \<Rightarrow> (runtime_error + unit) \<times> ('st, 'x) runtime_scheme" where
  "rt_maybe_save_retain_store same store rt =
     (if \<not> rm_should_save (rt_retain rt) (rt_current_time rt) then (Inr (), rt)
      else rt_save_retain_store same store rt)"

section \<open>What is saved and what is restored\<close>

text \<open>The value of a global that survives: its policy retains it, and it can be retained.\<close>

definition surviving :: "('st, 'x) runtime_scheme \<Rightarrow> rstr \<Rightarrow> rvalue option" where
  "surviving rt name =
     (case im_get (rt_globals rt) name of
        None \<Rightarrow> None
      | Some meta \<Rightarrow>
          if retain_on_warm (gm_retain meta) then
            (case get_global (rt_storage rt) name of
               None \<Rightarrow> None
             | Some v \<Rightarrow> if value_is_retainable v then Some v else None)
          else None)"

lemma snapshot_entry_get:
  "im_get (snapshot_entry s snap (n, meta)) name =
    (if name = n \<and> retain_on_warm (gm_retain meta) \<and>
        (\<exists>v. get_global s n = Some v \<and> value_is_retainable v)
     then get_global s n else im_get snap name)"
  by (auto simp: snapshot_entry_def im_get_insert split: option.splits)

lemma snapshot_fold_get:
  assumes "im_ok globals"
  shows "im_get (foldl (snapshot_entry s) snap globals) name =
    (case im_get globals name of
       Some meta \<Rightarrow>
         if retain_on_warm (gm_retain meta) \<and> (\<exists>v. get_global s name = Some v \<and> value_is_retainable v)
         then get_global s name else im_get snap name
     | None \<Rightarrow> im_get snap name)"
  using assms
proof (induction globals arbitrary: snap)
  case (Cons e globals)
  obtain n meta where e: "e = (n, meta)"
    by fastforce
  have "im_ok globals" and "im_get globals n = None"
    using Cons.prems e by (auto simp: im_ok_def im_get_def map_of_eq_None_iff)
  then show ?case
    using Cons.IH [of "snapshot_entry s snap e"] e
    by (auto simp: im_get_def [of "(n, meta) # globals"] snapshot_entry_get
        simp flip: im_get_def split: option.splits)
qed (simp add: im_get_def)

lemma snapshot_survivors:
  assumes "im_ok (rt_globals rt)"
  shows "im_get (rt_retain_snapshot rt) name = surviving rt name"
  using snapshot_fold_get [OF assms, of "rt_storage rt" "[]" name]
  by (auto simp: rt_retain_snapshot_def surviving_def im_get_def [of "[]"] split: option.splits)

lemma snapshot_ok: "im_ok (foldl (snapshot_entry s) snap globals)" if "im_ok snap"
  using that
  by (induction globals arbitrary: snap)
    (auto simp: snapshot_entry_def im_ok_insert split: option.splits)

lemma apply_fold_get:
  assumes "im_ok snap"
  shows "get_global (foldl (apply_entry globals) s snap) name =
    (case im_get snap name of
       None \<Rightarrow> get_global s name
     | Some v \<Rightarrow>
         if value_is_retainable v \<and>
            (\<exists>meta. im_get globals name = Some meta \<and> retain_on_warm (gm_retain meta))
         then Some v else get_global s name)"
  using assms
proof (induction snap arbitrary: s)
  case (Cons e snap)
  obtain n v where e: "e = (n, v)"
    by fastforce
  have "im_ok snap" and "im_get snap n = None"
    using Cons.prems e by (auto simp: im_ok_def im_get_def map_of_eq_None_iff)
  then show ?case
    using Cons.IH [of "apply_entry globals s e"] e
    by (auto simp: apply_entry_def get_global_def set_global_def im_get_insert
        im_get_def [of "(n, v) # snap"] simp flip: im_get_def split: option.splits)
qed (simp add: im_get_def)

end
