(* ===== verification/Retain_Properties.thy ===== *)
theory Retain_Properties
  imports Retain
begin

text \<open>
  The properties of retained variables: the format of a snapshot, the cadence of saving, a write
  that fails, and the way of a global through a save and a load.
\<close>

section \<open>A runtime\<close>

definition sample_snapshot :: retain_snapshot where
  "sample_snapshot =
     [(''n'', VInt 7), (''p'', VStruct ''P'' [(''x'', VBool True), (''t'', VTime 9)]),
      (''a'', VArray [VUSInt 1, VUSInt 2] [(0, 1)])]"

definition sample_bytes :: "byte list" where
  "sample_bytes = (case encode_snapshot sample_snapshot of Inr bytes \<Rightarrow> bytes | Inl _ \<Rightarrow> [])"

lemma snapshot_encodes: "encode_snapshot sample_snapshot = Inr sample_bytes"
  by code_simp

lemma snapshot_wf: "wf_snapshot sample_snapshot"
  by (simp add: wf_snapshot_def sample_snapshot_def im_ok_def wf_rstr_def wf_str_def as_bytes_def
      byte_of_char_def)

definition meta :: "retain_policy \<Rightarrow> global_meta" where
  "meta policy = \<lparr>gm_type_id = 4, gm_retain = policy, gm_init = InitValue (VInt 0)\<rparr>"

definition sample_runtime :: "rvalue \<Rightarrow> rvalue \<Rightarrow> file_store runtime" where
  "sample_runtime n k =
     \<lparr>rt_storage = storage_new\<lparr>vs_globals := [(''n'', n), (''k'', k)]\<rparr>,
      rt_globals = [(''n'', meta PolicyRetain), (''k'', meta PolicyUnspecified)],
      rt_current_time = 100,
      rt_retain = rm_configure (Some \<lparr>fs_file = None\<rparr>) (Some 10) 0 retain_manager_default\<rparr>"

section \<open>The format\<close>

text \<open>C38: A snapshot that can be encoded, which is one without references and instances at any
  depth, is decoded to itself, with its names, values and order.\<close>

theorem snapshot_round_trip:
  assumes "retainable_snapshot s" and "wf_snapshot s"
  shows "\<exists>bytes. encode_snapshot s = Inr bytes \<and>
    (\<forall>fuel. length bytes < fuel \<longrightarrow> decode_snapshot fuel bytes = Some (Inr s))"
proof -
  obtain bytes where "encode_snapshot s = Inr bytes"
    using assms(1) encode_snapshot_iff by blast
  then show ?thesis
    using snapshot_round [OF _ assms(2)] by auto
qed

lemma snapshot_round_trip_witness: "decode_snapshot 100 sample_bytes = Some (Inr sample_snapshot)"
proof -
  have "retainable_snapshot sample_snapshot"
    by (simp add: retainable_snapshot_def sample_snapshot_def)
  moreover have "length sample_bytes < 100"
    by code_simp
  ultimately show ?thesis
    using snapshot_round_trip [OF _ snapshot_wf] snapshot_encodes by fastforce
qed

text \<open>The decoder ends on every byte string: with more fuel than bytes it gives a result that
  more fuel does not change, and a snapshot it accepts can be encoded again.\<close>

theorem snapshot_decoder_total:
  assumes "length bytes < fuel"
  shows "\<exists>y. decode_snapshot fuel bytes = Some y \<and>
    (\<forall>fuel'\<ge>fuel. decode_snapshot fuel' bytes = Some y) \<and>
    (\<forall>s. y = Inr s \<longrightarrow> (\<exists>bytes'. encode_snapshot s = Inr bytes'))"
proof -
  have "decode_snapshot fuel' bytes = Some (decode_all bytes)" if "fuel \<le> fuel'" for fuel'
    using assms that by (intro decode_all_eq) simp
  moreover have "\<exists>bytes'. encode_snapshot s = Inr bytes'" if "decode_all bytes = Inr s" for s
  proof -
    have "decode_snapshot (Suc (length bytes)) bytes = Some (Inr s)"
      using decode_all_eq [of bytes "Suc (length bytes)"] that by simp
    then obtain k r r' where
      "read_fields (decode_value (Suc (length bytes))) k [] r = Some (Inr (s, r'))"
      unfolding decode_snapshot_def fbind_eq_ok by (auto simp: fbind_eq_ok)
    then have "retainable_snapshot s"
      using yields_fields [where dec = "decode_value (Suc (length bytes))", OF decode_retainable,
          of "[]" k r]
      by (simp add: yields_def retainable_snapshot_def)
    then show ?thesis
      by (simp add: encode_snapshot_iff)
  qed
  ultimately show ?thesis
    by auto
qed

lemma snapshot_decoder_total_witness: "\<exists>y. decode_snapshot 4 [0x53, 0x54, 0x52] = Some y"
  using snapshot_decoder_total [of "[0x53, 0x54, 0x52]" 4] by auto

section \<open>Saving\<close>

text \<open>C39: A cycle marks the variables as changed and asks for a save. After a save at the time \<open>t\<close>, with
  a positive interval \<open>i\<close>, this does nothing before the time \<open>t + i\<close>. From then on it compares the
  retained variables with those of the last save: when they are the same the store is not called and
  the interval starts again, and when they differ the store is called with them; if it fails, the
  error is returned and the variables stay marked.\<close>

theorem save_cadence:
  assumes "rm_has_store m" and "rm_save_interval m = Some i" and "0 < sint i"
    and "rm_save_snapshot same store snapshot t m = (Inr u, m')"
    and "rt_retain rt = rm_mark_dirty m'" and "now = rt_current_time rt"
  shows "\<exists>last st. rm_last_snapshot m' = Some last \<and> (last = snapshot \<or> same last snapshot) \<and>
    rm_store m' = Some st \<and>
    rt_maybe_save_retain_store same store rt =
      (if sint now < sint t + sint i then (Inr (), rt)
       else if same last (rt_retain_snapshot rt) then (Inr (), rt\<lparr>rt_retain := m'\<lparr>rm_last_save := now\<rparr>\<rparr>)
       else
         (case store st (rt_retain_snapshot rt) of
            (Inl e, st') \<Rightarrow> (Inl e, rt\<lparr>rt_retain := (rm_mark_dirty m')\<lparr>rm_store := Some st'\<rparr>\<rparr>)
          | (Inr _, st') \<Rightarrow> (Inr (), rt\<lparr>rt_retain := m'\<lparr>rm_store := Some st',
              rm_last_snapshot := Some (rt_retain_snapshot rt), rm_last_save := now\<rparr>\<rparr>)))"
proof -
  obtain last st where m': "rm_save_interval m' = Some i" "rm_last_save m' = t" "\<not> rm_dirty m'"
    "rm_last_snapshot m' = Some last" "last = snapshot \<or> same last snapshot" "rm_store m' = Some st"
    using assms(1-4) by (auto simp: rm_save_snapshot_def rm_has_store_def split: option.splits if_splits
        prod.splits sum.splits)
  have "sint i \<le> 2 ^ 63 - 1"
    using sint_lt [of i] by simp
  then have due: "rm_should_save (rm_mark_dirty m') now \<longleftrightarrow> sint t + sint i \<le> sint now"
    using m' assms(3) by (auto simp: rm_should_save_def rm_mark_dirty_def sint_saturating_sub
        signed_min_def signed_max_def)
  have saved: "m'\<lparr>rm_dirty := False\<rparr> = m'"
    using m'(3) by simp
  have "rt_maybe_save_retain_store same store rt =
      (if sint now < sint t + sint i then (Inr (), rt)
       else if same last (rt_retain_snapshot rt) then (Inr (), rt\<lparr>rt_retain := m'\<lparr>rm_last_save := now\<rparr>\<rparr>)
       else
         (case store st (rt_retain_snapshot rt) of
            (Inl e, st') \<Rightarrow> (Inl e, rt\<lparr>rt_retain := (rm_mark_dirty m')\<lparr>rm_store := Some st'\<rparr>\<rparr>)
          | (Inr _, st') \<Rightarrow> (Inr (), rt\<lparr>rt_retain := m'\<lparr>rm_store := Some st',
              rm_last_snapshot := Some (rt_retain_snapshot rt), rm_last_save := now\<rparr>\<rparr>)))"
    using due m' saved assms(5,6)
    by (auto simp: rt_maybe_save_retain_store_def rt_save_retain_store_def rm_save_snapshot_def
        rm_mark_dirty_def not_less not_le split: sum.split prod.split)
  with m' show ?thesis
    by blast
qed

definition saved_manager :: "file_store retain_manager" where
  "saved_manager =
     snd (rm_save_snapshot (=) (fs_store IoOk) sample_snapshot 50
       (rm_configure (Some \<lparr>fs_file = None\<rparr>) (Some 10) 0 retain_manager_default))"

lemma saved_manager_eq:
  "rm_save_snapshot (=) (fs_store IoOk) sample_snapshot 50
     (rm_configure (Some \<lparr>fs_file = None\<rparr>) (Some 10) 0 retain_manager_default) =
   (Inr (), saved_manager)"
  unfolding saved_manager_def
  by (simp add: rm_save_snapshot_def rm_configure_def retain_manager_default_def fs_store_def
      snapshot_encodes fs_write_bytes_def)

text \<open>A runtime without globals, whose snapshot is not the one of the saved manager.\<close>

definition bare_runtime :: "duration \<Rightarrow> file_store runtime" where
  "bare_runtime now =
     \<lparr>rt_storage = storage_new, rt_globals = [], rt_current_time = now,
      rt_retain = rm_mark_dirty saved_manager\<rparr>"

lemma save_cadence_witness:
  "rt_maybe_save_retain_store (=) (fs_store IoOk) (bare_runtime 59) = (Inr (), bare_runtime 59) \<and>
   rm_last_snapshot (rt_retain (snd (rt_maybe_save_retain_store (=) (fs_store IoOk) (bare_runtime 60)))) =
     Some []"
proof -
  note saved = save_cadence [OF _ _ _ saved_manager_eq, of 10]
  have times: "sint (10 :: i64) = 10" "sint (50 :: i64) = 50" "sint (59 :: i64) = 59"
    "sint (60 :: i64) = 60"
    by code_simp+
  have bare: "rt_retain (bare_runtime now) = rm_mark_dirty saved_manager"
    "rt_current_time (bare_runtime now) = now" "rt_retain_snapshot (bare_runtime now) = []" for now
    by (simp_all add: bare_runtime_def rt_retain_snapshot_def)
  have old: "sample_snapshot \<noteq> []"
    by (simp add: sample_snapshot_def)
  have new: "encode_snapshot [] = Inr [0x53, 0x54, 0x52, 0x4E, 1, 0, 0, 0, 0, 0]"
    by code_simp
  show ?thesis
    using saved [of "bare_runtime 59" 59] saved [of "bare_runtime 60" 60] old
    by (auto simp: bare times rm_has_store_def rm_configure_def fs_store_def fs_write_bytes_def new)
qed

text \<open>C40: A save whose write stops half-way reports the error and leaves the changes pending, but
  the manager still takes the earlier snapshot for the content of the file: when the values return
  to it, the next save succeeds without writing, and the torn file stays.\<close>

theorem torn_write_stays:
  assumes "rm_store m = Some fs" and "rm_last_snapshot m = Some old" and "same old old"
    and "\<not> same old s" and "encode_snapshot s = Inr bytes"
    and "rm_save_snapshot same (fs_store (WriteFails n msg)) s t m = (res, m1)"
  shows "res = Inl (RetainStore msg) \<and> rm_dirty m1 = rm_dirty m \<and> rm_last_save m1 = rm_last_save m \<and>
    (\<exists>m2. rm_save_snapshot same (fs_store IoOk) old t' m1 = (Inr (), m2) \<and>
      rm_store m2 = Some (fs\<lparr>fs_file := Some (take n bytes)\<rparr>))"
  using assms by (auto simp: rm_save_snapshot_def fs_store_def fs_write_bytes_def)

lemma torn_write_stays_witness:
  "\<exists>m2. rm_save_snapshot (=) (fs_store IoOk) sample_snapshot 70
      (snd (rm_save_snapshot (=) (fs_store (WriteFails 3 ''disk full'')) [] 60 saved_manager)) =
      (Inr (), m2) \<and>
    rm_load (fs_load ReadOk) m2 = Inl (RetainStore ''retain data truncated'')"
proof -
  have old: "rm_store saved_manager = Some \<lparr>fs_file = Some sample_bytes\<rparr>"
      "rm_last_snapshot saved_manager = Some sample_snapshot"
    by (simp_all add: saved_manager_def rm_save_snapshot_def rm_configure_def
        retain_manager_default_def fs_store_def snapshot_encodes fs_write_bytes_def)
  have new: "encode_snapshot [] = Inr [0x53, 0x54, 0x52, 0x4E, 1, 0, 0, 0, 0, 0]"
    by code_simp
  have changed: "sample_snapshot \<noteq> []"
    by (simp add: sample_snapshot_def)
  have torn: "decode_all [0x53, 0x54, 0x52] = Inl (RetainStore ''retain data truncated'')"
    by code_simp
  show ?thesis
    using torn_write_stays [where same = "(=)", OF old refl changed new surjective_pairing,
        of 3 "''disk full''" 60 70] torn
    by (auto simp: rm_load_def fs_load_def)
qed

section \<open>Globals across a restart\<close>

text \<open>C10: After a save to a file and a load from it in another run with the same declarations, every
  global that is retained and holds no reference or instance has the value it had when saved, and
  every other global has the value the new run gave it.\<close>

theorem retained_globals_survive:
  assumes "im_ok (rt_globals rt)" and "rt_globals rt2 = rt_globals rt"
    and "rm_store (rt_retain rt) = Some fs" and "wf_snapshot (rt_retain_snapshot rt)"
    and "\<forall>s. rm_last_snapshot (rt_retain rt) = Some s \<longrightarrow> \<not> same s (rt_retain_snapshot rt)"
  shows "\<exists>rt' rt2'. rt_save_retain_store same (fs_store IoOk) rt = (Inr (), rt') \<and>
    rt_load_retain_store (fs_load ReadOk) (rt2\<lparr>rt_retain := rt_retain rt'\<rparr>) = (Inr (), rt2') \<and>
    (\<forall>name. get_global (rt_storage rt2') name =
      (case surviving rt name of
         Some v \<Rightarrow> Some v | None \<Rightarrow> get_global (rt_storage rt2) name))"
proof -
  let ?s = "rt_retain_snapshot rt"
  have ok: "im_ok ?s"
    unfolding rt_retain_snapshot_def by (rule snapshot_ok) (simp add: im_ok_def)
  have survive: "value_is_retainable v \<and>
      (\<exists>meta. im_get (rt_globals rt) name = Some meta \<and> retain_on_warm (gm_retain meta))"
    if "im_get ?s name = Some v" for name v
    using that snapshot_survivors [OF assms(1)]
    by (auto simp: surviving_def split: option.splits if_splits)
  have "retainable_snapshot ?s"
    using ok survive unfolding retainable_snapshot_def list_all_iff
    by (auto simp: im_get_def im_ok_def)
  then obtain bytes where bytes: "encode_snapshot ?s = Inr bytes"
    using encode_snapshot_iff by blast
  have stored: "rt_save_retain_store same (fs_store IoOk) rt =
      (Inr (), rt\<lparr>rt_retain := (rt_retain rt)\<lparr>rm_store := Some (fs\<lparr>fs_file := Some bytes\<rparr>),
        rm_last_snapshot := Some ?s, rm_dirty := False, rm_last_save := rt_current_time rt\<rparr>\<rparr>)"
    using assms(3,5) bytes
    by (auto simp: rt_save_retain_store_def rm_save_snapshot_def fs_store_def fs_write_bytes_def
        split: option.splits)
  have "fs_load ReadOk (fs\<lparr>fs_file := Some bytes\<rparr>) = Inr ?s"
    using decode_all_encode [OF bytes assms(4)] by (simp add: fs_load_def)
  moreover have "get_global (foldl (apply_entry (rt_globals rt)) (rt_storage rt2) ?s) name =
      (case surviving rt name of Some v \<Rightarrow> Some v | None \<Rightarrow> get_global (rt_storage rt2) name)" for name
    using apply_fold_get [OF ok] survive snapshot_survivors [OF assms(1), of name]
    by (auto split: option.splits)
  ultimately show ?thesis
    using stored assms(2)
    by (simp add: rt_load_retain_store_def rm_load_def rt_apply_retain_snapshot_def)
qed

lemma retained_globals_survive_witness:
  "\<exists>rt' rt2'. rt_save_retain_store (=) (fs_store IoOk) (sample_runtime (VInt 7) (VInt 8)) = (Inr (), rt') \<and>
    rt_load_retain_store (fs_load ReadOk)
      ((sample_runtime (VInt 0) (VInt 0))\<lparr>rt_retain := rt_retain rt'\<rparr>) = (Inr (), rt2') \<and>
    get_global (rt_storage rt2') ''n'' = Some (VInt 7) \<and>
    get_global (rt_storage rt2') ''k'' = Some (VInt 0)"
proof -
  let ?rt = "sample_runtime (VInt 7) (VInt 8)" and ?rt2 = "sample_runtime (VInt 0) (VInt 0)"
  have snap: "rt_retain_snapshot ?rt = [(''n'', VInt 7)]"
    by (simp add: rt_retain_snapshot_def snapshot_entry_def sample_runtime_def meta_def
        retain_on_warm_def get_global_def im_get_def im_insert_def)
  have "wf_snapshot (rt_retain_snapshot ?rt)"
    by (simp add: snap wf_snapshot_def im_ok_def wf_rstr_def wf_str_def as_bytes_def
        byte_of_char_def)
  moreover have "im_ok (rt_globals ?rt)" "rt_globals ?rt2 = rt_globals ?rt"
      "rm_store (rt_retain ?rt) = Some \<lparr>fs_file = None\<rparr>" "rm_last_snapshot (rt_retain ?rt) = None"
    by (simp_all add: sample_runtime_def im_ok_def rm_configure_def)
  moreover have "surviving ?rt ''n'' = Some (VInt 7)" "surviving ?rt ''k'' = None"
      "get_global (rt_storage ?rt2) ''k'' = Some (VInt 0)"
    by (simp_all add: surviving_def sample_runtime_def meta_def retain_on_warm_def get_global_def
        im_get_def)
  ultimately show ?thesis
    using retained_globals_survive [of ?rt ?rt2 "\<lparr>fs_file = None\<rparr>" "(=)"] by fastforce
qed

end
