(* ===== verification/Floats.thy ===== *)
theory Floats
  imports Values
begin

text \<open>
  The binary floating-point numbers of Rust (\<open>f32\<close>, \<open>f64\<close>, IEEE 754) as the words of their bits,
  with the operations the runtime uses: comparisons, conversions, the four arithmetic operations
  rounded to the nearest number (ties to even) and truncation. \<open>powf\<close> is the mathematics library
  of the platform and is an argument where it is used.
\<close>

section \<open>Formats\<close>

text \<open>A format is the number of its exponent bits and of its fraction bits.\<close>

type_synonym float_format = "nat \<times> nat"

definition f32_format :: float_format where "f32_format = (8, 23)"
definition f64_format :: float_format where "f64_format = (11, 52)"

text \<open>
  A number is the sign, an integer significand and the power of two it is multiplied by.
\<close>

datatype fp =
    FNan
  | FInf bool
  | FNum bool nat int

definition fp_bias :: "float_format \<Rightarrow> int" where
  "fp_bias fmt = 2 ^ (fst fmt - 1) - 1"

definition fp_least :: "float_format \<Rightarrow> int" where
  "fp_least fmt = 1 - fp_bias fmt - int (snd fmt)"

definition fp_decode :: "float_format \<Rightarrow> nat \<Rightarrow> fp" where
  "fp_decode fmt n =
     (let s = odd (n div 2 ^ (fst fmt + snd fmt));
          e = (n div 2 ^ snd fmt) mod 2 ^ fst fmt;
          f = n mod 2 ^ snd fmt
      in if e = 2 ^ fst fmt - 1 then (if f = 0 then FInf s else FNan)
         else if e = 0 then FNum s f (fp_least fmt)
         else FNum s (2 ^ snd fmt + f) (fp_least fmt + int e - 1))"

definition fp_bits :: "float_format \<Rightarrow> bool \<Rightarrow> nat \<Rightarrow> nat \<Rightarrow> nat" where
  "fp_bits fmt s e f = of_bool s * 2 ^ (fst fmt + snd fmt) + e * 2 ^ snd fmt + f"

fun bit_len :: "nat \<Rightarrow> nat" where
  "bit_len n = (if n = 0 then 0 else Suc (bit_len (n div 2)))"

declare bit_len.simps [simp del]

definition half_even :: "nat \<Rightarrow> nat \<Rightarrow> nat" where
  "half_even m k =
     (let q = m div 2 ^ k; r = m mod 2 ^ k
      in if 2 * r < 2 ^ k \<or> (2 * r = 2 ^ k \<and> even q) then q else q + 1)"

text \<open>
  \<open>m * 2 ^ e\<close> with a sign, rounded: \<open>q\<close> is the weight of the last bit the format keeps.
\<close>

definition fp_round :: "float_format \<Rightarrow> bool \<Rightarrow> nat \<Rightarrow> int \<Rightarrow> nat" where
  "fp_round fmt s m e =
     (let q = max (e + int (bit_len m) - int (snd fmt) - 1) (fp_least fmt);
          mant = (if q \<le> e then m * 2 ^ nat (e - q) else half_even m (nat (q - e)));
          carry = (mant = 2 ^ (snd fmt + 1));
          mant = (if carry then 2 ^ snd fmt else mant);
          q = (if carry then q + 1 else q);
          biased = (if mant < 2 ^ snd fmt then 0 else nat (q - fp_least fmt + 1))
      in if biased \<ge> 2 ^ fst fmt - 1 then fp_bits fmt s (2 ^ fst fmt - 1) 0
         else fp_bits fmt s biased (mant mod 2 ^ snd fmt))"

definition fp_encode :: "float_format \<Rightarrow> fp \<Rightarrow> nat" where
  "fp_encode fmt x =
     (case x of
        FNan \<Rightarrow> fp_bits fmt False (2 ^ fst fmt - 1) (2 ^ (snd fmt - 1))
      | FInf s \<Rightarrow> fp_bits fmt s (2 ^ fst fmt - 1) 0
      | FNum s m e \<Rightarrow> fp_round fmt s m e)"

section \<open>Exact arithmetic\<close>

text \<open>
  The result before rounding. A quotient is cut to more bits than any format keeps, its last bit
  recording whether something was cut off.
\<close>

definition signed_mant :: "bool \<Rightarrow> nat \<Rightarrow> int" where
  "signed_mant s m = (if s then - int m else int m)"

fun fp_add :: "fp \<Rightarrow> fp \<Rightarrow> fp" where
  "fp_add FNan y = FNan"
| "fp_add (FInf s) y =
     (case y of FNan \<Rightarrow> FNan | FInf s' \<Rightarrow> if s = s' then FInf s else FNan | FNum _ _ _ \<Rightarrow> FInf s)"
| "fp_add (FNum s m e) y =
     (case y of
        FNan \<Rightarrow> FNan
      | FInf s' \<Rightarrow> FInf s'
      | FNum s' m' e' \<Rightarrow>
          (let k = min e e';
               i = signed_mant s m * 2 ^ nat (e - k) + signed_mant s' m' * 2 ^ nat (e' - k)
           in FNum (if i = 0 then s \<and> s' else i < 0) (nat \<bar>i\<bar>) k))"

fun fp_neg :: "fp \<Rightarrow> fp" where
  "fp_neg FNan = FNan"
| "fp_neg (FInf s) = FInf (\<not> s)"
| "fp_neg (FNum s m e) = FNum (\<not> s) m e"

fun fp_mul :: "fp \<Rightarrow> fp \<Rightarrow> fp" where
  "fp_mul FNan y = FNan"
| "fp_mul (FInf s) y =
     (case y of FNan \<Rightarrow> FNan | FInf s' \<Rightarrow> FInf (s \<noteq> s')
      | FNum s' m' _ \<Rightarrow> if m' = 0 then FNan else FInf (s \<noteq> s'))"
| "fp_mul (FNum s m e) y =
     (case y of FNan \<Rightarrow> FNan | FInf s' \<Rightarrow> if m = 0 then FNan else FInf (s \<noteq> s')
      | FNum s' m' e' \<Rightarrow> FNum (s \<noteq> s') (m * m') (e + e'))"

fun fp_div :: "fp \<Rightarrow> fp \<Rightarrow> fp" where
  "fp_div FNan y = FNan"
| "fp_div (FInf s) y =
     (case y of FNan \<Rightarrow> FNan | FInf _ \<Rightarrow> FNan | FNum s' _ _ \<Rightarrow> FInf (s \<noteq> s'))"
| "fp_div (FNum s m e) y =
     (case y of
        FNan \<Rightarrow> FNan
      | FInf s' \<Rightarrow> FNum (s \<noteq> s') 0 0
      | FNum s' m' e' \<Rightarrow>
          if m' = 0 then (if m = 0 then FNan else FInf (s \<noteq> s'))
          else
            (let k = 64 + bit_len m'; n = m * 2 ^ k
             in FNum (s \<noteq> s') (2 * (n div m') + of_bool (n mod m' \<noteq> 0)) (e - e' - int k - 1)))"

text \<open>Comparisons: no order with a NaN, and both zeros are equal.\<close>

fun fp_key :: "fp \<Rightarrow> int \<Rightarrow> int" where
  "fp_key (FNum s m e) k = signed_mant s m * 2 ^ nat (e - k)"
| "fp_key _ k = 0"

fun fp_less :: "fp \<Rightarrow> fp \<Rightarrow> bool" where
  "fp_less FNan y = False"
| "fp_less (FInf s) y =
     (case y of FNan \<Rightarrow> False | FInf s' \<Rightarrow> s \<and> \<not> s' | FNum _ _ _ \<Rightarrow> s)"
| "fp_less (FNum s m e) y =
     (case y of FNan \<Rightarrow> False | FInf s' \<Rightarrow> \<not> s'
      | FNum s' m' e' \<Rightarrow>
          fp_key (FNum s m e) (min e e') < fp_key (FNum s' m' e') (min e e'))"

fun fp_equal :: "fp \<Rightarrow> fp \<Rightarrow> bool" where
  "fp_equal FNan y = False"
| "fp_equal (FInf s) y = (y = FInf s)"
| "fp_equal (FNum s m e) y =
     (case y of
        FNum s' m' e' \<Rightarrow> fp_key (FNum s m e) (min e e') = fp_key (FNum s' m' e') (min e e')
      | _ \<Rightarrow> False)"

text \<open>\<open>trunc\<close>, as an integer.\<close>

fun fp_trunc :: "fp \<Rightarrow> int option" where
  "fp_trunc (FNum s m e) =
     Some (signed_mant s (if 0 \<le> e then m * 2 ^ nat e else m div 2 ^ nat (- e)))"
| "fp_trunc _ = None"

section \<open>The operations of Rust\<close>

definition f64_val :: "f64 \<Rightarrow> fp" where "f64_val w = fp_decode f64_format (unat w)"
definition f32_val :: "f32 \<Rightarrow> fp" where "f32_val w = fp_decode f32_format (unat w)"
definition to_f64_bits :: "fp \<Rightarrow> f64" where "to_f64_bits x = of_nat (fp_encode f64_format x)"
definition to_f32_bits :: "fp \<Rightarrow> f32" where "to_f32_bits x = of_nat (fp_encode f32_format x)"

definition f64_of_f32 :: "f32 \<Rightarrow> f64" where "f64_of_f32 w = to_f64_bits (f32_val w)"
definition f32_of_f64 :: "f64 \<Rightarrow> f32" where "f32_of_f64 w = to_f32_bits (f64_val w)"
definition f64_of_int :: "int \<Rightarrow> f64" where
  "f64_of_int i = to_f64_bits (FNum (i < 0) (nat \<bar>i\<bar>) 0)"

definition f64_add :: "f64 \<Rightarrow> f64 \<Rightarrow> f64" where
  "f64_add a b = to_f64_bits (fp_add (f64_val a) (f64_val b))"
definition f64_sub :: "f64 \<Rightarrow> f64 \<Rightarrow> f64" where
  "f64_sub a b = to_f64_bits (fp_add (f64_val a) (fp_neg (f64_val b)))"
definition f64_mul :: "f64 \<Rightarrow> f64 \<Rightarrow> f64" where
  "f64_mul a b = to_f64_bits (fp_mul (f64_val a) (f64_val b))"
definition f64_div :: "f64 \<Rightarrow> f64 \<Rightarrow> f64" where
  "f64_div a b = to_f64_bits (fp_div (f64_val a) (f64_val b))"

definition f64_eq :: "f64 \<Rightarrow> f64 \<Rightarrow> bool" where "f64_eq a b = fp_equal (f64_val a) (f64_val b)"
definition f64_lt :: "f64 \<Rightarrow> f64 \<Rightarrow> bool" where "f64_lt a b = fp_less (f64_val a) (f64_val b)"
definition f64_le :: "f64 \<Rightarrow> f64 \<Rightarrow> bool" where
  "f64_le a b \<longleftrightarrow> f64_lt a b \<or> f64_eq a b"
definition f32_eq :: "f32 \<Rightarrow> f32 \<Rightarrow> bool" where "f32_eq a b = fp_equal (f32_val a) (f32_val b)"

definition f64_is_finite :: "f64 \<Rightarrow> bool" where
  "f64_is_finite w = (case f64_val w of FNum _ _ _ \<Rightarrow> True | _ \<Rightarrow> False)"

definition f64_is_zero :: "f64 \<Rightarrow> bool" where "f64_is_zero w = f64_eq w 0"

text \<open>Negation flips the sign bit, of a NaN too.\<close>

definition f32_neg :: "f32 \<Rightarrow> f32" where "f32_neg w = xor w (push_bit 31 1)"
definition f64_neg :: "f64 \<Rightarrow> f64" where "f64_neg w = xor w (push_bit 63 1)"

end
