(* ===== verification/Numeric.thy ===== *)
theory Numeric
  imports Floats Values
begin

text \<open>
  The numeric kinds of values and the conversions between integers (\<open>numeric.rs\<close>).
  \<open>T::try_from\<close> on integers is a range check; \<open>as\<close> extends or cuts the word.
\<close>

section \<open>Checked conversions of integers\<close>

definition signed_try_from :: "int \<Rightarrow> 'a::len word option" where
  "signed_try_from i =
     (if signed_min TYPE('a) \<le> i \<and> i \<le> signed_max TYPE('a) then Some (word_of_int i) else None)"

definition unsigned_try_from :: "int \<Rightarrow> 'a::len word option" where
  "unsigned_try_from i = (if 0 \<le> i \<and> i < 2 ^ LENGTH('a) then Some (word_of_int i) else None)"

lemma signed_try_from_Some: "signed_try_from i = Some w \<longleftrightarrow> sint w = i"
  using sint_bounds [of w] by (auto simp: signed_try_from_def sint_of_int_id)

lemma unsigned_try_from_Some: "unsigned_try_from i = Some w \<longleftrightarrow> uint w = i"
  using uint_bounded [of w] by (auto simp: unsigned_try_from_def uint_word_of_int_eq take_bit_int_eq_self)

lemma signed_try_from_None:
  "(signed_try_from i :: 'a::len word option) = None \<longleftrightarrow>
    \<not> (signed_min TYPE('a) \<le> i \<and> i \<le> signed_max TYPE('a))"
  by (simp add: signed_try_from_def)

lemma unsigned_try_from_None:
  "(unsigned_try_from i :: 'a::len word option) = None \<longleftrightarrow> \<not> (0 \<le> i \<and> i < 2 ^ LENGTH('a))"
  by (simp add: unsigned_try_from_def)

section \<open>Kinds\<close>

datatype numeric_kind =
    NkSInt | NkInt | NkDInt | NkLInt | NkUSInt | NkUInt | NkUDInt | NkULInt | NkReal | NkLReal

definition numeric_kind_of :: "rvalue \<Rightarrow> numeric_kind option" where
  "numeric_kind_of value =
     (case value of
        VSInt _ \<Rightarrow> Some NkSInt
      | VInt _ \<Rightarrow> Some NkInt
      | VDInt _ \<Rightarrow> Some NkDInt
      | VLInt _ \<Rightarrow> Some NkLInt
      | VUSInt _ \<Rightarrow> Some NkUSInt
      | VUInt _ \<Rightarrow> Some NkUInt
      | VUDInt _ \<Rightarrow> Some NkUDInt
      | VULInt _ \<Rightarrow> Some NkULInt
      | VReal _ \<Rightarrow> Some NkReal
      | VLReal _ \<Rightarrow> Some NkLReal
      | _ \<Rightarrow> None)"

fun numeric_rank :: "numeric_kind \<Rightarrow> nat" where
  "numeric_rank NkSInt = 0"
| "numeric_rank NkInt = 1"
| "numeric_rank NkDInt = 2"
| "numeric_rank NkLInt = 3"
| "numeric_rank NkUSInt = 4"
| "numeric_rank NkUInt = 5"
| "numeric_rank NkUDInt = 6"
| "numeric_rank NkULInt = 7"
| "numeric_rank NkReal = 8"
| "numeric_rank NkLReal = 9"

definition wider_numeric :: "numeric_kind \<Rightarrow> numeric_kind \<Rightarrow> numeric_kind" where
  "wider_numeric left right = (if numeric_rank left \<ge> numeric_rank right then left else right)"

section \<open>Conversions of values\<close>

definition to_i64 :: "rvalue \<Rightarrow> runtime_error + i64" where
  "to_i64 value =
     (case value of
        VSInt v \<Rightarrow> Inr (scast v)
      | VInt v \<Rightarrow> Inr (scast v)
      | VDInt v \<Rightarrow> Inr (scast v)
      | VLInt v \<Rightarrow> Inr v
      | VUSInt v \<Rightarrow> Inr (ucast v)
      | VUInt v \<Rightarrow> Inr (ucast v)
      | VUDInt v \<Rightarrow> Inr (ucast v)
      | VULInt v \<Rightarrow> ok_or (signed_try_from (uint v)) Overflow
      | _ \<Rightarrow> Inl TypeMismatch)"

definition to_u64 :: "rvalue \<Rightarrow> runtime_error + u64" where
  "to_u64 value =
     (case value of
        VUSInt v \<Rightarrow> Inr (ucast v)
      | VUInt v \<Rightarrow> Inr (ucast v)
      | VUDInt v \<Rightarrow> Inr (ucast v)
      | VULInt v \<Rightarrow> Inr v
      | VSInt v \<Rightarrow> if sint v < 0 then Inl TypeMismatch else Inr (scast v)
      | VInt v \<Rightarrow> if sint v < 0 then Inl TypeMismatch else Inr (scast v)
      | VDInt v \<Rightarrow> if sint v < 0 then Inl TypeMismatch else Inr (scast v)
      | VLInt v \<Rightarrow> if sint v < 0 then Inl TypeMismatch else Inr v
      | _ \<Rightarrow> Inl TypeMismatch)"

definition to_f64 :: "rvalue \<Rightarrow> runtime_error + f64" where
  "to_f64 value =
     (case value of
        VReal v \<Rightarrow> Inr (f64_of_f32 v)
      | VLReal v \<Rightarrow> Inr v
      | VSInt v \<Rightarrow> Inr (f64_of_int (sint v))
      | VInt v \<Rightarrow> Inr (f64_of_int (sint v))
      | VDInt v \<Rightarrow> Inr (f64_of_int (sint v))
      | VLInt v \<Rightarrow> Inr (f64_of_int (sint v))
      | VUSInt v \<Rightarrow> Inr (f64_of_int (uint v))
      | VUInt v \<Rightarrow> Inr (f64_of_int (uint v))
      | VUDInt v \<Rightarrow> Inr (f64_of_int (uint v))
      | VULInt v \<Rightarrow> Inr (f64_of_int (uint v))
      | _ \<Rightarrow> Inl TypeMismatch)"

text \<open>An \<open>i128\<close> or \<open>u128\<close> is an integer; the callers stay in its range.\<close>

definition signed_from_i128 :: "numeric_kind \<Rightarrow> int \<Rightarrow> runtime_error + rvalue" where
  "signed_from_i128 target value =
     (case target of
        NkSInt \<Rightarrow> ok_or (map_option VSInt (signed_try_from value)) Overflow
      | NkInt \<Rightarrow> ok_or (map_option VInt (signed_try_from value)) Overflow
      | NkDInt \<Rightarrow> ok_or (map_option VDInt (signed_try_from value)) Overflow
      | NkLInt \<Rightarrow> ok_or (map_option VLInt (signed_try_from value)) Overflow
      | _ \<Rightarrow> Inl TypeMismatch)"

definition unsigned_from_u128 :: "numeric_kind \<Rightarrow> int \<Rightarrow> runtime_error + rvalue" where
  "unsigned_from_u128 target value =
     (case target of
        NkUSInt \<Rightarrow> ok_or (map_option VUSInt (unsigned_try_from value)) Overflow
      | NkUInt \<Rightarrow> ok_or (map_option VUInt (unsigned_try_from value)) Overflow
      | NkUDInt \<Rightarrow> ok_or (map_option VUDInt (unsigned_try_from value)) Overflow
      | NkULInt \<Rightarrow> ok_or (map_option VULInt (unsigned_try_from value)) Overflow
      | _ \<Rightarrow> Inl TypeMismatch)"

section \<open>The integer a value stands for\<close>

definition int_of_value :: "rvalue \<Rightarrow> int option" where
  "int_of_value value =
     (case value of
        VSInt v \<Rightarrow> Some (sint v)
      | VInt v \<Rightarrow> Some (sint v)
      | VDInt v \<Rightarrow> Some (sint v)
      | VLInt v \<Rightarrow> Some (sint v)
      | VUSInt v \<Rightarrow> Some (uint v)
      | VUInt v \<Rightarrow> Some (uint v)
      | VUDInt v \<Rightarrow> Some (uint v)
      | VULInt v \<Rightarrow> Some (uint v)
      | _ \<Rightarrow> None)"

definition is_signed_kind :: "numeric_kind \<Rightarrow> bool" where
  "is_signed_kind k \<longleftrightarrow> k \<in> {NkSInt, NkInt, NkDInt, NkLInt}"

definition is_unsigned_kind :: "numeric_kind \<Rightarrow> bool" where
  "is_unsigned_kind k \<longleftrightarrow> k \<in> {NkUSInt, NkUInt, NkUDInt, NkULInt}"

text \<open>The least and the greatest integer of a kind.\<close>

fun kind_range :: "numeric_kind \<Rightarrow> int \<times> int" where
  "kind_range NkSInt = (- (2 ^ 7), 2 ^ 7 - 1)"
| "kind_range NkInt = (- (2 ^ 15), 2 ^ 15 - 1)"
| "kind_range NkDInt = (- (2 ^ 31), 2 ^ 31 - 1)"
| "kind_range NkLInt = (- (2 ^ 63), 2 ^ 63 - 1)"
| "kind_range NkUSInt = (0, 2 ^ 8 - 1)"
| "kind_range NkUInt = (0, 2 ^ 16 - 1)"
| "kind_range NkUDInt = (0, 2 ^ 32 - 1)"
| "kind_range NkULInt = (0, 2 ^ 64 - 1)"
| "kind_range NkReal = (0, 0)"
| "kind_range NkLReal = (0, 0)"

definition in_kind :: "numeric_kind \<Rightarrow> int \<Rightarrow> bool" where
  "in_kind k i \<longleftrightarrow> fst (kind_range k) \<le> i \<and> i \<le> snd (kind_range k)"

lemma int_of_value_kind:
  assumes "int_of_value v = Some i"
  shows "\<exists>k. numeric_kind_of v = Some k \<and> (is_signed_kind k \<or> is_unsigned_kind k) \<and> in_kind k i"
proof -
  have s8: "- 128 \<le> sint w \<and> sint w \<le> 127" for w :: i8
    using sint_bounds [of w] by (simp add: signed_min_def signed_max_def)
  have s16: "- 32768 \<le> sint w \<and> sint w \<le> 32767" for w :: i16
    using sint_bounds [of w] by (simp add: signed_min_def signed_max_def)
  have s32: "- 2147483648 \<le> sint w \<and> sint w \<le> 2147483647" for w :: i32
    using sint_bounds [of w] by (simp add: signed_min_def signed_max_def)
  have s64: "- 9223372036854775808 \<le> sint w \<and> sint w \<le> 9223372036854775807" for w :: i64
    using sint_bounds [of w] by (simp add: signed_min_def signed_max_def)
  have u8: "uint w \<le> 255" for w :: u8 using uint_bounded [of w] by simp
  have u16: "uint w \<le> 65535" for w :: u16 using uint_bounded [of w] by simp
  have u32: "uint w \<le> 4294967295" for w :: u32 using uint_bounded [of w] by simp
  have u64: "uint w \<le> 18446744073709551615" for w :: u64 using uint_bounded [of w] by simp
  show ?thesis
    using assms s8 s16 s32 s64 u8 u16 u32 u64
    by (cases v)
      (auto simp: int_of_value_def numeric_kind_of_def is_signed_kind_def is_unsigned_kind_def
        in_kind_def)
qed

end
