(* ===== verification/Arithmetic.thy ===== *)
theory Arithmetic
  imports Operators
begin

text \<open>
  Arithmetic of expressions (\<open>eval/ops.rs\<close>): times and dates, numbers, and the dispatch over all
  binary operators, with the properties of integer arithmetic.
\<close>

section \<open>Times and dates\<close>

definition i64_try_from :: "int \<Rightarrow> runtime_error + i64" where
  "i64_try_from i = ok_or (signed_try_from i) Overflow"

definition i128_checked :: "int \<Rightarrow> int option" where
  "i128_checked i = (if - (2 ^ 127) \<le> i \<and> i < 2 ^ 127 then Some i else None)"

definition u128_checked :: "int \<Rightarrow> int option" where
  "u128_checked i = (if 0 \<le> i \<and> i < 2 ^ 128 then Some i else None)"

definition add_or_sub :: "binary_op \<Rightarrow> int \<Rightarrow> int \<Rightarrow> runtime_error + int" where
  "add_or_sub op a b =
     (case op of OpAdd \<Rightarrow> Inr (a + b) | OpSub \<Rightarrow> Inr (a - b) | _ \<Rightarrow> Inl TypeMismatch)"

definition duration_to_ticks :: "duration \<Rightarrow> date_time_profile \<Rightarrow> runtime_error + i64" where
  "duration_to_ticks time profile =
     (let resolution = sint (dtp_resolution profile) in
      if resolution = 0 then Inl Overflow else i64_try_from (sint time sdiv resolution))"

definition ticks_to_duration :: "int \<Rightarrow> date_time_profile \<Rightarrow> runtime_error + duration" where
  "ticks_to_duration ticks profile =
     rbind (ok_or (i128_checked (ticks * sint (dtp_resolution profile))) Overflow) i64_try_from"

definition time_duration_op ::
    "binary_op \<Rightarrow> duration \<Rightarrow> duration \<Rightarrow> runtime_error + duration" where
  "time_duration_op op lhs rhs = rbind (add_or_sub op (sint lhs) (sint rhs)) i64_try_from"

text \<open>\<open>try_from_ticks\<close> with the error of the runtime.\<close>

definition ticks_value :: "int \<Rightarrow> runtime_error + i64" where
  "ticks_value ticks =
     (case try_from_ticks ticks of Inl e \<Rightarrow> Inl (from_date_time_error e) | Inr t \<Rightarrow> Inr t)"

definition time_of_day_with_time ::
    "binary_op \<Rightarrow> i64 \<Rightarrow> duration \<Rightarrow> date_time_profile \<Rightarrow> runtime_error + i64" where
  "time_of_day_with_time op tod time profile =
     rbind (duration_to_ticks time profile) (\<lambda>delta.
     rbind (add_or_sub op (sint tod) (sint delta)) ticks_value)"

definition long_tod_with_time :: "binary_op \<Rightarrow> i64 \<Rightarrow> duration \<Rightarrow> runtime_error + i64" where
  "long_tod_with_time op tod time = rbind (add_or_sub op (sint tod) (sint time)) i64_try_from"

definition datetime_with_time ::
    "binary_op \<Rightarrow> i64 \<Rightarrow> duration \<Rightarrow> date_time_profile \<Rightarrow> runtime_error + i64" where
  "datetime_with_time op dt time profile =
     rbind (duration_to_ticks time profile) (\<lambda>delta.
     rbind (add_or_sub op (sint dt) (sint delta)) ticks_value)"

definition long_datetime_with_time :: "binary_op \<Rightarrow> i64 \<Rightarrow> duration \<Rightarrow> runtime_error + i64" where
  "long_datetime_with_time op dt time = rbind (add_or_sub op (sint dt) (sint time)) i64_try_from"

definition date_diff :: "i64 \<Rightarrow> i64 \<Rightarrow> date_time_profile \<Rightarrow> runtime_error + duration" where
  "date_diff lhs rhs profile = ticks_to_duration (sint lhs - sint rhs) profile"

definition long_date_diff :: "i64 \<Rightarrow> i64 \<Rightarrow> runtime_error + duration" where
  "long_date_diff lhs rhs = i64_try_from (sint lhs - sint rhs)"

definition tod_diff :: "i64 \<Rightarrow> i64 \<Rightarrow> date_time_profile \<Rightarrow> runtime_error + duration" where
  "tod_diff lhs rhs profile = ticks_to_duration (sint lhs - sint rhs) profile"

definition long_tod_diff :: "i64 \<Rightarrow> i64 \<Rightarrow> runtime_error + duration" where
  "long_tod_diff lhs rhs = i64_try_from (sint lhs - sint rhs)"

definition dt_diff :: "i64 \<Rightarrow> i64 \<Rightarrow> date_time_profile \<Rightarrow> runtime_error + duration" where
  "dt_diff lhs rhs profile = ticks_to_duration (sint lhs - sint rhs) profile"

definition long_dt_diff :: "i64 \<Rightarrow> i64 \<Rightarrow> runtime_error + duration" where
  "long_dt_diff lhs rhs = i64_try_from (sint lhs - sint rhs)"

section \<open>Scaling of times\<close>

datatype numeric_factor = FacInteger int | FacReal f64

definition numeric_factor_of :: "rvalue \<Rightarrow> runtime_error + numeric_factor" where
  "numeric_factor_of value =
     (case value of
        VReal v \<Rightarrow> Inr (FacReal (f64_of_f32 v))
      | VLReal v \<Rightarrow> Inr (FacReal v)
      | _ \<Rightarrow> rmap FacInteger (ok_or (int_of_value value) TypeMismatch))"

text \<open>
  The cut of a number to an \<open>i128\<close>: not a finite number and out of range are errors; at \<open>2 ^ 127\<close>,
  which the comparison lets pass, \<open>as\<close> saturates.
\<close>

definition trunc_i128 :: "f64 \<Rightarrow> runtime_error + int" where
  "trunc_i128 x =
     (case fp_trunc (f64_val x) of
        None \<Rightarrow> Inl Overflow
      | Some t \<Rightarrow>
          if t < - (2 ^ 127) \<or> t > 2 ^ 127 then Inl Overflow else Inr (min t (2 ^ 127 - 1)))"

definition scale_duration ::
    "duration \<Rightarrow> rvalue \<Rightarrow> binary_op \<Rightarrow> runtime_error + duration" where
  "scale_duration time factor op =
     rbind (numeric_factor_of factor) (\<lambda>factor.
     rbind
       (case factor of
          FacInteger value \<Rightarrow>
            (case op of
               OpMul \<Rightarrow> ok_or (i128_checked (sint time * value)) Overflow
             | OpDiv \<Rightarrow> if value = 0 then Inl DivisionByZero else Inr (sint time sdiv value)
             | _ \<Rightarrow> Inl TypeMismatch)
        | FacReal value \<Rightarrow>
            if op = OpDiv \<and> f64_is_zero value then Inl DivisionByZero
            else
              (case op of
                 OpMul \<Rightarrow> trunc_i128 (f64_mul (f64_of_int (sint time)) value)
               | OpDiv \<Rightarrow> trunc_i128 (f64_div (f64_of_int (sint time)) value)
               | _ \<Rightarrow> Inl TypeMismatch))
       i64_try_from)"

definition as_Time :: "rvalue \<Rightarrow> duration option" where
  "as_Time v = (case v of VTime t \<Rightarrow> Some t | _ \<Rightarrow> None)"

definition as_LTime :: "rvalue \<Rightarrow> duration option" where
  "as_LTime v = (case v of VLTime t \<Rightarrow> Some t | _ \<Rightarrow> None)"

text \<open>The arms of the match in their order, those with a guard trying the next one when it fails.\<close>

definition time_scale ::
    "binary_op \<Rightarrow> rvalue \<Rightarrow> rvalue \<Rightarrow> (runtime_error + rvalue) option" where
  "time_scale op left right =
     (case as_Time left of
        Some time \<Rightarrow> Some (rmap VTime (scale_duration time right op))
      | None \<Rightarrow>
          (case if op = OpMul then as_Time right else None of
             Some time \<Rightarrow> Some (rmap VTime (scale_duration time left op))
           | None \<Rightarrow>
               (case as_LTime left of
                  Some time \<Rightarrow> Some (rmap VLTime (scale_duration time right op))
                | None \<Rightarrow>
                    (case if op = OpMul then as_LTime right else None of
                       Some time \<Rightarrow> Some (rmap VLTime (scale_duration time left op))
                     | None \<Rightarrow> None))))"

definition time_arith ::
    "binary_op \<Rightarrow> rvalue \<Rightarrow> rvalue \<Rightarrow> date_time_profile \<Rightarrow> (runtime_error + rvalue) option" where
  "time_arith op left right profile =
     (let add_sub = (op = OpAdd \<or> op = OpSub);
          arith =
            (case (left, right) of
               (VTime lhs, VTime rhs) \<Rightarrow>
                 if add_sub then Some (rmap VTime (time_duration_op op lhs rhs)) else None
             | (VLTime lhs, VLTime rhs) \<Rightarrow>
                 if add_sub then Some (rmap VLTime (time_duration_op op lhs rhs)) else None
             | (VTod lhs, VTime rhs) \<Rightarrow>
                 if add_sub then Some (rmap VTod (time_of_day_with_time op lhs rhs profile)) else None
             | (VTime lhs, VTod rhs) \<Rightarrow>
                 if op = OpAdd then Some (rmap VTod (time_of_day_with_time op rhs lhs profile)) else None
             | (VLTod lhs, VLTime rhs) \<Rightarrow>
                 if add_sub then Some (rmap VLTod (long_tod_with_time op lhs rhs)) else None
             | (VLTime lhs, VLTod rhs) \<Rightarrow>
                 if op = OpAdd then Some (rmap VLTod (long_tod_with_time op rhs lhs)) else None
             | (VDt lhs, VTime rhs) \<Rightarrow>
                 if add_sub then Some (rmap VDt (datetime_with_time op lhs rhs profile)) else None
             | (VTime lhs, VDt rhs) \<Rightarrow>
                 if op = OpAdd then Some (rmap VDt (datetime_with_time op rhs lhs profile)) else None
             | (VLdt lhs, VLTime rhs) \<Rightarrow>
                 if add_sub then Some (rmap VLdt (long_datetime_with_time op lhs rhs)) else None
             | (VLTime lhs, VLdt rhs) \<Rightarrow>
                 if op = OpAdd then Some (rmap VLdt (long_datetime_with_time op rhs lhs)) else None
             | (VDate lhs, VDate rhs) \<Rightarrow>
                 if op = OpSub then Some (rmap VTime (date_diff lhs rhs profile)) else None
             | (VLDate lhs, VLDate rhs) \<Rightarrow>
                 if op = OpSub then Some (rmap VLTime (long_date_diff lhs rhs)) else None
             | (VTod lhs, VTod rhs) \<Rightarrow>
                 if op = OpSub then Some (rmap VTime (tod_diff lhs rhs profile)) else None
             | (VLTod lhs, VLTod rhs) \<Rightarrow>
                 if op = OpSub then Some (rmap VLTime (long_tod_diff lhs rhs)) else None
             | (VDt lhs, VDt rhs) \<Rightarrow>
                 if op = OpSub then Some (rmap VTime (dt_diff lhs rhs profile)) else None
             | (VLdt lhs, VLdt rhs) \<Rightarrow>
                 if op = OpSub then Some (rmap VLTime (long_dt_diff lhs rhs)) else None
             | _ \<Rightarrow> None)
      in case arith of
           Some result \<Rightarrow> Some result
         | None \<Rightarrow> if op = OpMul \<or> op = OpDiv then time_scale op left right else None)"

section \<open>Numbers\<close>

definition f64_arith ::
    "(f64 \<Rightarrow> f64 \<Rightarrow> f64) \<Rightarrow> binary_op \<Rightarrow> f64 \<Rightarrow> f64 \<Rightarrow> runtime_error + f64" where
  "f64_arith powf op a b =
     (if op = OpDiv \<and> f64_is_zero b then Inl DivisionByZero
      else
        rbind
          (case op of
             OpAdd \<Rightarrow> Inr (f64_add a b)
           | OpSub \<Rightarrow> Inr (f64_sub a b)
           | OpMul \<Rightarrow> Inr (f64_mul a b)
           | OpDiv \<Rightarrow> Inr (f64_div a b)
           | OpPow \<Rightarrow> Inr (powf a b)
           | _ \<Rightarrow> Inl TypeMismatch)
          (\<lambda>result. if f64_is_finite result then Inr result else Inl Overflow))"

definition checked_exponent :: "int \<Rightarrow> runtime_error + nat" where
  "checked_exponent b = (if 0 \<le> b \<and> b < 2 ^ 32 then Inr (nat b) else Inl Overflow)"

definition signed_arith :: "binary_op \<Rightarrow> int \<Rightarrow> int \<Rightarrow> runtime_error + int" where
  "signed_arith op a b =
     (case op of
        OpAdd \<Rightarrow> Inr (a + b)
      | OpSub \<Rightarrow> Inr (a - b)
      | OpMul \<Rightarrow> Inr (a * b)
      | OpDiv \<Rightarrow> if b = 0 then Inl DivisionByZero else Inr (a sdiv b)
      | OpMod \<Rightarrow> if b = 0 then Inl ModuloByZero else Inr (a smod b)
      | OpPow \<Rightarrow>
          if b < 0 then Inl TypeMismatch
          else rbind (checked_exponent b) (\<lambda>n. ok_or (i128_checked (a ^ n)) Overflow)
      | _ \<Rightarrow> Inl TypeMismatch)"

definition unsigned_arith :: "binary_op \<Rightarrow> int \<Rightarrow> int \<Rightarrow> runtime_error + int" where
  "unsigned_arith op a b =
     (case op of
        OpAdd \<Rightarrow> Inr (a + b)
      | OpSub \<Rightarrow> ok_or (u128_checked (a - b)) Overflow
      | OpMul \<Rightarrow> Inr (a * b)
      | OpDiv \<Rightarrow> if b = 0 then Inl DivisionByZero else Inr (a div b)
      | OpMod \<Rightarrow> if b = 0 then Inl ModuloByZero else Inr (a mod b)
      | OpPow \<Rightarrow> rbind (checked_exponent b) (\<lambda>n. ok_or (u128_checked (a ^ n)) Overflow)
      | _ \<Rightarrow> Inl TypeMismatch)"

definition numeric_arith ::
    "(f64 \<Rightarrow> f64 \<Rightarrow> f64) \<Rightarrow> binary_op \<Rightarrow> rvalue \<Rightarrow> rvalue \<Rightarrow> runtime_error + rvalue" where
  "numeric_arith powf op left right =
     rbind (ok_or (numeric_kind_of left) TypeMismatch) (\<lambda>left_kind.
     rbind (ok_or (numeric_kind_of right) TypeMismatch) (\<lambda>right_kind.
       (let target = wider_numeric left_kind right_kind in
        if target \<in> {NkReal, NkLReal}
        then
          (if op = OpMod then Inl TypeMismatch
           else
             rbind (to_f64 left) (\<lambda>a. rbind (to_f64 right) (\<lambda>b.
             rbind (f64_arith powf op a b) (\<lambda>result.
               Inr (if target = NkReal then VReal (f32_of_f64 result) else VLReal result)))))
        else if is_signed_kind target
        then
          rbind (to_i64 left) (\<lambda>a. rbind (to_i64 right) (\<lambda>b.
          rbind (signed_arith op (sint a) (sint b)) (signed_from_i128 target)))
        else
          rbind (to_u64 left) (\<lambda>a. rbind (to_u64 right) (\<lambda>b.
          rbind (unsigned_arith op (uint a) (uint b)) (unsigned_from_u128 target))))))"

definition apply_binary ::
    "(f64 \<Rightarrow> f64 \<Rightarrow> f64) \<Rightarrow> binary_op \<Rightarrow> rvalue \<Rightarrow> rvalue \<Rightarrow> date_time_profile
      \<Rightarrow> runtime_error + rvalue" where
  "apply_binary powf op left right profile =
     (case time_arith op left right profile of
        Some result \<Rightarrow> result
      | None \<Rightarrow>
          (case time_cmp op left right of
             Some result \<Rightarrow> result
           | None \<Rightarrow>
               if op \<in> {OpAnd, OpOr, OpXor} then logical_or_bitwise op left right
               else if op = OpEq then numeric_eq left right True
               else if op = OpNe then numeric_eq left right False
               else if op \<in> {OpAdd, OpSub, OpMul, OpDiv, OpMod, OpPow}
               then numeric_arith powf op left right
               else
                 (case non_numeric_cmp op left right of
                    Some result \<Rightarrow> result
                  | None \<Rightarrow> numeric_cmp op left right)))"

end
