(* ===== verification/Arithmetic_Properties.thy ===== *)
theory Arithmetic_Properties
  imports Arithmetic
begin

text \<open>
  Integer arithmetic of expressions: the result is the exact integer in the joint kind of the
  operands, or an error. The lemmas relate the conversions of \<open>numeric.rs\<close> to the integer a value stands for.
\<close>

section \<open>Conversions and the integers\<close>

lemma signed_from_ok:
  "signed_from_i128 k i = Inr v \<longleftrightarrow>
    is_signed_kind k \<and> numeric_kind_of v = Some k \<and> int_of_value v = Some i"
  by (cases k; cases v)
    (auto simp: signed_from_i128_def is_signed_kind_def numeric_kind_of_def int_of_value_def
      signed_try_from_Some)

lemma unsigned_from_ok:
  "unsigned_from_u128 k i = Inr v \<longleftrightarrow>
    is_unsigned_kind k \<and> numeric_kind_of v = Some k \<and> int_of_value v = Some i"
  by (cases k; cases v)
    (auto simp: unsigned_from_u128_def is_unsigned_kind_def numeric_kind_of_def int_of_value_def
      unsigned_try_from_Some)

lemma signed_from_overflow:
  "is_signed_kind k \<Longrightarrow> \<not> in_kind k i \<Longrightarrow> signed_from_i128 k i = Inl Overflow"
  by (cases k)
    (auto simp: signed_from_i128_def is_signed_kind_def in_kind_def signed_try_from_def
      signed_min_def signed_max_def ok_or_def)

lemma unsigned_from_overflow:
  "is_unsigned_kind k \<Longrightarrow> \<not> in_kind k i \<Longrightarrow> unsigned_from_u128 k i = Inl Overflow"
  by (cases k)
    (auto simp: unsigned_from_u128_def is_unsigned_kind_def in_kind_def unsigned_try_from_def
      ok_or_def)

lemma signed_from_defined:
  "is_signed_kind k \<Longrightarrow> in_kind k i \<Longrightarrow> \<exists>v. signed_from_i128 k i = Inr v"
  by (cases k)
    (auto simp: signed_from_i128_def is_signed_kind_def in_kind_def signed_try_from_def
      signed_min_def signed_max_def)

lemma unsigned_from_defined:
  "is_unsigned_kind k \<Longrightarrow> in_kind k i \<Longrightarrow> \<exists>v. unsigned_from_u128 k i = Inr v"
  by (cases k)
    (auto simp: unsigned_from_u128_def is_unsigned_kind_def in_kind_def unsigned_try_from_def)

lemma to_i64_signed:
  assumes "numeric_kind_of v = Some k" and "is_signed_kind k" and "int_of_value v = Some i"
  shows "\<exists>w. to_i64 v = Inr w \<and> sint w = i"
  using assms
  by (cases v) (auto simp: numeric_kind_of_def is_signed_kind_def int_of_value_def to_i64_def
      sint_up_scast is_up)

lemma uint_scast_nonneg:
  fixes w :: "'a::len word"
  assumes "LENGTH('a) \<le> 64" and "0 \<le> sint w"
  shows "uint (scast w :: u64) = sint w"
proof -
  have "sint w < 2 ^ (LENGTH('a) - 1)"
    by (rule sint_lt)
  also have "\<dots> \<le> 2 ^ 64"
    using assms(1) by (intro power_increasing) simp_all
  finally have "take_bit 64 (sint w) = sint w"
    using assms(2) by (simp add: take_bit_int_eq_self)
  then show ?thesis
    unfolding scast_eq uint_word_of_int_eq by simp
qed

lemma to_u64_exact:
  assumes "int_of_value v = Some i"
  shows "if i < 0 then to_u64 v = Inl TypeMismatch else \<exists>w. to_u64 v = Inr w \<and> uint w = i"
proof -
  have "uint w = sint w" if "\<not> sint w < 0" for w :: u64
    using that uint_scast_nonneg [of w] by simp
  then show ?thesis
    using assms
    by (cases v) (auto simp: int_of_value_def to_u64_def uint_scast_nonneg uint_up_ucast is_up)
qed

section \<open>The contract of integer arithmetic\<close>

text \<open>
  The specification on integers: the exact result when it is in the range of the kind, quotients
  cut towards zero. An unsigned kind takes no negative operand; no kind takes a negative exponent, or
  one of more than 32 bits.
\<close>

definition exact_result :: "binary_op \<Rightarrow> int \<Rightarrow> int \<Rightarrow> int" where
  "exact_result op a b =
     (case op of OpAdd \<Rightarrow> a + b | OpSub \<Rightarrow> a - b | OpMul \<Rightarrow> a * b | OpDiv \<Rightarrow> sgn a * sgn b * (\<bar>a\<bar> div \<bar>b\<bar>)
      | OpMod \<Rightarrow> sgn a * (\<bar>a\<bar> mod \<bar>b\<bar>) | OpPow \<Rightarrow> a ^ nat b | _ \<Rightarrow> 0)"

definition int_result :: "numeric_kind \<Rightarrow> binary_op \<Rightarrow> int \<Rightarrow> int \<Rightarrow> runtime_error + int" where
  "int_result k op a b =
     (if is_unsigned_kind k \<and> (a < 0 \<or> b < 0) then Inl TypeMismatch
      else if op = OpDiv \<and> b = 0 then Inl DivisionByZero
      else if op = OpMod \<and> b = 0 then Inl ModuloByZero
      else if op = OpPow \<and> b < 0 then Inl TypeMismatch
      else if op = OpPow \<and> 2 ^ 32 \<le> b then Inl Overflow
      else if in_kind k (exact_result op a b) then Inr (exact_result op a b)
      else Inl Overflow)"

definition integer_op :: "binary_op \<Rightarrow> bool" where
  "integer_op op \<longleftrightarrow> op \<in> {OpAdd, OpSub, OpMul, OpDiv, OpMod, OpPow}"

text \<open>
  The kind of the result, by the widths: an unsigned kind among the operands takes them all, and among
  kinds of one sign the widest.
\<close>

definition kind_bits :: "numeric_kind \<Rightarrow> nat" where
  "kind_bits k =
     (case k of NkSInt \<Rightarrow> 8 | NkInt \<Rightarrow> 16 | NkDInt \<Rightarrow> 32 | NkLInt \<Rightarrow> 64 | NkUSInt \<Rightarrow> 8 | NkUInt \<Rightarrow> 16
      | NkUDInt \<Rightarrow> 32 | NkULInt \<Rightarrow> 64 | NkReal \<Rightarrow> 32 | NkLReal \<Rightarrow> 64)"

definition joint_kind :: "numeric_kind set \<Rightarrow> numeric_kind \<Rightarrow> bool" where
  "joint_kind kinds k \<longleftrightarrow> k \<in> kinds \<and>
     (\<forall>k'\<in>kinds. (is_unsigned_kind k' \<longrightarrow> is_unsigned_kind k) \<and>
       (is_unsigned_kind k' = is_unsigned_kind k \<longrightarrow> kind_bits k' \<le> kind_bits k))"

definition view :: "rvalue \<Rightarrow> numeric_kind option \<times> int option" where
  "view v = (numeric_kind_of v, int_of_value v)"

lemma signed_arith_exact:
  assumes "integer_op op" and "op \<noteq> OpPow"
  shows "signed_arith op a b =
    (if op = OpDiv \<and> b = 0 then Inl DivisionByZero
     else if op = OpMod \<and> b = 0 then Inl ModuloByZero
     else Inr (exact_result op a b))"
  using assms
  by (auto simp: integer_op_def signed_arith_def exact_result_def signed_divide_int_def
      signed_modulo_int_def)

lemma unsigned_arith_exact:
  assumes "integer_op op" and "op \<noteq> OpPow" and "0 \<le> a" and "0 \<le> b" and "a < 2 ^ 64"
  shows "unsigned_arith op a b =
    (if op = OpDiv \<and> b = 0 then Inl DivisionByZero
     else if op = OpMod \<and> b = 0 then Inl ModuloByZero
     else if exact_result op a b < 0 then Inl Overflow
     else Inr (exact_result op a b))"
proof -
  have "\<not> a * b < 0" and "b \<noteq> 0 \<Longrightarrow> \<not> a div b < 0" and "b \<noteq> 0 \<Longrightarrow> \<not> a mod b < 0"
    using assms by (simp_all add: pos_imp_zdiv_nonneg_iff not_less)
  then show ?thesis
    using assms
    by (cases "b = 0"; cases "a = 0")
      (auto simp: integer_op_def unsigned_arith_def exact_result_def u128_checked_def sgn_if)
qed

lemma rbind_view:
  assumes "is_signed_kind k"
  shows "rmap view (signed_from_i128 k i) =
    (if in_kind k i then Inr (Some k, Some i) else Inl Overflow)"
proof (cases "in_kind k i")
  case True
  with assms obtain v where v: "signed_from_i128 k i = Inr v"
    using signed_from_defined by blast
  with True show ?thesis
    by (simp add: rmap_def view_def v [unfolded signed_from_ok])
next
  case False
  with assms show ?thesis
    by (simp add: rmap_def signed_from_overflow)
qed

lemma rbind_view_unsigned:
  assumes "is_unsigned_kind k"
  shows "rmap view (unsigned_from_u128 k i) =
    (if in_kind k i then Inr (Some k, Some i) else Inl Overflow)"
proof (cases "in_kind k i")
  case True
  with assms obtain v where v: "unsigned_from_u128 k i = Inr v"
    using unsigned_from_defined by blast
  with True show ?thesis
    by (simp add: rmap_def view_def v [unfolded unsigned_from_ok])
next
  case False
  with assms show ?thesis
    by (simp add: rmap_def unsigned_from_overflow)
qed

lemma in_kind_narrow:
  "in_kind k i \<Longrightarrow> is_signed_kind k \<Longrightarrow> - (2 ^ 127) \<le> i \<and> i < 2 ^ 127"
  "in_kind k i \<Longrightarrow> is_unsigned_kind k \<Longrightarrow> 0 \<le> i \<and> i < 2 ^ 128"
  by (cases k; simp add: in_kind_def is_signed_kind_def is_unsigned_kind_def)+

lemma one_sign: "is_signed_kind k \<Longrightarrow> \<not> is_unsigned_kind k"
  by (cases k) (simp_all add: is_signed_kind_def is_unsigned_kind_def)

text \<open>The arithmetic in \<open>i128\<close> or \<open>u128\<close>, with the conversion to the kind.\<close>

lemma signed_result:
  assumes "integer_op op" and "is_signed_kind k"
  shows "rmap view (rbind (signed_arith op a b) (signed_from_i128 k)) =
    rmap (\<lambda>i. (Some k, Some i)) (int_result k op a b)"
proof (cases "op = OpPow")
  case True
  then show ?thesis
    using in_kind_narrow(1) [of k "a ^ nat b"] assms(2) one_sign [OF assms(2)]
    by (auto simp: signed_arith_def checked_exponent_def i128_checked_def int_result_def
        exact_result_def rbind_view rmap_def [of view "Inl _"] rmap_def [of "\<lambda>i. (Some k, Some i)"])
next
  case False
  then show ?thesis
    using assms one_sign [OF assms(2)]
    by (simp add: signed_arith_exact rbind_view int_result_def rmap_def [of view "Inl _"]
        rmap_def [of "\<lambda>i. (Some k, Some i)"])
qed

lemma unsigned_result:
  assumes "integer_op op" and "is_unsigned_kind k" and "0 \<le> a" and "0 \<le> b" and "a < 2 ^ 64"
  shows "rmap view (rbind (unsigned_arith op a b) (unsigned_from_u128 k)) =
    rmap (\<lambda>i. (Some k, Some i)) (int_result k op a b)"
proof (cases "op = OpPow")
  case True
  then show ?thesis
    using in_kind_narrow(2) [of k "a ^ nat b"] assms
    by (auto simp: unsigned_arith_def checked_exponent_def u128_checked_def int_result_def
        exact_result_def rbind_view_unsigned rmap_def [of view "Inl _"]
        rmap_def [of "\<lambda>i. (Some k, Some i)"])
next
  case False
  moreover have "\<not> in_kind k i" if "i < 0" for i
    using assms(2) that in_kind_narrow(2) [of k i] by auto
  ultimately show ?thesis
    using assms
    by (simp add: unsigned_arith_exact rbind_view_unsigned int_result_def rmap_def [of view "Inl _"]
        rmap_def [of "\<lambda>i. (Some k, Some i)"])
qed

text \<open>Integers are compared and computed with neither as times nor as bit strings.\<close>

lemma integers_are_numbers:
  assumes "int_of_value left = Some a" and "int_of_value right = Some b"
  shows "time_arith op left right profile = None" and "time_cmp op left right = None"
    and "non_numeric_cmp op left right = None"
  using assms
  by (cases left; simp add: int_of_value_def; cases right;
      simp add: int_of_value_def time_arith_def time_scale_def as_Time_def as_LTime_def
        time_cmp_def non_numeric_cmp_def Let_def)+

lemma kind_cases:
  "int_of_value v = Some i \<Longrightarrow> numeric_kind_of v = Some k \<Longrightarrow> is_signed_kind k \<noteq> is_unsigned_kind k"
  by (cases v) (auto simp: int_of_value_def numeric_kind_of_def is_signed_kind_def
      is_unsigned_kind_def)

lemma wider_signed:
  "is_signed_kind k \<noteq> is_unsigned_kind k \<Longrightarrow> is_signed_kind k' \<noteq> is_unsigned_kind k' \<Longrightarrow>
    is_signed_kind (wider_numeric k k') \<longleftrightarrow> is_signed_kind k \<and> is_signed_kind k'"
  by (cases k; cases k') (simp_all add: is_signed_kind_def is_unsigned_kind_def wider_numeric_def)

lemma wider_unsigned:
  "is_signed_kind k \<noteq> is_unsigned_kind k \<Longrightarrow> is_signed_kind k' \<noteq> is_unsigned_kind k' \<Longrightarrow>
    is_unsigned_kind (wider_numeric k k') \<longleftrightarrow> \<not> (is_signed_kind k \<and> is_signed_kind k')"
  by (cases k; cases k') (simp_all add: is_signed_kind_def is_unsigned_kind_def wider_numeric_def)

lemma not_real: "is_signed_kind k \<or> is_unsigned_kind k \<Longrightarrow> k \<noteq> NkReal \<and> k \<noteq> NkLReal"
  by (auto simp: is_signed_kind_def is_unsigned_kind_def)

lemma rmap_rbind: "rmap f (rbind m g) = rbind m (\<lambda>x. rmap f (g x))"
  by (cases m) (simp_all add: rmap_def)

lemma numeric_arith_signed:
  assumes "integer_op op" and "is_signed_kind (wider_numeric kl kr)"
    and "is_signed_kind kl" and "is_signed_kind kr"
    and "int_of_value left = Some a" and "numeric_kind_of left = Some kl"
    and "int_of_value right = Some b" and "numeric_kind_of right = Some kr"
  shows "rmap view (numeric_arith powf op left right) =
    rmap (\<lambda>i. (Some (wider_numeric kl kr), Some i)) (int_result (wider_numeric kl kr) op a b)"
proof -
  let ?k = "wider_numeric kl kr"
  obtain wa wb where "to_i64 left = Inr wa" "sint wa = a" "to_i64 right = Inr wb" "sint wb = b"
    using to_i64_signed assms(3-8) by metis
  moreover have "\<not> is_unsigned_kind ?k"
    using assms(2) by (cases ?k) (simp_all add: is_signed_kind_def is_unsigned_kind_def)
  ultimately show ?thesis
    using not_real [of ?k] signed_result [OF assms(1,2)] by (simp add: numeric_arith_def assms(2-8))
qed

lemma numeric_arith_unsigned:
  assumes "integer_op op" and "is_unsigned_kind (wider_numeric kl kr)"
    and "\<not> is_signed_kind (wider_numeric kl kr)"
    and "int_of_value left = Some a" and "numeric_kind_of left = Some kl"
    and "int_of_value right = Some b" and "numeric_kind_of right = Some kr"
  shows "rmap view (numeric_arith powf op left right) =
    rmap (\<lambda>i. (Some (wider_numeric kl kr), Some i)) (int_result (wider_numeric kl kr) op a b)"
proof (cases "a < 0 \<or> b < 0")
  case True
  with assms(2,3) show ?thesis
    using to_u64_exact [OF assms(4)] to_u64_exact [OF assms(6)] not_real [of "wider_numeric kl kr"]
    by (auto simp: numeric_arith_def assms rmap_rbind int_result_def rmap_def split: if_splits)
next
  case nonneg: False
  let ?k = "wider_numeric kl kr"
  obtain wa wb where w: "to_u64 left = Inr wa" "uint wa = a" "to_u64 right = Inr wb" "uint wb = b"
    using to_u64_exact [OF assms(4)] to_u64_exact [OF assms(6)] nonneg by auto
  then have "a < 2 ^ 64"
    using uint_bounded [of wa] by simp
  then show ?thesis
    using unsigned_result [OF assms(1,2), of a b] assms(2,3) nonneg w not_real [of ?k]
    by (simp add: numeric_arith_def assms(4-7))
qed

lemma wider_joint:
  assumes "is_signed_kind k \<noteq> is_unsigned_kind k" and "is_signed_kind k' \<noteq> is_unsigned_kind k'"
  shows "joint_kind {k, k'} (wider_numeric k k')"
  using assms
  by (cases k; cases k')
    (simp_all add: joint_kind_def kind_bits_def is_signed_kind_def is_unsigned_kind_def wider_numeric_def)

text \<open>C3: Integer arithmetic of expressions is exact: for two operands of integer types, \<open>+\<close>, \<open>-\<close>,
  \<open>*\<close>, \<open>/\<close>, \<open>MOD\<close> and \<open>**\<close> give the integer result (quotients cut towards zero) as a value of the
  joint type of the operands when it is in the range of that type, and \<open>Overflow\<close> when it is not. The
  joint type is the wider of two types of one sign, and the unsigned one of a signed and an unsigned
  type, whatever their widths. A divisor of zero is reported as such; a negative operand in an
  unsigned type and a negative exponent are type mismatches, and an exponent from two to the 32 on is
  an \<open>Overflow\<close> for every base.\<close>

theorem integer_arith_exact:
  assumes "integer_op op"
    and "int_of_value left = Some a" and "numeric_kind_of left = Some kl"
    and "int_of_value right = Some b" and "numeric_kind_of right = Some kr"
  shows "\<exists>k. joint_kind {kl, kr} k \<and>
    rmap view (apply_binary powf op left right profile) =
      rmap (\<lambda>i. (Some k, Some i)) (int_result k op a b)"
proof -
  let ?k = "wider_numeric kl kr"
  note kinds = kind_cases [OF assms(2,3)] kind_cases [OF assms(4,5)]
  have "apply_binary powf op left right profile = numeric_arith powf op left right"
    using assms(1)
    by (auto simp: apply_binary_def integers_are_numbers [OF assms(2,4)] integer_op_def)
  moreover have "is_signed_kind ?k \<and> is_signed_kind kl \<and> is_signed_kind kr \<or>
      is_unsigned_kind ?k \<and> \<not> is_signed_kind ?k"
    using kinds by (auto simp: wider_signed wider_unsigned)
  ultimately have "rmap view (apply_binary powf op left right profile) =
      rmap (\<lambda>i. (Some ?k, Some i)) (int_result ?k op a b)"
    using numeric_arith_signed [OF assms(1) _ _ _ assms(2-5)]
      numeric_arith_unsigned [OF assms(1) _ _ assms(2-5)] by metis
  with wider_joint [OF kinds] show ?thesis
    by blast
qed

theorem integer_arith_exact_witness:
  "rmap view (apply_binary (\<lambda>a b. a) OpDiv (VDInt (-7)) (VInt 2) date_time_profile_default) =
    Inr (Some NkDInt, Some (-3))"
proof -
  obtain k where "joint_kind {NkDInt, NkInt} k"
    and result: "rmap view (apply_binary (\<lambda>a b. a) OpDiv (VDInt (-7)) (VInt 2) date_time_profile_default) =
      rmap (\<lambda>i. (Some k, Some i)) (int_result k OpDiv (-7) 2)"
    using integer_arith_exact [of OpDiv "VDInt (-7)" "-7" NkDInt "VInt 2" 2 NkInt
        "\<lambda>a b. a" date_time_profile_default]
    by (auto simp: integer_op_def int_of_value_def numeric_kind_of_def)
  then have "k = NkDInt"
    by (auto simp: joint_kind_def kind_bits_def is_unsigned_kind_def)
  then show ?thesis
    using result
    by (simp add: int_result_def is_unsigned_kind_def exact_result_def in_kind_def rmap_def)
qed

text \<open>
  The rank of the kinds puts every unsigned kind above every signed one, so that the joint type of
  \<open>LINT\<close> and \<open>USINT\<close> is the eight bits of \<open>USINT\<close>: a sum that fits a \<open>LINT\<close> is an overflow.
\<close>

lemma wider_kind_is_narrower:
  "apply_binary powf OpAdd (VLInt 1000) (VUSInt 1) profile = Inl Overflow"
  using integers_are_numbers [of "VLInt 1000" 1000 "VUSInt 1" 1]
  by (simp add: int_of_value_def apply_binary_def numeric_arith_def numeric_kind_of_def
      wider_numeric_def is_signed_kind_def to_u64_def unsigned_arith_def unsigned_from_u128_def
      unsigned_try_from_def)

text \<open>The negation of the least integer is not checked, unlike the subtraction from zero.\<close>

lemma negation_wraps:
  "apply_unary OpNeg (VSInt (- 128)) = Inr (VSInt (- 128))"
  "apply_binary powf OpSub (VSInt 0) (VSInt (- 128)) profile = Inl Overflow"
  using integers_are_numbers [of "VSInt 0" 0 "VSInt (- 128)" "- 128"]
  by (simp_all add: apply_unary_def int_of_value_def apply_binary_def numeric_arith_def
      numeric_kind_of_def wider_numeric_def is_signed_kind_def to_i64_def signed_arith_def
      signed_from_i128_def signed_try_from_def signed_min_def signed_max_def)

end
