(* ===== verification/Strings.thy ===== *)
theory Strings
  imports Bytes
begin

text \<open>
  The operations of \<open>str\<close> the runtime uses, on the UTF-8 bytes of a string: its characters as code
  points, trimming of white space, splitting, prefixes and the parsing of unsigned numbers.
\<close>

section \<open>Characters\<close>

definition byte_char :: "nat \<Rightarrow> char" where
  "byte_char n = char_of n"

definition utf8_encode :: "nat \<Rightarrow> rstr" where
  "utf8_encode c =
     (if c < 0x80 then [byte_char c]
      else if c < 0x800 then [byte_char (0xC0 + c div 64), byte_char (0x80 + c mod 64)]
      else if c < 0x10000 then
        [byte_char (0xE0 + c div 4096), byte_char (0x80 + c div 64 mod 64), byte_char (0x80 + c mod 64)]
      else
        [byte_char (0xF0 + c div 262144), byte_char (0x80 + c div 4096 mod 64),
         byte_char (0x80 + c div 64 mod 64), byte_char (0x80 + c mod 64)])"

text \<open>The decoding of a valid string; a byte that starts no character is dropped.\<close>

fun utf8_decode :: "nat list \<Rightarrow> nat list" where
  "utf8_decode [] = []"
| "utf8_decode (a # bs) =
     (if a < 0x80 then a # utf8_decode bs
      else
        (case bs of
           [] \<Rightarrow> []
         | b # cs \<Rightarrow>
             if 0xC0 \<le> a \<and> a < 0xE0 then (a mod 32 * 64 + b mod 64) # utf8_decode cs
             else
               (case cs of
                  [] \<Rightarrow> []
                | c # ds \<Rightarrow>
                    if 0xE0 \<le> a \<and> a < 0xF0
                    then (a mod 16 * 4096 + b mod 64 * 64 + c mod 64) # utf8_decode ds
                    else
                      (case ds of
                         [] \<Rightarrow> []
                       | d # es \<Rightarrow>
                           if 0xF0 \<le> a
                           then (a mod 8 * 262144 + b mod 64 * 4096 + c mod 64 * 64 + d mod 64)
                             # utf8_decode es
                           else utf8_decode bs))))"

definition chars_of :: "rstr \<Rightarrow> nat list" where
  "chars_of s = utf8_decode (map of_char s)"

definition str_of :: "nat list \<Rightarrow> rstr" where
  "str_of cs = concat (map utf8_encode cs)"

section \<open>Trimming, splitting and prefixes\<close>

definition is_whitespace :: "nat \<Rightarrow> bool" where
  "is_whitespace c \<longleftrightarrow>
     9 \<le> c \<and> c \<le> 13 \<or> c = 32 \<or> c = 0x85 \<or> c = 0xA0 \<or> c = 0x1680 \<or> 0x2000 \<le> c \<and> c \<le> 0x200A \<or>
     c = 0x2028 \<or> c = 0x2029 \<or> c = 0x202F \<or> c = 0x205F \<or> c = 0x3000"

definition str_trim :: "rstr \<Rightarrow> rstr" where
  "str_trim s =
     str_of (rev (dropWhile is_whitespace (rev (dropWhile is_whitespace (chars_of s)))))"

fun strip_prefix :: "rstr \<Rightarrow> rstr \<Rightarrow> rstr option" where
  "strip_prefix [] s = Some s"
| "strip_prefix (p # ps) [] = None"
| "strip_prefix (p # ps) (c # cs) = (if p = c then strip_prefix ps cs else None)"

text \<open>\<open>split_once\<close> splits at the first occurrence; \<open>split\<close> at every occurrence of a character.\<close>

fun split_once :: "rstr \<Rightarrow> rstr \<Rightarrow> (rstr \<times> rstr) option" where
  "split_once sep [] = map_option (\<lambda>rest. ([], rest)) (strip_prefix sep [])"
| "split_once sep (c # cs) =
     (case strip_prefix sep (c # cs) of
        Some rest \<Rightarrow> Some ([], rest)
      | None \<Rightarrow> map_option (\<lambda>(a, b). (c # a, b)) (split_once sep cs))"

fun split_at :: "char \<Rightarrow> rstr \<Rightarrow> rstr list" where
  "split_at sep [] = [[]]"
| "split_at sep (c # cs) =
     (if c = sep then [] # split_at sep cs
      else (case split_at sep cs of [] \<Rightarrow> [[c]] | part # parts \<Rightarrow> (c # part) # parts))"

section \<open>Numbers\<close>

definition is_digit :: "char \<Rightarrow> bool" where
  "is_digit c \<longleftrightarrow> 48 \<le> (of_char c :: nat) \<and> (of_char c :: nat) \<le> 57"

definition digit_value :: "char \<Rightarrow> nat" where
  "digit_value c = of_char c - 48"

definition digits_value :: "rstr \<Rightarrow> nat" where
  "digits_value s = foldl (\<lambda>n c. 10 * n + digit_value c) 0 s"

text \<open>\<open>parse\<close> of an unsigned type: an optional plus sign, digits, and no overflow.\<close>

definition parse_unsigned :: "nat \<Rightarrow> rstr \<Rightarrow> nat option" where
  "parse_unsigned bits s =
     (let ds = (case strip_prefix ''+'' s of Some rest \<Rightarrow> rest | None \<Rightarrow> s)
      in if ds \<noteq> [] \<and> list_all is_digit ds \<and> digits_value ds < 2 ^ bits then Some (digits_value ds)
         else None)"

text \<open>The decimal digits of a number: \<open>to_string\<close>.\<close>

fun show_nat :: "nat \<Rightarrow> rstr" where
  "show_nat n =
     (if n < 10 then [byte_char (48 + n)] else show_nat (n div 10) @ [byte_char (48 + n mod 10)])"

declare show_nat.simps [simp del]

section \<open>Round trips\<close>

lemma marker_bits:
  "(192 + x) mod 32 = x mod (32::nat)" "(224 + x) mod 16 = x mod (16::nat)"
  "(240 + x) mod 8 = x mod (8::nat)" "(128 + x) mod 64 = x mod (64::nat)"
  using mod_mult_self3 [of 6 32 x] mod_mult_self3 [of 14 16 x] mod_mult_self3 [of 30 8 x]
    mod_mult_self3 [of 2 64 x]
  by simp_all

lemma digits_64:
  "c div 64 * 64 + c mod 64 = (c::nat)"
  "c div 4096 * 4096 + c div 64 mod 64 * 64 + c mod 64 = (c::nat)"
  "c div 262144 * 262144 + c div 4096 mod 64 * 4096 + c div 64 mod 64 * 64 + c mod 64 = (c::nat)"
proof -
  have d: "c div 4096 = c div 64 div 64" "c div 262144 = c div 4096 div 64"
    by (simp_all add: div_mult2_eq [symmetric])
  have "n div 64 * 64 + n mod 64 = n" for n :: nat
    by simp
  from this [of c] this [of "c div 64"] this [of "c div 4096"]
  show "c div 64 * 64 + c mod 64 = c"
    and "c div 4096 * 4096 + c div 64 mod 64 * 64 + c mod 64 = c"
    and "c div 262144 * 262144 + c div 4096 mod 64 * 4096 + c div 64 mod 64 * 64 + c mod 64 = c"
    unfolding d by linarith+
qed

lemma utf8_decode_encode:
  assumes "c < 0x110000"
  shows "utf8_decode (map of_char (utf8_encode c) @ bs) = c # utf8_decode bs"
  using assms
  by (auto simp: utf8_encode_def byte_char_def marker_bits digits_64)

lemma chars_of_str_of: "\<forall>c\<in>set cs. c < 0x110000 \<Longrightarrow> chars_of (str_of cs) = cs"
proof (induction cs)
  case Nil
  then show ?case
    by (simp add: chars_of_def str_of_def)
next
  case (Cons c cs)
  then show ?case
    using utf8_decode_encode [of c "map of_char (str_of cs)"]
    by (simp add: chars_of_def str_of_def)
qed

end
