(* ===== verification/Std_Helpers.thy ===== *)
theory Std_Helpers
  imports Arithmetic Strings Hir_Types
begin

unbundle bit_operations_syntax

text \<open>
  What the standard functions share (\<open>stdlib/helpers.rs\<close>): the number of arguments, the common kind
  of several values, their conversion to it and their comparison in it, bit strings as numbers with
  a width, and the scaling of times; with the operations of \<open>f64\<close> they use. The arguments of a
  function are a list; a function that panics has the result \<^const>\<open>None\<close>.
\<close>

type_synonym std_func = "rvalue list \<Rightarrow> (runtime_error, rvalue) fueled"

definition require_arity :: "rvalue list \<Rightarrow> nat \<Rightarrow> runtime_error + unit" where
  "require_arity args expected =
     (if length args = expected then Inr () else Inl (InvalidArgumentCount expected (length args)))"

definition require_min :: "rvalue list \<Rightarrow> nat \<Rightarrow> runtime_error + unit" where
  "require_min args mn =
     (if length args \<ge> mn then Inr () else Inl (InvalidArgumentCount mn (length args)))"

text \<open>
  The two checks with \<open>?\<close> before the rest of a function, and the indexing of a slice: \<open>&args[i]\<close> and
  \<open>&args[n..]\<close> panic when the slice is too short.
\<close>

definition with_arity :: "rvalue list \<Rightarrow> nat \<Rightarrow> (runtime_error, 'a) fueled \<Rightarrow> (runtime_error, 'a) fueled" where
  "with_arity args expected body = fbind (Some (require_arity args expected)) (\<lambda>_. body)"

definition with_min :: "rvalue list \<Rightarrow> nat \<Rightarrow> (runtime_error, 'a) fueled \<Rightarrow> (runtime_error, 'a) fueled" where
  "with_min args mn body = fbind (Some (require_min args mn)) (\<lambda>_. body)"

definition arg_at :: "'v list \<Rightarrow> nat \<Rightarrow> ('v \<Rightarrow> 'r option) \<Rightarrow> 'r option" where
  "arg_at args i body = (case nth_opt args i of None \<Rightarrow> None | Some v \<Rightarrow> body v)"

definition args_from :: "'v list \<Rightarrow> nat \<Rightarrow> ('v list \<Rightarrow> 'r option) \<Rightarrow> 'r option" where
  "args_from args n body = (if n \<le> length args then body (drop n args) else None)"

lemma with_arity_ok [simp]: "length args = n \<Longrightarrow> with_arity args n body = body"
  by (simp add: with_arity_def require_arity_def)

lemma with_min_ok [simp]: "n \<le> length args \<Longrightarrow> with_min args n body = body"
  by (simp add: with_min_def require_min_def)

lemma arg_at_ok [simp]: "i < length args \<Longrightarrow> arg_at args i body = body (args ! i)"
  by (simp add: arg_at_def nth_opt_def)

lemma args_from_ok [simp]: "n \<le> length args \<Longrightarrow> args_from args n body = body (drop n args)"
  by (simp add: args_from_def)

text \<open>When the parts of a function panic.\<close>

lemma panic_cases:
  "with_arity args n body = None \<longleftrightarrow> length args = n \<and> body = None"
  "with_min args n body = None \<longleftrightarrow> n \<le> length args \<and> body = None"
  "arg_at args i f = None \<longleftrightarrow> length args \<le> i \<or> f (args ! i) = None"
  "args_from args n g = None \<longleftrightarrow> length args < n \<or> g (drop n args) = None"
  "fbind (Some m) h = None \<longleftrightarrow> (\<exists>x. m = Inr x \<and> h x = None)"
  by (auto simp: arg_at_def nth_opt_def args_from_def with_arity_def with_min_def require_arity_def require_min_def fbind_eq_None)

section \<open>Floating-point numbers\<close>

definition f64_abs :: "f64 \<Rightarrow> f64" where "f64_abs w = w AND NOT (push_bit 63 1)"
definition f32_abs :: "f32 \<Rightarrow> f32" where "f32_abs w = w AND NOT (push_bit 31 1)"

definition f32_is_finite :: "f32 \<Rightarrow> bool" where
  "f32_is_finite w = (case f32_val w of FNum _ _ _ \<Rightarrow> True | _ \<Rightarrow> False)"

text \<open>\<open>trunc\<close> cuts towards zero, \<open>round\<close> takes a half away from zero; both keep the sign of a zero.\<close>

definition f64_trunc :: "f64 \<Rightarrow> f64" where
  "f64_trunc w =
     (case f64_val w of
        FNum s m e \<Rightarrow> if 0 \<le> e then w else to_f64_bits (FNum s (m div 2 ^ nat (- e)) 0)
      | _ \<Rightarrow> w)"

definition f64_round :: "f64 \<Rightarrow> f64" where
  "f64_round w =
     (case f64_val w of
        FNum s m e \<Rightarrow>
          if 0 \<le> e then w
          else to_f64_bits (FNum s ((2 * m + 2 ^ nat (- e)) div (2 * 2 ^ nat (- e))) 0)
      | _ \<Rightarrow> w)"

definition f64_signum :: "f64 \<Rightarrow> f64" where
  "f64_signum w =
     (case f64_val w of
        FNan \<Rightarrow> w
      | FInf s \<Rightarrow> f64_of_int (if s then -1 else 1)
      | FNum s _ _ \<Rightarrow> f64_of_int (if s then -1 else 1))"

text \<open>\<open>x.rem_euclid(2.0) == 0.0\<close>, of a number without a fraction.\<close>

definition f64_is_even :: "f64 \<Rightarrow> bool" where
  "f64_is_even w = (case fp_trunc (f64_val w) of Some i \<Rightarrow> even i | None \<Rightarrow> False)"

definition f64_half :: f64 where "f64_half = f64_div (f64_of_int 1) (f64_of_int 2)"

definition round_ties_to_even :: "f64 \<Rightarrow> f64" where
  "round_ties_to_even value =
     (let truncated = f64_trunc value; frac = f64_sub value truncated in
      if f64_eq (f64_abs frac) f64_half
      then (if f64_is_even truncated then truncated else f64_add truncated (f64_signum frac))
      else f64_round value)"

text \<open>\<open>as i128\<close> saturates, and takes a NaN to zero.\<close>

definition f64_as_i128 :: "f64 \<Rightarrow> int" where
  "f64_as_i128 w =
     (case f64_val w of
        FNan \<Rightarrow> 0
      | FInf s \<Rightarrow> if s then - (2 ^ 127) else 2 ^ 127 - 1
      | x \<Rightarrow> (case fp_trunc x of Some i \<Rightarrow> max (- (2 ^ 127)) (min (2 ^ 127 - 1) i) | None \<Rightarrow> 0))"

section \<open>Bit strings\<close>

definition bit_value :: "rvalue \<Rightarrow> runtime_error + u64 \<times> nat" where
  "bit_value value =
     (case value of
        VBool v \<Rightarrow> Inr (if v then 1 else 0, 1)
      | VByte v \<Rightarrow> Inr (ucast v, 8)
      | VWord v \<Rightarrow> Inr (ucast v, 16)
      | VDWord v \<Rightarrow> Inr (ucast v, 32)
      | VLWord v \<Rightarrow> Inr (v, 64)
      | _ \<Rightarrow> Inl TypeMismatch)"

definition bit_value_to_result :: "u64 \<Rightarrow> nat \<Rightarrow> rvalue" where
  "bit_value_to_result value width =
     (if width = 1 then VBool (value AND 1 = 1)
      else if width = 8 then VByte (ucast value)
      else if width = 16 then VWord (ucast value)
      else if width = 32 then VDWord (ucast value)
      else VLWord value)"

definition mask_for :: "nat \<Rightarrow> u64" where
  "mask_for width = (if width \<ge> 64 then - 1 else push_bit width 1 - 1)"

section \<open>Common kinds\<close>

datatype time_kind = TkTime | TkLTime | TkDate | TkLDate | TkTod | TkLTod | TkDt | TkLdt

datatype common_kind =
    CkNumeric numeric_kind
  | CkBit nat
  | CkString bool
  | CkTime time_kind
  | CkEnum rstr

datatype cmp_op = CmpLt | CmpLe | CmpGt | CmpGe | CmpEq | CmpNe

definition classify_value :: "rvalue \<Rightarrow> common_kind option" where
  "classify_value value =
     (case numeric_kind_of value of
        Some kind \<Rightarrow> Some (CkNumeric kind)
      | None \<Rightarrow>
          (case bit_value value of
             Inr (_, width) \<Rightarrow> Some (CkBit width)
           | Inl _ \<Rightarrow>
               (case value of
                  VString _ \<Rightarrow> Some (CkString False)
                | VWString _ \<Rightarrow> Some (CkString True)
                | VTime _ \<Rightarrow> Some (CkTime TkTime)
                | VLTime _ \<Rightarrow> Some (CkTime TkLTime)
                | VDate _ \<Rightarrow> Some (CkTime TkDate)
                | VLDate _ \<Rightarrow> Some (CkTime TkLDate)
                | VTod _ \<Rightarrow> Some (CkTime TkTod)
                | VLTod _ \<Rightarrow> Some (CkTime TkLTod)
                | VDt _ \<Rightarrow> Some (CkTime TkDt)
                | VLdt _ \<Rightarrow> Some (CkTime TkLdt)
                | VEnum type_name _ _ \<Rightarrow> Some (CkEnum type_name)
                | _ \<Rightarrow> None)))"

definition join_kind :: "common_kind \<Rightarrow> common_kind \<Rightarrow> runtime_error + common_kind" where
  "join_kind a b =
     (case (a, b) of
        (CkNumeric a, CkNumeric b) \<Rightarrow> Inr (CkNumeric (wider_numeric a b))
      | (CkBit a, CkBit b) \<Rightarrow> Inr (CkBit (max a b))
      | (CkString a, CkString b) \<Rightarrow> if a \<noteq> b then Inl TypeMismatch else Inr (CkString a)
      | (CkTime a, CkTime b) \<Rightarrow> if a \<noteq> b then Inl TypeMismatch else Inr (CkTime a)
      | (CkEnum a, CkEnum b) \<Rightarrow> if a \<noteq> b then Inl TypeMismatch else Inr (CkEnum a)
      | _ \<Rightarrow> Inl TypeMismatch)"

fun common_of :: "common_kind option \<Rightarrow> rvalue list \<Rightarrow> runtime_error + common_kind" where
  "common_of common [] = ok_or common TypeMismatch"
| "common_of common (value # values') =
     rbind (ok_or (classify_value value) TypeMismatch) (\<lambda>kind.
     rbind (case common of None \<Rightarrow> Inr kind | Some a \<Rightarrow> join_kind a kind) (\<lambda>common.
       common_of (Some common) values'))"

definition common_kind :: "rvalue list \<Rightarrow> runtime_error + common_kind" where
  "common_kind vals = common_of None vals"

definition has_time_kind :: "time_kind \<Rightarrow> rvalue \<Rightarrow> bool" where
  "has_time_kind kind value \<longleftrightarrow> classify_value value = Some (CkTime kind)"

definition has_enum_type :: "rstr \<Rightarrow> rvalue \<Rightarrow> bool" where
  "has_enum_type name value = (case value of VEnum type_name _ _ \<Rightarrow> type_name = name | _ \<Rightarrow> False)"

definition coerce_to_common :: "rvalue \<Rightarrow> common_kind \<Rightarrow> runtime_error + rvalue" where
  "coerce_to_common value kind =
     (case kind of
        CkNumeric target \<Rightarrow>
          if target = NkReal then rmap (\<lambda>v. VReal (f32_of_f64 v)) (to_f64 value)
          else if target = NkLReal then rmap VLReal (to_f64 value)
          else if is_signed_kind target
          then rbind (to_i64 value) (\<lambda>v. signed_from_i128 target (sint v))
          else rbind (to_u64 value) (\<lambda>v. unsigned_from_u128 target (uint v))
      | CkBit width \<Rightarrow>
          rmap (\<lambda>(bits, _). bit_value_to_result (bits AND mask_for width) width) (bit_value value)
      | CkString wide \<Rightarrow>
          (case value of
             VWString _ \<Rightarrow> if wide then Inr value else Inl TypeMismatch
           | VString _ \<Rightarrow> if wide then Inl TypeMismatch else Inr value
           | _ \<Rightarrow> Inl TypeMismatch)
      | CkTime kind \<Rightarrow> if has_time_kind kind value then Inr value else Inl TypeMismatch
      | CkEnum name \<Rightarrow> if has_enum_type name value then Inr value else Inl TypeMismatch)"

text \<open>The comparison of a totally ordered type, and of floating-point numbers.\<close>

definition compare_ord :: "('a \<Rightarrow> 'a \<Rightarrow> bool) \<Rightarrow> 'a \<Rightarrow> 'a \<Rightarrow> cmp_op \<Rightarrow> bool" where
  "compare_ord lt left right op =
     (case op of
        CmpLt \<Rightarrow> lt left right
      | CmpLe \<Rightarrow> \<not> lt right left
      | CmpGt \<Rightarrow> lt right left
      | CmpGe \<Rightarrow> \<not> lt left right
      | CmpEq \<Rightarrow> left = right
      | CmpNe \<Rightarrow> left \<noteq> right)"

definition compare_float :: "f64 \<Rightarrow> f64 \<Rightarrow> cmp_op \<Rightarrow> bool" where
  "compare_float left right op =
     (case op of
        CmpLt \<Rightarrow> f64_lt left right
      | CmpLe \<Rightarrow> f64_le left right
      | CmpGt \<Rightarrow> f64_lt right left
      | CmpGe \<Rightarrow> f64_le right left
      | CmpEq \<Rightarrow> f64_eq left right
      | CmpNe \<Rightarrow> \<not> f64_eq left right)"

definition time_value_as_i128 :: "rvalue \<Rightarrow> time_kind \<Rightarrow> runtime_error + int" where
  "time_value_as_i128 value kind =
     (case (kind, value) of
        (TkTime, VTime t) \<Rightarrow> Inr (sint t)
      | (TkLTime, VLTime t) \<Rightarrow> Inr (sint t)
      | (TkDate, VDate t) \<Rightarrow> Inr (sint t)
      | (TkLDate, VLDate t) \<Rightarrow> Inr (sint t)
      | (TkTod, VTod t) \<Rightarrow> Inr (sint t)
      | (TkLTod, VLTod t) \<Rightarrow> Inr (sint t)
      | (TkDt, VDt t) \<Rightarrow> Inr (sint t)
      | (TkLdt, VLdt t) \<Rightarrow> Inr (sint t)
      | _ \<Rightarrow> Inl TypeMismatch)"

definition string_of_width :: "bool \<Rightarrow> rvalue \<Rightarrow> runtime_error + rstr" where
  "string_of_width wide value =
     (case value of
        VWString s \<Rightarrow> if wide then Inr s else Inl TypeMismatch
      | VString s \<Rightarrow> if wide then Inl TypeMismatch else Inr s
      | _ \<Rightarrow> Inl TypeMismatch)"

definition enum_number :: "rstr \<Rightarrow> rvalue \<Rightarrow> runtime_error + i64" where
  "enum_number name value =
     (case value of
        VEnum type_name _ n \<Rightarrow> if type_name = name then Inr n else Inl TypeMismatch
      | _ \<Rightarrow> Inl TypeMismatch)"

definition compare_common :: "rvalue \<Rightarrow> rvalue \<Rightarrow> common_kind \<Rightarrow> cmp_op \<Rightarrow> runtime_error + bool" where
  "compare_common a b kind op =
     (let both = (\<lambda>read compare. rbind (read a) (\<lambda>left. rbind (read b) (\<lambda>right.
            Inr (compare left right op))));
          ints = (\<lambda>read. rbind (read a) (\<lambda>left. rbind (read b) (\<lambda>right.
            Inr (compare_ord (<) left right op))))
      in case kind of
           CkNumeric target \<Rightarrow>
             if target \<in> {NkReal, NkLReal}
             then rbind (to_f64 a) (\<lambda>left. rbind (to_f64 b) (\<lambda>right. Inr (compare_float left right op)))
             else if is_signed_kind target then ints (\<lambda>v. rmap sint (to_i64 v))
             else ints (\<lambda>v. rmap uint (to_u64 v))
         | CkBit width \<Rightarrow> ints (\<lambda>v. rmap (\<lambda>(bits, _). uint (bits AND mask_for width)) (bit_value v))
         | CkString wide \<Rightarrow> both (string_of_width wide) (compare_ord str_less)
         | CkTime kind \<Rightarrow> ints (\<lambda>v. time_value_as_i128 v kind)
         | CkEnum name \<Rightarrow> ints (\<lambda>v. rmap sint (enum_number name v)))"

section \<open>Scaling of times\<close>

definition scale_time :: "duration \<Rightarrow> rvalue \<Rightarrow> bool \<Rightarrow> runtime_error + duration" where
  "scale_time time factor multiply =
     rbind (to_f64 factor) (\<lambda>factor.
       if \<not> f64_is_finite factor then Inl Overflow
       else if \<not> multiply \<and> f64_is_zero factor then Inl DivisionByZero
       else
         (let nanos = f64_of_int (sint time);
              result = (if multiply then f64_mul nanos factor else f64_div nanos factor);
              result = round_ties_to_even result
          in if \<not> f64_is_finite result then Inl Overflow else i64_try_from (f64_as_i128 result)))"

end
