(* ===== verification/Calendar.thy ===== *)
theory Calendar
  imports Numeric "HOL-Library.Signed_Division"
begin

text \<open>
  Days and dates (\<open>datetime.rs\<close>) and the functions that split a date or a time into its parts
  (\<open>stdlib/time.rs\<close>). An \<open>i64\<close> is an integer in its range; \<open>wrap64\<close> writes the wrap-around out.
  A division by zero is a panic, the outer \<^const>\<open>None\<close>.
\<close>

section \<open>Arithmetic on \<open>i64\<close>\<close>

definition wrap64 :: "int \<Rightarrow> int" where
  "wrap64 i = (i + 2 ^ 63) mod 2 ^ 64 - 2 ^ 63"

definition i64_checked :: "int \<Rightarrow> int option" where
  "i64_checked i = (if - (2 ^ 63) \<le> i \<and> i < 2 ^ 63 then Some i else None)"

text \<open>The division of Rust, towards zero; \<open>div_euclid\<close> by a positive number is \<^const>\<open>divide\<close>.\<close>

definition quot :: "int \<Rightarrow> int \<Rightarrow> int" where
  "quot a b = a sdiv b"

section \<open>Days and dates\<close>

definition nanos_per_day :: int where
  "nanos_per_day = 86400000000000"

datatype division_mode = DivTrunc | DivEuclid

definition days_from_civil :: "int \<Rightarrow> int \<Rightarrow> int \<Rightarrow> date_time_calc_error + int" where
  "days_from_civil year month day =
     (if \<not> (1 \<le> month \<and> month \<le> 12) \<or> \<not> (1 \<le> day \<and> day \<le> 31) then Inl DcInvalidDate
      else
        (let y = wrap64 (year - (if month \<le> 2 then 1 else 0));
             era = quot (if 0 \<le> y then y else wrap64 (y - 399)) 400;
             yoe = wrap64 (y - era * 400);
             m = month + (if month > 2 then -3 else 9);
             doy = quot (153 * m + 2) 5 + day - 1;
             doe = wrap64 (yoe * 365 + quot yoe 4 - quot yoe 100 + doy)
         in Inr (wrap64 (era * 146097 + doe - 719468))))"

definition civil_from_days :: "int \<Rightarrow> int \<times> int \<times> int" where
  "civil_from_days days =
     (let z = wrap64 (days + 719468);
          era = quot (if 0 \<le> z then z else wrap64 (z - 146096)) 146097;
          doe = wrap64 (z - era * 146097);
          yoe = quot (doe - quot doe 1460 + quot doe 36524 - quot doe 146096) 365;
          y = wrap64 (yoe + era * 400);
          doy = doe - (365 * yoe + quot yoe 4 - quot yoe 100);
          mp = quot (5 * doy + 2) 153;
          d = doy - quot (153 * mp + 2) 5 + 1;
          m = mp + (if mp < 10 then 3 else -9);
          year = wrap64 (y + (if m \<le> 2 then 1 else 0))
      in (year, m, d))"

definition ticks_per_day :: "date_time_profile \<Rightarrow> date_time_calc_error + int" where
  "ticks_per_day profile =
     (let res = sint (dtp_resolution profile)
      in if res \<le> 0 then Inl DcInvalidResolution else Inr (quot nanos_per_day res))"

definition days_to_ticks :: "int \<Rightarrow> date_time_profile \<Rightarrow> date_time_calc_error + int" where
  "days_to_ticks days profile =
     rbind (ticks_per_day profile) (\<lambda>per_day.
       ok_or (Option.bind (i64_checked (days * per_day))
         (\<lambda>v. i64_checked (v + sint (dtp_epoch profile)))) DcOverflow)"

definition nanos_to_ticks ::
    "int \<Rightarrow> date_time_profile \<Rightarrow> division_mode \<Rightarrow> date_time_calc_error + int" where
  "nanos_to_ticks nanos profile mode =
     (let res = sint (dtp_resolution profile) in
      if res \<le> 0 then Inl DcInvalidResolution
      else (case mode of DivTrunc \<Rightarrow> Inr (quot nanos res) | DivEuclid \<Rightarrow> Inr (nanos div res)))"

section \<open>The parts of a date and of a time\<close>

definition calc :: "date_time_calc_error + 'a \<Rightarrow> runtime_error + 'a" where
  "calc m = (case m of Inl e \<Rightarrow> Inl (from_date_time_calc_error e) | Inr x \<Rightarrow> Inr x)"

definition tod_from_nanos :: "int \<Rightarrow> int list" where
  "tod_from_nanos nanos =
     (let hours = quot nanos 3600000000000;
          remainder = nanos smod 3600000000000;
          minutes = quot remainder 60000000000;
          remainder = remainder smod 60000000000;
          seconds = quot remainder 1000000000;
          remainder = remainder smod 1000000000;
          millis = quot remainder 1000000
      in [hours, minutes, seconds, millis])"

definition civil_list :: "int \<Rightarrow> int list" where
  "civil_list days = (case civil_from_days days of (y, m, d) \<Rightarrow> [y, m, d])"

definition date_ticks_to_days :: "i64 \<Rightarrow> date_time_profile \<Rightarrow> (runtime_error, int) fueled" where
  "date_ticks_to_days date profile =
     fbind (Some (ok_or (i64_checked (sint date - sint (dtp_epoch profile))) Overflow)) (\<lambda>ticks.
     fbind (Some (calc (ticks_per_day profile))) (\<lambda>per_day.
       if per_day = 0 then None else Some (Inr (ticks div per_day))))"

definition split_date :: "rvalue \<Rightarrow> date_time_profile \<Rightarrow> (runtime_error, int list) fueled" where
  "split_date value profile =
     (case value of
        VDate date \<Rightarrow>
          fbind (date_ticks_to_days date profile) (\<lambda>days. Some (Inr (civil_list days)))
      | _ \<Rightarrow> Some (Inl TypeMismatch))"

definition split_tod :: "rvalue \<Rightarrow> date_time_profile \<Rightarrow> runtime_error + int list" where
  "split_tod value profile =
     (case value of
        VTod tod \<Rightarrow>
          (let res = sint (dtp_resolution profile) in
           if res \<le> 0 then Inl Overflow
           else rbind (ok_or (i64_checked (sint tod * res)) Overflow) (\<lambda>nanos.
             Inr (tod_from_nanos nanos)))
      | _ \<Rightarrow> Inl TypeMismatch)"

definition split_ltod :: "rvalue \<Rightarrow> runtime_error + int list" where
  "split_ltod value =
     (case value of VLTod tod \<Rightarrow> Inr (tod_from_nanos (sint tod)) | _ \<Rightarrow> Inl TypeMismatch)"

definition split_dt :: "rvalue \<Rightarrow> date_time_profile \<Rightarrow> (runtime_error, int list) fueled" where
  "split_dt value profile =
     (case value of
        VDt dt \<Rightarrow>
          fbind (Some (ok_or (i64_checked (sint dt - sint (dtp_epoch profile))) Overflow)) (\<lambda>ticks.
          fbind (Some (calc (ticks_per_day profile))) (\<lambda>per_day.
            if per_day = 0 then None
            else
              fbind (Some (ok_or (i64_checked (ticks mod per_day * sint (dtp_resolution profile)))
                Overflow)) (\<lambda>nanos.
                Some (Inr (civil_list (ticks div per_day) @ tod_from_nanos nanos)))))
      | _ \<Rightarrow> Some (Inl TypeMismatch))"

definition split_ldt :: "rvalue \<Rightarrow> runtime_error + int list" where
  "split_ldt value =
     (case value of
        VLdt dt \<Rightarrow>
          Inr (civil_list (sint dt div nanos_per_day)
            @ tod_from_nanos (sint dt mod nanos_per_day))
      | _ \<Rightarrow> Inl TypeMismatch)"

definition is_split_name :: "rstr \<Rightarrow> bool" where
  "is_split_name name \<longleftrightarrow>
     name \<in> set [''SPLIT_DATE'', ''SPLIT_TOD'', ''SPLIT_LTOD'', ''SPLIT_DT'', ''SPLIT_LDT'']"

end
