(* ===== verification/Std_Text.thy ===== *)
theory Std_Text
  imports Std_Helpers Calendar
begin

text \<open>
  The standard functions on strings (\<open>stdlib/string.rs\<close>). Both kinds of string are UTF-8 bytes; a
  \<open>STRING\<close> is taken apart at bytes, so that a cut within a character is a type mismatch, and a
  \<open>WSTRING\<close> at characters. Positions count from one. An index past the end of a slice is a panic.
\<close>

section \<open>Slices and positions\<close>

definition checked_utf8 :: "rstr \<Rightarrow> runtime_error + rvalue" where
  "checked_utf8 s = (if wf_str s then Inr (VString s) else Inl TypeMismatch)"

text \<open>\<open>&bytes[start..end]\<close>.\<close>

definition byte_slice :: "nat \<Rightarrow> nat \<Rightarrow> rstr \<Rightarrow> rstr option" where
  "byte_slice start stop s =
     (if start \<le> stop \<and> stop \<le> length s then Some (take (stop - start) (drop start s)) else None)"

definition start_index :: "i64 \<Rightarrow> nat" where
  "start_index position = (if sint position \<le> 1 then 0 else nat (sint position) - 1)"

text \<open>
  \<open>(start as i64 + length).min(len as i64) as usize\<close>: the sum wraps around, and a negative number
  becomes a huge index.
\<close>

definition end_index :: "nat \<Rightarrow> i64 \<Rightarrow> nat \<Rightarrow> nat" where
  "end_index start count len =
     nat (min (wrap64 (int start + sint count)) (int len) mod 2 ^ 64)"

definition take_count :: "i64 \<Rightarrow> nat \<Rightarrow> nat" where
  "take_count count len = (if sint count \<le> 0 then 0 else min (nat (sint count)) len)"

text \<open>An integer argument.\<close>

definition i64_arg ::
    "rvalue list \<Rightarrow> nat \<Rightarrow> (i64 \<Rightarrow> (runtime_error, 'a) fueled) \<Rightarrow> (runtime_error, 'a) fueled" where
  "i64_arg args i body = arg_at args i (\<lambda>value. fbind (Some (to_i64 value)) body)"

section \<open>The functions\<close>

definition std_len :: std_func where
  "std_len args =
     with_arity args 1 (arg_at args 0 (\<lambda>value. Some
       (rbind
         (case value of
            VString s \<Rightarrow> Inr (length s)
          | VWString s \<Rightarrow> Inr (length (chars_of s))
          | _ \<Rightarrow> Inl TypeMismatch) (\<lambda>len.
        if len > 32767 then Inl Overflow else Inr (VInt (of_nat len))))))"

definition std_left :: std_func where
  "std_left args =
     with_arity args 2 (i64_arg args 1 (\<lambda>count. arg_at args 0 (\<lambda>value.
       case value of
         VString s \<Rightarrow>
           map_option checked_utf8 (byte_slice 0 (take_count count (length s)) s)
       | VWString s \<Rightarrow>
           Some (Inr (VWString (str_of (take (if sint count \<le> 0 then 0 else nat (sint count)) (chars_of s)))))
       | _ \<Rightarrow> Some (Inl TypeMismatch))))"

definition std_right :: std_func where
  "std_right args =
     with_arity args 2 (i64_arg args 1 (\<lambda>count. arg_at args 0 (\<lambda>value.
       case value of
         VString s \<Rightarrow>
           map_option checked_utf8
             (byte_slice (length s - take_count count (length s)) (length s) s)
       | VWString s \<Rightarrow>
           (let cs = chars_of s
            in Some (Inr (VWString (str_of (drop (length cs - take_count count (length cs)) cs)))))
       | _ \<Rightarrow> Some (Inl TypeMismatch))))"

definition std_mid :: std_func where
  "std_mid args =
     with_arity args 3 (i64_arg args 1 (\<lambda>count. i64_arg args 2 (\<lambda>position. arg_at args 0 (\<lambda>value.
       case value of
         VString s \<Rightarrow>
           (let len = length s; start = start_index position in
            if start \<ge> len \<or> sint count \<le> 0 then Some (Inr (VString []))
            else map_option checked_utf8 (byte_slice start (end_index start count len) s))
       | VWString s \<Rightarrow>
           (let cs = chars_of s; len = length cs; start = start_index position in
            if start \<ge> len \<or> sint count \<le> 0 then Some (Inr (VWString []))
            else Some (Inr (VWString (str_of
              (take (end_index start count len - start) (drop start cs))))))
       | _ \<Rightarrow> Some (Inl TypeMismatch)))))"

definition std_concat :: std_func where
  "std_concat args =
     with_min args 2 (arg_at args 0 (\<lambda>value. Some
       (case value of
          VString _ \<Rightarrow> rmap (\<lambda>parts. VString (concat parts)) (collect (string_of_width False) args)
        | VWString _ \<Rightarrow> rmap (\<lambda>parts. VWString (concat parts)) (collect (string_of_width True) args)
        | _ \<Rightarrow> Inl TypeMismatch)))"

definition insert_index :: "i64 \<Rightarrow> nat \<Rightarrow> nat" where
  "insert_index position len = (if sint position \<le> 0 then 0 else min (nat (sint position)) len)"

text \<open>The string with the part between two indices replaced: its bytes, and its characters.\<close>

definition splice :: "nat \<Rightarrow> nat \<Rightarrow> rstr \<Rightarrow> rstr \<Rightarrow> (runtime_error, rvalue) fueled" where
  "splice start stop repl s =
     Option.bind (byte_slice 0 start s) (\<lambda>before.
       map_option (\<lambda>after. checked_utf8 (before @ repl @ after)) (byte_slice stop (length s) s))"

definition splice_chars :: "nat \<Rightarrow> nat \<Rightarrow> rstr \<Rightarrow> nat list \<Rightarrow> rvalue" where
  "splice_chars start stop repl cs =
     VWString (str_of (take start cs) @ repl @ str_of (drop stop cs))"

definition std_insert :: std_func where
  "std_insert args =
     with_arity args 3 (i64_arg args 2 (\<lambda>position. arg_at args 0 (\<lambda>a. arg_at args 1 (\<lambda>b.
       case (a, b) of
         (VString in1, VString in2) \<Rightarrow>
           (let idx = insert_index position (length in1) in splice idx idx in2 in1)
       | (VWString in1, VWString in2) \<Rightarrow>
           (let cs = chars_of in1; idx = insert_index position (length cs)
            in Some (Inr (splice_chars idx idx in2 cs)))
       | _ \<Rightarrow> Some (Inl TypeMismatch)))))"

definition std_delete :: std_func where
  "std_delete args =
     with_arity args 3 (i64_arg args 1 (\<lambda>count. i64_arg args 2 (\<lambda>position. arg_at args 0 (\<lambda>value.
       case value of
         VString s \<Rightarrow>
           (let len = length s; start = start_index position in
            if sint count \<le> 0 \<or> start \<ge> len then Some (Inr (VString s))
            else splice start (end_index start count len) [] s)
       | VWString s \<Rightarrow>
           (let cs = chars_of s; len = length cs; start = start_index position in
            if sint count \<le> 0 \<or> start \<ge> len then Some (Inr (VWString s))
            else Some (Inr (splice_chars start (end_index start count len) [] cs)))
       | _ \<Rightarrow> Some (Inl TypeMismatch)))))"

definition std_replace :: std_func where
  "std_replace args =
     with_arity args 4 (i64_arg args 2 (\<lambda>count. i64_arg args 3 (\<lambda>position.
     arg_at args 0 (\<lambda>a. arg_at args 1 (\<lambda>b.
       case (a, b) of
         (VString s, VString repl) \<Rightarrow>
           (let len = length s; start = start_index position in
            if start \<ge> len then Some (Inr (VString s))
            else splice start (if sint count \<le> 0 then start else end_index start count len) repl s)
       | (VWString s, VWString repl) \<Rightarrow>
           (let cs = chars_of s; len = length cs; start = start_index position in
            if start \<ge> len then Some (Inr (VWString s))
            else Some (Inr (splice_chars start
              (if sint count \<le> 0 then start else end_index start count len) repl cs)))
       | _ \<Rightarrow> Some (Inl TypeMismatch))))))"

text \<open>
  \<open>str::find\<close> gives the length of the part before the first occurrence, which ends between two
  characters.
\<close>

definition position_result :: "nat \<Rightarrow> runtime_error + rvalue" where
  "position_result pos = (if pos > 32767 then Inl Overflow else Inr (VInt (of_nat pos)))"

definition std_find :: std_func where
  "std_find args =
     with_arity args 2 (arg_at args 0 (\<lambda>a. arg_at args 1 (\<lambda>b.
       case (a, b) of
         (VString in1, VString in2) \<Rightarrow>
           Some (position_result
             (case split_once in2 in1 of Some (before, _) \<Rightarrow> length before + 1 | None \<Rightarrow> 0))
       | (VWString in1, VWString in2) \<Rightarrow>
           if in2 = [] then Some (Inr (VInt 1))
           else
             (case split_once in2 in1 of
                Some (before, _) \<Rightarrow>
                  map_option (\<lambda>part. position_result (length (chars_of part) + 1))
                    (byte_slice 0 (length before) in1)
              | None \<Rightarrow> Some (position_result 0))
       | _ \<Rightarrow> Some (Inl TypeMismatch))))"

end
