(* ===== verification/Std_Conversions.thy ===== *)
theory Std_Conversions
  imports Std_Helpers Calendar
begin

unbundle bit_operations_syntax

text \<open>
  The conversions between the elementary types (\<open>stdlib/conversions\<close>): the shapes of their names, the
  pairs of types they are defined for, and the conversion of each kind of value. An \<open>i128\<close> is an
  integer.
\<close>

section \<open>Names and types (\<open>spec.rs\<close>, \<open>util.rs\<close>)\<close>

datatype conversion_mode = ConvRound | ConvTrunc

datatype conversion_spec =
    SpecConvert "type_id option" type_id
  | SpecTrunc "type_id option" type_id
  | SpecToBcd "type_id option" type_id
  | SpecBcdTo "type_id option" type_id

definition spec_to ::
    "(type_id option \<Rightarrow> type_id \<Rightarrow> conversion_spec) \<Rightarrow> rstr \<Rightarrow> conversion_spec option" where
  "spec_to build dst_name = map_option (build None) (from_builtin_name dst_name)"

definition spec_between ::
    "(type_id option \<Rightarrow> type_id \<Rightarrow> conversion_spec) \<Rightarrow> rstr \<times> rstr \<Rightarrow> conversion_spec option" where
  "spec_between build names =
     Option.bind (from_builtin_name (fst names)) (\<lambda>src.
       map_option (build (Some src)) (from_builtin_name (snd names)))"

text \<open>The tests come in order; the first that applies decides.\<close>

definition parse_conversion_spec :: "rstr \<Rightarrow> conversion_spec option" where
  "parse_conversion_spec name =
     (let upper = to_ascii_uppercase name in
      if upper = ''TRUNC'' then Some (SpecTrunc None TypeId_DINT)
      else case strip_prefix ''TRUNC_'' upper of Some dst \<Rightarrow> spec_to SpecTrunc dst
      | None \<Rightarrow> (case split_once ''_TRUNC_'' upper of Some names \<Rightarrow> spec_between SpecTrunc names
      | None \<Rightarrow> (case strip_prefix ''TO_BCD_'' upper of Some dst \<Rightarrow> spec_to SpecToBcd dst
      | None \<Rightarrow> (case split_once ''_TO_BCD_'' upper of Some names \<Rightarrow> spec_between SpecToBcd names
      | None \<Rightarrow> (case strip_prefix ''BCD_TO_'' upper of Some dst \<Rightarrow> spec_to SpecBcdTo dst
      | None \<Rightarrow> (case split_once ''_BCD_TO_'' upper of Some names \<Rightarrow> spec_between SpecBcdTo names
      | None \<Rightarrow> (case strip_prefix ''TO_'' upper of Some dst \<Rightarrow> spec_to SpecConvert dst
      | None \<Rightarrow> (case split_once ''_TO_'' upper of Some names \<Rightarrow> spec_between SpecConvert names
      | None \<Rightarrow> None))))))))"

definition is_conversion_name :: "rstr \<Rightarrow> bool" where
  "is_conversion_name name \<longleftrightarrow> parse_conversion_spec name \<noteq> None"

definition is_signed_int_type :: "type_id \<Rightarrow> bool" where
  "is_signed_int_type ty \<longleftrightarrow> ty \<in> {TypeId_SINT, TypeId_INT, TypeId_DINT, TypeId_LINT}"

definition is_unsigned_int_type :: "type_id \<Rightarrow> bool" where
  "is_unsigned_int_type ty \<longleftrightarrow> ty \<in> {TypeId_USINT, TypeId_UINT, TypeId_UDINT, TypeId_ULINT}"

definition is_integer_type :: "type_id \<Rightarrow> bool" where
  "is_integer_type ty \<longleftrightarrow>
     ty \<in> {TypeId_SINT, TypeId_INT, TypeId_DINT, TypeId_LINT,
           TypeId_USINT, TypeId_UINT, TypeId_UDINT, TypeId_ULINT}"

definition is_bit_string_type :: "type_id \<Rightarrow> bool" where
  "is_bit_string_type ty \<longleftrightarrow>
     ty \<in> {TypeId_BOOL, TypeId_BYTE, TypeId_WORD, TypeId_DWORD, TypeId_LWORD}"

definition is_numeric_type :: "type_id \<Rightarrow> bool" where
  "is_numeric_type ty \<longleftrightarrow>
     ty \<in> {TypeId_SINT, TypeId_INT, TypeId_DINT, TypeId_LINT, TypeId_USINT, TypeId_UINT,
           TypeId_UDINT, TypeId_ULINT, TypeId_REAL, TypeId_LREAL}"

definition is_conversion_allowed :: "type_id \<Rightarrow> type_id \<Rightarrow> bool" where
  "is_conversion_allowed src dst \<longleftrightarrow>
     (let bits = {TypeId_BYTE, TypeId_WORD, TypeId_DWORD, TypeId_LWORD} in
        src = dst
      \<or> is_numeric_type src \<and> is_numeric_type dst
      \<or> src \<in> bits \<and> dst \<in> bits
      \<or> is_bit_string_type src \<and> is_integer_type dst
      \<or> src = TypeId_DWORD \<and> dst = TypeId_REAL
      \<or> src = TypeId_LWORD \<and> dst = TypeId_LREAL
      \<or> dst \<in> bits \<and> is_integer_type src
      \<or> src = TypeId_REAL \<and> dst = TypeId_DWORD
      \<or> src = TypeId_LREAL \<and> dst = TypeId_LWORD
      \<or> src = TypeId_LTIME \<and> dst = TypeId_TIME
      \<or> src = TypeId_TIME \<and> dst = TypeId_LTIME
      \<or> src = TypeId_LDT \<and> dst \<in> {TypeId_DT, TypeId_DATE, TypeId_LTOD, TypeId_TOD}
      \<or> src = TypeId_DT \<and> dst \<in> {TypeId_LDT, TypeId_DATE, TypeId_LTOD, TypeId_TOD}
      \<or> src = TypeId_LTOD \<and> dst = TypeId_TOD
      \<or> src = TypeId_TOD \<and> dst = TypeId_LTOD
      \<or> src = TypeId_WSTRING \<and> dst \<in> {TypeId_STRING, TypeId_WCHAR}
      \<or> src = TypeId_STRING \<and> dst \<in> {TypeId_WSTRING, TypeId_CHAR}
      \<or> src = TypeId_WCHAR \<and> dst \<in> {TypeId_WSTRING, TypeId_CHAR}
      \<or> src = TypeId_CHAR \<and> dst \<in> {TypeId_STRING, TypeId_WCHAR})"

definition value_type_id :: "rvalue \<Rightarrow> type_id option" where
  "value_type_id value =
     (case value of
        VBool _ \<Rightarrow> Some TypeId_BOOL
      | VSInt _ \<Rightarrow> Some TypeId_SINT
      | VInt _ \<Rightarrow> Some TypeId_INT
      | VDInt _ \<Rightarrow> Some TypeId_DINT
      | VLInt _ \<Rightarrow> Some TypeId_LINT
      | VUSInt _ \<Rightarrow> Some TypeId_USINT
      | VUInt _ \<Rightarrow> Some TypeId_UINT
      | VUDInt _ \<Rightarrow> Some TypeId_UDINT
      | VULInt _ \<Rightarrow> Some TypeId_ULINT
      | VReal _ \<Rightarrow> Some TypeId_REAL
      | VLReal _ \<Rightarrow> Some TypeId_LREAL
      | VByte _ \<Rightarrow> Some TypeId_BYTE
      | VWord _ \<Rightarrow> Some TypeId_WORD
      | VDWord _ \<Rightarrow> Some TypeId_DWORD
      | VLWord _ \<Rightarrow> Some TypeId_LWORD
      | VTime _ \<Rightarrow> Some TypeId_TIME
      | VLTime _ \<Rightarrow> Some TypeId_LTIME
      | VDate _ \<Rightarrow> Some TypeId_DATE
      | VLDate _ \<Rightarrow> Some TypeId_LDATE
      | VTod _ \<Rightarrow> Some TypeId_TOD
      | VLTod _ \<Rightarrow> Some TypeId_LTOD
      | VDt _ \<Rightarrow> Some TypeId_DT
      | VLdt _ \<Rightarrow> Some TypeId_LDT
      | VString _ \<Rightarrow> Some TypeId_STRING
      | VWString _ \<Rightarrow> Some TypeId_WSTRING
      | VChar _ \<Rightarrow> Some TypeId_CHAR
      | VWChar _ \<Rightarrow> Some TypeId_WCHAR
      | _ \<Rightarrow> None)"

section \<open>Integers (\<open>numeric.rs\<close>)\<close>

text \<open>
  A negative number has no unsigned type, and the others pass through \<open>value as u64\<close>, which keeps the
  low 64 bits.
\<close>

definition signed_int_of :: "int \<Rightarrow> type_id \<Rightarrow> runtime_error + rvalue" where
  "signed_int_of value dst =
     (if dst = TypeId_SINT then ok_or (map_option VSInt (signed_try_from value)) Overflow
      else if dst = TypeId_INT then ok_or (map_option VInt (signed_try_from value)) Overflow
      else if dst = TypeId_DINT then ok_or (map_option VDInt (signed_try_from value)) Overflow
      else if dst = TypeId_LINT then ok_or (map_option VLInt (signed_try_from value)) Overflow
      else Inl TypeMismatch)"

definition unsigned_int_from_u64 :: "u64 \<Rightarrow> type_id \<Rightarrow> runtime_error + rvalue" where
  "unsigned_int_from_u64 value dst =
     (if dst = TypeId_USINT then ok_or (map_option VUSInt (unsigned_try_from (uint value))) Overflow
      else if dst = TypeId_UINT then ok_or (map_option VUInt (unsigned_try_from (uint value))) Overflow
      else if dst = TypeId_UDINT then ok_or (map_option VUDInt (unsigned_try_from (uint value))) Overflow
      else if dst = TypeId_ULINT then Inr (VULInt value)
      else if is_signed_int_type dst
      then (if uint value > 2 ^ 63 - 1 then Inl Overflow else signed_int_of (uint value) dst)
      else Inl TypeMismatch)"

definition signed_int_from_i128 :: "int \<Rightarrow> type_id \<Rightarrow> runtime_error + rvalue" where
  "signed_int_from_i128 value dst =
     (if is_unsigned_int_type dst
      then (if value < 0 then Inl Overflow else unsigned_int_from_u64 (word_of_int value) dst)
      else signed_int_of value dst)"

definition signed_int_from_i64 :: "i64 \<Rightarrow> type_id \<Rightarrow> runtime_error + rvalue" where
  "signed_int_from_i64 value dst = signed_int_from_i128 (sint value) dst"

definition real_to_int :: "f64 \<Rightarrow> type_id \<Rightarrow> conversion_mode \<Rightarrow> runtime_error + rvalue" where
  "real_to_int value dst mode =
     (if \<not> f64_is_finite value then Inl Overflow
      else
        (let rounded = (case mode of ConvRound \<Rightarrow> round_ties_to_even value | ConvTrunc \<Rightarrow> f64_trunc value)
         in if f64_lt rounded (f64_of_int (- (2 ^ 127))) \<or> f64_lt (f64_of_int (2 ^ 127 - 1)) rounded
            then Inl Overflow
            else signed_int_from_i128 (f64_as_i128 rounded) dst))"

section \<open>Bit strings (\<open>bitstring.rs\<close>)\<close>

definition bit_string_to_u64 :: "rvalue \<Rightarrow> runtime_error + u64" where
  "bit_string_to_u64 value =
     (case value of
        VByte v \<Rightarrow> Inr (ucast v) | VWord v \<Rightarrow> Inr (ucast v) | VDWord v \<Rightarrow> Inr (ucast v)
      | VLWord v \<Rightarrow> Inr v | _ \<Rightarrow> Inl TypeMismatch)"

definition bit_string_from_u64 :: "u64 \<Rightarrow> type_id \<Rightarrow> runtime_error + rvalue" where
  "bit_string_from_u64 value dst =
     (if dst = TypeId_BYTE then Inr (VByte (ucast value))
      else if dst = TypeId_WORD then Inr (VWord (ucast value))
      else if dst = TypeId_DWORD then Inr (VDWord (ucast value))
      else if dst = TypeId_LWORD then Inr (VLWord value)
      else Inl TypeMismatch)"

definition bit_width_from_value :: "rvalue \<Rightarrow> runtime_error + nat" where
  "bit_width_from_value value =
     (case value of
        VByte _ \<Rightarrow> Inr 8 | VWord _ \<Rightarrow> Inr 16 | VDWord _ \<Rightarrow> Inr 32 | VLWord _ \<Rightarrow> Inr 64
      | _ \<Rightarrow> Inl TypeMismatch)"

definition bit_width_from_type :: "type_id \<Rightarrow> runtime_error + nat" where
  "bit_width_from_type ty =
     (if ty = TypeId_BYTE then Inr 8
      else if ty = TypeId_WORD then Inr 16
      else if ty = TypeId_DWORD then Inr 32
      else if ty = TypeId_LWORD then Inr 64
      else Inl TypeMismatch)"

definition int_width_from_type :: "type_id \<Rightarrow> runtime_error + nat" where
  "int_width_from_type ty =
     (if ty \<in> {TypeId_SINT, TypeId_USINT} then Inr 8
      else if ty \<in> {TypeId_INT, TypeId_UINT} then Inr 16
      else if ty \<in> {TypeId_DINT, TypeId_UDINT} then Inr 32
      else if ty \<in> {TypeId_LINT, TypeId_ULINT} then Inr 64
      else Inl TypeMismatch)"

definition sign_extend :: "u64 \<Rightarrow> nat \<Rightarrow> i64" where
  "sign_extend value width =
     (if width = 64 then value
      else (let shift = 64 - width in signed_drop_bit shift (push_bit shift value)))"

definition bit_string_to_int :: "rvalue \<Rightarrow> type_id \<Rightarrow> runtime_error + rvalue" where
  "bit_string_to_int value dst =
     rbind (bit_string_to_u64 value) (\<lambda>bits.
     rbind (bit_width_from_value value) (\<lambda>src_width.
     rbind (int_width_from_type dst) (\<lambda>dst_width.
       (let masked = (if dst_width \<ge> src_width then bits else bits AND mask_for dst_width)
        in if is_signed_int_type dst then signed_int_from_i64 (sign_extend masked dst_width) dst
           else unsigned_int_from_u64 masked dst))))"

definition integer_to_bit_string :: "i64 \<Rightarrow> type_id \<Rightarrow> runtime_error + rvalue" where
  "integer_to_bit_string value dst =
     rbind (bit_width_from_type dst) (\<lambda>width.
       bit_string_from_u64 (word_of_int (sint value AND uint (mask_for width))) dst)"

definition unsigned_to_bit_string :: "u64 \<Rightarrow> type_id \<Rightarrow> runtime_error + rvalue" where
  "unsigned_to_bit_string value dst =
     rbind (bit_width_from_type dst) (\<lambda>width. bit_string_from_u64 (value AND mask_for width) dst)"

definition convert_to_bit_string :: "rvalue \<Rightarrow> type_id \<Rightarrow> runtime_error + rvalue" where
  "convert_to_bit_string value dst =
     (case value of
        VByte v \<Rightarrow> bit_string_from_u64 (ucast v) dst
      | VWord v \<Rightarrow> bit_string_from_u64 (ucast v) dst
      | VDWord v \<Rightarrow> bit_string_from_u64 (ucast v) dst
      | VLWord v \<Rightarrow> bit_string_from_u64 v dst
      | VSInt v \<Rightarrow> integer_to_bit_string (scast v) dst
      | VInt v \<Rightarrow> integer_to_bit_string (scast v) dst
      | VDInt v \<Rightarrow> integer_to_bit_string (scast v) dst
      | VLInt v \<Rightarrow> integer_to_bit_string v dst
      | VUSInt v \<Rightarrow> unsigned_to_bit_string (ucast v) dst
      | VUInt v \<Rightarrow> unsigned_to_bit_string (ucast v) dst
      | VUDInt v \<Rightarrow> unsigned_to_bit_string (ucast v) dst
      | VULInt v \<Rightarrow> unsigned_to_bit_string v dst
      | VReal v \<Rightarrow> if dst = TypeId_DWORD then Inr (VDWord v) else Inl TypeMismatch
      | VLReal v \<Rightarrow> if dst = TypeId_LWORD then Inr (VLWord v) else Inl TypeMismatch
      | _ \<Rightarrow> Inl TypeMismatch)"

section \<open>Numbers\<close>

definition convert_to_int :: "rvalue \<Rightarrow> type_id \<Rightarrow> conversion_mode \<Rightarrow> runtime_error + rvalue" where
  "convert_to_int value dst mode =
     (case value of
        VReal v \<Rightarrow> real_to_int (f64_of_f32 v) dst mode
      | VLReal v \<Rightarrow> real_to_int v dst mode
      | VBool v \<Rightarrow> signed_int_from_i64 (if v then 1 else 0) dst
      | VSInt v \<Rightarrow> signed_int_from_i64 (scast v) dst
      | VInt v \<Rightarrow> signed_int_from_i64 (scast v) dst
      | VDInt v \<Rightarrow> signed_int_from_i64 (scast v) dst
      | VLInt v \<Rightarrow> signed_int_from_i64 v dst
      | VUSInt v \<Rightarrow> unsigned_int_from_u64 (ucast v) dst
      | VUInt v \<Rightarrow> unsigned_int_from_u64 (ucast v) dst
      | VUDInt v \<Rightarrow> unsigned_int_from_u64 (ucast v) dst
      | VULInt v \<Rightarrow> unsigned_int_from_u64 v dst
      | VByte _ \<Rightarrow> bit_string_to_int value dst
      | VWord _ \<Rightarrow> bit_string_to_int value dst
      | VDWord _ \<Rightarrow> bit_string_to_int value dst
      | VLWord _ \<Rightarrow> bit_string_to_int value dst
      | _ \<Rightarrow> Inl TypeMismatch)"

definition real_from_f64 :: "f64 \<Rightarrow> type_id \<Rightarrow> runtime_error + rvalue" where
  "real_from_f64 value dst =
     (if dst = TypeId_REAL then Inr (VReal (f32_of_f64 value))
      else if dst = TypeId_LREAL then Inr (VLReal value)
      else Inl TypeMismatch)"

definition convert_to_real :: "rvalue \<Rightarrow> type_id \<Rightarrow> runtime_error + rvalue" where
  "convert_to_real value dst =
     (case value of
        VDWord v \<Rightarrow> if dst = TypeId_REAL then Inr (VReal v) else Inl TypeMismatch
      | VLWord v \<Rightarrow> if dst = TypeId_LREAL then Inr (VLReal v) else Inl TypeMismatch
      | VReal v \<Rightarrow>
          if dst = TypeId_REAL then Inr (VReal v)
          else if dst = TypeId_LREAL then Inr (VLReal (f64_of_f32 v))
          else Inl TypeMismatch
      | VLReal v \<Rightarrow> real_from_f64 v dst
      | VSInt v \<Rightarrow> real_from_f64 (f64_of_int (sint v)) dst
      | VInt v \<Rightarrow> real_from_f64 (f64_of_int (sint v)) dst
      | VDInt v \<Rightarrow> real_from_f64 (f64_of_int (sint v)) dst
      | VLInt v \<Rightarrow> real_from_f64 (f64_of_int (sint v)) dst
      | VUSInt v \<Rightarrow> real_from_f64 (f64_of_int (uint v)) dst
      | VUInt v \<Rightarrow> real_from_f64 (f64_of_int (uint v)) dst
      | VUDInt v \<Rightarrow> real_from_f64 (f64_of_int (uint v)) dst
      | VULInt v \<Rightarrow> real_from_f64 (f64_of_int (uint v)) dst
      | _ \<Rightarrow> Inl TypeMismatch)"

section \<open>Packed decimals (\<open>bcd.rs\<close>)\<close>

definition bcd_digits_for :: "type_id \<Rightarrow> runtime_error + nat" where
  "bcd_digits_for ty =
     (if ty = TypeId_BYTE then Inr 2
      else if ty = TypeId_WORD then Inr 4
      else if ty = TypeId_DWORD then Inr 8
      else if ty = TypeId_LWORD then Inr 16
      else Inl TypeMismatch)"

fun to_bcd_loop :: "nat \<Rightarrow> nat \<Rightarrow> u64 \<Rightarrow> u64 \<Rightarrow> u64 \<times> u64" where
  "to_bcd_loop 0 i value result = (value, result)"
| "to_bcd_loop (Suc n) i value result =
     to_bcd_loop n (i + 1) (value div 10) (result OR push_bit (i * 4) (value mod 10))"

definition u64_to_bcd :: "u64 \<Rightarrow> nat \<Rightarrow> runtime_error + u64" where
  "u64_to_bcd value digits =
     (case to_bcd_loop digits 0 value 0 of (rest, result) \<Rightarrow>
        if rest \<noteq> 0 then Inl Overflow else Inr result)"

definition bcd_checked :: "int \<Rightarrow> runtime_error + u64" where
  "bcd_checked i = ok_or (unsigned_try_from i) Overflow"

fun from_bcd_loop :: "nat \<Rightarrow> nat \<Rightarrow> u64 \<Rightarrow> u64 \<Rightarrow> u64 \<Rightarrow> runtime_error + u64" where
  "from_bcd_loop 0 i value result multiplier = Inr result"
| "from_bcd_loop (Suc n) i value result multiplier =
     (let digit = drop_bit (i * 4) value AND 0xF in
      if digit > 9 then Inl TypeMismatch
      else
        rbind (bcd_checked (uint result + uint (digit * multiplier))) (\<lambda>result.
        rbind (bcd_checked (uint multiplier * 10)) (\<lambda>multiplier.
          from_bcd_loop n (i + 1) value result multiplier)))"

definition bcd_to_u64 :: "u64 \<Rightarrow> nat \<Rightarrow> runtime_error + u64" where
  "bcd_to_u64 value digits = from_bcd_loop digits 0 value 0 1"

text \<open>The source a function's name asks for, when it names one, is the type of the argument.\<close>

definition source_type :: "rvalue \<Rightarrow> type_id option \<Rightarrow> runtime_error + type_id" where
  "source_type value src =
     rbind (ok_or (value_type_id value) TypeMismatch) (\<lambda>actual_src.
       case src of
         None \<Rightarrow> Inr actual_src
       | Some expected \<Rightarrow> if actual_src \<noteq> expected then Inl TypeMismatch else Inr actual_src)"

definition to_bcd :: "rvalue \<Rightarrow> type_id option \<Rightarrow> type_id \<Rightarrow> runtime_error + rvalue" where
  "to_bcd value src dst =
     rbind (source_type value src) (\<lambda>actual_src.
       if \<not> is_unsigned_int_type actual_src then Inl TypeMismatch
       else if \<not> is_bit_string_type dst \<or> dst = TypeId_BOOL then Inl TypeMismatch
       else
         rbind (to_u64 value) (\<lambda>input.
         rbind (bcd_digits_for dst) (\<lambda>digits.
         rbind (u64_to_bcd input digits) (\<lambda>bits. bit_string_from_u64 bits dst))))"

definition from_bcd :: "rvalue \<Rightarrow> type_id option \<Rightarrow> type_id \<Rightarrow> runtime_error + rvalue" where
  "from_bcd value src dst =
     rbind (source_type value src) (\<lambda>actual_src.
       if \<not> is_bit_string_type actual_src \<or> actual_src = TypeId_BOOL then Inl TypeMismatch
       else if \<not> is_unsigned_int_type dst then Inl TypeMismatch
       else
         rbind (bit_string_to_u64 value) (\<lambda>bits.
         rbind (bcd_digits_for actual_src) (\<lambda>digits.
         rbind (bcd_to_u64 bits digits) (\<lambda>decoded. unsigned_int_from_u64 decoded dst))))"

section \<open>Strings and characters (\<open>string.rs\<close>)\<close>

definition char_from_u32 :: "nat \<Rightarrow> runtime_error + nat" where
  "char_from_u32 n =
     (if 0xD800 \<le> n \<and> n < 0xE000 \<or> n \<ge> 0x110000 then Inl TypeMismatch else Inr n)"

definition text_of_value :: "rvalue \<Rightarrow> runtime_error + rstr" where
  "text_of_value value =
     (case value of
        VString s \<Rightarrow> Inr s
      | VWString s \<Rightarrow> Inr s
      | VChar c \<Rightarrow> Inr (utf8_encode (unat c))
      | VWChar c \<Rightarrow> rmap utf8_encode (char_from_u32 (unat c))
      | _ \<Rightarrow> Inl TypeMismatch)"

definition convert_to_string :: "rvalue \<Rightarrow> type_id \<Rightarrow> runtime_error + rvalue" where
  "convert_to_string value dst =
     (if dst = TypeId_STRING then rmap VString (text_of_value value)
      else if dst = TypeId_WSTRING then rmap VWString (text_of_value value)
      else Inl TypeMismatch)"

definition string_to_char :: "rstr \<Rightarrow> bool \<Rightarrow> runtime_error + rvalue" where
  "string_to_char s wide =
     (case chars_of s of
        [ch] \<Rightarrow>
          if wide then ok_or (map_option VWChar (unsigned_try_from (int ch))) Overflow
          else ok_or (map_option VChar (unsigned_try_from (int ch))) Overflow
      | _ \<Rightarrow> Inl TypeMismatch)"

definition convert_to_char :: "rvalue \<Rightarrow> type_id \<Rightarrow> runtime_error + rvalue" where
  "convert_to_char value dst =
     (if dst = TypeId_CHAR then
        (case value of
           VChar c \<Rightarrow> Inr (VChar c)
         | VWChar c \<Rightarrow> if unat c > 255 then Inl Overflow else Inr (VChar (ucast c))
         | VString s \<Rightarrow> string_to_char s False
         | VWString s \<Rightarrow> string_to_char s False
         | _ \<Rightarrow> Inl TypeMismatch)
      else if dst = TypeId_WCHAR then
        (case value of
           VWChar c \<Rightarrow> Inr (VWChar c)
         | VChar c \<Rightarrow> Inr (VWChar (ucast c))
         | VString s \<Rightarrow> string_to_char s True
         | VWString s \<Rightarrow> string_to_char s True
         | _ \<Rightarrow> Inl TypeMismatch)
      else Inl TypeMismatch)"

section \<open>Times (\<open>time.rs\<close>)\<close>

text \<open>The conversions use the default profile, whose ticks are milliseconds and whose epoch is zero.\<close>

abbreviation profile0 :: date_time_profile where
  "profile0 \<equiv> date_time_profile_default"

definition since_epoch :: "i64 \<Rightarrow> runtime_error + int" where
  "since_epoch ticks = ok_or (i64_checked (sint ticks - sint (dtp_epoch profile0))) Overflow"

definition dt_ticks_to_days :: "i64 \<Rightarrow> runtime_error + int" where
  "dt_ticks_to_days dt =
     rbind (since_epoch dt) (\<lambda>ticks.
     rbind (calc (ticks_per_day profile0)) (\<lambda>per_day. Inr (ticks div per_day)))"

definition dt_ticks_to_nanos :: "i64 \<Rightarrow> runtime_error + int" where
  "dt_ticks_to_nanos dt =
     rbind (since_epoch dt) (\<lambda>v.
       ok_or (i64_checked (v * sint (dtp_resolution profile0))) Overflow)"

definition ldt_nanos_to_ticks :: "i64 \<Rightarrow> runtime_error + int" where
  "ldt_nanos_to_ticks dt =
     ok_or (i64_checked (sint dt div sint (dtp_resolution profile0) + sint (dtp_epoch profile0)))
       Overflow"

definition dt_ticks_to_tod_ticks :: "i64 \<Rightarrow> runtime_error + int" where
  "dt_ticks_to_tod_ticks dt =
     rbind (since_epoch dt) (\<lambda>ticks.
     rbind (calc (ticks_per_day profile0)) (\<lambda>per_day. Inr (ticks mod per_day)))"

definition ticks_to_nanos :: "int \<Rightarrow> runtime_error + int" where
  "ticks_to_nanos ticks = ok_or (i64_checked (ticks * sint (dtp_resolution profile0))) Overflow"

definition dt_ticks_to_tod_nanos :: "i64 \<Rightarrow> runtime_error + int" where
  "dt_ticks_to_tod_nanos dt = rbind (dt_ticks_to_tod_ticks dt) ticks_to_nanos"

definition ldt_nanos_to_tod_nanos :: "i64 \<Rightarrow> int" where
  "ldt_nanos_to_tod_nanos dt = sint dt mod nanos_per_day"

definition ldt_nanos_to_tod_ticks :: "i64 \<Rightarrow> runtime_error + int" where
  "ldt_nanos_to_tod_ticks dt = calc (nanos_to_ticks (ldt_nanos_to_tod_nanos dt) profile0 DivEuclid)"

definition ticks_as :: "(i64 \<Rightarrow> rvalue) \<Rightarrow> runtime_error + int \<Rightarrow> runtime_error + rvalue" where
  "ticks_as f m = rmap (\<lambda>i. f (word_of_int i)) m"

definition convert_to_time :: "rvalue \<Rightarrow> type_id \<Rightarrow> runtime_error + rvalue" where
  "convert_to_time value dst =
     (case value of
        VTime d \<Rightarrow>
          if dst = TypeId_TIME then Inr (VTime d)
          else if dst = TypeId_LTIME then Inr (VLTime d) else Inl TypeMismatch
      | VLTime d \<Rightarrow>
          if dst = TypeId_LTIME then Inr (VLTime d)
          else if dst = TypeId_TIME then Inr (VTime d) else Inl TypeMismatch
      | _ \<Rightarrow> Inl TypeMismatch)"

definition convert_to_date :: "rvalue \<Rightarrow> type_id \<Rightarrow> runtime_error + rvalue" where
  "convert_to_date value dst =
     (if dst = TypeId_DATE then
        (case value of
           VDate date \<Rightarrow> Inr (VDate date)
         | VDt dt \<Rightarrow>
             ticks_as VDate (rbind (dt_ticks_to_days dt) (\<lambda>days. calc (days_to_ticks days profile0)))
         | VLdt dt \<Rightarrow> ticks_as VDate (calc (days_to_ticks (sint dt div nanos_per_day) profile0))
         | _ \<Rightarrow> Inl TypeMismatch)
      else if dst = TypeId_LDATE then
        (case value of VLDate date \<Rightarrow> Inr (VLDate date) | _ \<Rightarrow> Inl TypeMismatch)
      else Inl TypeMismatch)"

definition convert_to_tod :: "rvalue \<Rightarrow> type_id \<Rightarrow> runtime_error + rvalue" where
  "convert_to_tod value dst =
     (if dst = TypeId_TOD then
        (case value of
           VTod tod \<Rightarrow> Inr (VTod tod)
         | VLTod tod \<Rightarrow> ticks_as VTod (calc (nanos_to_ticks (sint tod) profile0 DivEuclid))
         | VDt dt \<Rightarrow> ticks_as VTod (dt_ticks_to_tod_ticks dt)
         | VLdt dt \<Rightarrow> ticks_as VTod (ldt_nanos_to_tod_ticks dt)
         | _ \<Rightarrow> Inl TypeMismatch)
      else if dst = TypeId_LTOD then
        (case value of
           VLTod tod \<Rightarrow> Inr (VLTod tod)
         | VTod tod \<Rightarrow> ticks_as VLTod (ticks_to_nanos (sint tod))
         | VDt dt \<Rightarrow> ticks_as VLTod (dt_ticks_to_tod_nanos dt)
         | VLdt dt \<Rightarrow> ticks_as VLTod (Inr (ldt_nanos_to_tod_nanos dt))
         | _ \<Rightarrow> Inl TypeMismatch)
      else Inl TypeMismatch)"

definition convert_to_dt :: "rvalue \<Rightarrow> type_id \<Rightarrow> runtime_error + rvalue" where
  "convert_to_dt value dst =
     (if dst = TypeId_DT then
        (case value of
           VDt dt \<Rightarrow> Inr (VDt dt)
         | VLdt dt \<Rightarrow> ticks_as VDt (ldt_nanos_to_ticks dt)
         | _ \<Rightarrow> Inl TypeMismatch)
      else if dst = TypeId_LDT then
        (case value of
           VLdt dt \<Rightarrow> Inr (VLdt dt)
         | VDt dt \<Rightarrow> ticks_as VLdt (dt_ticks_to_nanos dt)
         | _ \<Rightarrow> Inl TypeMismatch)
      else Inl TypeMismatch)"

section \<open>The dispatch (\<open>dispatch.rs\<close>)\<close>

definition convert_value :: "rvalue \<Rightarrow> type_id \<Rightarrow> conversion_mode \<Rightarrow> runtime_error + rvalue" where
  "convert_value value dst mode =
     (if value_type_id value = Some dst then Inr value
      else if is_integer_type dst then convert_to_int value dst mode
      else if dst \<in> {TypeId_REAL, TypeId_LREAL} then convert_to_real value dst
      else if dst \<in> {TypeId_BYTE, TypeId_WORD, TypeId_DWORD, TypeId_LWORD}
      then convert_to_bit_string value dst
      else if dst \<in> {TypeId_TIME, TypeId_LTIME} then convert_to_time value dst
      else if dst \<in> {TypeId_DATE, TypeId_LDATE} then convert_to_date value dst
      else if dst \<in> {TypeId_TOD, TypeId_LTOD} then convert_to_tod value dst
      else if dst \<in> {TypeId_DT, TypeId_LDT} then convert_to_dt value dst
      else if dst \<in> {TypeId_STRING, TypeId_WSTRING} then convert_to_string value dst
      else if dst \<in> {TypeId_CHAR, TypeId_WCHAR} then convert_to_char value dst
      else Inl TypeMismatch)"

definition convert_with_mode ::
    "rvalue \<Rightarrow> type_id option \<Rightarrow> type_id \<Rightarrow> conversion_mode \<Rightarrow> runtime_error + rvalue" where
  "convert_with_mode value src dst mode =
     rbind (source_type value src) (\<lambda>actual_src.
       if \<not> is_conversion_allowed actual_src dst then Inl TypeMismatch
       else convert_value value dst mode)"

definition trunc_convert ::
    "rvalue \<Rightarrow> type_id option \<Rightarrow> type_id \<Rightarrow> runtime_error + rvalue" where
  "trunc_convert value src dst =
     rbind (source_type value src) (\<lambda>actual_src.
       if actual_src \<notin> {TypeId_REAL, TypeId_LREAL} then Inl TypeMismatch
       else if \<not> is_integer_type dst then Inl TypeMismatch
       else convert_value value dst ConvTrunc)"

definition apply_conversion :: "conversion_spec \<Rightarrow> std_func" where
  "apply_conversion spec args =
     with_arity args 1 (arg_at args 0 (\<lambda>value. Some
       (case spec of
          SpecConvert src dst \<Rightarrow> convert_with_mode value src dst ConvRound
        | SpecTrunc src dst \<Rightarrow> trunc_convert value src dst
        | SpecToBcd src dst \<Rightarrow> to_bcd value src dst
        | SpecBcdTo src dst \<Rightarrow> from_bcd value src dst)))"

definition call_conversion :: "rstr \<Rightarrow> std_func option" where
  "call_conversion name = map_option apply_conversion (parse_conversion_spec name)"

end
