(* ===== verification/Std_Numeric.thy ===== *)
theory Std_Numeric
  imports Std_Helpers Calendar
begin

text \<open>
  The standard functions on numbers (\<open>stdlib/numeric.rs\<close>), on bit strings (\<open>stdlib/bit.rs\<close>), the
  comparisons (\<open>stdlib/comparison.rs\<close>), the selections (\<open>stdlib/selection.rs\<close>), the checks
  (\<open>stdlib/validate.rs\<close>) and the functions on times and dates (\<open>stdlib/time.rs\<close>).
\<close>

section \<open>The platform\<close>

text \<open>
  The functions of the mathematics library of the platform, and the texts of values
  (\<open>Debug\<close> of \<open>Value\<close>, \<open>Display\<close> of \<open>f64\<close>) that the assertions print.
\<close>

record std_env =
  se_powf :: "f64 \<Rightarrow> f64 \<Rightarrow> f64"
  se_ln :: "f64 \<Rightarrow> f64"
  se_log10 :: "f64 \<Rightarrow> f64"
  se_exp :: "f64 \<Rightarrow> f64"
  se_sin :: "f64 \<Rightarrow> f64"
  se_cos :: "f64 \<Rightarrow> f64"
  se_tan :: "f64 \<Rightarrow> f64"
  se_asin :: "f64 \<Rightarrow> f64"
  se_acos :: "f64 \<Rightarrow> f64"
  se_atan :: "f64 \<Rightarrow> f64"
  se_atan2 :: "f64 \<Rightarrow> f64 \<Rightarrow> f64"
  se_atan2_f32 :: "f32 \<Rightarrow> f32 \<Rightarrow> f32"
  se_debug :: "rvalue \<Rightarrow> rstr"
  se_show_f64 :: "f64 \<Rightarrow> rstr"

text \<open>The square root is exact before rounding, as IEEE 754 asks: the last bit says whether a rest remains.\<close>

fun isqrt :: "nat \<Rightarrow> nat" where
  "isqrt n =
     (if n = 0 then 0
      else (let r = 2 * isqrt (n div 4) in if (r + 1) * (r + 1) \<le> n then r + 1 else r))"

declare isqrt.simps [simp del]

definition f64_sqrt :: "f64 \<Rightarrow> f64" where
  "f64_sqrt w =
     (case f64_val w of
        FNan \<Rightarrow> w
      | FInf s \<Rightarrow> if s then to_f64_bits FNan else w
      | FNum s m e \<Rightarrow>
          if m = 0 then w
          else if s then to_f64_bits FNan
          else
            (let k = (if even e then 112 else 113); n = m * 2 ^ k; r = isqrt n
             in to_f64_bits (FNum False (2 * r + of_bool (r * r \<noteq> n)) ((e - int k) div 2 - 1))))"

section \<open>Numbers\<close>

definition checked_abs :: "'a::len word \<Rightarrow> 'a word option" where
  "checked_abs v = (if sint v = signed_min TYPE('a) then None else Some (if sint v < 0 then - v else v))"

definition std_abs :: std_func where
  "std_abs args =
     with_arity args 1 (arg_at args 0 (\<lambda>value. Some
       (case value of
          VSInt v \<Rightarrow> ok_or (map_option VSInt (checked_abs v)) Overflow
        | VInt v \<Rightarrow> ok_or (map_option VInt (checked_abs v)) Overflow
        | VDInt v \<Rightarrow> ok_or (map_option VDInt (checked_abs v)) Overflow
        | VLInt v \<Rightarrow> ok_or (map_option VLInt (checked_abs v)) Overflow
        | VUSInt v \<Rightarrow> Inr (VUSInt v)
        | VUInt v \<Rightarrow> Inr (VUInt v)
        | VUDInt v \<Rightarrow> Inr (VUDInt v)
        | VULInt v \<Rightarrow> Inr (VULInt v)
        | VReal v \<Rightarrow> Inr (VReal (f32_abs v))
        | VLReal v \<Rightarrow> Inr (VLReal (f64_abs v))
        | _ \<Rightarrow> Inl TypeMismatch)))"

definition finite_or_overflow :: "(f64 \<Rightarrow> rvalue) \<Rightarrow> f64 \<Rightarrow> runtime_error + rvalue" where
  "finite_or_overflow f result = (if f64_is_finite result then Inr (f result) else Inl Overflow)"

definition unary_real :: "(f64 \<Rightarrow> f64) \<Rightarrow> std_func" where
  "unary_real f args =
     with_arity args 1 (arg_at args 0 (\<lambda>value. Some
       (case value of
          VReal v \<Rightarrow> finite_or_overflow (\<lambda>r. VReal (f32_of_f64 r)) (f (f64_of_f32 v))
        | VLReal v \<Rightarrow> finite_or_overflow VLReal (f v)
        | _ \<Rightarrow> Inl TypeMismatch)))"

definition std_atan2 :: "std_env \<Rightarrow> std_func" where
  "std_atan2 env args =
     with_arity args 2 (arg_at args 0 (\<lambda>y. arg_at args 1 (\<lambda>x. Some
       (case (y, x) of
          (VReal a, VReal b) \<Rightarrow> Inr (VReal (se_atan2_f32 env a b))
        | (VLReal a, VLReal b) \<Rightarrow> Inr (VLReal (se_atan2 env a b))
        | (VReal a, VLReal b) \<Rightarrow> Inr (VLReal (se_atan2 env (f64_of_f32 a) b))
        | (VLReal a, VReal b) \<Rightarrow> Inr (VLReal (se_atan2 env a (f64_of_f32 b)))
        | _ \<Rightarrow> Inl TypeMismatch))))"

definition binary_default :: "std_env \<Rightarrow> binary_op \<Rightarrow> rvalue \<Rightarrow> rvalue \<Rightarrow> runtime_error + rvalue" where
  "binary_default env op a b = apply_binary (se_powf env) op a b date_time_profile_default"

fun fold_binary :: "std_env \<Rightarrow> binary_op \<Rightarrow> rvalue \<Rightarrow> rvalue list \<Rightarrow> runtime_error + rvalue" where
  "fold_binary env op acc [] = Inr acc"
| "fold_binary env op acc (value # rest) =
     rbind (binary_default env op acc value) (\<lambda>acc. fold_binary env op acc rest)"

definition is_time_related :: "rvalue \<Rightarrow> bool" where
  "is_time_related value =
     (case value of
        VTime _ \<Rightarrow> True | VLTime _ \<Rightarrow> True | VDate _ \<Rightarrow> True | VLDate _ \<Rightarrow> True
      | VTod _ \<Rightarrow> True | VLTod _ \<Rightarrow> True | VDt _ \<Rightarrow> True | VLdt _ \<Rightarrow> True | _ \<Rightarrow> False)"

definition is_time_duration :: "rvalue \<Rightarrow> bool" where
  "is_time_duration value = (case value of VTime _ \<Rightarrow> True | VLTime _ \<Rightarrow> True | _ \<Rightarrow> False)"

definition mul_time_duration :: "rvalue \<Rightarrow> rvalue \<Rightarrow> runtime_error + rvalue" where
  "mul_time_duration lhs rhs =
     (case (lhs, rhs) of
        (VTime time, other) \<Rightarrow> rmap VTime (scale_time time other True)
      | (VLTime time, other) \<Rightarrow> rmap VLTime (scale_time time other True)
      | (other, VTime time) \<Rightarrow> rmap VTime (scale_time time other True)
      | (other, VLTime time) \<Rightarrow> rmap VLTime (scale_time time other True)
      | _ \<Rightarrow> Inl TypeMismatch)"

definition div_time_duration :: "rvalue \<Rightarrow> rvalue \<Rightarrow> runtime_error + rvalue" where
  "div_time_duration lhs rhs =
     (case lhs of
        VTime time \<Rightarrow> rmap VTime (scale_time time rhs False)
      | VLTime time \<Rightarrow> rmap VLTime (scale_time time rhs False)
      | _ \<Rightarrow> Inl TypeMismatch)"

text \<open>The first two arguments of a function of two, and the fold over all of a function of many.\<close>

definition two_args ::
    "rvalue list \<Rightarrow> (rvalue \<Rightarrow> rvalue \<Rightarrow> runtime_error + rvalue) \<Rightarrow> (runtime_error, rvalue) fueled" where
  "two_args args f = arg_at args 0 (\<lambda>a. arg_at args 1 (\<lambda>b. Some (f a b)))"

definition fold_args ::
    "std_env \<Rightarrow> binary_op \<Rightarrow> rvalue list \<Rightarrow> (runtime_error, rvalue) fueled" where
  "fold_args env op args =
     arg_at args 0 (\<lambda>acc. args_from args 1 (\<lambda>rest. Some (fold_binary env op acc rest)))"

definition std_add :: "std_env \<Rightarrow> std_func" where
  "std_add env args =
     with_min args 2
       (if list_ex is_time_related args
        then with_arity args 2 (two_args args (binary_default env OpAdd))
        else fold_args env OpAdd args)"

definition std_mul :: "std_env \<Rightarrow> std_func" where
  "std_mul env args =
     with_min args 2
       (if list_ex is_time_duration args
        then with_arity args 2 (two_args args mul_time_duration)
        else fold_args env OpMul args)"

definition std_binary :: "std_env \<Rightarrow> binary_op \<Rightarrow> std_func" where
  "std_binary env op args = with_arity args 2 (two_args args (binary_default env op))"

definition std_div :: "std_env \<Rightarrow> std_func" where
  "std_div env args =
     with_arity args 2 (arg_at args 0 (\<lambda>value.
       if is_time_duration value then two_args args div_time_duration
       else two_args args (binary_default env OpDiv)))"

definition std_expt :: "std_env \<Rightarrow> std_func" where
  "std_expt env args =
     with_arity args 2 (arg_at args 0 (\<lambda>base. arg_at args 1 (\<lambda>exp.
     fbind (Some (to_f64 exp)) (\<lambda>exp. Some
       (case base of
          VReal v \<Rightarrow> finite_or_overflow (\<lambda>r. VReal (f32_of_f64 r)) (se_powf env (f64_of_f32 v) exp)
        | VLReal v \<Rightarrow> finite_or_overflow VLReal (se_powf env v exp)
        | _ \<Rightarrow> Inl TypeMismatch)))))"

definition std_move :: std_func where
  "std_move args = with_arity args 1 (arg_at args 0 (\<lambda>value. Some (Inr value)))"

section \<open>Bit strings\<close>

datatype shift_op = ShiftLeft | ShiftRight | RotateLeft | RotateRight

text \<open>
  The count is cut to 32 bits, \<open>count as u32\<close>. A rotation by nothing shifts by the whole width on
  the other side, which adds no bits; by 64 places, a shift of \<open>u64\<close> by its width takes the count modulo
  64 and adds the same bits again (it panics in a build with overflow checks).
\<close>

definition shift_bits :: "shift_op \<Rightarrow> nat \<Rightarrow> nat \<Rightarrow> u64 \<Rightarrow> u64" where
  "shift_bits op count width value =
     (let mask = mask_for width; shift = count mod width in
      case op of
        ShiftLeft \<Rightarrow> if count \<ge> width then 0 else push_bit count value AND mask
      | ShiftRight \<Rightarrow> if count \<ge> width then 0 else drop_bit count value AND mask
      | RotateLeft \<Rightarrow> (push_bit shift value OR drop_bit (width - shift) value) AND mask
      | RotateRight \<Rightarrow> (drop_bit shift value OR push_bit (width - shift) value) AND mask)"

definition std_shift :: "shift_op \<Rightarrow> std_func" where
  "std_shift op args =
     with_arity args 2 (arg_at args 0 (\<lambda>v.
     fbind (Some (bit_value v)) (\<lambda>(value, width).
     arg_at args 1 (\<lambda>c.
     fbind (Some (to_i64 c)) (\<lambda>count.
       if sint count < 0 then Some (Inl TypeMismatch)
       else Some (Inr (bit_value_to_result
         (shift_bits op (unat (ucast count :: u32)) width value) width)))))))"

definition fold_bits ::
    "(u64 \<Rightarrow> u64 \<Rightarrow> u64) \<Rightarrow> u64 \<times> nat \<Rightarrow> rvalue list \<Rightarrow> runtime_error + u64 \<times> nat" where
  "fold_bits op start vals =
     foldl (\<lambda>acc value. rbind acc (\<lambda>(bits, width). rbind (bit_value value) (\<lambda>(b, w).
       Inr (op bits b, max width w)))) (Inr start) vals"

definition bitwise_variadic :: "(u64 \<Rightarrow> u64 \<Rightarrow> u64) \<Rightarrow> std_func" where
  "bitwise_variadic op args =
     with_min args 2 (arg_at args 0 (\<lambda>value.
     fbind (Some (bit_value value)) (\<lambda>start.
     args_from args 1 (\<lambda>rest.
     fbind (Some (fold_bits op start rest)) (\<lambda>(acc, width).
       Some (Inr (bit_value_to_result (acc AND mask_for width) width)))))))"

definition bit_not :: std_func where
  "bit_not args =
     with_arity args 1 (arg_at args 0 (\<lambda>value.
     fbind (Some (bit_value value)) (\<lambda>(value, width).
       Some (Inr (bit_value_to_result (NOT value AND mask_for width) width)))))"

section \<open>Comparison\<close>

fun compare_rest ::
    "common_kind \<Rightarrow> cmp_op \<Rightarrow> rvalue \<Rightarrow> rvalue list \<Rightarrow> runtime_error + rvalue" where
  "compare_rest kind op previous [] = Inr (VBool True)"
| "compare_rest kind op previous (value # rest) =
     rbind (coerce_to_common value kind) (\<lambda>current.
     rbind (compare_common previous current kind op) (\<lambda>matched.
       if \<not> matched then Inr (VBool False) else compare_rest kind op current rest))"

text \<open>An argument in the common kind.\<close>

definition coerced_arg ::
    "rvalue list \<Rightarrow> nat \<Rightarrow> common_kind \<Rightarrow> (rvalue \<Rightarrow> (runtime_error, 'a) fueled)
      \<Rightarrow> (runtime_error, 'a) fueled" where
  "coerced_arg args i kind body =
     arg_at args i (\<lambda>value. fbind (Some (coerce_to_common value kind)) body)"

definition compare_chain :: "cmp_op \<Rightarrow> std_func" where
  "compare_chain op args =
     with_min args 2
     (fbind (Some (common_kind args)) (\<lambda>kind.
      coerced_arg args 0 kind (\<lambda>previous.
      args_from args 1 (\<lambda>rest. Some (compare_rest kind op previous rest)))))"

text \<open>Two values, converted to their common kind and compared in it.\<close>

definition compare_two :: "cmp_op \<Rightarrow> rvalue list \<Rightarrow> (runtime_error, bool) fueled" where
  "compare_two op args =
     with_arity args 2
     (fbind (Some (common_kind args)) (\<lambda>kind.
      coerced_arg args 0 kind (\<lambda>left.
      coerced_arg args 1 kind (\<lambda>right. Some (compare_common left right kind op)))))"

definition std_ne :: std_func where
  "std_ne args = fbind (compare_two CmpNe args) (\<lambda>matched. Some (Inr (VBool matched)))"

section \<open>Selection\<close>

definition std_sel :: std_func where
  "std_sel args =
     with_arity args 3 (arg_at args 0 (\<lambda>g.
       case g of
         VBool selector \<Rightarrow>
           args_from args 1 (\<lambda>inputs.
           fbind (Some (common_kind inputs)) (\<lambda>kind.
           coerced_arg args 1 kind (\<lambda>in0.
           coerced_arg args 2 kind (\<lambda>in1. Some (Inr (if selector then in1 else in0))))))
       | _ \<Rightarrow> Some (Inl TypeMismatch)))"

fun best_of :: "common_kind \<Rightarrow> cmp_op \<Rightarrow> rvalue \<Rightarrow> rvalue list \<Rightarrow> runtime_error + rvalue" where
  "best_of kind op best [] = Inr best"
| "best_of kind op best (value # rest) =
     rbind (coerce_to_common value kind) (\<lambda>candidate.
     rbind (compare_common candidate best kind op) (\<lambda>better.
       best_of kind op (if better then candidate else best) rest))"

definition min_max :: "bool \<Rightarrow> std_func" where
  "min_max is_min args =
     with_min args 2
     (fbind (Some (common_kind args)) (\<lambda>kind.
      coerced_arg args 0 kind (\<lambda>best.
      args_from args 1 (\<lambda>rest.
        Some (best_of kind (if is_min then CmpLt else CmpGt) best rest)))))"

definition std_limit :: std_func where
  "std_limit args =
     with_arity args 3
     (fbind (Some (common_kind args)) (\<lambda>kind.
      coerced_arg args 0 kind (\<lambda>mn.
      coerced_arg args 1 kind (\<lambda>value.
      coerced_arg args 2 kind (\<lambda>mx. Some
        (rbind (compare_common value mn kind CmpLt) (\<lambda>below.
           if below then Inr mn
           else
             rbind (compare_common value mx kind CmpGt) (\<lambda>above.
               Inr (if above then mx else value)))))))))"

definition std_mux :: std_func where
  "std_mux args =
     with_min args 3 (arg_at args 0 (\<lambda>k.
     fbind (Some (to_i64 k)) (\<lambda>selector.
       if sint selector < 0
       then Some (Inl (IndexOutOfBounds selector 0 (of_nat (length args - 2))))
       else
         args_from args 1 (\<lambda>inputs.
           if nat (sint selector) \<ge> length inputs
           then Some (Inl (IndexOutOfBounds selector 0 (word_of_int (int (length inputs) - 1))))
           else
             fbind (Some (common_kind inputs)) (\<lambda>kind.
             coerced_arg inputs (nat (sint selector)) kind (\<lambda>value. Some (Inr value)))))))"

section \<open>Checks\<close>

definition std_is_valid :: std_func where
  "std_is_valid args =
     with_arity args 1 (arg_at args 0 (\<lambda>value. Some
       (case value of
          VReal v \<Rightarrow> Inr (VBool (f32_is_finite v))
        | VLReal v \<Rightarrow> Inr (VBool (f64_is_finite v))
        | _ \<Rightarrow> Inl TypeMismatch)))"

definition std_is_valid_bcd :: std_func where
  "std_is_valid_bcd args =
     with_arity args 1 (arg_at args 0 (\<lambda>value.
     fbind (Some (bit_value value)) (\<lambda>(value, width).
       Some (Inr (VBool (list_all (\<lambda>i. drop_bit (i * 4) value AND 0xF \<le> 9) [0..<width div 4]))))))"

section \<open>Assertions\<close>

definition assert_bool :: "bool \<Rightarrow> rstr \<Rightarrow> std_func" where
  "assert_bool expected text args =
     with_arity args 1 (arg_at args 0 (\<lambda>value. Some
       (case value of
          VBool b \<Rightarrow> if b = expected then Inr VNull else Inl (AssertionFailed text)
        | _ \<Rightarrow> Inl TypeMismatch)))"

definition assert_compare :: "cmp_op \<Rightarrow> (rvalue \<Rightarrow> rvalue \<Rightarrow> rstr) \<Rightarrow> std_func" where
  "assert_compare op message args =
     fbind (compare_two op args) (\<lambda>holds.
       if holds then Some (Inr VNull)
       else two_args args (\<lambda>a b. Inl (AssertionFailed (message a b))))"

definition f64_arg ::
    "rvalue list \<Rightarrow> nat \<Rightarrow> (f64 \<Rightarrow> (runtime_error, 'a) fueled) \<Rightarrow> (runtime_error, 'a) fueled" where
  "f64_arg args i body = arg_at args i (\<lambda>value. fbind (Some (to_f64 value)) body)"

definition assert_near :: "std_env \<Rightarrow> std_func" where
  "assert_near env args =
     with_arity args 3
     (f64_arg args 0 (\<lambda>expected.
      f64_arg args 1 (\<lambda>actual.
      f64_arg args 2 (\<lambda>delta. Some
        (if \<not> f64_is_finite expected \<or> \<not> f64_is_finite actual \<or> \<not> f64_is_finite delta
         then Inl Overflow
         else if f64_lt delta 0
         then Inl (AssertionFailed ''ASSERT_NEAR failed: DELTA must be non-negative'')
         else
           (let diff = f64_abs (f64_sub expected actual); show_f = se_show_f64 env in
            if f64_le diff delta then Inr VNull
            else Inl (AssertionFailed
              (''ASSERT_NEAR failed: expected '' @ show_f expected @ '', actual '' @ show_f actual
                @ '', delta '' @ show_f delta @ '', diff '' @ show_f diff))))))))"

section \<open>Times and dates\<close>

text \<open>
  The standard functions on times and dates (\<open>stdlib/time.rs\<close>), with the default profile: ticks of a
  millisecond since the first of January 1970. Sums, differences and parts; a number of the model
  is an integer in the range of \<open>i64\<close>.
\<close>

section \<open>Sums and differences\<close>

datatype time_pair =
    PairTime | PairLTime | PairDate | PairLDate | PairTodTime | PairLTodLTime
  | PairTod | PairLTod | PairDtTime | PairLdtLTime | PairDt | PairLdt

definition expect_pair :: "time_pair \<Rightarrow> rvalue \<Rightarrow> rvalue \<Rightarrow> bool" where
  "expect_pair pair a b =
     (case (pair, a, b) of
        (PairTime, VTime _, VTime _) \<Rightarrow> True
      | (PairLTime, VLTime _, VLTime _) \<Rightarrow> True
      | (PairDate, VDate _, VDate _) \<Rightarrow> True
      | (PairLDate, VLDate _, VLDate _) \<Rightarrow> True
      | (PairTodTime, VTod _, VTime _) \<Rightarrow> True
      | (PairLTodLTime, VLTod _, VLTime _) \<Rightarrow> True
      | (PairTod, VTod _, VTod _) \<Rightarrow> True
      | (PairLTod, VLTod _, VLTod _) \<Rightarrow> True
      | (PairDtTime, VDt _, VTime _) \<Rightarrow> True
      | (PairLdtLTime, VLdt _, VLTime _) \<Rightarrow> True
      | (PairDt, VDt _, VDt _) \<Rightarrow> True
      | (PairLdt, VLdt _, VLdt _) \<Rightarrow> True
      | _ \<Rightarrow> False)"

definition bin_time :: "std_env \<Rightarrow> time_pair \<Rightarrow> binary_op \<Rightarrow> std_func" where
  "bin_time env pair op args =
     with_arity args 2 (two_args args (\<lambda>a b.
       if expect_pair pair a b then binary_default env op a b else Inl TypeMismatch))"

definition scale_time_arg :: "bool \<Rightarrow> std_func" where
  "scale_time_arg multiply args =
     with_arity args 2 (arg_at args 0 (\<lambda>value.
       case value of
         VTime time \<Rightarrow> arg_at args 1 (\<lambda>factor. Some (rmap VTime (scale_time time factor multiply)))
       | _ \<Rightarrow> Some (Inl TypeMismatch)))"

definition scale_ltime_arg :: "bool \<Rightarrow> std_func" where
  "scale_ltime_arg multiply args =
     with_arity args 2 (arg_at args 0 (\<lambda>value.
       case value of
         VLTime time \<Rightarrow> arg_at args 1 (\<lambda>factor. Some (rmap VLTime (scale_time time factor multiply)))
       | _ \<Rightarrow> Some (Inl TypeMismatch)))"

section \<open>Dates and times from their parts\<close>

definition i64_result :: "(i64 \<Rightarrow> rvalue) \<Rightarrow> int \<Rightarrow> runtime_error + rvalue" where
  "i64_result f i = Inr (f (word_of_int i))"

definition i64_sum :: "int \<Rightarrow> int \<Rightarrow> runtime_error + int" where
  "i64_sum a b = ok_or (i64_checked (a + b)) Overflow"

definition i64_product :: "int \<Rightarrow> int \<Rightarrow> runtime_error + int" where
  "i64_product a b = ok_or (i64_checked (a * b)) Overflow"

definition int_arg ::
    "rvalue list \<Rightarrow> nat \<Rightarrow> (int \<Rightarrow> (runtime_error, 'a) fueled) \<Rightarrow> (runtime_error, 'a) fueled" where
  "int_arg args i body = arg_at args i (\<lambda>value. fbind (Some (to_i64 value)) (\<lambda>n. body (sint n)))"

definition concat_date_tod :: std_func where
  "concat_date_tod args =
     with_arity args 2 (two_args args (\<lambda>a b.
       case (a, b) of
         (VDate date, VTod tod) \<Rightarrow>
           (case combine_date_and_tod date tod of
              Inl e \<Rightarrow> Inl (from_date_time_error e)
            | Inr dt \<Rightarrow> Inr (VDt dt))
       | _ \<Rightarrow> Inl TypeMismatch))"

definition concat_date_ltod :: std_func where
  "concat_date_ltod args =
     with_arity args 2 (arg_at args 0 (\<lambda>a. arg_at args 1 (\<lambda>b.
       case (a, b) of
         (VDate date, VLTod tod) \<Rightarrow>
           fbind (date_ticks_to_days date date_time_profile_default) (\<lambda>days.
           fbind (Some (i64_product days nanos_per_day)) (\<lambda>nanos.
           fbind (Some (i64_sum nanos (sint tod))) (\<lambda>nanos.
             Some (i64_result VLdt nanos))))
       | _ \<Rightarrow> Some (Inl TypeMismatch))))"

definition concat_date :: std_func where
  "concat_date args =
     with_arity args 3
     (int_arg args 0 (\<lambda>year. int_arg args 1 (\<lambda>month. int_arg args 2 (\<lambda>day.
      fbind (Some (calc (days_from_civil year month day))) (\<lambda>days.
      fbind (Some (calc (days_to_ticks days date_time_profile_default))) (\<lambda>ticks.
        Some (i64_result VDate ticks)))))))"

definition tod_components_to_nanos :: "rvalue list \<Rightarrow> (runtime_error, int) fueled" where
  "tod_components_to_nanos args =
     int_arg args 0 (\<lambda>hour. int_arg args 1 (\<lambda>minute. int_arg args 2 (\<lambda>second.
     int_arg args 3 (\<lambda>millis. Some
       (if hour < 0 \<or> minute < 0 \<or> second < 0 \<or> millis < 0 then Inl Overflow
        else
          rbind (i64_product hour 3600) (\<lambda>h.
          rbind (i64_product minute 60) (\<lambda>m.
          rbind (i64_sum h m) (\<lambda>sum.
          rbind (i64_sum sum second) (\<lambda>sum.
          rbind (i64_product sum 1000000000) (\<lambda>n.
          rbind (i64_product millis 1000000) (\<lambda>ms.
          rbind (i64_sum n ms) (\<lambda>nanos.
            if nanos \<ge> nanos_per_day then Inl Overflow else Inr nanos))))))))))))"

definition concat_tod :: std_func where
  "concat_tod args =
     with_arity args 4
     (fbind (tod_components_to_nanos args) (\<lambda>nanos.
      fbind (Some (calc (nanos_to_ticks nanos date_time_profile_default DivTrunc))) (\<lambda>ticks.
        Some (i64_result VTod ticks))))"

definition concat_ltod :: std_func where
  "concat_ltod args =
     with_arity args 4
     (fbind (tod_components_to_nanos args) (\<lambda>nanos. Some (i64_result VLTod nanos)))"

definition date_time_components :: "rvalue list \<Rightarrow> (runtime_error, int \<times> int) fueled" where
  "date_time_components args =
     int_arg args 0 (\<lambda>year. int_arg args 1 (\<lambda>month. int_arg args 2 (\<lambda>day.
     fbind (Some (calc (days_from_civil year month day))) (\<lambda>days.
     args_from args 3 (\<lambda>tod_args.
     fbind (tod_components_to_nanos tod_args) (\<lambda>nanos. Some (Inr (days, nanos))))))))"

definition concat_dt :: std_func where
  "concat_dt args =
     with_arity args 7
     (fbind (date_time_components args) (\<lambda>(days, nanos).
      fbind (Some (calc (days_to_ticks days date_time_profile_default))) (\<lambda>date_ticks.
      fbind (Some (calc (nanos_to_ticks nanos date_time_profile_default DivTrunc))) (\<lambda>tod_ticks.
      fbind (Some (i64_sum date_ticks tod_ticks)) (\<lambda>ticks. Some (i64_result VDt ticks))))))"

definition concat_ldt :: std_func where
  "concat_ldt args =
     with_arity args 7
     (fbind (date_time_components args) (\<lambda>(days, nanos).
      fbind (Some (i64_product days nanos_per_day)) (\<lambda>date_nanos.
      fbind (Some (i64_sum date_nanos nanos)) (\<lambda>sum. Some (i64_result VLdt sum)))))"

definition day_of_week :: std_func where
  "day_of_week args =
     with_arity args 1 (arg_at args 0 (\<lambda>value.
       case value of
         VDate date \<Rightarrow>
           fbind (date_ticks_to_days date date_time_profile_default) (\<lambda>days.
             Some (Inr (VInt (word_of_int (wrap64 (days + 4) mod 7)))))
       | _ \<Rightarrow> Some (Inl TypeMismatch)))"

end
