(* ===== verification/Std_Library.thy ===== *)
theory Std_Library
  imports Std_Text Std_Conversions Std_Numeric
begin

text \<open>
  The table of the standard functions (\<open>stdlib/mod.rs\<close> and the \<open>register\<close> functions of the files of
  \<open>stdlib\<close>): names, parameters and implementations in the order of registration, and the call of a
  function by its name.
\<close>

section \<open>The table\<close>

text \<open>
  A table of parameters and implementations by name; the conversions are found by the shape of their
  name.
\<close>

datatype std_params =
    StdFixed "rstr list"
  | StdVariadic "rstr list" rstr nat nat

record std_function =
  sfn_params :: std_params
  sfn_func :: std_func

type_synonym standard_library = "(rstr, std_function) index_map"

definition std_register ::
    "rstr \<Rightarrow> rstr list \<Rightarrow> std_func \<Rightarrow> standard_library
      \<Rightarrow> standard_library" where
  "std_register name params func lib =
     im_insert (to_ascii_uppercase name)
       \<lparr>sfn_params = StdFixed (map to_ascii_uppercase params), sfn_func = func\<rparr> lib"

definition std_register_variadic_with_fixed ::
    "rstr \<Rightarrow> rstr list \<Rightarrow> rstr \<Rightarrow> nat \<Rightarrow> nat \<Rightarrow> std_func
      \<Rightarrow> standard_library \<Rightarrow> standard_library" where
  "std_register_variadic_with_fixed name fixed prefix start mn func lib =
     im_insert (to_ascii_uppercase name)
       \<lparr>sfn_params = StdVariadic (map to_ascii_uppercase fixed) (to_ascii_uppercase prefix) start mn,
        sfn_func = func\<rparr> lib"

definition std_register_variadic ::
    "rstr \<Rightarrow> rstr \<Rightarrow> nat \<Rightarrow> nat \<Rightarrow> std_func
      \<Rightarrow> standard_library \<Rightarrow> standard_library" where
  "std_register_variadic name prefix start mn func lib =
     std_register_variadic_with_fixed name [] prefix start mn func lib"

definition std_get :: "standard_library \<Rightarrow> rstr \<Rightarrow> std_function option" where
  "std_get lib name = im_get lib (to_ascii_uppercase name)"

section \<open>Assertions\<close>

text \<open>The texts of the assertions; the values are printed by the platform's \<open>Debug\<close>.\<close>

definition two_values :: "std_env \<Rightarrow> rstr \<Rightarrow> rstr \<Rightarrow> rvalue \<Rightarrow> rvalue \<Rightarrow> rstr" where
  "two_values env before mid left right = before @ se_debug env left @ mid @ se_debug env right"

definition assert_equal :: "std_env \<Rightarrow> std_func" where
  "assert_equal env =
     assert_compare CmpEq
       (two_values env ''ASSERT_EQUAL failed: expected '' '', actual '')"

definition assert_not_equal :: "std_env \<Rightarrow> std_func" where
  "assert_not_equal env =
     assert_compare CmpNe
       (two_values env ''ASSERT_NOT_EQUAL failed: values should differ, left '' '', right '')"

definition assert_greater :: "std_env \<Rightarrow> std_func" where
  "assert_greater env =
     assert_compare CmpGt
       (two_values env ''ASSERT_GREATER failed: value '' '' is not greater than bound '')"

definition assert_less :: "std_env \<Rightarrow> std_func" where
  "assert_less env =
     assert_compare CmpLt
       (two_values env ''ASSERT_LESS failed: value '' '' is not less than bound '')"

definition assert_greater_or_equal :: "std_env \<Rightarrow> std_func" where
  "assert_greater_or_equal env =
     assert_compare CmpGe
       (two_values env ''ASSERT_GREATER_OR_EQUAL failed: value '' '' is not >= bound '')"

definition assert_less_or_equal :: "std_env \<Rightarrow> std_func" where
  "assert_less_or_equal env =
     assert_compare CmpLe
       (two_values env ''ASSERT_LESS_OR_EQUAL failed: value '' '' is not <= bound '')"

section \<open>The entries\<close>

type_synonym std_entry = "standard_library \<Rightarrow> standard_library"

definition fixed_entry :: "rstr \<Rightarrow> rstr list \<Rightarrow> std_func \<Rightarrow> std_entry" where
  "fixed_entry name params func = std_register name params func"

definition variadic_entry :: "rstr \<Rightarrow> rstr \<Rightarrow> nat \<Rightarrow> nat \<Rightarrow> std_func \<Rightarrow> std_entry" where
  "variadic_entry name prefix start mn func = std_register_variadic name prefix start mn func"

definition register_all :: "std_entry list \<Rightarrow> standard_library \<Rightarrow> standard_library" where
  "register_all entries lib = fold (\<lambda>entry. entry) entries lib"

definition register_assertions :: "std_env \<Rightarrow> standard_library \<Rightarrow> standard_library" where
  "register_assertions env lib =
     register_all
       [fixed_entry ''ASSERT_TRUE'' [''IN'']
           (assert_bool True ''ASSERT_TRUE expected TRUE, got FALSE''),
        fixed_entry ''ASSERT_FALSE'' [''IN'']
           (assert_bool False ''ASSERT_FALSE expected FALSE, got TRUE''),
        fixed_entry ''ASSERT_EQUAL'' [''EXPECTED'', ''ACTUAL''] (assert_equal env),
        fixed_entry ''ASSERT_NOT_EQUAL'' [''EXPECTED'', ''ACTUAL'']
           (assert_not_equal env),
        fixed_entry ''ASSERT_GREATER'' [''VALUE'', ''BOUND''] (assert_greater env),
        fixed_entry ''ASSERT_LESS'' [''VALUE'', ''BOUND''] (assert_less env),
        fixed_entry ''ASSERT_GREATER_OR_EQUAL'' [''VALUE'', ''BOUND'']
           (assert_greater_or_equal env),
        fixed_entry ''ASSERT_LESS_OR_EQUAL'' [''VALUE'', ''BOUND'']
           (assert_less_or_equal env),
        fixed_entry ''ASSERT_NEAR'' [''EXPECTED'', ''ACTUAL'', ''DELTA'']
           (assert_near env)] lib"

definition register_numeric :: "std_env \<Rightarrow> standard_library \<Rightarrow> standard_library" where
  "register_numeric env lib =
     register_all
       [fixed_entry ''ABS'' [''IN''] std_abs,
        fixed_entry ''SQRT'' [''IN''] (unary_real f64_sqrt),
        fixed_entry ''LN'' [''IN''] (unary_real (se_ln env)),
        fixed_entry ''LOG'' [''IN''] (unary_real (se_log10 env)),
        fixed_entry ''EXP'' [''IN''] (unary_real (se_exp env)),
        fixed_entry ''SIN'' [''IN''] (unary_real (se_sin env)),
        fixed_entry ''COS'' [''IN''] (unary_real (se_cos env)),
        fixed_entry ''TAN'' [''IN''] (unary_real (se_tan env)),
        fixed_entry ''ASIN'' [''IN''] (unary_real (se_asin env)),
        fixed_entry ''ACOS'' [''IN''] (unary_real (se_acos env)),
        fixed_entry ''ATAN'' [''IN''] (unary_real (se_atan env)),
        fixed_entry ''ATAN2'' [''Y'', ''X''] (std_atan2 env),
        variadic_entry ''ADD'' ''IN'' 1 2 (std_add env),
        fixed_entry ''SUB'' [''IN1'', ''IN2''] (std_binary env OpSub),
        variadic_entry ''MUL'' ''IN'' 1 2 (std_mul env),
        fixed_entry ''DIV'' [''IN1'', ''IN2''] (std_div env),
        fixed_entry ''MOD'' [''IN1'', ''IN2''] (std_binary env OpMod),
        fixed_entry ''EXPT'' [''IN1'', ''IN2''] (std_expt env),
        fixed_entry ''MOVE'' [''IN''] std_move] lib"

definition register_bit :: "standard_library \<Rightarrow> standard_library" where
  "register_bit lib =
     register_all
       [fixed_entry ''SHL'' [''IN'', ''N''] (std_shift ShiftLeft),
        fixed_entry ''SHR'' [''IN'', ''N''] (std_shift ShiftRight),
        fixed_entry ''ROL'' [''IN'', ''N''] (std_shift RotateLeft),
        fixed_entry ''ROR'' [''IN'', ''N''] (std_shift RotateRight),
        variadic_entry ''AND'' ''IN'' 1 2 (bitwise_variadic (AND)),
        variadic_entry ''OR'' ''IN'' 1 2 (bitwise_variadic (OR)),
        variadic_entry ''XOR'' ''IN'' 1 2 (bitwise_variadic (XOR)),
        fixed_entry ''NOT'' [''IN''] bit_not] lib"

definition register_selection :: "standard_library \<Rightarrow> standard_library" where
  "register_selection lib =
     register_all
       [fixed_entry ''SEL'' [''G'', ''IN0'', ''IN1''] std_sel,
        variadic_entry ''MIN'' ''IN'' 1 2 (min_max True),
        variadic_entry ''MAX'' ''IN'' 1 2 (min_max False),
        fixed_entry ''LIMIT'' [''MN'', ''IN'', ''MX''] std_limit,
        std_register_variadic_with_fixed ''MUX'' [''K''] ''IN'' 0 2 std_mux] lib"

definition register_comparison :: "standard_library \<Rightarrow> standard_library" where
  "register_comparison lib =
     register_all
       [variadic_entry ''GT'' ''IN'' 1 2 (compare_chain CmpGt),
        variadic_entry ''GE'' ''IN'' 1 2 (compare_chain CmpGe),
        variadic_entry ''EQ'' ''IN'' 1 2 (compare_chain CmpEq),
        variadic_entry ''LE'' ''IN'' 1 2 (compare_chain CmpLe),
        variadic_entry ''LT'' ''IN'' 1 2 (compare_chain CmpLt),
        fixed_entry ''NE'' [''IN1'', ''IN2''] std_ne] lib"

definition register_string :: "standard_library \<Rightarrow> standard_library" where
  "register_string lib =
     register_all
       [fixed_entry ''LEN'' [''IN''] std_len,
        fixed_entry ''LEFT'' [''IN'', ''L''] std_left,
        fixed_entry ''RIGHT'' [''IN'', ''L''] std_right,
        fixed_entry ''MID'' [''IN'', ''L'', ''P''] std_mid,
        variadic_entry ''CONCAT'' ''IN'' 1 2 std_concat,
        fixed_entry ''INSERT'' [''IN1'', ''IN2'', ''P''] std_insert,
        fixed_entry ''DELETE'' [''IN'', ''L'', ''P''] std_delete,
        fixed_entry ''REPLACE'' [''IN1'', ''IN2'', ''L'', ''P''] std_replace,
        fixed_entry ''FIND'' [''IN1'', ''IN2''] std_find] lib"

definition register_time :: "std_env \<Rightarrow> standard_library \<Rightarrow> standard_library" where
  "register_time env lib =
     register_all
       [fixed_entry ''ADD_TIME'' [''IN1'', ''IN2''] (bin_time env PairTime OpAdd),
        fixed_entry ''ADD_LTIME'' [''IN1'', ''IN2''] (bin_time env PairLTime OpAdd),
        fixed_entry ''ADD_TOD_TIME'' [''IN1'', ''IN2'']
           (bin_time env PairTodTime OpAdd),
        fixed_entry ''ADD_LTOD_LTIME'' [''IN1'', ''IN2'']
           (bin_time env PairLTodLTime OpAdd),
        fixed_entry ''ADD_DT_TIME'' [''IN1'', ''IN2''] (bin_time env PairDtTime OpAdd),
        fixed_entry ''ADD_LDT_LTIME'' [''IN1'', ''IN2'']
           (bin_time env PairLdtLTime OpAdd),
        fixed_entry ''SUB_TIME'' [''IN1'', ''IN2''] (bin_time env PairTime OpSub),
        fixed_entry ''SUB_LTIME'' [''IN1'', ''IN2''] (bin_time env PairLTime OpSub),
        fixed_entry ''SUB_DATE_DATE'' [''IN1'', ''IN2''] (bin_time env PairDate OpSub),
        fixed_entry ''SUB_LDATE_LDATE'' [''IN1'', ''IN2'']
           (bin_time env PairLDate OpSub),
        fixed_entry ''SUB_TOD_TIME'' [''IN1'', ''IN2'']
           (bin_time env PairTodTime OpSub),
        fixed_entry ''SUB_LTOD_LTIME'' [''IN1'', ''IN2'']
           (bin_time env PairLTodLTime OpSub),
        fixed_entry ''SUB_TOD_TOD'' [''IN1'', ''IN2''] (bin_time env PairTod OpSub),
        fixed_entry ''SUB_LTOD_LTOD'' [''IN1'', ''IN2''] (bin_time env PairLTod OpSub),
        fixed_entry ''SUB_DT_TIME'' [''IN1'', ''IN2''] (bin_time env PairDtTime OpSub),
        fixed_entry ''SUB_LDT_LTIME'' [''IN1'', ''IN2'']
           (bin_time env PairLdtLTime OpSub),
        fixed_entry ''SUB_DT_DT'' [''IN1'', ''IN2''] (bin_time env PairDt OpSub),
        fixed_entry ''SUB_LDT_LDT'' [''IN1'', ''IN2''] (bin_time env PairLdt OpSub),
        fixed_entry ''MUL_TIME'' [''IN1'', ''IN2''] (scale_time_arg True),
        fixed_entry ''MUL_LTIME'' [''IN1'', ''IN2''] (scale_ltime_arg True),
        fixed_entry ''DIV_TIME'' [''IN1'', ''IN2''] (scale_time_arg False),
        fixed_entry ''DIV_LTIME'' [''IN1'', ''IN2''] (scale_ltime_arg False),
        fixed_entry ''CONCAT_DATE_TOD'' [''DATE'', ''TOD''] concat_date_tod,
        fixed_entry ''CONCAT_DATE_LTOD'' [''DATE'', ''LTOD''] concat_date_ltod,
        fixed_entry ''CONCAT_DATE'' [''YEAR'', ''MONTH'', ''DAY''] concat_date,
        fixed_entry ''CONCAT_TOD'' [''HOUR'', ''MINUTE'', ''SECOND'', ''MILLISECOND'']
           concat_tod,
        fixed_entry ''CONCAT_LTOD'' [''HOUR'', ''MINUTE'', ''SECOND'', ''MILLISECOND'']
           concat_ltod,
        fixed_entry ''CONCAT_DT'' [''YEAR'', ''MONTH'', ''DAY'', ''HOUR'', ''MINUTE'', ''SECOND'', ''MILLISECOND'']
           concat_dt,
        fixed_entry ''CONCAT_LDT'' [''YEAR'', ''MONTH'', ''DAY'', ''HOUR'', ''MINUTE'', ''SECOND'', ''MILLISECOND'']
           concat_ldt,
        fixed_entry ''DAY_OF_WEEK'' [''IN''] day_of_week] lib"

definition register_validate :: "standard_library \<Rightarrow> standard_library" where
  "register_validate lib =
     register_all
       [fixed_entry ''IS_VALID'' [''IN''] std_is_valid,
        fixed_entry ''IS_VALID_BCD'' [''IN''] std_is_valid_bcd] lib"

section \<open>The library\<close>

definition standard_library_new :: "std_env \<Rightarrow> standard_library" where
  "standard_library_new env =
     (register_validate \<circ> register_time env \<circ> register_string \<circ> register_comparison
       \<circ> register_selection \<circ> register_bit \<circ> register_numeric env \<circ> register_assertions env) []"

definition std_call :: "standard_library \<Rightarrow> rstr \<Rightarrow> std_func" where
  "std_call lib name args =
     (let key = to_ascii_uppercase name in
      case im_get lib key of
        Some entry \<Rightarrow> sfn_func entry args
      | None \<Rightarrow>
          (case call_conversion key of
             Some convert \<Rightarrow> convert args
           | None \<Rightarrow> Some (Inl (UndefinedFunction name))))"

end
