(* ===== verification/Io.thy ===== *)
theory Io
  imports Numeric Strings Hir_Types Memory_Laws
begin

text \<open>
  The process image (\<open>io.rs\<close>): direct addresses and their notation, the input, output and memory
  areas with reads and writes of bits, bytes and words, the bindings of variables to addresses and
  the coercion between declared types and the cells of the image.
\<close>

text \<open>The quotation mark of the error texts.\<close>

definition quote_char :: rstr where "quote_char = [CHR 0x27]"

datatype io_driver_error_policy = DrvFault | DrvWarn | DrvIgnore

definition io_driver_error_policy_parse :: "rstr \<Rightarrow> runtime_error + io_driver_error_policy" where
  "io_driver_error_policy_parse value =
     (let value = to_ascii_lowercase (str_trim value) in
      if value = ''fault'' then Inr DrvFault
      else if value \<in> {''warn'', ''warning''} then Inr DrvWarn
      else if value = ''ignore'' then Inr DrvIgnore
      else Inl (InvalidConfig
        (''invalid io.on_error '' @ quote_char @ value @ quote_char @ '' (expected fault/warn/ignore)'')))"

section \<open>Addresses\<close>

datatype io_size = IoBit | IoByte | IoWord | IoDWord | IoLWord

record io_address =
  ia_area :: io_area
  ia_size :: io_size
  ia_byte :: u32
  ia_bit :: u8
  ia_path :: "u32 list"
  ia_wildcard :: bool

definition parse_u32 :: "rstr \<Rightarrow> rstr \<Rightarrow> runtime_error + u32" where
  "parse_u32 value full = ok_or (map_option of_nat (parse_unsigned 32 value)) (InvalidIoAddress full)"

definition parse_u8 :: "rstr \<Rightarrow> rstr \<Rightarrow> runtime_error + u8" where
  "parse_u8 value full = ok_or (map_option of_nat (parse_unsigned 8 value)) (InvalidIoAddress full)"

definition wildcard_address :: "io_area \<Rightarrow> io_size \<Rightarrow> io_address" where
  "wildcard_address area sz =
     \<lparr>ia_area = area, ia_size = sz, ia_byte = 0, ia_bit = 0, ia_path = [], ia_wildcard = True\<rparr>"

text \<open>The letter of the area, then that of the size; a digit in place of the size means a bit.\<close>

definition parse_area :: "rstr \<Rightarrow> (io_area \<times> rstr) option" where
  "parse_area s =
     (case s of
        [] \<Rightarrow> None
      | c # rest \<Rightarrow>
          if c = CHR ''I'' then Some (AreaInput, rest)
          else if c = CHR ''Q'' then Some (AreaOutput, rest)
          else if c = CHR ''M'' then Some (AreaMemory, rest)
          else None)"

definition parse_size :: "rstr \<Rightarrow> (io_size \<times> rstr) option" where
  "parse_size s =
     (case s of
        [] \<Rightarrow> None
      | c # rest \<Rightarrow>
          if c = CHR ''X'' then Some (IoBit, rest)
          else if c = CHR ''B'' then Some (IoByte, rest)
          else if c = CHR ''W'' then Some (IoWord, rest)
          else if c = CHR ''D'' then Some (IoDWord, rest)
          else if c = CHR ''L'' then Some (IoLWord, rest)
          else if is_digit c then Some (IoBit, s)
          else None)"

definition parse_path :: "rstr \<Rightarrow> io_size \<Rightarrow> rstr list \<Rightarrow> runtime_error + u32 list \<times> u8" where
  "parse_path full sz parts =
     (if sz = IoBit \<and> 2 \<le> length parts then
        rbind (collect (\<lambda>part. parse_u32 part full) (butlast parts)) (\<lambda>path.
        rbind (parse_u8 (last parts) full) (\<lambda>bit.
          if 7 < bit then Inl (InvalidIoAddress full) else Inr (path, bit)))
      else
        rbind (collect (\<lambda>part. parse_u32 part full) parts) (\<lambda>path. Inr (path, 0)))"

definition io_address_parse :: "rstr \<Rightarrow> runtime_error + io_address" where
  "io_address_parse text =
     (let trimmed = str_trim text; err = InvalidIoAddress trimmed in
      rbind (ok_or (strip_prefix ''%'' trimmed) err) (\<lambda>s.
      rbind (ok_or (parse_area s) err) (\<lambda>(area, rest).
        if str_trim rest = [] then Inl err
        else if take 1 rest = ''*'' then Inr (wildcard_address area IoBit)
        else
          rbind (ok_or (parse_size rest) err) (\<lambda>(sz, rest).
            if str_trim rest = ''*'' then Inr (wildcard_address area sz)
            else
              rbind (parse_path trimmed sz (split_at (CHR ''.'') rest)) (\<lambda>(path, bit).
                case path of
                  [] \<Rightarrow> Inl err
                | byte # _ \<Rightarrow>
                    Inr \<lparr>ia_area = area, ia_size = sz, ia_byte = byte, ia_bit = bit,
                      ia_path = path, ia_wildcard = False\<rparr>)))))"

section \<open>The image\<close>

datatype io_target =
    TargetName rstr
  | TargetReference value_ref

record io_binding =
  ib_target :: io_target
  ib_address :: io_address
  ib_value_type :: "type_id option"
  ib_display_name :: "rstr option"

text \<open>The key of a hierarchical address: area, size, path and bit.\<close>

type_synonym io_address_key = "io_area \<times> io_size \<times> u32 list \<times> u8"

definition address_key :: "io_address \<Rightarrow> io_address_key" where
  "address_key a = (ia_area a, ia_size a, ia_path a, ia_bit a)"

record io_interface =
  ii_inputs :: "byte list"
  ii_outputs :: "byte list"
  ii_memory :: "byte list"
  ii_bindings :: "io_binding list"
  ii_hierarchical :: "io_address_key \<rightharpoonup> rvalue"

definition io_interface_new :: io_interface where
  "io_interface_new =
     \<lparr>ii_inputs = [], ii_outputs = [], ii_memory = [], ii_bindings = [],
      ii_hierarchical = Map.empty\<rparr>"

definition resize_to :: "nat \<Rightarrow> byte list \<Rightarrow> byte list" where
  "resize_to n buffer = take n buffer @ replicate (n - length buffer) 0"

definition io_resize :: "nat \<Rightarrow> nat \<Rightarrow> nat \<Rightarrow> io_interface \<Rightarrow> io_interface" where
  "io_resize inputs outputs memory io =
     io\<lparr>ii_inputs := resize_to inputs (ii_inputs io), ii_outputs := resize_to outputs (ii_outputs io),
        ii_memory := resize_to memory (ii_memory io)\<rparr>"

definition io_area_of :: "io_interface \<Rightarrow> io_area \<Rightarrow> byte list" where
  "io_area_of io area =
     (case area of AreaInput \<Rightarrow> ii_inputs io | AreaOutput \<Rightarrow> ii_outputs io | AreaMemory \<Rightarrow> ii_memory io)"

definition set_area :: "io_area \<Rightarrow> byte list \<Rightarrow> io_interface \<Rightarrow> io_interface" where
  "set_area area buffer io =
     (case area of
        AreaInput \<Rightarrow> io\<lparr>ii_inputs := buffer\<rparr>
      | AreaOutput \<Rightarrow> io\<lparr>ii_outputs := buffer\<rparr>
      | AreaMemory \<Rightarrow> io\<lparr>ii_memory := buffer\<rparr>)"

definition ensure_len :: "byte list \<Rightarrow> nat \<Rightarrow> byte list" where
  "ensure_len buffer index =
     (if length buffer \<le> index then buffer @ replicate (index + 1 - length buffer) 0 else buffer)"

definition byte_at :: "byte list \<Rightarrow> nat \<Rightarrow> byte" where
  "byte_at buffer index = (if index < length buffer then buffer ! index else 0)"

definition bytes_at :: "byte list \<Rightarrow> nat \<Rightarrow> nat \<Rightarrow> byte list" where
  "bytes_at buffer start n = map (\<lambda>i. byte_at buffer (start + i)) [0..<n]"

fun put_bytes :: "nat \<Rightarrow> byte list \<Rightarrow> byte list \<Rightarrow> byte list" where
  "put_bytes start [] buffer = buffer"
| "put_bytes start (b # bs) buffer = put_bytes (Suc start) bs (buffer[start := b])"

text \<open>The texts of the two errors of an access.\<close>

definition area_name :: "io_area \<Rightarrow> rstr" where
  "area_name area =
     (case area of AreaInput \<Rightarrow> ''Input'' | AreaOutput \<Rightarrow> ''Output'' | AreaMemory \<Rightarrow> ''Memory'')"

fun comma_list :: "rstr list \<Rightarrow> rstr" where
  "comma_list [] = []"
| "comma_list [s] = s"
| "comma_list (s # ss) = s @ '', '' @ comma_list ss"

definition wildcard_error :: "io_address \<Rightarrow> runtime_error" where
  "wildcard_error a = InvalidIoAddress (''%?* for '' @ area_name (ia_area a))"

definition hierarchical_error :: "io_address \<Rightarrow> runtime_error" where
  "hierarchical_error a =
     InvalidIoAddress (''hier ['' @ comma_list (map (\<lambda>n. show_nat (unat n)) (ia_path a)) @ '']'')"

definition io_read :: "io_interface \<Rightarrow> io_address \<Rightarrow> runtime_error + rvalue" where
  "io_read io a =
     (if ia_wildcard a then Inl (wildcard_error a)
      else if 1 < length (ia_path a) then
        ok_or (ii_hierarchical io (address_key a)) (hierarchical_error a)
      else
        (let buffer = io_area_of io (ia_area a); start = unat (ia_byte a) in
         case ia_size a of
           IoBit \<Rightarrow> Inr (VBool (and (drop_bit (unat (ia_bit a)) (byte_at buffer start)) 1 = 1))
         | IoByte \<Rightarrow> Inr (VByte (byte_at buffer start))
         | IoWord \<Rightarrow> Inr (VWord (from_le (bytes_at buffer start 2)))
         | IoDWord \<Rightarrow> Inr (VDWord (from_le (bytes_at buffer start 4)))
         | IoLWord \<Rightarrow> Inr (VLWord (from_le (bytes_at buffer start 8)))))"

text \<open>The bytes to write to a buffer, a pure function of the buffer for the sizes of more than a bit.\<close>

definition put_cell :: "io_address \<Rightarrow> byte list \<Rightarrow> byte list \<Rightarrow> byte list" where
  "put_cell a bytes buffer =
     (let start = unat (ia_byte a)
      in put_bytes start bytes (ensure_len buffer (start + (length bytes - 1))))"

definition put_bit :: "io_address \<Rightarrow> bool \<Rightarrow> byte list \<Rightarrow> byte list" where
  "put_bit a flag buffer =
     (let start = unat (ia_byte a);
          buffer = ensure_len buffer start;
          byte = buffer ! start;
          msk = push_bit (unat (ia_bit a)) 1
      in buffer[start := (if flag then or byte msk else and byte (not msk))])"

definition io_write ::
    "io_address \<Rightarrow> rvalue \<Rightarrow> io_interface \<Rightarrow> (runtime_error + unit) \<times> io_interface" where
  "io_write a value io =
     (if ia_wildcard a then (Inl (wildcard_error a), io)
      else if 1 < length (ia_path a) then
        (Inr (), io\<lparr>ii_hierarchical := (ii_hierarchical io)(address_key a \<mapsto> value)\<rparr>)
      else
        (let update = (\<lambda>f. (Inr (), set_area (ia_area a) (f (io_area_of io (ia_area a))) io)) in
         case ia_size a of
           IoBit \<Rightarrow> (case value of VBool flag \<Rightarrow> update (put_bit a flag) | _ \<Rightarrow> (Inl TypeMismatch, io))
         | IoByte \<Rightarrow> (case value of VByte byte \<Rightarrow> update (put_cell a [byte]) | _ \<Rightarrow> (Inl TypeMismatch, io))
         | IoWord \<Rightarrow>
             (case value of VWord word \<Rightarrow> update (put_cell a (le16 word)) | _ \<Rightarrow> (Inl TypeMismatch, io))
         | IoDWord \<Rightarrow>
             (case value of VDWord word \<Rightarrow> update (put_cell a (le32 word)) | _ \<Rightarrow> (Inl TypeMismatch, io))
         | IoLWord \<Rightarrow>
             (case value of VLWord word \<Rightarrow> update (put_cell a (le64 word)) | _ \<Rightarrow> (Inl TypeMismatch, io))))"

section \<open>Types and cells\<close>

definition expected_size_for_type :: "type_id \<Rightarrow> io_size option" where
  "expected_size_for_type tid =
     (if tid = TypeId_BOOL then Some IoBit
      else if tid \<in> {TypeId_SINT, TypeId_USINT, TypeId_BYTE, TypeId_CHAR} then Some IoByte
      else if tid \<in> {TypeId_INT, TypeId_UINT, TypeId_WORD, TypeId_WCHAR} then Some IoWord
      else if tid \<in> {TypeId_DINT, TypeId_UDINT, TypeId_DWORD, TypeId_REAL} then Some IoDWord
      else if tid \<in> {TypeId_LINT, TypeId_ULINT, TypeId_LWORD, TypeId_LREAL} then Some IoLWord
      else None)"


text \<open>
  The cell is reread at the declared type: \<open>as\<close> between a signed and an unsigned type of one width,
  and \<open>from_bits\<close>, keep the bits.
\<close>

definition coerce_from_io :: "rvalue \<Rightarrow> type_id \<Rightarrow> runtime_error + rvalue" where
  "coerce_from_io value target =
     (if target = TypeId_BOOL
      then (case value of VBool x \<Rightarrow> Inr (VBool x) | _ \<Rightarrow> Inl TypeMismatch)
      else if target = TypeId_SINT
      then (case value of VByte x \<Rightarrow> Inr (VSInt x) | _ \<Rightarrow> Inl TypeMismatch)
      else if target = TypeId_USINT
      then (case value of VByte x \<Rightarrow> Inr (VUSInt x) | _ \<Rightarrow> Inl TypeMismatch)
      else if target = TypeId_BYTE
      then (case value of VByte x \<Rightarrow> Inr (VByte x) | _ \<Rightarrow> Inl TypeMismatch)
      else if target = TypeId_CHAR
      then (case value of VByte x \<Rightarrow> Inr (VChar x) | _ \<Rightarrow> Inl TypeMismatch)
      else if target = TypeId_INT
      then (case value of VWord x \<Rightarrow> Inr (VInt x) | _ \<Rightarrow> Inl TypeMismatch)
      else if target = TypeId_UINT
      then (case value of VWord x \<Rightarrow> Inr (VUInt x) | _ \<Rightarrow> Inl TypeMismatch)
      else if target = TypeId_WORD
      then (case value of VWord x \<Rightarrow> Inr (VWord x) | _ \<Rightarrow> Inl TypeMismatch)
      else if target = TypeId_WCHAR
      then (case value of VWord x \<Rightarrow> Inr (VWChar x) | _ \<Rightarrow> Inl TypeMismatch)
      else if target = TypeId_DINT
      then (case value of VDWord x \<Rightarrow> Inr (VDInt x) | _ \<Rightarrow> Inl TypeMismatch)
      else if target = TypeId_UDINT
      then (case value of VDWord x \<Rightarrow> Inr (VUDInt x) | _ \<Rightarrow> Inl TypeMismatch)
      else if target = TypeId_DWORD
      then (case value of VDWord x \<Rightarrow> Inr (VDWord x) | _ \<Rightarrow> Inl TypeMismatch)
      else if target = TypeId_REAL
      then (case value of VDWord x \<Rightarrow> Inr (VReal x) | _ \<Rightarrow> Inl TypeMismatch)
      else if target = TypeId_LINT
      then (case value of VLWord x \<Rightarrow> Inr (VLInt x) | _ \<Rightarrow> Inl TypeMismatch)
      else if target = TypeId_ULINT
      then (case value of VLWord x \<Rightarrow> Inr (VULInt x) | _ \<Rightarrow> Inl TypeMismatch)
      else if target = TypeId_LWORD
      then (case value of VLWord x \<Rightarrow> Inr (VLWord x) | _ \<Rightarrow> Inl TypeMismatch)
      else if target = TypeId_LREAL
      then (case value of VLWord x \<Rightarrow> Inr (VLReal x) | _ \<Rightarrow> Inl TypeMismatch)
      else Inl TypeMismatch)"

text \<open>
  An integer of another type is converted with a range check, \<open>i8::try_from(to_i64(&value)?)\<close> and
  the like.
\<close>

definition signed_cell :: "rvalue \<Rightarrow> runtime_error + 'a::len word" where
  "signed_cell value =
     rbind (to_i64 value) (\<lambda>i. ok_or (signed_try_from (sint i)) Overflow)"

definition unsigned_cell :: "rvalue \<Rightarrow> runtime_error + 'a::len word" where
  "unsigned_cell value =
     rbind (to_u64 value) (\<lambda>i. ok_or (unsigned_try_from (uint i)) Overflow)"

definition cell_result :: "('a \<Rightarrow> rvalue) \<Rightarrow> runtime_error + 'a \<Rightarrow> runtime_error + rvalue" where
  "cell_result f m = rbind m (\<lambda>x. Inr (f x))"

definition coerce_to_io :: "rvalue \<Rightarrow> type_id \<Rightarrow> io_size \<Rightarrow> runtime_error + rvalue" where
  "coerce_to_io value target sz =
     (if expected_size_for_type target \<noteq> Some sz then Inl TypeMismatch
      else if target = TypeId_BOOL
      then (case value of VBool x \<Rightarrow> Inr (VBool x) | _ \<Rightarrow> Inl TypeMismatch)
      else if target = TypeId_SINT
      then cell_result VByte (case value of VSInt x \<Rightarrow> Inr x | _ \<Rightarrow> signed_cell value)
      else if target = TypeId_USINT
      then cell_result VByte (case value of VUSInt x \<Rightarrow> Inr x | _ \<Rightarrow> unsigned_cell value)
      else if target = TypeId_BYTE
      then (case value of VByte x \<Rightarrow> Inr (VByte x) | _ \<Rightarrow> Inl TypeMismatch)
      else if target = TypeId_CHAR
      then (case value of VChar x \<Rightarrow> Inr (VByte x) | _ \<Rightarrow> Inl TypeMismatch)
      else if target = TypeId_INT
      then cell_result VWord (case value of VInt x \<Rightarrow> Inr x | _ \<Rightarrow> signed_cell value)
      else if target = TypeId_UINT
      then cell_result VWord (case value of VUInt x \<Rightarrow> Inr x | _ \<Rightarrow> unsigned_cell value)
      else if target = TypeId_WORD
      then (case value of VWord x \<Rightarrow> Inr (VWord x) | _ \<Rightarrow> Inl TypeMismatch)
      else if target = TypeId_WCHAR
      then (case value of VWChar x \<Rightarrow> Inr (VWord x) | _ \<Rightarrow> Inl TypeMismatch)
      else if target = TypeId_DINT
      then cell_result VDWord (case value of VDInt x \<Rightarrow> Inr x | _ \<Rightarrow> signed_cell value)
      else if target = TypeId_UDINT
      then cell_result VDWord (case value of VUDInt x \<Rightarrow> Inr x | _ \<Rightarrow> unsigned_cell value)
      else if target = TypeId_DWORD
      then (case value of VDWord x \<Rightarrow> Inr (VDWord x) | _ \<Rightarrow> Inl TypeMismatch)
      else if target = TypeId_REAL
      then cell_result VDWord (case value of VReal x \<Rightarrow> Inr x | _ \<Rightarrow> rbind (to_f64 value) (\<lambda>x. Inr (f32_of_f64 x)))
      else if target = TypeId_LINT
      then cell_result VLWord (case value of VLInt x \<Rightarrow> Inr x | _ \<Rightarrow> to_i64 value)
      else if target = TypeId_ULINT
      then cell_result VLWord (case value of VULInt x \<Rightarrow> Inr x | _ \<Rightarrow> to_u64 value)
      else if target = TypeId_LWORD
      then (case value of VLWord x \<Rightarrow> Inr (VLWord x) | _ \<Rightarrow> Inl TypeMismatch)
      else if target = TypeId_LREAL
      then cell_result VLWord (case value of VLReal x \<Rightarrow> Inr x | _ \<Rightarrow> to_f64 value)
      else Inl TypeMismatch)"

section \<open>Bindings\<close>

definition io_push_binding :: "io_binding \<Rightarrow> io_interface \<Rightarrow> io_interface" where
  "io_push_binding b io = io\<lparr>ii_bindings := ii_bindings io @ [b]\<rparr>"

definition io_bind :: "rstr \<Rightarrow> io_address \<Rightarrow> io_interface \<Rightarrow> io_interface" where
  "io_bind name address =
     io_push_binding \<lparr>ib_target = TargetName name, ib_address = address, ib_value_type = None,
       ib_display_name = Some name\<rparr>"

definition io_bind_ref :: "value_ref \<Rightarrow> io_address \<Rightarrow> io_interface \<Rightarrow> io_interface" where
  "io_bind_ref reference address =
     io_push_binding \<lparr>ib_target = TargetReference reference, ib_address = address,
       ib_value_type = None, ib_display_name = None\<rparr>"

definition io_bind_typed :: "rstr \<Rightarrow> io_address \<Rightarrow> type_id \<Rightarrow> io_interface \<Rightarrow> io_interface" where
  "io_bind_typed name address value_type =
     io_push_binding \<lparr>ib_target = TargetName name, ib_address = address,
       ib_value_type = Some value_type, ib_display_name = Some name\<rparr>"

definition io_bind_ref_typed ::
    "value_ref \<Rightarrow> io_address \<Rightarrow> type_id \<Rightarrow> io_interface \<Rightarrow> io_interface" where
  "io_bind_ref_typed reference address value_type =
     io_push_binding \<lparr>ib_target = TargetReference reference, ib_address = address,
       ib_value_type = Some value_type, ib_display_name = None\<rparr>"

definition io_bind_ref_named_typed ::
    "value_ref \<Rightarrow> io_address \<Rightarrow> type_id \<Rightarrow> rstr \<Rightarrow> io_interface \<Rightarrow> io_interface" where
  "io_bind_ref_named_typed reference address value_type name =
     io_push_binding \<lparr>ib_target = TargetReference reference, ib_address = address,
       ib_value_type = Some value_type, ib_display_name = Some name\<rparr>"

definition coerce_opt ::
    "(rvalue \<Rightarrow> type_id \<Rightarrow> runtime_error + rvalue) \<Rightarrow> type_id option \<Rightarrow> rvalue \<Rightarrow> runtime_error + rvalue"
where
  "coerce_opt f ty value = (case ty of Some t \<Rightarrow> f value t | None \<Rightarrow> Inr value)"

definition store_target ::
    "io_target \<Rightarrow> rvalue \<Rightarrow> variable_storage \<Rightarrow> (runtime_error + unit) \<times> variable_storage" where
  "store_target target value s =
     (case target of
        TargetName name \<Rightarrow> (Inr (), set_global name value s)
      | TargetReference reference \<Rightarrow>
          (case write_by_ref reference value s of
             (True, s) \<Rightarrow> (Inr (), s)
           | (False, s) \<Rightarrow> (Inl NullReference, s)))"

definition load_target :: "io_target \<Rightarrow> variable_storage \<Rightarrow> runtime_error + rvalue" where
  "load_target target s =
     (case target of
        TargetName name \<Rightarrow> ok_or (get_global s name) (UndefinedVariable name)
      | TargetReference reference \<Rightarrow> ok_or (read_by_ref s reference) NullReference)"

definition is_input_area :: "io_area \<Rightarrow> bool" where
  "is_input_area area \<longleftrightarrow> area = AreaInput \<or> area = AreaMemory"

definition is_output_area :: "io_area \<Rightarrow> bool" where
  "is_output_area area \<longleftrightarrow> area = AreaOutput \<or> area = AreaMemory"

text \<open>The loops over the bindings stop at the first error; what was stored before stays.\<close>

fun read_bindings ::
    "io_interface \<Rightarrow> io_binding list \<Rightarrow> variable_storage
      \<Rightarrow> (runtime_error + unit) \<times> variable_storage" where
  "read_bindings io [] s = (Inr (), s)"
| "read_bindings io (b # bs) s =
     (if \<not> is_input_area (ia_area (ib_address b)) then read_bindings io bs s
      else
        (case rbind (io_read io (ib_address b)) (coerce_opt coerce_from_io (ib_value_type b)) of
           Inl e \<Rightarrow> (Inl e, s)
         | Inr value \<Rightarrow>
             (case store_target (ib_target b) value s of
                (Inl e, s) \<Rightarrow> (Inl e, s)
              | (Inr _, s) \<Rightarrow> read_bindings io bs s)))"

definition io_read_inputs ::
    "io_interface \<Rightarrow> variable_storage \<Rightarrow> (runtime_error + unit) \<times> variable_storage" where
  "io_read_inputs io s = read_bindings io (ii_bindings io) s"

fun write_bindings ::
    "variable_storage \<Rightarrow> io_binding list \<Rightarrow> io_interface \<Rightarrow> (runtime_error + unit) \<times> io_interface"
where
  "write_bindings s [] io = (Inr (), io)"
| "write_bindings s (b # bs) io =
     (if \<not> is_output_area (ia_area (ib_address b)) then write_bindings s bs io
      else
        (case rbind (load_target (ib_target b) s)
             (coerce_opt (\<lambda>v t. coerce_to_io v t (ia_size (ib_address b))) (ib_value_type b)) of
           Inl e \<Rightarrow> (Inl e, io)
         | Inr value \<Rightarrow>
             (case io_write (ib_address b) value io of
                (Inl e, io) \<Rightarrow> (Inl e, io)
              | (Inr _, io) \<Rightarrow> write_bindings s bs io)))"

definition io_write_outputs ::
    "variable_storage \<Rightarrow> io_interface \<Rightarrow> (runtime_error + unit) \<times> io_interface" where
  "io_write_outputs s io = write_bindings s (ii_bindings io) io"

section \<open>Safe state and snapshot\<close>

type_synonym io_safe_state = "(io_address \<times> rvalue) list"

fun io_safe_state_apply ::
    "io_safe_state \<Rightarrow> io_interface \<Rightarrow> (runtime_error + unit) \<times> io_interface" where
  "io_safe_state_apply [] io = (Inr (), io)"
| "io_safe_state_apply ((address, value) # rest) io =
     (case io_write address value io of
        (Inl e, io) \<Rightarrow> (Inl e, io)
      | (Inr _, io) \<Rightarrow> io_safe_state_apply rest io)"

text \<open>The text of an error, \<open>to_string\<close>, is an argument.\<close>

datatype io_snapshot_value = SnapValue rvalue | SnapError rstr | SnapUnresolved

record io_snapshot_entry =
  se_name :: "rstr option"
  se_address :: io_address
  se_value :: io_snapshot_value

record io_snapshot =
  sn_inputs :: "io_snapshot_entry list"
  sn_outputs :: "io_snapshot_entry list"
  sn_memory :: "io_snapshot_entry list"

definition binding_entry ::
    "(runtime_error \<Rightarrow> rstr) \<Rightarrow> io_interface \<Rightarrow> io_binding \<Rightarrow> io_snapshot_entry" where
  "binding_entry show_error io b =
     \<lparr>se_name =
        (case ib_display_name b of
           Some name \<Rightarrow> Some name
         | None \<Rightarrow> (case ib_target b of TargetName name \<Rightarrow> Some name | TargetReference _ \<Rightarrow> None)),
      se_address = ib_address b,
      se_value =
        (if ia_wildcard (ib_address b) then SnapUnresolved
         else (case io_read io (ib_address b) of Inr v \<Rightarrow> SnapValue v | Inl e \<Rightarrow> SnapError (show_error e)))\<rparr>"

definition io_snapshot_of :: "(runtime_error \<Rightarrow> rstr) \<Rightarrow> io_interface \<Rightarrow> io_snapshot" where
  "io_snapshot_of show_error io =
     (let entries = (\<lambda>area. map (binding_entry show_error io)
        (filter (\<lambda>b. ia_area (ib_address b) = area) (ii_bindings io)))
      in \<lparr>sn_inputs = entries AreaInput, sn_outputs = entries AreaOutput,
          sn_memory = entries AreaMemory\<rparr>)"

end
