(* ===== verification/Type_Values.thy ===== *)
theory Type_Values
  imports Hir_Types Memory Values
begin

text \<open>
  Default values of types (\<open>value/defaults.rs\<close>) and sizes of types and values
  (\<open>value/size.rs\<close>). Both follow type identifiers through the registry; fuel bounds the depth.
\<close>

text \<open>\<open>collect\<close> with a step that may run out of fuel.\<close>

fun fcollect :: "('a \<Rightarrow> ('e, 'b) fueled) \<Rightarrow> 'a list \<Rightarrow> ('e, 'b list) fueled" where
  "fcollect f [] = Some (Inr [])"
| "fcollect f (x # xs) = fbind (f x) (\<lambda>y. fbind (fcollect f xs) (\<lambda>ys. Some (Inr (y # ys))))"

lemma fuel_le_fcollect [fuel_intros]:
  assumes "\<And>x. fuel_le (f x) (g x)"
  shows "fuel_le (fcollect f xs) (fcollect g xs)"
  by (induction xs) (auto intro!: fuel_intros assms)

section \<open>Default values\<close>

datatype default_value_error = DvUnknownType | DvUnsupportedType | DvEmptyEnum | DvInvalidArrayBounds

text \<open>The product of the lengths is computed in \<open>i128\<close>.\<close>

fun dims_product :: "(i64 \<times> i64) list \<Rightarrow> i128 \<Rightarrow> default_value_error + i128" where
  "dims_product [] acc = Inr acc"
| "dims_product ((lower, upper) # rest) acc =
     (if sint upper < sint lower then Inl DvInvalidArrayBounds
      else dims_product rest (acc * (scast upper - scast lower + 1)))"

definition array_len :: "(i64 \<times> i64) list \<Rightarrow> default_value_error + nat" where
  "array_len dimensions =
     rbind (dims_product dimensions 1) (\<lambda>total. ok_or (usize_of_i128 total) DvInvalidArrayBounds)"

definition int_value_of_base :: "type_id \<Rightarrow> i64 \<Rightarrow> default_value_error + rvalue" where
  "int_value_of_base base value =
     (if base = TypeId_SINT then Inr (VSInt (ucast value))
      else if base = TypeId_INT then Inr (VInt (ucast value))
      else if base = TypeId_DINT then Inr (VDInt (ucast value))
      else if base = TypeId_LINT then Inr (VLInt value)
      else if base = TypeId_USINT then Inr (VUSInt (ucast value))
      else if base = TypeId_UINT then Inr (VUInt (ucast value))
      else if base = TypeId_UDINT then Inr (VUDInt (ucast value))
      else if base = TypeId_ULINT then Inr (VULInt value)
      else Inl DvUnsupportedType)"

definition default_fields ::
    "(type_id \<Rightarrow> (default_value_error, rvalue) fueled) \<Rightarrow> struct_field list
      \<Rightarrow> (default_value_error, (rstr, rvalue) index_map) fueled" where
  "default_fields rec flds =
     fbind (fcollect (\<lambda>fld. fbind (rec (sf_type_id fld)) (\<lambda>v. Some (Inr (sf_name fld, v)))) flds)
       (\<lambda>kvs. Some (Inr (foldl (\<lambda>m (k, v). im_insert k v m) [] kvs)))"

definition default_value_for_type ::
    "(type_id \<Rightarrow> (default_value_error, rvalue) fueled) \<Rightarrow> date_time_profile \<Rightarrow> hir_type
      \<Rightarrow> (default_value_error, rvalue) fueled" where
  "default_value_for_type rec profile ty =
     (case ty of
        TyBool \<Rightarrow> Some (Inr (VBool False))
      | TySInt \<Rightarrow> Some (Inr (VSInt 0))
      | TyInt \<Rightarrow> Some (Inr (VInt 0))
      | TyDInt \<Rightarrow> Some (Inr (VDInt 0))
      | TyLInt \<Rightarrow> Some (Inr (VLInt 0))
      | TyUSInt \<Rightarrow> Some (Inr (VUSInt 0))
      | TyUInt \<Rightarrow> Some (Inr (VUInt 0))
      | TyUDInt \<Rightarrow> Some (Inr (VUDInt 0))
      | TyULInt \<Rightarrow> Some (Inr (VULInt 0))
      | TyReal \<Rightarrow> Some (Inr (VReal 0))
      | TyLReal \<Rightarrow> Some (Inr (VLReal 0))
      | TyByte \<Rightarrow> Some (Inr (VByte 0))
      | TyWord \<Rightarrow> Some (Inr (VWord 0))
      | TyDWord \<Rightarrow> Some (Inr (VDWord 0))
      | TyLWord \<Rightarrow> Some (Inr (VLWord 0))
      | TyTime \<Rightarrow> Some (Inr (VTime 0))
      | TyLTime \<Rightarrow> Some (Inr (VLTime 0))
      | TyDate \<Rightarrow> Some (Inr (VDate (dtp_epoch profile)))
      | TyLDate \<Rightarrow> Some (Inr (VLDate 0))
      | TyTod \<Rightarrow> Some (Inr (VTod 0))
      | TyLTod \<Rightarrow> Some (Inr (VLTod 0))
      | TyDt \<Rightarrow> Some (Inr (VDt (dtp_epoch profile)))
      | TyLdt \<Rightarrow> Some (Inr (VLdt 0))
      | TyString _ \<Rightarrow> Some (Inr (VString []))
      | TyWString _ \<Rightarrow> Some (Inr (VWString []))
      | TyChar \<Rightarrow> Some (Inr (VChar 0))
      | TyWChar \<Rightarrow> Some (Inr (VWChar 0))
      | TyArray element dimensions \<Rightarrow>
          fbind (Some (array_len dimensions)) (\<lambda>total.
          fbind (fcollect rec (replicate total element)) (\<lambda>elements.
            Some (Inr (VArray elements dimensions))))
      | TyStruct name flds \<Rightarrow>
          fbind (default_fields rec flds) (\<lambda>values. Some (Inr (VStruct name values)))
      | TyEnum name _ values \<Rightarrow>
          (case values of
             [] \<Rightarrow> Some (Inl DvEmptyEnum)
           | (variant_name, numeric_value) # _ \<Rightarrow> Some (Inr (VEnum name variant_name numeric_value)))
      | TyAlias _ target \<Rightarrow> rec target
      | TyReference _ \<Rightarrow> Some (Inr (VReference None))
      | TySubrange base lower _ \<Rightarrow> Some (int_value_of_base base lower)
      | TyNull \<Rightarrow> Some (Inr VNull)
      | TyUnion name variants \<Rightarrow>
          fbind (default_fields rec variants) (\<lambda>values. Some (Inr (VStruct name values)))
      | _ \<Rightarrow> Some (Inl DvUnsupportedType))"

fun default_value_for_type_id ::
    "nat \<Rightarrow> type_registry \<Rightarrow> date_time_profile \<Rightarrow> type_id \<Rightarrow> (default_value_error, rvalue) fueled"
where
  "default_value_for_type_id 0 registry profile tid = None"
| "default_value_for_type_id (Suc fuel) registry profile tid =
     (case registry_get registry tid of
        None \<Rightarrow> Some (Inl DvUnknownType)
      | Some ty \<Rightarrow>
          default_value_for_type (default_value_for_type_id fuel registry profile) profile ty)"

section \<open>Sizes\<close>

datatype size_of_error = SzUnknownType | SzUnsupportedType | SzOverflow

definition u64_checked :: "nat \<Rightarrow> size_of_error + nat" where
  "u64_checked n = (if n < 2 ^ 64 then Inr n else Inl SzOverflow)"

fun dims_checked :: "(i64 \<times> i64) list \<Rightarrow> int \<Rightarrow> int option" where
  "dims_checked [] acc = Some acc"
| "dims_checked ((lower, upper) # rest) acc =
     (let len = sint upper - sint lower + 1 in
      if len \<le> 0 then None
      else if acc * len < 2 ^ 127 then dims_checked rest (acc * len) else None)"

definition array_len_bits :: "(i64 \<times> i64) list \<Rightarrow> nat option" where
  "array_len_bits dimensions =
     Option.bind (dims_checked dimensions 1)
       (\<lambda>total. if total < 2 ^ 64 then Some (nat total) else None)"

text \<open>
  The size of a \<open>ValueRef\<close> is the compiler's choice, an argument. A loop that checks each sum
  after asking for the next size is a traversal that carries the sum.
\<close>

fun struct_size ::
    "(type_id \<Rightarrow> (size_of_error, nat) fueled) \<Rightarrow> struct_field list \<Rightarrow> nat
      \<Rightarrow> (size_of_error, nat) fueled" where
  "struct_size rec [] acc = Some (Inr acc)"
| "struct_size rec (fld # flds) acc =
     fbind (rec (sf_type_id fld)) (\<lambda>size.
     fbind (Some (u64_checked (acc + size))) (\<lambda>acc. struct_size rec flds acc))"

fun union_size ::
    "(type_id \<Rightarrow> (size_of_error, nat) fueled) \<Rightarrow> struct_field list \<Rightarrow> nat
      \<Rightarrow> (size_of_error, nat) fueled" where
  "union_size rec [] m = Some (Inr m)"
| "union_size rec (v # vs) m = fbind (rec (sf_type_id v)) (\<lambda>size. union_size rec vs (max m size))"

fun size_of_type ::
    "nat \<Rightarrow> nat \<Rightarrow> type_registry \<Rightarrow> type_id \<Rightarrow> (size_of_error, nat) fueled" where
  "size_of_type ref_size 0 registry tid = None"
| "size_of_type ref_size (Suc fuel) registry tid =
     (case registry_get registry tid of
        None \<Rightarrow> Some (Inl SzUnknownType)
      | Some ty \<Rightarrow>
          (case ty of
             TyAlias _ target \<Rightarrow> size_of_type ref_size fuel registry target
           | TySubrange base _ _ \<Rightarrow> size_of_type ref_size fuel registry base
           | TyEnum _ base _ \<Rightarrow> size_of_type ref_size fuel registry base
           | TyArray element dimensions \<Rightarrow>
               fbind (size_of_type ref_size fuel registry element) (\<lambda>element_size.
               fbind (Some (ok_or (array_len_bits dimensions) SzUnsupportedType)) (\<lambda>len.
                 Some (u64_checked (element_size * len))))
           | TyStruct _ flds \<Rightarrow> struct_size (size_of_type ref_size fuel registry) flds 0
           | TyUnion _ variants \<Rightarrow> union_size (size_of_type ref_size fuel registry) variants 0
           | TyString max_len \<Rightarrow> Some (ok_or (map_option unat max_len) SzUnsupportedType)
           | TyWString max_len \<Rightarrow>
               Some (ok_or (map_option (\<lambda>len. unat len * 2) max_len) SzUnsupportedType)
           | TyReference _ \<Rightarrow> Some (Inr ref_size)
           | TyPointer _ \<Rightarrow> Some (Inr ref_size)
           | TyTime \<Rightarrow> Some (Inr 4) | TyDate \<Rightarrow> Some (Inr 4) | TyTod \<Rightarrow> Some (Inr 4) | TyDt \<Rightarrow> Some (Inr 4)
           | TyLTime \<Rightarrow> Some (Inr 8) | TyLDate \<Rightarrow> Some (Inr 8) | TyLTod \<Rightarrow> Some (Inr 8) | TyLdt \<Rightarrow> Some (Inr 8)
           | _ \<Rightarrow>
               Some (ok_or (map_option (\<lambda>bits. (bits + 7) div 8) (bit_size ty)) SzUnsupportedType)))"

definition elementary_size :: "rvalue \<Rightarrow> nat option" where
  "elementary_size v =
     (case v of
        VBool _ \<Rightarrow> Some 1 | VSInt _ \<Rightarrow> Some 1 | VUSInt _ \<Rightarrow> Some 1 | VByte _ \<Rightarrow> Some 1 | VChar _ \<Rightarrow> Some 1
      | VInt _ \<Rightarrow> Some 2 | VUInt _ \<Rightarrow> Some 2 | VWord _ \<Rightarrow> Some 2 | VWChar _ \<Rightarrow> Some 2
      | VDInt _ \<Rightarrow> Some 4 | VUDInt _ \<Rightarrow> Some 4 | VDWord _ \<Rightarrow> Some 4 | VReal _ \<Rightarrow> Some 4
      | VLInt _ \<Rightarrow> Some 8 | VULInt _ \<Rightarrow> Some 8 | VLWord _ \<Rightarrow> Some 8 | VLReal _ \<Rightarrow> Some 8
      | VTime _ \<Rightarrow> Some 4 | VDate _ \<Rightarrow> Some 4 | VTod _ \<Rightarrow> Some 4 | VDt _ \<Rightarrow> Some 4
      | VLTime _ \<Rightarrow> Some 8 | VLDate _ \<Rightarrow> Some 8 | VLTod _ \<Rightarrow> Some 8 | VLdt _ \<Rightarrow> Some 8
      | VString s \<Rightarrow> Some (length s)
      | VWString s \<Rightarrow> Some (length s * 2)
      | _ \<Rightarrow> None)"

text \<open>The size of an instance identifier, a \<open>u32\<close>, is four.\<close>

fun size_of_value ::
    "nat \<Rightarrow> (rstr \<Rightarrow> rstr) \<Rightarrow> nat \<Rightarrow> type_registry \<Rightarrow> rvalue \<Rightarrow> (size_of_error, nat) fueled"
  and size_of_fields ::
    "nat \<Rightarrow> (rstr \<Rightarrow> rstr) \<Rightarrow> nat \<Rightarrow> type_registry \<Rightarrow> (rstr \<times> rvalue) list \<Rightarrow> nat
      \<Rightarrow> (size_of_error, nat) fueled" where
  "size_of_value ref_size upper fuel registry (VArray elements dimensions) =
     fbind (case elements of [] \<Rightarrow> Some (Inr 0) | v # _ \<Rightarrow> size_of_value ref_size upper fuel registry v)
       (\<lambda>element_size.
     fbind (Some (ok_or (array_len_bits dimensions) SzUnsupportedType)) (\<lambda>len.
       Some (u64_checked (element_size * len))))"
| "size_of_value ref_size upper fuel registry (VStruct _ flds) =
     size_of_fields ref_size upper fuel registry flds 0"
| "size_of_value ref_size upper fuel registry (VEnum type_name _ _) =
     (case registry_lookup upper registry type_name of
        None \<Rightarrow> Some (Inl SzUnsupportedType)
      | Some tid \<Rightarrow> size_of_type ref_size fuel registry tid)"
| "size_of_value ref_size upper fuel registry (VReference _) = Some (Inr ref_size)"
| "size_of_value ref_size upper fuel registry (VInstance _) = Some (Inr 4)"
| "size_of_value ref_size upper fuel registry v = Some (ok_or (elementary_size v) SzUnsupportedType)"
| "size_of_fields ref_size upper fuel registry [] acc = Some (Inr acc)"
| "size_of_fields ref_size upper fuel registry ((_, v) # flds) acc =
     fbind (size_of_value ref_size upper fuel registry v) (\<lambda>size.
     fbind (Some (u64_checked (acc + size))) (\<lambda>acc.
       size_of_fields ref_size upper fuel registry flds acc))"

end
