(* ===== verification/Eval_Syntax.thy ===== *)
theory Eval_Syntax
  imports Std_Library Io Fb_Registry Type_Values Retain
begin

text \<open>
  The abstract syntax the runtime interprets: expressions and assignment targets
  (\<open>eval/expr/ast.rs\<close>), statements (\<open>eval/stmt.rs\<close>), the definitions of functions, function
  blocks, classes and programs (\<open>eval/mod.rs\<close>, \<open>task.rs\<close>) and the notation of partial access
  (\<open>value/reference.rs\<close>). The source location of a statement serves the debugger only and is left
  out.
\<close>

section \<open>Expressions\<close>

datatype expr =
    ELiteral rvalue
  | EThis
  | ESuper
  | ESizeOf size_of_target
  | EName rstr
  | ECall expr "call_arg list"
  | EUnary unary_op expr
  | EBinary binary_op expr expr
  | EIndex expr "expr list"
  | EField expr rstr
  | ERef lvalue
  | EDeref expr
and size_of_target =
    SizeOfType type_id
  | SizeOfExpr expr
and lvalue =
    LName rstr
  | LIndex rstr "expr list"
  | LField rstr rstr
  | LDeref expr
and arg_value =
    ArgExpr expr
  | ArgTarget lvalue
and call_arg = CallArg (ca_name: "rstr option") (ca_value: arg_value)

definition lvalue_name :: "lvalue \<Rightarrow> rstr" where
  "lvalue_name target =
     (case target of
        LName name \<Rightarrow> name | LIndex name _ \<Rightarrow> name | LField name _ \<Rightarrow> name | LDeref _ \<Rightarrow> ''<deref>'')"

section \<open>Statements\<close>

datatype stmt_result =
    RContinue
  | RReturn "rvalue option"
  | RExit
  | RLoopContinue
  | RJump rstr

datatype case_label =
    CaseSingle i64
  | CaseRange i64 i64

datatype stmt =
    SAssign lvalue expr
  | SAssignAttempt lvalue expr
  | SExpr expr
  | SIf expr "stmt list" "(expr \<times> stmt list) list" "stmt list"
  | SCase expr "(case_label list \<times> stmt list) list" "stmt list"
  | SFor rstr expr expr expr "stmt list"
  | SWhile expr "stmt list"
  | SRepeat "stmt list" expr
  | SLabel rstr "stmt option"
  | SJmp rstr
  | SReturn "expr option"
  | SExit
  | SContinue

section \<open>Definitions\<close>

record eval_param =
  pr_name :: rstr
  pr_type_id :: type_id
  pr_direction :: param_direction
  pr_address :: "io_address option"
  pr_default :: "expr option"

record var_def =
  vd_name :: rstr
  vd_type_id :: type_id
  vd_initializer :: "expr option"
  vd_retain :: retain_policy
  vd_external :: bool
  vd_constant :: bool
  vd_address :: "io_address option"

record function_def =
  fn_name :: rstr
  fn_return_type :: type_id
  fn_params :: "eval_param list"
  fn_locals :: "var_def list"
  fn_using :: "rstr list"
  fn_body :: "stmt list"

datatype function_block_base =
    BaseFunctionBlock rstr
  | BaseClass rstr

record method_def =
  md_name :: rstr
  md_return_type :: "type_id option"
  md_params :: "eval_param list"
  md_locals :: "var_def list"
  md_using :: "rstr list"
  md_body :: "stmt list"

record function_block_def =
  fb_name :: rstr
  fb_base :: "function_block_base option"
  fb_params :: "eval_param list"
  fb_vars :: "var_def list"
  fb_temps :: "var_def list"
  fb_using :: "rstr list"
  fb_methods :: "method_def list"
  fb_body :: "stmt list"

record class_def =
  cd_name :: rstr
  cd_base :: "rstr option"
  cd_vars :: "var_def list"
  cd_using :: "rstr list"
  cd_methods :: "method_def list"

record program_def =
  pg_name :: rstr
  pg_vars :: "var_def list"
  pg_temps :: "var_def list"
  pg_using :: "rstr list"
  pg_body :: "stmt list"

text \<open>The definition of a standard function block: parameters only.\<close>

definition standard_block_def :: "fb_def \<Rightarrow> function_block_def" where
  "standard_block_def d =
     \<lparr>fb_name = fbd_name d, fb_base = None,
      fb_params = map (\<lambda>(n, ty, dir). \<lparr>pr_name = n, pr_type_id = ty, pr_direction = dir,
        pr_address = None, pr_default = None\<rparr>) (fbd_params d),
      fb_vars = [], fb_temps = [], fb_using = [], fb_methods = [], fb_body = []\<rparr>"

section \<open>The notation of partial access\<close>

definition parse_access_index :: "rstr \<Rightarrow> u8 option" where
  "parse_access_index text =
     Option.bind (parse_unsigned 64 (filter (\<lambda>c. c \<noteq> CHR ''_'') text))
       (\<lambda>value. if value < 256 then Some (of_nat value) else None)"

text \<open>After the percent sign one character, then the digits; a character is taken as a whole.\<close>

definition parse_partial_access :: "rstr \<Rightarrow> partial_access option" where
  "parse_partial_access text =
     (let text = str_trim text in
      if text = [] then None
      else
        (case strip_prefix ''%'' text of
           Some stripped \<Rightarrow>
             (case chars_of stripped of
                [] \<Rightarrow> None
              | prefix # digits \<Rightarrow>
                  Option.bind (parse_access_index (str_of digits)) (\<lambda>index.
                    let p = to_ascii_uppercase (utf8_encode prefix) in
                    if p = ''X'' then Some (PaBit index)
                    else if p = ''B'' then Some (PaByte index)
                    else if p = ''W'' then Some (PaWord index)
                    else if p = ''D'' then Some (PaDWord index)
                    else None))
         | None \<Rightarrow>
             if list_all (\<lambda>c. is_digit c \<or> c = CHR ''_'') text
             then map_option PaBit (parse_access_index text) else None))"

end
