(* ===== verification/Coercion.thy ===== *)
theory Coercion
  imports Numeric Strings Hir_Types
begin

text \<open>
  The coercion of an initial value to the declared type (\<open>harness/coerce.rs\<close>). A
  \<open>CompileError\<close> is its message.
\<close>

definition coerce_signed :: "rvalue \<Rightarrow> type_id \<Rightarrow> rstr + rvalue" where
  "coerce_signed value tid =
     rbind
       (case value of
          VSInt v \<Rightarrow> Inr (sint v)
        | VInt v \<Rightarrow> Inr (sint v)
        | VDInt v \<Rightarrow> Inr (sint v)
        | VLInt v \<Rightarrow> Inr (sint v)
        | VUSInt v \<Rightarrow> Inr (uint v)
        | VUInt v \<Rightarrow> Inr (uint v)
        | VUDInt v \<Rightarrow> Inr (uint v)
        | VULInt v \<Rightarrow>
            if uint v < 2 ^ 63 then Inr (uint v) else Inl ''initializer out of signed range''
        | _ \<Rightarrow> Inl ''expected integer initializer'')
       (\<lambda>i.
          if tid = TypeId_SINT
          then ok_or (map_option VSInt (signed_try_from i)) ''initializer out of SINT range''
          else if tid = TypeId_INT
          then ok_or (map_option VInt (signed_try_from i)) ''initializer out of INT range''
          else if tid = TypeId_DINT
          then ok_or (map_option VDInt (signed_try_from i)) ''initializer out of DINT range''
          else Inr (VLInt (word_of_int i)))"

definition non_negative :: "int \<Rightarrow> rstr + int" where
  "non_negative i = (if 0 \<le> i then Inr i else Inl ''initializer out of unsigned range'')"

definition coerce_unsigned :: "rvalue \<Rightarrow> type_id \<Rightarrow> rstr + rvalue" where
  "coerce_unsigned value tid =
     rbind
       (case value of
          VUSInt v \<Rightarrow> Inr (uint v)
        | VUInt v \<Rightarrow> Inr (uint v)
        | VUDInt v \<Rightarrow> Inr (uint v)
        | VULInt v \<Rightarrow> Inr (uint v)
        | VSInt v \<Rightarrow> non_negative (sint v)
        | VInt v \<Rightarrow> non_negative (sint v)
        | VDInt v \<Rightarrow> non_negative (sint v)
        | VLInt v \<Rightarrow> non_negative (sint v)
        | _ \<Rightarrow> Inl ''expected unsigned integer initializer'')
       (\<lambda>i.
          if tid = TypeId_USINT
          then ok_or (map_option VUSInt (unsigned_try_from i)) ''initializer out of USINT range''
          else if tid = TypeId_UINT
          then ok_or (map_option VUInt (unsigned_try_from i)) ''initializer out of UINT range''
          else if tid = TypeId_UDINT
          then ok_or (map_option VUDInt (unsigned_try_from i)) ''initializer out of UDINT range''
          else Inr (VULInt (word_of_int i)))"

definition coerce_bitstring :: "rvalue \<Rightarrow> type_id \<Rightarrow> rstr + rvalue" where
  "coerce_bitstring value tid =
     rbind
       (case value of
          VByte v \<Rightarrow> Inr (uint v)
        | VWord v \<Rightarrow> Inr (uint v)
        | VDWord v \<Rightarrow> Inr (uint v)
        | VLWord v \<Rightarrow> Inr (uint v)
        | VUSInt v \<Rightarrow> Inr (uint v)
        | VUInt v \<Rightarrow> Inr (uint v)
        | VUDInt v \<Rightarrow> Inr (uint v)
        | VULInt v \<Rightarrow> Inr (uint v)
        | VSInt v \<Rightarrow> non_negative (sint v)
        | VInt v \<Rightarrow> non_negative (sint v)
        | VDInt v \<Rightarrow> non_negative (sint v)
        | VLInt v \<Rightarrow> non_negative (sint v)
        | _ \<Rightarrow> Inl ''expected integer initializer'')
       (\<lambda>i.
          if tid = TypeId_BYTE
          then ok_or (map_option VByte (unsigned_try_from i)) ''initializer out of BYTE range''
          else if tid = TypeId_WORD
          then ok_or (map_option VWord (unsigned_try_from i)) ''initializer out of WORD range''
          else if tid = TypeId_DWORD
          then ok_or (map_option VDWord (unsigned_try_from i)) ''initializer out of DWORD range''
          else Inr (VLWord (word_of_int i)))"

definition coerce_real :: "rvalue \<Rightarrow> type_id \<Rightarrow> rstr + rvalue" where
  "coerce_real value tid =
     (case to_f64 value of
        Inl _ \<Rightarrow> Inl ''expected numeric initializer''
      | Inr x \<Rightarrow> Inr (if tid = TypeId_REAL then VReal (f32_of_f64 x) else VLReal x))"

text \<open>\<open>char::from_u32\<close> refuses the surrogates; the replacement character stands for them.\<close>

definition char_from_u16 :: "u16 \<Rightarrow> nat" where
  "char_from_u16 c = (let n = unat c in if 0xD800 \<le> n \<and> n < 0xE000 then 0xFFFD else n)"

definition coerce_string :: "rvalue \<Rightarrow> type_id \<Rightarrow> rstr + rvalue" where
  "coerce_string value tid =
     (if tid = TypeId_STRING then
        (case value of
           VString _ \<Rightarrow> Inr value
         | VWString w \<Rightarrow> Inr (VString w)
         | VChar c \<Rightarrow> Inr (VString (utf8_encode (unat c)))
         | _ \<Rightarrow> Inl ''expected STRING initializer'')
      else if tid = TypeId_WSTRING then
        (case value of
           VWString _ \<Rightarrow> Inr value
         | VString s \<Rightarrow> Inr (VWString s)
         | VChar c \<Rightarrow> Inr (VWString (utf8_encode (unat c)))
         | VWChar c \<Rightarrow> Inr (VWString (utf8_encode (char_from_u16 c)))
         | _ \<Rightarrow> Inl ''expected WSTRING initializer'')
      else Inr value)"

definition single_char :: "rstr \<Rightarrow> rstr + nat" where
  "single_char s =
     (case chars_of s of [c] \<Rightarrow> Inr c | _ \<Rightarrow> Inl ''expected single character'')"

definition coerce_char :: "rvalue \<Rightarrow> type_id \<Rightarrow> rstr + rvalue" where
  "coerce_char value tid =
     (let to_char = (\<lambda>ch. if tid = TypeId_WCHAR then VWChar (of_nat ch) else VChar (of_nat ch)) in
      case value of
        VChar _ \<Rightarrow> if tid = TypeId_CHAR then Inr value else Inl ''expected CHAR initializer''
      | VWChar _ \<Rightarrow> if tid = TypeId_WCHAR then Inr value else Inl ''expected CHAR initializer''
      | VString s \<Rightarrow> rbind (single_char s) (\<lambda>ch. Inr (to_char ch))
      | VWString s \<Rightarrow> rbind (single_char s) (\<lambda>ch. Inr (to_char ch))
      | _ \<Rightarrow> Inl ''expected CHAR initializer'')"

definition coerce_time :: "rvalue \<Rightarrow> type_id \<Rightarrow> rstr + rvalue" where
  "coerce_time value tid =
     (if tid = TypeId_TIME then
        (case value of VTime _ \<Rightarrow> Inr value | VLTime d \<Rightarrow> Inr (VTime d)
         | _ \<Rightarrow> Inl ''expected TIME initializer'')
      else if tid = TypeId_LTIME then
        (case value of VLTime _ \<Rightarrow> Inr value | VTime d \<Rightarrow> Inr (VLTime d)
         | _ \<Rightarrow> Inl ''expected LTIME initializer'')
      else Inr value)"

definition coerce_date :: "rvalue \<Rightarrow> type_id \<Rightarrow> rstr + rvalue" where
  "coerce_date value tid =
     (if tid = TypeId_DATE then
        (case value of VDate _ \<Rightarrow> Inr value | _ \<Rightarrow> Inl ''expected DATE initializer'')
      else if tid = TypeId_LDATE then
        (case value of VLDate _ \<Rightarrow> Inr value | _ \<Rightarrow> Inl ''expected LDATE initializer'')
      else Inr value)"

definition coerce_tod :: "rvalue \<Rightarrow> type_id \<Rightarrow> rstr + rvalue" where
  "coerce_tod value tid =
     (if tid = TypeId_TOD then
        (case value of VTod _ \<Rightarrow> Inr value | _ \<Rightarrow> Inl ''expected TOD initializer'')
      else if tid = TypeId_LTOD then
        (case value of VLTod _ \<Rightarrow> Inr value | _ \<Rightarrow> Inl ''expected LTOD initializer'')
      else Inr value)"

definition coerce_dt :: "rvalue \<Rightarrow> type_id \<Rightarrow> rstr + rvalue" where
  "coerce_dt value tid =
     (if tid = TypeId_DT then
        (case value of VDt _ \<Rightarrow> Inr value | _ \<Rightarrow> Inl ''expected DT initializer'')
      else if tid = TypeId_LDT then
        (case value of VLdt _ \<Rightarrow> Inr value | _ \<Rightarrow> Inl ''expected LDT initializer'')
      else Inr value)"

definition coerce_value_to_type :: "rvalue \<Rightarrow> type_id \<Rightarrow> rstr + rvalue" where
  "coerce_value_to_type value tid =
     (if tid = TypeId_BOOL then
        (case value of VBool _ \<Rightarrow> Inr value | _ \<Rightarrow> Inl ''expected BOOL initializer'')
      else if tid \<in> {TypeId_SINT, TypeId_INT, TypeId_DINT, TypeId_LINT} then coerce_signed value tid
      else if tid \<in> {TypeId_USINT, TypeId_UINT, TypeId_UDINT, TypeId_ULINT} then coerce_unsigned value tid
      else if tid \<in> {TypeId_BYTE, TypeId_WORD, TypeId_DWORD, TypeId_LWORD} then coerce_bitstring value tid
      else if tid \<in> {TypeId_REAL, TypeId_LREAL} then coerce_real value tid
      else if tid \<in> {TypeId_STRING, TypeId_WSTRING} then coerce_string value tid
      else if tid \<in> {TypeId_CHAR, TypeId_WCHAR} then coerce_char value tid
      else if tid \<in> {TypeId_TIME, TypeId_LTIME} then coerce_time value tid
      else if tid \<in> {TypeId_DATE, TypeId_LDATE} then coerce_date value tid
      else if tid \<in> {TypeId_TOD, TypeId_LTOD} then coerce_tod value tid
      else if tid \<in> {TypeId_DT, TypeId_LDT} then coerce_dt value tid
      else Inr value)"

end
