(* ===== verification/Eval_Context.thy ===== *)
theory Eval_Context
  imports Eval_Syntax Calendar Coercion
begin

text \<open>
  The context of evaluation (\<open>eval/mod.rs\<close>) with the operations on it: an operation returns
  \<^const>\<open>None\<close> when the fuel does not suffice (or the code panics), and otherwise a result and the
  context, which keeps what was done before an error. Names and elements are read and written as in
  \<open>eval/expr/access.rs\<close>.
\<close>

section \<open>The context\<close>

text \<open>
  What the platform brings: the power function of the mathematics library, the upper case of Unicode
  and the size the compiler gives a reference.
\<close>

record eval_env =
  ev_powf :: "f64 \<Rightarrow> f64 \<Rightarrow> f64"
  ev_to_uppercase :: "rstr \<Rightarrow> rstr"
  ev_ref_size :: nat

text \<open>
  The deadline is the answer of the clock to each question whether it has passed; \<open>cx_checks\<close>
  counts the questions. The debug hook is not attached.
\<close>

record eval_ctx =
  cx_env :: eval_env
  cx_storage :: variable_storage
  cx_registry :: type_registry
  cx_profile :: date_time_profile
  cx_now :: duration
  cx_call_depth :: u32
  cx_functions :: "(rstr, function_def) index_map option"
  cx_stdlib :: "standard_library option"
  cx_function_blocks :: "(rstr, function_block_def) index_map option"
  cx_classes :: "(rstr, class_def) index_map option"
  cx_using :: "rstr list option"
  cx_access :: "access_map option"
  cx_current_instance :: "instance_id option"
  cx_return_name :: "rstr option"
  cx_loop_depth :: u32
  cx_deadline :: "(nat \<Rightarrow> bool) option"
  cx_checks :: nat

section \<open>Operations\<close>

text \<open>
  Operations on a context of any type; those of the interpreter work on \<open>eval_ctx\<close>, those of the
  scheduler on the state of the runtime.
\<close>

type_synonym ('c, 'a) op = "'c \<Rightarrow> ((runtime_error + 'a) \<times> 'c) option"

type_synonym 'a ev = "(eval_ctx, 'a) op"

definition eret :: "'a \<Rightarrow> ('c, 'a) op" where
  "eret x = (\<lambda>c. Some (Inr x, c))"

definition efail :: "runtime_error \<Rightarrow> ('c, 'a) op" where
  "efail e = (\<lambda>c. Some (Inl e, c))"

definition ediverge :: "('c, 'a) op" where
  "ediverge = (\<lambda>c. None)"

definition ebind :: "('c, 'a) op \<Rightarrow> ('a \<Rightarrow> ('c, 'b) op) \<Rightarrow> ('c, 'b) op" where
  "ebind m f =
     (\<lambda>c. case m c of
        None \<Rightarrow> None
      | Some (Inl e, c') \<Rightarrow> Some (Inl e, c')
      | Some (Inr x, c') \<Rightarrow> f x c')"

definition eget :: "('c \<Rightarrow> 'a) \<Rightarrow> ('c, 'a) op" where
  "eget g = (\<lambda>c. Some (Inr (g c), c))"

definition emodify :: "('c \<Rightarrow> 'c) \<Rightarrow> ('c, unit) op" where
  "emodify g = (\<lambda>c. Some (Inr (), g c))"

definition elift :: "('c \<Rightarrow> runtime_error + 'a) \<Rightarrow> ('c, 'a) op" where
  "elift g = (\<lambda>c. Some (g c, c))"

definition efuel :: "('c \<Rightarrow> 'a option) \<Rightarrow> ('c, 'a) op" where
  "efuel g = (\<lambda>c. case g c of None \<Rightarrow> None | Some x \<Rightarrow> Some (Inr x, c))"

text \<open>\<open>match m { Err(err) => { cleanup; return Err(err) } }\<close>.\<close>

definition eon_error :: "('c \<Rightarrow> 'c) \<Rightarrow> ('c, 'a) op \<Rightarrow> ('c, 'a) op" where
  "eon_error cleanup m =
     (\<lambda>c. case m c of
        Some (Inl e, c') \<Rightarrow> Some (Inl e, cleanup c')
      | r \<Rightarrow> r)"

text \<open>A change of the storage, with its result.\<close>

definition estorage :: "(variable_storage \<Rightarrow> 'a \<times> variable_storage) \<Rightarrow> 'a ev" where
  "estorage f = (\<lambda>c. case f (cx_storage c) of (x, s) \<Rightarrow> Some (Inr x, c\<lparr>cx_storage := s\<rparr>))"

definition eguard :: "bool \<Rightarrow> runtime_error \<Rightarrow> ('c, unit) op" where
  "eguard b e = (if b then eret () else efail e)"

definition eok_or :: "'a option \<Rightarrow> runtime_error \<Rightarrow> ('c, 'a) op" where
  "eok_or x e = (case x of None \<Rightarrow> efail e | Some y \<Rightarrow> eret y)"

fun emap :: "('a \<Rightarrow> ('c, 'b) op) \<Rightarrow> 'a list \<Rightarrow> ('c, 'b list) op" where
  "emap f [] = eret []"
| "emap f (x # xs) = ebind (f x) (\<lambda>y. ebind (emap f xs) (\<lambda>ys. eret (y # ys)))"

fun eeach :: "('a \<Rightarrow> ('c, unit) op) \<Rightarrow> 'a list \<Rightarrow> ('c, unit) op" where
  "eeach f [] = eret ()"
| "eeach f (x # xs) = ebind (f x) (\<lambda>_. eeach f xs)"

lemma ev_simps [simp]:
  "eret x c = Some (Inr x, c)"
  "efail e c = Some (Inl e, c)"
  "ediverge c = None"
  "eget g c = Some (Inr (g c), c)"
  "emodify h c = Some (Inr (), h c)"
  "elift k c = Some (k c, c)"
  by (simp_all add: eret_def efail_def ediverge_def eget_def emodify_def elift_def)

lemma ebind_simps [simp]:
  "m c = None \<Longrightarrow> ebind m f c = None"
  "m c = Some (Inl e, c') \<Longrightarrow> ebind m f c = Some (Inl e, c')"
  "m c = Some (Inr x, c') \<Longrightarrow> ebind m f c = f x c'"
  by (simp_all add: ebind_def)

text \<open>The budget: each question to the clock is counted.\<close>

definition check_execution_budget :: "unit ev" where
  "check_execution_budget =
     (\<lambda>c. case cx_deadline c of
        None \<Rightarrow> Some (Inr (), c)
      | Some expired \<Rightarrow>
          (let c' = c\<lparr>cx_checks := cx_checks c + 1\<rparr> in
           if expired (cx_checks c) then Some (Inl ExecutionTimeout, c') else Some (Inr (), c')))"

section \<open>Names\<close>

definition partial_access_error_to_runtime :: "partial_access_error \<Rightarrow> runtime_error" where
  "partial_access_error_to_runtime err =
     (case err of
        PaIndexOutOfBounds index lower upper \<Rightarrow> IndexOutOfBounds index lower upper
      | PaTypeMismatch \<Rightarrow> TypeMismatch)"

definition pa_result :: "partial_access_error + 'a \<Rightarrow> runtime_error + 'a" where
  "pa_result m =
     (case m of Inl e \<Rightarrow> Inl (partial_access_error_to_runtime e) | Inr x \<Rightarrow> Inr x)"

definition access_binding_of :: "eval_ctx \<Rightarrow> rstr \<Rightarrow> access_binding option" where
  "access_binding_of c name = Option.bind (cx_access c) (\<lambda>access. access_get access name)"

text \<open>\<open>if !storage.write_by_ref(..) { return Err(NullReference) }\<close>.\<close>

definition write_ref :: "value_ref \<Rightarrow> rvalue \<Rightarrow> unit ev" where
  "write_ref reference value =
     ebind (estorage (write_by_ref reference value)) (\<lambda>ok. eguard ok NullReference)"

definition read_ref :: "value_ref \<Rightarrow> rvalue ev" where
  "read_ref reference = elift (\<lambda>c. ok_or (read_by_ref (cx_storage c) reference) NullReference)"

text \<open>The reference to a variable of the current instance or one of its parents.\<close>

definition instance_ref :: "nat \<Rightarrow> rstr \<Rightarrow> value_ref option ev" where
  "instance_ref fuel name =
     efuel (\<lambda>c. case cx_current_instance c of
        None \<Rightarrow> Some None
      | Some i \<Rightarrow> ref_for_instance_recursive fuel (cx_storage c) i name)"

definition instance_value :: "nat \<Rightarrow> rstr \<Rightarrow> rvalue option ev" where
  "instance_value fuel name =
     efuel (\<lambda>c. case cx_current_instance c of
        None \<Rightarrow> Some None
      | Some i \<Rightarrow> get_instance_var_recursive fuel (cx_storage c) i name)"

definition write_access_binding :: "access_binding \<Rightarrow> rvalue \<Rightarrow> unit ev" where
  "write_access_binding binding value =
     (case ab_partial binding of
        Some part \<Rightarrow>
          ebind (read_ref (ab_reference binding)) (\<lambda>current.
          ebind (elift (\<lambda>_. pa_result (write_partial_access current part value))) (\<lambda>updated.
            write_ref (ab_reference binding) updated))
      | None \<Rightarrow> write_ref (ab_reference binding) value)"

definition write_name :: "nat \<Rightarrow> rstr \<Rightarrow> rvalue \<Rightarrow> unit ev" where
  "write_name fuel name value =
     ebind (eget (\<lambda>c. get_local (cx_storage c) name)) (\<lambda>loc.
       if loc \<noteq> None then ebind (estorage (set_local name value)) (\<lambda>_. eret ())
       else
         ebind (instance_ref fuel name) (\<lambda>reference.
           case reference of
             Some r \<Rightarrow> write_ref r value
           | None \<Rightarrow>
               ebind (eget (\<lambda>c. access_binding_of c name)) (\<lambda>binding.
                 case binding of
                   Some b \<Rightarrow> write_access_binding b value
                 | None \<Rightarrow> estorage (\<lambda>s. ((), set_global name value s)))))"

definition read_access_binding :: "access_binding \<Rightarrow> rvalue ev" where
  "read_access_binding binding =
     ebind (read_ref (ab_reference binding)) (\<lambda>value.
       case ab_partial binding of
         Some part \<Rightarrow> elift (\<lambda>_. pa_result (read_partial_access value part))
       | None \<Rightarrow> eret value)"

definition read_name :: "nat \<Rightarrow> rstr \<Rightarrow> rvalue ev" where
  "read_name fuel name =
     ebind (eget (\<lambda>c. get_local (cx_storage c) name)) (\<lambda>loc.
       case loc of
         Some value \<Rightarrow> eret value
       | None \<Rightarrow>
           ebind (instance_value fuel name) (\<lambda>inst.
             case inst of
               Some value \<Rightarrow> eret value
             | None \<Rightarrow>
                 ebind (eget (\<lambda>c. access_binding_of c name)) (\<lambda>binding.
                   case binding of
                     Some b \<Rightarrow> read_access_binding b
                   | None \<Rightarrow>
                       elift (\<lambda>c.
                         case get_global (cx_storage c) name of
                           Some value \<Rightarrow> Inr value
                         | None \<Rightarrow>
                             ok_or (get_retain (cx_storage c) name) (UndefinedVariable name)))))"

definition resolve_reference :: "nat \<Rightarrow> rstr \<Rightarrow> value_ref option ev" where
  "resolve_reference fuel name =
     ebind (eget (\<lambda>c. ref_for_local (cx_storage c) name)) (\<lambda>loc.
       case loc of
         Some r \<Rightarrow> eret (Some r)
       | None \<Rightarrow>
           ebind (instance_ref fuel name) (\<lambda>inst.
             case inst of
               Some r \<Rightarrow> eret (Some r)
             | None \<Rightarrow>
                 eget (\<lambda>c.
                   case access_binding_of c name of
                     Some b \<Rightarrow> Some (ab_reference b)
                   | None \<Rightarrow> ref_for_global (cx_storage c) name)))"

section \<open>Elements and fields\<close>

definition index_to_i64 :: "rvalue \<Rightarrow> runtime_error + i64" where
  "index_to_i64 value =
     (case value of
        VSInt v \<Rightarrow> Inr (scast v)
      | VInt v \<Rightarrow> Inr (scast v)
      | VDInt v \<Rightarrow> Inr (scast v)
      | VLInt v \<Rightarrow> Inr v
      | VUSInt v \<Rightarrow> Inr (ucast v)
      | VUInt v \<Rightarrow> Inr (ucast v)
      | VUDInt v \<Rightarrow> Inr (ucast v)
      | VULInt v \<Rightarrow> Inr v
      | _ \<Rightarrow> Inl TypeMismatch)"

text \<open>
  The loop over the reversed pairs; an index is converted and checked where the loop reaches it.
\<close>

fun array_offset_loop ::
    "((i64 \<times> i64) \<times> rvalue) list \<Rightarrow> i128 \<Rightarrow> i128 \<Rightarrow> runtime_error + i128" where
  "array_offset_loop [] offset stride = Inr offset"
| "array_offset_loop (((lower, upper), index_value) # rest) offset stride =
     rbind (index_to_i64 index_value) (\<lambda>idx.
       if sint idx < sint lower \<or> sint upper < sint idx then Inl (IndexOutOfBounds idx lower upper)
       else
         array_offset_loop rest (offset + scast (idx - lower) * stride)
           (stride * scast (upper - lower + 1)))"

definition array_offset :: "(i64 \<times> i64) list \<Rightarrow> rvalue list \<Rightarrow> runtime_error + nat" where
  "array_offset dimensions indices =
     (if length dimensions \<noteq> length indices then Inl TypeMismatch
      else
        rbind (array_offset_loop (rev (zip dimensions indices)) 0 1)
          (\<lambda>offset. ok_or (usize_of_i128 offset) TypeMismatch))"

definition read_indices :: "rvalue \<Rightarrow> rvalue list \<Rightarrow> runtime_error + rvalue" where
  "read_indices target indices =
     (case target of
        VArray elements dimensions \<Rightarrow>
          rbind (array_offset dimensions indices) (\<lambda>offset.
            ok_or (nth_opt elements offset) TypeMismatch)
      | _ \<Rightarrow> Inl TypeMismatch)"

definition write_indices :: "rvalue \<Rightarrow> rvalue list \<Rightarrow> rvalue \<Rightarrow> runtime_error + rvalue" where
  "write_indices target indices value =
     (case target of
        VArray elements dimensions \<Rightarrow>
          rbind (array_offset dimensions indices) (\<lambda>offset.
            if offset < length elements then Inr (VArray (elements[offset := value]) dimensions)
            else Inl TypeMismatch)
      | _ \<Rightarrow> Inl TypeMismatch)"

definition read_field :: "nat \<Rightarrow> rvalue \<Rightarrow> rstr \<Rightarrow> rvalue ev" where
  "read_field fuel target field =
     (case parse_partial_access field of
        Some access \<Rightarrow> elift (\<lambda>_. pa_result (read_partial_access target access))
      | None \<Rightarrow>
          (case target of
             VStruct _ flds \<Rightarrow> eok_or (im_get flds field) (UndefinedField field)
           | VInstance i \<Rightarrow>
               ebind (efuel (\<lambda>c. get_instance_var_recursive fuel (cx_storage c) i field)) (\<lambda>v.
                 eok_or v (UndefinedField field))
           | _ \<Rightarrow> efail TypeMismatch))"

text \<open>The assignment to a variable of an instance from outside.\<close>

definition write_instance_field :: "nat \<Rightarrow> instance_id \<Rightarrow> rstr \<Rightarrow> rvalue \<Rightarrow> unit ev" where
  "write_instance_field fuel i field value =
     ebind (efuel (\<lambda>c. ref_for_instance_recursive fuel (cx_storage c) i field)) (\<lambda>reference.
     ebind (eok_or reference (UndefinedField field)) (\<lambda>reference. write_ref reference value))"

definition write_field :: "nat \<Rightarrow> rvalue \<Rightarrow> rstr \<Rightarrow> rvalue \<Rightarrow> rvalue ev" where
  "write_field fuel target field value =
     (case parse_partial_access field of
        Some access \<Rightarrow> elift (\<lambda>_. pa_result (write_partial_access target access value))
      | None \<Rightarrow>
          (case target of
             VStruct type_name flds \<Rightarrow>
               if im_contains flds field then eret (VStruct type_name (im_insert field value flds))
               else efail (UndefinedField field)
           | VInstance i \<Rightarrow>
               ebind (write_instance_field fuel i field value) (\<lambda>_. eret (VInstance i))
           | _ \<Rightarrow> efail TypeMismatch))"

end
