(* ===== verification/Eval_Names.thy ===== *)
theory Eval_Names
  imports Eval_Context
begin

text \<open>
  Assignment targets (\<open>eval/expr/lvalue.rs\<close>), the resolution of methods and functions and the
  binding of arguments (\<open>eval/expr/call.rs\<close>). Recursive calls of the interpreter go through the
  record \<open>interp\<close>; \<open>ip_fuel\<close> bounds the loops over parents and bases.
\<close>

record interp =
  ip_fuel :: nat
  ip_expr :: "expr \<Rightarrow> rvalue ev"
  ip_stmt :: "stmt \<Rightarrow> stmt_result ev"
  ip_create_fb :: "function_block_def \<Rightarrow> instance_id ev"
  ip_create_class :: "class_def \<Rightarrow> instance_id ev"

definition eq_ignore_ascii_case :: "rstr \<Rightarrow> rstr \<Rightarrow> bool" where
  "eq_ignore_ascii_case a b \<longleftrightarrow> to_ascii_lowercase a = to_ascii_lowercase b"

section \<open>Assignment targets\<close>

definition eval_indices :: "interp \<Rightarrow> expr list \<Rightarrow> rvalue list ev" where
  "eval_indices I indices = emap (ip_expr I) indices"

definition resolve_name :: "interp \<Rightarrow> rstr \<Rightarrow> value_ref ev" where
  "resolve_name I name =
     ebind (resolve_reference (ip_fuel I) name) (\<lambda>r. eok_or r (UndefinedVariable name))"

definition extend_path :: "path_segment \<Rightarrow> value_ref \<Rightarrow> value_ref" where
  "extend_path seg r = r\<lparr>vr_path := vr_path r @ [seg]\<rparr>"

text \<open>What a dereference gives.\<close>

definition deref :: "(value_ref \<Rightarrow> 'a ev) \<Rightarrow> rvalue \<Rightarrow> 'a ev" where
  "deref f value =
     (case value of
        VReference (Some reference) \<Rightarrow> f reference
      | VReference None \<Rightarrow> efail NullReference
      | _ \<Rightarrow> efail TypeMismatch)"

definition resolve_reference_for_lvalue :: "interp \<Rightarrow> lvalue \<Rightarrow> value_ref ev" where
  "resolve_reference_for_lvalue I target =
     (case target of
        LName name \<Rightarrow> resolve_name I name
      | LIndex name indices \<Rightarrow>
          ebind (resolve_name I name) (\<lambda>base.
          ebind (read_name (ip_fuel I) name) (\<lambda>array_value.
            case array_value of
              VArray _ dimensions \<Rightarrow>
                ebind (eval_indices I indices) (\<lambda>index_values.
                ebind (elift (\<lambda>_. array_offset dimensions index_values)) (\<lambda>_.
                ebind (elift (\<lambda>_. collect index_to_i64 index_values)) (\<lambda>path.
                  eret (extend_path (PIndex path) base))))
            | _ \<Rightarrow> efail TypeMismatch))
      | LField name field \<Rightarrow>
          ebind (read_name (ip_fuel I) name) (\<lambda>base_value.
            case base_value of
              VInstance i \<Rightarrow>
                ebind (efuel (\<lambda>c. ref_for_instance_recursive (ip_fuel I) (cx_storage c) i field))
                  (\<lambda>r. eok_or r (UndefinedField field))
            | VStruct _ flds \<Rightarrow>
                if \<not> im_contains flds field then efail (UndefinedField field)
                else ebind (resolve_name I name) (\<lambda>r. eret (extend_path (PField field) r))
            | _ \<Rightarrow> efail TypeMismatch)
      | LDeref e \<Rightarrow> ebind (ip_expr I e) (deref eret))"

definition read_lvalue :: "interp \<Rightarrow> lvalue \<Rightarrow> rvalue ev" where
  "read_lvalue I target =
     (case target of
        LName name \<Rightarrow> read_name (ip_fuel I) name
      | LIndex name indices \<Rightarrow>
          ebind (read_name (ip_fuel I) name) (\<lambda>array_value.
          ebind (eval_indices I indices) (\<lambda>index_values.
            elift (\<lambda>_. read_indices array_value index_values)))
      | LField name field \<Rightarrow>
          ebind (read_name (ip_fuel I) name) (\<lambda>struct_value.
            read_field (ip_fuel I) struct_value field)
      | LDeref e \<Rightarrow> ebind (ip_expr I e) (deref read_ref))"

definition write_lvalue :: "interp \<Rightarrow> lvalue \<Rightarrow> rvalue \<Rightarrow> unit ev" where
  "write_lvalue I target value =
     (case target of
        LName name \<Rightarrow> write_name (ip_fuel I) name value
      | LIndex name indices \<Rightarrow>
          ebind (read_name (ip_fuel I) name) (\<lambda>array_value.
          ebind (eval_indices I indices) (\<lambda>index_values.
          ebind (elift (\<lambda>_. write_indices array_value index_values value)) (\<lambda>updated.
            write_name (ip_fuel I) name updated)))
      | LField name field \<Rightarrow>
          ebind (read_name (ip_fuel I) name) (\<lambda>struct_value.
            case struct_value of
              VInstance i \<Rightarrow> write_instance_field (ip_fuel I) i field value
            | _ \<Rightarrow>
                ebind (write_field (ip_fuel I) struct_value field value) (\<lambda>updated.
                  write_name (ip_fuel I) name updated))
      | LDeref e \<Rightarrow> ebind (ip_expr I e) (deref (\<lambda>reference. write_ref reference value)))"

section \<open>Resolution\<close>

fun call_target_name :: "expr \<Rightarrow> rstr option" where
  "call_target_name (EName name) = Some name"
| "call_target_name (EField target field) =
     map_option (\<lambda>prefix. prefix @ ''.'' @ field) (call_target_name target)"
| "call_target_name _ = None"

definition resolve_using_function ::
    "(rstr, function_def) index_map \<Rightarrow> rstr \<Rightarrow> rstr list \<Rightarrow> function_def option" where
  "resolve_using_function functions name namespaces =
     (case List.map_filter
         (\<lambda>namespace. im_get functions (to_ascii_uppercase (namespace @ ''.'' @ name))) namespaces of
        [] \<Rightarrow> None
      | func # _ \<Rightarrow> Some func)"

definition find_method :: "method_def list \<Rightarrow> rstr \<Rightarrow> method_def option" where
  "find_method methods name = find (\<lambda>m. eq_ignore_ascii_case (md_name m) name) methods"

text \<open>The walks along the bases; a chain that never ends runs out of fuel.\<close>

fun resolve_class_method ::
    "nat \<Rightarrow> (rstr, class_def) index_map \<Rightarrow> class_def \<Rightarrow> rstr \<Rightarrow> method_def option option" where
  "resolve_class_method 0 classes cd name = None"
| "resolve_class_method (Suc fuel) classes cd name =
     (case find_method (cd_methods cd) name of
        Some m \<Rightarrow> Some (Some m)
      | None \<Rightarrow>
          (case Option.bind (cd_base cd) (\<lambda>base. im_get classes (to_ascii_uppercase base)) of
             None \<Rightarrow> Some None
           | Some base_def \<Rightarrow> resolve_class_method fuel classes base_def name))"

fun resolve_fb_method ::
    "nat \<Rightarrow> (rstr, function_block_def) index_map \<Rightarrow> (rstr, class_def) index_map
      \<Rightarrow> function_block_def \<Rightarrow> rstr \<Rightarrow> method_def option option" where
  "resolve_fb_method 0 function_blocks classes fbd name = None"
| "resolve_fb_method (Suc fuel) function_blocks classes fbd name =
     (case find_method (fb_methods fbd) name of
        Some m \<Rightarrow> Some (Some m)
      | None \<Rightarrow>
          (case fb_base fbd of
             None \<Rightarrow> Some None
           | Some (BaseFunctionBlock base_name) \<Rightarrow>
               (case im_get function_blocks (to_ascii_uppercase base_name) of
                  None \<Rightarrow> Some None
                | Some base_def \<Rightarrow> resolve_fb_method fuel function_blocks classes base_def name)
           | Some (BaseClass base_name) \<Rightarrow>
               (case im_get classes (to_ascii_uppercase base_name) of
                  None \<Rightarrow> Some None
                | Some cd \<Rightarrow> resolve_class_method fuel classes cd name)))"

definition resolve_instance_method ::
    "nat \<Rightarrow> eval_ctx \<Rightarrow> instance_id \<Rightarrow> rstr \<Rightarrow> method_def option option" where
  "resolve_instance_method fuel c i name =
     (case get_instance (cx_storage c) i of
        None \<Rightarrow> Some None
      | Some inst \<Rightarrow>
          (let key = to_ascii_uppercase (in_type_name inst) in
           case Option.bind (cx_function_blocks c) (\<lambda>fbs. im_get fbs key) of
             Some fbd \<Rightarrow>
               (case cx_classes c of
                  None \<Rightarrow> Some None
                | Some classes \<Rightarrow>
                    resolve_fb_method fuel (the (cx_function_blocks c)) classes fbd name)
           | None \<Rightarrow>
               (case cx_classes c of
                  None \<Rightarrow> Some None
                | Some classes \<Rightarrow>
                    (case im_get classes key of
                       None \<Rightarrow> Some None
                     | Some cd \<Rightarrow> resolve_class_method fuel classes cd name))))"

section \<open>Arguments\<close>

definition read_arg_value :: "interp \<Rightarrow> call_arg \<Rightarrow> rvalue ev" where
  "read_arg_value I arg =
     (case ca_value arg of ArgExpr e \<Rightarrow> ip_expr I e | ArgTarget target \<Rightarrow> read_lvalue I target)"

definition eval_positional_args :: "interp \<Rightarrow> call_arg list \<Rightarrow> rvalue list ev" where
  "eval_positional_args I args = emap (read_arg_value I) args"

definition unnamed :: runtime_error where
  "unnamed = InvalidArgumentName ''<unnamed>''"

definition arg_name :: "call_arg \<Rightarrow> rstr ev" where
  "arg_name arg = eok_or (ca_name arg) unnamed"

text \<open>The slots of the fixed parameters are filled in the order of the arguments.\<close>

fun fill_fixed :: "interp \<Rightarrow> rstr list \<Rightarrow> call_arg list \<Rightarrow> rvalue option list \<Rightarrow> rvalue option list ev"
where
  "fill_fixed I params [] values = eret values"
| "fill_fixed I params (arg # args) values =
     ebind (arg_name arg) (\<lambda>name.
     ebind (eok_or (find_index (\<lambda>param. param = to_ascii_uppercase name) params)
       (InvalidArgumentName name)) (\<lambda>position.
       if values ! position \<noteq> None then efail (InvalidArgumentName name)
       else
         ebind (read_arg_value I arg) (\<lambda>value.
           fill_fixed I params args (values[position := Some value]))))"

definition resolve_slots :: "runtime_error \<Rightarrow> rvalue option list \<Rightarrow> rvalue list ev" where
  "resolve_slots e values = emap (\<lambda>v. eok_or v e) values"

definition bind_stdlib_named_args_fixed ::
    "interp \<Rightarrow> rstr list \<Rightarrow> call_arg list \<Rightarrow> rvalue list ev" where
  "bind_stdlib_named_args_fixed I params args =
     (let count = InvalidArgumentCount (length params) (length args) in
      if length args \<noteq> length params then efail count
      else
        ebind (fill_fixed I params args (replicate (length params) None)) (\<lambda>values.
          resolve_slots count values))"

text \<open>The slots of the variadic parameters grow to the largest index used.\<close>

fun fill_variadic ::
    "interp \<Rightarrow> rstr list \<Rightarrow> rstr \<Rightarrow> nat \<Rightarrow> call_arg list \<Rightarrow> rvalue option list \<Rightarrow> rvalue option list
      \<Rightarrow> (rvalue option list \<times> rvalue option list) ev" where
  "fill_variadic I fixed prefix start [] values variadic = eret (values, variadic)"
| "fill_variadic I fixed prefix start (arg # args) values variadic =
     ebind (arg_name arg) (\<lambda>name.
       (let key = to_ascii_uppercase name; bad = InvalidArgumentName name in
        case find_index (\<lambda>param. param = key) fixed of
          Some position \<Rightarrow>
            if values ! position \<noteq> None then efail bad
            else
              ebind (read_arg_value I arg) (\<lambda>value.
                fill_variadic I fixed prefix start args (values[position := Some value]) variadic)
        | None \<Rightarrow>
            ebind (eok_or (strip_prefix prefix key) bad) (\<lambda>suffix.
            ebind (eok_or (parse_unsigned 64 suffix) bad) (\<lambda>index.
              if index < start then efail bad
              else
                (let offset = index - start;
                     variadic = variadic @ replicate (offset + 1 - length variadic) None
                 in if variadic ! offset \<noteq> None then efail bad
                    else
                      ebind (read_arg_value I arg) (\<lambda>value.
                        fill_variadic I fixed prefix start args values
                          (variadic[offset := Some value])))))))"

definition bind_stdlib_named_args_variadic ::
    "interp \<Rightarrow> rstr list \<Rightarrow> rstr \<Rightarrow> nat \<Rightarrow> nat \<Rightarrow> call_arg list \<Rightarrow> rvalue list ev" where
  "bind_stdlib_named_args_variadic I fixed prefix start mn args =
     ebind (fill_variadic I fixed prefix start args (replicate (length fixed) None) [])
       (\<lambda>(values, variadic).
         (let short = InvalidArgumentCount (length fixed + mn) (length args);
              count = length variadic
          in if None \<in> set values then efail short
             else if count < mn then efail short
             else
               resolve_slots (InvalidArgumentCount (length fixed + count) (length args))
                 (values @ variadic)))"

definition bind_stdlib_named_args :: "interp \<Rightarrow> std_params \<Rightarrow> call_arg list \<Rightarrow> rvalue list ev" where
  "bind_stdlib_named_args I params args =
     (if \<exists>arg\<in>set args. ca_name arg = None then efail unnamed
      else
        (case params of
           StdFixed params \<Rightarrow> bind_stdlib_named_args_fixed I params args
         | StdVariadic fixed prefix start mn \<Rightarrow>
             bind_stdlib_named_args_variadic I fixed prefix start mn args))"

end
