(* ===== verification/Eval_Calls.thy ===== *)
theory Eval_Calls
  imports Eval_Names
begin

text \<open>
  Calls: the functions that split a date into variables (\<open>eval/expr/call.rs\<close>), and functions,
  methods and function blocks with their parameters, outputs and local variables
  (\<open>eval/mod.rs\<close>).
\<close>

section \<open>Splitting a date into variables\<close>

definition write_output_int :: "interp \<Rightarrow> lvalue \<Rightarrow> int \<Rightarrow> unit ev" where
  "write_output_int I target value =
     ebind (read_lvalue I target) (\<lambda>current.
     ebind (elift (\<lambda>_.
       case current of
         VSInt _ \<Rightarrow> ok_or (map_option VSInt (signed_try_from value)) Overflow
       | VInt _ \<Rightarrow> ok_or (map_option VInt (signed_try_from value)) Overflow
       | VDInt _ \<Rightarrow> ok_or (map_option VDInt (signed_try_from value)) Overflow
       | VLInt _ \<Rightarrow> Inr (VLInt (word_of_int value))
       | VUSInt _ \<Rightarrow> ok_or (map_option VUSInt (unsigned_try_from value)) Overflow
       | VUInt _ \<Rightarrow> ok_or (map_option VUInt (unsigned_try_from value)) Overflow
       | VUDInt _ \<Rightarrow> ok_or (map_option VUDInt (unsigned_try_from value)) Overflow
       | VULInt _ \<Rightarrow> if value < 0 then Inl Overflow else Inr (VULInt (word_of_int value))
       | _ \<Rightarrow> Inl TypeMismatch)) (\<lambda>converted.
       write_lvalue I target converted))"

definition require_output_target :: "call_arg \<Rightarrow> lvalue ev" where
  "require_output_target arg =
     (case ca_value arg of ArgTarget target \<Rightarrow> eret target | ArgExpr _ \<Rightarrow> efail TypeMismatch)"

text \<open>The first argument is the input, the others are outputs.\<close>

definition split_args :: "interp \<Rightarrow> nat \<Rightarrow> call_arg list \<Rightarrow> (rvalue \<times> lvalue list) ev" where
  "split_args I expected args =
     (case args of
        [] \<Rightarrow> efail (InvalidArgumentCount expected (length args))
      | arg # rest \<Rightarrow>
          ebind (read_arg_value I arg) (\<lambda>input.
          ebind (emap require_output_target rest) (\<lambda>outputs. eret (input, outputs))))"

fun assign_args :: "rstr list \<Rightarrow> call_arg list \<Rightarrow> call_arg option list \<Rightarrow> call_arg option list ev" where
  "assign_args params [] assigned = eret assigned"
| "assign_args params (arg # args) assigned =
     ebind (arg_name arg) (\<lambda>name.
     ebind (eok_or (find_index (\<lambda>param. eq_ignore_ascii_case param (to_ascii_uppercase name)) params)
       (InvalidArgumentName name)) (\<lambda>position.
       if assigned ! position \<noteq> None then efail (InvalidArgumentName name)
       else assign_args params args (assigned[position := Some arg])))"

definition bind_split_args :: "interp \<Rightarrow> rstr list \<Rightarrow> call_arg list \<Rightarrow> (rvalue \<times> lvalue list) ev" where
  "bind_split_args I params args =
     (let count = InvalidArgumentCount (length params) (length args) in
      if \<forall>arg\<in>set args. ca_name arg = None then
        (if length args \<noteq> length params then efail count else split_args I (length params) args)
      else if \<exists>arg\<in>set args. ca_name arg = None then efail unnamed
      else if length args \<noteq> length params then efail count
      else
        ebind (assign_args params args (replicate (length params) None)) (\<lambda>assigned.
        ebind (emap (\<lambda>a. eok_or a count) assigned) (\<lambda>args. split_args I (length params) args)))"

definition split_params :: "rstr \<Rightarrow> rstr list option" where
  "split_params name =
     (if name = ''SPLIT_DATE'' then Some [''IN'', ''YEAR'', ''MONTH'', ''DAY'']
      else if name \<in> set [''SPLIT_TOD'', ''SPLIT_LTOD'']
      then Some [''IN'', ''HOUR'', ''MINUTE'', ''SECOND'', ''MILLISECOND'']
      else if name \<in> set [''SPLIT_DT'', ''SPLIT_LDT'']
      then Some [''IN'', ''YEAR'', ''MONTH'', ''DAY'', ''HOUR'', ''MINUTE'', ''SECOND'', ''MILLISECOND'']
      else None)"

definition split_value ::
    "rstr \<Rightarrow> rvalue \<Rightarrow> date_time_profile \<Rightarrow> (runtime_error, int list) fueled" where
  "split_value name input profile =
     (if name = ''SPLIT_DATE'' then split_date input profile
      else if name = ''SPLIT_TOD'' then Some (split_tod input profile)
      else if name = ''SPLIT_LTOD'' then Some (split_ltod input)
      else if name = ''SPLIT_DT'' then split_dt input profile
      else if name = ''SPLIT_LDT'' then Some (split_ldt input)
      else Some (Inr []))"

definition eval_split_call :: "interp \<Rightarrow> rstr \<Rightarrow> call_arg list \<Rightarrow> rvalue ev" where
  "eval_split_call I name args =
     (case split_params name of
        None \<Rightarrow> efail (UndefinedFunction name)
      | Some params \<Rightarrow>
          ebind (bind_split_args I params args) (\<lambda>(input, outputs).
          ebind (ebind (efuel (\<lambda>c. split_value name input (cx_profile c))) (\<lambda>r. elift (\<lambda>_. r))) (\<lambda>parts.
          ebind (eeach (\<lambda>(target, part). write_output_int I target part) (zip outputs parts)) (\<lambda>_.
            eret VNull))))"

definition eval_ref_call :: "interp \<Rightarrow> call_arg list \<Rightarrow> rvalue ev" where
  "eval_ref_call I args =
     (case args of
        [arg] \<Rightarrow>
          (case ca_value arg of
             ArgTarget target \<Rightarrow>
               ebind (resolve_reference_for_lvalue I target) (\<lambda>r. eret (VReference (Some r)))
           | ArgExpr _ \<Rightarrow> efail TypeMismatch)
      | _ \<Rightarrow> efail (InvalidArgumentCount 1 (length args)))"

section \<open>Parameters\<close>

datatype output_binding =
    OutParam rstr lvalue
  | OutValue lvalue rvalue

datatype binding_mode = BindFunction | BindFunctionBlock

definition is_param :: "rstr \<Rightarrow> param_direction \<Rightarrow> eval_param \<Rightarrow> bool" where
  "is_param name dir p \<longleftrightarrow> eq_ignore_ascii_case (pr_name p) name \<and> pr_direction p = dir"

definition is_en_eno :: "eval_param \<Rightarrow> bool" where
  "is_en_eno p \<longleftrightarrow>
     pr_direction p \<in> {DirIn, DirOut} \<and>
     (eq_ignore_ascii_case (pr_name p) ''EN'' \<or> eq_ignore_ascii_case (pr_name p) ''ENO'')"

definition find_arg_value :: "call_arg list \<Rightarrow> rstr \<Rightarrow> call_arg option" where
  "find_arg_value args name = find (\<lambda>arg. ca_name arg = Some name) args"

definition arg_target :: "call_arg \<Rightarrow> lvalue option" where
  "arg_target arg = (case ca_value arg of ArgTarget target \<Rightarrow> Some target | ArgExpr _ \<Rightarrow> None)"

definition find_arg_target :: "call_arg list \<Rightarrow> rstr \<Rightarrow> lvalue option" where
  "find_arg_target args name =
     Option.bind (find (\<lambda>arg. arg_target arg \<noteq> None \<and> ca_name arg = Some name) args) arg_target"

text \<open>\<open>default_value_for_type_id(..).unwrap_or(Value::Null)\<close>.\<close>

definition default_or_null :: "interp \<Rightarrow> type_id \<Rightarrow> rvalue ev" where
  "default_or_null I tid =
     efuel (\<lambda>c.
       case default_value_for_type_id (ip_fuel I) (cx_registry c) (cx_profile c) tid of
         None \<Rightarrow> None
       | Some (Inl _) \<Rightarrow> Some VNull
       | Some (Inr v) \<Rightarrow> Some v)"

definition disabled_outputs :: "eval_param list \<Rightarrow> call_arg list \<Rightarrow> output_binding list" where
  "disabled_outputs params args =
     (case find (is_param ''ENO'' DirOut) params of
        None \<Rightarrow> []
      | Some eno \<Rightarrow>
          (case find_arg_target args (pr_name eno) of
             None \<Rightarrow> []
           | Some target \<Rightarrow> [OutValue target (VBool False)]))"

text \<open>
  The loop over the parameters: \<open>rest\<close> are the positional arguments not yet used, \<open>vals\<close> and
  \<open>outs\<close> what was bound so far. The first component of the result is \<open>should_execute\<close>.
\<close>

fun bind_params ::
    "interp \<Rightarrow> binding_mode \<Rightarrow> eval_param list \<Rightarrow> call_arg list \<Rightarrow> bool \<Rightarrow> eval_param list
      \<Rightarrow> call_arg list \<Rightarrow> (rstr \<times> rvalue) list \<Rightarrow> output_binding list
      \<Rightarrow> (bool \<times> (rstr \<times> rvalue) list \<times> output_binding list) ev" where
  "bind_params I mode params args positional [] rest vals outs = eret (True, vals, outs)"
| "bind_params I mode params args positional (p # ps) rest vals outs =
     (if is_param ''EN'' DirIn p then
        ebind
          (if positional then eret (VBool True)
           else
             (case find_arg_value args (pr_name p) of
                Some arg \<Rightarrow> read_arg_value I arg
              | None \<Rightarrow> eret (VBool True)))
          (\<lambda>en.
             if en = VBool False
             then eret (False, vals @ [(pr_name p, en)], outs @ disabled_outputs params args)
             else bind_params I mode params args positional ps rest (vals @ [(pr_name p, en)]) outs)
      else if positional \<and> is_param ''ENO'' DirOut p then
        ebind (default_or_null I (pr_type_id p)) (\<lambda>value.
          bind_params I mode params args positional ps rest (vals @ [(pr_name p, value)]) outs)
      else
        (let arg =
               (if positional then (case rest of [] \<Rightarrow> None | a # _ \<Rightarrow> Some a)
                else find_arg_value args (pr_name p));
             rest = (if positional then tl rest else rest)
         in case pr_direction p of
              DirIn \<Rightarrow>
                ebind
                  (case arg of
                     Some a \<Rightarrow> read_arg_value I a
                   | None \<Rightarrow>
                       (case pr_default p of
                          Some e \<Rightarrow> ip_expr I e
                        | None \<Rightarrow> default_or_null I (pr_type_id p)))
                  (\<lambda>value.
                     bind_params I mode params args positional ps rest
                       (vals @ [(pr_name p, value)]) outs)
            | DirOut \<Rightarrow>
                ebind
                  (if mode = BindFunction
                   then ebind (default_or_null I (pr_type_id p)) (\<lambda>v. eret (vals @ [(pr_name p, v)]))
                   else eret vals)
                  (\<lambda>vals.
                     case arg of
                       None \<Rightarrow> bind_params I mode params args positional ps rest vals outs
                     | Some a \<Rightarrow>
                         (case arg_target a of
                            None \<Rightarrow> efail TypeMismatch
                          | Some target \<Rightarrow>
                              bind_params I mode params args positional ps rest vals
                                (outs @ [OutParam (pr_name p) target])))
            | DirInOut \<Rightarrow>
                (case arg of
                   None \<Rightarrow> bind_params I mode params args positional ps rest vals outs
                 | Some a \<Rightarrow>
                     (case arg_target a of
                        None \<Rightarrow> efail TypeMismatch
                      | Some target \<Rightarrow>
                          ebind (read_lvalue I target) (\<lambda>value.
                            bind_params I mode params args positional ps rest
                              (vals @ [(pr_name p, value)])
                              (outs @ [OutParam (pr_name p) target]))))))"

definition prepare_bindings ::
    "interp \<Rightarrow> eval_param list \<Rightarrow> call_arg list \<Rightarrow> binding_mode
      \<Rightarrow> (bool \<times> (rstr \<times> rvalue) list \<times> output_binding list) ev" where
  "prepare_bindings I params args mode =
     (let positional = (\<forall>arg\<in>set args. ca_name arg = None);
          expected = length (filter (\<lambda>p. \<not> is_en_eno p) params)
      in if positional \<and> length args \<noteq> expected
         then efail (InvalidArgumentCount expected (length args))
         else bind_params I mode params args positional params args [] [])"

definition collect_outputs :: "interp \<Rightarrow> output_binding list \<Rightarrow> (lvalue \<times> rvalue) list ev" where
  "collect_outputs I outs =
     emap (\<lambda>out. case out of
         OutParam param target \<Rightarrow>
           ebind (read_lvalue I (LName param)) (\<lambda>value. eret (target, value))
       | OutValue target value \<Rightarrow> eret (target, value)) outs"

definition write_output_values :: "interp \<Rightarrow> (lvalue \<times> rvalue) list \<Rightarrow> unit ev" where
  "write_output_values I values = eeach (\<lambda>(target, value). write_lvalue I target value) values"

section \<open>Local variables\<close>

text \<open>The name of the function block or class a type stands for, through aliases.\<close>

fun function_block_type_name :: "nat \<Rightarrow> type_registry \<Rightarrow> type_id \<Rightarrow> rstr option option" where
  "function_block_type_name 0 registry tid = None"
| "function_block_type_name (Suc fuel) registry tid =
     (case registry_get registry tid of
        Some (TyFunctionBlock name) \<Rightarrow> Some (Some name)
      | Some (TyAlias _ target) \<Rightarrow> function_block_type_name fuel registry target
      | _ \<Rightarrow> Some None)"

fun class_type_name :: "nat \<Rightarrow> type_registry \<Rightarrow> type_id \<Rightarrow> rstr option option" where
  "class_type_name 0 registry tid = None"
| "class_type_name (Suc fuel) registry tid =
     (case registry_get registry tid of
        Some (TyClass name) \<Rightarrow> Some (Some name)
      | Some (TyAlias _ target) \<Rightarrow> class_type_name fuel registry target
      | _ \<Rightarrow> Some None)"

definition fb_type_name :: "interp \<Rightarrow> type_id \<Rightarrow> rstr option ev" where
  "fb_type_name I tid = efuel (\<lambda>c. function_block_type_name (ip_fuel I) (cx_registry c) tid)"

definition cls_type_name :: "interp \<Rightarrow> type_id \<Rightarrow> rstr option ev" where
  "cls_type_name I tid = efuel (\<lambda>c. class_type_name (ip_fuel I) (cx_registry c) tid)"

definition set_local_value :: "rstr \<Rightarrow> rvalue \<Rightarrow> unit ev" where
  "set_local_value name value = ebind (estorage (set_local name value)) (\<lambda>_. eret ())"

text \<open>The tables that must be there to create an instance.\<close>

definition require_tables :: "unit ev" where
  "require_tables =
     elift (\<lambda>c.
       if cx_function_blocks c \<noteq> None \<and> cx_functions c \<noteq> None \<and> cx_stdlib c \<noteq> None \<and>
         cx_classes c \<noteq> None
       then Inr () else Inl TypeMismatch)"

definition lookup_fb :: "rstr \<Rightarrow> function_block_def option ev" where
  "lookup_fb name =
     eget (\<lambda>c. Option.bind (cx_function_blocks c) (\<lambda>fbs. im_get fbs (to_ascii_uppercase name)))"

definition lookup_class :: "rstr \<Rightarrow> class_def option ev" where
  "lookup_class name =
     eget (\<lambda>c. Option.bind (cx_classes c) (\<lambda>cls. im_get cls (to_ascii_uppercase name)))"

definition init_local :: "interp \<Rightarrow> var_def \<Rightarrow> unit ev" where
  "init_local I v =
     (if vd_external v then eret ()
      else
        ebind (fb_type_name I (vd_type_id v)) (\<lambda>fb_type.
          case fb_type of
            Some fb_type \<Rightarrow>
              ebind require_tables (\<lambda>_.
              ebind (lookup_fb fb_type) (\<lambda>d.
              ebind (eok_or d (UndefinedFunctionBlock fb_type)) (\<lambda>d.
              ebind (ip_create_fb I d) (\<lambda>i. set_local_value (vd_name v) (VInstance i)))))
          | None \<Rightarrow>
              ebind (cls_type_name I (vd_type_id v)) (\<lambda>cls.
                case cls of
                  Some cls \<Rightarrow>
                    ebind require_tables (\<lambda>_.
                    ebind (lookup_class cls) (\<lambda>d.
                    ebind (eok_or d TypeMismatch) (\<lambda>d.
                    ebind (ip_create_class I d) (\<lambda>i. set_local_value (vd_name v) (VInstance i)))))
                | None \<Rightarrow>
                    ebind
                      (case vd_initializer v of
                         Some e \<Rightarrow> ip_expr I e
                       | None \<Rightarrow> default_or_null I (vd_type_id v))
                      (set_local_value (vd_name v)))))"

definition init_locals :: "interp \<Rightarrow> var_def list \<Rightarrow> unit ev" where
  "init_locals I locals = eeach (init_local I) locals"

definition init_locals_in_frame :: "interp \<Rightarrow> var_def list \<Rightarrow> unit ev" where
  "init_locals_in_frame I locals = eeach (init_local I) locals"

end
