(* ===== verification/Evaluator.thy ===== *)
theory Evaluator
  imports Eval_Calls
begin

text \<open>
  The interpreter: calls of functions, methods and function blocks (\<open>eval/mod.rs\<close>), expressions
  (\<open>eval/expr/eval.rs\<close>), statements and blocks (\<open>eval/stmt.rs\<close>) and the creation of instances
  (\<open>instance.rs\<close>). Each function is written over the recursive calls in \<open>interp\<close>; \<open>interp_at\<close>
  ties the knot, one unit of fuel for each level of nesting and each round of a loop.
\<close>

section \<open>Blocks\<close>

text \<open>
  Labels are found by their upper-case name, the first of a name wins; a jump continues at the
  label, or is an error when the block has none of the name.
\<close>

definition label_index :: "stmt list \<Rightarrow> rstr \<Rightarrow> nat option" where
  "label_index stmts key =
     find_index (\<lambda>s. case s of SLabel name _ \<Rightarrow> to_ascii_uppercase name = key | _ \<Rightarrow> False) stmts"

fun block_loop :: "nat \<Rightarrow> (stmt \<Rightarrow> stmt_result ev) \<Rightarrow> stmt list \<Rightarrow> nat \<Rightarrow> stmt_result ev" where
  "block_loop 0 step stmts idx = ediverge"
| "block_loop (Suc fuel) step stmts idx =
     (if idx < length stmts then
        ebind (step (stmts ! idx)) (\<lambda>result.
          case result of
            RContinue \<Rightarrow> block_loop fuel step stmts (idx + 1)
          | RJump target \<Rightarrow>
              (case label_index stmts (to_ascii_uppercase target) of
                 Some i \<Rightarrow> block_loop fuel step stmts i
               | None \<Rightarrow> efail (UndefinedLabel target))
          | _ \<Rightarrow> eret result)
      else eret RContinue)"

definition exec_block :: "interp \<Rightarrow> stmt list \<Rightarrow> stmt_result ev" where
  "exec_block I stmts = block_loop (ip_fuel I) (ip_stmt I) stmts 0"

section \<open>Calls\<close>

definition push_frame_ev :: "rstr \<Rightarrow> unit ev" where
  "push_frame_ev owner = ebind (estorage (push_frame owner)) (\<lambda>_. eret ())"

definition push_frame_with_instance_ev :: "rstr \<Rightarrow> instance_id \<Rightarrow> unit ev" where
  "push_frame_with_instance_ev owner i =
     ebind (estorage (push_frame_with_instance owner i)) (\<lambda>_. eret ())"

definition pop_ctx :: "eval_ctx \<Rightarrow> eval_ctx" where
  "pop_ctx c = c\<lparr>cx_storage := snd (pop_frame (cx_storage c))\<rparr>"

text \<open>\<open>saturating_add(1)\<close> on a \<open>u32\<close>.\<close>

definition succ_sat :: "u32 \<Rightarrow> u32" where
  "succ_sat n = (if n = - 1 then n else n + 1)"

text \<open>The context as the caller had it: the frame popped and the saved fields put back.\<close>

definition restore_function :: "eval_ctx \<Rightarrow> eval_ctx \<Rightarrow> eval_ctx" where
  "restore_function c0 c = c\<lparr>cx_return_name := cx_return_name c0, cx_using := cx_using c0\<rparr>"

definition restore_method :: "eval_ctx \<Rightarrow> eval_ctx \<Rightarrow> eval_ctx" where
  "restore_method c0 c = c\<lparr>cx_return_name := cx_return_name c0, cx_using := cx_using c0,
     cx_current_instance := cx_current_instance c0\<rparr>"

definition restore_block :: "eval_ctx \<Rightarrow> eval_ctx \<Rightarrow> eval_ctx" where
  "restore_block c0 c = c\<lparr>cx_using := cx_using c0, cx_current_instance := cx_current_instance c0\<rparr>"

definition restore_depth :: "eval_ctx \<Rightarrow> eval_ctx \<Rightarrow> eval_ctx" where
  "restore_depth c0 c = c\<lparr>cx_call_depth := cx_call_depth c0\<rparr>"

definition set_locals :: "(rstr \<times> rvalue) list \<Rightarrow> unit ev" where
  "set_locals vals = eeach (\<lambda>(name, value). set_local_value name value) vals"

definition set_instance_vars :: "instance_id \<Rightarrow> (rstr \<times> rvalue) list \<Rightarrow> unit ev" where
  "set_instance_vars i vals =
     eeach (\<lambda>(name, value). ebind (estorage (set_instance_var i name value)) (\<lambda>_. eret ())) vals"

definition enter_call :: "unit ev" where
  "enter_call = emodify (\<lambda>c. c\<lparr>cx_call_depth := succ_sat (cx_call_depth c)\<rparr>)"

text \<open>The return value of a body: of its \<open>RETURN\<close>, of the frame, or the default.\<close>

definition returned :: "interp \<Rightarrow> type_id \<Rightarrow> stmt_result \<Rightarrow> rvalue ev" where
  "returned I ty result =
     (case result of
        RReturn (Some value) \<Rightarrow> eret value
      | _ \<Rightarrow>
          ebind (eget (\<lambda>c. Option.bind (current_frame (cx_storage c)) lf_return_value)) (\<lambda>rv.
            case rv of Some value \<Rightarrow> eret value | None \<Rightarrow> default_or_null I ty))"

text \<open>
  The tail of every call: outputs are read inside, the frame is popped, the context restored, the
  outputs written outside.
\<close>

definition finish_call ::
    "interp \<Rightarrow> (eval_ctx \<Rightarrow> eval_ctx) \<Rightarrow> (eval_ctx \<Rightarrow> eval_ctx) \<Rightarrow> output_binding list \<Rightarrow> unit ev" where
  "finish_call I restore depth outs =
     ebind (eon_error (depth \<circ> restore \<circ> pop_ctx) (collect_outputs I outs)) (\<lambda>values.
     ebind (emodify (restore \<circ> pop_ctx)) (\<lambda>_.
     ebind (eon_error depth (write_output_values I values)) (\<lambda>_.
       emodify depth)))"

text \<open>A call with \<open>EN\<close> false: an error while the outputs are read leaves the frame on the stack.\<close>

definition disabled_call ::
    "interp \<Rightarrow> (eval_ctx \<Rightarrow> eval_ctx) \<Rightarrow> output_binding list \<Rightarrow> unit ev" where
  "disabled_call I restore outs =
     ebind (collect_outputs I outs) (\<lambda>values.
     ebind (emodify (restore \<circ> pop_ctx)) (\<lambda>_.
       write_output_values I values))"

definition call_function :: "interp \<Rightarrow> function_def \<Rightarrow> call_arg list \<Rightarrow> rvalue ev" where
  "call_function I func args =
     ebind (eget (\<lambda>c. c)) (\<lambda>c0.
       (let restore = restore_function c0 in
        ebind (eon_error restore (prepare_bindings I (fn_params func) args BindFunction))
          (\<lambda>(should_execute, vals, outs).
        ebind (emodify (\<lambda>c. c\<lparr>cx_using := Some (fn_using func)\<rparr>)) (\<lambda>_.
        ebind (push_frame_ev (fn_name func)) (\<lambda>_.
        ebind (emodify (\<lambda>c. c\<lparr>cx_return_name := Some (fn_name func)\<rparr>)) (\<lambda>_.
        ebind (default_or_null I (fn_return_type func)) (\<lambda>return_default.
        ebind (set_local_value (fn_name func) return_default) (\<lambda>_.
        ebind (set_locals vals) (\<lambda>_.
          if \<not> should_execute then
            ebind (disabled_call I restore outs) (\<lambda>_. default_or_null I (fn_return_type func))
          else
            ebind (eget (\<lambda>c. c)) (\<lambda>c1.
              (let depth = restore_depth c1; leave = restore \<circ> pop_ctx \<circ> depth in
               ebind enter_call (\<lambda>_.
               ebind (eon_error leave (init_locals I (fn_locals func))) (\<lambda>_.
               ebind (eon_error leave (exec_block I (fn_body func))) (\<lambda>result.
               ebind (returned I (fn_return_type func) result) (\<lambda>value.
               ebind (finish_call I restore depth outs) (\<lambda>_. eret value))))))))))))))))"

text \<open>A method runs with the namespaces of its caller; one without a return type gives \<open>NULL\<close>.\<close>

definition call_method ::
    "interp \<Rightarrow> method_def \<Rightarrow> instance_id \<Rightarrow> call_arg list \<Rightarrow> rvalue ev" where
  "call_method I meth i args =
     ebind (eget (\<lambda>c. c)) (\<lambda>c0.
       (let restore = restore_method c0 in
        ebind (eon_error restore (prepare_bindings I (md_params meth) args BindFunction))
          (\<lambda>(should_execute, vals, outs).
        ebind (emodify (\<lambda>c. c\<lparr>cx_current_instance := Some i\<rparr>)) (\<lambda>_.
        ebind (push_frame_with_instance_ev (md_name meth) i) (\<lambda>_.
        ebind (emodify (\<lambda>c. c\<lparr>cx_return_name := map_option (\<lambda>_. md_name meth) (md_return_type meth)\<rparr>))
          (\<lambda>_.
        ebind
          (case md_return_type meth of
             None \<Rightarrow> eret ()
           | Some ty \<Rightarrow> ebind (default_or_null I ty) (set_local_value (md_name meth))) (\<lambda>_.
        ebind (set_locals vals) (\<lambda>_.
          if \<not> should_execute then
            ebind (disabled_call I restore outs) (\<lambda>_.
              case md_return_type meth of None \<Rightarrow> eret VNull | Some ty \<Rightarrow> default_or_null I ty)
          else
            ebind (eget (\<lambda>c. c)) (\<lambda>c1.
              (let depth = restore_depth c1; leave = restore \<circ> pop_ctx \<circ> depth in
               ebind enter_call (\<lambda>_.
               ebind (eon_error leave (init_locals I (md_locals meth))) (\<lambda>_.
               ebind (eon_error leave (exec_block I (md_body meth))) (\<lambda>result.
               ebind (case md_return_type meth of None \<Rightarrow> eret VNull | Some ty \<Rightarrow> returned I ty result)
                 (\<lambda>value.
               ebind (finish_call I restore depth outs) (\<lambda>_. eret value)))))))))))))))"

text \<open>A standard block on the storage and the time of the context.\<close>

definition exec_builtin :: "instance_id \<Rightarrow> builtin_fb_kind \<Rightarrow> unit ev" where
  "exec_builtin i kind =
     (\<lambda>c. case execute_builtin i kind \<lparr>fx_storage = cx_storage c, fx_now = cx_now c\<rparr> of
        (r, fx) \<Rightarrow> Some (r, c\<lparr>cx_storage := fx_storage fx\<rparr>))"

definition block_body :: "interp \<Rightarrow> function_block_def \<Rightarrow> instance_id \<Rightarrow> stmt_result ev" where
  "block_body I d i =
     (case builtin_kind (fb_name d) of
        Some kind \<Rightarrow> ebind (exec_builtin i kind) (\<lambda>_. eret RContinue)
      | None \<Rightarrow> ebind (init_locals_in_frame I (fb_temps d)) (\<lambda>_. exec_block I (fb_body d)))"

definition call_function_block ::
    "interp \<Rightarrow> function_block_def \<Rightarrow> instance_id \<Rightarrow> call_arg list \<Rightarrow> unit ev" where
  "call_function_block I d i args =
     ebind (eget (\<lambda>c. c)) (\<lambda>c0.
       (let restore = restore_block c0 in
        ebind (eon_error restore (prepare_bindings I (fb_params d) args BindFunctionBlock))
          (\<lambda>(should_execute, vals, outs).
        ebind (emodify (\<lambda>c. c\<lparr>cx_using := Some (fb_using d), cx_current_instance := Some i\<rparr>)) (\<lambda>_.
        ebind (push_frame_with_instance_ev (fb_name d) i) (\<lambda>_.
        ebind (set_instance_vars i vals) (\<lambda>_.
          if \<not> should_execute then disabled_call I restore outs
          else
            ebind (eget (\<lambda>c. c)) (\<lambda>c1.
              (let depth = restore_depth c1; leave = restore \<circ> pop_ctx \<circ> depth in
               ebind enter_call (\<lambda>_.
               ebind (eon_error leave (block_body I d i)) (\<lambda>result.
                 case result of
                   RReturn _ \<Rightarrow> finish_call I restore depth outs
                 | RContinue \<Rightarrow> finish_call I restore depth outs
                 | _ \<Rightarrow> ebind (emodify leave) (\<lambda>_. efail InvalidControlFlow)))))))))))"

section \<open>Expressions\<close>

definition size_result :: "size_of_error + 'a \<Rightarrow> runtime_error + 'a" where
  "size_result m =
     (case m of
        Inl SzOverflow \<Rightarrow> Inl Overflow
      | Inl _ \<Rightarrow> Inl TypeMismatch
      | Inr x \<Rightarrow> Inr x)"

definition eval_size_of :: "interp \<Rightarrow> size_of_target \<Rightarrow> rvalue ev" where
  "eval_size_of I target =
     ebind
       (case target of
          SizeOfType tid \<Rightarrow>
            efuel (\<lambda>c. size_of_type (ev_ref_size (cx_env c)) (ip_fuel I) (cx_registry c) tid)
        | SizeOfExpr e \<Rightarrow>
            ebind (ip_expr I e) (\<lambda>value.
              efuel (\<lambda>c. size_of_value (ev_ref_size (cx_env c)) (ev_to_uppercase (cx_env c))
                (ip_fuel I) (cx_registry c) value)))
       (\<lambda>r. elift (\<lambda>_.
          rbind (size_result r) (\<lambda>n. ok_or (map_option VDInt (signed_try_from (int n))) Overflow)))"

definition binary_ev :: "binary_op \<Rightarrow> rvalue \<Rightarrow> rvalue \<Rightarrow> rvalue ev" where
  "binary_ev op left right =
     elift (\<lambda>c. apply_binary (ev_powf (cx_env c)) op left right (cx_profile c))"

text \<open>The functions a name can stand for: \<open>REF\<close>, the splits, user functions, standard functions.\<close>

definition bind_std_args :: "interp \<Rightarrow> std_params \<Rightarrow> call_arg list \<Rightarrow> rvalue list ev" where
  "bind_std_args I params args =
     (if \<exists>arg\<in>set args. ca_name arg \<noteq> None then bind_stdlib_named_args I params args
      else eval_positional_args I args)"

definition run_std :: "std_func \<Rightarrow> rvalue list \<Rightarrow> rvalue ev" where
  "run_std func vals = ebind (efuel (\<lambda>_. func vals)) (\<lambda>r. elift (\<lambda>_. r))"

definition call_std :: "interp \<Rightarrow> rstr \<Rightarrow> call_arg list \<Rightarrow> rvalue ev option ev" where
  "call_std I key args =
     eget (\<lambda>c.
       case cx_stdlib c of
         None \<Rightarrow> None
       | Some lib \<Rightarrow>
           (case std_get lib key of
              Some entry \<Rightarrow>
                Some (ebind (bind_std_args I (sfn_params entry) args) (run_std (sfn_func entry)))
            | None \<Rightarrow>
                if is_conversion_name key
                then Some (ebind (bind_std_args I (StdFixed [''IN'']) args)
                  (run_std (std_call lib key)))
                else None))"

definition user_function :: "eval_ctx \<Rightarrow> rstr \<Rightarrow> function_def option" where
  "user_function c name =
     Option.bind (cx_functions c) (\<lambda>functions.
       case im_get functions (to_ascii_uppercase name) of
         Some func \<Rightarrow> Some func
       | None \<Rightarrow>
           if CHR ''.'' \<in> set name then None
           else Option.bind (cx_using c) (resolve_using_function functions name))"

definition call_named :: "interp \<Rightarrow> rstr \<Rightarrow> call_arg list \<Rightarrow> rvalue ev option ev" where
  "call_named I name args =
     (let key = to_ascii_uppercase name in
      if key = ''REF'' then eret (Some (eval_ref_call I args))
      else if is_split_name key then eret (Some (eval_split_call I key args))
      else
        ebind (eget (\<lambda>c. user_function c name)) (\<lambda>func.
          case func of
            Some func \<Rightarrow> eret (Some (call_function I func args))
          | None \<Rightarrow> call_std I key args))"

text \<open>The methods a target can stand for, of a value or of the current instance.\<close>

definition method_of_value :: "interp \<Rightarrow> rvalue \<Rightarrow> rstr \<Rightarrow> call_arg list \<Rightarrow> rvalue ev option ev" where
  "method_of_value I base field args =
     (case base of
        VInstance i \<Rightarrow>
          ebind (efuel (\<lambda>c. resolve_instance_method (ip_fuel I) c i field)) (\<lambda>m.
            eret (map_option (\<lambda>meth. call_method I meth i args) m))
      | _ \<Rightarrow> eret None)"

definition call_method_target :: "interp \<Rightarrow> expr \<Rightarrow> call_arg list \<Rightarrow> rvalue ev option ev" where
  "call_method_target I target args =
     (case target of
        EField base field \<Rightarrow>
          ebind (ip_expr I base) (\<lambda>v. method_of_value I v field args)
      | EName name \<Rightarrow>
          ebind (eget cx_current_instance) (\<lambda>inst.
            case inst of
              Some i \<Rightarrow> method_of_value I (VInstance i) name args
            | None \<Rightarrow> eret None)
      | _ \<Rightarrow> eret None)"

definition call_instance :: "interp \<Rightarrow> rvalue \<Rightarrow> call_arg list \<Rightarrow> rvalue ev" where
  "call_instance I target_value args =
     (case target_value of
        VInstance i \<Rightarrow>
          ebind (elift (\<lambda>c. ok_or (cx_function_blocks c) TypeMismatch)) (\<lambda>fbs.
          ebind (elift (\<lambda>c. ok_or (get_instance (cx_storage c) i) NullReference)) (\<lambda>inst.
          ebind (eok_or (im_get fbs (to_ascii_uppercase (in_type_name inst)))
            (UndefinedFunctionBlock (in_type_name inst))) (\<lambda>d.
          ebind (call_function_block I d i args) (\<lambda>_. eret VNull))))
      | _ \<Rightarrow> efail TypeMismatch)"

text \<open>The first of several ways to call that applies.\<close>

definition first_call :: "rvalue ev option ev \<Rightarrow> rvalue ev \<Rightarrow> rvalue ev" where
  "first_call attempt otherwise =
     ebind attempt (\<lambda>call. case call of Some m \<Rightarrow> m | None \<Rightarrow> otherwise)"

definition eval_call :: "interp \<Rightarrow> expr \<Rightarrow> call_arg list \<Rightarrow> rvalue ev" where
  "eval_call I target args =
     first_call
       (case call_target_name target of
          Some name \<Rightarrow> call_named I name args
        | None \<Rightarrow> eret None)
       (first_call (call_method_target I target args)
         (ebind (ip_expr I target) (\<lambda>target_value. call_instance I target_value args)))"

definition eval_expr :: "interp \<Rightarrow> expr \<Rightarrow> rvalue ev" where
  "eval_expr I e =
     (case e of
        ELiteral value \<Rightarrow> eret value
      | EThis \<Rightarrow> elift (\<lambda>c. ok_or (map_option VInstance (cx_current_instance c)) TypeMismatch)
      | ESuper \<Rightarrow>
          ebind (elift (\<lambda>c. ok_or (cx_current_instance c) TypeMismatch)) (\<lambda>current.
          ebind (elift (\<lambda>c. ok_or (get_instance (cx_storage c) current) NullReference)) (\<lambda>inst.
            eok_or (map_option VInstance (in_parent inst)) TypeMismatch))
      | ESizeOf target \<Rightarrow> eval_size_of I target
      | EName name \<Rightarrow> read_name (ip_fuel I) name
      | ECall target args \<Rightarrow> eval_call I target args
      | EUnary op e1 \<Rightarrow> ebind (ip_expr I e1) (\<lambda>value. elift (\<lambda>_. apply_unary op value))
      | EBinary op left right \<Rightarrow>
          ebind (ip_expr I left) (\<lambda>left_value.
            if op = OpAnd \<and> left_value = VBool False then eret (VBool False)
            else if op = OpOr \<and> left_value = VBool True then eret (VBool True)
            else ebind (ip_expr I right) (\<lambda>right_value. binary_ev op left_value right_value))
      | EIndex target indices \<Rightarrow>
          ebind (ip_expr I target) (\<lambda>target_value.
          ebind (eval_indices I indices) (\<lambda>index_values.
            elift (\<lambda>_. read_indices target_value index_values)))
      | EField target field \<Rightarrow>
          ebind (ip_expr I target) (\<lambda>target_value. read_field (ip_fuel I) target_value field)
      | ERef target \<Rightarrow>
          ebind (resolve_reference_for_lvalue I target) (\<lambda>r. eret (VReference (Some r)))
      | EDeref e1 \<Rightarrow> ebind (ip_expr I e1) (deref read_ref))"

end
