(* ===== verification/Statements.thy ===== *)
theory Statements
  imports Evaluator
begin

text \<open>
  Statements (\<open>eval/stmt.rs\<close>), the creation of instances (\<open>instance.rs\<close>) and the interpreter as
  a whole.
\<close>

section \<open>Loops\<close>

definition eval_bool :: "interp \<Rightarrow> expr \<Rightarrow> bool ev" where
  "eval_bool I e =
     ebind (ip_expr I e) (\<lambda>v. case v of VBool b \<Rightarrow> eret b | _ \<Rightarrow> efail ConditionNotBool)"

definition int_value :: "rvalue \<Rightarrow> runtime_error + i64" where
  "int_value value =
     (case value of
        VSInt v \<Rightarrow> Inr (scast v)
      | VInt v \<Rightarrow> Inr (scast v)
      | VDInt v \<Rightarrow> Inr (scast v)
      | VLInt v \<Rightarrow> Inr v
      | VUSInt v \<Rightarrow> Inr (ucast v)
      | VUInt v \<Rightarrow> Inr (ucast v)
      | VUDInt v \<Rightarrow> Inr (ucast v)
      | VULInt v \<Rightarrow> Inr v
      | _ \<Rightarrow> Inl TypeMismatch)"

definition is_unsigned_int :: "rvalue \<Rightarrow> bool" where
  "is_unsigned_int value \<longleftrightarrow>
     (case value of VUSInt _ \<Rightarrow> True | VUInt _ \<Rightarrow> True | VUDInt _ \<Rightarrow> True | VULInt _ \<Rightarrow> True | _ \<Rightarrow> False)"

definition loop_unsigned :: "('a::len word \<Rightarrow> rvalue) \<Rightarrow> i64 \<Rightarrow> runtime_error + rvalue" where
  "loop_unsigned f value =
     (if sint value < 0 then Inl TypeMismatch
      else ok_or (map_option f (unsigned_try_from (sint value))) Overflow)"

definition coerce_loop_value :: "rvalue \<Rightarrow> i64 \<Rightarrow> runtime_error + rvalue" where
  "coerce_loop_value template value =
     (case template of
        VSInt _ \<Rightarrow> ok_or (map_option VSInt (signed_try_from (sint value))) Overflow
      | VInt _ \<Rightarrow> ok_or (map_option VInt (signed_try_from (sint value))) Overflow
      | VDInt _ \<Rightarrow> ok_or (map_option VDInt (signed_try_from (sint value))) Overflow
      | VLInt _ \<Rightarrow> Inr (VLInt value)
      | VUSInt _ \<Rightarrow> loop_unsigned VUSInt value
      | VUInt _ \<Rightarrow> loop_unsigned VUInt value
      | VUDInt _ \<Rightarrow> loop_unsigned VUDInt value
      | VULInt _ \<Rightarrow> loop_unsigned VULInt value
      | _ \<Rightarrow> Inl TypeMismatch)"

text \<open>
  The body of a loop one level deeper; an error leaves the depth raised. The continuation says what
  follows an iteration that neither leaves the loop nor the block.
\<close>

definition loop_body :: "interp \<Rightarrow> stmt list \<Rightarrow> stmt_result ev" where
  "loop_body I body =
     ebind (emodify (\<lambda>c. c\<lparr>cx_loop_depth := cx_loop_depth c + 1\<rparr>)) (\<lambda>_.
     ebind (exec_block I body) (\<lambda>result.
     ebind (emodify (\<lambda>c. c\<lparr>cx_loop_depth := cx_loop_depth c - 1\<rparr>)) (\<lambda>_. eret result)))"

definition after_body :: "stmt_result ev \<Rightarrow> stmt_result \<Rightarrow> stmt_result ev" where
  "after_body continue result =
     (case result of
        RContinue \<Rightarrow> continue
      | RLoopContinue \<Rightarrow> continue
      | RExit \<Rightarrow> eret RContinue
      | RReturn _ \<Rightarrow> eret result
      | RJump _ \<Rightarrow> efail InvalidControlFlow)"

fun while_loop :: "nat \<Rightarrow> interp \<Rightarrow> expr \<Rightarrow> stmt list \<Rightarrow> stmt_result ev" where
  "while_loop 0 I condition body = ediverge"
| "while_loop (Suc fuel) I condition body =
     ebind check_execution_budget (\<lambda>_.
     ebind (eval_bool I condition) (\<lambda>go.
       if \<not> go then eret RContinue
       else ebind (loop_body I body) (after_body (while_loop fuel I condition body))))"

fun repeat_loop :: "nat \<Rightarrow> interp \<Rightarrow> stmt list \<Rightarrow> expr \<Rightarrow> stmt_result ev" where
  "repeat_loop 0 I body until = ediverge"
| "repeat_loop (Suc fuel) I body until =
     ebind check_execution_budget (\<lambda>_.
     ebind (loop_body I body) (after_body
       (ebind (eval_bool I until) (\<lambda>stop.
          if stop then eret RContinue else repeat_loop fuel I body until))))"

text \<open>The control variable is written before the test and after each round; \<open>+=\<close> wraps.\<close>

definition write_control :: "interp \<Rightarrow> rstr \<Rightarrow> rvalue \<Rightarrow> i64 \<Rightarrow> unit ev" where
  "write_control I control template current =
     ebind (elift (\<lambda>_. coerce_loop_value template current)) (\<lambda>v. write_lvalue I (LName control) v)"

definition loop_done :: "i64 \<Rightarrow> i64 \<Rightarrow> i64 \<Rightarrow> bool" where
  "loop_done step end_i current \<longleftrightarrow>
     0 < sint step \<and> sint end_i < sint current \<or> sint step < 0 \<and> sint current < sint end_i"

fun for_loop ::
    "nat \<Rightarrow> interp \<Rightarrow> rstr \<Rightarrow> rvalue \<Rightarrow> i64 \<Rightarrow> i64 \<Rightarrow> stmt list \<Rightarrow> i64 \<Rightarrow> stmt_result ev" where
  "for_loop 0 I control template end_i step body current = ediverge"
| "for_loop (Suc fuel) I control template end_i step body current =
     ebind check_execution_budget (\<lambda>_.
       if loop_done step end_i current then eret RContinue
       else
         ebind (loop_body I body) (after_body
           (let current = current + step in
            ebind (write_control I control template current) (\<lambda>_.
              for_loop fuel I control template end_i step body current))))"

section \<open>Statements\<close>

fun elsif_chain :: "interp \<Rightarrow> (expr \<times> stmt list) list \<Rightarrow> stmt list \<Rightarrow> stmt_result ev" where
  "elsif_chain I [] else_block = exec_block I else_block"
| "elsif_chain I ((cond, block) # rest) else_block =
     ebind (eval_bool I cond) (\<lambda>b.
       if b then exec_block I block else elsif_chain I rest else_block)"

definition label_matches :: "i64 \<Rightarrow> case_label \<Rightarrow> bool" where
  "label_matches selector label =
     (case label of
        CaseSingle value \<Rightarrow> value = selector
      | CaseRange lower upper \<Rightarrow> sint lower \<le> sint selector \<and> sint selector \<le> sint upper)"

definition case_selector :: "rvalue \<Rightarrow> runtime_error + i64" where
  "case_selector value =
     (case value of
        VSInt v \<Rightarrow> Inr (scast v)
      | VInt v \<Rightarrow> Inr (scast v)
      | VDInt v \<Rightarrow> Inr (scast v)
      | VLInt v \<Rightarrow> Inr v
      | _ \<Rightarrow> Inl CaseSelectorType)"

definition select_branch ::
    "i64 \<Rightarrow> (case_label list \<times> stmt list) list \<Rightarrow> stmt list \<Rightarrow> stmt list" where
  "select_branch selector branches else_block =
     (case find (\<lambda>(labels, _). list_ex (label_matches selector) labels) branches of
        Some (_, block) \<Rightarrow> block
      | None \<Rightarrow> else_block)"

definition set_return_value :: "rvalue \<Rightarrow> unit ev" where
  "set_return_value value =
     estorage (\<lambda>s. ((), update_current_frame (\<lambda>fr. fr\<lparr>lf_return_value := Some value\<rparr>) s))"

definition exec_assign :: "interp \<Rightarrow> lvalue \<Rightarrow> expr \<Rightarrow> stmt_result ev" where
  "exec_assign I target e =
     ebind (ip_expr I e) (\<lambda>value.
     ebind (write_lvalue I target value) (\<lambda>_.
     ebind (eget cx_return_name) (\<lambda>return_name.
       if return_name = Some (lvalue_name target) then
         ebind (read_lvalue I target) (\<lambda>value.
         ebind (set_return_value value) (\<lambda>_. eret RContinue))
       else eret RContinue)))"

definition exec_assign_attempt :: "interp \<Rightarrow> lvalue \<Rightarrow> expr \<Rightarrow> stmt_result ev" where
  "exec_assign_attempt I target e =
     ebind (ip_expr I e) (\<lambda>value.
     ebind (read_lvalue I target) (\<lambda>target_value.
       case target_value of
         VReference _ \<Rightarrow>
           ebind (write_lvalue I target
             (case value of VReference _ \<Rightarrow> value | _ \<Rightarrow> VReference None)) (\<lambda>_. eret RContinue)
       | _ \<Rightarrow> efail TypeMismatch))"

definition exec_for ::
    "interp \<Rightarrow> rstr \<Rightarrow> expr \<Rightarrow> expr \<Rightarrow> expr \<Rightarrow> stmt list \<Rightarrow> stmt_result ev" where
  "exec_for I control start end_e step body =
     ebind (ip_expr I start) (\<lambda>start_value.
     ebind (ip_expr I end_e) (\<lambda>end_value.
     ebind (ip_expr I step) (\<lambda>step_value.
     ebind (elift (\<lambda>_. int_value start_value)) (\<lambda>start_i.
     ebind (elift (\<lambda>_. int_value end_value)) (\<lambda>end_i.
     ebind (elift (\<lambda>_. int_value step_value)) (\<lambda>step_i.
       if step_i = 0 then efail ForStepZero
       else
         ebind (read_lvalue I (LName control)) (\<lambda>template.
           if is_unsigned_int template \<and> sint step_i < 0 then efail TypeMismatch
           else
             ebind (write_control I control template start_i) (\<lambda>_.
               for_loop (ip_fuel I) I control template end_i step_i body start_i))))))))"

definition loop_control :: "stmt_result \<Rightarrow> stmt_result ev" where
  "loop_control result =
     ebind (eget cx_loop_depth) (\<lambda>depth. if depth = 0 then efail InvalidControlFlow else eret result)"

definition exec_stmt :: "interp \<Rightarrow> stmt \<Rightarrow> stmt_result ev" where
  "exec_stmt I s =
     ebind check_execution_budget (\<lambda>_.
       case s of
         SAssign target e \<Rightarrow> exec_assign I target e
       | SAssignAttempt target e \<Rightarrow> exec_assign_attempt I target e
       | SExpr e \<Rightarrow> ebind (ip_expr I e) (\<lambda>_. eret RContinue)
       | SIf cond then_block else_if else_block \<Rightarrow>
           elsif_chain I ((cond, then_block) # else_if) else_block
       | SCase selector branches else_block \<Rightarrow>
           ebind (ip_expr I selector) (\<lambda>value.
           ebind (elift (\<lambda>_. case_selector value)) (\<lambda>sel.
             exec_block I (select_branch sel branches else_block)))
       | SFor control start end_e step body \<Rightarrow> exec_for I control start end_e step body
       | SWhile cond body \<Rightarrow> while_loop (ip_fuel I) I cond body
       | SRepeat body until \<Rightarrow> repeat_loop (ip_fuel I) I body until
       | SLabel _ inner \<Rightarrow>
           (case inner of Some inner \<Rightarrow> ip_stmt I inner | None \<Rightarrow> eret RContinue)
       | SJmp target \<Rightarrow> eret (RJump target)
       | SReturn e \<Rightarrow>
           (case e of
              Some e \<Rightarrow> ebind (ip_expr I e) (\<lambda>v. eret (RReturn (Some v)))
            | None \<Rightarrow> eret (RReturn None))
       | SExit \<Rightarrow> loop_control RExit
       | SContinue \<Rightarrow> loop_control RLoopContinue)"

section \<open>Instances\<close>

definition set_instance_value_ev :: "instance_id \<Rightarrow> rstr \<Rightarrow> rvalue \<Rightarrow> unit ev" where
  "set_instance_value_ev i name value =
     ebind (estorage (set_instance_var i name value)) (\<lambda>_. eret ())"

definition set_parent :: "instance_id \<Rightarrow> instance_id option \<Rightarrow> unit ev" where
  "set_parent i parent =
     (case parent of
        None \<Rightarrow> eret ()
      | Some _ \<Rightarrow>
          estorage (\<lambda>s. ((), s\<lparr>vs_instances := (vs_instances s)(i :=
            map_option (\<lambda>inst. inst\<lparr>in_parent := parent\<rparr>) (vs_instances s i))\<rparr>)))"

text \<open>Initializers are evaluated in a context of their own: only the storage is shared.\<close>

definition instance_ctx :: "instance_id \<Rightarrow> rstr list \<Rightarrow> eval_ctx \<Rightarrow> eval_ctx" where
  "instance_ctx i namespaces c =
     c\<lparr>cx_now := 0, cx_call_depth := 0, cx_using := Some namespaces, cx_access := None,
       cx_current_instance := Some i, cx_return_name := None, cx_loop_depth := 0,
       cx_deadline := None\<rparr>"

definition with_instance_ctx :: "instance_id \<Rightarrow> rstr list \<Rightarrow> 'a ev \<Rightarrow> 'a ev" where
  "with_instance_ctx i namespaces m =
     (\<lambda>c. case m (instance_ctx i namespaces c) of
        None \<Rightarrow> None
      | Some (r, c') \<Rightarrow> Some (r, c\<lparr>cx_storage := cx_storage c'\<rparr>))"

text \<open>The default of a variable: an instance of its own for a function block or a class.\<close>

definition init_var_default :: "interp \<Rightarrow> instance_id \<Rightarrow> var_def \<Rightarrow> unit ev" where
  "init_var_default I i v =
     ebind (fb_type_name I (vd_type_id v)) (\<lambda>fb_type.
       case fb_type of
         Some fb_type \<Rightarrow>
           ebind (lookup_fb fb_type) (\<lambda>d.
           ebind (eok_or d (UndefinedFunctionBlock fb_type)) (\<lambda>d.
           ebind (ip_create_fb I d) (\<lambda>nested.
             set_instance_value_ev i (vd_name v) (VInstance nested))))
       | None \<Rightarrow>
           ebind (cls_type_name I (vd_type_id v)) (\<lambda>cls.
             case cls of
               Some cls \<Rightarrow>
                 ebind (lookup_class cls) (\<lambda>d.
                 ebind (eok_or d TypeMismatch) (\<lambda>d.
                 ebind (ip_create_class I d) (\<lambda>nested.
                   set_instance_value_ev i (vd_name v) (VInstance nested))))
             | None \<Rightarrow>
                 if vd_external v then eret ()
                 else
                   ebind (default_or_null I (vd_type_id v)) (set_instance_value_ev i (vd_name v))))"

definition init_var_initializer :: "interp \<Rightarrow> instance_id \<Rightarrow> var_def \<Rightarrow> unit ev" where
  "init_var_initializer I i v =
     ebind (fb_type_name I (vd_type_id v)) (\<lambda>fb_type.
     ebind (cls_type_name I (vd_type_id v)) (\<lambda>cls.
       if fb_type \<noteq> None \<or> cls \<noteq> None
       then (if vd_initializer v \<noteq> None then efail TypeMismatch else eret ())
       else
         (case vd_initializer v of
            None \<Rightarrow> eret ()
          | Some e \<Rightarrow>
              if vd_external v then eret ()
              else
                ebind (ip_expr I e) (\<lambda>value.
                ebind (elift (\<lambda>_.
                  case coerce_value_to_type value (vd_type_id v) of
                    Inl _ \<Rightarrow> Inl TypeMismatch
                  | Inr w \<Rightarrow> Inr w)) (\<lambda>value.
                  set_instance_value_ev i (vd_name v) value)))))"

definition init_var_defaults ::
    "interp \<Rightarrow> instance_id \<Rightarrow> var_def list \<Rightarrow> rstr list \<Rightarrow> unit ev" where
  "init_var_defaults I i vars namespaces =
     ebind (eeach (init_var_default I i) vars) (\<lambda>_.
       with_instance_ctx i namespaces (eeach (init_var_initializer I i) vars))"

definition init_param_defaults :: "interp \<Rightarrow> instance_id \<Rightarrow> eval_param list \<Rightarrow> unit ev" where
  "init_param_defaults I i params =
     eeach (\<lambda>p. ebind (default_or_null I (pr_type_id p)) (set_instance_value_ev i (pr_name p))) params"

definition create_class_instance :: "interp \<Rightarrow> class_def \<Rightarrow> instance_id ev" where
  "create_class_instance I d =
     ebind
       (case cd_base d of
          None \<Rightarrow> eret None
        | Some base \<Rightarrow>
            ebind (lookup_class base) (\<lambda>b.
            ebind (eok_or b TypeMismatch) (\<lambda>b.
            ebind (ip_create_class I b) (\<lambda>p. eret (Some p)))))
       (\<lambda>parent.
     ebind (estorage (create_instance (cd_name d))) (\<lambda>i.
     ebind (set_parent i parent) (\<lambda>_.
     ebind (init_var_defaults I i (cd_vars d) (cd_using d)) (\<lambda>_. eret i))))"

definition create_fb_instance :: "interp \<Rightarrow> function_block_def \<Rightarrow> instance_id ev" where
  "create_fb_instance I d =
     ebind
       (case fb_base d of
          None \<Rightarrow> eret None
        | Some (BaseFunctionBlock base) \<Rightarrow>
            ebind (lookup_fb base) (\<lambda>b.
            ebind (eok_or b TypeMismatch) (\<lambda>b.
            ebind (ip_create_fb I b) (\<lambda>p. eret (Some p))))
        | Some (BaseClass base) \<Rightarrow>
            ebind (lookup_class base) (\<lambda>b.
            ebind (eok_or b TypeMismatch) (\<lambda>b.
            ebind (ip_create_class I b) (\<lambda>p. eret (Some p)))))
       (\<lambda>parent.
     ebind (estorage (create_instance (fb_name d))) (\<lambda>i.
     ebind (set_parent i parent) (\<lambda>_.
     ebind (init_param_defaults I i (fb_params d)) (\<lambda>_.
     ebind (init_var_defaults I i (fb_vars d) (fb_using d)) (\<lambda>_. eret i)))))"

definition create_program_instance :: "interp \<Rightarrow> program_def \<Rightarrow> instance_id ev" where
  "create_program_instance I d =
     ebind (estorage (create_instance (pg_name d))) (\<lambda>i.
     ebind (init_var_defaults I i (pg_vars d) (pg_using d)) (\<lambda>_. eret i))"

section \<open>The interpreter\<close>

definition interp_step :: "interp \<Rightarrow> interp" where
  "interp_step I =
     \<lparr>ip_fuel = Suc (ip_fuel I), ip_expr = eval_expr I, ip_stmt = exec_stmt I,
      ip_create_fb = create_fb_instance I, ip_create_class = create_class_instance I\<rparr>"

primrec interp_at :: "nat \<Rightarrow> interp" where
  "interp_at 0 =
     \<lparr>ip_fuel = 0, ip_expr = \<lambda>_. ediverge, ip_stmt = \<lambda>_. ediverge, ip_create_fb = \<lambda>_. ediverge,
      ip_create_class = \<lambda>_. ediverge\<rparr>"
| "interp_at (Suc n) = interp_step (interp_at n)"

lemma interp_at_simps [simp]:
  "ip_fuel (interp_at n) = n"
  "ip_expr (interp_at (Suc n)) = eval_expr (interp_at n)"
  "ip_stmt (interp_at (Suc n)) = exec_stmt (interp_at n)"
  "ip_create_fb (interp_at (Suc n)) = create_fb_instance (interp_at n)"
  "ip_create_class (interp_at (Suc n)) = create_class_instance (interp_at n)"
proof -
  show "ip_fuel (interp_at n) = n"
    by (induction n) (simp_all add: interp_step_def)
qed (simp_all add: interp_step_def)

end
