(* ===== verification/Eval_Frames.thy ===== *)
theory Eval_Frames
  imports Statements
begin

text \<open>
  What an operation of the interpreter leaves of its context. \<open>runs P m Q E\<close> is a triple: from a
  context with \<open>P\<close> the operation \<open>m\<close> ends in \<open>Q\<close>, or with an error in \<open>E\<close>, or it does not
  return. \<open>keeps m\<close> says that \<open>m\<close> gives back the stack of frames and the settings of its context;
  the locale \<open>keeping\<close> proves it for every function of the interpreter, given that the recursive
  calls do so.
\<close>

named_theorems keeps_intros \<open>composition rules for \<open>keeps\<close>\<close>

section \<open>Triples\<close>

definition runs ::
    "(eval_ctx \<Rightarrow> bool) \<Rightarrow> 'a ev \<Rightarrow> ('a \<Rightarrow> eval_ctx \<Rightarrow> bool) \<Rightarrow> (eval_ctx \<Rightarrow> bool) \<Rightarrow> bool" where
  "runs P m Q E \<longleftrightarrow>
     (\<forall>c. P c \<longrightarrow> (case m c of None \<Rightarrow> True | Some (Inl _, c') \<Rightarrow> E c' | Some (Inr x, c') \<Rightarrow> Q x c'))"

lemma runs_bind:
  assumes "runs P m Q E" and "\<And>x. runs (Q x) (f x) R E"
  shows "runs P (ebind m f) R E"
  using assms by (fastforce simp: runs_def ebind_def split: option.splits sum.splits)

lemma runs_modify: "(\<And>c. P c \<Longrightarrow> Q () (g c)) \<Longrightarrow> runs P (emodify g) Q E"
  by (simp add: runs_def)

lemma runs_ret: "(\<And>c. P c \<Longrightarrow> Q x c) \<Longrightarrow> runs P (eret x) Q E"
  by (simp add: runs_def)

lemma runs_fail: "(\<And>c. P c \<Longrightarrow> E c) \<Longrightarrow> runs P (efail e) Q E"
  by (simp add: runs_def)

lemma runs_get: "(\<And>c. P c \<Longrightarrow> Q (g c) c) \<Longrightarrow> runs P (eget g) Q E"
  by (simp add: runs_def)

lemma runs_on_error:
  assumes "runs P m Q E'" and "\<And>c. E' c \<Longrightarrow> E (cleanup c)"
  shows "runs P (eon_error cleanup m) Q E"
  using assms by (fastforce simp: runs_def eon_error_def split: option.splits sum.splits)

lemma runs_weaken:
  assumes "runs P m Q E" and "\<And>c. P' c \<Longrightarrow> P c" and "\<And>x c. Q x c \<Longrightarrow> Q' x c" and "\<And>c. E c \<Longrightarrow> E' c"
  shows "runs P' m Q' E'"
  using assms unfolding runs_def by (fastforce split: option.splits sum.splits)

section \<open>What is kept\<close>

text \<open>A frame without its variables; the context without storage and counter.\<close>

definition frame_view :: "local_frame \<Rightarrow> frame_id \<times> rstr \<times> instance_id option" where
  "frame_view fr = (lf_id fr, lf_owner fr, lf_instance_id fr)"

definition frames_of :: "eval_ctx \<Rightarrow> (frame_id \<times> rstr \<times> instance_id option) list" where
  "frames_of c = map frame_view (vs_frames (cx_storage c))"

definition retained :: "eval_ctx \<Rightarrow> var_map" where
  "retained c = vs_retain (cx_storage c)"

definition settings :: "eval_ctx \<Rightarrow> eval_ctx" where
  "settings c = c\<lparr>cx_storage := storage_new, cx_checks := 0\<rparr>"

definition steady :: "eval_ctx \<Rightarrow> eval_ctx \<Rightarrow> bool" where
  "steady c0 c \<longleftrightarrow>
     frames_of c = frames_of c0 \<and> settings c = settings c0 \<and> retained c = retained c0 \<and>
     cx_checks c0 \<le> cx_checks c"

text \<open>After an error frames may be left on top of the old ones, never fewer.\<close>

definition left_frames :: "eval_ctx \<Rightarrow> eval_ctx \<Rightarrow> bool" where
  "left_frames c0 c \<longleftrightarrow>
     (\<exists>fs. frames_of c = frames_of c0 @ fs) \<and> retained c = retained c0 \<and> cx_checks c0 \<le> cx_checks c"

definition keeps :: "'a ev \<Rightarrow> bool" where
  "keeps m \<longleftrightarrow> (\<forall>c0. runs ((=) c0) m (\<lambda>_. steady c0) (left_frames c0))"

lemma steady_refl [simp]: "steady c c" "left_frames c c"
  by (simp_all add: steady_def left_frames_def)

lemma steady_trans: "steady c0 c1 \<Longrightarrow> steady c1 c2 \<Longrightarrow> steady c0 c2"
  by (simp add: steady_def)

lemma steady_left: "steady c0 c1 \<Longrightarrow> left_frames c1 c2 \<Longrightarrow> left_frames c0 c2"
  by (auto simp: steady_def left_frames_def)

lemma keeps_steady: "keeps m \<Longrightarrow> runs (steady c0) m (\<lambda>_. steady c0) (left_frames c0)"
  unfolding keeps_def runs_def
  by (fastforce intro: steady_trans steady_left split: option.splits sum.splits)

lemma keepsD_ok: "keeps m \<Longrightarrow> m c = Some (Inr x, c') \<Longrightarrow> steady c c'"
  unfolding keeps_def runs_def by (erule allE [of _ c])+ simp

lemma keepsD_error: "keeps m \<Longrightarrow> m c = Some (Inl e, c') \<Longrightarrow> left_frames c c'"
  unfolding keeps_def runs_def by (erule allE [of _ c])+ simp

lemma keepsI:
  assumes "\<And>c x c'. m c = Some (Inr x, c') \<Longrightarrow> steady c c'"
    and "\<And>c e c'. m c = Some (Inl e, c') \<Longrightarrow> left_frames c c'"
  shows "keeps m"
  using assms by (fastforce simp: keeps_def runs_def split: option.splits sum.splits)

lemma keeps_bind [keeps_intros]:
  assumes "keeps m" and "\<And>x. keeps (f x)"
  shows "keeps (ebind m f)"
  unfolding keeps_def
proof
  fix c0
  have "runs ((=) c0) m (\<lambda>_. steady c0) (left_frames c0)"
    using assms(1) by (simp add: keeps_def)
  then show "runs ((=) c0) (ebind m f) (\<lambda>_. steady c0) (left_frames c0)"
    by (rule runs_bind) (rule keeps_steady [OF assms(2)])
qed

lemma keeps_basic [keeps_intros]:
  "keeps (eret x)" "keeps (efail e)" "keeps ediverge" "keeps (eget g)" "keeps (elift k)"
  by (auto simp: keeps_def runs_def split: sum.splits)

lemma keeps_fuel [keeps_intros]: "keeps (efuel g)"
  by (auto simp: keeps_def runs_def efuel_def split: option.splits)

lemma keeps_guard [keeps_intros]: "keeps (eguard b e)"
  by (simp add: eguard_def keeps_intros)

lemma keeps_ok_or [keeps_intros]: "keeps (eok_or x e)"
  by (simp add: eok_or_def keeps_intros split: option.split)

lemma keeps_map [keeps_intros]: "(\<And>x. x \<in> set xs \<Longrightarrow> keeps (f x)) \<Longrightarrow> keeps (emap f xs)"
  by (induction xs) (auto intro!: keeps_intros)

lemma keeps_each [keeps_intros]: "(\<And>x. x \<in> set xs \<Longrightarrow> keeps (f x)) \<Longrightarrow> keeps (eeach f xs)"
  by (induction xs) (auto intro!: keeps_intros)

lemma keeps_budget [keeps_intros]: "keeps check_execution_budget"
  by (auto simp: keeps_def runs_def check_execution_budget_def Let_def steady_def left_frames_def
      frames_of_def settings_def retained_def split: option.splits)

lemmas keeps_case [keeps_intros] =
  option.split [of keeps, THEN iffD2] prod.split [of keeps, THEN iffD2]
  list.split [of keeps, THEN iffD2] sum.split [of keeps, THEN iffD2] if_split [of keeps, THEN iffD2]

text \<open>A change of the storage that leaves frames and retained variables as they are.\<close>

definition calm :: "(variable_storage \<Rightarrow> 'a \<times> variable_storage) \<Rightarrow> bool" where
  "calm f \<longleftrightarrow> (\<forall>s. map frame_view (vs_frames (snd (f s))) = map frame_view (vs_frames s) \<and>
     vs_retain (snd (f s)) = vs_retain s)"

lemma calmD:
  assumes "calm f" and "f s = (x, s')"
  shows "map frame_view (vs_frames s') = map frame_view (vs_frames s) \<and> vs_retain s' = vs_retain s"
  using assms unfolding calm_def by (metis snd_conv)

lemma keeps_storage [keeps_intros]: "calm f \<Longrightarrow> keeps (estorage f)"
  by (auto simp: keeps_def runs_def estorage_def steady_def frames_of_def settings_def retained_def
      dest: calmD split: prod.splits)

lemma frame_view_update [simp]:
  "frame_view (fr\<lparr>lf_variables := m\<rparr>) = frame_view fr"
  "frame_view (fr\<lparr>lf_return_value := v\<rparr>) = frame_view fr"
  by (simp_all add: frame_view_def)

lemma map_map_last: "(\<And>x. g (f x) = g x) \<Longrightarrow> map g (map_last f xs) = map g xs"
  by (cases xs rule: rev_cases) (simp_all add: map_last_def)

lemma map_update_first: "(\<And>x. g (f x) = g x) \<Longrightarrow> map g (update_first P f xs) = map g xs"
  by (induction xs) simp_all

lemma calm_intros [keeps_intros]:
  "calm (set_local name v)"
  "calm (\<lambda>s. ((), set_global name v s))"
  "calm (\<lambda>s. ((), update_current_frame (\<lambda>fr. fr\<lparr>lf_return_value := x\<rparr>) s))"
  "calm (set_instance_var i name v)"
  "calm (create_instance t)"
  "calm (\<lambda>s. ((), s\<lparr>vs_instances := h s\<rparr>))"
  by (auto simp: calm_def set_local_def update_current_frame_def set_global_def map_map_last
      set_instance_var_def create_instance_def Let_def split: option.splits)

lemma calm_write_by_ref [keeps_intros]: "calm (write_by_ref r v)"
  by (auto simp: calm_def write_by_ref_def set_root_map_def map_update_first
      split: option.splits prod.splits memory_location.splits)

section \<open>Names and targets\<close>

lemma keeps_write_ref [keeps_intros]: "keeps (write_ref r v)"
  by (simp add: write_ref_def keeps_intros)

lemma keeps_read_ref [keeps_intros]: "keeps (read_ref r)"
  by (simp add: read_ref_def keeps_intros)

lemma keeps_instance_ref [keeps_intros]: "keeps (instance_ref fuel name)" "keeps (instance_value fuel name)"
  by (simp_all add: instance_ref_def instance_value_def keeps_intros)

lemma keeps_access_binding [keeps_intros]:
  "keeps (write_access_binding b v)" "keeps (read_access_binding b)"
  by (auto simp: write_access_binding_def read_access_binding_def intro!: keeps_intros)

lemma keeps_write_name [keeps_intros]: "keeps (write_name fuel name v)"
  unfolding write_name_def by (intro keeps_intros allI impI conjI)

lemma keeps_read_name [keeps_intros]: "keeps (read_name fuel name)"
  unfolding read_name_def by (intro keeps_intros allI impI conjI)

lemma keeps_resolve_reference [keeps_intros]: "keeps (resolve_reference fuel name)"
  unfolding resolve_reference_def by (intro keeps_intros allI impI conjI)

lemmas keeps_rvalue [keeps_intros] = rvalue.split [of keeps, THEN iffD2]

lemma keeps_fields [keeps_intros]:
  "keeps (read_field fuel v field)" "keeps (write_instance_field fuel i field w)"
  "keeps (write_field fuel v field w)"
  unfolding read_field_def write_instance_field_def write_field_def
  by (intro keeps_intros allI impI conjI)+

end
