(* ===== verification/Eval_Keeping.thy ===== *)
theory Eval_Keeping
  imports Eval_Frames
begin

text \<open>
  The functions of the interpreter give back frames and settings, if the recursive calls do: the
  locale \<open>keeping\<close> is that contract of the recursive calls, and \<open>interp_at\<close> meets it at every
  level of nesting.
\<close>

section \<open>Calls as brackets\<close>

text \<open>
  Inside a call there is one frame more, and undoing the call's changes of the settings gives the
  settings of the caller.
\<close>

definition inside :: "eval_ctx \<Rightarrow> (eval_ctx \<Rightarrow> eval_ctx) \<Rightarrow> eval_ctx \<Rightarrow> bool" where
  "inside c0 undo c \<longleftrightarrow>
     (\<exists>fv. frames_of c = frames_of c0 @ [fv]) \<and> settings (undo c) = settings c0 \<and>
     retained c = retained c0 \<and> cx_checks c0 \<le> cx_checks c"

definition undoes :: "(eval_ctx \<Rightarrow> eval_ctx) \<Rightarrow> bool" where
  "undoes undo \<longleftrightarrow>
     (\<forall>c c'. settings c' = settings c \<longrightarrow> settings (undo c') = settings (undo c)) \<and>
     (\<forall>c. cx_storage (undo c) = cx_storage c \<and> cx_checks (undo c) = cx_checks c)"

lemma undoesI:
  assumes "\<And>c. settings (undo c) = undo (settings c)"
    and "\<And>c. cx_storage (undo c) = cx_storage c" and "\<And>c. cx_checks (undo c) = cx_checks c"
  shows "undoes undo"
  using assms by (simp add: undoes_def)

lemma undoes_restore:
  "undoes (restore_function c0)" "undoes (restore_method c0)" "undoes (restore_block c0)"
  "undoes (restore_depth c0)"
  by (intro undoesI; simp add: settings_def restore_function_def restore_method_def
      restore_block_def restore_depth_def)+

lemma undoesD:
  assumes "undoes undo"
  shows "settings c' = settings c \<Longrightarrow> settings (undo c') = settings (undo c)"
    and "cx_storage (undo c) = cx_storage c" and "cx_checks (undo c) = cx_checks c"
  using assms unfolding undoes_def by blast+

lemma undoes_comp: "undoes f \<Longrightarrow> undoes g \<Longrightarrow> undoes (f \<circ> g)"
  unfolding undoes_def comp_def by metis

lemma view_pop: "frames_of (pop_ctx c) = butlast (frames_of c)" "settings (pop_ctx c) = settings c"
  "retained (pop_ctx c) = retained c" "cx_checks (pop_ctx c) = cx_checks c"
  by (simp_all add: frames_of_def pop_ctx_def pop_frame_def settings_def retained_def map_butlast)

lemma view_undo:
  assumes "undoes undo"
  shows "frames_of (undo c) = frames_of c" "retained (undo c) = retained c"
    "cx_checks (undo c) = cx_checks c"
  by (simp_all only: undoesD [OF assms] frames_of_def retained_def)

lemma left_inside: "inside c0 undo c \<Longrightarrow> left_frames c0 c"
  by (auto simp: inside_def left_frames_def)

lemma inside_steady:
  assumes "undoes undo" and "inside c0 undo c" and "steady c c'"
  shows "inside c0 undo c'"
proof -
  have "settings (undo c') = settings (undo c)"
    using assms(3) undoesD(1) [OF assms(1)] unfolding steady_def by blast
  then show ?thesis
    using assms(2,3) unfolding inside_def steady_def by simp
qed

text \<open>An error inside: the call's own frame may stay, and all above it.\<close>

definition failed_inside :: "eval_ctx \<Rightarrow> eval_ctx \<Rightarrow> bool" where
  "failed_inside c0 c \<longleftrightarrow>
     (\<exists>fv fs. frames_of c = frames_of c0 @ fv # fs) \<and> retained c = retained c0 \<and>
     cx_checks c0 \<le> cx_checks c"

lemma inside_left: "inside c0 undo c \<Longrightarrow> left_frames c c' \<Longrightarrow> failed_inside c0 c'"
  by (fastforce simp: inside_def left_frames_def failed_inside_def)

lemma inside_failed: "inside c0 undo c \<Longrightarrow> failed_inside c0 c"
  by (auto simp: inside_def failed_inside_def)

lemma failed_left: "failed_inside c0 c \<Longrightarrow> left_frames c0 c"
  by (auto simp: failed_inside_def left_frames_def)

lemma keeps_inside:
  assumes "undoes undo" and "keeps m"
  shows "runs (inside c0 undo) m (\<lambda>_. inside c0 undo) (failed_inside c0)"
  using assms unfolding runs_def
  by (auto split: option.splits sum.splits
      intro: inside_steady inside_left dest: keepsD_ok keepsD_error)

lemma failed_pop:
  assumes "failed_inside c0 c"
  shows "left_frames c0 (pop_ctx c)"
proof -
  obtain fv fs where "frames_of c = frames_of c0 @ fv # fs"
    using assms by (auto simp: failed_inside_def)
  then have "frames_of (pop_ctx c) = frames_of c0 @ butlast (fv # fs)"
    by (simp add: view_pop butlast_append)
  then show ?thesis
    using assms by (auto simp: left_frames_def failed_inside_def view_pop)
qed

lemma left_undo: "undoes undo \<Longrightarrow> left_frames c0 c \<Longrightarrow> left_frames c0 (undo c)"
  by (simp add: left_frames_def view_undo)

text \<open>The same outside, with the settings not yet undone.\<close>

definition outside :: "eval_ctx \<Rightarrow> (eval_ctx \<Rightarrow> eval_ctx) \<Rightarrow> eval_ctx \<Rightarrow> bool" where
  "outside c0 undo c \<longleftrightarrow>
     frames_of c = frames_of c0 \<and> settings (undo c) = settings c0 \<and> retained c = retained c0 \<and>
     cx_checks c0 \<le> cx_checks c"

lemma outside_steady:
  assumes "undoes undo" and "outside c0 undo c" and "steady c c'"
  shows "outside c0 undo c'"
proof -
  have "settings (undo c') = settings (undo c)"
    using assms(3) undoesD(1) [OF assms(1)] unfolding steady_def by blast
  then show ?thesis
    using assms(2,3) unfolding outside_def steady_def by simp
qed

lemma outside_left: "outside c0 undo c \<Longrightarrow> left_frames c c' \<Longrightarrow> left_frames c0 c'"
  by (auto simp: outside_def left_frames_def)

lemma keeps_outside:
  assumes "undoes undo" and "keeps m"
  shows "runs (outside c0 undo) m (\<lambda>_. outside c0 undo) (left_frames c0)"
  using assms unfolding runs_def
  by (auto split: option.splits sum.splits
      intro: outside_steady outside_left dest: keepsD_ok keepsD_error)

lemma outside_undo:
  assumes "undoes undo" and "outside c0 undo c"
  shows "steady c0 (undo c)"
  using assms by (simp add: outside_def steady_def view_undo)

text \<open>What a kind of call puts back: \<open>undo\<close> of the caller's own context is no change.\<close>

definition restores :: "eval_ctx \<Rightarrow> (eval_ctx \<Rightarrow> eval_ctx) \<Rightarrow> bool" where
  "restores c0 undo \<longleftrightarrow>
     undoes undo \<and> undo c0 = c0 \<and> (\<forall>c. cx_call_depth (undo c) = cx_call_depth c) \<and>
     (\<forall>c. undo (restore_depth c0 c) = restore_depth c0 (undo c))"

lemma restores_restore:
  "restores c0 (restore_function c0)" "restores c0 (restore_method c0)"
  "restores c0 (restore_block c0)"
  unfolding restores_def
  by (simp_all add: undoes_restore) (simp_all add: restore_function_def restore_method_def
      restore_block_def restore_depth_def)

lemma steady_outside:
  assumes "restores c0 undo" and "steady c0 c"
  shows "outside c0 undo c"
proof -
  have "settings (undo c) = settings (undo c0)"
    using assms undoesD(1) unfolding restores_def steady_def by blast
  then show ?thesis
    using assms unfolding restores_def outside_def steady_def by simp
qed

lemma inside_depth:
  assumes "restores c0 undo" and "inside c0 undo c"
  shows "cx_call_depth c = cx_call_depth c0"
proof -
  have "cx_call_depth (settings (undo c)) = cx_call_depth (settings c0)"
    using assms(2) unfolding inside_def by simp
  then show ?thesis
    using assms(1) by (simp add: settings_def restores_def)
qed

text \<open>One level deeper, both the call's settings and the depth are to be undone.\<close>

lemma enter_inside:
  assumes "restores c0 undo" and "inside c0 undo c"
  shows "inside c0 (restore_depth c0 \<circ> undo) (c\<lparr>cx_call_depth := d\<rparr>)"
proof -
  have "undo (restore_depth c0 (c\<lparr>cx_call_depth := d\<rparr>)) = undo (restore_depth c0 c)"
    by (simp add: restore_depth_def)
  then have "restore_depth c0 (undo (c\<lparr>cx_call_depth := d\<rparr>)) = restore_depth c0 (undo c)"
    using assms(1) by (simp add: restores_def)
  moreover have "restore_depth c0 (undo c) = undo c"
    using assms inside_depth [OF assms] by (simp add: restore_depth_def restores_def)
  ultimately have "settings ((restore_depth c0 \<circ> undo) (c\<lparr>cx_call_depth := d\<rparr>)) = settings c0"
    using assms(2) by (simp add: inside_def)
  then show ?thesis
    using assms(2) by (simp add: inside_def frames_of_def retained_def)
qed

lemma undoes_deep: "restores c0 undo \<Longrightarrow> undoes (restore_depth c0 \<circ> undo)"
  by (simp add: restores_def undoes_comp undoes_restore)

lemma failed_undo: "undoes undo \<Longrightarrow> failed_inside c0 c \<Longrightarrow> failed_inside c0 (undo c)"
  by (simp add: failed_inside_def view_undo)

lemma runs_leave:
  assumes "restores c0 undo" and "keeps m"
  shows "runs (inside c0 (restore_depth c0 \<circ> undo))
    (eon_error (undo \<circ> pop_ctx \<circ> restore_depth c0) m)
    (\<lambda>_. inside c0 (restore_depth c0 \<circ> undo)) (left_frames c0)"
proof (rule runs_on_error [OF keeps_inside [OF undoes_deep [OF assms(1)] assms(2)]])
  show "left_frames c0 ((undo \<circ> pop_ctx \<circ> restore_depth c0) c)" if "failed_inside c0 c" for c
    using assms(1) that
    by (simp add: restores_def left_undo failed_pop failed_undo undoes_restore)
qed

text \<open>Popping the frame and undoing the settings leads back outside.\<close>

lemma pop_inside:
  assumes "undoes undo" and "undoes outer" and "inside c0 (outer \<circ> undo) c"
  shows "outside c0 outer (undo (pop_ctx c))"
proof -
  have "settings (outer (undo (pop_ctx c))) = settings (outer (undo c))"
    using assms undoesD(1) view_pop(2) by metis
  then show ?thesis
    using assms by (auto simp: inside_def outside_def view_undo view_pop)
qed

end
