(* ===== verification/Eval_Contract.thy ===== *)
theory Eval_Contract
  imports Eval_Keeping
begin

text \<open>
  The contract of the recursive calls as a locale, the lemmas of every function of the interpreter
  under it, and its interpretation at each depth of nesting.
\<close>

lemma runs_pre: "(\<And>c. P c \<Longrightarrow> runs ((=) c) m Q E) \<Longrightarrow> runs P m Q E"
  by (simp add: runs_def)

lemma keeps_ctx:
  assumes "\<And>c0. runs ((=) c0) (m c0) (\<lambda>_. steady c0) (left_frames c0)"
  shows "keeps (ebind (eget (\<lambda>c. c)) m)"
  using assms by (simp add: keeps_def runs_def)

lemmas keeps_syntax =
  expr.split [of keeps, THEN iffD2] lvalue.split [of keeps, THEN iffD2]
  stmt.split [of keeps, THEN iffD2] stmt_result.split [of keeps, THEN iffD2]
  size_of_target.split [of keeps, THEN iffD2] arg_value.split [of keeps, THEN iffD2]
  output_binding.split [of keeps, THEN iffD2] param_direction.split [of keeps, THEN iffD2]
  function_block_base.split [of keeps, THEN iffD2] std_params.split [of keeps, THEN iffD2]

lemmas kept = keeps_intros keeps_syntax allI impI conjI

section \<open>The standard blocks\<close>

text \<open>A standard block changes variables of instances only.\<close>

definition quiet :: "'a fb_exec \<Rightarrow> bool" where
  "quiet m \<longleftrightarrow> (\<forall>c. vs_frames (fx_storage (snd (m c))) = vs_frames (fx_storage c) \<and>
     vs_retain (fx_storage (snd (m c))) = vs_retain (fx_storage c))"

named_theorems quiet_intros \<open>composition rules for \<open>quiet\<close>\<close>

lemma quiet_basic [quiet_intros]: "quiet (xret x)" "quiet (xfail e)" "quiet (xlift g)"
  by (simp_all add: quiet_def exec_simps)

lemma quiet_bind [quiet_intros]: "quiet m \<Longrightarrow> (\<And>x. quiet (f x)) \<Longrightarrow> quiet (xbind m f)"
  by (simp add: quiet_def xbind_def split: prod.splits sum.splits) (metis snd_conv)

lemma quiet_set [quiet_intros]: "quiet (xmodify (inst_set i name v))"
  by (simp add: quiet_def exec_simps)

lemma quiet_init [quiet_intros]:
  "quiet (get_or_init_bool i name b)" "quiet (get_or_init_duration i name d)"
  by (auto simp: quiet_def exec_simps init_if_def split: option.split)

lemmas quiet_case [quiet_intros] =
  option.split [of quiet, THEN iffD2] prod.split [of quiet, THEN iffD2] if_split [of quiet, THEN iffD2]

lemmas quiet_defs = read_bool_def write_bool_def read_value_def read_value_or_null_def
  set_instance_value_def read_time_input_def read_time_value_def write_time_value_def
  set_internal_duration_def elapsed_since_def

lemma quiet_logic [quiet_intros]:
  "quiet (exec_rs i)" "quiet (exec_sr i)" "quiet (exec_r_trig i)" "quiet (exec_f_trig i)"
  unfolding exec_rs_def exec_sr_def exec_r_trig_def exec_f_trig_def quiet_defs Let_def
  by (intro quiet_intros allI impI conjI)+

lemma quiet_counters [quiet_intros]:
  "quiet (exec_ctu i)" "quiet (exec_ctd i)" "quiet (exec_ctud i)"
  unfolding exec_ctu_def exec_ctd_def exec_ctud_def quiet_defs Let_def
  by (intro quiet_intros allI impI conjI)+

lemma quiet_timers [quiet_intros]: "quiet (exec_ton i)" "quiet (exec_tof i)" "quiet (exec_tp i)"
  unfolding exec_ton_def exec_tof_def exec_tp_def quiet_defs Let_def
  by (intro quiet_intros allI impI conjI)+

lemma quiet_builtin: "quiet (execute_builtin i kind)"
  unfolding execute_builtin_def
  by (cases kind) (simp_all add: quiet_intros)

lemma keeps_builtin: "keeps (exec_builtin i kind)"
proof -
  have "vs_frames (fx_storage fx) = vs_frames (cx_storage c) \<and>
      vs_retain (fx_storage fx) = vs_retain (cx_storage c)"
    if "execute_builtin i kind \<lparr>fx_storage = cx_storage c, fx_now = cx_now c\<rparr> = (r, fx)" for r fx c
    using quiet_builtin [of i kind] that unfolding quiet_def
    by (metis fb_ctx.select_convs(1) snd_conv)
  then show ?thesis
    by (fastforce simp: keeps_def runs_def exec_builtin_def steady_def left_frames_def frames_of_def
        settings_def retained_def split: prod.splits sum.splits)
qed

section \<open>The contract\<close>

locale keeping =
  fixes I :: interp
  assumes expr_keeps: "keeps (ip_expr I e)"
    and stmt_keeps: "keeps (ip_stmt I s)"
    and create_fb_keeps: "keeps (ip_create_fb I d)"
    and create_class_keeps: "keeps (ip_create_class I k)"
begin

lemmas keeps_rec = expr_keeps stmt_keeps create_fb_keeps create_class_keeps

lemma keeps_indices: "keeps (eval_indices I es)"
  unfolding eval_indices_def by (intro kept keeps_rec)

lemma keeps_resolve_name: "keeps (resolve_name I name)"
  unfolding resolve_name_def by (intro kept)

lemma keeps_deref: "(\<And>r. keeps (f r)) \<Longrightarrow> keeps (deref f v)"
  unfolding deref_def by (intro kept)

lemma keeps_resolve_lvalue: "keeps (resolve_reference_for_lvalue I t)"
  unfolding resolve_reference_for_lvalue_def
  by (intro kept keeps_rec keeps_indices keeps_resolve_name keeps_deref)

lemma keeps_read_lvalue: "keeps (read_lvalue I t)"
  unfolding read_lvalue_def by (intro kept keeps_rec keeps_indices keeps_deref)

lemma keeps_write_lvalue: "keeps (write_lvalue I t v)"
  unfolding write_lvalue_def by (intro kept keeps_rec keeps_indices keeps_deref)

lemmas keeps_targets = keeps_rec keeps_indices keeps_resolve_lvalue keeps_read_lvalue
  keeps_write_lvalue keeps_deref

lemma keeps_arg: "keeps (read_arg_value I a)"
  unfolding read_arg_value_def by (intro kept keeps_targets)

lemma keeps_arg_name: "keeps (arg_name a)"
  unfolding arg_name_def by (intro kept)

lemma keeps_positional: "keeps (eval_positional_args I args)"
  unfolding eval_positional_args_def by (intro kept keeps_arg)

lemma keeps_fill_fixed: "keeps (fill_fixed I params args vs)"
proof (induction args arbitrary: vs)
  case Nil
  show ?case unfolding fill_fixed.simps by (intro kept)
next
  case (Cons a args)
  show ?case unfolding fill_fixed.simps by (intro kept keeps_arg keeps_arg_name Cons)
qed

lemma keeps_fill_variadic: "keeps (fill_variadic I fixed prefix start args vs variadic)"
proof (induction args arbitrary: vs variadic)
  case Nil
  show ?case unfolding fill_variadic.simps by (intro kept)
next
  case (Cons a args)
  show ?case
    unfolding fill_variadic.simps Let_def by (intro kept keeps_arg keeps_arg_name Cons)
qed

lemma keeps_std_args: "keeps (bind_std_args I params args)"
  unfolding bind_std_args_def bind_stdlib_named_args_def bind_stdlib_named_args_fixed_def
    bind_stdlib_named_args_variadic_def resolve_slots_def Let_def
  by (intro kept keeps_fill_fixed keeps_fill_variadic keeps_positional)

lemma keeps_output_int: "keeps (write_output_int I t v)"
  unfolding write_output_int_def by (intro kept keeps_targets)

lemma keeps_assign_args: "keeps (assign_args params args assigned)"
proof (induction args arbitrary: assigned)
  case Nil
  show ?case unfolding assign_args.simps by (intro kept)
next
  case (Cons a args)
  show ?case unfolding assign_args.simps by (intro kept keeps_arg_name Cons)
qed

lemma keeps_split_args: "keeps (bind_split_args I params args)"
  unfolding bind_split_args_def split_args_def require_output_target_def Let_def
  by (intro kept keeps_assign_args keeps_arg)

lemma keeps_split_call: "keeps (eval_split_call I name args)"
  unfolding eval_split_call_def by (intro kept keeps_split_args keeps_output_int)

lemma keeps_ref_call: "keeps (eval_ref_call I args)"
  unfolding eval_ref_call_def by (intro kept keeps_targets)

lemma keeps_default: "keeps (default_or_null I tid)"
  unfolding default_or_null_def by (intro kept)

lemma keeps_bind_params: "keeps (bind_params I mode params args positional ps rest vals outs)"
proof (induction ps arbitrary: rest vals outs)
  case Nil
  show ?case unfolding bind_params.simps by (intro kept)
next
  case (Cons p ps)
  show ?case
    unfolding bind_params.simps Let_def by (intro kept keeps_arg keeps_default keeps_targets Cons)
qed

lemma keeps_prepare: "keeps (prepare_bindings I params args mode)"
  unfolding prepare_bindings_def Let_def by (intro kept keeps_bind_params)

lemma keeps_collect: "keeps (collect_outputs I outs)"
  unfolding collect_outputs_def by (intro kept keeps_targets)

lemma keeps_write_outputs: "keeps (write_output_values I values)"
  unfolding write_output_values_def by (intro kept keeps_targets)

lemma keeps_set_local: "keeps (set_local_value name v)"
  unfolding set_local_value_def by (intro kept)

lemma keeps_locals: "keeps (init_locals I vs)" "keeps (init_locals_in_frame I vs)"
  unfolding init_locals_def init_locals_in_frame_def init_local_def fb_type_name_def
    cls_type_name_def require_tables_def lookup_fb_def lookup_class_def
  by (intro kept keeps_rec keeps_set_local keeps_default)+

lemma keeps_block_loop: "keeps (block_loop fuel (ip_stmt I) stmts idx)"
proof (induction fuel arbitrary: idx)
  case 0
  show ?case unfolding block_loop.simps by (intro kept)
next
  case (Suc fuel)
  show ?case unfolding block_loop.simps by (intro kept keeps_rec Suc)
qed

lemma keeps_block: "keeps (exec_block I stmts)"
  unfolding exec_block_def by (rule keeps_block_loop)

lemma keeps_set_locals: "keeps (set_locals vals)"
  unfolding set_locals_def by (intro kept keeps_set_local)

lemma keeps_set_instance_vars: "keeps (set_instance_vars i vals)"
  unfolding set_instance_vars_def by (intro kept)

lemma keeps_returned: "keeps (returned I ty result)"
  unfolding returned_def by (intro kept keeps_default)

text \<open>Calls.\<close>

lemma finish_runs:
  assumes "restores c0 undo"
  shows "runs (inside c0 (restore_depth c0 \<circ> undo)) (finish_call I undo (restore_depth c0) outs)
    (\<lambda>_. steady c0) (left_frames c0)"
proof -
  let ?depth = "restore_depth c0"
  have u: "undoes undo" "undoes ?depth"
    using assms by (simp_all add: restores_def undoes_restore)
  have a: "runs (inside c0 (?depth \<circ> undo))
      (eon_error (?depth \<circ> undo \<circ> pop_ctx) (collect_outputs I outs))
      (\<lambda>_. inside c0 (?depth \<circ> undo)) (left_frames c0)"
    by (rule runs_on_error [OF keeps_inside [OF undoes_deep [OF assms] keeps_collect]])
      (simp add: left_undo u failed_pop)
  have b: "runs (inside c0 (?depth \<circ> undo)) (emodify (undo \<circ> pop_ctx))
      (\<lambda>_. outside c0 ?depth) (left_frames c0)"
    by (rule runs_modify) (simp add: pop_inside [OF u])
  have c: "runs (outside c0 ?depth) (eon_error ?depth (write_output_values I vs))
      (\<lambda>_. outside c0 ?depth) (left_frames c0)" for vs
    by (rule runs_on_error [OF keeps_outside [OF u(2) keeps_write_outputs]]) (rule left_undo [OF u(2)])
  have d: "runs (outside c0 ?depth) (emodify ?depth) (\<lambda>_. steady c0) (left_frames c0)"
    by (rule runs_modify) (rule outside_undo [OF u(2)])
  show ?thesis
    unfolding finish_call_def by (rule runs_bind [OF a runs_bind [OF b runs_bind [OF c d]]])
qed

lemma disabled_runs:
  assumes "restores c0 undo"
  shows "runs (inside c0 undo) (disabled_call I undo outs) (\<lambda>_. steady c0) (left_frames c0)"
proof -
  have u: "undoes undo" and id: "undoes (\<lambda>c. c)"
    using assms unfolding restores_def undoes_def by blast+
  have "runs (inside c0 undo) (collect_outputs I outs) (\<lambda>_. inside c0 undo) (left_frames c0)"
    by (rule runs_weaken [OF keeps_inside [OF u keeps_collect]]) (auto intro: failed_left)
  moreover have "steady c0 ((undo \<circ> pop_ctx) c)" if "inside c0 undo c" for c
    using pop_inside [OF u id, of c0 c] that outside_undo [OF id] by (simp add: comp_def)
  then have "runs (inside c0 undo) (emodify (undo \<circ> pop_ctx)) (\<lambda>_. steady c0) (left_frames c0)"
    by (intro runs_modify)
  ultimately show ?thesis
    unfolding disabled_call_def
    by (rule runs_bind [OF _ runs_bind [OF _ keeps_steady [OF keeps_write_outputs]]])
qed

text \<open>The part of a call that runs its body, given what follows the body.\<close>

lemma body_runs:
  assumes r: "restores c0 undo" and m: "keeps m"
    and k: "\<And>x. runs (inside c0 (restore_depth c0 \<circ> undo)) (k x) (\<lambda>_. steady c0) (left_frames c0)"
  shows "runs (inside c0 undo)
    (ebind enter_call (\<lambda>_. ebind (eon_error (undo \<circ> pop_ctx \<circ> restore_depth c0) m) k))
    (\<lambda>_. steady c0) (left_frames c0)"
proof (rule runs_bind [where Q = "\<lambda>_. inside c0 (restore_depth c0 \<circ> undo)"])
  show "runs (inside c0 undo) enter_call (\<lambda>_. inside c0 (restore_depth c0 \<circ> undo)) (left_frames c0)"
    unfolding enter_call_def by (rule runs_modify) (rule enter_inside [OF r])
qed (rule runs_bind [OF runs_leave [OF r m] k])

lemma value_runs:
  assumes r: "restores c0 undo" and v: "keeps v"
  shows "runs (inside c0 (restore_depth c0 \<circ> undo))
    (ebind v (\<lambda>x. ebind (finish_call I undo (restore_depth c0) outs) (\<lambda>_. eret x)))
    (\<lambda>_. steady c0) (left_frames c0)"
proof (rule runs_bind)
  show "runs (inside c0 (restore_depth c0 \<circ> undo)) v (\<lambda>_. inside c0 (restore_depth c0 \<circ> undo))
      (left_frames c0)"
    by (rule runs_weaken [OF keeps_inside [OF undoes_deep [OF r] v]]) (auto intro: failed_left)
  show "runs (inside c0 (restore_depth c0 \<circ> undo))
      (ebind (finish_call I undo (restore_depth c0) outs) (\<lambda>_. eret x)) (\<lambda>_. steady c0)
      (left_frames c0)" for x
    by (rule runs_bind [OF finish_runs [OF r]]) (simp add: runs_def)
qed

text \<open>The start of a call: the bindings outside, then changes that \<open>undo\<close> takes back.\<close>

lemma outside_modify:
  "(\<And>c. undo (g c) = undo c) \<Longrightarrow> (\<And>c. cx_storage (g c) = cx_storage c \<and> cx_checks (g c) = cx_checks c) \<Longrightarrow>
    runs (outside c0 undo) (emodify g) (\<lambda>_. outside c0 undo) E"
  by (rule runs_modify) (simp add: outside_def frames_of_def retained_def)

lemma inside_modify:
  "(\<And>c. undo (g c) = undo c) \<Longrightarrow> (\<And>c. cx_storage (g c) = cx_storage c \<and> cx_checks (g c) = cx_checks c) \<Longrightarrow>
    runs (inside c0 undo) (emodify g) (\<lambda>_. inside c0 undo) E"
  by (rule runs_modify) (simp add: inside_def frames_of_def retained_def)

lemma inside_runs:
  assumes "restores c0 undo" and "keeps m"
  shows "runs (inside c0 undo) m (\<lambda>_. inside c0 undo) (left_frames c0)"
proof -
  have "undoes undo"
    using assms(1) by (simp add: restores_def)
  from keeps_inside [OF this assms(2)] show ?thesis
    by (rule runs_weaken) (auto intro: failed_left)
qed

lemma prepare_runs:
  assumes "restores c0 undo"
  shows "runs ((=) c0) (eon_error undo (prepare_bindings I params args mode))
    (\<lambda>_. outside c0 undo) (left_frames c0)"
proof -
  have "runs ((=) c0) (prepare_bindings I params args mode) (\<lambda>_. steady c0) (left_frames c0)"
    using keeps_prepare unfolding keeps_def by blast
  then have "runs ((=) c0) (prepare_bindings I params args mode) (\<lambda>_. outside c0 undo) (left_frames c0)"
    by (rule runs_weaken) (simp_all add: steady_outside [OF assms])
  then show ?thesis
    by (rule runs_on_error) (use assms in \<open>simp add: restores_def left_undo\<close>)
qed

lemma runs_ctx:
  assumes "\<And>c1. restore_depth c1 = restore_depth c0 \<Longrightarrow> runs (inside c0 undo) (m c1) Q E"
    and "restores c0 undo"
  shows "runs (inside c0 undo) (ebind (eget (\<lambda>c. c)) m) Q E"
proof (rule runs_pre)
  fix c
  assume c: "inside c0 undo c"
  have "restore_depth c = restore_depth c0"
    using inside_depth [OF assms(2) c] by (simp add: restore_depth_def fun_eq_iff)
  then show "runs ((=) c) (ebind (eget (\<lambda>c. c)) m) Q E"
    using assms(1) c by (simp add: runs_def)
qed

lemma body_ctx:
  assumes "restores c0 undo" and "keeps m"
    and "\<And>x. runs (inside c0 (restore_depth c0 \<circ> undo)) (k (restore_depth c0) x) (\<lambda>_. steady c0)
      (left_frames c0)"
  shows "runs (inside c0 undo)
    (ebind (eget (\<lambda>c. c)) (\<lambda>c1. ebind enter_call (\<lambda>_.
      ebind (eon_error (undo \<circ> pop_ctx \<circ> restore_depth c1) m) (k (restore_depth c1)))))
    (\<lambda>_. steady c0) (left_frames c0)"
  by (rule runs_ctx [OF _ assms(1)]) (simp add: body_runs [OF assms])

lemma push_runs:
  "runs (outside c0 undo) (push_frame_ev owner) (\<lambda>_. inside c0 undo) E"
  "runs (outside c0 undo) (push_frame_with_instance_ev owner i) (\<lambda>_. inside c0 undo) E"
  if "undoes undo"
proof -
  have *: "inside c0 undo (c\<lparr>cx_storage := s\<rparr>)"
    if o: "outside c0 undo c" and s: "\<exists>fr. vs_frames s = vs_frames (cx_storage c) @ [fr]"
      "vs_retain s = vs_retain (cx_storage c)" for c s
  proof -
    have "settings (c\<lparr>cx_storage := s\<rparr>) = settings c"
      by (simp add: settings_def)
    from undoesD(1) [OF \<open>undoes undo\<close> this] show ?thesis
      using o s
      by (auto simp: outside_def inside_def frames_of_def retained_def simp del: split_paired_Ex)
  qed
  show "runs (outside c0 undo) (push_frame_ev owner) (\<lambda>_. inside c0 undo) E"
    "runs (outside c0 undo) (push_frame_with_instance_ev owner i) (\<lambda>_. inside c0 undo) E"
    by (auto simp: runs_def push_frame_ev_def push_frame_with_instance_ev_def estorage_def
        ebind_def push_frame_def push_frame_with_instance_def Let_def intro!: *)
qed

lemmas restored = restores_restore undoes_restore

lemma runs_if:
  "(b \<Longrightarrow> runs P m Q E) \<Longrightarrow> (\<not> b \<Longrightarrow> runs P m' Q E) \<Longrightarrow> runs P (if b then m else m') Q E"
  by simp

lemmas call_steps =
  runs_bind [OF outside_modify] runs_bind [OF inside_modify]
  runs_bind [OF push_runs(1)] runs_bind [OF push_runs(2)]
  runs_bind [OF disabled_runs keeps_steady] disabled_runs runs_if body_ctx
  runs_bind [OF runs_leave] value_runs restored

lemmas undo_defs = restore_function_def restore_method_def restore_block_def

lemma keeps_call_function: "keeps (call_function I func args)"
  unfolding call_function_def Let_def
  apply (rule keeps_ctx, rule runs_bind [OF prepare_runs [OF restores_restore(1)]])
  apply (split prod.split, intro allI impI, split prod.split, intro allI impI)
  apply (intro call_steps runs_bind [OF inside_runs] keeps_default keeps_set_local keeps_set_locals
    keeps_block keeps_locals keeps_returned)
  apply (simp_all add: undo_defs)
  done

lemma keeps_call_method: "keeps (call_method I meth i args)"
  unfolding call_method_def Let_def
  apply (rule keeps_ctx, rule runs_bind [OF prepare_runs [OF restores_restore(2)]])
  apply (split prod.split, intro allI impI, split prod.split, intro allI impI)
  apply (intro call_steps runs_bind [OF inside_runs] keeps_default keeps_set_local keeps_set_locals
    keeps_block keeps_locals keeps_returned kept)
  apply (simp_all add: undo_defs)
  done

lemma keeps_block_body: "keeps (block_body I d i)"
  unfolding block_body_def by (intro kept keeps_builtin keeps_block keeps_locals)

lemma leave_runs:
  assumes "restores c0 undo"
  shows "runs (inside c0 (restore_depth c0 \<circ> undo))
    (ebind (emodify (undo \<circ> pop_ctx \<circ> restore_depth c0)) (\<lambda>_. efail e)) (\<lambda>_. steady c0)
    (left_frames c0)"
proof (rule runs_bind [where Q = "\<lambda>_. left_frames c0"])
  have "left_frames c0 ((undo \<circ> pop_ctx \<circ> restore_depth c0) c)"
    if "inside c0 (restore_depth c0 \<circ> undo) c" for c
    using assms inside_failed [OF that]
    by (simp add: restores_def left_undo failed_pop failed_undo undoes_restore)
  then show "runs (inside c0 (restore_depth c0 \<circ> undo))
      (emodify (undo \<circ> pop_ctx \<circ> restore_depth c0)) (\<lambda>_. left_frames c0) (left_frames c0)"
    by (rule runs_modify)
qed (rule runs_fail)

lemma keeps_call_function_block: "keeps (call_function_block I d i args)"
  unfolding call_function_block_def Let_def
  apply (rule keeps_ctx, rule runs_bind [OF prepare_runs [OF restores_restore(3)]])
  apply (split prod.split, intro allI impI, split prod.split, intro allI impI)
  apply (intro call_steps runs_bind [OF inside_runs] keeps_set_instance_vars keeps_block_body)
  apply (simp_all add: undo_defs)[2]
  subgoal for c0 x executes y vals outs u1 u2 u3 result
    by (cases result; simp only: stmt_result.case; intro finish_runs leave_runs restored)
  done

end

text \<open>A chosen way to call keeps frames and settings when it runs, too.\<close>

definition keeps_choice :: "rvalue ev option ev \<Rightarrow> bool" where
  "keeps_choice m \<longleftrightarrow> keeps m \<and> (\<forall>c call c'. m c = Some (Inr (Some call), c') \<longrightarrow> keeps call)"

lemma choice_ret: "(\<And>call. x = Some call \<Longrightarrow> keeps call) \<Longrightarrow> keeps_choice (eret x)"
  unfolding keeps_choice_def by (intro conjI keeps_basic) simp

lemma choice_get: "(\<And>c call. g c = Some call \<Longrightarrow> keeps call) \<Longrightarrow> keeps_choice (eget g)"
  unfolding keeps_choice_def by (intro conjI keeps_basic) simp

lemma ebind_ok:
  "ebind m f c = Some (Inr y, c') \<Longrightarrow> \<exists>x c1. m c = Some (Inr x, c1) \<and> f x c1 = Some (Inr y, c')"
  by (auto simp: ebind_def split: option.splits sum.splits)

lemma choice_bind: "keeps m \<Longrightarrow> (\<And>x. keeps_choice (f x)) \<Longrightarrow> keeps_choice (ebind m f)"
  unfolding keeps_choice_def by (intro conjI keeps_bind) (blast dest: ebind_ok)+

lemma first_call_cases:
  assumes "first_call m k c = Some (r, c')"
  obtains e where "m c = Some (Inl e, c')" and "r = Inl e"
  | call c1 where "m c = Some (Inr call, c1)"
      and "(case call of Some n \<Rightarrow> n | None \<Rightarrow> k) c1 = Some (r, c')"
proof (cases "m c")
  case None
  then show ?thesis using assms by (simp add: first_call_def)
next
  case (Some p)
  then show ?thesis
    using assms that by (cases p; cases "fst p") (auto simp: first_call_def)
qed

lemma keeps_first:
  assumes m: "keeps_choice m" and k: "keeps k"
  shows "keeps (first_call m k)"
proof -
  have rest: "keeps (case call of Some n \<Rightarrow> n | None \<Rightarrow> k)" if "m c = Some (Inr call, c1)" for c call c1
    using m k that by (auto simp: keeps_choice_def split: option.split)
  have first: "keeps m"
    using m by (simp add: keeps_choice_def)
  show ?thesis
  proof (rule keepsI)
    show "steady c c'" if "first_call m k c = Some (Inr x, c')" for c x c'
      using that
      by (rule first_call_cases) (auto intro: steady_trans dest: keepsD_ok [OF first] keepsD_ok [OF rest])
    show "left_frames c c'" if "first_call m k c = Some (Inl e, c')" for c e c'
      using that
      by (rule first_call_cases)
        (auto intro: steady_left dest: keepsD_ok [OF first] keepsD_error [OF first] keepsD_error [OF rest])
  qed
qed

lemma keeps_instance_ctx: "keeps m \<Longrightarrow> keeps (with_instance_ctx i namespaces m)"
proof (rule keepsI)
  fix c
  assume m: "keeps m"
  show "steady c c'" if "with_instance_ctx i namespaces m c = Some (Inr x, c')" for x c'
    using that keepsD_ok [OF m, of "instance_ctx i namespaces c"]
    by (auto simp: with_instance_ctx_def steady_def frames_of_def retained_def settings_def
        instance_ctx_def split: option.splits)
  show "left_frames c c'" if "with_instance_ctx i namespaces m c = Some (Inl e, c')" for e c'
    using that keepsD_error [OF m, of "instance_ctx i namespaces c"]
    by (auto simp: with_instance_ctx_def left_frames_def frames_of_def retained_def
        instance_ctx_def split: option.splits)
qed

end
