(* ===== verification/Eval_Invariant.thy ===== *)
theory Eval_Invariant
  imports Eval_Contract
begin

text \<open>
  Expressions, statements and the creation of instances under the contract \<open>keeping\<close>, and its
  interpretation on the interpreter at each depth of nesting.
\<close>

lemma keeps_deeper:
  assumes "keeps m"
  shows "keeps (ebind (emodify (\<lambda>c. c\<lparr>cx_loop_depth := cx_loop_depth c + 1\<rparr>)) (\<lambda>_.
    ebind m (\<lambda>result.
    ebind (emodify (\<lambda>c. c\<lparr>cx_loop_depth := cx_loop_depth c - 1\<rparr>)) (\<lambda>_. eret result))))"
proof (rule keepsI)
  fix c c' :: eval_ctx
  let ?c1 = "c\<lparr>cx_loop_depth := cx_loop_depth c + 1\<rparr>"
  {
    fix x
    assume "ebind (emodify (\<lambda>c. c\<lparr>cx_loop_depth := cx_loop_depth c + 1\<rparr>)) (\<lambda>_.
      ebind m (\<lambda>result.
      ebind (emodify (\<lambda>c. c\<lparr>cx_loop_depth := cx_loop_depth c - 1\<rparr>)) (\<lambda>_. eret result))) c =
      Some (Inr x, c')"
    then obtain c2 where c2: "m ?c1 = Some (Inr x, c2)"
      and c': "c' = c2\<lparr>cx_loop_depth := cx_loop_depth c2 - 1\<rparr>"
      by (auto simp: ebind_def split: option.splits sum.splits)
    have s: "steady ?c1 c2"
      by (rule keepsD_ok [OF assms c2])
    have "settings c' = (settings c2)\<lparr>cx_loop_depth := cx_loop_depth (settings c2) - 1\<rparr>"
      by (simp add: settings_def c')
    also have "\<dots> = (settings ?c1)\<lparr>cx_loop_depth := cx_loop_depth (settings ?c1) - 1\<rparr>"
      using s by (simp add: steady_def)
    also have "\<dots> = settings c"
      by (simp add: settings_def)
    finally show "steady c c'"
      using s by (simp add: steady_def c' frames_of_def retained_def)
  next
    fix e
    assume "ebind (emodify (\<lambda>c. c\<lparr>cx_loop_depth := cx_loop_depth c + 1\<rparr>)) (\<lambda>_.
      ebind m (\<lambda>result.
      ebind (emodify (\<lambda>c. c\<lparr>cx_loop_depth := cx_loop_depth c - 1\<rparr>)) (\<lambda>_. eret result))) c =
      Some (Inl e, c')"
    then have "m ?c1 = Some (Inl e, c')"
      by (auto simp: ebind_def split: option.splits sum.splits)
    then show "left_frames c c'"
      using keepsD_error [OF assms] by (fastforce simp: left_frames_def frames_of_def retained_def)
  }
qed

context keeping
begin

lemma keeps_size_of: "keeps (eval_size_of I t)"
  unfolding eval_size_of_def by (intro kept keeps_rec)

lemma keeps_binary: "keeps (binary_ev op l r)"
  unfolding binary_ev_def by (intro kept)

lemma keeps_run_std [keeps_intros]: "keeps (run_std func vals)"
  unfolding run_std_def by (intro kept)

lemma choice_std: "keeps_choice (call_std I key args)"
  unfolding call_std_def
  by (rule choice_get) (auto split: option.splits if_splits intro!: keeps_intros keeps_std_args)

lemma choice_named: "keeps_choice (call_named I name args)"
proof -
  have "keeps_choice (case func of Some f \<Rightarrow> eret (Some (call_function I f args))
      | None \<Rightarrow> call_std I key args)" for func key
    by (cases func) (auto intro: choice_ret choice_std keeps_call_function simp del: ev_simps)
  then show ?thesis
    unfolding call_named_def Let_def
    by (auto intro!: choice_ret choice_bind keeps_basic keeps_ref_call keeps_split_call simp del: ev_simps)
qed

lemma choice_method: "keeps_choice (method_of_value I v field args)"
  unfolding method_of_value_def
  by (cases v) (auto intro!: choice_ret choice_bind keeps_fuel keeps_call_method simp del: ev_simps)

lemma choice_target: "keeps_choice (call_method_target I t args)"
proof -
  have "keeps_choice (case inst of Some i \<Rightarrow> method_of_value I (VInstance i) name args
      | None \<Rightarrow> eret None)" for inst name
    by (cases inst) (auto intro: choice_ret choice_method simp del: ev_simps)
  then show ?thesis
    unfolding call_method_target_def
    by (cases t)
      (auto intro!: choice_ret choice_bind choice_method keeps_basic keeps_rec simp del: ev_simps)
qed

lemma keeps_call_instance: "keeps (call_instance I v args)"
  unfolding call_instance_def by (intro kept keeps_call_function_block)

lemma keeps_call: "keeps (eval_call I t args)"
proof -
  have "keeps_choice (case call_target_name t of Some name \<Rightarrow> call_named I name args
      | None \<Rightarrow> eret None)"
    by (auto intro: choice_ret choice_named split: option.split simp del: ev_simps)
  then show ?thesis
    unfolding eval_call_def
    by (intro keeps_first choice_target keeps_bind keeps_rec keeps_call_instance)
qed

lemma keeps_expr: "keeps (eval_expr I e)"
  unfolding eval_expr_def
  by (intro kept keeps_targets keeps_size_of keeps_call keeps_binary)

text \<open>Statements.\<close>

lemma keeps_bool: "keeps (eval_bool I e)"
  unfolding eval_bool_def by (intro kept keeps_rec)

lemma keeps_loop_body: "keeps (loop_body I body)"
  unfolding loop_body_def by (rule keeps_deeper [OF keeps_block])

lemma keeps_after: "keeps k \<Longrightarrow> keeps (after_body k result)"
  unfolding after_body_def by (cases result) (auto intro: keeps_basic simp del: ev_simps)

lemma keeps_while: "keeps (while_loop fuel I cond body)"
proof (induction fuel)
  case 0
  show ?case unfolding while_loop.simps by (intro kept)
next
  case (Suc fuel)
  show ?case
    unfolding while_loop.simps by (intro kept keeps_bool keeps_loop_body keeps_after Suc)
qed

lemma keeps_repeat: "keeps (repeat_loop fuel I body until)"
proof (induction fuel)
  case 0
  show ?case unfolding repeat_loop.simps by (intro kept)
next
  case (Suc fuel)
  show ?case
    unfolding repeat_loop.simps by (intro kept keeps_bool keeps_loop_body keeps_after Suc)
qed

lemma keeps_write_control: "keeps (write_control I control template current)"
  unfolding write_control_def by (intro kept keeps_targets)

lemma keeps_for: "keeps (for_loop fuel I control template end_i step body current)"
proof (induction fuel arbitrary: current)
  case 0
  show ?case unfolding for_loop.simps by (intro kept)
next
  case (Suc fuel)
  show ?case
    unfolding for_loop.simps Let_def
    by (intro kept keeps_loop_body keeps_after keeps_write_control Suc)
qed

lemma keeps_elsif: "keeps (elsif_chain I branches else_block)"
proof (induction branches)
  case Nil
  show ?case unfolding elsif_chain.simps by (rule keeps_block)
next
  case (Cons b branches)
  show ?case
    by (cases b) (simp only: elsif_chain.simps, intro kept keeps_bool keeps_block Cons)
qed

lemma keeps_return_value: "keeps (set_return_value v)"
  unfolding set_return_value_def by (intro kept)

lemma keeps_stmt: "keeps (exec_stmt I s)"
  unfolding exec_stmt_def exec_assign_def exec_assign_attempt_def exec_for_def loop_control_def
  by (intro kept keeps_targets keeps_block keeps_elsif keeps_while keeps_repeat keeps_for
      keeps_write_control keeps_return_value)

text \<open>The creation of instances.\<close>

lemma keeps_instance_value: "keeps (set_instance_value_ev i name v)"
  unfolding set_instance_value_ev_def by (intro kept)

lemma keeps_lookup: "keeps (lookup_fb name)" "keeps (lookup_class name)"
  unfolding lookup_fb_def lookup_class_def by (intro kept)+

lemma keeps_type_name: "keeps (fb_type_name I tid)" "keeps (cls_type_name I tid)"
  unfolding fb_type_name_def cls_type_name_def by (intro kept)+

lemma keeps_set_parent: "keeps (set_parent i parent)"
  unfolding set_parent_def by (intro kept)

lemma keeps_var_default: "keeps (init_var_default I i v)"
  unfolding init_var_default_def
  by (intro kept keeps_type_name keeps_lookup keeps_rec keeps_instance_value keeps_default)

lemma keeps_var_initializer: "keeps (init_var_initializer I i v)"
  unfolding init_var_initializer_def
  by (intro kept keeps_type_name keeps_rec keeps_instance_value)

lemma keeps_var_defaults: "keeps (init_var_defaults I i vars namespaces)"
  unfolding init_var_defaults_def
  by (intro kept keeps_instance_ctx keeps_var_default keeps_var_initializer)

lemma keeps_param_defaults: "keeps (init_param_defaults I i params)"
  unfolding init_param_defaults_def by (intro kept keeps_default keeps_instance_value)

lemma keeps_create_class: "keeps (create_class_instance I d)"
  unfolding create_class_instance_def
  by (intro kept keeps_lookup keeps_rec keeps_set_parent keeps_var_defaults)

lemma keeps_create_fb: "keeps (create_fb_instance I d)"
  unfolding create_fb_instance_def
  by (intro kept keeps_lookup keeps_rec keeps_set_parent keeps_param_defaults keeps_var_defaults)

lemma keeps_create_program: "keeps (create_program_instance I d)"
  unfolding create_program_instance_def by (intro kept keeps_var_defaults)

lemma step_keeping: "keeping (interp_step I)"
  by (rule keeping.intro)
    (simp_all add: interp_step_def keeps_expr keeps_stmt keeps_create_fb keeps_create_class)

end

lemma keeping_at: "keeping (interp_at n)"
proof (induction n)
  case 0
  show ?case
    by (rule keeping.intro; unfold interp_at.simps interp.select_convs; rule keeps_basic)
next
  case (Suc n)
  then show ?case
    by (simp add: keeping.step_keeping)
qed

interpretation at: keeping "interp_at n" for n
  by (rule keeping_at)

end
