(* ===== verification/Eval_Properties.thy ===== *)
theory Eval_Properties
  imports Eval_Invariant
begin

text \<open>
  Properties of the interpreter: what a block leaves of its context, and that the deadline ends
  every loop.
\<close>

section \<open>Frames and settings\<close>

text \<open>C2: When a block ends without an error, the stack of frames (identity, owner and instance of
  each), the retained variables and every setting of the context, as the namespaces, the current
  instance, the return name and the depths of calls and loops, are as before; when it ends with an
  error, frames may be left on top of the old ones, but none of the caller's is gone.\<close>

theorem block_keeps_context:
  assumes "exec_block (interp_at n) stmts c = Some (r, c')"
  shows "case r of
      Inr _ \<Rightarrow> frames_of c' = frames_of c \<and> settings c' = settings c \<and> retained c' = retained c
    | Inl _ \<Rightarrow> (\<exists>fs. frames_of c' = frames_of c @ fs) \<and> retained c' = retained c"
proof (cases r)
  case (Inl e)
  then show ?thesis
    using keepsD_error [OF at.keeps_block] assms unfolding left_frames_def by fastforce
next
  case (Inr x)
  then show ?thesis
    using keepsD_ok [OF at.keeps_block] assms unfolding steady_def by fastforce
qed

text \<open>A function that returns twice its argument, and a context that knows it.\<close>

definition double_fn :: function_def where
  "double_fn =
     \<lparr>fn_name = ''F'', fn_return_type = TypeId_INT,
      fn_params = [\<lparr>pr_name = ''X'', pr_type_id = TypeId_INT, pr_direction = DirIn, pr_address = None,
        pr_default = None\<rparr>],
      fn_locals = [], fn_using = [],
      fn_body = [SReturn (Some (EBinary OpAdd (EName ''X'') (EName ''X'')))]\<rparr>"

definition demo_ctx :: "(nat \<Rightarrow> bool) option \<Rightarrow> eval_ctx" where
  "demo_ctx deadline =
     \<lparr>cx_env = \<lparr>ev_powf = (\<lambda>x y. x), ev_to_uppercase = to_ascii_uppercase, ev_ref_size = 8\<rparr>,
      cx_storage = storage_new, cx_registry = registry_new, cx_profile = date_time_profile_default,
      cx_now = 0, cx_call_depth = 0, cx_functions = Some [(''F'', double_fn)], cx_stdlib = Some [],
      cx_function_blocks = Some [], cx_classes = Some [], cx_using = None, cx_access = Some [],
      cx_current_instance = None, cx_return_name = None, cx_loop_depth = 0, cx_deadline = deadline,
      cx_checks = 0\<rparr>"

definition call_double :: "stmt list" where
  "call_double =
     [SAssign (LName ''Y'') (ECall (EName ''F'') [CallArg None (ArgExpr (ELiteral (VInt 21)))])]"

lemma call_double_runs:
  "case exec_block (interp_at 5) call_double (demo_ctx None) of
     Some (r, c') \<Rightarrow> r = Inr RContinue \<and> get_global (cx_storage c') ''Y'' = Some (VInt 42)
   | None \<Rightarrow> False"
  by code_simp

lemma block_keeps_context_witness:
  "\<exists>c'. exec_block (interp_at 5) call_double (demo_ctx None) = Some (Inr RContinue, c') \<and>
     frames_of c' = frames_of (demo_ctx None) \<and> settings c' = settings (demo_ctx None)"
proof -
  obtain c' where run: "exec_block (interp_at 5) call_double (demo_ctx None) = Some (Inr RContinue, c')"
    using call_double_runs by (auto split: option.splits)
  show ?thesis
    using block_keeps_context [OF run] run by simp
qed

text \<open>
  A FOR loop up to the largest value of its control variable does not end normally: the increment
  after the last round is out of range.
\<close>

lemma for_to_maximum_overflows:
  "map_option fst (exec_block (interp_at 6)
     [SAssign (LName ''I'') (ELiteral (VInt 0)),
      SFor ''I'' (ELiteral (VInt 32766)) (ELiteral (VInt 32767)) (ELiteral (VInt 1)) []]
     (demo_ctx None)) = Some (Inl Overflow)"
  by code_simp

section \<open>The deadline\<close>

lemma deadline_kept: "settings c' = settings c \<Longrightarrow> cx_deadline c' = cx_deadline c"
  by (drule arg_cong [where f = cx_deadline]) (simp add: settings_def)

text \<open>Operations that return from every context.\<close>

definition returns :: "'a ev \<Rightarrow> bool" where
  "returns m \<longleftrightarrow> (\<forall>c. m c \<noteq> None)"

lemma returns_bind: "returns m \<Longrightarrow> (\<And>x. returns (f x)) \<Longrightarrow> returns (ebind m f)"
  by (auto simp: returns_def ebind_def split: option.splits sum.splits)

lemma returns_basic:
  "returns (eret x)" "returns (efail e)" "returns (eget g)" "returns (emodify h)" "returns (elift k)"
  by (simp_all add: returns_def)

lemma returns_bool: "returns (ip_expr I e) \<Longrightarrow> returns (eval_bool I e)"
  unfolding eval_bool_def
  by (rule returns_bind) (auto simp: returns_basic split: rvalue.split simp del: ev_simps)

lemma returns_loop_body: "returns (exec_block I body) \<Longrightarrow> returns (loop_body I body)"
  unfolding loop_body_def by (intro returns_bind returns_basic)

text \<open>
  One round of a loop: the clock is asked, the round runs, and the loop goes on from a context in
  which more questions have been asked and the deadline is the same.
\<close>

lemma round_returns:
  assumes keep: "keeps m" and ret: "returns m"
    and deadline: "cx_deadline c = Some expired" "\<And>k. N \<le> k \<Longrightarrow> expired k"
    and rest: "\<And>x c1. cx_deadline c1 = Some expired \<Longrightarrow> cx_checks c < cx_checks c1 \<Longrightarrow>
      cx_checks c < N \<Longrightarrow> f x c1 \<noteq> None"
  shows "ebind check_execution_budget (\<lambda>_. ebind m f) c \<noteq> None"
proof (cases "expired (cx_checks c)")
  case True
  then show ?thesis
    by (simp add: check_execution_budget_def deadline Let_def ebind_def)
next
  case False
  let ?c1 = "c\<lparr>cx_checks := cx_checks c + 1\<rparr>"
  have early: "cx_checks c < N"
    using False deadline(2) by (meson not_le)
  have check: "check_execution_budget c = Some (Inr (), ?c1)"
    using False by (simp add: check_execution_budget_def deadline Let_def)
  obtain r c2 where m: "m ?c1 = Some (r, c2)"
    using ret unfolding returns_def by (metis not_None_eq prod.exhaust)
  show ?thesis
  proof (cases r)
    case (Inl e)
    then show ?thesis using check m by simp
  next
    case (Inr x)
    have s: "steady ?c1 c2"
      using keepsD_ok [OF keep] m Inr by blast
    then have "cx_deadline c2 = Some expired" and "cx_checks c < cx_checks c2"
      using deadline_kept [of c2 ?c1] deadline(1) by (auto simp: steady_def)
    then show ?thesis
      using check m Inr rest early by simp
  qed
qed

lemma while_returns:
  assumes "returns (ip_expr (interp_at n) cond)" and "returns (exec_block (interp_at n) body)"
    and "cx_deadline c = Some expired" and "\<And>k. N \<le> k \<Longrightarrow> expired k"
    and "0 < fuel" and "N < cx_checks c + fuel"
  shows "while_loop fuel (interp_at n) cond body c \<noteq> None"
  using assms(3,5,6)
proof (induction fuel arbitrary: c)
  case (Suc fuel)
  let ?I = "interp_at n"
  define round where "round = ebind (eval_bool ?I cond) (\<lambda>go.
    if go then ebind (loop_body ?I body) (\<lambda>r. eret (Some r)) else eret None)"
  have k: "keeps round"
    unfolding round_def by (intro kept at.keeps_bool at.keeps_loop_body)
  have r: "returns round"
    unfolding round_def
    by (auto intro!: returns_bind returns_bool returns_loop_body returns_basic assms(1,2) simp del: ev_simps)
  let ?next = "\<lambda>r. case r of None \<Rightarrow> eret RContinue
    | Some r \<Rightarrow> after_body (while_loop fuel ?I cond body) r"
  have eq: "while_loop (Suc fuel) ?I cond body =
      ebind check_execution_budget (\<lambda>_. ebind round ?next)"
    by (auto simp: round_def fun_eq_iff ebind_def split: option.split sum.split if_split)
  have cont: "?next x c1 \<noteq> None"
    if "cx_deadline c1 = Some expired" "cx_checks c < cx_checks c1" "cx_checks c < N" for x c1
    using Suc.IH [of c1] Suc.prems that
    by (auto simp: after_body_def split: option.split stmt_result.split)
  show ?case
    unfolding eq by (rule round_returns [OF k r Suc.prems(1) assms(4) cont])
qed simp

lemma repeat_returns:
  assumes "returns (ip_expr (interp_at n) cond)" and "returns (exec_block (interp_at n) body)"
    and "cx_deadline c = Some expired" and "\<And>k. N \<le> k \<Longrightarrow> expired k"
    and "0 < fuel" and "N < cx_checks c + fuel"
  shows "repeat_loop fuel (interp_at n) body cond c \<noteq> None"
  using assms(3,5,6)
proof (induction fuel arbitrary: c)
  case (Suc fuel)
  let ?I = "interp_at n"
  define round where "round = ebind (loop_body ?I body) (after_body
    (ebind (eval_bool ?I cond) (\<lambda>stop. eret (if stop then RContinue else RLoopContinue))))"
  have k: "keeps round"
    unfolding round_def by (intro kept at.keeps_bool at.keeps_loop_body at.keeps_after)
  have r: "returns round"
    unfolding round_def
    by (auto intro!: returns_bind returns_bool returns_loop_body returns_basic assms(1,2)
        simp: after_body_def simp del: ev_simps split: stmt_result.split)
  let ?next = "\<lambda>r. if r = RLoopContinue then repeat_loop fuel ?I body cond else eret r"
  have eq: "repeat_loop (Suc fuel) ?I body cond =
      ebind check_execution_budget (\<lambda>_. ebind round ?next)"
    by (auto simp: round_def after_body_def fun_eq_iff ebind_def
        split: option.split sum.split if_split stmt_result.split)
  have cont: "?next x c1 \<noteq> None"
    if "cx_deadline c1 = Some expired" "cx_checks c < cx_checks c1" "cx_checks c < N" for x c1
    using Suc.IH [of c1] Suc.prems that by auto
  show ?case
    unfolding eq by (rule round_returns [OF k r Suc.prems(1) assms(4) cont])
qed simp

text \<open>C21: A WHILE or REPEAT loop whose condition and body return never hangs when a deadline is set:
  once the clock has passed the deadline, at its question number \<open>N\<close>, the next round ends the loop,
  whatever the condition says; fuel for the rounds up to there is enough.\<close>

theorem loops_end_at_deadline:
  assumes "cx_deadline c = Some expired" and "\<And>k. N \<le> k \<Longrightarrow> expired k"
    and "returns (ip_expr (interp_at n) cond)" and "returns (exec_block (interp_at n) body)"
    and "N < cx_checks c + n"
  shows "exec_stmt (interp_at n) (SWhile cond body) c \<noteq> None \<and>
    exec_stmt (interp_at n) (SRepeat body cond) c \<noteq> None"
proof (cases "expired (cx_checks c)")
  case True
  then show ?thesis
    by (simp add: exec_stmt_def check_execution_budget_def assms(1) Let_def ebind_def)
next
  case False
  let ?c1 = "c\<lparr>cx_checks := cx_checks c + 1\<rparr>"
  have "cx_checks c < N"
    using False assms(2) by (meson not_le)
  then have fuel: "0 < n" "N < cx_checks ?c1 + n"
    using assms(5) by simp_all
  have check: "check_execution_budget c = Some (Inr (), ?c1)"
    using False by (simp add: check_execution_budget_def assms(1) Let_def)
  have "cx_deadline ?c1 = Some expired"
    using assms(1) by simp
  note loops = while_returns [OF assms(3,4) this assms(2) fuel]
    repeat_returns [OF assms(3,4) this assms(2) fuel]
  show ?thesis
    using check loops by (simp add: exec_stmt_def)
qed

text \<open>An endless loop and a clock that passes the deadline at the sixth question.\<close>

lemma loops_end_at_deadline_witness:
  "exec_stmt (interp_at 7) (SWhile (ELiteral (VBool True)) []) (demo_ctx (Some ((\<le>) 5))) \<noteq> None"
proof -
  have "returns (ip_expr (interp_at 7) (ELiteral (VBool True)))" "returns (exec_block (interp_at 7) [])"
    by (simp_all add: returns_def eval_nat_numeral eval_expr_def exec_block_def del: interp_at.simps(2))
  then show ?thesis
    using loops_end_at_deadline [of "demo_ctx (Some ((\<le>) 5))" "(\<le>) 5" 5 7 "ELiteral (VBool True)" "[]"]
    by (simp add: demo_ctx_def)
qed

end
