(* ===== verification/Watchdog.thy ===== *)
theory Watchdog
  imports Io
begin

text \<open>
  Watchdog, retain and fault policies (\<open>watchdog.rs\<close>) and the fault state of a runtime
  (\<open>runtime/faults.rs\<close>, \<open>runtime/watchdog_subsystem.rs\<close>).
\<close>

datatype watchdog_action = WdHalt | WdSafeHalt | WdRestart

datatype retain_mode = RetainNone | RetainFile

datatype fault_policy = PolicyHalt | PolicySafeHalt | PolicyRestart

datatype fault_action = ActHalt | ActSafeHalt | ActRestart

definition invalid_config :: "rstr \<Rightarrow> rstr \<Rightarrow> runtime_error" where
  "invalid_config what text = InvalidConfig (''invalid '' @ what @ '' '' @ quote_char @ text @ quote_char)"

definition watchdog_action_parse :: "rstr \<Rightarrow> runtime_error + watchdog_action" where
  "watchdog_action_parse text =
     (let t = to_ascii_lowercase (str_trim text) in
      if t = ''halt'' then Inr WdHalt
      else if t = ''safe_halt'' then Inr WdSafeHalt
      else if t = ''restart'' then Inr WdRestart
      else Inl (invalid_config ''watchdog action'' text))"

definition retain_mode_parse :: "rstr \<Rightarrow> runtime_error + retain_mode" where
  "retain_mode_parse text =
     (let t = to_ascii_lowercase (str_trim text) in
      if t = ''none'' then Inr RetainNone
      else if t = ''file'' then Inr RetainFile
      else Inl (invalid_config ''retain mode'' text))"

definition fault_policy_parse :: "rstr \<Rightarrow> runtime_error + fault_policy" where
  "fault_policy_parse text =
     (let t = to_ascii_lowercase (str_trim text) in
      if t = ''halt'' then Inr PolicyHalt
      else if t = ''safe_halt'' then Inr PolicySafeHalt
      else if t = ''restart'' then Inr PolicyRestart
      else Inl (invalid_config ''fault policy'' text))"

record watchdog_policy =
  wp_enabled :: bool
  wp_timeout :: duration
  wp_action :: watchdog_action

definition watchdog_policy_default :: watchdog_policy where
  "watchdog_policy_default = \<lparr>wp_enabled = False, wp_timeout = 0, wp_action = WdSafeHalt\<rparr>"

record fault_decision =
  fd_action :: fault_action
  fd_apply_safe_state :: bool

definition from_watchdog :: "watchdog_action \<Rightarrow> fault_decision" where
  "from_watchdog action =
     (case action of
        WdHalt \<Rightarrow> \<lparr>fd_action = ActHalt, fd_apply_safe_state = True\<rparr>
      | WdSafeHalt \<Rightarrow> \<lparr>fd_action = ActSafeHalt, fd_apply_safe_state = True\<rparr>
      | WdRestart \<Rightarrow> \<lparr>fd_action = ActRestart, fd_apply_safe_state = False\<rparr>)"

definition from_fault_policy :: "fault_policy \<Rightarrow> fault_decision" where
  "from_fault_policy policy =
     (case policy of
        PolicyHalt \<Rightarrow> \<lparr>fd_action = ActHalt, fd_apply_safe_state = False\<rparr>
      | PolicySafeHalt \<Rightarrow> \<lparr>fd_action = ActSafeHalt, fd_apply_safe_state = True\<rparr>
      | PolicyRestart \<Rightarrow> \<lparr>fd_action = ActRestart, fd_apply_safe_state = False\<rparr>)"

section \<open>The fault state\<close>

record fault_subsystem =
  ft_policy :: fault_policy
  ft_faulted :: bool
  ft_last_fault :: "runtime_error option"

definition fault_subsystem_new :: fault_subsystem where
  "fault_subsystem_new = \<lparr>ft_policy = PolicyHalt, ft_faulted = False, ft_last_fault = None\<rparr>"

definition fault_decision_of :: "fault_subsystem \<Rightarrow> fault_decision" where
  "fault_decision_of f = from_fault_policy (ft_policy f)"

definition fault_record :: "runtime_error \<Rightarrow> fault_subsystem \<Rightarrow> fault_subsystem" where
  "fault_record err f = f\<lparr>ft_faulted := True, ft_last_fault := Some err\<rparr>"

definition fault_clear :: "fault_subsystem \<Rightarrow> fault_subsystem" where
  "fault_clear f = f\<lparr>ft_faulted := False, ft_last_fault := None\<rparr>"

definition watchdog_decision :: "watchdog_policy \<Rightarrow> fault_decision" where
  "watchdog_decision policy = from_watchdog (wp_action policy)"

section \<open>The I/O subsystem\<close>

text \<open>
  The drivers are given by what the trait \<open>IoDriver\<close> has: \<open>read_inputs\<close> fills the input image,
  \<open>write_outputs\<close> takes the output image; both may change the driver and fail. The health reports
  go to observers only and are left out.
\<close>

record 'd driver_ops =
  do_read_inputs :: "'d \<Rightarrow> byte list \<Rightarrow> (runtime_error + unit) \<times> 'd \<times> byte list"
  do_write_outputs :: "'d \<Rightarrow> byte list \<Rightarrow> (runtime_error + unit) \<times> 'd"

record 'd io_subsystem =
  is_interface :: io_interface
  is_drivers :: "(rstr \<times> 'd) list"
  is_safe_state :: io_safe_state

definition io_subsystem_new :: "'d io_subsystem" where
  "io_subsystem_new = \<lparr>is_interface = io_interface_new, is_drivers = [], is_safe_state = []\<rparr>"

definition is_add_driver :: "rstr \<Rightarrow> 'd \<Rightarrow> 'd io_subsystem \<Rightarrow> 'd io_subsystem" where
  "is_add_driver name driver io = io\<lparr>is_drivers := is_drivers io @ [(name, driver)]\<rparr>"

definition is_clear_drivers :: "'d io_subsystem \<Rightarrow> 'd io_subsystem" where
  "is_clear_drivers io = io\<lparr>is_drivers := []\<rparr>"

definition is_resize :: "nat \<Rightarrow> nat \<Rightarrow> nat \<Rightarrow> 'd io_subsystem \<Rightarrow> 'd io_subsystem" where
  "is_resize inputs outputs memory io =
     io\<lparr>is_interface := io_resize inputs outputs memory (is_interface io)\<rparr>"

text \<open>The drivers in their order, up to the first error.\<close>

fun write_drivers ::
    "'d driver_ops \<Rightarrow> byte list \<Rightarrow> (rstr \<times> 'd) list \<Rightarrow> (runtime_error + unit) \<times> (rstr \<times> 'd) list"
where
  "write_drivers ops outputs [] = (Inr (), [])"
| "write_drivers ops outputs ((name, d) # ds) =
     (case do_write_outputs ops d outputs of
        (Inl e, d) \<Rightarrow> (Inl e, (name, d) # ds)
      | (Inr _, d) \<Rightarrow>
          (case write_drivers ops outputs ds of (r, ds) \<Rightarrow> (r, (name, d) # ds)))"

fun read_drivers ::
    "'d driver_ops \<Rightarrow> byte list \<Rightarrow> (rstr \<times> 'd) list
      \<Rightarrow> (runtime_error + unit) \<times> byte list \<times> (rstr \<times> 'd) list"
where
  "read_drivers ops inputs [] = (Inr (), inputs, [])"
| "read_drivers ops inputs ((name, d) # ds) =
     (case do_read_inputs ops d inputs of
        (Inl e, d, inputs) \<Rightarrow> (Inl e, inputs, (name, d) # ds)
      | (Inr _, d, inputs) \<Rightarrow>
          (case read_drivers ops inputs ds of (r, inputs, ds) \<Rightarrow> (r, inputs, (name, d) # ds)))"

definition is_write_outputs ::
    "'d driver_ops \<Rightarrow> 'd io_subsystem \<Rightarrow> (runtime_error + unit) \<times> 'd io_subsystem" where
  "is_write_outputs ops io =
     (case write_drivers ops (ii_outputs (is_interface io)) (is_drivers io) of
        (r, ds) \<Rightarrow> (r, io\<lparr>is_drivers := ds\<rparr>))"

definition is_read_inputs ::
    "'d driver_ops \<Rightarrow> 'd io_subsystem \<Rightarrow> (runtime_error + unit) \<times> 'd io_subsystem" where
  "is_read_inputs ops io =
     (case read_drivers ops (ii_inputs (is_interface io)) (is_drivers io) of
        (r, inputs, ds) \<Rightarrow>
          (r, io\<lparr>is_interface := (is_interface io)\<lparr>ii_inputs := inputs\<rparr>, is_drivers := ds\<rparr>))"

definition is_apply_safe_state ::
    "'d driver_ops \<Rightarrow> 'd io_subsystem \<Rightarrow> (runtime_error + unit) \<times> 'd io_subsystem" where
  "is_apply_safe_state ops io =
     (case io_safe_state_apply (is_safe_state io) (is_interface io) of
        (Inl e, interface) \<Rightarrow> (Inl e, io\<lparr>is_interface := interface\<rparr>)
      | (Inr _, interface) \<Rightarrow> is_write_outputs ops (io\<lparr>is_interface := interface\<rparr>))"

end
