(* ===== verification/Runtime_Core.thy ===== *)
theory Runtime_Core
  imports Bytecode_Metadata Statements Watchdog
begin

text \<open>
  The state of a runtime and its accessors (\<open>runtime/core.rs\<close>, \<open>task.rs\<close>) and the lookup of the
  namespaces of a frame (\<open>runtime/metadata.rs\<close>). The debug control, the metrics, the table of
  statement locations and the interfaces, which serve observers only, are left out; the state of
  the retain store and of the drivers are type parameters.
\<close>

record task_state =
  ks_last_single :: bool
  ks_last_run :: duration
  ks_overrun_count :: u64

definition task_state_new :: "duration \<Rightarrow> task_state" where
  "task_state_new current_time =
     \<lparr>ks_last_single = False, ks_last_run = current_time, ks_overrun_count = 0\<rparr>"

text \<open>
  The deadline is the answer of the clock to each question, \<open>rc_checks\<close> the number of questions
  asked so far.
\<close>

record ('st, 'd) runtime_core = "'st runtime" +
  rc_env :: eval_env
  rc_profile :: date_time_profile
  rc_registry :: type_registry
  rc_io :: "'d io_subsystem"
  rc_access :: access_map
  rc_stdlib :: standard_library
  rc_functions :: "(rstr, function_def) index_map"
  rc_function_blocks :: "(rstr, function_block_def) index_map"
  rc_classes :: "(rstr, class_def) index_map"
  rc_programs :: "(rstr, program_def) index_map"
  rc_tasks :: "task_config list"
  rc_task_state :: "(rstr, task_state) index_map"
  rc_task_thread_ids :: "(rstr, u32) index_map"
  rc_next_thread_id :: u32
  rc_background_thread_id :: "u32 option"
  rc_cycle_counter :: u64
  rc_watchdog :: watchdog_policy
  rc_faults :: fault_subsystem
  rc_execution_deadline :: "(nat \<Rightarrow> bool) option"
  rc_checks :: nat

section \<open>Registration\<close>

definition register_function ::
    "function_def \<Rightarrow> ('st, 'd) runtime_core \<Rightarrow> ('st, 'd) runtime_core" where
  "register_function f rt =
     rt\<lparr>rc_functions := im_insert (to_ascii_uppercase (fn_name f)) f (rc_functions rt)\<rparr>"

definition register_function_block ::
    "function_block_def \<Rightarrow> ('st, 'd) runtime_core \<Rightarrow> ('st, 'd) runtime_core" where
  "register_function_block d rt =
     rt\<lparr>rc_function_blocks := im_insert (to_ascii_uppercase (fb_name d)) d (rc_function_blocks rt)\<rparr>"

definition register_class :: "class_def \<Rightarrow> ('st, 'd) runtime_core \<Rightarrow> ('st, 'd) runtime_core" where
  "register_class d rt =
     rt\<lparr>rc_classes := im_insert (to_ascii_uppercase (cd_name d)) d (rc_classes rt)\<rparr>"

definition register_builtin_block ::
    "('st, 'd) runtime_core \<Rightarrow> fb_def \<Rightarrow> ('st, 'd) runtime_core" where
  "register_builtin_block rt d =
     (let name = fbd_name d;
          rt =
            (if registry_lookup (ev_to_uppercase (rc_env rt)) (rc_registry rt) name = None
             then rt\<lparr>rc_registry := snd (registry_register name (TyFunctionBlock name) (rc_registry rt))\<rparr>
             else rt)
      in register_function_block (standard_block_def d) rt)"

definition register_builtin_function_blocks ::
    "('st, 'd) runtime_core \<Rightarrow> ('st, 'd) runtime_core" where
  "register_builtin_function_blocks rt = foldl register_builtin_block rt standard_function_blocks"

definition runtime_new :: "eval_env \<Rightarrow> standard_library \<Rightarrow> ('st, 'd) runtime_core" where
  "runtime_new env lib =
     register_builtin_function_blocks
       \<lparr>rt_storage = storage_new, rt_globals = [], rt_current_time = 0,
        rt_retain = retain_manager_default, rc_env = env, rc_profile = date_time_profile_default,
        rc_registry = registry_new, rc_io = io_subsystem_new, rc_access = [], rc_stdlib = lib,
        rc_functions = [], rc_function_blocks = [], rc_classes = [], rc_programs = [],
        rc_tasks = [], rc_task_state = [], rc_task_thread_ids = [], rc_next_thread_id = 1,
        rc_background_thread_id = None, rc_cycle_counter = 0, rc_watchdog = watchdog_policy_default,
        rc_faults = fault_subsystem_new, rc_execution_deadline = None, rc_checks = 0\<rparr>"

definition register_global_meta ::
    "rstr \<Rightarrow> u32 \<Rightarrow> retain_policy \<Rightarrow> global_init \<Rightarrow> ('st, 'd) runtime_core \<Rightarrow> ('st, 'd) runtime_core"
where
  "register_global_meta name type_id retain init rt =
     rt\<lparr>rt_globals := im_insert name \<lparr>gm_type_id = type_id, gm_retain = retain, gm_init = init\<rparr>
       (rt_globals rt)\<rparr>"

definition register_task :: "task_config \<Rightarrow> ('st, 'd) runtime_core \<Rightarrow> ('st, 'd) runtime_core" where
  "register_task task rt =
     (let state = task_state_new (rt_current_time rt);
          state =
            (case Option.bind (tc_single task) (get_global (rt_storage rt)) of
               Some (VBool value) \<Rightarrow> state\<lparr>ks_last_single := value\<rparr>
             | _ \<Rightarrow> state);
          rt =
            (if im_contains (rc_task_thread_ids rt) (tc_name task) then rt
             else rt\<lparr>rc_next_thread_id := succ_sat (rc_next_thread_id rt),
               rc_task_thread_ids :=
                 im_insert (tc_name task) (rc_next_thread_id rt) (rc_task_thread_ids rt)\<rparr>)
      in rt\<lparr>rc_task_state := im_insert (tc_name task) state (rc_task_state rt),
            rc_tasks := rc_tasks rt @ [task]\<rparr>)"

text \<open>The names of the programs that some task runs.\<close>

definition scheduled_programs :: "('st, 'd) runtime_core \<Rightarrow> rstr list" where
  "scheduled_programs rt = concat (map tc_programs (rc_tasks rt))"

definition has_background_programs :: "('st, 'd) runtime_core \<Rightarrow> bool" where
  "has_background_programs rt \<longleftrightarrow>
     (\<exists>name\<in>set (map fst (rc_programs rt)). name \<notin> set (scheduled_programs rt))"

definition ensure_background_thread_id ::
    "('st, 'd) runtime_core \<Rightarrow> u32 option \<times> ('st, 'd) runtime_core" where
  "ensure_background_thread_id rt =
     (if \<not> has_background_programs rt then (None, rt)
      else if rc_background_thread_id rt = None then
        (Some (rc_next_thread_id rt),
          rt\<lparr>rc_background_thread_id := Some (rc_next_thread_id rt),
             rc_next_thread_id := succ_sat (rc_next_thread_id rt)\<rparr>)
      else (rc_background_thread_id rt, rt))"

definition advance_time :: "duration \<Rightarrow> ('st, 'd) runtime_core \<Rightarrow> ('st, 'd) runtime_core" where
  "advance_time delta rt = rt\<lparr>rt_current_time := rt_current_time rt + delta\<rparr>"

definition set_current_time :: "duration \<Rightarrow> ('st, 'd) runtime_core \<Rightarrow> ('st, 'd) runtime_core" where
  "set_current_time time rt = rt\<lparr>rt_current_time := time\<rparr>"

definition faulted :: "('st, 'd) runtime_core \<Rightarrow> bool" where
  "faulted rt \<longleftrightarrow> ft_faulted (rc_faults rt)"

definition clear_fault :: "('st, 'd) runtime_core \<Rightarrow> ('st, 'd) runtime_core" where
  "clear_fault rt = rt\<lparr>rc_faults := fault_clear (rc_faults rt)\<rparr>"

definition task_overrun_count :: "('st, 'd) runtime_core \<Rightarrow> rstr \<Rightarrow> u64 option" where
  "task_overrun_count rt name = map_option ks_overrun_count (im_get (rc_task_state rt) name)"

section \<open>Faults\<close>

text \<open>An error while the safe state is applied is dropped; what was written before it stays.\<close>

definition apply_fault ::
    "'d driver_ops \<Rightarrow> runtime_error \<Rightarrow> fault_decision \<Rightarrow> ('st, 'd) runtime_core
      \<Rightarrow> ('st, 'd) runtime_core" where
  "apply_fault ops err decision rt =
     (let rt =
        (if fd_apply_safe_state decision
         then rt\<lparr>rc_io := snd (is_apply_safe_state ops (rc_io rt))\<rparr> else rt)
      in rt\<lparr>rc_faults := fault_record err (rc_faults rt)\<rparr>)"

definition watchdog_timeout ::
    "'d driver_ops \<Rightarrow> ('st, 'd) runtime_core \<Rightarrow> runtime_error \<times> ('st, 'd) runtime_core" where
  "watchdog_timeout ops rt =
     (WatchdogTimeout, apply_fault ops WatchdogTimeout (watchdog_decision (rc_watchdog rt)) rt)"

definition simulation_fault ::
    "'d driver_ops \<Rightarrow> rstr \<Rightarrow> ('st, 'd) runtime_core \<Rightarrow> runtime_error \<times> ('st, 'd) runtime_core" where
  "simulation_fault ops message rt =
     (SimulationFault message,
       apply_fault ops (SimulationFault message) (fault_decision_of (rc_faults rt)) rt)"

section \<open>Access paths\<close>

definition read_access :: "('st, 'd) runtime_core \<Rightarrow> rstr \<Rightarrow> rvalue option" where
  "read_access rt name =
     Option.bind (access_get (rc_access rt) name) (\<lambda>binding.
     Option.bind (read_by_ref (rt_storage rt) (ab_reference binding)) (\<lambda>value.
       case ab_partial binding of
         Some part \<Rightarrow>
           (case read_partial_access value part of Inl _ \<Rightarrow> None | Inr v \<Rightarrow> Some v)
       | None \<Rightarrow> Some value))"

definition store_by_ref ::
    "value_ref \<Rightarrow> rvalue \<Rightarrow> ('st, 'd) runtime_core \<Rightarrow> (runtime_error + unit) \<times> ('st, 'd) runtime_core"
where
  "store_by_ref reference value rt =
     (case write_by_ref reference value (rt_storage rt) of
        (ok, s) \<Rightarrow> ((if ok then Inr () else Inl NullReference), rt\<lparr>rt_storage := s\<rparr>))"

definition write_access ::
    "rstr \<Rightarrow> rvalue \<Rightarrow> ('st, 'd) runtime_core \<Rightarrow> (runtime_error + unit) \<times> ('st, 'd) runtime_core" where
  "write_access name value rt =
     (case access_get (rc_access rt) name of
        None \<Rightarrow> (Inl (UndefinedVariable name), rt)
      | Some binding \<Rightarrow>
          (case ab_partial binding of
             Some part \<Rightarrow>
               (case read_by_ref (rt_storage rt) (ab_reference binding) of
                  None \<Rightarrow> (Inl NullReference, rt)
                | Some current \<Rightarrow>
                    (case pa_result (write_partial_access current part value) of
                       Inl e \<Rightarrow> (Inl e, rt)
                     | Inr updated \<Rightarrow> store_by_ref (ab_reference binding) updated rt))
           | None \<Rightarrow> store_by_ref (ab_reference binding) value rt))"

section \<open>Evaluation in a runtime\<close>

definition runtime_ctx ::
    "rstr list option \<Rightarrow> instance_id option \<Rightarrow> ('st, 'd) runtime_core \<Rightarrow> eval_ctx" where
  "runtime_ctx using inst rt =
     \<lparr>cx_env = rc_env rt, cx_storage = rt_storage rt, cx_registry = rc_registry rt,
      cx_profile = rc_profile rt, cx_now = rt_current_time rt, cx_call_depth = 0,
      cx_functions = Some (rc_functions rt), cx_stdlib = Some (rc_stdlib rt),
      cx_function_blocks = Some (rc_function_blocks rt), cx_classes = Some (rc_classes rt),
      cx_using = using, cx_access = Some (rc_access rt), cx_current_instance = inst,
      cx_return_name = None, cx_loop_depth = 0, cx_deadline = rc_execution_deadline rt,
      cx_checks = rc_checks rt\<rparr>"

definition with_ctx ::
    "rstr list option \<Rightarrow> instance_id option \<Rightarrow> 'a ev \<Rightarrow> (('st, 'd) runtime_core, 'a) op" where
  "with_ctx using inst m =
     (\<lambda>rt. case m (runtime_ctx using inst rt) of
        None \<Rightarrow> None
      | Some (r, c) \<Rightarrow> Some (r, rt\<lparr>rt_storage := cx_storage c, rc_checks := cx_checks c\<rparr>))"

text \<open>With a frame, the evaluation runs with that frame on top (\<open>with_frame\<close>).\<close>

definition with_eval_context ::
    "frame_id option \<Rightarrow> rstr list option \<Rightarrow> 'a ev \<Rightarrow> (('st, 'd) runtime_core, 'a) op" where
  "with_eval_context frame using m =
     (case frame of
        None \<Rightarrow> with_ctx using None m
      | Some frame_id \<Rightarrow>
          (\<lambda>rt.
             (let run = (\<lambda>s.
                (let inst = Option.bind (current_frame s) lf_instance_id in
                 case with_ctx using inst m (rt\<lparr>rt_storage := s\<rparr>) of
                   None \<Rightarrow> (None, s)
                 | Some (r, rt') \<Rightarrow> (Some (r, rc_checks rt'), rt_storage rt')))
              in case with_frame frame_id run (rt_storage rt) of
                   None \<Rightarrow> None
                 | Some (None, s) \<Rightarrow> Some (Inl (InvalidFrame frame_id), rt\<lparr>rt_storage := s\<rparr>)
                 | Some (Some None, _) \<Rightarrow> None
                 | Some (Some (Some (r, checks)), s) \<Rightarrow>
                     Some (r, rt\<lparr>rt_storage := s, rc_checks := checks\<rparr>))))"

definition evaluate_expression ::
    "nat \<Rightarrow> expr \<Rightarrow> frame_id option \<Rightarrow> (('st, 'd) runtime_core, rvalue) op" where
  "evaluate_expression fuel e frame =
     with_eval_context frame None (ip_expr (interp_at fuel) e)"

definition register_program ::
    "nat \<Rightarrow> program_def \<Rightarrow> (('st, 'd) runtime_core, unit) op" where
  "register_program fuel program =
     ebind (with_ctx None None (create_program_instance (interp_at fuel) program)) (\<lambda>i.
       emodify (\<lambda>rt. rt\<lparr>rt_storage := set_global (pg_name program) (VInstance i) (rt_storage rt),
         rc_programs := im_insert (pg_name program) program (rc_programs rt)\<rparr>))"

section \<open>The namespaces of a frame\<close>

text \<open>Of a method without namespaces of its own, those of its type.\<close>

definition using_of_member ::
    "method_def list \<Rightarrow> rstr list \<Rightarrow> rstr \<Rightarrow> rstr \<Rightarrow> rstr list option" where
  "using_of_member methods using type_name owner =
     (case find_method methods owner of
        Some m \<Rightarrow> Some (if md_using m = [] then using else md_using m)
      | None \<Rightarrow> if eq_ignore_ascii_case type_name owner then Some using else None)"

definition resolve_using_for_owner :: "('st, 'd) runtime_core \<Rightarrow> rstr \<Rightarrow> rstr list option" where
  "resolve_using_for_owner rt owner =
     (let key = to_ascii_uppercase owner in
      case im_get (rc_functions rt) key of
        Some f \<Rightarrow> Some (fn_using f)
      | None \<Rightarrow> map_option pg_using (im_get (rc_programs rt) key))"

definition resolve_using_for_frame ::
    "('st, 'd) runtime_core \<Rightarrow> local_frame \<Rightarrow> rstr list option" where
  "resolve_using_for_frame rt frame =
     (let owner = lf_owner frame; fallback = resolve_using_for_owner rt owner in
      case lf_instance_id frame of
        None \<Rightarrow> fallback
      | Some i \<Rightarrow>
          (case get_instance (rt_storage rt) i of
             None \<Rightarrow> None
           | Some inst \<Rightarrow>
               (let key = to_ascii_uppercase (in_type_name inst);
                    of_block = Option.bind (im_get (rc_function_blocks rt) key)
                      (\<lambda>d. using_of_member (fb_methods d) (fb_using d) (fb_name d) owner);
                    of_class = Option.bind (im_get (rc_classes rt) key)
                      (\<lambda>d. using_of_member (cd_methods d) (cd_using d) (cd_name d) owner)
                in case of_block of
                     Some using \<Rightarrow> Some using
                   | None \<Rightarrow> (case of_class of Some using \<Rightarrow> Some using | None \<Rightarrow> fallback))))"

definition using_for_frame :: "('st, 'd) runtime_core \<Rightarrow> frame_id \<Rightarrow> rstr list option" where
  "using_for_frame rt frame_id =
     Option.bind (find_frame (rt_storage rt) frame_id) (resolve_using_for_frame rt)"

end
