(* ===== verification/Cycle.thy ===== *)
theory Cycle
  imports Runtime_Core "HOL-Library.Product_Lexorder"
begin

text \<open>
  One scan cycle of a runtime (\<open>runtime/cycle.rs\<close>): the inputs are read, the tasks that are due run
  in the order of priority and due time, then the programs of no task, then the outputs are written
  and retained variables saved. No debug control is attached. An operation is \<^const>\<open>None\<close> when the
  fuel of the interpreter does not suffice or the code panics. The restart (\<open>runtime/restart.rs\<close>) is
  at the end.
\<close>

section \<open>Saturating arithmetic\<close>

definition saturating_add :: "i64 \<Rightarrow> i64 \<Rightarrow> i64" where
  "saturating_add a b =
     (let d = sint a + sint b in
      word_of_int (max (signed_min TYPE(64)) (min (signed_max TYPE(64)) d)))"

definition saturating_add_u64 :: "u64 \<Rightarrow> u64 \<Rightarrow> u64" where
  "saturating_add_u64 a b = word_of_int (min (2 ^ 64 - 1) (uint a + uint b))"

section \<open>Tasks that are due\<close>

record ready_task =
  ry_index :: nat
  ry_due_at :: duration

definition single_now :: "variable_storage \<Rightarrow> task_config \<Rightarrow> runtime_error + bool" where
  "single_now s task =
     (case tc_single task of
        None \<Rightarrow> Inr False
      | Some name \<Rightarrow>
          (case get_global s name of
             None \<Rightarrow> Inl (UndefinedVariable name)
           | Some (VBool value) \<Rightarrow> Inr value
           | Some _ \<Rightarrow> Inl (InvalidTaskSingle name)))"

text \<open>The due time of a task, if any, and its state after the check.\<close>

definition due_task ::
    "duration \<Rightarrow> bool \<Rightarrow> task_config \<Rightarrow> task_state \<Rightarrow> duration option \<times> task_state" where
  "due_task now single task state =
     (let event_due = (\<not> ks_last_single state \<and> single);
          interval = tc_interval task;
          elapsed = saturating_sub now (ks_last_run state);
          periodic_due = (0 < sint interval \<and> \<not> single \<and> sint interval \<le> sint elapsed);
          due_at = (if event_due then Some now else None);
          (due_at, state) =
            (if periodic_due then
               (let intervals = sint elapsed div sint interval;
                    overrun =
                      (if 1 < intervals
                       then saturating_add_u64 (ks_overrun_count state) (word_of_int (intervals - 1))
                       else ks_overrun_count state);
                    due_time = saturating_add (ks_last_run state) interval
                in (Some (case due_at of
                      Some existing \<Rightarrow> if sint existing \<le> sint due_time then existing else due_time
                    | None \<Rightarrow> due_time),
                    state\<lparr>ks_overrun_count := overrun, ks_last_run := now\<rparr>))
             else (due_at, state))
      in (due_at, state\<lparr>ks_last_single := single\<rparr>))"

text \<open>
  The loop over the tasks: the states checked before an error stay changed, and what was ready is
  dropped.
\<close>

fun collect_ready ::
    "variable_storage \<Rightarrow> duration \<Rightarrow> nat \<Rightarrow> task_config list \<Rightarrow> (rstr, task_state) index_map
      \<Rightarrow> (runtime_error + ready_task list) \<times> (rstr, task_state) index_map" where
  "collect_ready s now idx [] states = (Inr [], states)"
| "collect_ready s now idx (task # tasks) states =
     (case im_get states (tc_name task) of
        None \<Rightarrow> (Inl (UndefinedTask (tc_name task)), states)
      | Some state \<Rightarrow>
          (case single_now s task of
             Inl e \<Rightarrow> (Inl e, states)
           | Inr single \<Rightarrow>
               (case due_task now single task state of
                  (due_at, state) \<Rightarrow>
                    (case collect_ready s now (Suc idx) tasks (im_insert (tc_name task) state states) of
                       (Inl e, states) \<Rightarrow> (Inl e, states)
                     | (Inr ready, states) \<Rightarrow>
                         (Inr (case due_at of
                            Some due \<Rightarrow> \<lparr>ry_index = idx, ry_due_at = due\<rparr> # ready
                          | None \<Rightarrow> ready), states)))))"

definition collect_ready_tasks :: "(('st, 'd) runtime_core, ready_task list) op" where
  "collect_ready_tasks =
     (\<lambda>rt. case collect_ready (rt_storage rt) (rt_current_time rt) 0 (rc_tasks rt) (rc_task_state rt) of
        (r, states) \<Rightarrow> Some (r, rt\<lparr>rc_task_state := states\<rparr>))"

definition ready_key :: "task_config list \<Rightarrow> ready_task \<Rightarrow> nat \<times> int \<times> nat" where
  "ready_key tasks e =
     (unat (tc_priority (tasks ! ry_index e)), sint (ry_due_at e), ry_index e)"

definition sort_ready :: "task_config list \<Rightarrow> ready_task list \<Rightarrow> ready_task list" where
  "sort_ready tasks ready = sort_key (ready_key tasks) ready"

section \<open>Programs and function blocks\<close>

definition program_body :: "interp \<Rightarrow> program_def \<Rightarrow> instance_id option \<Rightarrow> unit ev" where
  "program_body I program inst =
     (let has_frame = (inst \<noteq> None \<or> pg_temps program \<noteq> []);
          pop = (if has_frame then pop_ctx else (\<lambda>c. c))
      in ebind
           (if \<not> has_frame then eret ()
            else
              ebind
                (case inst of
                   Some i \<Rightarrow> push_frame_with_instance_ev (pg_name program) i
                 | None \<Rightarrow> push_frame_ev (pg_name program)) (\<lambda>_.
              if pg_temps program = [] then eret ()
              else eon_error pop (init_locals_in_frame I (pg_temps program)))) (\<lambda>_.
         ebind (eon_error pop (exec_block I (pg_body program))) (\<lambda>result.
         ebind (emodify pop) (\<lambda>_. eguard (result = RContinue) InvalidControlFlow))))"

definition program_instance :: "variable_storage \<Rightarrow> rstr \<Rightarrow> instance_id option" where
  "program_instance s name =
     (case get_global s name of Some (VInstance i) \<Rightarrow> Some i | _ \<Rightarrow> None)"

definition execute_program ::
    "nat \<Rightarrow> program_def \<Rightarrow> (('st, 'd) runtime_core, unit) op" where
  "execute_program fuel program =
     ebind (eget (\<lambda>rt. program_instance (rt_storage rt) (pg_name program))) (\<lambda>inst.
       with_ctx (Some (pg_using program)) inst (program_body (interp_at fuel) program inst))"

definition execute_program_by_name ::
    "nat \<Rightarrow> rstr \<Rightarrow> (('st, 'd) runtime_core, unit) op" where
  "execute_program_by_name fuel name =
     ebind (elift (\<lambda>rt. ok_or (im_get (rc_programs rt) name) (UndefinedProgram name)))
       (execute_program fuel)"

text \<open>An error in the initialization of the temporaries leaves the frame on the stack.\<close>

definition block_ref_body :: "interp \<Rightarrow> function_block_def \<Rightarrow> instance_id \<Rightarrow> unit ev" where
  "block_ref_body I d i =
     ebind (push_frame_with_instance_ev (fb_name d) i) (\<lambda>_.
     ebind (eget (\<lambda>c. get_instance_var (cx_storage c) i ''EN'')) (\<lambda>en.
       if list_ex (is_param ''EN'' DirIn) (fb_params d) \<and> en = Some (VBool False) then
         ebind
           (if list_ex (is_param ''ENO'' DirOut) (fb_params d)
            then ebind (estorage (set_instance_var i ''ENO'' (VBool False))) (\<lambda>_. eret ())
            else eret ())
           (\<lambda>_. emodify pop_ctx)
       else
         (case builtin_kind (fb_name d) of
            Some kind \<Rightarrow>
              ebind (eon_error pop_ctx (exec_builtin i kind)) (\<lambda>_. emodify pop_ctx)
          | None \<Rightarrow>
              ebind (init_locals_in_frame I (fb_temps d)) (\<lambda>_.
              ebind (eon_error pop_ctx (exec_block I (fb_body d))) (\<lambda>_. emodify pop_ctx)))))"

definition block_of_ref ::
    "('st, 'd) runtime_core \<Rightarrow> value_ref \<Rightarrow> runtime_error + instance_id \<times> function_block_def" where
  "block_of_ref rt reference =
     (case read_by_ref (rt_storage rt) reference of
        None \<Rightarrow> Inl NullReference
      | Some (VInstance i) \<Rightarrow>
          rbind (ok_or (get_instance (rt_storage rt) i) NullReference) (\<lambda>inst.
          rbind (ok_or (im_get (rc_function_blocks rt) (to_ascii_uppercase (in_type_name inst)))
            (UndefinedFunctionBlock (in_type_name inst))) (\<lambda>d.
            Inr (i, d)))
      | Some _ \<Rightarrow> Inl TypeMismatch)"

definition execute_function_block_ref ::
    "nat \<Rightarrow> value_ref \<Rightarrow> (('st, 'd) runtime_core, unit) op" where
  "execute_function_block_ref fuel reference =
     ebind (elift (\<lambda>rt. block_of_ref rt reference)) (\<lambda>(i, d).
       with_ctx (Some (fb_using d)) (Some i) (block_ref_body (interp_at fuel) d i))"

definition execute_task :: "nat \<Rightarrow> task_config \<Rightarrow> (('st, 'd) runtime_core, unit) op" where
  "execute_task fuel task =
     ebind (eeach (execute_program_by_name fuel) (tc_programs task)) (\<lambda>_.
       eeach (execute_function_block_ref fuel) (tc_fb_instances task))"

definition background_programs :: "('st, 'd) runtime_core \<Rightarrow> program_def list" where
  "background_programs rt =
     map snd (filter (\<lambda>(name, _). name \<notin> set (scheduled_programs rt)) (rc_programs rt))"

definition execute_background_programs :: "nat \<Rightarrow> (('st, 'd) runtime_core, unit) op" where
  "execute_background_programs fuel =
     ebind (eget background_programs) (\<lambda>background.
       if background = [] then eret ()
       else
         ebind (emodify (\<lambda>rt. snd (ensure_background_thread_id rt))) (\<lambda>_.
           eeach (execute_program fuel) background))"

section \<open>Inputs and outputs\<close>

definition io_step ::
    "('d io_subsystem \<Rightarrow> (runtime_error + unit) \<times> 'd io_subsystem)
      \<Rightarrow> (('st, 'd) runtime_core, unit) op" where
  "io_step f = (\<lambda>rt. case f (rc_io rt) of (r, io) \<Rightarrow> Some (r, rt\<lparr>rc_io := io\<rparr>))"

definition read_cycle_inputs :: "'d driver_ops \<Rightarrow> (('st, 'd) runtime_core, unit) op" where
  "read_cycle_inputs ops =
     ebind (io_step (is_read_inputs ops)) (\<lambda>_.
       (\<lambda>rt. case io_read_inputs (is_interface (rc_io rt)) (rt_storage rt) of
          (r, s) \<Rightarrow> Some (r, rt\<lparr>rt_storage := s\<rparr>)))"

definition write_cycle_outputs :: "'d driver_ops \<Rightarrow> (('st, 'd) runtime_core, unit) op" where
  "write_cycle_outputs ops =
     ebind
       (\<lambda>rt. case io_write_outputs (rt_storage rt) (is_interface (rc_io rt)) of
          (r, interface) \<Rightarrow> Some (r, rt\<lparr>rc_io := (rc_io rt)\<lparr>is_interface := interface\<rparr>\<rparr>))
       (\<lambda>_. io_step (is_write_outputs ops))"

section \<open>The cycle\<close>

text \<open>
  What is behind the traits \<open>IoDriver\<close> and \<open>RetainStore\<close>, and the equality of snapshots, which
  compares floating-point numbers.
\<close>

record ('st, 'd) platform =
  pf_drivers :: "'d driver_ops"
  pf_load :: "'st \<Rightarrow> runtime_error + retain_snapshot"
  pf_store :: "'st \<Rightarrow> retain_snapshot \<Rightarrow> (runtime_error + unit) \<times> 'st"
  pf_same :: "retain_snapshot \<Rightarrow> retain_snapshot \<Rightarrow> bool"

definition record_fault ::
    "'d driver_ops \<Rightarrow> runtime_error \<Rightarrow> ('st, 'd) runtime_core \<Rightarrow> ('st, 'd) runtime_core" where
  "record_fault ops err rt = apply_fault ops err (fault_decision_of (rc_faults rt)) rt"

text \<open>\<open>if let Err(err) = m { return Err(self.record_fault(err)) }\<close>.\<close>

definition or_fault ::
    "'d driver_ops \<Rightarrow> (('st, 'd) runtime_core, 'a) op \<Rightarrow> (('st, 'd) runtime_core, 'a) op" where
  "or_fault ops m =
     (\<lambda>rt. case m rt of
        Some (Inl e, rt) \<Rightarrow> Some (Inl e, record_fault ops e rt)
      | r \<Rightarrow> r)"

definition run_ready ::
    "nat \<Rightarrow> 'd driver_ops \<Rightarrow> ready_task \<Rightarrow> (('st, 'd) runtime_core, unit) op" where
  "run_ready fuel ops e =
     ebind (eget (\<lambda>rt. rc_tasks rt ! ry_index e)) (\<lambda>task. or_fault ops (execute_task fuel task))"

definition save_retained :: "('st, 'd) platform \<Rightarrow> (('st, 'd) runtime_core, unit) op" where
  "save_retained pf =
     (\<lambda>rt.
        if \<not> rm_has_store (rt_retain rt) then Some (Inr (), rt)
        else
          or_fault (pf_drivers pf)
            (\<lambda>rt. Some (rt_maybe_save_retain_store (pf_same pf) (pf_store pf) rt))
            (rt\<lparr>rt_retain := rm_mark_dirty (rt_retain rt)\<rparr>))"

definition execute_cycle ::
    "nat \<Rightarrow> ('st, 'd) platform \<Rightarrow> (('st, 'd) runtime_core, unit) op" where
  "execute_cycle fuel pf =
     (let ops = pf_drivers pf in
      ebind (elift (\<lambda>rt. if faulted rt then Inl ResourceFaulted else Inr ())) (\<lambda>_.
      ebind (or_fault ops (read_cycle_inputs ops)) (\<lambda>_.
      ebind (or_fault ops collect_ready_tasks) (\<lambda>ready.
      ebind (eget (\<lambda>rt. sort_ready (rc_tasks rt) ready)) (\<lambda>ready.
      ebind (eeach (run_ready fuel ops) ready) (\<lambda>_.
      ebind (or_fault ops (execute_background_programs fuel)) (\<lambda>_.
      ebind (or_fault ops (write_cycle_outputs ops)) (\<lambda>_.
      ebind (save_retained pf) (\<lambda>_.
        emodify (\<lambda>rt. rt\<lparr>rc_cycle_counter :=
          saturating_add_u64 (rc_cycle_counter rt) 1\<rparr>))))))))))"

section \<open>Restart\<close>

text \<open>
  The restart of a runtime (\<open>runtime/restart.rs\<close>): a cold one gives every global and program
  variable its initial value, a warm one keeps those that are retained.
\<close>

datatype restart_mode = RestartCold | RestartWarm

text \<open>The values a warm restart takes over.\<close>

definition retained_globals :: "('st, 'd) runtime_core \<Rightarrow> (rstr, rvalue) index_map" where
  "retained_globals rt =
     foldl (\<lambda>m (name, meta).
       if retain_on_warm (gm_retain meta) then
         (case get_global (rt_storage rt) name of
            Some value \<Rightarrow> im_insert name value m
          | None \<Rightarrow> m)
       else m) [] (rt_globals rt)"

definition retained_var ::
    "variable_storage \<Rightarrow> instance_id \<Rightarrow> rstr \<Rightarrow> var_def \<Rightarrow> (rstr \<times> rstr \<times> rvalue) list" where
  "retained_var s i program v =
     (if \<not> retain_on_warm (vd_retain v) then []
      else
        (case get_instance_var s i (vd_name v) of
           Some value \<Rightarrow> if value_is_retainable value then [(program, vd_name v, value)] else []
         | None \<Rightarrow> []))"

definition retained_program_vars :: "('st, 'd) runtime_core \<Rightarrow> (rstr \<times> rstr \<times> rvalue) list" where
  "retained_program_vars rt =
     concat (map (\<lambda>(_, program).
       case program_instance (rt_storage rt) (pg_name program) of
         None \<Rightarrow> []
       | Some i \<Rightarrow> concat (map (retained_var (rt_storage rt) i (pg_name program)) (pg_vars program)))
       (rc_programs rt))"

definition set_global_op :: "rstr \<Rightarrow> rvalue \<Rightarrow> (('st, 'd) runtime_core, unit) op" where
  "set_global_op name value =
     emodify (\<lambda>rt. rt\<lparr>rt_storage := set_global name value (rt_storage rt)\<rparr>)"

definition init_global ::
    "nat \<Rightarrow> rstr \<Rightarrow> global_init \<Rightarrow> (('st, 'd) runtime_core, unit) op" where
  "init_global fuel name init =
     (case init of
        InitValue value \<Rightarrow> set_global_op name value
      | InitFunctionBlock type_name \<Rightarrow>
          ebind (elift (\<lambda>rt. ok_or (im_get (rc_function_blocks rt) (to_ascii_uppercase type_name))
            (UndefinedFunctionBlock type_name))) (\<lambda>d.
          ebind (with_ctx None None (create_fb_instance (interp_at fuel) d)) (\<lambda>i.
            set_global_op name (VInstance i)))
      | InitClass type_name \<Rightarrow>
          ebind (elift (\<lambda>rt. ok_or (im_get (rc_classes rt) (to_ascii_uppercase type_name))
            TypeMismatch)) (\<lambda>d.
          ebind (with_ctx None None (create_class_instance (interp_at fuel) d)) (\<lambda>i.
            set_global_op name (VInstance i))))"

definition restart_global ::
    "nat \<Rightarrow> restart_mode \<Rightarrow> (rstr, rvalue) index_map \<Rightarrow> rstr \<times> global_meta
      \<Rightarrow> (('st, 'd) runtime_core, unit) op" where
  "restart_global fuel mode retained entry =
     (case entry of (name, meta) \<Rightarrow>
        if mode = RestartWarm \<and> retain_on_warm (gm_retain meta) then
          (case im_get retained name of
             Some value \<Rightarrow> set_global_op name value
           | None \<Rightarrow> init_global fuel name (gm_init meta))
        else init_global fuel name (gm_init meta))"

definition restart_program :: "nat \<Rightarrow> program_def \<Rightarrow> (('st, 'd) runtime_core, unit) op" where
  "restart_program fuel program =
     ebind (with_ctx None None (create_program_instance (interp_at fuel) program)) (\<lambda>i.
       set_global_op (pg_name program) (VInstance i))"

definition restore_var ::
    "rstr \<times> rstr \<times> rvalue \<Rightarrow> variable_storage \<Rightarrow> variable_storage" where
  "restore_var entry s =
     (case entry of (program, name, value) \<Rightarrow>
        (case program_instance s program of
           None \<Rightarrow> s
         | Some i \<Rightarrow> snd (set_instance_var i name value s)))"

text \<open>
  An error on the way leaves what was initialized so far; time, tasks, faults and the counter of
  cycles are reset at the end only.
\<close>

definition restart ::
    "nat \<Rightarrow> restart_mode \<Rightarrow> (('st, 'd) runtime_core, unit) op" where
  "restart fuel mode =
     ebind (eget (\<lambda>rt. if mode = RestartWarm then retained_globals rt else [])) (\<lambda>retained.
     ebind (eget (\<lambda>rt. if mode = RestartWarm then retained_program_vars rt else [])) (\<lambda>program_vars.
     ebind (eget rt_globals) (\<lambda>globals.
     ebind (eeach (restart_global fuel mode retained) globals) (\<lambda>_.
     ebind (eget (\<lambda>rt. map snd (rc_programs rt))) (\<lambda>programs.
     ebind (eeach (restart_program fuel) programs) (\<lambda>_.
       emodify (\<lambda>rt.
         rt\<lparr>rt_storage := clear_frames (foldl (\<lambda>s e. restore_var e s) (rt_storage rt) program_vars),
            rt_current_time := 0,
            rc_task_state := map (\<lambda>(name, _). (name, task_state_new 0)) (rc_task_state rt),
            rc_faults := fault_clear (rc_faults rt),
            rc_cycle_counter := 0\<rparr>)))))))"

end
