(* ===== verification/Schedule_Properties.thy ===== *)
theory Schedule_Properties
  imports Cycle
begin

text \<open>
  When a task is due, in which order the due tasks run, and what the counter of overruns counts.
\<close>

section \<open>Tasks that are due\<close>

text \<open>
  The rule of the language: a task is due at a rising edge of its \<open>SINGLE\<close> variable, or, while that
  is false, when its interval has passed since its last run.
\<close>

definition is_due :: "duration \<Rightarrow> bool \<Rightarrow> task_config \<Rightarrow> task_state \<Rightarrow> duration \<Rightarrow> bool" where
  "is_due now single task state due \<longleftrightarrow>
     (if single then \<not> ks_last_single state \<and> due = now
      else 0 < sint (tc_interval task) \<and>
        sint (tc_interval task) \<le> sint (saturating_sub now (ks_last_run state)) \<and>
        due = saturating_add (ks_last_run state) (tc_interval task))"

lemma due_task_iff: "fst (due_task now single task state) = Some due \<longleftrightarrow> is_due now single task state due"
  by (auto simp: due_task_def is_due_def Let_def)

lemma collect_ready_mem:
  assumes "collect_ready s now idx tasks states = (Inr ready, states')"
    and "distinct (map tc_name tasks)"
  shows "e \<in> set ready \<longleftrightarrow> (\<exists>k < length tasks. ry_index e = idx + k \<and>
    (\<exists>state single. im_get states (tc_name (tasks ! k)) = Some state \<and>
      single_now s (tasks ! k) = Inr single \<and>
      is_due now single (tasks ! k) state (ry_due_at e)))"
  using assms
proof (induction tasks arbitrary: idx states ready)
  case (Cons task tasks)
  obtain state single due state' ready' where
    st: "im_get states (tc_name task) = Some state" and si: "single_now s task = Inr single"
    and du: "due_task now single task state = (due, state')"
    and rest: "collect_ready s now (Suc idx) tasks (im_insert (tc_name task) state' states) =
      (Inr ready', states')"
    and ready: "ready = (case due of Some d \<Rightarrow> \<lparr>ry_index = idx, ry_due_at = d\<rparr> # ready'
      | None \<Rightarrow> ready')"
    using Cons.prems(1) by (auto split: option.splits sum.splits prod.splits)
  have due: "due = Some d \<longleftrightarrow> is_due now single task state d" for d
    using due_task_iff [of now single task state d] du by simp
  have other: "tc_name (tasks ! k) \<noteq> tc_name task" if "k < length tasks" for k
    using Cons.prems(2) nth_mem [OF that] by (metis distinct.simps(2) image_eqI list.simps(9) set_map)
  have head: "e \<in> set ready \<longleftrightarrow>
      ry_index e = idx \<and> due = Some (ry_due_at e) \<or> e \<in> set ready'"
    by (cases e) (auto simp: ready split: option.splits)
  have "e \<in> set ready' \<longleftrightarrow> (\<exists>k < length tasks. ry_index e = Suc idx + k \<and>
      (\<exists>state single. im_get states (tc_name (tasks ! k)) = Some state \<and>
        single_now s (tasks ! k) = Inr single \<and>
        is_due now single (tasks ! k) state (ry_due_at e)))"
    using Cons.IH [OF rest] Cons.prems(2) other by (auto simp: im_get_insert)
  then show ?case
    unfolding head due by (auto simp: less_Suc_eq_0_disj st si)
qed simp

lemma collect_ready_indices:
  assumes "collect_ready s now idx tasks states = (Inr ready, states')"
  shows "sorted_wrt (<) (map ry_index ready) \<and> (\<forall>e\<in>set ready. idx \<le> ry_index e)"
  using assms
proof (induction tasks arbitrary: idx states ready)
  case (Cons task tasks)
  then show ?case
    by (fastforce split: option.splits sum.splits prod.splits)
qed simp

text \<open>The order of the language: urgent tasks first, then those due earlier, then those declared earlier.\<close>

definition runs_before :: "task_config list \<Rightarrow> ready_task \<Rightarrow> ready_task \<Rightarrow> bool" where
  "runs_before tasks a b \<longleftrightarrow>
     (let pa = tc_priority (tasks ! ry_index a); pb = tc_priority (tasks ! ry_index b)
      in pa < pb \<or> pa = pb \<and> (ry_due_at a <s ry_due_at b \<or>
           ry_due_at a = ry_due_at b \<and> ry_index a < ry_index b))"

lemma ready_key_less: "ready_key tasks a < ready_key tasks b \<longleftrightarrow> runs_before tasks a b"
proof -
  have "unat x = unat y \<longleftrightarrow> x = y" for x y :: u32
    by (simp add: word_unat_eq_iff)
  moreover have "sint x = sint y \<longleftrightarrow> x = y" for x y :: i64
    by (auto intro: signed_word_eqI)
  ultimately show ?thesis
    by (auto simp: ready_key_def runs_before_def less_prod_def' Let_def word_less_nat_alt
        word_sless_alt)
qed

text \<open>C4: The list of tasks a cycle runs holds exactly the tasks that are due, each once with its due
  time, in the order of priority (the smallest number first), then due time, then registration.\<close>

theorem ready_tasks_in_order:
  assumes "collect_ready s now 0 tasks states = (Inr ready, states')"
    and "distinct (map tc_name tasks)"
  shows "sorted_wrt (runs_before tasks) (sort_ready tasks ready) \<and>
    (\<forall>i due. \<lparr>ry_index = i, ry_due_at = due\<rparr> \<in> set (sort_ready tasks ready) \<longleftrightarrow>
      i < length tasks \<and> (\<exists>state single. im_get states (tc_name (tasks ! i)) = Some state \<and>
        single_now s (tasks ! i) = Inr single \<and> is_due now single (tasks ! i) state due))"
proof
  let ?key = "ready_key tasks"
  have "distinct (map ry_index ready)"
    using collect_ready_indices [OF assms(1)] by (simp add: strict_sorted_iff)
  then have "distinct (map ?key ready)"
    by (auto simp: distinct_map inj_on_def ready_key_def)
  then have "distinct (map ?key (sort_key ?key ready))"
    by (simp add: distinct_map)
  then have "sorted_wrt (<) (map ?key (sort_key ?key ready))"
    by (simp add: strict_sorted_iff)
  then show "sorted_wrt (runs_before tasks) (sort_ready tasks ready)"
    by (simp add: sort_ready_def sorted_wrt_map ready_key_less)
  show "\<forall>i due. \<lparr>ry_index = i, ry_due_at = due\<rparr> \<in> set (sort_ready tasks ready) \<longleftrightarrow>
      i < length tasks \<and> (\<exists>state single. im_get states (tc_name (tasks ! i)) = Some state \<and>
        single_now s (tasks ! i) = Inr single \<and> is_due now single (tasks ! i) state due)"
    using collect_ready_mem [OF assms] by (simp add: sort_ready_def)
qed

definition example_task :: "rstr \<Rightarrow> i64 \<Rightarrow> u32 \<Rightarrow> task_config" where
  "example_task name interval priority =
     \<lparr>tc_name = name, tc_interval = interval, tc_single = None, tc_priority = priority,
      tc_programs = [], tc_fb_instances = []\<rparr>"

definition example_tasks :: "task_config list" where
  "example_tasks = [example_task ''slow'' 20 2, example_task ''fast'' 10 1]"

definition example_states :: "(rstr, task_state) index_map" where
  "example_states = [(''slow'', task_state_new 0), (''fast'', task_state_new 0)]"

lemma ready_tasks_in_order_witness:
  "sorted_wrt (runs_before example_tasks)
     (sort_ready example_tasks
       [\<lparr>ry_index = 0, ry_due_at = 20\<rparr>, \<lparr>ry_index = 1, ry_due_at = 10\<rparr>]) \<and>
   ry_index (hd (sort_ready example_tasks
       [\<lparr>ry_index = 0, ry_due_at = 20\<rparr>, \<lparr>ry_index = 1, ry_due_at = 10\<rparr>])) = 1"
proof -
  have "collect_ready storage_new 25 0 example_tasks example_states =
      (Inr [\<lparr>ry_index = 0, ry_due_at = 20\<rparr>, \<lparr>ry_index = 1, ry_due_at = 10\<rparr>],
       [(''slow'', \<lparr>ks_last_single = False, ks_last_run = 25, ks_overrun_count = 0\<rparr>),
        (''fast'', \<lparr>ks_last_single = False, ks_last_run = 25, ks_overrun_count = 1\<rparr>)])"
    by (simp add: example_tasks_def example_states_def example_task_def task_state_new_def im_get_def
        single_now_def due_task_def saturating_sub_def saturating_add_def saturating_add_u64_def
        im_insert_def signed_max_def signed_min_def Let_def)
  moreover have "distinct (map tc_name example_tasks)"
    by (simp add: example_tasks_def example_task_def)
  ultimately show ?thesis
    using ready_tasks_in_order [of storage_new 25 example_tasks example_states]
    by (simp add: sort_ready_def ready_key_def example_tasks_def example_task_def)
qed

section \<open>The counter of overruns\<close>

text \<open>
  A periodic task over the times of the cycles: the number of times it runs, and its state at the
  end.
\<close>

fun task_runs :: "task_config \<Rightarrow> task_state \<Rightarrow> duration list \<Rightarrow> nat \<times> task_state" where
  "task_runs task state [] = (0, state)"
| "task_runs task state (now # ts) =
     (case due_task now False task state of
        (due, state) \<Rightarrow>
          (case task_runs task state ts of
             (n, state) \<Rightarrow> ((if due = None then n else Suc n), state)))"

lemma saturating_sub_in_order:
  assumes "0 \<le> sint b" and "sint b \<le> sint a"
  shows "sint (saturating_sub a b) = sint a - sint b"
proof -
  have "sint a - sint b \<le> signed_max TYPE(64)" and "signed_min TYPE(64) \<le> sint a - sint b"
    using assms sint_bounds(2) [of a] by (auto simp: signed_min_def)
  then show ?thesis
    by (simp add: saturating_sub_def Let_def sint_of_int_id max_def min_def)
qed

lemma uint_saturating_add_u64: "uint (saturating_add_u64 a b) \<le> uint a + uint b"
proof -
  let ?x = "min (2 ^ 64 - 1) (uint a + uint b)"
  have "uint (saturating_add_u64 a b) = ?x mod 2 ^ 64"
    by (simp add: saturating_add_u64_def uint_word_of_int)
  also have "\<dots> \<le> ?x"
    by (rule zmod_le_nonneg_dividend) simp
  finally show ?thesis
    by simp
qed

lemma uint_of_int_le: "0 \<le> x \<Longrightarrow> uint (word_of_int x :: u64) \<le> x"
  by (simp add: uint_word_of_int zmod_le_nonneg_dividend)

lemma due_task_periodic:
  fixes task state now
  defines "I \<equiv> sint (tc_interval task)" and "d \<equiv> sint now - sint (ks_last_run state)"
  assumes "0 < I" and "0 \<le> sint (ks_last_run state)" and "sint (ks_last_run state) \<le> sint now"
    and due: "due_task now False task state = (due, state')"
  shows "due \<noteq> None \<longleftrightarrow> I \<le> d"
    and "ks_last_run state' = (if I \<le> d then now else ks_last_run state)"
    and "uint (ks_overrun_count state') \<le>
      uint (ks_overrun_count state) + (if I \<le> d then d div I - 1 else 0)"
proof -
  have e: "sint (saturating_sub now (ks_last_run state)) = d"
    using assms by (simp add: saturating_sub_in_order)
  show "due \<noteq> None \<longleftrightarrow> I \<le> d" "ks_last_run state' = (if I \<le> d then now else ks_last_run state)"
    using assms(3) due by (auto simp: due_task_def e Let_def I_def split: if_splits)
  show "uint (ks_overrun_count state') \<le>
      uint (ks_overrun_count state) + (if I \<le> d then d div I - 1 else 0)"
  proof (cases "I \<le> d \<and> 1 < d div I")
    case True
    have "uint (word_of_int (d div I - 1) :: u64) \<le> d div I - 1"
      using True by (intro uint_of_int_le) simp
    moreover have "ks_overrun_count state' =
        saturating_add_u64 (ks_overrun_count state) (word_of_int (d div I - 1))"
      using True assms(3) due by (auto simp: due_task_def e Let_def I_def split: if_splits)
    ultimately show ?thesis
      using True uint_saturating_add_u64 [of "ks_overrun_count state" "word_of_int (d div I - 1)"]
      by simp
  next
    case False
    have "ks_overrun_count state' = ks_overrun_count state"
      using False due by (auto simp: due_task_def e Let_def I_def split: if_splits)
    moreover have "0 < d div I" if "I \<le> d"
      using that assms(3) by (simp add: pos_imp_zdiv_pos_iff)
    ultimately show ?thesis by auto
  qed
qed

lemma div_add_le:
  fixes a b I :: int
  assumes "0 < I"
  shows "a div I + b div I \<le> (a + b) div I"
proof -
  have le: "I * (x div I) \<le> x" for x
    using mult_div_mod_eq [of I x] pos_mod_sign [OF assms, of x] by linarith
  have "(I * (a div I + b div I)) div I \<le> (a + b) div I"
    by (rule zdiv_mono1 [OF _ assms]) (use le [of a] le [of b] in \<open>simp add: distrib_left\<close>)
  then show ?thesis
    using assms by simp
qed

text \<open>One cycle, then the intervals up to a later time \<open>x\<close>.\<close>

lemma due_task_intervals:
  assumes "0 < sint (tc_interval task)" and "0 \<le> sint (ks_last_run state)"
    and "sint (ks_last_run state) \<le> sint now"
    and "due_task now False task state = (due, state')"
  shows "(if due = None then 0 else 1) + uint (ks_overrun_count state') - uint (ks_overrun_count state) +
      (x - sint (ks_last_run state')) div sint (tc_interval task) \<le>
    (x - sint (ks_last_run state)) div sint (tc_interval task)"
proof (cases "due = None")
  case True
  then show ?thesis
    using due_task_periodic [OF assms] by auto
next
  case False
  have "(sint now - sint (ks_last_run state)) div sint (tc_interval task) +
      (x - sint now) div sint (tc_interval task) \<le>
      (x - sint (ks_last_run state)) div sint (tc_interval task)"
    using div_add_le [OF assms(1), of "sint now - sint (ks_last_run state)" "x - sint now"] by simp
  then show ?thesis
    using False due_task_periodic [OF assms] by auto
qed

lemma sorted_le_last: "sorted xs \<Longrightarrow> x \<in> set xs \<Longrightarrow> x \<le> last xs"
  for xs :: "int list"
  by (induction xs) (auto split: if_splits)

lemma task_runs_intervals:
  assumes "0 < sint (tc_interval task)" and "0 \<le> sint (ks_last_run state)"
    and "sorted (map sint (ks_last_run state # ts))" and "\<forall>t \<in> set (ks_last_run state # ts). sint t \<le> x"
    and "task_runs task state ts = (n, state')"
  shows "int n + uint (ks_overrun_count state') - uint (ks_overrun_count state) \<le>
    (x - sint (ks_last_run state)) div sint (tc_interval task)"
  using assms(2-)
proof (induction ts arbitrary: state n)
  case Nil
  then show ?case
    using assms(1) by (auto simp: pos_imp_zdiv_nonneg_iff)
next
  case (Cons now ts)
  obtain due state1 m where d: "due_task now False task state = (due, state1)"
    and rest: "task_runs task state1 ts = (m, state')" and n: "n = (if due = None then m else Suc m)"
    using Cons.prems(4) by (auto split: prod.splits)
  have le: "sint (ks_last_run state) \<le> sint now"
    using Cons.prems(2) by simp
  note step = due_task_periodic [OF assms(1) Cons.prems(1) le d]
  have "int m + uint (ks_overrun_count state') - uint (ks_overrun_count state1) \<le>
      (x - sint (ks_last_run state1)) div sint (tc_interval task)"
    by (rule Cons.IH) (use Cons.prems le rest step(2) in \<open>auto split: if_splits\<close>)
  then show ?case
    using due_task_intervals [OF assms(1) Cons.prems(1) le d, of x] by (auto simp: n split: if_splits)
qed

text \<open>C22: Over any sequence of cycles at times that do not decrease, the runs of a periodic task and
  its counted overruns are together no more than the intervals that have passed: no activation is
  invented, each interval is run once or counted as missed at most once.\<close>

theorem overruns_bounded:
  assumes "0 < sint (tc_interval task)" and "0 \<le> sint (ks_last_run state)"
    and "sorted (map sint (ks_last_run state # ts))" and "ts \<noteq> []"
    and "task_runs task state ts = (n, state')"
  shows "int n + uint (ks_overrun_count state') - uint (ks_overrun_count state) \<le>
    (sint (last ts) - sint (ks_last_run state)) div sint (tc_interval task)"
proof (rule task_runs_intervals [OF assms(1-3) _ assms(5)])
  have "sint t \<le> sint (last ts)" if "t \<in> set ts" for t
    using sorted_le_last [of "map sint ts" "sint t"] that assms(3,4) by (simp add: last_map)
  then show "\<forall>t \<in> set (ks_last_run state # ts). sint t \<le> sint (last ts)"
    using assms(3,4) by (auto intro: order_trans)
qed

lemma overruns_bounded_witness:
  "task_runs (example_task ''fast'' 10 1) (task_state_new 0) [5, 25, 40] =
     (2, \<lparr>ks_last_single = False, ks_last_run = 40, ks_overrun_count = 1\<rparr>) \<and>
   int 2 + uint (1 :: u64) - uint (0 :: u64) \<le> (40 - 0) div (10 :: int)"
proof -
  have "task_runs (example_task ''fast'' 10 1) (task_state_new 0) [5, 25, 40] =
     (2, \<lparr>ks_last_single = False, ks_last_run = 40, ks_overrun_count = 1\<rparr>)"
    by (simp add: example_task_def task_state_new_def due_task_def saturating_sub_def
        saturating_add_def saturating_add_u64_def signed_max_def signed_min_def Let_def)
  then show ?thesis
    using overruns_bounded [of "example_task ''fast'' 10 1" "task_state_new 0" "[5, 25, 40]"]
    by (simp add: example_task_def task_state_new_def)
qed

text \<open>
  The bound is not reached in general: a run takes the time of the cycle as its time, so a cycle
  every 15 time units runs a task of interval 10 at every cycle, counts no overrun and loses every
  third interval.
\<close>

lemma runs_drift:
  "task_runs (example_task ''fast'' 10 1) (task_state_new 0) [15, 30, 45, 60] =
     (4, \<lparr>ks_last_single = False, ks_last_run = 60, ks_overrun_count = 0\<rparr>)"
  by (simp add: example_task_def task_state_new_def due_task_def saturating_sub_def
      saturating_add_def saturating_add_u64_def signed_max_def signed_min_def Let_def)

end
