(* ===== verification/Cycle_Properties.thy ===== *)
theory Cycle_Properties
  imports Eval_Invariant Cycle
begin

text \<open>
  Properties of the scan cycle: what a cycle leaves of the runtime, which tasks it runs in which
  order, what the counter of overruns counts, and what a restart resets.
\<close>

section \<open>What an operation leaves of the runtime\<close>

text \<open>
  The configuration: everything but the variables, the process image, the states of tasks, drivers
  and retain store, the thread number of the background programs and the clock's counter.
\<close>

definition config_of :: "('st, 'd) runtime_core \<Rightarrow> ('st, 'd) runtime_core" where
  "config_of rt =
     rt\<lparr>rt_storage := storage_new, rt_retain := retain_manager_default, rc_io := io_subsystem_new,
        rc_task_state := [], rc_next_thread_id := 0, rc_background_thread_id := None,
        rc_checks := 0\<rparr>"

definition stack_of :: "('st, 'd) runtime_core \<Rightarrow> (frame_id \<times> rstr \<times> instance_id option) list" where
  "stack_of rt = map frame_view (vs_frames (rt_storage rt))"

text \<open>
  A step inside a cycle keeps the configuration, and the frames when it succeeds; a step with its
  error handler records the fault.
\<close>

definition inner :: "(('st, 'd) runtime_core, 'a) op \<Rightarrow> bool" where
  "inner m \<longleftrightarrow>
     (\<forall>rt r rt'. m rt = Some (r, rt') \<longrightarrow>
        config_of rt' = config_of rt \<and> (\<forall>x. r = Inr x \<longrightarrow> stack_of rt' = stack_of rt))"

definition outer :: "(('st, 'd) runtime_core, 'a) op \<Rightarrow> bool" where
  "outer m \<longleftrightarrow>
     (\<forall>rt r rt'. m rt = Some (r, rt') \<longrightarrow>
        (case r of
           Inr _ \<Rightarrow> config_of rt' = config_of rt \<and> stack_of rt' = stack_of rt
         | Inl e \<Rightarrow> config_of rt' = (config_of rt)\<lparr>rc_faults := fault_record e (rc_faults rt)\<rparr>))"

named_theorems step_intros \<open>composition rules for \<open>inner\<close> and \<open>outer\<close>\<close>

lemma innerI:
  assumes "\<And>rt r rt'. m rt = Some (r, rt') \<Longrightarrow> config_of rt' = config_of rt"
    and "\<And>rt x rt'. m rt = Some (Inr x, rt') \<Longrightarrow> stack_of rt' = stack_of rt"
  shows "inner m"
  using assms unfolding inner_def by blast

lemma innerD:
  assumes "inner m" and "m rt = Some (r, rt')"
  shows "config_of rt' = config_of rt" and "r = Inr x \<Longrightarrow> stack_of rt' = stack_of rt"
  using assms unfolding inner_def by blast+

lemma outerD:
  assumes "outer m"
  shows "m rt = Some (Inr x, rt') \<Longrightarrow> config_of rt' = config_of rt \<and> stack_of rt' = stack_of rt"
    and "m rt = Some (Inl e, rt') \<Longrightarrow>
      config_of rt' = (config_of rt)\<lparr>rc_faults := fault_record e (rc_faults rt)\<rparr>"
  using assms unfolding outer_def by force+

lemma ebind_cases:
  assumes "ebind m f c = Some (r, c')"
  obtains e where "m c = Some (Inl e, c')" and "r = Inl e"
  | x c1 where "m c = Some (Inr x, c1)" and "f x c1 = Some (r, c')"
  using assms by (auto simp: ebind_def split: option.splits sum.splits)

lemma inner_bind [step_intros]:
  assumes "inner m" and "\<And>x. inner (f x)"
  shows "inner (ebind m f)"
proof (rule innerI)
  show "config_of rt' = config_of rt" if "ebind m f rt = Some (r, rt')" for rt r rt'
    using that by (rule ebind_cases) (metis innerD(1) assms)+
  show "stack_of rt' = stack_of rt" if "ebind m f rt = Some (Inr x, rt')" for rt x rt'
    using that by (rule ebind_cases) (simp, metis innerD(2) assms)
qed

lemma config_faults: "rc_faults rt = rc_faults (config_of rt)"
  by (simp add: config_of_def)

lemma same_faults: "config_of rt1 = config_of rt \<Longrightarrow> rc_faults rt1 = rc_faults rt"
  by (subst (1 2) config_faults) simp

lemma outerI:
  assumes "\<And>rt x rt'. m rt = Some (Inr x, rt') \<Longrightarrow> config_of rt' = config_of rt \<and> stack_of rt' = stack_of rt"
    and "\<And>rt e rt'. m rt = Some (Inl e, rt') \<Longrightarrow>
      config_of rt' = (config_of rt)\<lparr>rc_faults := fault_record e (rc_faults rt)\<rparr>"
  shows "outer m"
  using assms unfolding outer_def by (auto split: sum.split)

lemma outer_bind [step_intros]:
  assumes "outer m" and "\<And>x. outer (f x)"
  shows "outer (ebind m f)"
proof (rule outerI)
  show "config_of rt' = config_of rt \<and> stack_of rt' = stack_of rt"
    if "ebind m f rt = Some (Inr x, rt')" for rt x rt'
    using that by (rule ebind_cases) (simp, metis outerD(1) assms)
  show "config_of rt' = (config_of rt)\<lparr>rc_faults := fault_record e (rc_faults rt)\<rparr>"
    if "ebind m f rt = Some (Inl e, rt')" for rt e rt'
    using that
  proof (cases rule: ebind_cases)
    case (1 e')
    then show ?thesis by (simp add: outerD(2) [OF assms(1)])
  next
    case (2 x rt1)
    have same: "config_of rt1 = config_of rt"
      using outerD(1) [OF assms(1) 2(1)] by blast
    have "config_of rt' = (config_of rt1)\<lparr>rc_faults := fault_record e (rc_faults rt1)\<rparr>"
      by (rule outerD(2) [OF assms(2) 2(2)])
    then show ?thesis by (simp only: same same_faults [OF same])
  qed
qed

lemma inner_basic [step_intros]: "inner (eret x)" "inner (efail e)" "inner (eget g)" "inner (elift k)"
  by (simp_all add: inner_def)

lemma outer_get [step_intros]: "outer (eget g)" "outer (eret x)"
  by (simp_all add: outer_def)

lemma inner_each [step_intros]: "(\<And>x. inner (f x)) \<Longrightarrow> inner (eeach f xs)"
  by (induction xs) (simp_all only: eeach.simps step_intros)

lemma outer_each [step_intros]: "(\<And>x. outer (f x)) \<Longrightarrow> outer (eeach f xs)"
  by (induction xs) (simp_all only: eeach.simps step_intros)

lemma config_fault:
  "config_of (record_fault ops e rt) = (config_of rt)\<lparr>rc_faults := fault_record e (rc_faults rt)\<rparr>"
  by (simp add: record_fault_def apply_fault_def config_of_def Let_def)

lemma or_fault_error:
  assumes "or_fault ops m rt = Some (Inl e, rt')"
  shows "\<exists>rt1. m rt = Some (Inl e, rt1) \<and> rt' = record_fault ops e rt1"
proof (cases "m rt")
  case (Some p)
  then show ?thesis
    using assms by (cases p; cases "fst p") (auto simp: or_fault_def)
qed (use assms in \<open>simp add: or_fault_def\<close>)

lemma outer_or_fault [step_intros]:
  assumes "inner m"
  shows "outer (or_fault ops m)"
proof (rule outerI)
  show "config_of rt' = config_of rt \<and> stack_of rt' = stack_of rt"
    if "or_fault ops m rt = Some (Inr x, rt')" for rt x rt'
    using that innerD [OF assms]
    by (auto simp: or_fault_def split: option.splits sum.splits)
  show "config_of rt' = (config_of rt)\<lparr>rc_faults := fault_record e (rc_faults rt)\<rparr>"
    if "or_fault ops m rt = Some (Inl e, rt')" for rt e rt'
  proof -
    from or_fault_error [OF that] obtain rt1 where rt1: "m rt = Some (Inl e, rt1)"
      and rt': "rt' = record_fault ops e rt1"
      by blast
    have same: "config_of rt1 = config_of rt"
      by (rule innerD(1) [OF assms rt1])
    show ?thesis
      by (simp only: rt' config_fault same same_faults [OF same])
  qed
qed

section \<open>The steps of a cycle\<close>

lemma inner_with_ctx [step_intros]:
  assumes "keeps m"
  shows "inner (with_ctx using inst m)"
proof (rule innerI)
  show "config_of rt' = config_of rt" if "with_ctx using inst m rt = Some (r, rt')" for rt r rt'
    using that by (auto simp: with_ctx_def config_of_def split: option.splits)
  show "stack_of rt' = stack_of rt" if "with_ctx using inst m rt = Some (Inr x, rt')" for rt x rt'
    using that keepsD_ok [OF assms]
    by (fastforce simp: with_ctx_def stack_of_def steady_def frames_of_def runtime_ctx_def
        split: option.splits)
qed

text \<open>A frame pushed, used and popped.\<close>

lemma undoes_nothing: "undoes (\<lambda>c. c)"
  unfolding undoes_def by blast

abbreviation in_frame :: "eval_ctx \<Rightarrow> eval_ctx \<Rightarrow> bool" where
  "in_frame c0 \<equiv> inside c0 (\<lambda>c. c)"

lemma frame_pushed:
  "runs ((=) c0) (push_frame_ev owner) (\<lambda>_. in_frame c0) E"
  "runs ((=) c0) (push_frame_with_instance_ev owner i) (\<lambda>_. in_frame c0) E"
  by (rule runs_weaken [OF at.push_runs(1) [OF undoes_nothing, of c0]]
      runs_weaken [OF at.push_runs(2) [OF undoes_nothing, of c0]]; simp add: outside_def)+

lemma frame_popped: "runs (in_frame c0) (emodify pop_ctx) (\<lambda>_. steady c0) E"
proof (rule runs_modify)
  show "steady c0 (pop_ctx c)" if "in_frame c0 c" for c
    using pop_inside [OF undoes_nothing undoes_nothing, of c0 c] that
      outside_undo [OF undoes_nothing] by (simp add: comp_def)
qed

lemma frame_used:
  assumes "keeps m"
  shows "runs (in_frame c0) (eon_error pop_ctx m) (\<lambda>_. in_frame c0) (left_frames c0)"
  by (rule runs_on_error [OF keeps_inside [OF undoes_nothing assms]]) (rule failed_pop)

lemma frame_leaked:
  assumes "keeps m"
  shows "runs (in_frame c0) m (\<lambda>_. in_frame c0) (left_frames c0)"
  by (rule runs_weaken [OF keeps_inside [OF undoes_nothing assms]]) (auto intro: failed_left)

lemma keeps_if_runs: "(\<And>c0. runs ((=) c0) m (\<lambda>_. steady c0) (left_frames c0)) \<Longrightarrow> keeps m"
  by (simp add: keeps_def)

lemma steady_pre:
  assumes "runs (steady c0) m Q E"
  shows "runs ((=) c0) m Q E"
  by (rule runs_weaken [OF assms]) auto

lemma keeps_program_body: "keeps (program_body (interp_at n) program inst)"
proof (rule keeps_if_runs)
  fix c0
  let ?has = "inst \<noteq> None \<or> pg_temps program \<noteq> []"
  have init: "runs (in_frame c0)
      (if pg_temps program = [] then eret ()
       else eon_error pop_ctx (init_locals_in_frame (interp_at n) (pg_temps program)))
      (\<lambda>_. in_frame c0) (left_frames c0)"
    by (intro at.runs_if runs_ret frame_used at.keeps_locals)
  have guard: "runs (steady c0) (eguard b e) (\<lambda>_. steady c0) (left_frames c0)" for b e
    by (rule keeps_steady) (rule keeps_guard)
  show "runs ((=) c0) (program_body (interp_at n) program inst) (\<lambda>_. steady c0) (left_frames c0)"
  proof (cases ?has)
    case True
    have "runs ((=) c0) (case inst of Some i \<Rightarrow> push_frame_with_instance_ev (pg_name program) i
        | None \<Rightarrow> push_frame_ev (pg_name program)) (\<lambda>_. in_frame c0) (left_frames c0)"
      by (simp add: frame_pushed split: option.split)
    note first = runs_bind [OF this init]
    show ?thesis
      unfolding program_body_def Let_def
      by (simp only: True if_True if_False not_True_eq_False)
        (rule runs_bind [OF first runs_bind [OF frame_used [OF at.keeps_block]
          runs_bind [OF frame_popped guard]]])
  next
    case False
    have "runs (steady c0) (eon_error (\<lambda>c. c) (exec_block (interp_at n) (pg_body program)))
        (\<lambda>_. steady c0) (left_frames c0)"
      by (rule runs_on_error [OF keeps_steady [OF at.keeps_block]])
    moreover have "runs (steady c0) (emodify (\<lambda>c. c)) (\<lambda>_. steady c0) (left_frames c0)"
      by (rule runs_modify)
    ultimately have "runs (steady c0) (ebind (eon_error (\<lambda>c. c)
        (exec_block (interp_at n) (pg_body program))) (\<lambda>result.
        ebind (emodify (\<lambda>c. c)) (\<lambda>_. eguard (result = RContinue) InvalidControlFlow)))
        (\<lambda>_. steady c0) (left_frames c0)"
      by (rule runs_bind [OF _ runs_bind [OF _ guard]])
    moreover have "runs ((=) c0) (eret ()) (\<lambda>_. steady c0) (left_frames c0)"
      by (simp add: runs_def)
    ultimately show ?thesis
      unfolding program_body_def Let_def
      by (simp only: False if_True if_False not_False_eq_True) (rule runs_bind)
  qed
qed

lemma keeps_block_ref_body: "keeps (block_ref_body (interp_at n) d i)"
proof (rule keeps_if_runs)
  fix c0
  have get: "runs (in_frame c0) (eget g) (\<lambda>_. in_frame c0) (left_frames c0)" for g :: "eval_ctx \<Rightarrow> 'a"
    by (simp add: runs_def)
  show "runs ((=) c0) (block_ref_body (interp_at n) d i) (\<lambda>_. steady c0) (left_frames c0)"
    unfolding block_ref_body_def
    apply (rule runs_bind [OF frame_pushed(2) runs_bind [OF get at.runs_if]])
    subgoal
      by (rule runs_bind [OF frame_leaked frame_popped]) (intro kept)
    subgoal
      by (split option.split, intro conjI allI impI)
        (rule runs_bind [OF frame_leaked [OF at.keeps_locals(2)]
            runs_bind [OF frame_used [OF at.keeps_block] frame_popped]]
          runs_bind [OF frame_used [OF keeps_builtin] frame_popped])+
    done
qed

lemma inner_program [step_intros]: "inner (execute_program fuel program)"
  unfolding execute_program_def by (intro step_intros keeps_program_body)

lemma inner_program_by_name [step_intros]: "inner (execute_program_by_name fuel name)"
  unfolding execute_program_by_name_def by (intro step_intros)

lemma inner_block_ref [step_intros]: "inner (execute_function_block_ref fuel reference)"
  unfolding execute_function_block_ref_def
  by (intro inner_bind inner_basic prod.split [of inner, THEN iffD2] allI impI inner_with_ctx
      keeps_block_ref_body)

lemma inner_task [step_intros]: "inner (execute_task fuel task)"
  unfolding execute_task_def by (intro step_intros)

lemma config_thread: "config_of (snd (ensure_background_thread_id rt)) = config_of rt"
  "stack_of (snd (ensure_background_thread_id rt)) = stack_of rt"
  by (simp_all add: ensure_background_thread_id_def config_of_def stack_of_def)

lemma inner_background [step_intros]: "inner (execute_background_programs fuel)"
proof -
  have "inner (emodify (\<lambda>rt. snd (ensure_background_thread_id rt)))"
    by (rule innerI) (auto simp: config_thread)
  then show ?thesis
    unfolding execute_background_programs_def
    by (intro step_intros if_split [of inner, THEN iffD2] conjI impI)
qed

lemma inner_io_step [step_intros]: "inner (io_step f)"
  by (rule innerI) (auto simp: io_step_def config_of_def stack_of_def split: prod.splits)

lemma store_target_frames:
  assumes "store_target target value s = (r, s')"
  shows "map frame_view (vs_frames s') = map frame_view (vs_frames s)"
proof (cases target)
  case (TargetReference reference)
  obtain ok s1 where w: "write_by_ref reference value s = (ok, s1)"
    by fastforce
  then show ?thesis
    using assms calmD [OF calm_write_by_ref w] TargetReference
    by (cases ok) (auto simp: store_target_def)
qed (use assms in \<open>auto simp: store_target_def set_global_def\<close>)

lemma read_bindings_frames:
  "read_bindings io bs s = (r, s') \<Longrightarrow> map frame_view (vs_frames s') = map frame_view (vs_frames s)"
proof (induction bs arbitrary: s)
  case (Cons b bs)
  then show ?case
    by (fastforce split: if_splits sum.splits prod.splits dest: store_target_frames)
qed simp

lemma inner_read_inputs [step_intros]: "inner (read_cycle_inputs ops)"
proof -
  have "inner (\<lambda>rt. case io_read_inputs (is_interface (rc_io rt)) (rt_storage rt) of
      (r, s) \<Rightarrow> Some (r, rt\<lparr>rt_storage := s\<rparr>))"
    by (rule innerI)
      (auto simp: io_read_inputs_def config_of_def stack_of_def split: prod.splits
        dest: read_bindings_frames)
  then show ?thesis
    unfolding read_cycle_inputs_def by (intro step_intros)
qed

lemma inner_write_outputs [step_intros]: "inner (write_cycle_outputs ops)"
proof -
  have "inner (\<lambda>rt. case io_write_outputs (rt_storage rt) (is_interface (rc_io rt)) of
      (r, interface) \<Rightarrow> Some (r, rt\<lparr>rc_io := (rc_io rt)\<lparr>is_interface := interface\<rparr>\<rparr>))"
    by (rule innerI) (auto simp: config_of_def stack_of_def split: prod.splits)
  then show ?thesis
    unfolding write_cycle_outputs_def by (intro step_intros)
qed

lemma inner_collect [step_intros]: "inner collect_ready_tasks"
  by (rule innerI) (auto simp: collect_ready_tasks_def config_of_def stack_of_def split: prod.splits)

lemma outer_run_ready [step_intros]: "outer (run_ready fuel ops e)"
  unfolding run_ready_def by (intro step_intros)

lemma outer_save [step_intros]: "outer (save_retained pf)"
proof -
  let ?save = "\<lambda>rt. Some (rt_maybe_save_retain_store (pf_same pf) (pf_store pf) rt)"
  have save: "inner ?save"
    by (rule innerI) (auto simp: rt_maybe_save_retain_store_def rt_save_retain_store_def config_of_def
        stack_of_def Let_def split: if_splits prod.splits)
  have dirty: "config_of (rt\<lparr>rt_retain := m\<rparr>) = config_of rt" "stack_of (rt\<lparr>rt_retain := m\<rparr>) = stack_of rt"
    "rc_faults (rt\<lparr>rt_retain := m\<rparr>) = rc_faults rt" for rt :: "('a, 'b) runtime_core" and m
    by (simp_all add: config_of_def stack_of_def)
  show ?thesis
    using outerD [OF outer_or_fault [OF save]]
    by (intro outerI) (fastforce simp: save_retained_def dirty split: if_splits)+
qed

text \<open>All of a cycle but the check of the fault state and the counter.\<close>

lemma outer_cycle:
  "outer (ebind (or_fault ops (read_cycle_inputs ops)) (\<lambda>_.
     ebind (or_fault ops collect_ready_tasks) (\<lambda>ready.
     ebind (eget (\<lambda>rt. sort_ready (rc_tasks rt) ready)) (\<lambda>ready.
     ebind (eeach (run_ready fuel ops) ready) (\<lambda>_.
     ebind (or_fault ops (execute_background_programs fuel)) (\<lambda>_.
     ebind (or_fault ops (write_cycle_outputs ops)) (\<lambda>_. save_retained pf)))))))"
  by (intro step_intros)

lemma ebind_assoc: "ebind (ebind m f) g = ebind m (\<lambda>x. ebind (f x) g)"
  by (rule ext) (simp add: ebind_def split: option.split sum.split)

lemma cycle_split:
  "\<exists>m :: (('st, 'd) runtime_core, unit) op. outer m \<and> execute_cycle fuel pf =
     ebind (elift (\<lambda>rt. if faulted rt then Inl ResourceFaulted else Inr ())) (\<lambda>_.
     ebind m (\<lambda>_. emodify (\<lambda>rt. rt\<lparr>rc_cycle_counter :=
       saturating_add_u64 (rc_cycle_counter rt) 1\<rparr>)))"
  by (intro exI conjI, rule outer_cycle, simp only: execute_cycle_def Let_def ebind_assoc)

text \<open>What a cycle that succeeds or fails leaves.\<close>

lemma cycle_effect:
  assumes "execute_cycle fuel pf rt = Some (r, rt')"
  shows "case r of
      Inr _ \<Rightarrow> \<not> faulted rt \<and> stack_of rt' = stack_of rt \<and>
        config_of rt' = (config_of rt)\<lparr>rc_cycle_counter := saturating_add_u64 (rc_cycle_counter rt) 1\<rparr>
    | Inl e \<Rightarrow>
        if faulted rt then e = ResourceFaulted \<and> rt' = rt
        else config_of rt' = (config_of rt)\<lparr>rc_faults := fault_record e (rc_faults rt)\<rparr>"
proof -
  obtain m :: "(('a, 'b) runtime_core, unit) op" where m: "outer m" and split: "execute_cycle fuel pf =
     ebind (elift (\<lambda>rt. if faulted rt then Inl ResourceFaulted else Inr ())) (\<lambda>_.
     ebind m (\<lambda>_. emodify (\<lambda>rt. rt\<lparr>rc_cycle_counter :=
       saturating_add_u64 (rc_cycle_counter rt) 1\<rparr>)))"
    using cycle_split by blast
  show ?thesis
  proof (cases "faulted rt")
    case True
    then show ?thesis
      using assms by (auto simp: split)
  next
    case False
    then have run: "ebind m (\<lambda>_. emodify (\<lambda>rt. rt\<lparr>rc_cycle_counter :=
        saturating_add_u64 (rc_cycle_counter rt) 1\<rparr>)) rt = Some (r, rt')"
      using assms by (simp add: split)
    then show ?thesis
    proof (cases rule: ebind_cases)
      case (1 e)
      then show ?thesis
        using outerD(2) [OF m] False by simp
    next
      case (2 x rt1)
      have same: "config_of rt1 = config_of rt" "stack_of rt1 = stack_of rt"
        using outerD(1) [OF m 2(1)] by blast+
      have "rc_cycle_counter rt1 = rc_cycle_counter rt"
        using arg_cong [OF same(1), of rc_cycle_counter] by (simp add: config_of_def)
      moreover have "config_of (rt1\<lparr>rc_cycle_counter := n\<rparr>) = (config_of rt1)\<lparr>rc_cycle_counter := n\<rparr>"
        "stack_of (rt1\<lparr>rc_cycle_counter := n\<rparr>) = stack_of rt1" for n
        by (simp_all add: config_of_def stack_of_def)
      ultimately show ?thesis
        using 2(2) same False by auto
    qed
  qed
qed

text \<open>C1: A scan cycle of a runtime that is not faulted either succeeds, and then counts itself and
  leaves the configuration (tasks, programs, functions, types, fault state) and the stack of frames
  as they were, or fails, and then the error is recorded as the fault, nothing of the configuration
  else changes and the cycle is not counted; a faulted runtime refuses the cycle and stays as it is.\<close>

theorem cycle_outcome:
  assumes "execute_cycle fuel pf rt = Some (r, rt')"
  shows "case r of
      Inr _ \<Rightarrow> \<not> faulted rt \<and> stack_of rt' = stack_of rt \<and>
        config_of rt' = (config_of rt)\<lparr>rc_cycle_counter := saturating_add_u64 (rc_cycle_counter rt) 1\<rparr>
    | Inl e \<Rightarrow>
        if faulted rt then e = ResourceFaulted \<and> rt' = rt
        else config_of rt' = (config_of rt)\<lparr>rc_faults := fault_record e (rc_faults rt)\<rparr>"
  using assms by (rule cycle_effect)

text \<open>
  A runtime with one program that no task runs and a platform without drivers and store; the
  program is the early exit of the language description, a \<open>RETURN\<close>.
\<close>

definition plain_env :: eval_env where
  "plain_env =
     \<lparr>ev_powf = (\<lambda>x y. x), ev_to_uppercase = to_ascii_uppercase, ev_ref_size = 8\<rparr>"

definition plain_runtime :: "(rstr, program_def) index_map \<Rightarrow> (unit, unit) runtime_core" where
  "plain_runtime programs =
     \<lparr>rt_storage = storage_new, rt_globals = [], rt_current_time = 0,
      rt_retain = retain_manager_default, rc_env = plain_env, rc_profile = date_time_profile_default,
      rc_registry = registry_new, rc_io = io_subsystem_new, rc_access = [], rc_stdlib = [],
      rc_functions = [], rc_function_blocks = [], rc_classes = [], rc_programs = programs,
      rc_tasks = [], rc_task_state = [], rc_task_thread_ids = [], rc_next_thread_id = 1,
      rc_background_thread_id = None, rc_cycle_counter = 0, rc_watchdog = watchdog_policy_default,
      rc_faults = fault_subsystem_new, rc_execution_deadline = None, rc_checks = 0\<rparr>"

definition plain_platform :: "(unit, unit) platform" where
  "plain_platform =
     \<lparr>pf_drivers = \<lparr>do_read_inputs = (\<lambda>d bs. (Inr (), d, bs)), do_write_outputs = (\<lambda>d bs. (Inr (), d))\<rparr>,
      pf_load = (\<lambda>_. Inr []), pf_store = (\<lambda>st _. (Inr (), st)), pf_same = (=)\<rparr>"

definition early_exit :: program_def where
  "early_exit = \<lparr>pg_name = ''P'', pg_vars = [], pg_temps = [], pg_using = [], pg_body = [SReturn None]\<rparr>"

lemmas plain_simps = plain_runtime_def plain_platform_def execute_cycle_def Let_def faulted_def
  fault_subsystem_new_def or_fault_def read_cycle_inputs_def io_step_def is_read_inputs_def
  io_subsystem_new_def io_read_inputs_def io_interface_new_def ebind_def

lemma return_block:
  "cx_deadline c = None \<Longrightarrow> exec_block (interp_at 3) [SReturn None] c = Some (Inr (RReturn None), c)"
  by (simp add: exec_block_def eval_nat_numeral exec_stmt_def check_execution_budget_def
      del: interp_at.simps(2))

lemma program_return_faults:
  "map_option fst (execute_cycle 3 plain_platform (plain_runtime [(''P'', early_exit)])) =
     Some (Inl InvalidControlFlow)"
  by (simp add: plain_simps collect_ready_tasks_def sort_ready_def execute_background_programs_def
      background_programs_def scheduled_programs_def early_exit_def execute_program_def
      program_instance_def storage_new_def get_global_def im_get_def with_ctx_def program_body_def
      return_block runtime_ctx_def
      eon_error_def eguard_def ensure_background_thread_id_def has_background_programs_def)

lemma cycle_outcome_witness:
  "\<exists>rt'. execute_cycle 3 plain_platform (plain_runtime [(''P'', early_exit)]) =
      Some (Inl InvalidControlFlow, rt') \<and>
    ft_last_fault (rc_faults rt') = Some InvalidControlFlow"
proof -
  let ?rt = "plain_runtime [(''P'', early_exit)]"
  obtain rt' where run: "execute_cycle 3 plain_platform ?rt = Some (Inl InvalidControlFlow, rt')"
    using program_return_faults by auto
  have "\<not> faulted ?rt"
    by (simp add: faulted_def plain_runtime_def fault_subsystem_new_def)
  then have "rc_faults (config_of rt') = fault_record InvalidControlFlow (rc_faults ?rt)"
    using cycle_outcome [OF run] by simp
  then show ?thesis
    using run by (auto simp: config_of_def fault_record_def)
qed

end
