(* ===== verification/Std_Selection.thy ===== *)
theory Std_Selection
  imports Std_Library Arithmetic_Properties
begin

text \<open>
  The selections on integers. The kinds of numbers are ordered by their rank, the common kind of
  several values is the greatest of their kinds, and \<open>MIN\<close>, \<open>MAX\<close> and \<open>LIMIT\<close> are those of the
  integers once each fits the common kind.
\<close>

section \<open>The order of the kinds\<close>

instantiation numeric_kind :: linorder
begin

definition less_eq_numeric_kind :: "numeric_kind \<Rightarrow> numeric_kind \<Rightarrow> bool" where
  "less_eq_numeric_kind a b \<longleftrightarrow> numeric_rank a \<le> numeric_rank b"

definition less_numeric_kind :: "numeric_kind \<Rightarrow> numeric_kind \<Rightarrow> bool" where
  "less_numeric_kind a b \<longleftrightarrow> numeric_rank a < numeric_rank b"

instance
proof
  fix a b :: numeric_kind
  show "a \<le> b \<Longrightarrow> b \<le> a \<Longrightarrow> a = b"
    by (cases a; cases b; simp add: less_eq_numeric_kind_def)
qed (auto simp: less_eq_numeric_kind_def less_numeric_kind_def)

end

lemma wider_numeric_max: "wider_numeric a b = max a b"
  by (auto simp: wider_numeric_def max_def less_eq_numeric_kind_def)
    (cases a; cases b; simp)

section \<open>The common kind of integers\<close>

abbreviation is_int_value :: "rvalue \<Rightarrow> bool" where
  "is_int_value v \<equiv> int_of_value v \<noteq> None"

abbreviation kind_of :: "rvalue \<Rightarrow> numeric_kind" where
  "kind_of v \<equiv> the (numeric_kind_of v)"

abbreviation int_of :: "rvalue \<Rightarrow> int" where
  "int_of v \<equiv> the (int_of_value v)"

lemma int_value_cases:
  assumes "is_int_value v"
  obtains k i where "numeric_kind_of v = Some k" and "int_of_value v = Some i"
    and "is_signed_kind k \<noteq> is_unsigned_kind k" and "in_kind k i"
  using assms int_of_value_kind kind_cases by blast

lemma classify_int: "is_int_value v \<Longrightarrow> classify_value v = Some (CkNumeric (kind_of v))"
  by (elim int_value_cases) (simp add: classify_value_def)

lemma Min_insert2:
  "finite A \<Longrightarrow> Min (insert a (insert b A)) = Min (insert (min a b :: 'a::linorder) A)"
  by (cases "A = {}") (simp_all add: min.assoc)

lemma Max_insert2:
  "finite A \<Longrightarrow> Max (insert a (insert b A)) = Max (insert (max a b :: 'a::linorder) A)"
  by (cases "A = {}") (simp_all add: max.assoc)

lemma common_of_ints:
  assumes "\<forall>v\<in>set vs. is_int_value v"
  shows "common_of (Some (CkNumeric k)) vs = Inr (CkNumeric (Max (insert k (kind_of ` set vs))))"
  using assms
proof (induction vs arbitrary: k)
  case (Cons v vs)
  then show ?case
    by (simp add: classify_int join_kind_def wider_numeric_max Max_insert2 del: Max_insert)
qed simp

lemma common_kind_ints:
  assumes "vs \<noteq> []" and "\<forall>v\<in>set vs. is_int_value v"
  shows "common_kind vs = Inr (CkNumeric (Max (kind_of ` set vs)))"
  using assms by (cases vs) (simp_all add: common_kind_def classify_int common_of_ints)

section \<open>Conversion and comparison\<close>

text \<open>What becomes of an integer in a kind that is at least its own.\<close>

definition fit_int :: "numeric_kind \<Rightarrow> int \<Rightarrow> runtime_error + int" where
  "fit_int k i =
     (if is_unsigned_kind k \<and> i < 0 then Inl TypeMismatch
      else if in_kind k i then Inr i
      else Inl Overflow)"

definition is_int_kind :: "numeric_kind \<Rightarrow> rvalue \<Rightarrow> bool" where
  "is_int_kind k v \<longleftrightarrow> view v = (Some k, int_of_value v) \<and> is_int_value v"

lemma signed_below:
  assumes "is_signed_kind k" and "k' \<le> k"
  shows "is_signed_kind k'" and "in_kind k' i \<Longrightarrow> in_kind k i"
  using assms by (cases k; cases k'; simp add: is_signed_kind_def less_eq_numeric_kind_def in_kind_def)+

lemma rmap_simps: "rmap f (Inl e) = Inl e" "rmap f (Inr x) = Inr (f x)"
  by (simp_all add: rmap_def)

lemma rbind_assoc: "rbind (rbind m f) g = rbind m (\<lambda>x. rbind (f x) g)"
  by (cases m) simp_all

lemma unsigned_fit:
  assumes "is_unsigned_kind k"
  shows "rmap view (unsigned_from_u128 k i) =
    (if in_kind k i then Inr (Some k, Some i) else Inl Overflow)"
proof (cases "in_kind k i")
  case True
  then obtain v where v: "unsigned_from_u128 k i = Inr v"
    using unsigned_from_defined [OF assms] by blast
  with True show ?thesis
    using v [unfolded unsigned_from_ok] by (simp add: rmap_simps view_def)
qed (simp add: assms unsigned_from_overflow rmap_simps)

lemma coerce_int:
  assumes "is_int_value v" and "kind_of v \<le> k" and "is_signed_kind k \<or> is_unsigned_kind k"
  shows "rmap view (coerce_to_common v (CkNumeric k)) =
    rmap (\<lambda>i. (Some k, Some i)) (fit_int k (int_of v))"
  using assms(1)
proof (rule int_value_cases)
  fix k' i
  assume v: "numeric_kind_of v = Some k'" "int_of_value v = Some i"
    "is_signed_kind k' \<noteq> is_unsigned_kind k'" "in_kind k' i"
  show ?thesis
  proof (cases "is_signed_kind k")
    case True
    have k: "in_kind k i" "is_signed_kind k'"
      using signed_below [OF True] assms(2) v by auto
    obtain w where w: "to_i64 v = Inr w" "sint w = i"
      using to_i64_signed [OF v(1) k(2) v(2)] by auto
    obtain v' where v': "signed_from_i128 k i = Inr v'"
      using signed_from_defined [OF True k(1)] by auto
    have "\<not> is_unsigned_kind k"
      using True by (cases k) (simp_all add: is_signed_kind_def is_unsigned_kind_def)
    then show ?thesis
      using True v(2) v' v' [unfolded signed_from_ok] w k not_real [of k]
      by (simp add: coerce_to_common_def fit_int_def view_def rmap_def)
  next
    case False
    then have unsigned: "is_unsigned_kind k"
      using assms(3) by blast
    show ?thesis
      using to_u64_exact [OF v(2)] False unsigned v(2) not_real [of k]
      by (auto simp: coerce_to_common_def fit_int_def rmap_rbind unsigned_fit rmap_simps
          split: if_splits)
  qed
qed

lemma view_int:
  assumes "view v = (Some k, Some i)" and "is_signed_kind k \<or> is_unsigned_kind k"
  shows "if is_signed_kind k then \<exists>w. to_i64 v = Inr w \<and> sint w = i
    else \<exists>w. to_u64 v = Inr w \<and> uint w = i"
proof (cases "is_signed_kind k")
  case True
  then show ?thesis
    using assms(1) to_i64_signed [of v k i] by (simp add: view_def)
next
  case False
  have "numeric_kind_of v = Some k" "int_of_value v = Some i"
    using assms(1) by (simp_all add: view_def)
  moreover from this have "in_kind k i"
    using int_of_value_kind [of v i] by auto
  then have "0 \<le> i"
    using False assms(2) by (cases k) (simp_all add: is_unsigned_kind_def in_kind_def)
  ultimately show ?thesis
    using False to_u64_exact [of v i] by simp
qed

lemma compare_int:
  assumes "view l = (Some k, Some a)" and "view r = (Some k, Some b)"
    and "is_signed_kind k \<or> is_unsigned_kind k"
  shows "compare_common l r (CkNumeric k) op = Inr (compare_ord (<) a b op)"
  using view_int [OF assms(1,3)] view_int [OF assms(2,3)] not_real [OF assms(3)]
  by (auto simp: compare_common_def Let_def rmap_simps split: if_splits)

section \<open>The selections\<close>

text \<open>A conversion whose view is known gives the value or the same error.\<close>

lemma rmap_view_cases:
  assumes "rmap view m = rmap (\<lambda>i. (Some k, Some i)) m'"
  obtains (error) e where "m = Inl e" and "m' = Inl e"
  | (ok) v i where "m = Inr v" and "m' = Inr i" and "view v = (Some k, Some i)"
  using assms by (cases m; cases m') (auto simp: rmap_simps)

definition pick :: "bool \<Rightarrow> int \<Rightarrow> int \<Rightarrow> int" where
  "pick is_min i best = (if is_min then min i best else max i best)"

lemma best_of_ints:
  assumes "\<forall>v\<in>set vs. is_int_value v \<and> kind_of v \<le> k" and "is_signed_kind k \<or> is_unsigned_kind k"
    and "view best = (Some k, Some m)"
  shows "rmap view (best_of (CkNumeric k) (if is_min then CmpLt else CmpGt) best vs) =
    rmap (\<lambda>ints. (Some k, Some (fold (pick is_min) ints m))) (collect (fit_int k) (map int_of vs))"
  using assms
proof (induction vs arbitrary: best m)
  case Nil
  then show ?case
    by (simp add: rmap_simps)
next
  case (Cons v vs)
  have "rmap view (coerce_to_common v (CkNumeric k)) = rmap (\<lambda>i. (Some k, Some i)) (fit_int k (int_of v))"
    using Cons.prems by (intro coerce_int) simp_all
  then show ?case
  proof (cases rule: rmap_view_cases)
    case (error e)
    then show ?thesis
      by (simp add: rmap_simps)
  next
    case (ok c i)
    have "compare_common c best (CkNumeric k) (if is_min then CmpLt else CmpGt) =
        Inr (if is_min then i < m else m < i)"
      using compare_int [OF ok(3) Cons.prems(3,2)] by (simp add: compare_ord_def)
    moreover have "view (if (if is_min then i < m else m < i) then c else best) =
        (Some k, Some (pick is_min i m))"
      using ok(3) Cons.prems(3) by (auto simp: pick_def)
    ultimately show ?thesis
      using ok(1,2) Cons.IH [OF _ Cons.prems(2)] Cons.prems(1) by (simp add: rmap_def rbind_assoc)
  qed
qed

lemma fold_pick:
  "fold (pick True) ints m = Min (insert m (set ints))"
  "fold (pick False) ints m = Max (insert m (set ints))"
  by (induction ints arbitrary: m)
    (simp_all add: pick_def Max_insert2 Min_insert2 max.commute min.commute del: Max_insert Min_insert)

lemma common_kind_bound:
  assumes "vs \<noteq> []" and "\<forall>v\<in>set vs. is_int_value v"
  shows "\<forall>v\<in>set vs. is_int_value v \<and> kind_of v \<le> Max (kind_of ` set vs)"
    and "is_signed_kind (Max (kind_of ` set vs)) \<or> is_unsigned_kind (Max (kind_of ` set vs))"
proof -
  show "\<forall>v\<in>set vs. is_int_value v \<and> kind_of v \<le> Max (kind_of ` set vs)"
    using assms(2) by simp
  have "Max (kind_of ` set vs) \<in> kind_of ` set vs"
    using assms(1) by (intro Max_in) simp_all
  then obtain v where v: "v \<in> set vs" "Max (kind_of ` set vs) = kind_of v"
    by auto
  then show "is_signed_kind (Max (kind_of ` set vs)) \<or> is_unsigned_kind (Max (kind_of ` set vs))"
    using assms(2) int_value_cases [of v] by (metis option.sel)
qed

lemma joint_below:
  assumes "k' \<le> k" and "is_signed_kind k \<or> is_unsigned_kind k" and "is_signed_kind k' \<or> is_unsigned_kind k'"
  shows "is_unsigned_kind k' \<longrightarrow> is_unsigned_kind k"
    and "is_unsigned_kind k' = is_unsigned_kind k \<longrightarrow> kind_bits k' \<le> kind_bits k"
  using assms
  by (cases k; cases k'; simp add: less_eq_numeric_kind_def kind_bits_def is_unsigned_kind_def is_signed_kind_def)+

lemma greatest_is_joint:
  assumes "vs \<noteq> []" and "\<forall>v\<in>set vs. is_int_value v"
  shows "joint_kind (kind_of ` set vs) (Max (kind_of ` set vs))"
proof -
  let ?k = "Max (kind_of ` set vs)"
  have "?k \<in> kind_of ` set vs"
    using assms(1) by (intro Max_in) simp_all
  moreover have "is_signed_kind (kind_of v) \<or> is_unsigned_kind (kind_of v)" if "v \<in> set vs" for v
    using assms(2) that int_value_cases [of v] by (metis option.sel)
  ultimately show ?thesis
    using common_kind_bound [OF assms] joint_below [of "kind_of v" ?k for v]
    unfolding joint_kind_def by blast
qed

lemma min_max_start:
  assumes "2 \<le> length args" and "\<forall>v\<in>set args. is_int_value v"
  shows "min_max is_min args = (let k = Max (kind_of ` set args) in
    Some (rbind (coerce_to_common (hd args) (CkNumeric k)) (\<lambda>best.
      best_of (CkNumeric k) (if is_min then CmpLt else CmpGt) best (tl args))))"
proof -
  let ?k = "CkNumeric (Max (kind_of ` set args))"
  have args: "args \<noteq> []" "hd args = args ! 0" "tl args = drop (Suc 0) args" "0 < length args"
    "Suc 0 \<le> length args"
    using assms(1) by (cases args; simp)+
  then show ?thesis
    using assms
    by (cases "coerce_to_common (args ! 0) ?k")
      (simp_all add: min_max_def common_kind_ints coerced_arg_def Let_def)
qed

text \<open>C23: \<open>MIN\<close> and \<open>MAX\<close> of at least two integers, of any integer types, are the least and the greatest
  of the integers, as a value of the joint type of the arguments: the widest of their types when all
  are signed, and otherwise the widest of the unsigned types among them. When an argument does not
  fit that type, the result is the error of the first that does not: a type mismatch for a negative
  number in an unsigned type, an overflow otherwise.\<close>

theorem min_max_exact:
  assumes "2 \<le> length args" and "\<forall>v\<in>set args. is_int_value v"
  shows "\<exists>k. joint_kind (kind_of ` set args) k \<and>
    map_option (rmap view) (min_max is_min args) =
      Some (rmap (\<lambda>ints. (Some k, Some ((if is_min then Min else Max) (set ints))))
        (collect (fit_int k) (map int_of args)))"
proof -
  let ?k = "Max (kind_of ` set args)"
  have ne: "args \<noteq> []"
    using assms(1) by auto
  then obtain v vs where args: "args = v # vs"
    by (cases args) auto
  note k = common_kind_bound [OF ne assms(2)]
  have first: "rmap view (coerce_to_common v (CkNumeric ?k)) =
      rmap (\<lambda>i. (Some ?k, Some i)) (fit_int ?k (int_of v))"
    using k args by (intro coerce_int) auto
  have hd_tl: "hd args = v" "tl args = vs"
    by (simp_all add: args)
  note start = min_max_start [OF assms, of is_min, unfolded Let_def hd_tl]
  have rest: "\<forall>v\<in>set vs. is_int_value v \<and> kind_of v \<le> ?k"
    using k(1) args by auto
  have ints: "collect (fit_int k) (map int_of args) = rbind (fit_int k (int_of v)) (\<lambda>i.
      rbind (collect (fit_int k) (map int_of vs)) (\<lambda>is'. Inr (i # is')))" for k
    by (simp add: args)
  have "map_option (rmap view) (min_max is_min args) =
      Some (rmap (\<lambda>ints. (Some ?k, Some ((if is_min then Min else Max) (set ints))))
        (collect (fit_int ?k) (map int_of args)))"
    using first
  proof (cases rule: rmap_view_cases)
    case (error e)
    then show ?thesis
      by (simp add: start ints rmap_simps)
  next
    case (ok c i)
    then show ?thesis
      using best_of_ints [OF _ k(2) ok(3), of vs is_min] rest start
      by (cases is_min)
        (simp_all add: ints fold_pick rmap_def rbind_assoc del: Max_insert Min_insert)
  qed
  with greatest_is_joint [OF ne assms(2)] show ?thesis
    by blast
qed

theorem min_max_exact_witness:
  "map_option (rmap view) (min_max False [VInt (-5), VSInt 7, VDInt 3]) = Some (Inr (Some NkDInt, Some 7))"
proof -
  let ?args = "[VInt (-5), VSInt 7, VDInt 3]"
  obtain k where "joint_kind (kind_of ` set ?args) k"
    and result: "map_option (rmap view) (min_max False ?args) =
      Some (rmap (\<lambda>ints. (Some k, Some ((if False then Min else Max) (set ints))))
        (collect (fit_int k) (map int_of ?args)))"
    using min_max_exact [of ?args False] by (auto simp: int_of_value_def)
  then have "k = NkDInt"
    by (auto simp: joint_kind_def kind_bits_def is_unsigned_kind_def numeric_kind_of_def)
  then show ?thesis
    using result by (simp add: int_of_value_def fit_int_def is_unsigned_kind_def in_kind_def rmap_def)
qed

end
