(* ===== verification/Std_Bits.thy ===== *)
theory Std_Bits
  imports Std_Library Arithmetic_Properties
begin

unbundle bit_operations_syntax

text \<open>
  Packed decimals and shifts: the digits of a number are written to the groups of four bits and read
  back, and the shifts and rotations of bit strings are stated bit by bit.
\<close>

section \<open>Packed decimals on natural numbers\<close>

fun pack :: "nat \<Rightarrow> nat \<Rightarrow> nat" where
  "pack 0 v = 0"
| "pack (Suc n) v = v mod 10 + 16 * pack n (v div 10)"

fun unpack :: "nat \<Rightarrow> nat \<Rightarrow> nat" where
  "unpack 0 w = 0"
| "unpack (Suc n) w = w mod 16 + 10 * unpack n (w div 16)"

fun packed :: "nat \<Rightarrow> nat \<Rightarrow> bool" where
  "packed 0 w = True"
| "packed (Suc n) w \<longleftrightarrow> w mod 16 \<le> 9 \<and> packed n (w div 16)"

lemma pack_less: "pack n v < 16 ^ n"
proof (induction n arbitrary: v)
  case (Suc n)
  have "v mod 10 < 10"
    by simp
  with Suc [of "v div 10"] show ?case
    unfolding pack.simps power_Suc by linarith
qed simp

lemma unpack_pack: "unpack n (pack n v) = v mod 10 ^ n"
proof (induction n arbitrary: v)
  case (Suc n)
  have "v mod 10 < 16"
    using mod_less_divisor [of 10 v] by linarith
  then show ?case
    by (simp add: Suc mod_mult2_eq)
qed simp

lemma packed_pack: "packed n (pack n v)"
proof (induction n arbitrary: v)
  case (Suc n)
  have "v mod 10 < 16" "v mod 10 \<le> 9"
    using mod_less_divisor [of 10 v] by linarith+
  then show ?case
    by (simp add: Suc)
qed simp

lemma unpack_less: "packed n w \<Longrightarrow> unpack n w < 10 ^ n"
proof (induction n arbitrary: w)
  case (Suc n)
  then have "unpack n (w div 16) < 10 ^ n" "w mod 16 \<le> 9"
    by simp_all
  then show ?case
    unfolding unpack.simps power_Suc by linarith
qed simp

lemma pack_unpack: "packed n w \<Longrightarrow> pack n (unpack n w) = w mod 16 ^ n"
proof (induction n arbitrary: w)
  case (Suc n)
  then show ?case
    by (simp add: mod_mult2_eq)
qed simp

section \<open>The loops\<close>

lemma bit_below:
  assumes "unat (r :: u64) < 2 ^ k" and "bit r n"
  shows "n < k"
proof -
  have "bit (unat r) n"
    using assms(2) by (simp add: bit_unsigned_iff possible_bit_word bit_imp_le_length)
  moreover have "take_bit k (unat r) = unat r"
    using assms(1) by (simp add: take_bit_nat_eq_self)
  ultimately show ?thesis
    by (metis bit_take_bit_iff)
qed

lemma sixteen_power: "(16::nat) ^ i = 2 ^ (i * 4)"
  using power_mult [of "2::nat" 4 i] by (simp add: mult.commute)

lemma or_shifted:
  fixes r d :: u64
  assumes "unat r < 16 ^ i" and "unat d < 16" and "i < 16"
  shows "unat (r OR push_bit (i * 4) d) = unat r + 16 ^ i * unat d"
proof -
  have "16 ^ i * (unat d + 1) \<le> 16 ^ i * (16 :: nat)"
    using assms(2) by (intro mult_le_mono) simp_all
  also have "\<dots> \<le> (16::nat) ^ 16"
    using assms(3) power_increasing [of "Suc i" 16 "16::nat"] by simp
  finally have small: "unat r + 16 ^ i * unat d < 2 ^ 64"
    using assms(1) by simp
  then have "unat (push_bit (i * 4) d) = 16 ^ i * unat d"
    by (simp add: unsigned_push_bit_eq sixteen_power push_bit_nat_def take_bit_nat_eq_self mult.commute)
  moreover have "r AND push_bit (i * 4) d = 0"
    using assms(1) bit_below [of r "i * 4"]
    by (intro bit_word_eqI) (fastforce simp: bit_simps sixteen_power)
  then have "r OR push_bit (i * 4) d = r + push_bit (i * 4) d"
    by (simp add: disjunctive_add_eq_or)
  ultimately show ?thesis
    using small by (simp add: unat_word_ariths)
qed

lemma to_bcd_loop_exact:
  assumes "unat result < 16 ^ i" and "i + n \<le> 16"
  shows "\<exists>rest packed. to_bcd_loop n i v result = (rest, packed) \<and>
    unat rest = unat v div 10 ^ n \<and> unat packed = unat result + 16 ^ i * pack n (unat v)"
  using assms
proof (induction n arbitrary: i v result)
  case (Suc n)
  let ?d = "v mod 10 :: u64"
  have d: "unat ?d = unat v mod 10" "unat (v div 10) = unat v div 10"
    by (simp_all add: unat_mod unat_div)
  have less: "unat v mod 10 < 16"
    using mod_less_divisor [of 10 "unat v"] by linarith
  have merged: "unat (result OR push_bit (i * 4) ?d) = unat result + 16 ^ i * (unat v mod 10)"
    using or_shifted [of result i ?d] Suc.prems d(1) less by simp
  have "16 ^ i * (unat v mod 10) \<le> 16 ^ i * (15 :: nat)" "(16 :: nat) ^ (i + 1) = 16 ^ i * 16"
    using less by (intro mult_le_mono) simp_all
  then have "unat (result OR push_bit (i * 4) ?d) < 16 ^ (i + 1)"
    using merged Suc.prems(1) by linarith
  from Suc.IH [OF this, of "v div 10"] Suc.prems(2) show ?case
    by (auto simp: merged d algebra_simps div_mult2_eq)
qed simp

lemma u64_to_bcd_exact:
  assumes "n \<le> 16"
  shows "if unat v < 10 ^ n then \<exists>b. u64_to_bcd v n = Inr b \<and> unat b = pack n (unat v)
    else u64_to_bcd v n = Inl Overflow"
proof -
  obtain rest b where loop: "to_bcd_loop n 0 v 0 = (rest, b)" "unat rest = unat v div 10 ^ n"
    "unat b = pack n (unat v)"
    using to_bcd_loop_exact [of 0 0 n v] assms by auto
  have "rest = 0 \<longleftrightarrow> unat v < 10 ^ n"
    using loop(2) by (simp add: unat_eq_0 [symmetric] div_eq_0_iff)
  with loop show ?thesis
    by (simp add: u64_to_bcd_def)
qed

lemma digit_exact: "unat (drop_bit (i * 4) w AND 0xF :: u64) = unat w div 16 ^ i mod 16"
proof -
  have "unat (drop_bit (i * 4) w AND mask 4) = unat w div 16 ^ i mod 16"
    by (simp add: unat_drop_bit_eq sixteen_power drop_bit_nat_def take_bit_nat_def unsigned_take_bit_eq
        flip: take_bit_eq_mask)
  then show ?thesis
    by (simp add: mask_eq_exp_minus_1)
qed

lemma bcd_checked_nat: "n < 2 ^ 64 \<Longrightarrow> \<exists>w. bcd_checked (int n) = Inr w \<and> unat w = n"
  by (simp add: bcd_checked_def unsigned_try_from_def unat_of_nat)

lemma unat_product: "unat (a :: u64) * unat b < 2 ^ 64 \<Longrightarrow> unat (a * b) = unat a * unat b"
  using unat_mult_lem [of a b] by simp

lemma bcd_step:
  fixes result m d :: u64
  assumes "unat result < 10 ^ i" and "unat m = 10 ^ i" and "i < 16" and "unat d \<le> 9"
  shows "\<exists>r. bcd_checked (uint result + uint (d * m)) = Inr r \<and>
      unat r = unat result + 10 ^ i * unat d \<and> unat r < 10 ^ (i + 1)"
    and "\<exists>m'. bcd_checked (uint m * 10) = Inr m' \<and> unat m' = 10 ^ (i + 1)"
proof -
  have "(10::nat) ^ (i + 1) \<le> 10 ^ 16" "(10::nat) ^ 16 < 2 ^ 64"
    using assms(3) by (intro power_increasing) simp_all
  then have p: "(10::nat) ^ (i + 1) < 2 ^ 64"
    by linarith
  have "unat d * unat m \<le> 9 * 10 ^ i"
    unfolding assms(2) using assms(4) by (rule mult_le_mono1)
  then have less: "unat result + unat d * unat m < 10 ^ (i + 1)"
    using assms(1) by (simp only: power_add power_one_right)
  then have "unat (d * m) = unat d * unat m"
    using p unat_product [of d m] by linarith
  then have sum: "uint result + uint (d * m) = int (unat result + unat d * unat m)"
    by (simp only: uint_nat of_nat_add)
  obtain r where r: "bcd_checked (uint result + uint (d * m)) = Inr r"
    "unat r = unat result + unat d * unat m"
    unfolding sum using bcd_checked_nat less p by (meson less_trans)
  then show "\<exists>r. bcd_checked (uint result + uint (d * m)) = Inr r \<and>
      unat r = unat result + 10 ^ i * unat d \<and> unat r < 10 ^ (i + 1)"
    using less assms(2) by (intro exI [of _ r]) auto
  have "uint m * 10 = int (10 ^ (i + 1))"
    by (simp only: uint_nat assms(2)) simp
  then show "\<exists>m'. bcd_checked (uint m * 10) = Inr m' \<and> unat m' = 10 ^ (i + 1)"
    using bcd_checked_nat [OF p] by (simp only:)
qed

lemma from_bcd_loop_exact:
  assumes "unat result < 10 ^ i" and "unat m = 10 ^ i" and "i + n \<le> 16"
  shows "if packed n (unat w div 16 ^ i)
    then \<exists>r. from_bcd_loop n i w result m = Inr r \<and>
      unat r = unat result + 10 ^ i * unpack n (unat w div 16 ^ i)
    else from_bcd_loop n i w result m = Inl TypeMismatch"
  using assms
proof (induction n arbitrary: i result m)
  case (Suc n)
  let ?d = "drop_bit (i * 4) w AND 0xF :: u64"
  define x where "x = unat w div 16 ^ i"
  have d: "unat ?d = x mod 16"
    unfolding x_def by (rule digit_exact)
  have x: "unat w div 16 ^ (i + 1) = x div 16"
    by (simp add: x_def div_mult2_eq [symmetric] mult.commute)
  have big: "?d > 9 \<longleftrightarrow> \<not> unat ?d \<le> 9"
    by (auto simp: word_less_nat_alt)
  show ?case
  proof (cases "unat ?d \<le> 9")
    case False
    then show ?thesis
      using d big by (simp add: Let_def x_def)
  next
    case True
    obtain r m' where step: "bcd_checked (uint result + uint (?d * m)) = Inr r"
      "unat r = unat result + 10 ^ i * (x mod 16)" "unat r < 10 ^ (i + 1)"
      "bcd_checked (uint m * 10) = Inr m'" "unat m' = 10 ^ (i + 1)"
      using bcd_step [OF Suc.prems(1,2) _ True] Suc.prems(3) unfolding d by auto
    have "from_bcd_loop (Suc n) i w result m = from_bcd_loop n (i + 1) w r m'"
      using True big step(1,4) by (simp add: Let_def)
    then show ?thesis
      using Suc.IH [OF step(3,5)] Suc.prems(3) True
      unfolding x x_def [symmetric] step(2) d
      by (cases "packed n (x div 16)") (auto simp: algebra_simps simp del: from_bcd_loop.simps)
  qed
qed simp

lemma bcd_to_u64_exact:
  assumes "n \<le> 16"
  shows "if packed n (unat w) then \<exists>r. bcd_to_u64 w n = Inr r \<and> unat r = unpack n (unat w)
    else bcd_to_u64 w n = Inl TypeMismatch"
  using from_bcd_loop_exact [of 0 0 1 n w] assms
  by (cases "packed n (unat w)") (auto simp: bcd_to_u64_def)

section \<open>Round trip\<close>

lemma cut_and_back:
  "unat (bits :: u64) < 2 ^ LENGTH('b) \<Longrightarrow> ucast (ucast bits :: 'b::len word) = bits"
  by (simp add: word_unat_eq_iff unsigned_ucast_eq unsigned_take_bit_eq take_bit_nat_eq_self)

text \<open>A bit string of a type holds the numbers of its width.\<close>

lemma bcd_type:
  assumes "bcd_digits_for dst = Inr digits" and "unat bits < 16 ^ digits"
  shows "digits \<le> 16" and "is_bit_string_type dst" and "dst \<noteq> TypeId_BOOL"
    and "\<exists>b. bit_string_from_u64 bits dst = Inr b \<and> value_type_id b = Some dst \<and>
      bit_string_to_u64 b = Inr bits \<and> bit_value b = Inr (bits, 4 * digits)"
proof -
  show "digits \<le> 16" "is_bit_string_type dst" "dst \<noteq> TypeId_BOOL"
    using assms(1) by (auto simp: bcd_digits_for_def is_bit_string_type_def TypeId_BOOL_def
      TypeId_BYTE_def TypeId_WORD_def TypeId_DWORD_def TypeId_LWORD_def split: if_splits)
  show "\<exists>b. bit_string_from_u64 bits dst = Inr b \<and> value_type_id b = Some dst \<and>
      bit_string_to_u64 b = Inr bits \<and> bit_value b = Inr (bits, 4 * digits)"
    using assms
    by (auto simp: cut_and_back bcd_digits_for_def bit_string_from_u64_def value_type_id_def bit_string_to_u64_def
      bit_value_def split: if_splits)
qed

lemma is_valid_bcd_exact:
  assumes "bit_value b = Inr (bits, 4 * n)"
  shows "std_is_valid_bcd [b] = Some (Inr (VBool (packed n (unat bits))))"
proof -
  define P where "P i \<longleftrightarrow> drop_bit (i * 4) bits AND 0xF \<le> 9" for i
  have "packed m (unat bits div 16 ^ i) \<longleftrightarrow> (\<forall>j<m. P (i + j))" for m i
  proof (induction m arbitrary: i)
    case (Suc m)
    have "unat bits div 16 ^ i div 16 = unat bits div 16 ^ Suc i"
      by (simp add: div_mult2_eq [symmetric] mult.commute)
    then have "packed (Suc m) (unat bits div 16 ^ i) \<longleftrightarrow> P i \<and> packed m (unat bits div 16 ^ Suc i)"
      using digit_exact [of i bits] by (simp add: P_def word_le_nat_alt del: power_Suc)
    then show ?case
      using Suc [of "Suc i"] by (simp add: All_less_Suc2 del: packed.simps)
  qed simp
  from this [of n 0] show ?thesis
    using assms
    by (simp add: std_is_valid_bcd_def list_all_iff Ball_def P_def)
qed

text \<open>An unsigned number of its type comes back from 64 bits.\<close>

lemma unsigned_back:
  assumes "to_u64 v = Inr n" and "value_type_id v = Some ty" and "is_unsigned_int_type ty"
  shows "unsigned_int_from_u64 n ty = Inr v"
  using assms
  by (cases v)
    (auto simp: to_u64_def value_type_id_def is_unsigned_int_type_def unsigned_int_from_u64_def
      unsigned_try_from_Some type_ids uint_up_ucast is_up split: if_splits)

text \<open>C25: Packed decimals: an unsigned number below ten to the number of digits is converted to a
  valid packed decimal (as \<open>IS_VALID_BCD\<close> confirms) of the type asked for, and the conversion back
  gives the same value; a number with more digits is reported as \<open>Overflow\<close>.\<close>

theorem bcd_round_trip:
  assumes "to_u64 v = Inr n" and "value_type_id v = Some ty" and "is_unsigned_int_type ty"
    and "bcd_digits_for dst = Inr digits"
  shows "if unat n < 10 ^ digits
    then \<exists>b. to_bcd v (Some ty) dst = Inr b \<and> value_type_id b = Some dst \<and>
      std_is_valid_bcd [b] = Some (Inr (VBool True)) \<and> from_bcd b (Some dst) ty = Inr v
    else to_bcd v (Some ty) dst = Inl Overflow"
proof -
  have digits: "digits \<le> 16"
    using bcd_type(1) [OF assms(4), of 0] by simp
  have start: "to_bcd v (Some ty) dst =
      rbind (u64_to_bcd n digits) (\<lambda>bits. bit_string_from_u64 bits dst)"
    using assms bcd_type(2,3) [OF assms(4), of 0]
    by (simp add: to_bcd_def source_type_def)
  show ?thesis
  proof (cases "unat n < 10 ^ digits")
    case False
    then show ?thesis
      using u64_to_bcd_exact [OF digits, of n] by (simp add: start)
  next
    case True
    then obtain bits where bits: "u64_to_bcd n digits = Inr bits" "unat bits = pack digits (unat n)"
      using u64_to_bcd_exact [OF digits, of n] by auto
    obtain b where b: "bit_string_from_u64 bits dst = Inr b" "value_type_id b = Some dst"
      "bit_string_to_u64 b = Inr bits" "bit_value b = Inr (bits, 4 * digits)"
      using bcd_type(4) [OF assms(4), of bits] pack_less [of digits "unat n"] bits(2) by auto
    have "bcd_to_u64 bits digits = Inr n"
      using bcd_to_u64_exact [OF digits, of bits] True
      by (auto simp: bits(2) packed_pack unpack_pack word_unat_eq_iff)
    then have "from_bcd b (Some dst) ty = Inr v"
      using b assms bcd_type(2,3) [OF assms(4), of 0] unsigned_back [OF assms(1-3)]
      by (simp add: from_bcd_def source_type_def)
    then show ?thesis
      using True bits b is_valid_bcd_exact [OF b(4)] by (simp add: start packed_pack)
  qed
qed

theorem bcd_round_trip_witness:
  "\<exists>b. to_bcd (VUInt 1995) (Some TypeId_UINT) TypeId_WORD = Inr b \<and> value_type_id b = Some TypeId_WORD \<and>
    std_is_valid_bcd [b] = Some (Inr (VBool True)) \<and> from_bcd b (Some TypeId_WORD) TypeId_UINT = Inr (VUInt 1995)"
  using bcd_round_trip [of "VUInt 1995" 1995 TypeId_UINT TypeId_WORD 4]
  by (simp add: to_u64_def value_type_id_def is_unsigned_int_type_def bcd_digits_for_def
      TypeId_BYTE_def TypeId_WORD_def)

section \<open>Shifts and rotations\<close>

lemma bit_value_width:
  assumes "bit_value v = Inr (bits, width)"
  shows "width \<in> {1, 8, 16, 32, 64}" and "bit bits i \<Longrightarrow> i < width"
proof -
  have below: "bit (a :: u8) i \<Longrightarrow> i < 8" "bit (b :: u16) i \<Longrightarrow> i < 16" "bit (c :: u32) i \<Longrightarrow> i < 32"
    for a b c
    using bit_imp_le_length [of a i] bit_imp_le_length [of b i] bit_imp_le_length [of c i]
    by simp_all
  show "width \<in> {1, 8, 16, 32, 64}"
    using assms by (cases v) (auto simp: bit_value_def)
  show "i < width" if "bit bits i"
    using assms that
    by (cases v) (auto simp: bit_value_def bit_simps dest: below bit_imp_le_length split: if_splits)
qed

lemma cut_bits:
  assumes "\<And>i. bit (x :: u64) i \<Longrightarrow> i < LENGTH('b)"
  shows "ucast (ucast x :: 'b::len word) = x"
  using assms by (intro bit_word_eqI) (auto simp: bit_simps)

text \<open>A result of a width is a value of the same type, with these bits.\<close>

lemma bit_result:
  assumes "bit_value v = Inr (bits, width)" and "\<And>i. bit x i \<Longrightarrow> i < width"
  shows "bit_value (bit_value_to_result x width) = Inr (x, width)"
    and "value_type_id (bit_value_to_result x width) = value_type_id v"
proof -
  have "bit x n \<longleftrightarrow> n = 0 \<and> odd x" if "width = 1" for n
    using assms(2) [of n] that by (cases n) (auto simp: bit_0)
  then have "x = of_bool (odd x)" if "width = 1"
    using that by (intro bit_word_eqI) (simp add: bit_of_bool_iff)
  moreover have "x AND 1 = of_bool (odd x)"
    by (simp add: and_one_eq odd_iff_mod_2_eq_one)
  ultimately have one: "(if x AND 1 = 1 then 1 else 0) = x" if "width = 1"
    using that by (cases "odd x") simp_all
  show "bit_value (bit_value_to_result x width) = Inr (x, width)"
    using bit_value_width(1) [OF assms(1)] assms(2) one
    by (auto simp: bit_value_to_result_def bit_value_def cut_bits)
  show "value_type_id (bit_value_to_result x width) = value_type_id v"
    using assms(1) by (cases v) (auto simp: bit_value_def bit_value_to_result_def value_type_id_def)
qed

definition shifted :: "shift_op \<Rightarrow> nat \<Rightarrow> nat \<Rightarrow> u64 \<Rightarrow> nat \<Rightarrow> bool" where
  "shifted op count width bits i =
     (case op of
        ShiftLeft \<Rightarrow> count \<le> i \<and> bit bits (i - count)
      | ShiftRight \<Rightarrow> bit bits (i + count)
      | RotateLeft \<Rightarrow> bit bits ((i + (width - count mod width)) mod width)
      | RotateRight \<Rightarrow> bit bits ((i + count mod width) mod width))"

lemma mask_for_bit: "width \<le> 64 \<Longrightarrow> bit (mask_for width) i \<longleftrightarrow> i < width"
  by (auto simp: mask_for_def bit_simps mask_eq_exp_minus_1 [symmetric] push_bit_of_1
      dest: bit_imp_le_length)

lemma mod_back:
  assumes "c < w" and "i < (w :: nat)"
  shows "(i + (w - c)) mod w = (if c \<le> i then i - c else i + (w - c))"
    and "(i + c) mod w = (if i + c < w then i + c else i + c - w)"
proof -
  have "(i + (w - c)) mod w = (w + (i - c)) mod w" if "c \<le> i"
    using that assms by (simp add: add.commute)
  then have "(i + (w - c)) mod w = i - c" if "c \<le> i"
    using that assms by (simp only: mod_add_self1) simp
  then show "(i + (w - c)) mod w = (if c \<le> i then i - c else i + (w - c))"
    using assms by auto
  show "(i + c) mod w = (if i + c < w then i + c else i + c - w)"
    using assms by (simp add: mod_if [of "i + c"])
qed

lemma shifted_word:
  assumes "width \<in> {1, 8, 16, 32, 64}" and "\<And>i. bit bits i \<Longrightarrow> i < width" and "i < width"
  shows "bit (if count \<ge> width then 0 else push_bit count bits AND mask_for width) i \<longleftrightarrow>
      shifted ShiftLeft count width bits i"
    and "bit (if count \<ge> width then 0 else drop_bit count bits AND mask_for width) i \<longleftrightarrow>
      shifted ShiftRight count width bits i"
    and "bit ((push_bit (count mod width) bits OR drop_bit (width - count mod width) bits)
        AND mask_for width) i \<longleftrightarrow> shifted RotateLeft count width bits i"
    and "bit ((drop_bit (count mod width) bits OR push_bit (width - count mod width) bits)
        AND mask_for width) i \<longleftrightarrow> shifted RotateRight count width bits i"
proof -
  have w: "width \<le> 64" "0 < width"
    using assms(1) by auto
  note m = mask_for_bit [OF w(1)]
  show "bit (if count \<ge> width then 0 else push_bit count bits AND mask_for width) i \<longleftrightarrow>
      shifted ShiftLeft count width bits i"
    using assms(3) w by (auto simp: shifted_def bit_simps m)
  show "bit (if count \<ge> width then 0 else drop_bit count bits AND mask_for width) i \<longleftrightarrow>
      shifted ShiftRight count width bits i"
    using assms(2) [of "i + count"] assms(3) by (auto simp: shifted_def bit_simps m add.commute)
  let ?c = "count mod width"
  have c: "?c < width"
    using w(2) by simp
  show "bit ((push_bit ?c bits OR drop_bit (width - ?c) bits) AND mask_for width) i \<longleftrightarrow>
      shifted RotateLeft count width bits i"
    unfolding shifted_def shift_op.case mod_back(1) [OF c assms(3)]
    using assms(2) [of "width - ?c + i"] assms(3) w by (auto simp: bit_simps m add.commute)
  show "bit ((drop_bit ?c bits OR push_bit (width - ?c) bits) AND mask_for width) i \<longleftrightarrow>
      shifted RotateRight count width bits i"
    unfolding shifted_def shift_op.case mod_back(2) [OF c assms(3)]
    using assms(2) [of "?c + i"] assms(3) w c by (auto simp: bit_simps m add.commute)
qed

text \<open>C26: \<open>SHL\<close>, \<open>SHR\<close>, \<open>ROL\<close> and \<open>ROR\<close> of a bit string give a value of the same type whose bit at
  each place below the width is the bit of the argument at the shifted or rotated place (none where
  a shift runs out of the width). The number of places is the count modulo two to the 32, the cast
  of the code.\<close>

theorem shift_bits_exact:
  assumes "bit_value v = Inr (bits, width)" and "to_i64 c = Inr n" and "0 \<le> sint n"
  shows "\<exists>r out. std_shift op [v, c] = Some (Inr r) \<and> value_type_id r = value_type_id v \<and>
    bit_value r = Inr (out, width) \<and>
    (\<forall>i. bit out i \<longleftrightarrow> i < width \<and> shifted op (nat (sint n) mod 2 ^ 32) width bits i)"
proof -
  let ?count = "unat (ucast n :: u32)"
  have "uint n = sint n"
    using uint_scast_nonneg [of n] assms(3) by simp
  then have count: "?count = nat (sint n) mod 2 ^ 32"
    using assms(3)
    by (simp add: unsigned_ucast_eq unsigned_take_bit_eq take_bit_eq_mod unat_eq_nat_uint nat_mod_distrib)
  define out where "out = shift_bits op ?count width bits"
  note out_def = out_def [unfolded shift_bits_def Let_def]
  note w = bit_value_width [OF assms(1)]
  have below: "i < width" if "bit out i" for i
    using that w(1) mask_for_bit [of width i] by (cases op) (auto simp: out_def bit_simps split: if_splits)
  have "std_shift op [v, c] = Some (Inr (bit_value_to_result out width))"
    using assms by (simp add: std_shift_def shift_bits_def Let_def out_def)
  moreover have "bit out i \<longleftrightarrow> i < width \<and> shifted op ?count width bits i" for i
    using below [of i] shifted_word [where i = i and count = ?count, OF w(1,2)] by (cases op) (auto simp: out_def)
  ultimately show ?thesis
    using bit_result [OF assms(1) below] unfolding count by blast
qed

theorem shift_bits_exact_witness:
  "\<exists>r out. std_shift RotateLeft [VByte 0x81, VInt 9] = Some (Inr r) \<and> value_type_id r = value_type_id (VByte 0x81) \<and>
    bit_value r = Inr (out, 8) \<and>
    (\<forall>i. bit out i \<longleftrightarrow> i < 8 \<and> shifted RotateLeft 9 8 0x81 i)"
  using shift_bits_exact [of "VByte 0x81" "0x81" 8 "VInt 9" 9 RotateLeft]
  by (simp add: bit_value_def to_i64_def)

text \<open>A rotation is undone by the opposite rotation of the same count.\<close>

lemma rotation_undone:
  assumes "i < width"
  shows "shifted RotateLeft count width bits ((i + count mod width) mod width) \<longleftrightarrow> bit bits i"
proof -
  have "((i + count mod width) mod width + (width - count mod width)) mod width = i"
    using assms mod_less_divisor [of width count]
    by (subst mod_add_left_eq) simp
  then show ?thesis
    by (simp add: shifted_def)
qed

end
