(* ===== verification/Std_Calendar.thy ===== *)
theory Std_Calendar
  imports Std_Library
begin

text \<open>
  Dates and day numbers: for the dates of the Gregorian calendar the two conversions of the code,
  which count in eras of 400 years that begin in March, are inverse to each other.
\<close>

section \<open>Dates\<close>

definition is_leap :: "int \<Rightarrow> bool" where
  "is_leap y \<longleftrightarrow> y mod 4 = 0 \<and> (y mod 100 \<noteq> 0 \<or> y mod 400 = 0)"

definition month_days :: "int \<Rightarrow> int \<Rightarrow> int" where
  "month_days y m =
     (if m = 2 then (if is_leap y then 29 else 28) else if m \<in> {4, 6, 9, 11} then 30 else 31)"

definition valid_date :: "int \<Rightarrow> int \<Rightarrow> int \<Rightarrow> bool" where
  "valid_date y m d \<longleftrightarrow> 1 \<le> m \<and> m \<le> 12 \<and> 1 \<le> d \<and> d \<le> month_days y m"

section \<open>Division\<close>

lemma quot_nonneg: "0 \<le> a \<Longrightarrow> 0 < b \<Longrightarrow> quot a b = a div b"
  by (simp add: quot_def signed_divide_int_def sgn_if)

lemma quot_floor:
  assumes "0 < b" and "k = b - 1"
  shows "quot (if 0 \<le> a then a else a - k) b = a div b"
proof (cases "0 \<le> a")
  case False
  have "b - 1 - a = b * - (a div b) + (b - 1 - a mod b)"
    using div_mult_mod_eq [of a b] by (simp add: algebra_simps)
  then have "(b - 1 - a) div b = - (a div b)"
    by (rule int_div_pos_eq) (use assms pos_mod_bound [of b a] pos_mod_sign [of b a] in linarith)+
  then show ?thesis
    using False assms by (simp add: quot_def signed_divide_int_def sgn_if)
qed (simp add: assms quot_nonneg)

lemma era_quots:
  "quot (if 0 \<le> y then y else y - 399) 400 = y div 400"
  "quot (if 0 \<le> z then z else z - 146096) 146097 = z div 146097"
  by (rule quot_floor; simp)+

lemma wrap64_id: "- (2 ^ 63) \<le> i \<Longrightarrow> i < 2 ^ 63 \<Longrightarrow> wrap64 i = i"
  by (simp add: wrap64_def)

lemma mod_next_zero: "1 < n \<Longrightarrow> (a + 1) mod n = 0 \<longleftrightarrow> a mod n = n - (1::int)"
proof -
  assume n: "1 < n"
  have "(a + 1) mod n = (a mod n + 1) mod n"
    by (simp add: mod_add_left_eq)
  moreover have "0 \<le> a mod n" "a mod n < n"
    using n by simp_all
  moreover from this have "a mod n + 1 \<noteq> 0"
    by linarith
  ultimately show ?thesis
    using n mod_pos_pos_trivial [of "a mod n + 1" n] by (cases "a mod n = n - 1") auto
qed

section \<open>The year of an era\<close>

lemma year_of_era:
  fixes yoe doy :: int
  assumes "0 \<le> yoe" and "yoe < 400" and "0 \<le> doy" and "doy \<le> 365"
    and "doy = 365 \<Longrightarrow> yoe mod 4 = 3 \<and> (yoe mod 100 \<noteq> 99 \<or> yoe = 399)"
    and "doe = yoe * 365 + yoe div 4 - yoe div 100 + doy"
  shows "(doe - doe div 1460 + doe div 36524 - doe div 146096) div 365 = yoe"
    and "0 \<le> doe" and "doe < 146097"
proof -
  define c where "c = yoe div 100"
  define q where "q = yoe mod 100 div 4"
  define r where "r = yoe mod 4"
  have m: "yoe mod 100 = 4 * q + r"
    unfolding q_def r_def using mod_mod_cancel [of 4 100 yoe, simplified] div_mult_mod_eq [of "yoe mod 100" 4]
    by linarith
  then have y: "yoe = 100 * c + 4 * q + r"
    unfolding c_def using div_mult_mod_eq [of yoe 100] by linarith
  have r: "0 \<le> r" "r \<le> 3"
    using pos_mod_bound [of 4 yoe] by (simp_all add: r_def)
  have "0 \<le> yoe mod 100" "yoe mod 100 < 100"
    by simp_all
  then have b: "0 \<le> c" "c \<le> 3" "0 \<le> q" "q \<le> 24" "0 \<le> r" "r \<le> 3"
    using assms(1,2) y m r by linarith+
  have d4: "yoe div 4 = 25 * c + q"
    using y b by (intro int_div_pos_eq [where r = r]) simp_all
  have doe: "doe = 36524 * c + 1461 * q + 365 * r + doy"
    unfolding assms(6) d4 c_def [symmetric] using y by simp
  have leap: "r = 3 \<and> (q \<noteq> 24 \<or> c = 3)" if "doy = 365"
  proof -
    have "r = 3" "4 * q + r \<noteq> 99 \<or> yoe = 399"
      using assms(5) [OF that] unfolding m r_def [symmetric] by simp_all
    then show ?thesis
      using y b by presburger
  qed
  show "0 \<le> doe" "doe < 146097"
    using doe b leap assms(3,4) by linarith+
  show "(doe - doe div 1460 + doe div 36524 - doe div 146096) div 365 = yoe"
  proof (cases "doe = 146096")
    case True
    then have "c = 3" "q = 24" "r = 3"
      using doe b leap assms(3,4) by linarith+
    then show ?thesis
      using True y by simp
  next
    case False
    have less: "1461 * q + 365 * r + doy < 36524" "doe < 146096"
      using doe b leap assms(3,4) False \<open>doe < 146097\<close> by linarith+
    have c: "doe div 36524 = c" "doe div 146096 = 0"
      using doe b assms(3) less \<open>0 \<le> doe\<close> int_div_pos_eq [of doe 36524 c "1461 * q + 365 * r + doy"]
      by (simp_all add: algebra_simps)
    define rest where "rest = 24 * c + q + 365 * r + doy"
    have r: "0 \<le> rest" "rest < 2920"
      using b assms(3,4) by (simp_all add: rest_def)
    have "doe = 1460 * (25 * c + q + of_bool (1460 \<le> rest)) + (rest - 1460 * of_bool (1460 \<le> rest))"
      using doe by (simp add: rest_def)
    then have e: "doe div 1460 = 25 * c + q + of_bool (1460 \<le> rest)"
      by (rule int_div_pos_eq) (use r in \<open>auto simp: of_bool_def\<close>)
    have "doe - doe div 1460 + doe div 36524 - doe div 146096 =
        365 * yoe + (doy - of_bool (1460 \<le> rest))"
      unfolding c e y using doe by simp
    moreover have "0 \<le> doy - of_bool (1460 \<le> rest)" "doy - of_bool (1460 \<le> rest) < 365"
      using b leap assms(3,4) by (cases "doy = 365"; simp add: rest_def of_bool_def)+
    ultimately show ?thesis
      by (rule int_div_pos_eq)
  qed
qed

section \<open>The day of a year that begins in March\<close>

lemma month_cases:
  assumes "0 \<le> mp" and "mp \<le> (11::int)"
  shows "mp \<in> {0, 1, 2, 3, 4, 5, 6, 7, 8, 9, 10, 11}"
  using assms by (simp only: insert_iff empty_iff) presburger

definition march_days :: "int \<Rightarrow> int" where
  "march_days mp = (if mp = 11 then 29 else if mp \<in> {1, 3, 6, 8} then 30 else 31)"

lemma day_of_year:
  fixes mp d :: int
  assumes "0 \<le> mp" and "mp \<le> 11" and "1 \<le> d" and "d \<le> march_days mp"
    and "doy = (153 * mp + 2) div 5 + d - 1"
  shows "(5 * doy + 2) div 153 = mp" and "0 \<le> doy" and "doy \<le> 365"
    and "doy = 365 \<longleftrightarrow> mp = 11 \<and> d = 29"
proof -
  have "doy \<ge> (153 * mp + 2) div 5" "(5 * doy + 2) div 153 = mp \<and> 0 \<le> doy \<and> doy \<le> 365 \<and>
      (doy = 365 \<longleftrightarrow> mp = 11 \<and> d = 29)"
    using month_cases [OF assms(1,2)] assms(3-5) by (auto simp: march_days_def)
  then show "(5 * doy + 2) div 153 = mp" and "0 \<le> doy" and "doy \<le> 365"
    and "doy = 365 \<longleftrightarrow> mp = 11 \<and> d = 29"
    by simp_all
qed

section \<open>The round trip\<close>

lemma wrap64_small: "\<bar>i\<bar> \<le> 1000000000000 \<Longrightarrow> wrap64 i = i"
  by (intro wrap64_id) simp_all

text \<open>The day number in terms of the era, the year of the era and the day of the year.\<close>

lemma days_of_date:
  assumes "valid_date year m d" and "\<bar>year\<bar> \<le> 100000000"
  obtains yoe doy era mp where "days_from_civil year m d =
      Inr (era * 146097 + (yoe * 365 + yoe div 4 - yoe div 100 + doy) - 719468)"
    and "0 \<le> yoe" and "yoe < 400" and "0 \<le> mp" and "mp \<le> 11" and "d \<le> march_days mp"
    and "doy = (153 * mp + 2) div 5 + d - 1" and "m = mp + (if mp < 10 then 3 else -9)"
    and "year = yoe + era * 400 + (if m \<le> 2 then 1 else 0)"
    and "doy = 365 \<Longrightarrow> yoe mod 4 = 3 \<and> (yoe mod 100 \<noteq> 99 \<or> yoe = 399)"
    and "\<bar>era\<bar> \<le> 250001"
proof -
  define y where "y = year - (if m \<le> 2 then 1 else 0)"
  define mp where "mp = m + (if m > 2 then -3 else 9)"
  define era where "era = y div 400"
  define yoe where "yoe = y mod 400"
  define doy where "doy = (153 * mp + 2) div 5 + d - 1"
  have v: "1 \<le> m" "m \<le> 12" "1 \<le> d" "d \<le> month_days year m" "d \<le> 31"
    using assms(1) by (auto simp: valid_date_def month_days_def split: if_splits)
  have mp: "0 \<le> mp" "mp \<le> 11" "m = mp + (if mp < 10 then 3 else -9)" "m \<le> 2 \<longleftrightarrow> 10 \<le> mp"
    using v by (auto simp: mp_def)
  have "d \<le> march_days mp"
    using v(4) month_cases [OF mp(1,2)] mp(3)
    by (auto simp: march_days_def month_days_def split: if_splits)
  have yoe: "0 \<le> yoe" "yoe < 400" "y = yoe + era * 400"
    using div_mult_mod_eq [of y 400] by (simp_all add: yoe_def era_def)
  note doy = day_of_year [OF mp(1,2) v(3) \<open>d \<le> march_days mp\<close> doy_def]
  have leap: "yoe mod 4 = 3 \<and> (yoe mod 100 \<noteq> 99 \<or> yoe = 399)" if "doy = 365"
  proof -
    have "mp = 11" "d = 29"
      using that doy(4) by simp_all
    then have "is_leap (y + 1)"
      using v(4) mp(3) by (auto simp: month_days_def y_def split: if_splits)
    moreover have "y mod 4 = yoe mod 4" "y mod 100 = yoe mod 100" "y mod 400 = yoe"
      by (simp_all add: yoe_def mod_mod_cancel)
    ultimately show ?thesis
      by (auto simp: is_leap_def mod_next_zero)
  qed
  have y: "\<bar>y\<bar> \<le> 100000001"
    using assms(2) by (auto simp: y_def abs_le_iff)
  then have era: "\<bar>era\<bar> \<le> 250001"
    using yoe by linarith
  have days: "days_from_civil year m d =
      Inr (era * 146097 + (yoe * 365 + yoe div 4 - yoe div 100 + doy) - 719468)"
  proof -
    have w: "wrap64 y = y" "wrap64 (y - 399) = y - 399"
      using y by (auto intro: wrap64_small simp: abs_le_iff)
    have "quot (if 0 \<le> y then y else wrap64 (y - 399)) 400 = era"
      unfolding w era_def by (rule era_quots)
    moreover have "wrap64 (y - era * 400) = yoe"
      using yoe by (simp add: wrap64_small)
    moreover have "wrap64 (yoe * 365 + yoe div 4 - yoe div 100 + doy) =
        yoe * 365 + yoe div 4 - yoe div 100 + doy"
      using year_of_era(2,3) [OF yoe(1,2) doy(2,3) leap refl] by (simp add: wrap64_small)
    moreover have "wrap64 (era * 146097 + (yoe * 365 + yoe div 4 - yoe div 100 + doy) - 719468) =
        era * 146097 + (yoe * 365 + yoe div 4 - yoe div 100 + doy) - 719468"
      using year_of_era(2,3) [OF yoe(1,2) doy(2,3) leap refl] era by (intro wrap64_small) linarith
    ultimately show ?thesis
      using v mp(1) yoe(1) w(1)
      by (simp add: days_from_civil_def Let_def y_def [symmetric] mp_def [symmetric] quot_nonneg
          doy_def [symmetric] split del: if_split)
  qed
  have "year = yoe + era * 400 + (if m \<le> 2 then 1 else 0)"
    using yoe(3) by (simp add: y_def)
  from that [OF days yoe(1,2) mp(1,2) \<open>d \<le> march_days mp\<close> doy_def mp(3) this leap era]
  show ?thesis .
qed

lemma civil_of_days:
  assumes "0 \<le> yoe" and "yoe < 400" and "0 \<le> mp" and "mp \<le> 11" and "1 \<le> d" and "d \<le> march_days mp"
    and "doy = (153 * mp + 2) div 5 + d - 1" and "m = mp + (if mp < 10 then 3 else -9)"
    and "year = yoe + era * 400 + (if m \<le> 2 then 1 else 0)"
    and "doy = 365 \<Longrightarrow> yoe mod 4 = 3 \<and> (yoe mod 100 \<noteq> 99 \<or> yoe = 399)"
    and "\<bar>era\<bar> \<le> 250001"
  shows "civil_from_days (era * 146097 + (yoe * 365 + yoe div 4 - yoe div 100 + doy) - 719468) =
    (year, m, d)"
proof -
  define doe where "doe = yoe * 365 + yoe div 4 - yoe div 100 + doy"
  note doy = day_of_year [OF assms(3-7)]
  note doe = year_of_era [OF assms(1,2) doy(2,3) assms(10) doe_def]
  define z where "z = era * 146097 + doe"
  have z: "wrap64 (z - 719468 + 719468) = z" "wrap64 (z - 146096) = z - 146096"
    using assms(11) doe(2,3) by (auto simp: z_def intro: wrap64_small)
  have "z div 146097 = era"
    using doe(2,3) by (simp add: z_def)
  then have era: "quot (if 0 \<le> z then z else z - 146096) 146097 = era"
    using era_quots(2) [of z] by simp
  define x where "x = doe - doe div 1460 + doe div 36524 - doe div 146096"
  have "0 \<le> x div 365"
    using doe(1) assms(1) by (simp add: x_def)
  then have "0 \<le> x"
    by (simp add: pos_imp_zdiv_nonneg_iff)
  then have yoe: "quot (doe - quot doe 1460 + quot doe 36524 - quot doe 146096) 365 = yoe"
    using doe(1,2) by (simp add: quot_nonneg x_def)
  have parts: "wrap64 (z - era * 146097) = doe" "wrap64 (yoe + era * 400) = yoe + era * 400"
    "wrap64 (yoe + era * 400 + (if m \<le> 2 then 1 else 0)) = year"
    using assms(1,2,9,11) doe(2,3) by (auto simp: z_def intro!: wrap64_small)
  have rest: "doe - (365 * yoe + quot yoe 4 - quot yoe 100) = doy" "quot (5 * doy + 2) 153 = mp"
    "doy - quot (153 * mp + 2) 5 + 1 = d"
    using assms(1,3,7) doy(1,2) by (simp_all add: quot_nonneg doe_def)
  show ?thesis
    unfolding doe_def [symmetric] z_def [symmetric] civil_from_days_def Let_def z era parts yoe rest
      assms(8) [symmetric]
    by (rule refl)
qed

section \<open>The dates of the library\<close>

lemma default_ticks:
  "ticks_per_day date_time_profile_default = Inr 86400000"
  "sint (dtp_epoch date_time_profile_default) = 0"
  by (simp_all add: ticks_per_day_def date_time_profile_default_def nanos_per_day_def quot_def from_millis_def)

text \<open>A day whose ticks fit is written and read by the default profile without loss.\<close>

lemma day_ticks:
  assumes "- (2 ^ 63) \<le> days * 86400000" and "days * 86400000 < 2 ^ 63"
  shows "days_to_ticks days date_time_profile_default = Inr (days * 86400000)"
    and "date_ticks_to_days (word_of_int (days * 86400000)) date_time_profile_default =
      Some (Inr days)"
proof -
  define t where "t = (word_of_int (days * 86400000) :: i64)"
  have "sint t = days * 86400000"
    unfolding t_def using assms by (intro sint_of_int_id) (simp_all add: signed_min_def signed_max_def)
  then show "days_to_ticks days date_time_profile_default = Inr (days * 86400000)"
    and "date_ticks_to_days (word_of_int (days * 86400000)) date_time_profile_default =
      Some (Inr days)"
    using assms unfolding t_def [symmetric]
    by (simp_all add: days_to_ticks_def date_ticks_to_days_def default_ticks i64_checked_def calc_def)
qed

text \<open>C20: Dates: for every date of the Gregorian calendar (proleptic, for the years up to a hundred
  million before and after the epoch), \<open>CONCAT_DATE\<close> of its year, month and day succeeds, and
  \<open>SPLIT_DATE\<close> of the result gives the year, the month and the day back.\<close>

theorem date_round_trip:
  assumes "rmap sint (to_i64 a) = Inr year" and "rmap sint (to_i64 b) = Inr m"
    and "rmap sint (to_i64 c) = Inr d"
    and "valid_date year m d" and "\<bar>year\<bar> \<le> 100000000"
  shows "\<exists>ticks. concat_date [a, b, c] = Some (Inr (VDate ticks)) \<and>
    split_date (VDate ticks) date_time_profile_default = Some (Inr [year, m, d])"
  using assms(4,5)
proof (rule days_of_date)
  fix yoe doy era mp :: int
  let ?days = "era * 146097 + (yoe * 365 + yoe div 4 - yoe div 100 + doy) - 719468"
  assume days: "days_from_civil year m d = Inr ?days"
    and y: "0 \<le> yoe" "yoe < 400" and mp: "0 \<le> mp" "mp \<le> 11" "d \<le> march_days mp"
    and doy: "doy = (153 * mp + 2) div 5 + d - 1"
    and rest: "m = mp + (if mp < 10 then 3 else -9)" "year = yoe + era * 400 + (if m \<le> 2 then 1 else 0)"
    and leap: "doy = 365 \<Longrightarrow> yoe mod 4 = 3 \<and> (yoe mod 100 \<noteq> 99 \<or> yoe = 399)"
    and era: "\<bar>era\<bar> \<le> 250001"
  have d: "1 \<le> d"
    using assms(4) by (simp add: valid_date_def)
  note civil = civil_of_days [OF y mp(1,2) d mp(3) doy rest leap era]
  have "\<bar>?days\<bar> \<le> 40000000000"
    using year_of_era(2,3) [OF y day_of_year(2,3) [OF mp(1,2) d mp(3) doy] leap refl] era by linarith
  then have fits: "- (2 ^ 63) \<le> ?days * 86400000" "?days * 86400000 < 2 ^ 63"
    by auto
  have "concat_date [a, b, c] = Some (Inr (VDate (word_of_int (?days * 86400000))))"
    using days day_ticks(1) [OF fits] assms(1-3)
    by (cases "to_i64 a"; cases "to_i64 b"; cases "to_i64 c")
      (simp_all add: concat_date_def int_arg_def rmap_def calc_def i64_result_def)
  moreover have "split_date (VDate (word_of_int (?days * 86400000))) date_time_profile_default =
      Some (Inr [year, m, d])"
    using day_ticks(2) [OF fits] civil by (simp add: split_date_def civil_list_def)
  ultimately show ?thesis
    by blast
qed

theorem date_round_trip_witness:
  "\<exists>ticks. concat_date [VInt 2024, VInt 2, VInt 29] = Some (Inr (VDate ticks)) \<and>
    split_date (VDate ticks) date_time_profile_default = Some (Inr [2024, 2, 29])"
  using date_round_trip [of "VInt 2024" 2024 "VInt 2" 2 "VInt 29" 29]
  by (simp add: to_i64_def rmap_def valid_date_def month_days_def is_leap_def)

text \<open>
  A day is only compared with 31: the 31st of February is taken, and is the 3rd of March.
\<close>

lemma february_31st:
  "concat_date [VInt 2023, VInt 2, VInt 31] = concat_date [VInt 2023, VInt 3, VInt 3]"
proof -
  have "days_from_civil 2023 2 31 = days_from_civil 2023 3 3"
    by code_simp
  then show ?thesis
    by (simp add: concat_date_def int_arg_def to_i64_def)
qed

end
