(* ===== verification/Std_Properties.thy ===== *)
theory Std_Properties
  imports Std_Selection Std_Bits Std_Calendar
begin

text \<open>
  Properties of the whole table of standard functions: which calls can panic, and the conversions
  between integer types.
\<close>

section \<open>The calls that panic\<close>

text \<open>
  The end of a part of a \<open>STRING\<close> is the sum of its start and its length in \<open>i64\<close>; when the sum
  overflows, the index is past the end of the string.
\<close>

definition overflowing :: "rvalue \<Rightarrow> rvalue \<Rightarrow> rvalue \<Rightarrow> bool" where
  "overflowing value count position =
     (case (value, to_i64 count, to_i64 position) of
        (VString s, Inr n, Inr p) \<Rightarrow>
          0 < sint n \<and> start_index p < length s \<and> 2 ^ 63 \<le> int (start_index p) + sint n
      | _ \<Rightarrow> False)"

definition slice_panic :: "rstr \<Rightarrow> rvalue list \<Rightarrow> bool" where
  "slice_panic key args =
     (if key = ''MID'' \<or> key = ''DELETE''
      then length args = 3 \<and> overflowing (args ! 0) (args ! 1) (args ! 2)
      else key = ''REPLACE'' \<and> length args = 4 \<and> value_type_id (args ! 1) = Some TypeId_STRING
        \<and> overflowing (args ! 0) (args ! 2) (args ! 3))"

definition strings_fit :: "rvalue list \<Rightarrow> bool" where
  "strings_fit args \<longleftrightarrow> (\<forall>s. VString s \<in> set args \<longrightarrow> int (length s) < 2 ^ 63)"

lemma wrap64_above:
  assumes "2 ^ 63 \<le> i" and "i < 2 ^ 64"
  shows "wrap64 i = i - 2 ^ 64"
proof -
  have "(i + 2 ^ 63) mod 2 ^ 64 = i + 2 ^ 63 - 2 ^ 64"
    by (rule int_mod_pos_eq [where q = 1]) (use assms in simp_all)
  then show ?thesis
    by (simp add: wrap64_def)
qed

lemma end_index_cases:
  assumes "0 < sint n" and "start < len" and "int len < 2 ^ 63" and "int start < 2 ^ 63"
  shows "if 2 ^ 63 \<le> int start + sint n then len < end_index start n len
    else start \<le> end_index start n len \<and> end_index start n len \<le> len"
proof -
  have n: "sint n < 2 ^ 63"
    using sint_lt [of n] by simp
  show ?thesis
  proof (cases "2 ^ 63 \<le> int start + sint n")
    case True
    then have "wrap64 (int start + sint n) = int start + sint n - 2 ^ 64"
      using n assms(4) by (intro wrap64_above) simp_all
    then have "end_index start n len = nat (int start + sint n)"
      using True n assms by (simp add: end_index_def min_def)
    then show ?thesis
      using True assms by simp
  next
    case False
    then have "wrap64 (int start + sint n) = int start + sint n"
      using assms(1) by (intro wrap64_id) simp_all
    then have "end_index start n len = nat (min (int start + sint n) (int len))"
      using False assms(1,3) by (simp add: end_index_def)
    then show ?thesis
      using False assms(1,2) by (auto simp: min_def)
  qed
qed

lemma start_index_bound: "int (start_index p) < 2 ^ 63"
  using sint_lt [of p] by (auto simp: start_index_def of_nat_diff)

lemma byte_slice_None: "byte_slice a b s = None \<longleftrightarrow> \<not> (a \<le> b \<and> b \<le> length s)"
  by (simp add: byte_slice_def)

text \<open>The part that is replaced ends within the string, or the call panics.\<close>

lemma splice_panics:
  assumes "int (length s) < 2 ^ 63" and "start_index p < length s" and "0 < sint n"
  shows "splice (start_index p) (end_index (start_index p) n (length s)) repl s = None \<longleftrightarrow>
    2 ^ 63 \<le> int (start_index p) + sint n"
  using end_index_cases [OF assms(3,2,1) start_index_bound] assms(2)
  by (auto simp: splice_def byte_slice_None map_option_is_None bind_eq_None_conv not_le split: if_splits)

lemma string_type: "value_type_id v = Some TypeId_STRING \<longleftrightarrow> (\<exists>s. v = VString s)"
  by (cases v) (simp_all add: value_type_id_def type_ids)

lemma overflowing_cases:
  "overflowing v c q \<longleftrightarrow> (\<exists>s n p. v = VString s \<and> to_i64 c = Inr n \<and> to_i64 q = Inr p \<and>
    0 < sint n \<and> start_index p < length s \<and> 2 ^ 63 \<le> int (start_index p) + sint n)"
  by (cases v; cases "to_i64 c"; cases "to_i64 q") (auto simp: overflowing_def)

lemma fits:
  assumes "strings_fit args" and "i < length args" and "args ! i = VString s"
  shows "int (length s) < 2 ^ 63"
  using assms unfolding strings_fit_def by (metis nth_mem)

lemmas slice_defs = i64_arg_def Let_def slice_panic_def overflowing_cases

lemma mid_panics:
  assumes "strings_fit args"
  shows "std_mid args = None \<longleftrightarrow> slice_panic ''MID'' args"
proof -
  have cut: "byte_slice (start_index p) (end_index (start_index p) n (length s)) s = None \<longleftrightarrow>
      2 ^ 63 \<le> int (start_index p) + sint n"
    if "args ! 0 = VString s" "length args = 3" "0 < sint n" "start_index p < length s" for s n p
    using fits [OF assms _ that(1)] that(2,4) end_index_cases [OF that(3,4) _ start_index_bound]
    by (auto simp: byte_slice_None split: if_splits)
  show ?thesis
  proof (cases "length args = 3")
    case True
    then show ?thesis
      by (cases "args ! 0"; cases "to_i64 (args ! 1)"; cases "to_i64 (args ! 2)")
        (auto simp: std_mid_def slice_defs map_option_is_None cut split: if_splits)
  qed (simp add: std_mid_def panic_cases slice_panic_def)
qed

lemma delete_panics:
  assumes "strings_fit args"
  shows "std_delete args = None \<longleftrightarrow> slice_panic ''DELETE'' args"
proof -
  have cut: "splice (start_index p) (end_index (start_index p) n (length s)) [] s = None \<longleftrightarrow>
      2 ^ 63 \<le> int (start_index p) + sint n"
    if "args ! 0 = VString s" "length args = 3" "0 < sint n" "start_index p < length s" for s n p
    using fits [OF assms _ that(1)] that splice_panics by simp
  show ?thesis
  proof (cases "length args = 3")
    case True
    then show ?thesis
      by (cases "args ! 0"; cases "to_i64 (args ! 1)"; cases "to_i64 (args ! 2)")
        (auto simp: std_delete_def slice_defs cut split: if_splits)
  qed (simp add: std_delete_def panic_cases slice_panic_def)
qed

lemma replace_panics:
  assumes "strings_fit args"
  shows "std_replace args = None \<longleftrightarrow> slice_panic ''REPLACE'' args"
proof -
  have cut: "splice (start_index p) (end_index (start_index p) n (length s)) repl s = None \<longleftrightarrow>
      2 ^ 63 \<le> int (start_index p) + sint n"
    if "args ! 0 = VString s" "length args = 4" "0 < sint n" "start_index p < length s"
    for s n p repl
    using fits [OF assms _ that(1)] that splice_panics by simp
  have same: "splice (start_index p) (start_index p) repl s \<noteq> None" if "start_index p < length s"
    for p repl s
    using that by (simp add: splice_def byte_slice_def)
  show ?thesis
  proof (cases "length args = 4")
    case True
    show ?thesis
    proof (cases "args ! 0")
      case (VString s)
      then show ?thesis
        using True
        by (cases "args ! 1"; cases "to_i64 (args ! 2)"; cases "to_i64 (args ! 3)")
          (auto simp: std_replace_def slice_defs string_type cut same split: if_splits)
    next
      case (VWString s)
      then show ?thesis
        using True
        by (cases "args ! 1"; cases "to_i64 (args ! 2)"; cases "to_i64 (args ! 3)")
          (auto simp: std_replace_def slice_defs split: if_splits)
    qed (use True in \<open>auto simp: std_replace_def slice_defs panic_cases(5)\<close>)
  qed (simp add: std_replace_def panic_cases slice_panic_def)
qed

section \<open>The functions that do not\<close>

text \<open>Every index into the arguments is below their number, which has been checked before.\<close>

definition total_func :: "std_func \<Rightarrow> bool" where
  "total_func f \<longleftrightarrow> (\<forall>args. f args \<noteq> None)"

lemma total_funcI: "(\<And>args. f args = None \<Longrightarrow> False) \<Longrightarrow> total_func f"
  by (auto simp: total_func_def)

named_theorems total_funcs \<open>standard functions that never panic\<close>

lemmas parts_defs = panic_cases two_args_def fold_args_def coerced_arg_def f64_arg_def i64_arg_def
  int_arg_def

lemma total_numeric [total_funcs]:
  "total_func std_abs" "total_func (unary_real g)" "total_func (std_atan2 env)" "total_func (std_add env)"
  "total_func (std_binary env op)" "total_func (std_mul env)" "total_func (std_div env)"
  "total_func (std_expt env)" "total_func std_move"
  by (auto intro!: total_funcI simp: std_abs_def unary_real_def std_atan2_def std_add_def std_binary_def
      std_mul_def std_div_def std_expt_def std_move_def parts_defs split: if_splits)

lemma total_bits [total_funcs]:
  "total_func (std_shift op)" "total_func (bitwise_variadic bop)" "total_func bit_not"
  "total_func std_is_valid" "total_func std_is_valid_bcd"
  by (auto intro!: total_funcI simp: std_shift_def bitwise_variadic_def bit_not_def std_is_valid_def
      std_is_valid_bcd_def parts_defs split: if_splits prod.splits)

lemma total_compare:
  "compare_two op args = None \<longleftrightarrow> False"
  "compare_two op args = Some (Inr b) \<Longrightarrow> length args = 2"
  by (auto simp: compare_two_def parts_defs with_arity_def require_arity_def split: if_splits)

lemma total_comparison [total_funcs]:
  "total_func (compare_chain op)" "total_func std_ne" "total_func (min_max is_min)"
  "total_func std_limit" "total_func std_mux"
  by (auto intro!: total_funcI simp: compare_chain_def std_ne_def min_max_def std_limit_def std_mux_def
      fbind_eq_None total_compare parts_defs split: if_splits)

lemma total_sel [total_funcs]: "total_func std_sel"
proof (rule total_funcI)
  fix args :: "rvalue list"
  assume "std_sel args = None"
  then show False
    by (cases "args ! 0") (auto simp: std_sel_def parts_defs)
qed

lemma total_assertions [total_funcs]:
  "total_func (assert_bool expected text)" "total_func (assert_near env)"
  by (auto intro!: total_funcI simp: assert_bool_def assert_near_def parts_defs)

lemma total_assert_compare [total_funcs]: "total_func (assert_compare op message)"
proof (rule total_funcI)
  fix args :: "rvalue list"
  assume "assert_compare op message args = None"
  then obtain b where "compare_two op args = Some (Inr b)" and "two_args args (\<lambda>a b. Inl (AssertionFailed (message a b)) :: runtime_error + rvalue) = None"
    by (auto simp: assert_compare_def fbind_eq_None total_compare(1) split: if_splits)
  then show False
    using total_compare(2) [of op args b] by (simp add: two_args_def)
qed

lemma total_assert_texts [total_funcs]:
  "total_func (assert_equal env)" "total_func (assert_not_equal env)" "total_func (assert_greater env)"
  "total_func (assert_less env)" "total_func (assert_greater_or_equal env)"
  "total_func (assert_less_or_equal env)"
  by (simp_all add: total_assert_compare assert_equal_def assert_not_equal_def assert_greater_def
      assert_less_def assert_greater_or_equal_def assert_less_or_equal_def)

lemma total_slices:
  "byte_slice 0 (take_count n (length s)) s = None \<longleftrightarrow> False"
  "byte_slice (length s - k) (length s) s = None \<longleftrightarrow> False"
  "splice (insert_index n (length s)) (insert_index n (length s)) repl s = None \<longleftrightarrow> False"
  by (auto simp: byte_slice_None take_count_def splice_def insert_index_def byte_slice_def
      bind_eq_None_conv map_option_is_None)

lemma split_once_length: "split_once sep s = Some (before, after) \<Longrightarrow> length before \<le> length s"
proof (induction s arbitrary: before)
  case (Cons c cs)
  then show ?case
    by (fastforce split: option.splits)
qed auto

lemma total_strings [total_funcs]:
  "total_func std_len" "total_func std_concat" "total_func std_left" "total_func std_right"
proof -
  show "total_func std_len" "total_func std_concat"
    by (auto intro!: total_funcI simp: std_len_def std_concat_def parts_defs)
  show "total_func std_left"
  proof (rule total_funcI)
    fix args :: "rvalue list"
    assume "std_left args = None"
    then show False
      by (cases "args ! 0") (auto simp: std_left_def parts_defs total_slices)
  qed
  show "total_func std_right"
  proof (rule total_funcI)
    fix args :: "rvalue list"
    assume "std_right args = None"
    then show False
      by (cases "args ! 0") (auto simp: std_right_def parts_defs total_slices Let_def)
  qed
qed

lemma total_insert [total_funcs]: "total_func std_insert"
proof (rule total_funcI)
  fix args :: "rvalue list"
  assume none: "std_insert args = None"
  show False
  proof (cases "args ! 0")
    case (VString s)
    with none show False
      by (cases "args ! 1") (auto simp: std_insert_def parts_defs total_slices Let_def)
  next
    case (VWString s)
    with none show False
      by (cases "args ! 1") (auto simp: std_insert_def parts_defs Let_def)
  qed (use none in \<open>auto simp: std_insert_def parts_defs\<close>)
qed

lemma total_find [total_funcs]: "total_func std_find"
proof (rule total_funcI)
  fix args :: "rvalue list"
  assume none: "std_find args = None"
  show False
  proof (cases "args ! 0")
    case (VString s)
    with none show False
      by (cases "args ! 1") (auto simp: std_find_def parts_defs)
  next
    case (VWString s)
    with none show False
      by (cases "args ! 1") (auto simp: std_find_def parts_defs byte_slice_None map_option_is_None
          dest: split_once_length split: if_splits option.splits)
  qed (use none in \<open>auto simp: std_find_def parts_defs\<close>)
qed

lemma total_parts:
  "length args = 4 \<Longrightarrow> tod_components_to_nanos args = None \<longleftrightarrow> False"
  "length args = 7 \<Longrightarrow> date_time_components args = None \<longleftrightarrow> False"
  by (auto simp: tod_components_to_nanos_def date_time_components_def fbind_eq_None parts_defs)

lemma total_times [total_funcs]:
  "total_func (bin_time env pair op)" "total_func concat_date_tod" "total_func concat_date"
  "total_func concat_tod" "total_func concat_ltod" "total_func concat_dt" "total_func concat_ldt"
  by (auto intro!: total_funcI simp: bin_time_def concat_date_tod_def concat_date_def concat_tod_def
      concat_ltod_def concat_dt_def concat_ldt_def fbind_eq_None total_parts parts_defs)

lemma total_scale [total_funcs]:
  "total_func (scale_time_arg multiply)" "total_func (scale_ltime_arg multiply)"
proof -
  have False if "scale_time_arg multiply args = None" for args
    using that by (cases "args ! 0") (auto simp: scale_time_arg_def parts_defs)
  moreover have False if "scale_ltime_arg multiply args = None" for args
    using that by (cases "args ! 0") (auto simp: scale_ltime_arg_def parts_defs)
  ultimately show "total_func (scale_time_arg multiply)" "total_func (scale_ltime_arg multiply)"
    by (blast intro: total_funcI)+
qed

lemma total_days [total_funcs]: "total_func day_of_week" "total_func concat_date_ltod"
proof -
  have days: "date_ticks_to_days date date_time_profile_default = None \<longleftrightarrow> False" for date
    by (simp add: date_ticks_to_days_def fbind_eq_None default_ticks calc_def)
  have False if "day_of_week args = None" for args
    using that by (cases "args ! 0") (auto simp: day_of_week_def fbind_eq_None days panic_cases)
  moreover have False if none: "concat_date_ltod args = None" for args
  proof (cases "args ! 0")
    case (VDate date)
    with none show False
      by (cases "args ! 1") (auto simp: concat_date_ltod_def fbind_eq_None days panic_cases)
  qed (use none in \<open>auto simp: concat_date_ltod_def panic_cases\<close>)
  ultimately show "total_func day_of_week" "total_func concat_date_ltod"
    by (blast intro: total_funcI)+
qed

lemma total_conversions [total_funcs]: "total_func (apply_conversion spec)"
  by (auto intro!: total_funcI simp: apply_conversion_def panic_cases)

section \<open>The table\<close>

text \<open>Every entry of a library panics only as the three functions on strings do.\<close>

definition panics_as_told :: "rstr \<Rightarrow> std_func \<Rightarrow> bool" where
  "panics_as_told key func \<longleftrightarrow> (\<forall>args. strings_fit args \<longrightarrow> (func args = None \<longleftrightarrow> slice_panic key args))"

definition lib_ok :: "standard_library \<Rightarrow> bool" where
  "lib_ok lib \<longleftrightarrow> (\<forall>key entry. im_get lib key = Some entry \<longrightarrow> panics_as_told key (sfn_func entry))"

named_theorems lib_safe \<open>entries that keep the library as told\<close>

lemma total_safe [lib_safe]:
  "total_func f \<Longrightarrow> to_ascii_uppercase name \<notin> {''MID'', ''DELETE'', ''REPLACE''} \<Longrightarrow>
    panics_as_told (to_ascii_uppercase name) f"
  by (simp add: panics_as_told_def total_func_def slice_panic_def)

lemma entries_safe [lib_safe]:
  assumes "panics_as_told (to_ascii_uppercase name) func"
  shows "lib_ok lib \<Longrightarrow> lib_ok (fixed_entry name params func lib)"
    and "lib_ok lib \<Longrightarrow> lib_ok (variadic_entry name prefix start mn func lib)"
    and "lib_ok lib \<Longrightarrow> lib_ok (std_register_variadic_with_fixed name fx prefix start mn func lib)"
  using assms
  by (auto simp: lib_ok_def fixed_entry_def variadic_entry_def std_register_def
      std_register_variadic_def std_register_variadic_with_fixed_def im_get_insert split: if_splits)

definition keeps_lib :: "std_entry \<Rightarrow> bool" where
  "keeps_lib entry \<longleftrightarrow> (\<forall>lib. lib_ok lib \<longrightarrow> lib_ok (entry lib))"

lemma register_all_ok:
  assumes "list_all keeps_lib entries"
  shows "keeps_lib (register_all entries)"
  using assms
proof (induction entries)
  case (Cons entry entries)
  then show ?case
    by (simp add: register_all_def keeps_lib_def)
qed (simp add: register_all_def keeps_lib_def)

lemma keeps_entries:
  assumes "panics_as_told (to_ascii_uppercase name) func"
  shows "keeps_lib (fixed_entry name params func)" and "keeps_lib (variadic_entry name prefix start mn func)"
    and "keeps_lib (std_register_variadic_with_fixed name fx prefix start mn func)"
  using entries_safe [OF assms] by (simp_all add: keeps_lib_def)

lemma keeps_total:
  assumes "total_func f" and "to_ascii_uppercase name \<notin> {''MID'', ''DELETE'', ''REPLACE''}"
  shows "keeps_lib (fixed_entry name params f)"
    and "keeps_lib (variadic_entry name prefix start mn f)"
    and "keeps_lib (std_register_variadic_with_fixed name fx prefix start mn f)"
  using keeps_entries [OF total_safe [OF assms]] by simp_all

lemmas upper_eval = to_ascii_uppercase_def to_upper_char_def

lemma registered:
  "keeps_lib (register_assertions env)"
  "keeps_lib (register_numeric env)"
  "keeps_lib register_bit"
  "keeps_lib register_selection"
  "keeps_lib register_comparison"
  "keeps_lib register_validate"
  unfolding register_assertions_def register_numeric_def register_bit_def register_selection_def
    register_comparison_def register_validate_def
  by (rule register_all_ok; simp add: keeps_total total_funcs upper_eval)+

lemma registered_strings: "keeps_lib register_string"
proof -
  have "panics_as_told ''MID'' std_mid" "panics_as_told ''DELETE'' std_delete"
    "panics_as_told ''REPLACE'' std_replace"
    using mid_panics delete_panics replace_panics by (simp_all add: panics_as_told_def)
  then show ?thesis
    unfolding register_string_def
    by (intro register_all_ok) (simp add: keeps_total total_funcs keeps_entries upper_eval)
qed

lemma registered_times: "keeps_lib (register_time env)"
  unfolding register_time_def
  by (intro register_all_ok) (simp add: keeps_total total_funcs keeps_entries upper_eval)

lemma standard_library_ok: "lib_ok (standard_library_new env)"
proof -
  have "lib_ok []"
    by (simp add: lib_ok_def im_get_def)
  then show ?thesis
    using registered registered_strings registered_times [of env]
    by (simp add: standard_library_new_def keeps_lib_def)
qed

text \<open>The three functions are in the table, under their names.\<close>

definition keeps_key :: "rstr \<Rightarrow> std_entry \<Rightarrow> bool" where
  "keeps_key key entry \<longleftrightarrow> (\<forall>lib. im_get (entry lib) key = im_get lib key)"

lemma underscore_name:
  assumes "CHR ''_'' \<in> set name" and "CHR ''_'' \<notin> set key"
  shows "keeps_key key (fixed_entry name params func)"
proof -
  have "to_upper_char CHR ''_'' = CHR ''_''"
    by code_simp
  then have "CHR ''_'' \<in> set (to_ascii_uppercase name)"
    using assms(1) by (force simp: to_ascii_uppercase_def)
  then have "to_ascii_uppercase name \<noteq> key"
    using assms(2) by blast
  then show ?thesis
    by (simp add: keeps_key_def fixed_entry_def std_register_def im_get_insert)
qed

lemma register_all_key: "list_all (keeps_key key) entries \<Longrightarrow> keeps_key key (register_all entries)"
  by (induction entries) (simp_all add: register_all_def keeps_key_def)

lemma later_registrations:
  assumes "CHR ''_'' \<notin> set key"
  shows "im_get (register_time env lib) key = im_get lib key"
    and "im_get (register_validate lib) key = im_get lib key"
proof -
  have "keeps_key key (register_time env)" "keeps_key key register_validate"
    unfolding register_time_def register_validate_def
    using assms by (auto intro!: register_all_key simp: underscore_name)
  then show "im_get (register_time env lib) key = im_get lib key"
    and "im_get (register_validate lib) key = im_get lib key"
    by (simp_all add: keeps_key_def)
qed

lemma slices_registered:
  assumes "slice_panic key args"
  shows "im_get (standard_library_new env) key \<noteq> None"
proof -
  have "key \<in> {''MID'', ''DELETE'', ''REPLACE''}"
    using assms by (auto simp: slice_panic_def split: if_splits)
  moreover from this have "im_get (register_string lib) key \<noteq> None" for lib
    by (auto simp: register_string_def register_all_def fixed_entry_def std_register_def
        variadic_entry_def std_register_variadic_def std_register_variadic_with_fixed_def
        im_get_insert upper_eval)
  ultimately show ?thesis
    by (auto simp: standard_library_new_def later_registrations)
qed

text \<open>C18: No standard function and no conversion panics, for arguments of any number, type and value,
  except \<open>MID\<close>, \<open>DELETE\<close> and \<open>REPLACE\<close> on a \<open>STRING\<close>: they do when the position is within the string
  and position and length together exceed the greatest \<open>i64\<close>, and only then. Every index into the
  arguments, the inputs of \<open>MUX\<close> and the bytes of a string is a panic of the model when it is out of
  bounds. (A Rust string is shorter than two to the 63 bytes; arithmetic is that of a release build,
  which wraps.)\<close>

theorem standard_functions_panic:
  assumes "strings_fit args"
  shows "std_call (standard_library_new env) name args = None \<longleftrightarrow>
    slice_panic (to_ascii_uppercase name) args"
proof (cases "im_get (standard_library_new env) (to_ascii_uppercase name)")
  case None
  then have "\<not> slice_panic (to_ascii_uppercase name) args"
    using slices_registered by blast
  moreover have "convert args \<noteq> None"
    if "call_conversion (to_ascii_uppercase name) = Some convert" for convert
    using that total_conversions by (auto simp: call_conversion_def total_func_def)
  ultimately show ?thesis
    using None by (auto simp: std_call_def Let_def split: option.split)
next
  case (Some entry)
  then show ?thesis
    using assms standard_library_ok [of env]
    by (simp add: std_call_def Let_def lib_ok_def panics_as_told_def)
qed

theorem standard_functions_panic_witness:
  "\<forall>env. std_call (standard_library_new env) ''mid'' [VString ''abc'', VLInt (2 ^ 63 - 1), VInt 2] = None"
proof
  fix env
  have "to_ascii_uppercase ''mid'' = ''MID''"
    by code_simp
  then show "std_call (standard_library_new env) ''mid'' [VString ''abc'', VLInt (2 ^ 63 - 1), VInt 2] = None"
    using standard_functions_panic [of "[VString ''abc'', VLInt (2 ^ 63 - 1), VInt 2]" env "''mid''"]
    by (simp add: strings_fit_def slice_panic_def overflowing_def to_i64_def start_index_def)
qed

section \<open>Conversions between integers\<close>

definition int_type_kind :: "type_id \<Rightarrow> numeric_kind" where
  "int_type_kind ty =
     (if ty = TypeId_SINT then NkSInt else if ty = TypeId_INT then NkInt
      else if ty = TypeId_DINT then NkDInt else if ty = TypeId_LINT then NkLInt
      else if ty = TypeId_USINT then NkUSInt else if ty = TypeId_UINT then NkUInt
      else if ty = TypeId_UDINT then NkUDInt else NkULInt)"

definition typed_int :: "rvalue \<Rightarrow> type_id option \<times> int option" where
  "typed_int v = (value_type_id v, int_of_value v)"

lemma integer_types:
  "is_integer_type dst \<longleftrightarrow> dst \<in> {TypeId_SINT, TypeId_INT, TypeId_DINT, TypeId_LINT,
     TypeId_USINT, TypeId_UINT, TypeId_UDINT, TypeId_ULINT}"
  by (simp add: is_integer_type_def)

lemma typed_int_type:
  assumes "int_of_value v = Some i"
  shows "\<exists>src. value_type_id v = Some src \<and> is_integer_type src \<and> in_kind (int_type_kind src) i"
  using assms int_of_value_kind [OF assms]
  by (cases v)
    (auto simp: int_of_value_def numeric_kind_of_def value_type_id_def is_integer_type_def
      int_type_kind_def type_ids)

lemma try_from_view:
  "rmap typed_int (ok_or (map_option VSInt (signed_try_from i)) Overflow) =
    (if in_kind NkSInt i then Inr (Some TypeId_SINT, Some i) else Inl Overflow)"
  "rmap typed_int (ok_or (map_option VInt (signed_try_from i)) Overflow) =
    (if in_kind NkInt i then Inr (Some TypeId_INT, Some i) else Inl Overflow)"
  "rmap typed_int (ok_or (map_option VDInt (signed_try_from i)) Overflow) =
    (if in_kind NkDInt i then Inr (Some TypeId_DINT, Some i) else Inl Overflow)"
  "rmap typed_int (ok_or (map_option VLInt (signed_try_from i)) Overflow) =
    (if in_kind NkLInt i then Inr (Some TypeId_LINT, Some i) else Inl Overflow)"
  "rmap typed_int (ok_or (map_option VUSInt (unsigned_try_from i)) Overflow) =
    (if in_kind NkUSInt i then Inr (Some TypeId_USINT, Some i) else Inl Overflow)"
  "rmap typed_int (ok_or (map_option VUInt (unsigned_try_from i)) Overflow) =
    (if in_kind NkUInt i then Inr (Some TypeId_UINT, Some i) else Inl Overflow)"
  "rmap typed_int (ok_or (map_option VUDInt (unsigned_try_from i)) Overflow) =
    (if in_kind NkUDInt i then Inr (Some TypeId_UDINT, Some i) else Inl Overflow)"
  by (auto simp: signed_try_from_def unsigned_try_from_def in_kind_def signed_min_def signed_max_def
      rmap_def typed_int_def value_type_id_def int_of_value_def sint_of_int_id uint_word_of_int_eq
      take_bit_int_eq_self)

lemma signed_conversion:
  assumes "is_signed_int_type dst"
  shows "rmap typed_int (signed_int_of i dst) =
    (if in_kind (int_type_kind dst) i then Inr (Some dst, Some i) else Inl Overflow)"
  using assms
  by (auto simp: is_signed_int_type_def signed_int_of_def try_from_view int_type_kind_def type_ids)

lemma unsigned_conversion:
  assumes "is_integer_type dst"
  shows "rmap typed_int (unsigned_int_from_u64 w dst) =
    (if in_kind (int_type_kind dst) (uint w) then Inr (Some dst, Some (uint w)) else Inl Overflow)"
proof (cases "is_signed_int_type dst")
  case True
  have "\<not> in_kind (int_type_kind dst) (uint w)" if "2 ^ 63 - 1 < uint w"
    using that True by (auto simp: is_signed_int_type_def int_type_kind_def in_kind_def type_ids)
  then show ?thesis
    using True signed_conversion [OF True, of "uint w"]
    by (auto simp: unsigned_int_from_u64_def is_signed_int_type_def type_ids rmap_def)
next
  case False
  have "typed_int (VULInt w) = (Some TypeId_ULINT, Some (uint w))" "in_kind NkULInt (uint w)"
    using uint_bounded [of w]
    by (simp_all add: typed_int_def value_type_id_def int_of_value_def in_kind_def)
  then show ?thesis
    using False assms
    by (auto simp: unsigned_int_from_u64_def is_integer_type_def is_signed_int_type_def try_from_view
        int_type_kind_def type_ids rmap_simps)
qed

lemma wide_conversion:
  assumes "is_integer_type dst" and "- (2 ^ 63) \<le> i \<and> i < 2 ^ 64"
  shows "rmap typed_int (signed_int_from_i128 i dst) =
    (if in_kind (int_type_kind dst) i then Inr (Some dst, Some i) else Inl Overflow)"
proof (cases "is_unsigned_int_type dst")
  case True
  have negative: "\<not> in_kind (int_type_kind dst) i" if "i < 0"
    using that True by (auto simp: is_unsigned_int_type_def int_type_kind_def in_kind_def type_ids)
  have "uint (word_of_int i :: u64) = i" if "0 \<le> i"
    using that assms(2) by (simp add: uint_word_of_int_eq take_bit_int_eq_self)
  then show ?thesis
    using True negative unsigned_conversion [OF assms(1), of "word_of_int i"]
    by (auto simp: signed_int_from_i128_def rmap_def)
next
  case False
  then have "is_signed_int_type dst"
    using assms(1) by (auto simp: is_integer_type_def is_unsigned_int_type_def is_signed_int_type_def)
  then show ?thesis
    using False by (simp add: signed_int_from_i128_def signed_conversion)
qed

lemma own_type:
  assumes "int_of_value v = Some i" and "value_type_id v = Some dst"
  shows "rmap typed_int (convert_value v dst mode) =
    (if in_kind (int_type_kind dst) i then Inr (Some dst, Some i) else Inl Overflow)"
  using typed_int_type [OF assms(1)] assms by (auto simp: convert_value_def typed_int_def rmap_simps)

lemma other_type:
  assumes "int_of_value v = Some i" and "is_integer_type dst"
  shows "rmap typed_int (convert_to_int v dst mode) =
    (if in_kind (int_type_kind dst) i then Inr (Some dst, Some i) else Inl Overflow)"
proof -
  have "- (2 ^ 63) \<le> sint a \<and> sint a < 2 ^ 64" "- (2 ^ 63) \<le> sint b \<and> sint b < 2 ^ 64"
    "- (2 ^ 63) \<le> sint c \<and> sint c < 2 ^ 64" "- (2 ^ 63) \<le> sint d \<and> sint d < 2 ^ 64"
    for a :: i8 and b :: i16 and c :: i32 and d :: i64
    using sint_ge [of a] sint_lt [of a] sint_ge [of b] sint_lt [of b] sint_ge [of c] sint_lt [of c]
      sint_ge [of d] sint_lt [of d]
    by simp_all
  note signed = this [THEN wide_conversion [OF assms(2)]]
  show ?thesis
    using assms(1) signed unsigned_conversion [OF assms(2)]
    by (cases v)
      (auto simp: int_of_value_def convert_to_int_def signed_int_from_i64_def
        sint_up_scast uint_up_ucast is_up)
qed

text \<open>C24: The conversions between integer types: \<open>TO_DINT\<close> and its kin, on a value of any integer type,
  give the same integer as a value of the type asked for when it is in the range of that type, and
  \<open>Overflow\<close> when it is not. So does the form that names the source, \<open>LINT_TO_DINT\<close>, when it names
  the type of the value; on a value of another type it is a type mismatch.\<close>

theorem integer_conversion_exact:
  assumes "int_of_value v = Some i" and "is_integer_type dst"
  shows "map_option (rmap typed_int) (apply_conversion (SpecConvert src dst) [v]) = Some
    (if src \<noteq> None \<and> src \<noteq> value_type_id v then Inl TypeMismatch
     else if in_kind (int_type_kind dst) i then Inr (Some dst, Some i)
     else Inl Overflow)"
proof -
  obtain ty where ty: "value_type_id v = Some ty" "is_integer_type ty"
    using typed_int_type [OF assms(1)] by blast
  then have "is_conversion_allowed ty dst"
    using assms(2) by (auto simp: is_conversion_allowed_def is_numeric_type_def is_integer_type_def)
  moreover have "rmap typed_int (convert_value v dst ConvRound) =
      (if in_kind (int_type_kind dst) i then Inr (Some dst, Some i) else Inl Overflow)"
  proof (cases "ty = dst")
    case True
    then show ?thesis
      using own_type [OF assms(1)] ty(1) by simp
  next
    case False
    then show ?thesis
      using other_type [OF assms] ty(1) assms(2) by (simp add: convert_value_def)
  qed
  ultimately show ?thesis
    using ty(1)
    by (cases src) (auto simp: apply_conversion_def convert_with_mode_def
        source_type_def rmap_simps)
qed

theorem integer_conversion_exact_witness:
  "map_option (rmap typed_int) (apply_conversion (SpecConvert None TypeId_USINT) [VLInt 200]) =
    Some (Inr (Some TypeId_USINT, Some 200))"
  using integer_conversion_exact [of "VLInt 200" 200 TypeId_USINT None]
  by (simp add: int_of_value_def is_integer_type_def int_type_kind_def type_ids in_kind_def)

text \<open>
  A number too great for 64 bits, which a conversion of an \<open>LREAL\<close> can produce, loses its upper bits on
  the way to an unsigned type: two to the 64 becomes 0, not an overflow.
\<close>

lemma wide_number_truncated:
  "signed_int_from_i128 (2 ^ 64) TypeId_ULINT = Inr (VULInt 0)"
  "signed_int_from_i128 (2 ^ 64) TypeId_LINT = Inl Overflow"
  by (simp_all add: signed_int_from_i128_def is_unsigned_int_type_def unsigned_int_from_u64_def
      signed_int_of_def signed_try_from_def signed_max_def type_ids)

end
