(* ===== verification/Io_Properties.thy ===== *)
theory Io_Properties
  imports Io
begin

text \<open>
  The process image as a set of cells: what is written to an address is read from it, and the
  addresses that share no bit with it keep their values. The safe state is a sequence of such writes.
\<close>

section \<open>Bytes\<close>

lemma byte_at_ensure [simp]: "byte_at (ensure_len buffer n) i = byte_at buffer i"
  by (simp add: byte_at_def ensure_len_def nth_append)

lemma length_ensure: "n < length (ensure_len buffer n)"
  by (simp add: ensure_len_def)

lemma length_ensure_le: "length buffer \<le> length (ensure_len buffer n)"
  by (simp add: ensure_len_def)

lemma byte_at_put:
  "start + length bs \<le> length buffer \<Longrightarrow>
    byte_at (put_bytes start bs buffer) i =
      (if start \<le> i \<and> i < start + length bs then bs ! (i - start) else byte_at buffer i)"
proof (induction bs arbitrary: start buffer)
  case (Cons b bs)
  then show ?case
    by (auto simp: byte_at_def nth_Cons' nth_list_update)
qed auto

lemma byte_at_put_cell:
  assumes "bytes \<noteq> []"
  shows "byte_at (put_cell a bytes buffer) i =
    (if unat (ia_byte a) \<le> i \<and> i < unat (ia_byte a) + length bytes
     then bytes ! (i - unat (ia_byte a)) else byte_at buffer i)"
proof -
  let ?start = "unat (ia_byte a)"
  have "?start + length bytes \<le> length (ensure_len buffer (?start + (length bytes - 1)))"
    using length_ensure [of "?start + (length bytes - 1)" buffer] assms by (cases bytes) auto
  from byte_at_put [OF this] show ?thesis
    by (simp add: put_cell_def Let_def)
qed

lemma bytes_at_put_cell:
  assumes "bytes \<noteq> []" and "length bytes = n"
  shows "bytes_at (put_cell a bytes buffer) (unat (ia_byte a)) n = bytes"
  using assms by (intro nth_equalityI) (auto simp: bytes_at_def byte_at_put_cell)

lemma byte_at_put_bit:
  "byte_at (put_bit a flag buffer) i =
    (if i = unat (ia_byte a)
     then (if flag then or (byte_at buffer i) (push_bit (unat (ia_bit a)) 1)
           else and (byte_at buffer i) (not (push_bit (unat (ia_bit a)) 1)))
     else byte_at buffer i)"
proof -
  let ?start = "unat (ia_byte a)"
  have "ensure_len buffer ?start ! ?start = byte_at buffer ?start"
    using byte_at_ensure [of buffer ?start ?start] length_ensure [of ?start buffer]
    by (simp add: byte_at_def)
  moreover have "byte_at ((ensure_len buffer ?start)[?start := x]) i =
      (if i = ?start then x else byte_at buffer i)" for x
    using byte_at_ensure [of buffer ?start i] length_ensure [of ?start buffer]
    by (auto simp: byte_at_def)
  ultimately show ?thesis
    by (simp add: put_bit_def Let_def)
qed

lemma area_set_area: "io_area_of (set_area x buffer io) y = (if x = y then buffer else io_area_of io y)"
  by (cases x; cases y) (simp_all add: set_area_def io_area_of_def)

lemma hierarchical_set_area [simp]: "ii_hierarchical (set_area x buffer io) = ii_hierarchical io"
  by (cases x) (simp_all add: set_area_def)

lemma one_bit: "(and (drop_bit k w) 1 = 1) = bit w k" for w :: "'a::len word"
  by (auto simp: and_one_eq bit_iff_odd_drop_bit odd_iff_mod_2_eq_one)

section \<open>Cells\<close>

text \<open>
  The bytes of a cell, and when two addresses share no bit: they are in different areas, on
  different bytes or two bits of one byte; two hierarchical addresses differ in their key, and a
  hierarchical address is apart from every other one.
\<close>

definition cell_bytes :: "io_address \<Rightarrow> nat" where
  "cell_bytes a = (case ia_size a of IoBit \<Rightarrow> 1 | IoByte \<Rightarrow> 1 | IoWord \<Rightarrow> 2 | IoDWord \<Rightarrow> 4 | IoLWord \<Rightarrow> 8)"

definition is_hierarchical :: "io_address \<Rightarrow> bool" where
  "is_hierarchical a \<longleftrightarrow> 1 < length (ia_path a)"

definition cells_apart :: "io_address \<Rightarrow> io_address \<Rightarrow> bool" where
  "cells_apart a b \<longleftrightarrow>
     (if is_hierarchical a \<and> is_hierarchical b then address_key a \<noteq> address_key b
      else is_hierarchical a \<or> is_hierarchical b \<or> ia_area a \<noteq> ia_area b
        \<or> unat (ia_byte a) + cell_bytes a \<le> unat (ia_byte b)
        \<or> unat (ia_byte b) + cell_bytes b \<le> unat (ia_byte a)
        \<or> ia_size a = IoBit \<and> ia_size b = IoBit \<and> ia_bit a \<noteq> ia_bit b)"

definition valid_address :: "io_address \<Rightarrow> bool" where
  "valid_address a \<longleftrightarrow> ia_bit a < 8"

lemma parsed_bit: "parse_path full sz parts = Inr (path, n) \<Longrightarrow> n < 8"
  by (auto simp: parse_path_def rbind_eq_Inr word_less_nat_alt word_le_nat_alt split: if_splits)

lemma parsed_address_valid: "io_address_parse s = Inr a \<Longrightarrow> valid_address a"
  by (auto simp: io_address_parse_def Let_def rbind_eq_Inr valid_address_def wildcard_address_def
      split: if_splits list.splits prod.splits)
    (metis io_address.select_convs(4) list.exhaust parsed_bit)

section \<open>Writing and reading\<close>

lemma write_error_keeps: "fst (io_write a v io) \<noteq> Inr () \<Longrightarrow> snd (io_write a v io) = io"
proof (cases "ia_wildcard a \<or> 1 < length (ia_path a)")
  case True
  then show "fst (io_write a v io) \<noteq> Inr () \<Longrightarrow> snd (io_write a v io) = io"
    by (auto simp: io_write_def)
next
  case False
  then show "fst (io_write a v io) \<noteq> Inr () \<Longrightarrow> snd (io_write a v io) = io"
    by (cases "ia_size a"; simp add: io_write_def Let_def; cases v; simp)
qed

text \<open>The value a cell of more than a bit holds, and the two ways a direct write changes the image.\<close>

definition cell_value :: "io_size \<Rightarrow> byte list \<Rightarrow> rvalue" where
  "cell_value sz bytes =
     (case sz of IoBit \<Rightarrow> VNull | IoByte \<Rightarrow> VByte (bytes ! 0) | IoWord \<Rightarrow> VWord (from_le bytes)
      | IoDWord \<Rightarrow> VDWord (from_le bytes) | IoLWord \<Rightarrow> VLWord (from_le bytes))"

lemma read_cell:
  assumes "\<not> ia_wildcard a" and "\<not> is_hierarchical a" and "ia_size a \<noteq> IoBit"
  shows "io_read io a =
    Inr (cell_value (ia_size a) (bytes_at (io_area_of io (ia_area a)) (unat (ia_byte a)) (cell_bytes a)))"
  using assms
  by (cases "ia_size a")
    (auto simp: io_read_def is_hierarchical_def Let_def cell_value_def cell_bytes_def bytes_at_def)

lemma read_bit:
  assumes "\<not> ia_wildcard a" and "\<not> is_hierarchical a" and "ia_size a = IoBit"
  shows "io_read io a = Inr (VBool (bit (byte_at (io_area_of io (ia_area a)) (unat (ia_byte a)))
    (unat (ia_bit a))))"
  using assms by (simp add: io_read_def is_hierarchical_def Let_def one_bit)

lemma direct_write_cases:
  assumes "io_write a v io = (Inr (), io')" and "\<not> is_hierarchical a"
  obtains (bit) flag where "\<not> ia_wildcard a" and "ia_size a = IoBit" and "v = VBool flag"
      and "io' = set_area (ia_area a) (put_bit a flag (io_area_of io (ia_area a))) io"
  | (cell) bytes where "\<not> ia_wildcard a" and "ia_size a \<noteq> IoBit" and "length bytes = cell_bytes a"
      and "v = cell_value (ia_size a) bytes"
      and "io' = set_area (ia_area a) (put_cell a bytes (io_area_of io (ia_area a))) io"
proof -
  have w: "\<not> ia_wildcard a"
    using assms(1) by (auto simp: io_write_def)
  show ?thesis
  proof (cases "ia_size a")
    case IoBit
    with assms w bit show ?thesis
      by (auto simp: io_write_def is_hierarchical_def Let_def split: rvalue.splits)
  next
    case IoByte
    then obtain w where "v = VByte w"
      and "io' = set_area (ia_area a) (put_cell a ([w]) (io_area_of io (ia_area a))) io"
      using assms w by (auto simp: io_write_def is_hierarchical_def Let_def split: rvalue.splits)
    with IoByte w show ?thesis
      by (intro cell [of "[w]"]) (simp_all add: cell_value_def cell_bytes_def)
  next
    case IoWord
    then obtain w where "v = VWord w"
      and "io' = set_area (ia_area a) (put_cell a (le16 w) (io_area_of io (ia_area a))) io"
      using assms w by (auto simp: io_write_def is_hierarchical_def Let_def split: rvalue.splits)
    with IoWord w show ?thesis
      by (intro cell [of "le16 w"]) (simp_all add: cell_value_def cell_bytes_def)
  next
    case IoDWord
    then obtain w where "v = VDWord w"
      and "io' = set_area (ia_area a) (put_cell a (le32 w) (io_area_of io (ia_area a))) io"
      using assms w by (auto simp: io_write_def is_hierarchical_def Let_def split: rvalue.splits)
    with IoDWord w show ?thesis
      by (intro cell [of "le32 w"]) (simp_all add: cell_value_def cell_bytes_def)
  next
    case IoLWord
    then obtain w where "v = VLWord w"
      and "io' = set_area (ia_area a) (put_cell a (le64 w) (io_area_of io (ia_area a))) io"
      using assms w by (auto simp: io_write_def is_hierarchical_def Let_def split: rvalue.splits)
    with IoLWord w show ?thesis
      by (intro cell [of "le64 w"]) (simp_all add: cell_value_def cell_bytes_def)
  qed
qed

lemma cell_bytes_pos: "0 < cell_bytes a"
  by (simp add: cell_bytes_def split: io_size.split)

lemma write_hierarchical:
  assumes "io_write a v io = (Inr (), io')" and "is_hierarchical a"
  shows "\<not> ia_wildcard a" and "io' = io\<lparr>ii_hierarchical := (ii_hierarchical io)(address_key a \<mapsto> v)\<rparr>"
  using assms by (auto simp: io_write_def is_hierarchical_def split: if_splits)

lemma read_written:
  assumes "valid_address a" and "io_write a v io = (Inr (), io')"
  shows "io_read io' a = Inr v"
proof (cases "is_hierarchical a")
  case True
  then show ?thesis
    using write_hierarchical [OF assms(2) True] by (simp add: io_read_def is_hierarchical_def)
next
  case False
  from assms(2) False show ?thesis
  proof (cases rule: direct_write_cases)
    case (bit flag)
    have "unat (ia_bit a) < 8"
      using assms(1) by (simp add: valid_address_def word_less_nat_alt)
    then show ?thesis
      using bit False by (auto simp: read_bit area_set_area byte_at_put_bit bit_simps)
  next
    case (cell bytes)
    then have "bytes \<noteq> []"
      using cell_bytes_pos [of a] by auto
    with cell show ?thesis
      using False by (simp add: read_cell area_set_area bytes_at_put_cell)
  qed
qed

lemma bytes_at_cong:
  assumes "\<And>i. start \<le> i \<Longrightarrow> i < start + n \<Longrightarrow> byte_at x i = byte_at y i"
  shows "bytes_at x start n = bytes_at y start n"
  using assms by (simp add: bytes_at_def)

text \<open>What a direct read depends on.\<close>

lemma read_cong:
  assumes "ii_hierarchical io' = ii_hierarchical io"
    and "\<And>i. \<not> is_hierarchical b \<Longrightarrow> unat (ia_byte b) \<le> i \<Longrightarrow> i < unat (ia_byte b) + cell_bytes b \<Longrightarrow>
      ia_size b \<noteq> IoBit \<Longrightarrow>
      byte_at (io_area_of io' (ia_area b)) i = byte_at (io_area_of io (ia_area b)) i"
    and "\<not> is_hierarchical b \<Longrightarrow> ia_size b = IoBit \<Longrightarrow>
      bit (byte_at (io_area_of io' (ia_area b)) (unat (ia_byte b))) (unat (ia_bit b)) =
      bit (byte_at (io_area_of io (ia_area b)) (unat (ia_byte b))) (unat (ia_bit b))"
  shows "io_read io' b = io_read io b"
proof (cases "ia_wildcard b \<or> is_hierarchical b")
  case True
  then show ?thesis
    using assms(1) by (auto simp: io_read_def is_hierarchical_def)
next
  case False
  then show ?thesis
    using assms(2,3) by (cases "ia_size b = IoBit") (simp_all add: read_bit read_cell cong: bytes_at_cong)
qed

lemma read_apart:
  assumes "valid_address a" and "valid_address b" and "cells_apart a b"
    and "io_write a v io = (Inr (), io')"
  shows "io_read io' b = io_read io b"
proof (cases "is_hierarchical a")
  case True
  then have io': "io' = io\<lparr>ii_hierarchical := (ii_hierarchical io)(address_key a \<mapsto> v)\<rparr>"
    using write_hierarchical [OF assms(4)] by simp
  have area: "io_area_of io' x = io_area_of io x" for x
    by (cases x) (simp_all add: io' io_area_of_def)
  show ?thesis
  proof (cases "is_hierarchical b")
    case True
    then show ?thesis
      using \<open>is_hierarchical a\<close> assms(3) by (simp add: io_read_def io' is_hierarchical_def cells_apart_def)
  next
    case False
    then show ?thesis
      by (cases "ia_wildcard b"; cases "ia_size b = IoBit")
        (simp_all add: io_read_def [of _ b] read_bit read_cell area, simp_all add: is_hierarchical_def area)
  qed
next
  case False
  from assms(4) False show ?thesis
  proof (cases rule: direct_write_cases)
    case (bit flag)
    have bits: "unat (ia_bit b) \<noteq> unat (ia_bit a)" if "ia_bit a \<noteq> ia_bit b"
      using that by (simp add: word_unat_eq_iff)
    have "unat (ia_bit b) < 8"
      using assms(2) by (simp add: valid_address_def word_less_nat_alt)
    then show ?thesis
      using assms(3) False bits bit cell_bytes_pos [of b]
      by (intro read_cong)
        (auto simp: area_set_area byte_at_put_bit cells_apart_def cell_bytes_def bit_simps)
  next
    case (cell bytes)
    then have "bytes \<noteq> []"
      using cell_bytes_pos [of a] by auto
    then show ?thesis
      using assms(3) False cell
      by (intro read_cong)
        (auto simp: area_set_area byte_at_put_cell cells_apart_def, (simp add: cell_bytes_def)+)
  qed
qed

lemma cells_apart_sym: "cells_apart a b = cells_apart b a"
  by (auto simp: cells_apart_def)

section \<open>Sequences of writes\<close>

text \<open>
  An image of cells: reading after a write, at the address and at an address that is apart from it. A
  sequence of writes to addresses that are apart leaves each of its values in place.
\<close>

fun write_all ::
    "('a \<Rightarrow> 'v \<Rightarrow> 'i \<Rightarrow> ('e + unit) \<times> 'i) \<Rightarrow> ('a \<times> 'v) list \<Rightarrow> 'i \<Rightarrow> ('e + unit) \<times> 'i" where
  "write_all store [] i = (Inr (), i)"
| "write_all store (c # cs) i =
     (case store (fst c) (snd c) i of
        (Inl e, i) \<Rightarrow> (Inl e, i)
      | (Inr _, i) \<Rightarrow> write_all store cs i)"

locale cell_image =
  fixes fetch :: "'i \<Rightarrow> 'a \<Rightarrow> 'e + 'v"
    and store :: "'a \<Rightarrow> 'v \<Rightarrow> 'i \<Rightarrow> ('e + unit) \<times> 'i"
    and valid :: "'a \<Rightarrow> bool"
    and apart :: "'a \<Rightarrow> 'a \<Rightarrow> bool"
  assumes read_same: "valid a \<Longrightarrow> store a v i = (Inr (), i') \<Longrightarrow> fetch i' a = Inr v"
    and read_other:
      "valid a \<Longrightarrow> valid b \<Longrightarrow> apart a b \<Longrightarrow> store a v i = (Inr (), i') \<Longrightarrow> fetch i' b = fetch i b"
begin

lemma write_all_other:
  assumes "write_all store cs i = (Inr (), i')" and "\<forall>c\<in>set cs. valid (fst c) \<and> apart (fst c) b"
    and "valid b"
  shows "fetch i' b = fetch i b"
  using assms(1,2)
proof (induction cs arbitrary: i)
  case (Cons c cs)
  then obtain j where "store (fst c) (snd c) i = (Inr (), j)" "write_all store cs j = (Inr (), i')"
    by (auto split: prod.splits sum.splits)
  then show ?case
    using Cons.IH [of j] Cons.prems(2) read_other assms(3) by auto
qed simp

lemma write_all_same:
  assumes "write_all store cs i = (Inr (), i')" and "\<forall>c\<in>set cs. valid (fst c)"
    and "sorted_wrt (\<lambda>c d. apart (fst d) (fst c)) cs" and "c \<in> set cs"
  shows "fetch i' (fst c) = Inr (snd c)"
  using assms
proof (induction cs arbitrary: i)
  case (Cons d cs)
  then obtain j where j: "store (fst d) (snd d) i = (Inr (), j)" "write_all store cs j = (Inr (), i')"
    by (auto split: prod.splits sum.splits)
  show ?case
  proof (cases "c \<in> set cs")
    case True
    then show ?thesis
      using Cons.IH [OF j(2)] Cons.prems by simp
  next
    case False
    then have "c = d"
      using Cons.prems(4) by simp
    then show ?thesis
      using write_all_other [OF j(2), of "fst d"] read_same [OF _ j(1)] Cons.prems by auto
  qed
qed simp

end

interpretation image: cell_image io_read io_write valid_address cells_apart
  by unfold_locales (auto intro: read_written read_apart)

lemma safe_state_writes: "io_safe_state_apply cells io = write_all io_write cells io"
  by (induction cells io rule: io_safe_state_apply.induct) (auto split: prod.splits sum.splits)

text \<open>C19: A write to an address of the process image, when it succeeds, is what a read of the address
  returns, and leaves the value at every address that shares no bit with it: another area, other
  bytes, another bit of the byte, another hierarchical address. A write that fails changes nothing.\<close>

theorem image_write_read:
  assumes "valid_address a"
  shows "case io_write a v io of
      (Inr _, io') \<Rightarrow> io_read io' a = Inr v \<and>
        (\<forall>b. valid_address b \<and> cells_apart a b \<longrightarrow> io_read io' b = io_read io b)
    | (Inl _, io') \<Rightarrow> io' = io"
proof (cases "io_write a v io")
  case (Pair r io')
  then show ?thesis
    using image.read_same [OF assms] image.read_other [OF assms] write_error_keeps [of a v io]
    by (cases r) auto
qed

definition sample_address :: "io_size \<Rightarrow> u8 \<Rightarrow> io_address" where
  "sample_address sz n =
     \<lparr>ia_area = AreaOutput, ia_size = sz, ia_byte = 1, ia_bit = n, ia_path = [1], ia_wildcard = False\<rparr>"

theorem image_write_read_witness:
  "case io_write (sample_address IoBit 3) (VBool True) io_interface_new of
      (Inr _, io') \<Rightarrow> io_read io' (sample_address IoBit 3) = Inr (VBool True) \<and>
        (\<forall>b. valid_address b \<and> cells_apart (sample_address IoBit 3) b \<longrightarrow>
          io_read io' b = io_read io_interface_new b)
    | (Inl _, io') \<Rightarrow> io' = io_interface_new"
  using image_write_read [where a = "sample_address IoBit 3" and v = "VBool True" and io = io_interface_new]
  by (simp add: valid_address_def sample_address_def)

text \<open>C27: The safe state: when it has been applied to the outputs without an error, every address of the
  safe state has its value, provided that the addresses share no bit, and every other address that
  is apart from them has kept the value it had.\<close>

theorem safe_state_applied:
  assumes "io_safe_state_apply cells io = (Inr (), io')" and "\<forall>c\<in>set cells. valid_address (fst c)"
    and "sorted_wrt (\<lambda>c d. cells_apart (fst d) (fst c)) cells"
  shows "(\<forall>(a, v)\<in>set cells. io_read io' a = Inr v) \<and>
    (\<forall>b. valid_address b \<and> (\<forall>(a, v)\<in>set cells. cells_apart a b) \<longrightarrow> io_read io' b = io_read io b)"
  using image.write_all_same [OF assms(1) [unfolded safe_state_writes] assms(2,3)]
    image.write_all_other [OF assms(1) [unfolded safe_state_writes]] assms(2)
  by (auto simp: case_prod_unfold)

theorem safe_state_applied_witness:
  "io_read (snd (io_safe_state_apply
      [(sample_address IoBit 3, VBool True), (sample_address IoBit 4, VBool False)] io_interface_new))
    (sample_address IoBit 3) = Inr (VBool True)"
proof -
  let ?cells = "[(sample_address IoBit 3, VBool True), (sample_address IoBit 4, VBool False)]"
  obtain io' where io': "io_safe_state_apply ?cells io_interface_new = (Inr (), io')"
    by (simp add: io_write_def sample_address_def Let_def)
  have "cells_apart (sample_address IoBit 4) (sample_address IoBit 3)"
    by (simp add: cells_apart_def sample_address_def is_hierarchical_def)
  then have "io_read io' (sample_address IoBit 3) = Inr (VBool True)"
    using safe_state_applied [OF io'] by (simp add: valid_address_def sample_address_def)
  then show ?thesis
    by (simp only: io' snd_conv)
qed

end
