(* ===== verification/Error_Text.thy ===== *)
theory Error_Text
  imports Strings Io Values
begin

text \<open>
  The texts of errors and numbers: \<open>Display\<close> of \<open>RuntimeError\<close> (\<open>error.rs\<close>), of signed numbers, and
  \<open>from_str_radix\<close> of unsigned numbers with the texts of its errors.
\<close>

definition show_int :: "int \<Rightarrow> rstr" where
  "show_int i = (if i < 0 then ''-'' @ show_nat (nat (- i)) else show_nat (nat i))"

definition quoted :: "rstr \<Rightarrow> rstr" where
  "quoted s = quote_char @ s @ quote_char"

fun show_error :: "runtime_error \<Rightarrow> rstr" where
  "show_error (UndefinedVariable s) = ''undefined variable '' @ quoted s"
| "show_error (UndefinedFunction s) = ''undefined function '' @ quoted s"
| "show_error (UndefinedProgram s) = ''undefined program '' @ quoted s"
| "show_error (UndefinedFunctionBlock s) = ''undefined function block '' @ quoted s"
| "show_error (UndefinedTask s) = ''undefined task '' @ quoted s"
| "show_error (UndefinedLabel s) = ''undefined label '' @ quoted s"
| "show_error (UndefinedField s) = ''undefined field '' @ quoted s"
| "show_error (InvalidTaskSingle s) = ''invalid task SINGLE input '' @ quoted s"
| "show_error (InvalidIoAddress s) = ''invalid I/O address '' @ quoted s"
| "show_error TypeMismatch = ''type mismatch''"
| "show_error (InvalidArgumentCount expected got) =
     ''invalid argument count (expected '' @ show_nat expected @ '', got '' @ show_nat got @ '')''"
| "show_error (InvalidArgumentName s) = ''invalid argument name '' @ quoted s"
| "show_error (AssertionFailed s) = ''assertion failed: '' @ s"
| "show_error DivisionByZero = ''division by zero''"
| "show_error ModuloByZero = ''modulo by zero''"
| "show_error Overflow = ''arithmetic overflow''"
| "show_error (IndexOutOfBounds index lower upper) =
     ''array index '' @ show_int (sint index) @ '' out of bounds ['' @ show_int (sint lower) @ ''..'' @
       show_int (sint upper) @ '']''"
| "show_error NullReference = ''null reference dereference''"
| "show_error InvalidControlFlow = ''invalid control flow''"
| "show_error ForStepZero = ''FOR loop step cannot be zero''"
| "show_error ConditionNotBool = ''condition is not BOOL''"
| "show_error CaseSelectorType = ''case selector type not supported''"
| "show_error (DateTimeRange _) = ''date/time out of range''"
| "show_error (InvalidFrame frame) = ''invalid frame id '' @ show_nat (unat frame)"
| "show_error ResourceFaulted = ''resource faulted''"
| "show_error (IoDriver s) = ''i/o driver error '' @ quoted s"
| "show_error (UnsupportedBytecodeVersion major minor) =
     ''unsupported bytecode version '' @ show_nat (unat major) @ ''.'' @ show_nat (unat minor)"
| "show_error (InvalidBytecodeMetadata s) = ''invalid bytecode metadata '' @ quoted s"
| "show_error (InvalidBytecode s) = ''invalid bytecode '' @ quoted s"
| "show_error (ThreadSpawn s) = ''thread spawn error '' @ quoted s"
| "show_error WatchdogTimeout = ''watchdog timeout''"
| "show_error ExecutionTimeout = ''execution timed out''"
| "show_error (SimulationFault s) = ''simulation fault '' @ quoted s"
| "show_error (InvalidConfig s) = ''invalid config '' @ quoted s"
| "show_error (InvalidBundle s) = ''invalid project folder '' @ quoted s"
| "show_error (RetainStore s) = ''retain store error '' @ quoted s"
| "show_error (ControlError s) = ''control error '' @ quoted s"

section \<open>Parsing of unsigned numbers\<close>

text \<open>The first digit that is wrong or does not fit decides the error.\<close>

definition digit_of :: "nat \<Rightarrow> char \<Rightarrow> nat option" where
  "digit_of radix c =
     (let n = of_char c;
          d = (if 48 \<le> n \<and> n \<le> 57 then n - 48
               else if 97 \<le> n \<and> n \<le> 122 then n - 87
               else if 65 \<le> n \<and> n \<le> 90 then n - 55 else radix)
      in if d < radix then Some d else None)"

fun radix_loop :: "nat \<Rightarrow> nat \<Rightarrow> nat \<Rightarrow> rstr \<Rightarrow> rstr + nat" where
  "radix_loop radix bits acc [] = Inr acc"
| "radix_loop radix bits acc (c # cs) =
     (case digit_of radix c of
        None \<Rightarrow> Inl ''invalid digit found in string''
      | Some d \<Rightarrow>
          if radix * acc + d < 2 ^ bits then radix_loop radix bits (radix * acc + d) cs
          else Inl ''number too large to fit in target type'')"

definition from_str_radix :: "nat \<Rightarrow> nat \<Rightarrow> rstr \<Rightarrow> rstr + nat" where
  "from_str_radix radix bits s =
     (if s = [] then Inl ''cannot parse integer from empty string''
      else if s = ''+'' \<or> s = ''-'' then Inl ''invalid digit found in string''
      else radix_loop radix bits 0 (if hd s = CHR ''+'' then tl s else s))"

text \<open>With radix ten it accepts what \<open>parse_unsigned\<close> accepts.\<close>

lemma digit_of_10: "digit_of 10 c = (if is_digit c then Some (digit_value c) else None)"
  by (auto simp: digit_of_def is_digit_def digit_value_def Let_def)

lemma digits_value_ge: "acc \<le> foldl (\<lambda>n c. 10 * n + digit_value c) acc ds"
proof (induction ds arbitrary: acc)
  case (Cons d ds)
  show ?case using Cons [of "10 * acc + digit_value d"] by simp
qed simp

lemma radix_loop_10:
  "acc < 2 ^ bits \<Longrightarrow> radix_loop 10 bits acc ds = Inr n \<longleftrightarrow>
     list_all is_digit ds \<and> n < 2 ^ bits \<and> n = foldl (\<lambda>n c. 10 * n + digit_value c) acc ds"
proof (induction ds arbitrary: acc)
  case Nil
  then show ?case by auto
next
  case (Cons d ds)
  have "10 * acc + digit_value d < 2 ^ bits"
    if "foldl (\<lambda>n c. 10 * n + digit_value c) (10 * acc + digit_value d) ds < 2 ^ bits"
    using that digits_value_ge [of "10 * acc + digit_value d" ds] by linarith
  then show ?case
    using Cons.IH [of "10 * acc + digit_value d"] by (auto simp: digit_of_10)
qed

lemma from_str_radix_10: "from_str_radix 10 bits s = Inr n \<longleftrightarrow> parse_unsigned bits s = Some n"
proof -
  have plus: "strip_prefix ''+'' s =
      (case s of [] \<Rightarrow> None | c # cs \<Rightarrow> if c = CHR ''+'' then Some cs else None)"
    by (cases s) auto
  have minus: "\<not> is_digit (CHR ''-'')"
    by (simp add: is_digit_def)
  show ?thesis
    using radix_loop_10 [of 0 bits]
    by (cases s) (auto simp: from_str_radix_def parse_unsigned_def plus digits_value_def minus
        split: if_splits)
qed

end
