(* ===== verification/Simulation.thy ===== *)
theory Simulation
  imports Cycle Error_Text
begin

text \<open>
  Simulated plants (\<open>simulation.rs\<close>): couplings carry outputs of one cycle to inputs of a later
  one, disturbances set inputs or raise faults at given times. The scheduler calls
  \<open>apply_pre_cycle\<close> before and \<open>apply_post_cycle\<close> after each cycle. The reading of the TOML text
  is done by the package \<open>toml\<close>; what it gives is \<open>simulation_toml\<close>.
\<close>

section \<open>Rules\<close>

record signal_coupling_rule =
  cr_source :: io_address
  cr_target :: io_address
  cr_threshold :: "f64 option"
  cr_delay :: duration
  cr_on_true :: "rvalue option"
  cr_on_false :: "rvalue option"

datatype disturbance_kind =
    SetInput io_address rvalue
  | InjectFault rstr

record simulation_disturbance =
  sd_at :: duration
  sd_kind :: disturbance_kind

record simulation_config =
  sf_enabled :: bool
  sf_seed :: u64
  sf_time_scale :: u32
  sf_couplings :: "signal_coupling_rule list"
  sf_disturbances :: "simulation_disturbance list"

definition simulation_config_default :: simulation_config where
  "simulation_config_default =
     \<lparr>sf_enabled = False, sf_seed = 0, sf_time_scale = 1, sf_couplings = [], sf_disturbances = []\<rparr>"

record pending_effect =
  pe_due :: duration
  pe_sequence :: u64
  pe_target :: io_address
  pe_value :: rvalue

record simulation_controller =
  sc_config :: simulation_config
  sc_disturbances :: "simulation_disturbance list"
  sc_cursor :: nat
  sc_pending :: "pending_effect list"
  sc_next_sequence :: u64
  sc_last_values :: "rvalue option list"

definition simulation_new :: "simulation_config \<Rightarrow> simulation_controller" where
  "simulation_new config =
     \<lparr>sc_config = config, sc_disturbances = sf_disturbances config, sc_cursor = 0, sc_pending = [],
      sc_next_sequence = 0, sc_last_values = replicate (length (sf_couplings config)) None\<rparr>"

definition simulation_time_scale :: "simulation_controller \<Rightarrow> u32" where
  "simulation_time_scale c = max (sf_time_scale (sc_config c)) 1"

section \<open>Values\<close>

definition value_to_f64 :: "rvalue \<Rightarrow> f64 option" where
  "value_to_f64 value =
     (case value of
        VBool flag \<Rightarrow> Some (f64_of_int (if flag then 1 else 0))
      | VSInt v \<Rightarrow> Some (f64_of_int (sint v))
      | VInt v \<Rightarrow> Some (f64_of_int (sint v))
      | VDInt v \<Rightarrow> Some (f64_of_int (sint v))
      | VLInt v \<Rightarrow> Some (f64_of_int (sint v))
      | VUSInt v \<Rightarrow> Some (f64_of_int (uint v))
      | VUInt v \<Rightarrow> Some (f64_of_int (uint v))
      | VUDInt v \<Rightarrow> Some (f64_of_int (uint v))
      | VULInt v \<Rightarrow> Some (f64_of_int (uint v))
      | VReal v \<Rightarrow> Some (f64_of_f32 v)
      | VLReal v \<Rightarrow> Some v
      | VByte v \<Rightarrow> Some (f64_of_int (uint v))
      | VWord v \<Rightarrow> Some (f64_of_int (uint v))
      | VDWord v \<Rightarrow> Some (f64_of_int (uint v))
      | VLWord v \<Rightarrow> Some (f64_of_int (uint v))
      | _ \<Rightarrow> None)"

definition value_to_bool :: "rvalue \<Rightarrow> bool" where
  "value_to_bool value =
     (case value of
        VBool flag \<Rightarrow> flag
      | _ \<Rightarrow> \<not> f64_eq (case value_to_f64 value of Some x \<Rightarrow> x | None \<Rightarrow> 0) 0)"

text \<open>\<open>as u64\<close> of a finite number that is not negative: the fraction is cut off, and it saturates.\<close>

definition f64_as_u64 :: "f64 \<Rightarrow> u64" where
  "f64_as_u64 x =
     (case fp_trunc (f64_val x) of Some i \<Rightarrow> word_of_int (max 0 (min (2 ^ 64 - 1) i)) | None \<Rightarrow> 0)"

definition value_to_u64 :: "rvalue \<Rightarrow> runtime_error + u64" where
  "value_to_u64 value =
     rbind (ok_or (value_to_f64 value) TypeMismatch) (\<lambda>number.
       if \<not> f64_is_finite number \<or> f64_lt number 0 then Inl TypeMismatch
       else Inr (f64_as_u64 number))"

definition coerce_to_size :: "rvalue \<Rightarrow> io_size \<Rightarrow> runtime_error + rvalue" where
  "coerce_to_size source sz =
     (case sz of
        IoBit \<Rightarrow> Inr (VBool (value_to_bool source))
      | IoByte \<Rightarrow> rbind (value_to_u64 source) (\<lambda>n. Inr (VByte (ucast n)))
      | IoWord \<Rightarrow> rbind (value_to_u64 source) (\<lambda>n. Inr (VWord (ucast n)))
      | IoDWord \<Rightarrow> rbind (value_to_u64 source) (\<lambda>n. Inr (VDWord (ucast n)))
      | IoLWord \<Rightarrow> rbind (value_to_u64 source) (\<lambda>n. Inr (VLWord n)))"

definition default_value_for_size :: "io_size \<Rightarrow> bool \<Rightarrow> rvalue" where
  "default_value_for_size sz active =
     (case sz of
        IoBit \<Rightarrow> VBool active
      | IoByte \<Rightarrow> VByte (if active then 1 else 0)
      | IoWord \<Rightarrow> VWord (if active then 1 else 0)
      | IoDWord \<Rightarrow> VDWord (if active then 1 else 0)
      | IoLWord \<Rightarrow> VLWord (if active then 1 else 0))"

definition derive_coupling_value :: "signal_coupling_rule \<Rightarrow> rvalue \<Rightarrow> runtime_error + rvalue" where
  "derive_coupling_value rule source =
     (case cr_threshold rule of
        Some threshold \<Rightarrow>
          (let number = (case value_to_f64 source of Some x \<Rightarrow> x | None \<Rightarrow> 0);
               size = ia_size (cr_target rule)
           in if f64_le threshold number
              then Inr (case cr_on_true rule of Some v \<Rightarrow> v | None \<Rightarrow> default_value_for_size size True)
              else Inr (case cr_on_false rule of Some v \<Rightarrow> v | None \<Rightarrow> default_value_for_size size False))
      | None \<Rightarrow> coerce_to_size source (ia_size (cr_target rule)))"

definition format_io :: "io_address \<Rightarrow> rstr" where
  "format_io a =
     (let area = (case ia_area a of AreaInput \<Rightarrow> ''I'' | AreaOutput \<Rightarrow> ''Q'' | AreaMemory \<Rightarrow> ''M'');
          size = (case ia_size a of IoBit \<Rightarrow> ''X'' | IoByte \<Rightarrow> ''B'' | IoWord \<Rightarrow> ''W'' | IoDWord \<Rightarrow> ''D''
                  | IoLWord \<Rightarrow> ''L'')
      in if ia_size a = IoBit
         then ''%'' @ area @ size @ show_nat (unat (ia_byte a)) @ ''.'' @ show_nat (unat (ia_bit a))
         else ''%'' @ area @ size @ show_nat (unat (ia_byte a)))"

section \<open>Before a cycle\<close>

text \<open>A value that is written to the input image of the runtime.\<close>

definition write_image ::
    "io_address \<Rightarrow> rvalue \<Rightarrow> ('st, 'd) runtime_core
      \<Rightarrow> (runtime_error + unit) \<times> ('st, 'd) runtime_core" where
  "write_image address value rt =
     (case io_write address value (is_interface (rc_io rt)) of
        (r, interface) \<Rightarrow> (r, rt\<lparr>rc_io := (rc_io rt)\<lparr>is_interface := interface\<rparr>\<rparr>))"

definition simulation_failure ::
    "'d driver_ops \<Rightarrow> rstr \<Rightarrow> ('st, 'd) runtime_core
      \<Rightarrow> (runtime_error + unit) \<times> ('st, 'd) runtime_core" where
  "simulation_failure ops message rt =
     (case simulation_fault ops message rt of (e, rt) \<Rightarrow> (Inl e, rt))"

definition apply_disturbance ::
    "'d driver_ops \<Rightarrow> simulation_disturbance \<Rightarrow> ('st, 'd) runtime_core
      \<Rightarrow> (runtime_error + unit) \<times> ('st, 'd) runtime_core" where
  "apply_disturbance ops d rt =
     (case sd_kind d of
        SetInput target value \<Rightarrow>
          (case write_image target value rt of
             (Inl err, rt) \<Rightarrow>
               simulation_failure ops
                 (''simulation disturbance failed for '' @ format_io target @ '': '' @ show_error err) rt
           | (Inr _, rt) \<Rightarrow> (Inr (), rt))
      | InjectFault message \<Rightarrow> simulation_failure ops message rt)"

text \<open>
  The disturbances from the cursor on that are due; the cursor passes a disturbance before it is
  applied, so a fault is raised once. The result is the number of those that were passed.
\<close>

fun apply_disturbances ::
    "'d driver_ops \<Rightarrow> duration \<Rightarrow> simulation_disturbance list \<Rightarrow> ('st, 'd) runtime_core
      \<Rightarrow> (runtime_error + unit) \<times> nat \<times> ('st, 'd) runtime_core" where
  "apply_disturbances ops now [] rt = (Inr (), 0, rt)"
| "apply_disturbances ops now (d # ds) rt =
     (if sint now < sint (sd_at d) then (Inr (), 0, rt)
      else
        (case apply_disturbance ops d rt of
           (Inl err, rt) \<Rightarrow> (Inl err, 1, rt)
         | (Inr _, rt) \<Rightarrow>
             (case apply_disturbances ops now ds rt of (r, n, rt) \<Rightarrow> (r, Suc n, rt))))"

fun apply_effects ::
    "'d driver_ops \<Rightarrow> duration \<Rightarrow> pending_effect list \<Rightarrow> ('st, 'd) runtime_core
      \<Rightarrow> (runtime_error + unit) \<times> pending_effect list \<times> ('st, 'd) runtime_core" where
  "apply_effects ops now [] rt = (Inr (), [], rt)"
| "apply_effects ops now (e # es) rt =
     (if sint now < sint (pe_due e) then (Inr (), e # es, rt)
      else
        (case write_image (pe_target e) (pe_value e) rt of
           (Inl err, rt) \<Rightarrow>
             (case simulation_failure ops
                (''simulation delayed effect failed for '' @ format_io (pe_target e) @ '': '' @
                  show_error err) rt of
                (r, rt) \<Rightarrow> (r, es, rt))
         | (Inr _, rt) \<Rightarrow> apply_effects ops now es rt))"

definition apply_pre_cycle ::
    "'d driver_ops \<Rightarrow> duration \<Rightarrow> simulation_controller \<Rightarrow> ('st, 'd) runtime_core
      \<Rightarrow> (runtime_error + unit) \<times> simulation_controller \<times> ('st, 'd) runtime_core" where
  "apply_pre_cycle ops now c rt =
     (if \<not> sf_enabled (sc_config c) then (Inr (), c, rt)
      else
        (case apply_disturbances ops now (drop (sc_cursor c) (sc_disturbances c)) rt of
           (r, n, rt) \<Rightarrow>
             (let c = c\<lparr>sc_cursor := sc_cursor c + n\<rparr> in
              case r of
                Inl err \<Rightarrow> (Inl err, c, rt)
              | Inr _ \<Rightarrow>
                  (case apply_effects ops now (sc_pending c) rt of
                     (r, pending, rt) \<Rightarrow> (r, c\<lparr>sc_pending := pending\<rparr>, rt)))))"

section \<open>After a cycle\<close>

definition enqueue_effect :: "pending_effect \<Rightarrow> pending_effect list \<Rightarrow> pending_effect list" where
  "enqueue_effect effect pending =
     sort_key (\<lambda>e. (sint (pe_due e), uint (pe_sequence e))) (pending @ [effect])"

text \<open>One coupling: a value that differs from the last one is scheduled.\<close>

definition couple ::
    "duration \<Rightarrow> io_interface \<Rightarrow> nat \<Rightarrow> signal_coupling_rule
      \<Rightarrow> (simulation_controller, runtime_error, unit) exec" where
  "couple now io idx coupling c =
     (case rbind (io_read io (cr_source coupling)) (derive_coupling_value coupling) of
        Inl err \<Rightarrow> (Inl err, c)
      | Inr next_value \<Rightarrow>
          if (case sc_last_values c ! idx of Some v \<Rightarrow> value_eq v next_value | None \<Rightarrow> False)
          then (Inr (), c)
          else
            (Inr (),
             c\<lparr>sc_last_values := (sc_last_values c)[idx := Some next_value],
               sc_pending := enqueue_effect
                 \<lparr>pe_due = saturating_add now (cr_delay coupling),
                  pe_sequence = sc_next_sequence c, pe_target = cr_target coupling,
                  pe_value = next_value\<rparr> (sc_pending c),
               sc_next_sequence := saturating_add_u64 (sc_next_sequence c) 1\<rparr>))"

fun couple_all ::
    "duration \<Rightarrow> io_interface \<Rightarrow> nat \<Rightarrow> signal_coupling_rule list
      \<Rightarrow> (simulation_controller, runtime_error, unit) exec" where
  "couple_all now io idx [] c = (Inr (), c)"
| "couple_all now io idx (r # rs) c =
     (case couple now io idx r c of
        (Inl err, c) \<Rightarrow> (Inl err, c)
      | (Inr _, c) \<Rightarrow> couple_all now io (Suc idx) rs c)"

definition apply_post_cycle ::
    "duration \<Rightarrow> ('st, 'd) runtime_core \<Rightarrow> (simulation_controller, runtime_error, unit) exec" where
  "apply_post_cycle now rt c =
     (if \<not> sf_enabled (sc_config c) then (Inr (), c)
      else couple_all now (is_interface (rc_io rt)) 0 (sf_couplings (sc_config c)) c)"

section \<open>Configuration\<close>

record simulation_section =
  ss_enabled :: "bool option"
  ss_seed :: "u64 option"
  ss_time_scale :: "u32 option"

record coupling_section =
  cs_source :: rstr
  cs_target :: rstr
  cs_threshold :: "f64 option"
  cs_delay_ms :: "u64 option"
  cs_on_true :: "rstr option"
  cs_on_false :: "rstr option"

record disturbance_section =
  ds_at_ms :: u64
  ds_kind :: "rstr option"
  ds_target :: "rstr option"
  ds_value :: "rstr option"
  ds_message :: "rstr option"

record simulation_toml =
  sl_simulation :: "simulation_section option"
  sl_couplings :: "coupling_section list option"
  sl_disturbances :: "disturbance_section list option"

definition parse_u64_text :: "rstr \<Rightarrow> runtime_error + u64" where
  "parse_u64_text text =
     (let trimmed = str_trim text;
          hex = (case strip_prefix ''0x'' trimmed of
                   Some h \<Rightarrow> Some h | None \<Rightarrow> strip_prefix ''0X'' trimmed)
      in case hex of
           Some h \<Rightarrow>
             (case from_str_radix 16 64 h of
                Inl err \<Rightarrow> Inl (InvalidConfig (''invalid hex value '' @ quoted trimmed @ '': '' @ err))
              | Inr n \<Rightarrow> Inr (of_nat n))
         | None \<Rightarrow>
             (case from_str_radix 10 64 trimmed of
                Inl err \<Rightarrow> Inl (InvalidConfig (''invalid numeric value '' @ quoted trimmed @ '': '' @ err))
              | Inr n \<Rightarrow> Inr (of_nat n)))"

definition parse_io_value :: "rstr \<Rightarrow> io_size \<Rightarrow> runtime_error + rvalue" where
  "parse_io_value text sz =
     (let trimmed = str_trim text; upper = to_ascii_uppercase trimmed in
      case sz of
        IoBit \<Rightarrow>
          if upper \<in> {''TRUE'', ''1''} then Inr (VBool True)
          else if upper \<in> {''FALSE'', ''0''} then Inr (VBool False)
          else Inl (InvalidConfig (''invalid BOOL simulation value '' @ quoted trimmed))
      | IoByte \<Rightarrow> rbind (parse_u64_text trimmed) (\<lambda>n. Inr (VByte (ucast n)))
      | IoWord \<Rightarrow> rbind (parse_u64_text trimmed) (\<lambda>n. Inr (VWord (ucast n)))
      | IoDWord \<Rightarrow> rbind (parse_u64_text trimmed) (\<lambda>n. Inr (VDWord (ucast n)))
      | IoLWord \<Rightarrow> rbind (parse_u64_text trimmed) (\<lambda>n. Inr (VLWord n)))"

definition parse_opt_value :: "rstr option \<Rightarrow> io_size \<Rightarrow> runtime_error + rvalue option" where
  "parse_opt_value text sz =
     (case text of
        None \<Rightarrow> Inr None
      | Some t \<Rightarrow> rbind (parse_io_value t sz) (\<lambda>v. Inr (Some v)))"

definition into_rule :: "coupling_section \<Rightarrow> runtime_error + signal_coupling_rule" where
  "into_rule s =
     rbind (io_address_parse (cs_source s)) (\<lambda>source.
     rbind (io_address_parse (cs_target s)) (\<lambda>target.
     rbind (guard (ia_area source = AreaOutput)
       (InvalidConfig (''coupling source must be %Q*, got '' @ cs_source s))) (\<lambda>_.
     rbind (guard (ia_area target = AreaInput)
       (InvalidConfig (''coupling target must be %I*, got '' @ cs_target s))) (\<lambda>_.
     rbind (guard (\<not> (cs_threshold s = None \<and> (cs_on_true s \<noteq> None \<or> cs_on_false s \<noteq> None)))
       (InvalidConfig ''coupling on_true/on_false require threshold'')) (\<lambda>_.
     rbind (parse_opt_value (cs_on_true s) (ia_size target)) (\<lambda>on_true.
     rbind (parse_opt_value (cs_on_false s) (ia_size target)) (\<lambda>on_false.
       Inr \<lparr>cr_source = source, cr_target = target, cr_threshold = cs_threshold s,
            cr_delay = from_millis (case cs_delay_ms s of Some n \<Rightarrow> n | None \<Rightarrow> 0),
            cr_on_true = on_true, cr_on_false = on_false\<rparr>)))))))"

definition into_disturbance :: "disturbance_section \<Rightarrow> runtime_error + simulation_disturbance" where
  "into_disturbance s =
     (let at = from_millis (ds_at_ms s);
          kind_name = (case ds_kind s of Some k \<Rightarrow> k | None \<Rightarrow> ''set'')
      in if eq_ignore_ascii_case kind_name ''fault'' then
           Inr \<lparr>sd_at = at, sd_kind = InjectFault
             (case ds_message s of Some m \<Rightarrow> m | None \<Rightarrow> ''simulated fault injection'')\<rparr>
         else if \<not> eq_ignore_ascii_case kind_name ''set'' then
           Inl (InvalidConfig (''unsupported disturbance kind '' @ quoted kind_name))
         else
           rbind (ok_or (ds_target s)
             (InvalidConfig ''disturbance target required for kind=set'')) (\<lambda>target_text.
           rbind (io_address_parse target_text) (\<lambda>target.
           rbind (guard (ia_area target = AreaInput)
             (InvalidConfig (''disturbance target must be %I*, got '' @ target_text))) (\<lambda>_.
           rbind (ok_or (ds_value s)
             (InvalidConfig ''disturbance value required for kind=set'')) (\<lambda>value_text.
           rbind (parse_io_value value_text (ia_size target)) (\<lambda>value.
             Inr \<lparr>sd_at = at, sd_kind = SetInput target value\<rparr>))))))"

definition or_default :: "'a \<Rightarrow> 'a option \<Rightarrow> 'a" where
  "or_default d x = (case x of Some y \<Rightarrow> y | None \<Rightarrow> d)"

definition into_config :: "simulation_toml \<Rightarrow> runtime_error + simulation_config" where
  "into_config raw =
     (let section = or_default \<lparr>ss_enabled = None, ss_seed = None, ss_time_scale = None\<rparr>
            (sl_simulation raw)
      in rbind (collect into_rule (or_default [] (sl_couplings raw))) (\<lambda>couplings.
         rbind (collect into_disturbance (or_default [] (sl_disturbances raw))) (\<lambda>disturbances.
           let disturbances = sort_key (\<lambda>d. sint (sd_at d)) disturbances;
               has_rules = (couplings \<noteq> [] \<or> disturbances \<noteq> []);
               enabled = or_default has_rules (ss_enabled section);
               time_scale = or_default 1 (ss_time_scale section)
           in if time_scale = 0 then Inl (InvalidConfig ''simulation.time_scale must be >= 1'')
              else Inr \<lparr>sf_enabled = enabled, sf_seed = or_default 0 (ss_seed section),
                sf_time_scale = time_scale, sf_couplings = couplings,
                sf_disturbances = disturbances\<rparr>)))"

end
