(* ===== verification/Bytecode_Apply.thy ===== *)
theory Bytecode_Apply
  imports Simulation Bytecode_Container Cycle
begin

text \<open>
  A container applied to a runtime (\<open>runtime/bytecode.rs\<close>): its configuration replaces tasks and
  process image. With it what the control commands need of \<open>runtime/mesh.rs\<close>,
  \<open>runtime/metadata.rs\<close> and \<open>runtime/core.rs\<close>: globals that are exported and set, the snapshot of
  the definitions and the policies.
\<close>

section \<open>Texts of container errors\<close>

definition hex_digit :: "bool \<Rightarrow> nat \<Rightarrow> char" where
  "hex_digit upper d =
     (if d < 10 then byte_char (48 + d) else byte_char ((if upper then 55 else 87) + d))"

fun hex_digits :: "bool \<Rightarrow> nat \<Rightarrow> nat \<Rightarrow> rstr" where
  "hex_digits upper 0 n = []"
| "hex_digits upper (Suc k) n = hex_digits upper k (n div 16) @ [hex_digit upper (n mod 16)]"

fun show_bytecode_error :: "bytecode_error \<Rightarrow> rstr" where
  "show_bytecode_error InvalidMagic = ''invalid bytecode magic''"
| "show_bytecode_error (UnsupportedVersion major minor) =
     ''unsupported bytecode version '' @ show_nat (unat major) @ ''.'' @ show_nat (unat minor)"
| "show_bytecode_error (InvalidHeader s) = ''invalid bytecode header: '' @ s"
| "show_bytecode_error (InvalidChecksum expected actual) =
     ''invalid bytecode checksum (expected 0x'' @ hex_digits False 8 (unat expected) @ '', got 0x'' @
       hex_digits False 8 (unat actual) @ '')''"
| "show_bytecode_error (InvalidSectionTable s) = ''invalid section table: '' @ s"
| "show_bytecode_error SectionOutOfBounds = ''section out of bounds''"
| "show_bytecode_error SectionOverlap = ''section overlap''"
| "show_bytecode_error SectionAlignment = ''section alignment error''"
| "show_bytecode_error UnexpectedEof = ''unexpected end of input''"
| "show_bytecode_error (InvalidSection s) = ''invalid section data: '' @ s"
| "show_bytecode_error (MissingSection s) = ''missing required section: '' @ s"
| "show_bytecode_error (InvalidOpcode b) = ''invalid opcode 0x'' @ hex_digits True 2 (unat b)"
| "show_bytecode_error (InvalidJumpTarget t) = ''invalid jump target '' @ show_int (sint t)"
| "show_bytecode_error (InvalidPouId n) = ''invalid POU id '' @ show_nat (unat n)"
| "show_bytecode_error (InvalidIndex kind index) =
     ''invalid index '' @ show_nat (unat index) @ '' for '' @ kind"

section \<open>Configuration from a container\<close>

fun check_programs :: "(rstr, program_def) index_map \<Rightarrow> rstr list \<Rightarrow> runtime_error + unit" where
  "check_programs programs [] = Inr ()"
| "check_programs programs (p # ps) =
     (if list_ex (\<lambda>name. eq_ignore_ascii_case name p) (map fst programs)
      then check_programs programs ps else Inl (UndefinedProgram p))"

definition check_block :: "('st, 'd) runtime_core \<Rightarrow> value_ref \<Rightarrow> runtime_error + unit" where
  "check_block rt reference =
     (case read_by_ref (rt_storage rt) reference of
        None \<Rightarrow> Inl NullReference
      | Some (VInstance i) \<Rightarrow>
          rbind (ok_or (get_instance (rt_storage rt) i) NullReference) (\<lambda>inst.
            if im_get (rc_function_blocks rt) (to_ascii_uppercase (in_type_name inst)) = None
            then Inl (UndefinedFunctionBlock (in_type_name inst)) else Inr ())
      | Some _ \<Rightarrow> Inl TypeMismatch)"

definition validate_task_config :: "('st, 'd) runtime_core \<Rightarrow> task_config \<Rightarrow> runtime_error + unit" where
  "validate_task_config rt task =
     rbind (check_programs (rc_programs rt) (tc_programs task)) (\<lambda>_.
       each (check_block rt) (tc_fb_instances task))"

text \<open>The tasks before one that is refused stay registered.\<close>

fun install_tasks ::
    "task_config list \<Rightarrow> (('st, 'd) runtime_core, runtime_error, unit) exec" where
  "install_tasks [] rt = (Inr (), rt)"
| "install_tasks (task # tasks) rt =
     (case validate_task_config rt task of
        Inl err \<Rightarrow> (Inl err, rt)
      | Inr _ \<Rightarrow> install_tasks tasks (register_task task rt))"

definition apply_resource_metadata ::
    "resource_metadata \<Rightarrow> (('st, 'd) runtime_core, runtime_error, unit) exec" where
  "apply_resource_metadata resource rt =
     (let image = md_process_image resource;
          rt = rt\<lparr>rc_io := is_resize (ic_inputs image) (ic_outputs image) (ic_memory image) (rc_io rt),
            rc_tasks := [], rc_task_state := []\<rparr>
      in case install_tasks (md_tasks resource) rt of
           (Inl err, rt) \<Rightarrow> (Inl err, rt)
         | (Inr _, rt) \<Rightarrow> (Inr (), snd (ensure_background_thread_id rt)))"

definition choose_resource :: "bytecode_metadata \<Rightarrow> rstr option \<Rightarrow> resource_metadata option" where
  "choose_resource meta resource_name =
     (case resource_name of
        Some name \<Rightarrow>
          (case metadata_resource meta name of Some r \<Rightarrow> Some r | None \<Rightarrow> primary_resource meta)
      | None \<Rightarrow> primary_resource meta)"

definition apply_bytecode_metadata ::
    "bytecode_metadata \<Rightarrow> rstr option \<Rightarrow> (('st, 'd) runtime_core, runtime_error, unit) exec" where
  "apply_bytecode_metadata meta resource_name rt =
     (let version = bd_version meta in
      if v_major version \<noteq> SUPPORTED_MAJOR_VERSION
      then (Inl (UnsupportedBytecodeVersion (v_major version) (v_minor version)), rt)
      else
        (case choose_resource meta resource_name of
           None \<Rightarrow> (Inl (InvalidBytecodeMetadata ''resource''), rt)
         | Some resource \<Rightarrow> apply_resource_metadata resource rt))"

text \<open>\<^const>\<open>None\<close> when the validation of the module runs out of its call stack.\<close>

definition apply_bytecode_module ::
    "nat \<Rightarrow> bytecode_module \<Rightarrow> rstr option \<Rightarrow> (('st, 'd) runtime_core, unit) op" where
  "apply_bytecode_module fuel m resource_name rt =
     (case validate fuel m of
        None \<Rightarrow> None
      | Some (Inl err) \<Rightarrow> Some (Inl (InvalidBytecode (show_bytecode_error err)), rt)
      | Some (Inr _) \<Rightarrow>
          (case metadata m of
             Inl err \<Rightarrow> Some (Inl (InvalidBytecode (show_bytecode_error err)), rt)
           | Inr meta \<Rightarrow> Some (apply_bytecode_metadata meta resource_name rt)))"

definition apply_bytecode_bytes ::
    "(byte list \<Rightarrow> u32) \<Rightarrow> nat \<Rightarrow> byte list \<Rightarrow> rstr option \<Rightarrow> (('st, 'd) runtime_core, unit) op"
where
  "apply_bytecode_bytes crc fuel bytes resource_name rt =
     (case decode crc bytes of
        Inl err \<Rightarrow> Some (Inl (InvalidBytecode (show_bytecode_error err)), rt)
      | Inr m \<Rightarrow> apply_bytecode_module fuel m resource_name rt)"

section \<open>Exported globals\<close>

definition snapshot_globals :: "rstr list \<Rightarrow> ('st, 'd) runtime_core \<Rightarrow> (rstr, rvalue) index_map" where
  "snapshot_globals names rt =
     foldl (\<lambda>out name.
       case get_global (rt_storage rt) name of
         Some value \<Rightarrow> im_insert name value out
       | None \<Rightarrow> out) [] names"

definition apply_mesh_updates ::
    "(rstr, rvalue) index_map \<Rightarrow> ('st, 'd) runtime_core \<Rightarrow> ('st, 'd) runtime_core" where
  "apply_mesh_updates updates rt =
     foldl (\<lambda>rt (name, value).
       if get_global (rt_storage rt) name \<noteq> None
       then rt\<lparr>rt_storage := set_global name value (rt_storage rt)\<rparr> else rt) rt updates"

section \<open>Snapshot of the definitions\<close>

text \<open>
  Interfaces and statement locations, which the modelled state does not hold, are left out. Only the
  threads of registered tasks are listed.
\<close>

record runtime_metadata =
  rd_profile :: date_time_profile
  rd_registry :: type_registry
  rd_stdlib :: standard_library
  rd_access :: access_map
  rd_functions :: "(rstr, function_def) index_map"
  rd_function_blocks :: "(rstr, function_block_def) index_map"
  rd_classes :: "(rstr, class_def) index_map"
  rd_programs :: "(rstr, program_def) index_map"
  rd_tasks :: "task_config list"
  rd_task_thread_ids :: "(rstr, u32) index_map"
  rd_background_thread_id :: "u32 option"

definition scheduled_thread_ids :: "('st, 'd) runtime_core \<Rightarrow> (rstr, u32) index_map" where
  "scheduled_thread_ids rt =
     foldl (\<lambda>ids task.
       case im_get (rc_task_thread_ids rt) (tc_name task) of
         Some thread \<Rightarrow> im_insert (tc_name task) thread ids
       | None \<Rightarrow> ids) [] (rc_tasks rt)"

definition metadata_snapshot :: "('st, 'd) runtime_core \<Rightarrow> runtime_metadata" where
  "metadata_snapshot rt =
     \<lparr>rd_profile = rc_profile rt, rd_registry = rc_registry rt, rd_stdlib = rc_stdlib rt,
      rd_access = rc_access rt, rd_functions = rc_functions rt,
      rd_function_blocks = rc_function_blocks rt, rd_classes = rc_classes rt,
      rd_programs = rc_programs rt, rd_tasks = rc_tasks rt,
      rd_task_thread_ids = scheduled_thread_ids rt,
      rd_background_thread_id = rc_background_thread_id rt\<rparr>"

definition metadata_has_background_programs :: "runtime_metadata \<Rightarrow> bool" where
  "metadata_has_background_programs md \<longleftrightarrow>
     (\<exists>name\<in>set (map fst (rd_programs md)). name \<notin> set (concat (map tc_programs (rd_tasks md))))"

definition metadata_task_thread_id :: "runtime_metadata \<Rightarrow> rstr \<Rightarrow> u32 option" where
  "metadata_task_thread_id md name = im_get (rd_task_thread_ids md) name"

section \<open>Policies\<close>

definition set_watchdog_policy ::
    "watchdog_policy \<Rightarrow> ('st, 'd) runtime_core \<Rightarrow> ('st, 'd) runtime_core" where
  "set_watchdog_policy policy rt = rt\<lparr>rc_watchdog := policy\<rparr>"

definition set_fault_policy ::
    "fault_policy \<Rightarrow> ('st, 'd) runtime_core \<Rightarrow> ('st, 'd) runtime_core" where
  "set_fault_policy policy rt = rt\<lparr>rc_faults := (rc_faults rt)\<lparr>ft_policy := policy\<rparr>\<rparr>"

definition set_retain_save_interval ::
    "duration option \<Rightarrow> ('st, 'd) runtime_core \<Rightarrow> ('st, 'd) runtime_core" where
  "set_retain_save_interval interval rt =
     rt\<lparr>rt_retain := rm_set_save_interval interval (rt_retain rt)\<rparr>"

definition set_io_safe_state ::
    "io_safe_state \<Rightarrow> ('st, 'd) runtime_core \<Rightarrow> ('st, 'd) runtime_core" where
  "set_io_safe_state state rt = rt\<lparr>rc_io := (rc_io rt)\<lparr>is_safe_state := state\<rparr>\<rparr>"

end
