(* ===== verification/Scheduler.thy ===== *)
theory Scheduler
  imports Bytecode_Apply
begin

text \<open>
  The thread that drives a resource (\<open>scheduler.rs\<close>): clocks, commands, restarts, pauses and cycles,
  and the globals that resources share. One round of the loop is a function of what the thread
  observes in it, \<open>round_input\<close>: the stop flag, the commands that have arrived, the restart that
  is requested, the time of the clock and the wall time the cycle took. The threads, locks and
  channels of the standard library are left out: the shared globals are changed under their lock
  only, so a round acts on them as a whole.
\<close>

section \<open>Clocks\<close>

text \<open>
  The reading of the clocks from the nanoseconds that have elapsed, and for how many nanoseconds
  they sleep.
\<close>

definition std_clock_now :: "nat \<Rightarrow> duration" where
  "std_clock_now nanos =
     (if int nanos \<le> signed_max TYPE(64) then of_nat nanos else word_of_int (signed_max TYPE(64)))"

definition std_clock_sleep :: "duration \<Rightarrow> duration \<Rightarrow> nat option" where
  "std_clock_sleep deadline now =
     (let delta = deadline - now in if sint delta \<le> 0 then None else Some (nat (sint delta)))"

definition scaled_clock_scale :: "u32 \<Rightarrow> u32" where
  "scaled_clock_scale scale = max scale 1"

definition scaled_clock_now :: "u32 \<Rightarrow> nat \<Rightarrow> duration" where
  "scaled_clock_now scale nanos =
     of_nat (min (min (2 ^ 128 - 1) (nanos * unat scale)) (2 ^ 63 - 1))"

datatype sleep = NoSleep | YieldNow | SleepFor nat

definition scaled_clock_sleep :: "u32 \<Rightarrow> duration \<Rightarrow> duration \<Rightarrow> sleep" where
  "scaled_clock_sleep scale deadline now =
     (let delta_sim = saturating_sub deadline now; s = ucast (max scale 1) :: i64 in
      if sint delta_sim \<le> 0 then NoSleep
      else
        (let delta_real = word_of_int (quot (sint (delta_sim + s - 1)) (sint s)) :: i64 in
         if sint delta_real \<le> 0 then YieldNow else SleepFor (nat (sint delta_real))))"

record manual_clock =
  mc_now :: duration
  mc_sleep_calls :: u64
  mc_interrupted :: bool

definition manual_clock_new :: manual_clock where
  "manual_clock_new = \<lparr>mc_now = 0, mc_sleep_calls = 0, mc_interrupted = False\<rparr>"

definition mc_advance :: "duration \<Rightarrow> manual_clock \<Rightarrow> manual_clock" where
  "mc_advance delta c = c\<lparr>mc_now := saturating_add (mc_now c) delta\<rparr>"

definition mc_set_time :: "duration \<Rightarrow> manual_clock \<Rightarrow> manual_clock" where
  "mc_set_time time c = c\<lparr>mc_now := time\<rparr>"

definition mc_interrupt :: "manual_clock \<Rightarrow> manual_clock" where
  "mc_interrupt c = c\<lparr>mc_interrupted := True\<rparr>"

text \<open>A sleep begins with its count; it lasts while \<open>mc_sleeping\<close> holds.\<close>

definition mc_begin_sleep :: "manual_clock \<Rightarrow> manual_clock" where
  "mc_begin_sleep c = c\<lparr>mc_sleep_calls := saturating_add_u64 (mc_sleep_calls c) 1\<rparr>"

definition mc_sleeping :: "duration \<Rightarrow> manual_clock \<Rightarrow> bool" where
  "mc_sleeping deadline c \<longleftrightarrow> \<not> mc_interrupted c \<and> sint (mc_now c) < sint deadline"

definition scaled_time :: "duration \<Rightarrow> u32 \<Rightarrow> duration" where
  "scaled_time now scale =
     (if scale \<le> 1 then now
      else word_of_int (max (signed_min TYPE(64)) (min (signed_max TYPE(64)) (sint now * uint scale))))"

definition scaled_sleep_interval :: "duration \<Rightarrow> u32 \<Rightarrow> duration" where
  "scaled_sleep_interval interval scale =
     (if scale \<le> 1 then interval
      else if sint interval \<le> 0 then 0
      else word_of_int (max 1 (sint interval div uint scale)))"

section \<open>Commands\<close>

datatype resource_state = RsBoot | RsReady | RsRunning | RsPaused | RsFaulted | RsStopped

datatype resource_command =
    CmdPause
  | CmdResume
  | CmdUpdateWatchdog watchdog_policy
  | CmdUpdateFaultPolicy fault_policy
  | CmdUpdateRetainSaveInterval "duration option"
  | CmdUpdateIoSafeState io_safe_state
  | CmdReloadBytecode "byte list"
  | CmdMeshSnapshot "rstr list"
  | CmdMeshApply "(rstr, rvalue) index_map"
  | CmdSnapshot

text \<open>What is sent to \<open>respond_to\<close>.\<close>

datatype resource_reply =
    ReplyReload "runtime_error + runtime_metadata"
  | ReplyMesh "(rstr, rvalue) index_map"
  | ReplySnapshot variable_storage duration

text \<open>
  What a loop runs on: the checksum function and the call stack of the validator, the fuel of the
  interpreter and the platform.
\<close>

record ('st, 'd) machine =
  ma_crc :: "byte list \<Rightarrow> u32"
  ma_stack :: nat
  ma_fuel :: nat
  ma_platform :: "('st, 'd) platform"

definition load_retained :: "('st, 'd) machine \<Rightarrow> (('st, 'd) runtime_core, unit) op" where
  "load_retained M = (\<lambda>rt. Some (rt_load_retain_store (pf_load (ma_platform M)) rt))"

definition reload_bytecode ::
    "('st, 'd) machine \<Rightarrow> byte list \<Rightarrow> (('st, 'd) runtime_core, runtime_metadata) op" where
  "reload_bytecode M bytes =
     ebind (apply_bytecode_bytes (ma_crc M) (ma_stack M) bytes None) (\<lambda>_.
     ebind (restart (ma_fuel M) RestartWarm) (\<lambda>_.
     ebind (load_retained M) (\<lambda>_.
       eget metadata_snapshot)))"

definition apply_resource_command ::
    "('st, 'd) machine \<Rightarrow> resource_command \<Rightarrow> ('st, 'd) runtime_core
      \<Rightarrow> (resource_reply list \<times> ('st, 'd) runtime_core) option" where
  "apply_resource_command M command rt =
     (case command of
        CmdPause \<Rightarrow> Some ([], rt)
      | CmdResume \<Rightarrow> Some ([], rt)
      | CmdUpdateWatchdog policy \<Rightarrow> Some ([], set_watchdog_policy policy rt)
      | CmdUpdateFaultPolicy policy \<Rightarrow> Some ([], set_fault_policy policy rt)
      | CmdUpdateRetainSaveInterval interval \<Rightarrow> Some ([], set_retain_save_interval interval rt)
      | CmdUpdateIoSafeState state \<Rightarrow> Some ([], set_io_safe_state state rt)
      | CmdReloadBytecode bytes \<Rightarrow>
          (case reload_bytecode M bytes rt of
             None \<Rightarrow> None
           | Some (r, rt) \<Rightarrow> Some ([ReplyReload r], rt))
      | CmdMeshSnapshot names \<Rightarrow> Some ([ReplyMesh (snapshot_globals names rt)], rt)
      | CmdMeshApply updates \<Rightarrow> Some ([], apply_mesh_updates updates rt)
      | CmdSnapshot \<Rightarrow> Some ([ReplySnapshot (rt_storage rt) (rt_current_time rt)], rt))"

section \<open>Shared globals\<close>

type_synonym shared_map = "(rstr, rvalue) index_map"

fun shared_from_runtime ::
    "rstr list \<Rightarrow> ('st, 'd) runtime_core \<Rightarrow> shared_map \<Rightarrow> runtime_error + shared_map" where
  "shared_from_runtime [] rt globals = Inr globals"
| "shared_from_runtime (name # names) rt globals =
     (case get_global (rt_storage rt) name of
        None \<Rightarrow> Inl (UndefinedVariable name)
      | Some value \<Rightarrow> shared_from_runtime names rt (im_insert name value globals))"

fun sync_into ::
    "rstr list \<Rightarrow> shared_map \<Rightarrow> ('st, 'd) runtime_core
      \<Rightarrow> (runtime_error + unit) \<times> ('st, 'd) runtime_core" where
  "sync_into [] globals rt = (Inr (), rt)"
| "sync_into (name # names) globals rt =
     (case im_get globals name of
        None \<Rightarrow> (Inl (UndefinedVariable name), rt)
      | Some value \<Rightarrow>
          sync_into names globals (rt\<lparr>rt_storage := set_global name value (rt_storage rt)\<rparr>))"

fun sync_from ::
    "rstr list \<Rightarrow> ('st, 'd) runtime_core \<Rightarrow> shared_map \<Rightarrow> (runtime_error + unit) \<times> shared_map" where
  "sync_from [] rt globals = (Inr (), globals)"
| "sync_from (name # names) rt globals =
     (case get_global (rt_storage rt) name of
        None \<Rightarrow> (Inl (UndefinedVariable name), globals)
      | Some value \<Rightarrow> sync_from names rt (im_insert name value globals))"

text \<open>
  A cycle of a resource under the lock: an error of the second exchange hides that of the cycle.
\<close>

type_synonym ('st, 'd) cycle_step =
  "shared_map \<Rightarrow> ('st, 'd) runtime_core
    \<Rightarrow> ((runtime_error + unit) \<times> shared_map \<times> ('st, 'd) runtime_core) option"

definition own_cycle :: "('st, 'd) machine \<Rightarrow> ('st, 'd) cycle_step" where
  "own_cycle M globals rt =
     (case execute_cycle (ma_fuel M) (ma_platform M) rt of
        None \<Rightarrow> None
      | Some (r, rt) \<Rightarrow> Some (r, globals, rt))"

definition shared_cycle :: "('st, 'd) machine \<Rightarrow> rstr list \<Rightarrow> ('st, 'd) cycle_step" where
  "shared_cycle M names globals rt =
     (case sync_into names globals rt of
        (Inl err, rt) \<Rightarrow> Some (Inl err, globals, rt)
      | (Inr _, rt) \<Rightarrow>
          (case execute_cycle (ma_fuel M) (ma_platform M) rt of
             None \<Rightarrow> None
           | Some (r, rt) \<Rightarrow>
               (case sync_from names rt globals of
                  (Inl err, globals) \<Rightarrow> Some (Inl err, globals, rt)
                | (Inr _, globals) \<Rightarrow> Some (r, globals, rt))))"

definition tick ::
    "('st, 'd) machine \<Rightarrow> duration \<Rightarrow> (('st, 'd) runtime_core, unit) op" where
  "tick M now rt = execute_cycle (ma_fuel M) (ma_platform M) (set_current_time now rt)"

definition tick_with_shared ::
    "('st, 'd) machine \<Rightarrow> rstr list \<Rightarrow> duration \<Rightarrow> ('st, 'd) cycle_step" where
  "tick_with_shared M names now globals rt = shared_cycle M names globals (set_current_time now rt)"

section \<open>The loop\<close>

record ('st, 'd) resource_loop =
  rl_runtime :: "('st, 'd) runtime_core"
  rl_simulation :: "simulation_controller option"
  rl_cycle_interval :: duration
  rl_time_scale :: u32
  rl_paused :: bool
  rl_state :: resource_state
  rl_last_error :: "runtime_error option"
  rl_replies :: "resource_reply list"
  rl_shared :: shared_map

record round_input =
  ri_stop :: bool
  ri_commands :: "resource_command list"
  ri_restart :: "restart_mode option"
  ri_now :: duration
  ri_elapsed :: i64

datatype wait = WaitNone | WaitYield | WaitUntil duration

datatype round_end = RoundNext wait | RoundEnd

text \<open>
  A stage of a round either passes the loop on to the next stage or ends the round.
\<close>

datatype 'l stage = Onward 'l | Over round_end 'l

definition then_stage :: "'l stage option \<Rightarrow> ('l \<Rightarrow> 'l stage option) \<Rightarrow> 'l stage option" where
  "then_stage m f =
     (case m of None \<Rightarrow> None | Some (Over e l) \<Rightarrow> Some (Over e l) | Some (Onward l) \<Rightarrow> f l)"

definition loop_fails :: "runtime_error \<Rightarrow> ('st, 'd) resource_loop \<Rightarrow> ('st, 'd) resource_loop stage" where
  "loop_fails err l = Over RoundEnd (l\<lparr>rl_last_error := Some err, rl_state := RsFaulted\<rparr>)"

definition stop_stage ::
    "('st, 'd) machine \<Rightarrow> bool \<Rightarrow> ('st, 'd) resource_loop \<Rightarrow> ('st, 'd) resource_loop stage option" where
  "stop_stage M stop l =
     (if stop
      then Some (Over RoundEnd
        (l\<lparr>rl_runtime := snd (rt_save_retain_store (pf_same (ma_platform M)) (pf_store (ma_platform M))
             (rl_runtime l)),
           rl_state := RsStopped\<rparr>))
      else Some (Onward l))"

definition loop_command ::
    "('st, 'd) machine \<Rightarrow> resource_command \<Rightarrow> ('st, 'd) resource_loop
      \<Rightarrow> ('st, 'd) resource_loop option" where
  "loop_command M command l =
     (case command of
        CmdPause \<Rightarrow> Some (l\<lparr>rl_paused := True, rl_state := RsPaused\<rparr>)
      | CmdResume \<Rightarrow> Some (l\<lparr>rl_paused := False, rl_state := RsRunning\<rparr>)
      | other \<Rightarrow>
          (case apply_resource_command M other (rl_runtime l) of
             None \<Rightarrow> None
           | Some (replies, rt) \<Rightarrow>
               Some (l\<lparr>rl_runtime := rt, rl_replies := rl_replies l @ replies\<rparr>)))"

fun command_stage ::
    "('st, 'd) machine \<Rightarrow> resource_command list \<Rightarrow> ('st, 'd) resource_loop
      \<Rightarrow> ('st, 'd) resource_loop stage option" where
  "command_stage M [] l = Some (Onward l)"
| "command_stage M (c # cs) l =
     (case loop_command M c l of None \<Rightarrow> None | Some l \<Rightarrow> command_stage M cs l)"

definition restart_stage ::
    "('st, 'd) machine \<Rightarrow> restart_mode option \<Rightarrow> ('st, 'd) resource_loop
      \<Rightarrow> ('st, 'd) resource_loop stage option" where
  "restart_stage M request l =
     (case request of
        None \<Rightarrow> Some (Onward l)
      | Some mode \<Rightarrow>
          (case ebind (restart (ma_fuel M) mode) (\<lambda>_. load_retained M) (rl_runtime l) of
             None \<Rightarrow> None
           | Some (Inl err, rt) \<Rightarrow> Some (loop_fails err (l\<lparr>rl_runtime := rt\<rparr>))
           | Some (Inr _, rt) \<Rightarrow> Some (Onward (l\<lparr>rl_runtime := rt\<rparr>))))"

definition loop_wait :: "duration \<Rightarrow> ('st, 'd) resource_loop \<Rightarrow> wait" where
  "loop_wait now_raw l =
     (if sint (rl_cycle_interval l) \<le> 0 then WaitYield
      else WaitUntil (saturating_add now_raw
        (scaled_sleep_interval (rl_cycle_interval l) (rl_time_scale l))))"

definition pause_stage ::
    "duration \<Rightarrow> ('st, 'd) resource_loop \<Rightarrow> ('st, 'd) resource_loop stage option" where
  "pause_stage now_raw l =
     (if rl_paused l then Some (Over (RoundNext (loop_wait now_raw l)) l) else Some (Onward l))"

text \<open>After an error the policy decides: a warm restart and the next round at once, or the end.\<close>

definition loop_error ::
    "('st, 'd) machine \<Rightarrow> runtime_error \<Rightarrow> ('st, 'd) resource_loop
      \<Rightarrow> ('st, 'd) resource_loop stage option" where
  "loop_error M err l =
     (if ft_policy (rc_faults (rl_runtime l)) = PolicyRestart then
        (case restart (ma_fuel M) RestartWarm (rl_runtime l) of
           None \<Rightarrow> None
         | Some (Inl restart_err, rt) \<Rightarrow> Some (loop_fails restart_err (l\<lparr>rl_runtime := rt\<rparr>))
         | Some (Inr _, rt) \<Rightarrow> Some (Over (RoundNext WaitNone) (l\<lparr>rl_runtime := rt\<rparr>)))
      else Some (loop_fails err l))"

definition pre_cycle_stage ::
    "('st, 'd) machine \<Rightarrow> duration \<Rightarrow> ('st, 'd) resource_loop
      \<Rightarrow> ('st, 'd) resource_loop stage option" where
  "pre_cycle_stage M now l =
     (let l = l\<lparr>rl_runtime := set_current_time now (rl_runtime l)\<rparr> in
      case rl_simulation l of
        None \<Rightarrow> Some (Onward l)
      | Some c \<Rightarrow>
          (case apply_pre_cycle (pf_drivers (ma_platform M)) now c (rl_runtime l) of
             (r, c, rt) \<Rightarrow>
               (let l = l\<lparr>rl_simulation := Some c, rl_runtime := rt\<rparr> in
                case r of
                  Inl err \<Rightarrow> loop_error M err l
                | Inr _ \<Rightarrow> Some (Onward l))))"

definition post_cycle ::
    "duration \<Rightarrow> runtime_error + unit \<Rightarrow> ('st, 'd) resource_loop
      \<Rightarrow> (runtime_error + unit) \<times> ('st, 'd) resource_loop" where
  "post_cycle now r l =
     (case (r, rl_simulation l) of
        (Inr _, Some c) \<Rightarrow>
          (case apply_post_cycle now (rl_runtime l) c of
             (r, c) \<Rightarrow> (r, l\<lparr>rl_simulation := Some c\<rparr>))
      | _ \<Rightarrow> (r, l))"

definition cycle_stage ::
    "('st, 'd) machine \<Rightarrow> ('st, 'd) cycle_step \<Rightarrow> duration \<Rightarrow> ('st, 'd) resource_loop
      \<Rightarrow> ('st, 'd) resource_loop stage option" where
  "cycle_stage M cycle now l =
     (case cycle (rl_shared l) (rl_runtime l) of
        None \<Rightarrow> None
      | Some (r, globals, rt) \<Rightarrow>
          (case post_cycle now r (l\<lparr>rl_shared := globals, rl_runtime := rt\<rparr>) of
             (Inl err, l) \<Rightarrow> loop_error M err l
           | (Inr _, l) \<Rightarrow> Some (Onward l)))"

definition watchdog_stage ::
    "('st, 'd) machine \<Rightarrow> i64 \<Rightarrow> ('st, 'd) resource_loop \<Rightarrow> ('st, 'd) resource_loop stage option" where
  "watchdog_stage M cycle_nanos l =
     (let watchdog = rc_watchdog (rl_runtime l) in
      if \<not> (wp_enabled watchdog \<and> sint (wp_timeout watchdog) < sint cycle_nanos) then Some (Onward l)
      else if wp_action watchdog = WdRestart then
        (case restart (ma_fuel M) RestartWarm (rl_runtime l) of
           None \<Rightarrow> None
         | Some (Inl restart_err, rt) \<Rightarrow> Some (loop_fails restart_err (l\<lparr>rl_runtime := rt\<rparr>))
         | Some (Inr _, rt) \<Rightarrow> Some (Onward (l\<lparr>rl_runtime := rt\<rparr>)))
      else
        (case watchdog_timeout (pf_drivers (ma_platform M)) (rl_runtime l) of
           (err, rt) \<Rightarrow> Some (loop_fails err (l\<lparr>rl_runtime := rt\<rparr>))))"

definition wait_stage ::
    "duration \<Rightarrow> ('st, 'd) resource_loop \<Rightarrow> ('st, 'd) resource_loop stage option" where
  "wait_stage now_raw l = Some (Over (RoundNext (loop_wait now_raw l)) l)"

definition resource_round ::
    "('st, 'd) machine \<Rightarrow> ('st, 'd) cycle_step \<Rightarrow> round_input \<Rightarrow> ('st, 'd) resource_loop
      \<Rightarrow> ('st, 'd) resource_loop stage option" where
  "resource_round M cycle i l =
     then_stage (stop_stage M (ri_stop i) l) (\<lambda>l.
     then_stage (command_stage M (ri_commands i) l) (\<lambda>l.
     then_stage (restart_stage M (ri_restart i) l) (\<lambda>l.
     then_stage (pause_stage (ri_now i) l) (\<lambda>l.
       let now = scaled_time (ri_now i) (rl_time_scale l) in
     then_stage (pre_cycle_stage M now l) (\<lambda>l.
     then_stage (cycle_stage M cycle now l) (\<lambda>l.
     then_stage (watchdog_stage M (ri_elapsed i) l) (\<lambda>l.
       wait_stage (ri_now i) l)))))))"

definition run_resource_loop ::
    "('st, 'd) machine \<Rightarrow> round_input \<Rightarrow> ('st, 'd) resource_loop
      \<Rightarrow> ('st, 'd) resource_loop stage option" where
  "run_resource_loop M = resource_round M (own_cycle M)"

definition run_resource_loop_with_shared ::
    "('st, 'd) machine \<Rightarrow> rstr list \<Rightarrow> round_input \<Rightarrow> ('st, 'd) resource_loop
      \<Rightarrow> ('st, 'd) resource_loop stage option" where
  "run_resource_loop_with_shared M names = resource_round M (shared_cycle M names)"

section \<open>The start of the loop\<close>

text \<open>
  The gate is looked at again and again, each time with the stop flag: \<^const>\<open>None\<close> while it is
  closed and nothing stops the resource.
\<close>

fun wait_open :: "(bool \<times> bool) list \<Rightarrow> bool option" where
  "wait_open [] = None"
| "wait_open ((is_open, stop) # looks) =
     (if is_open then Some True else if stop then Some False else wait_open looks)"

definition runner_new ::
    "('st, 'd) runtime_core \<Rightarrow> duration \<Rightarrow> simulation_controller option \<Rightarrow> u32
      \<Rightarrow> ('st, 'd) resource_loop" where
  "runner_new rt cycle_interval simulation scale =
     \<lparr>rl_runtime = rt, rl_simulation = simulation, rl_cycle_interval = cycle_interval,
      rl_time_scale = max scale 1, rl_paused = False, rl_state = RsBoot, rl_last_error = None,
      rl_replies = [], rl_shared = []\<rparr>"

definition loop_start ::
    "(bool \<times> bool) list option \<Rightarrow> ('st, 'd) resource_loop \<Rightarrow> ('st, 'd) resource_loop stage option" where
  "loop_start gate l =
     (case gate of
        None \<Rightarrow> Some (Onward (l\<lparr>rl_state := RsRunning\<rparr>))
      | Some looks \<Rightarrow>
          (case wait_open looks of
             None \<Rightarrow> None
           | Some True \<Rightarrow> Some (Onward (l\<lparr>rl_state := RsRunning\<rparr>))
           | Some False \<Rightarrow> Some (Over RoundEnd (l\<lparr>rl_state := RsStopped\<rparr>))))"

section \<open>Control from other threads\<close>

text \<open>
  The ends of the channels that \<open>ResourceHandle\<close> and \<open>ResourceControl\<close> hold: the stop flag, the clock,
  the commands that wait, and whether the loop that receives them is still there. The operation
  \<open>wake\<close> of the clock is an argument (\<^const>\<open>mc_interrupt\<close> for \<open>ManualClock\<close>, nothing for the others).
\<close>

record 'c resource_control =
  ct_stop :: bool
  ct_clock :: 'c
  ct_waiting :: "resource_command list"
  ct_open :: bool

definition control_stub :: "'c \<Rightarrow> 'c resource_control" where
  "control_stub clock = \<lparr>ct_stop = False, ct_clock = clock, ct_waiting = [], ct_open = True\<rparr>"

definition send_command :: "resource_command \<Rightarrow> ('c resource_control, runtime_error, unit) exec" where
  "send_command command k =
     (if ct_open k then (Inr (), k\<lparr>ct_waiting := ct_waiting k @ [command]\<rparr>)
      else (Inl (ControlError ''command channel closed''), k))"

definition send_and_wake ::
    "('c \<Rightarrow> 'c) \<Rightarrow> resource_command \<Rightarrow> ('c resource_control, runtime_error, unit) exec" where
  "send_and_wake wake command k =
     (case send_command command k of
        (Inl err, k) \<Rightarrow> (Inl err, k)
      | (Inr _, k) \<Rightarrow> (Inr (), k\<lparr>ct_clock := wake (ct_clock k)\<rparr>))"

definition control_pause :: "('c \<Rightarrow> 'c) \<Rightarrow> ('c resource_control, runtime_error, unit) exec" where
  "control_pause wake = send_and_wake wake CmdPause"

definition control_resume :: "('c \<Rightarrow> 'c) \<Rightarrow> ('c resource_control, runtime_error, unit) exec" where
  "control_resume wake = send_and_wake wake CmdResume"

definition control_stop :: "('c \<Rightarrow> 'c) \<Rightarrow> 'c resource_control \<Rightarrow> 'c resource_control" where
  "control_stop wake k = k\<lparr>ct_stop := True, ct_clock := wake (ct_clock k)\<rparr>"

end
