(* ===== verification/Scheduler_Properties.thy ===== *)
theory Scheduler_Properties
  imports Scheduler Cycle_Properties
begin

text \<open>
  Properties of the loop that drives a resource: the status it shows, what a pause stops, what
  resources exchange through shared globals, and how long a scaled clock sleeps.
\<close>

section \<open>The fault state along a round\<close>

text \<open>An operation that does not touch the fault state.\<close>

definition faults_kept :: "(('st, 'd) runtime_core, 'a) op \<Rightarrow> bool" where
  "faults_kept m \<longleftrightarrow> (\<forall>rt r rt'. m rt = Some (r, rt') \<longrightarrow> rc_faults rt' = rc_faults rt)"

named_theorems fault_intros \<open>composition rules for \<open>faults_kept\<close>\<close>

lemma faults_keptI:
  "(\<And>rt r rt'. m rt = Some (r, rt') \<Longrightarrow> rc_faults rt' = rc_faults rt) \<Longrightarrow> faults_kept m"
  by (simp add: faults_kept_def)

lemma faults_keptD: "faults_kept m \<Longrightarrow> m rt = Some (r, rt') \<Longrightarrow> rc_faults rt' = rc_faults rt"
  by (simp add: faults_kept_def)

lemma faults_kept_bind [fault_intros]:
  "faults_kept m \<Longrightarrow> (\<And>x. faults_kept (f x)) \<Longrightarrow> faults_kept (ebind m f)"
  by (rule faults_keptI, erule ebind_cases) (metis faults_keptD)+

lemma faults_kept_basic [fault_intros]:
  "faults_kept (eget g)" "faults_kept (elift k)" "faults_kept (eret x)"
  by (simp_all add: faults_kept_def)

lemma faults_kept_each [fault_intros]:
  "(\<And>x. faults_kept (f x)) \<Longrightarrow> faults_kept (eeach f xs)"
  by (induction xs) (simp_all only: eeach.simps fault_intros)

lemma faults_kept_ctx [fault_intros]: "faults_kept (with_ctx using inst m)"
  by (rule faults_keptI) (auto simp: with_ctx_def split: option.splits prod.splits)

lemma faults_kept_set_global [fault_intros]: "faults_kept (set_global_op name value)"
  by (rule faults_keptI) (auto simp: set_global_op_def)

lemma faults_kept_init_global [fault_intros]: "faults_kept (init_global fuel name init)"
  by (cases init) (auto simp: init_global_def intro!: fault_intros)

lemma faults_kept_restart_global [fault_intros]:
  "faults_kept (restart_global fuel mode kept entry)"
  by (cases entry) (auto simp: restart_global_def intro!: fault_intros split: option.split)

text \<open>A restart clears the fault state, or fails and leaves it.\<close>

lemma restart_faults:
  assumes "restart fuel mode rt = Some (r, rt')"
  shows "case r of Inr _ \<Rightarrow> \<not> faulted rt' | Inl _ \<Rightarrow> rc_faults rt' = rc_faults rt"
proof -
  let ?init = "ebind (eget (\<lambda>rt. if mode = RestartWarm then retained_globals rt else [])) (\<lambda>kept.
     ebind (eget (\<lambda>rt. if mode = RestartWarm then retained_program_vars rt else [])) (\<lambda>program_vars.
     ebind (eget rt_globals) (\<lambda>globals.
     ebind (eeach (restart_global fuel mode kept) globals) (\<lambda>_.
     ebind (eget (\<lambda>rt. map snd (rc_programs rt))) (\<lambda>programs.
     ebind (eeach (restart_program fuel) programs) (\<lambda>_. eret program_vars))))))"
  have init: "faults_kept ?init"
    unfolding restart_program_def by (intro fault_intros)
  have split: "restart fuel mode =
      ebind ?init (\<lambda>program_vars. emodify (\<lambda>rt.
         rt\<lparr>rt_storage := clear_frames (foldl (\<lambda>s e. restore_var e s) (rt_storage rt) program_vars),
            rt_current_time := 0,
            rc_task_state := map (\<lambda>(name, _). (name, task_state_new 0)) (rc_task_state rt),
            rc_faults := fault_clear (rc_faults rt),
            rc_cycle_counter := 0\<rparr>))"
    unfolding restart_def ebind_assoc by (simp add: ebind_def eret_def emodify_def)
  from assms show ?thesis
    unfolding split
  proof (rule ebind_cases)
    fix e
    assume "?init rt = Some (Inl e, rt')" and r: "r = Inl e"
    then have "rc_faults rt' = rc_faults rt"
      using faults_keptD [OF init] by blast
    then show ?thesis
      by (simp add: r)
  qed (auto simp: faulted_def fault_clear_def)
qed

lemma load_faults [fault_intros]: "faults_kept (load_retained M)"
  by (rule faults_keptI)
    (auto simp: load_retained_def rt_load_retain_store_def rt_apply_retain_snapshot_def split: sum.splits)

lemma thread_faults: "rc_faults (snd (ensure_background_thread_id rt)) = rc_faults rt"
  by (simp add: ensure_background_thread_id_def)

lemma install_faults: "install_tasks tasks rt = (r, rt') \<Longrightarrow> rc_faults rt' = rc_faults rt"
  by (induction tasks arbitrary: rt) (auto simp: register_task_def Let_def split: sum.splits)

lemma reload_faults [fault_intros]: "faults_kept (apply_bytecode_bytes crc stack bytes name)"
  by (rule faults_keptI)
    (auto simp: apply_bytecode_bytes_def apply_bytecode_module_def apply_bytecode_metadata_def
      apply_resource_metadata_def Let_def thread_faults dest!: install_faults
      split: option.splits sum.splits if_splits prod.splits)

lemma write_image_faults: "write_image a v rt = (r, rt') \<Longrightarrow> rc_faults rt' = rc_faults rt"
  by (auto simp: write_image_def split: prod.splits)

lemma disturbances_faults:
  "apply_disturbances ops now ds rt = (Inr u, n, rt') \<Longrightarrow> rc_faults rt' = rc_faults rt"
  by (induction ds arbitrary: rt n)
    (fastforce simp: apply_disturbance_def simulation_failure_def dest!: write_image_faults
      split: if_splits prod.splits sum.splits disturbance_kind.splits)+

lemma effects_faults:
  "apply_effects ops now es rt = (Inr u, es', rt') \<Longrightarrow> rc_faults rt' = rc_faults rt"
  by (induction es arbitrary: rt)
    (fastforce simp: simulation_failure_def dest!: write_image_faults
      split: if_splits prod.splits sum.splits)+

lemma pre_cycle_faults:
  "apply_pre_cycle ops now c rt = (Inr u, c', rt') \<Longrightarrow> rc_faults rt' = rc_faults rt"
  by (auto simp: apply_pre_cycle_def Let_def dest!: disturbances_faults effects_faults
      split: if_splits prod.splits sum.splits)

lemma cycle_faults:
  assumes "execute_cycle fuel pf rt = Some (Inr x, rt')"
  shows "rc_faults rt' = rc_faults rt"
proof -
  have "rc_faults (config_of rt') = rc_faults (config_of rt)"
    using cycle_effect [OF assms] by simp
  then show ?thesis
    by (simp add: config_of_def)
qed

lemma sync_into_frame:
  "sync_into names globals rt = (r, rt') \<Longrightarrow> rt' = rt\<lparr>rt_storage := rt_storage rt'\<rparr>"
  by (induction names arbitrary: rt) (fastforce split: option.splits)+

section \<open>The contract of a cycle\<close>

text \<open>
  What the loop relies on: a cycle that succeeds leaves the fault state. Both kinds of cycle meet it.
\<close>

locale loop_cycle =
  fixes cycle :: "('st, 'd) cycle_step"
  assumes cycle_ok: "cycle globals rt = Some (Inr u, globals', rt') \<Longrightarrow> rc_faults rt' = rc_faults rt"

interpretation own: loop_cycle "own_cycle M"
  by unfold_locales (auto simp: own_cycle_def dest: cycle_faults split: option.splits)

interpretation among: loop_cycle "shared_cycle M names"
proof
  fix globals globals' :: shared_map and rt rt' :: "('a, 'b) runtime_core" and u
  assume "shared_cycle M names globals rt = Some (Inr u, globals', rt')"
  then obtain v rt1 x rt2 where into: "sync_into names globals rt = (Inr v, rt1)"
    and run: "execute_cycle (ma_fuel M) (ma_platform M) rt1 = Some (Inr x, rt2)" and rt': "rt' = rt2"
    by (auto simp: shared_cycle_def split: prod.splits sum.splits option.splits)
  have "rc_faults rt2 = rc_faults rt1"
    by (rule cycle_faults [OF run])
  moreover have "rc_faults rt1 = rc_faults rt"
    by (subst sync_into_frame [OF into]) simp
  ultimately show "rc_faults rt' = rc_faults rt"
    by (simp add: rt')
qed

section \<open>The status of a loop\<close>

definition loop_live :: "('st, 'd) resource_loop \<Rightarrow> bool" where
  "loop_live l \<longleftrightarrow>
     rl_state l = (if rl_paused l then RsPaused else RsRunning) \<and> rl_last_error l = None \<and>
     \<not> faulted (rl_runtime l)"

definition loop_dead :: "('st, 'd) resource_loop \<Rightarrow> bool" where
  "loop_dead l \<longleftrightarrow>
     rl_state l = RsStopped \<and> rl_last_error l = None \<or>
     rl_state l = RsFaulted \<and> rl_last_error l \<noteq> None"

definition stage_ok :: "('st, 'd) resource_loop stage \<Rightarrow> bool" where
  "stage_ok st =
     (case st of
        Onward l \<Rightarrow> loop_live l
      | Over (RoundNext _) l \<Rightarrow> loop_live l
      | Over RoundEnd l \<Rightarrow> loop_dead l)"

lemma stage_ok_simps [simp]:
  "stage_ok (Onward l) = loop_live l"
  "stage_ok (Over (RoundNext w) l) = loop_live l"
  "stage_ok (Over RoundEnd l) = loop_dead l"
  by (simp_all add: stage_ok_def)

lemma fails_ok: "stage_ok (loop_fails err l)"
  by (simp add: loop_fails_def loop_dead_def)

text \<open>A stage takes a live loop to a live or a dead one.\<close>

definition keeps_status :: "(('st, 'd) resource_loop \<Rightarrow> ('st, 'd) resource_loop stage option) \<Rightarrow> bool"
where
  "keeps_status f \<longleftrightarrow> (\<forall>l st. loop_live l \<longrightarrow> f l = Some st \<longrightarrow> stage_ok st)"

lemma keeps_statusI:
  "(\<And>l st. loop_live l \<Longrightarrow> f l = Some st \<Longrightarrow> stage_ok st) \<Longrightarrow> keeps_status f"
  by (simp add: keeps_status_def)

named_theorems status_intros \<open>composition rules for \<open>keeps_status\<close>\<close>

lemma status_then [status_intros]:
  "keeps_status f \<Longrightarrow> keeps_status g \<Longrightarrow> keeps_status (\<lambda>l. then_stage (f l) g)"
  by (fastforce simp: keeps_status_def then_stage_def split: option.splits stage.splits round_end.splits)

lemma live_runtime:
  "loop_live l \<Longrightarrow> (faulted (rl_runtime l) \<longleftrightarrow> faulted rt) \<Longrightarrow> loop_live (l\<lparr>rl_runtime := rt\<rparr>)"
  by (simp add: loop_live_def)

lemma faults_faulted: "rc_faults rt' = rc_faults rt \<Longrightarrow> faulted rt' = faulted rt"
  by (simp add: faulted_def)

lemma status_stop [status_intros]: "keeps_status (stop_stage M stop)"
  by (rule keeps_statusI)
    (auto simp: stop_stage_def loop_live_def loop_dead_def split: if_splits)

text \<open>A restart, with what follows it, of a runtime that is not faulted.\<close>

lemma restart_unfaulted:
  assumes "ebind (restart fuel mode) f rt = Some (r, rt')" and "\<not> faulted rt"
    and "\<And>x. faults_kept (f x)"
  shows "\<not> faulted rt'"
  using assms(1)
proof (rule ebind_cases)
  fix e
  assume "restart fuel mode rt = Some (Inl e, rt')"
  then show ?thesis
    using restart_faults assms(2) by (fastforce simp: faulted_def)
next
  fix x rt1
  assume 1: "restart fuel mode rt = Some (Inr x, rt1)" and "f x rt1 = Some (r, rt')"
  then have "faulted rt' = faulted rt1"
    using assms(3) by (metis faults_keptD faults_faulted)
  then show ?thesis
    using restart_faults [OF 1] by simp
qed

lemma reload_unfaulted:
  assumes "reload_bytecode M bytes rt = Some (r, rt')" and "\<not> faulted rt"
  shows "\<not> faulted rt'"
  using assms(1) unfolding reload_bytecode_def
proof (rule ebind_cases)
  fix e
  assume "apply_bytecode_bytes (ma_crc M) (ma_stack M) bytes None rt = Some (Inl e, rt')"
  then show ?thesis
    using faults_keptD [OF reload_faults] assms(2) faults_faulted by metis
next
  fix x rt1
  assume 1: "apply_bytecode_bytes (ma_crc M) (ma_stack M) bytes None rt = Some (Inr x, rt1)"
    and 2: "ebind (restart (ma_fuel M) RestartWarm)
      (\<lambda>_. ebind (load_retained M) (\<lambda>_. eget metadata_snapshot)) rt1 = Some (r, rt')"
  have "\<not> faulted rt1"
    using faults_keptD [OF reload_faults 1] assms(2) faults_faulted by metis
  then show ?thesis
    by (rule restart_unfaulted [OF 2]) (intro fault_intros)
qed

lemma mesh_faulted: "faulted (apply_mesh_updates updates rt) = faulted rt"
  unfolding apply_mesh_updates_def faulted_def
  by (induction updates arbitrary: rt) (auto split: prod.split)

lemma policies_faulted:
  "faulted (set_watchdog_policy w rt) = faulted rt" "faulted (set_fault_policy p rt) = faulted rt"
  "faulted (set_retain_save_interval d rt) = faulted rt" "faulted (set_io_safe_state s rt) = faulted rt"
  by (simp_all add: faulted_def set_watchdog_policy_def set_fault_policy_def
      set_retain_save_interval_def set_io_safe_state_def)

lemma command_unfaulted:
  assumes "apply_resource_command M c rt = Some (rs, rt')" and "\<not> faulted rt"
  shows "\<not> faulted rt'"
proof (cases c)
  case (CmdReloadBytecode bytes)
  then show ?thesis
    using assms
    by (auto simp: apply_resource_command_def split: option.splits prod.splits dest: reload_unfaulted)
qed (use assms in \<open>auto simp: apply_resource_command_def mesh_faulted policies_faulted\<close>)

lemma command_live:
  assumes "loop_live l" and "loop_command M c l = Some l'"
  shows "loop_live l'"
  using assms command_unfaulted [of M c "rl_runtime l"]
  by (cases c) (auto simp: loop_command_def loop_live_def split: option.splits prod.splits)

lemma status_commands [status_intros]: "keeps_status (command_stage M cs)"
proof (rule keeps_statusI)
  show "stage_ok st" if "loop_live l" and "command_stage M cs l = Some st" for l st
    using that by (induction cs arbitrary: l) (auto split: option.splits dest: command_live)
qed

lemma status_restart [status_intros]: "keeps_status (restart_stage M request)"
proof (rule keeps_statusI)
  fix l st
  assume live: "loop_live l" and st: "restart_stage M request l = Some st"
  show "stage_ok st"
  proof (cases request)
    case (Some mode)
    from live have "\<not> faulted (rl_runtime l)"
      by (simp add: loop_live_def)
    with live st Some show ?thesis
      by (auto simp: restart_stage_def fails_ok split: option.splits prod.splits sum.splits
          intro!: live_runtime dest: restart_unfaulted [OF _ _ load_faults])
  qed (use live st in \<open>auto simp: restart_stage_def\<close>)
qed

lemma status_pause [status_intros]: "keeps_status (pause_stage now)"
  by (rule keeps_statusI) (auto simp: pause_stage_def split: if_splits)

lemma error_status:
  assumes "loop_error M err l = Some st" and "rl_state l = (if rl_paused l then RsPaused else RsRunning)"
    and "rl_last_error l = None"
  shows "stage_ok st"
proof (cases "ft_policy (rc_faults (rl_runtime l)) = PolicyRestart")
  case True
  then show ?thesis
    using assms restart_faults
    by (fastforce simp: loop_error_def fails_ok loop_live_def split: option.splits prod.splits sum.splits)
qed (use assms in \<open>auto simp: loop_error_def fails_ok\<close>)

lemma status_pre_cycle [status_intros]: "keeps_status (pre_cycle_stage M now)"
proof (rule keeps_statusI)
  fix l st
  assume live: "loop_live l" and st: "pre_cycle_stage M now l = Some st"
  show "stage_ok st"
  proof (cases "rl_simulation l")
    case None
    then show ?thesis
      using live st by (auto simp: pre_cycle_stage_def Let_def set_current_time_def loop_live_def faulted_def)
  next
    case (Some c)
    obtain r c' rt where pre: "apply_pre_cycle (pf_drivers (ma_platform M)) now c
        (set_current_time now (rl_runtime l)) = (r, c', rt)"
      by (metis prod_cases3)
    show ?thesis
    proof (cases r)
      case (Inl err)
      then show ?thesis
        using live st Some pre
        by (auto simp: pre_cycle_stage_def Let_def loop_live_def intro: error_status)
    next
      case (Inr u)
      then show ?thesis
        using live st Some pre pre_cycle_faults [OF pre [unfolded Inr]]
        by (auto simp: pre_cycle_stage_def Let_def loop_live_def faulted_def set_current_time_def)
    qed
  qed
qed

context loop_cycle
begin

lemma status_cycle: "keeps_status (cycle_stage M cycle now)"
proof (rule keeps_statusI)
  fix l st
  assume live: "loop_live l" and st: "cycle_stage M cycle now l = Some st"
  obtain r globals rt where run: "cycle (rl_shared l) (rl_runtime l) = Some (r, globals, rt)"
    using st by (auto simp: cycle_stage_def split: option.splits)
  let ?l = "l\<lparr>rl_shared := globals, rl_runtime := rt\<rparr>"
  obtain r' l' where post: "post_cycle now r ?l = (r', l')"
    by fastforce
  have frame: "rl_runtime l' = rt" "rl_state l' = rl_state l" "rl_paused l' = rl_paused l"
    "rl_last_error l' = rl_last_error l" "r' = Inr u \<Longrightarrow> \<exists>v. r = Inr v" for u
    using post by (auto simp: post_cycle_def split: sum.splits option.splits prod.splits)
  show "stage_ok st"
  proof (cases r')
    case (Inl err)
    then show ?thesis
      using live st run post frame
      by (auto simp: cycle_stage_def loop_live_def intro!: error_status)
  next
    case (Inr u)
    then obtain v where "r = Inr v"
      using frame by blast
    then have "rc_faults rt = rc_faults (rl_runtime l)"
      using run cycle_ok by blast
    then show ?thesis
      using live st run post frame Inr by (auto simp: cycle_stage_def loop_live_def faulted_def)
  qed
qed

end

lemma status_watchdog [status_intros]: "keeps_status (watchdog_stage M cycle_nanos)"
proof (rule keeps_statusI)
  fix l st
  assume live: "loop_live l" and st: "watchdog_stage M cycle_nanos l = Some st"
  show "stage_ok st"
    using live st restart_faults
    by (fastforce simp: watchdog_stage_def Let_def fails_ok loop_live_def
        split: if_splits option.splits prod.splits sum.splits)
qed

lemma status_dep: "(\<And>x. keeps_status (F x)) \<Longrightarrow> keeps_status (\<lambda>l. F (h l) l)"
  by (auto simp: keeps_status_def)

lemma status_wait [status_intros]: "keeps_status (wait_stage now)"
  by (rule keeps_statusI) (auto simp: wait_stage_def)

context loop_cycle
begin

lemma status_round:
  assumes "loop_live l" and "resource_round M cycle i l = Some st"
  shows "stage_ok st \<and> (\<forall>l'. st \<noteq> Onward l')"
proof
  have "keeps_status (resource_round M cycle i)"
    unfolding resource_round_def Let_def
    by (intro status_intros status_cycle
        status_dep [where h = "\<lambda>l. scaled_time (ri_now i) (rl_time_scale l)"
          and F = "\<lambda>now l. then_stage (pre_cycle_stage M now l) (\<lambda>l.
            then_stage (cycle_stage M cycle now l) (\<lambda>l.
            then_stage (watchdog_stage M (ri_elapsed i) l) (wait_stage (ri_now i))))"])
  then show "stage_ok st" using assms by (auto simp: keeps_status_def)
  show "\<forall>l'. st \<noteq> Onward l'"
    using assms(2) by (auto simp: resource_round_def then_stage_def wait_stage_def Let_def
       split: option.splits stage.splits)
qed

end

text \<open>
  What the thread of a resource can come to, whatever it observes in each round; the flag says
  whether the loop goes on.
\<close>

inductive loop_reaches ::
    "('st, 'd) machine \<Rightarrow> ('st, 'd) cycle_step \<Rightarrow> ('st, 'd) resource_loop
      \<Rightarrow> ('st, 'd) resource_loop \<Rightarrow> bool \<Rightarrow> bool"
  for M cycle start where
  opened: "loop_start gate start = Some (Onward l) \<Longrightarrow> loop_reaches M cycle start l True"
| never_opened: "loop_start gate start = Some (Over e l) \<Longrightarrow> loop_reaches M cycle start l False"
| next_round: "loop_reaches M cycle start l True \<Longrightarrow>
    resource_round M cycle i l = Some (Over (RoundNext w) l') \<Longrightarrow> loop_reaches M cycle start l' True"
| last_round: "loop_reaches M cycle start l True \<Longrightarrow>
    resource_round M cycle i l = Some (Over RoundEnd l') \<Longrightarrow> loop_reaches M cycle start l' False"

inductive_cases start_cases: "loop_reaches M cycle start l False"

context loop_cycle
begin

lemma reached_status:
  assumes "loop_reaches M cycle start l alive"
    and "start = runner_new rt interval simulation scale" and "\<not> faulted rt"
  shows "if alive then loop_live l else loop_dead l"
  using assms(1)
proof (induction rule: loop_reaches.induct)
  case (opened gate l)
  then show ?case
    using assms(2,3)
    by (auto simp: loop_start_def runner_new_def loop_live_def split: option.splits bool.splits)
next
  case (never_opened gate e l)
  then show ?case
    using assms(2,3)
    by (auto simp: loop_start_def runner_new_def loop_dead_def split: option.splits bool.splits)
next
  case (next_round l i w l')
  then show ?case
    using status_round [of l M i] by auto
next
  case (last_round l i l')
  then show ?case
    using status_round [of l M i] by auto
qed

end

text \<open>C5: Whatever commands, restarts, cycles and faults the thread of a resource sees, alone or with
  shared globals: as long as its loop runs it shows \<open>Paused\<close> or \<open>Running\<close> as it is paused or not, has
  no error and its runtime is not faulted; once the loop has ended it shows \<open>Stopped\<close> without an error
  or \<open>Faulted\<close> with the error, and the loop never ends in another way.\<close>

theorem loop_status:
  assumes "loop_reaches M cycle (runner_new rt interval simulation scale) l alive"
    and "cycle = own_cycle M \<or> cycle = shared_cycle M names" and "\<not> faulted rt"
  shows "if alive
    then rl_state l = (if rl_paused l then RsPaused else RsRunning) \<and> rl_last_error l = None \<and>
      \<not> faulted (rl_runtime l)
    else rl_state l = RsStopped \<and> rl_last_error l = None \<or>
      rl_state l = RsFaulted \<and> rl_last_error l \<noteq> None"
  using assms own.reached_status among.reached_status
  unfolding loop_live_def [symmetric] loop_dead_def [symmetric] by metis

definition plain_machine :: "(unit, unit) machine" where
  "plain_machine = \<lparr>ma_crc = (\<lambda>_. 0), ma_stack = 8, ma_fuel = 3, ma_platform = plain_platform\<rparr>"

definition stop_round :: round_input where
  "stop_round = \<lparr>ri_stop = True, ri_commands = [], ri_restart = None, ri_now = 0, ri_elapsed = 0\<rparr>"

lemma loop_status_witness:
  "\<exists>l. loop_reaches plain_machine (own_cycle plain_machine) (runner_new (plain_runtime []) 1000 None 1) l False \<and>
     (rl_state l = RsStopped \<or> rl_state l = RsFaulted)"
proof -
  let ?start = "runner_new (plain_runtime []) 1000 None 1"
  have "loop_reaches plain_machine (own_cycle plain_machine) ?start (?start\<lparr>rl_state := RsRunning\<rparr>) True"
    by (rule loop_reaches.opened [of None]) (simp add: loop_start_def)
  moreover obtain l where
    "resource_round plain_machine (own_cycle plain_machine) stop_round (?start\<lparr>rl_state := RsRunning\<rparr>) =
      Some (Over RoundEnd l)"
    by (simp add: resource_round_def stop_round_def stop_stage_def then_stage_def)
  ultimately have reach: "loop_reaches plain_machine (own_cycle plain_machine) ?start l False"
    by (rule loop_reaches.last_round)
  have "\<not> faulted (plain_runtime [])"
    by (simp add: faulted_def plain_runtime_def fault_subsystem_new_def)
  then show ?thesis
    using loop_status [OF reach, of "[]"] reach by auto
qed

section \<open>Pauses\<close>

text \<open>A command that only asks for something or changes a setting; a mesh update writes globals.\<close>

definition settings_command :: "resource_command \<Rightarrow> bool" where
  "settings_command c =
     (case c of
        CmdResume \<Rightarrow> False | CmdReloadBytecode _ \<Rightarrow> False | CmdMeshApply _ \<Rightarrow> False | _ \<Rightarrow> True)"

text \<open>Two states of a runtime that differ in the four settings at most, and of a loop around it.\<close>

definition only_settings ::
    "('st, 'd) runtime_core \<Rightarrow> ('st, 'd) runtime_core \<Rightarrow> bool" where
  "only_settings rt rt' \<longleftrightarrow>
     rt' = rt\<lparr>rc_watchdog := rc_watchdog rt',
       rc_faults := (rc_faults rt)\<lparr>ft_policy := ft_policy (rc_faults rt')\<rparr>,
       rt_retain := (rt_retain rt)\<lparr>rm_save_interval := rm_save_interval (rt_retain rt')\<rparr>,
       rc_io := (rc_io rt)\<lparr>is_safe_state := is_safe_state (rc_io rt')\<rparr>\<rparr>"

definition paused_alike ::
    "('st, 'd) resource_loop \<Rightarrow> ('st, 'd) resource_loop \<Rightarrow> bool" where
  "paused_alike l l' \<longleftrightarrow>
     l' = l\<lparr>rl_runtime := rl_runtime l', rl_replies := rl_replies l', rl_state := rl_state l'\<rparr> \<and>
     only_settings (rl_runtime l) (rl_runtime l') \<and> rl_state l' \<in> {rl_state l, RsPaused}"

lemma settings_only:
  "only_settings rt rt"
  "only_settings rt (set_watchdog_policy w rt)"
  "only_settings rt (set_fault_policy p rt)"
  "only_settings rt (set_retain_save_interval d rt)"
  "only_settings rt (set_io_safe_state s rt)"
  by (simp_all add: only_settings_def set_watchdog_policy_def set_fault_policy_def
      set_retain_save_interval_def rm_set_save_interval_def set_io_safe_state_def)

lemma only_settings_trans:
  assumes "only_settings r1 r2" and "only_settings r2 r3"
  shows "only_settings r1 r3"
proof -
  have "\<exists>w p d s. r = r0\<lparr>rc_watchdog := w, rc_faults := (rc_faults r0)\<lparr>ft_policy := p\<rparr>,
      rt_retain := (rt_retain r0)\<lparr>rm_save_interval := d\<rparr>, rc_io := (rc_io r0)\<lparr>is_safe_state := s\<rparr>\<rparr>"
    if "only_settings r0 r" for r0 r :: "('st, 'd) runtime_core"
    using that unfolding only_settings_def by blast
  then show ?thesis
    using assms by (fastforce simp: only_settings_def)
qed

lemma paused_alike_trans:
  "paused_alike l1 l2 \<Longrightarrow> paused_alike l2 l3 \<Longrightarrow> paused_alike l1 l3"
  unfolding paused_alike_def using only_settings_trans by (cases l1; cases l2; cases l3) fastforce

lemma paused_alike_rest:
  assumes "paused_alike l l'"
  shows "rl_paused l' = rl_paused l" and "loop_wait now l' = loop_wait now l"
  using assms by (cases l; cases l'; simp add: paused_alike_def loop_wait_def)+

lemma settings_step:
  assumes "settings_command c" and "rl_paused l"
  shows "\<exists>l'. loop_command M c l = Some l' \<and> paused_alike l l'"
  using assms
  by (cases c) (simp_all add: settings_command_def loop_command_def apply_resource_command_def
      paused_alike_def settings_only)

lemma settings_steps:
  assumes "list_all settings_command cs" and "rl_paused l"
  shows "\<exists>l'. command_stage M cs l = Some (Onward l') \<and> paused_alike l l'"
  using assms
proof (induction cs arbitrary: l)
  case Nil
  then show ?case
    by (simp add: paused_alike_def settings_only)
next
  case (Cons c cs)
  obtain l1 where l1: "loop_command M c l = Some l1" "paused_alike l l1"
    using settings_step [of c l M] Cons.prems by auto
  moreover from this have "rl_paused l1"
    using Cons.prems(2) paused_alike_rest(1) by blast
  ultimately show ?case
    using Cons.IH [of l1] Cons.prems paused_alike_trans by fastforce
qed

text \<open>C14: While a resource is paused, a round without a stop, a restart, a resume, a reload and a mesh
  update ends with the same wait as without commands. It runs no cycle and calls no driver, and the
  runtime is what it was in everything (variables, instances, time, tasks, image, drivers, faults)
  but the watchdog, the fault policy, the interval of saves and the safe state, which commands may
  set; of the loop only the replies and the shown state, which stays or is \<open>Paused\<close>, may be new.\<close>

theorem pause_holds:
  assumes "rl_paused l" and "\<not> ri_stop i" and "ri_restart i = None"
    and "list_all settings_command (ri_commands i)"
  shows "\<exists>l'. resource_round M cycle i l = Some (Over (RoundNext (loop_wait (ri_now i) l)) l') \<and>
    paused_alike l l'"
proof -
  obtain l' where l': "command_stage M (ri_commands i) l = Some (Onward l')" "paused_alike l l'"
    using settings_steps [OF assms(4,1), of M] by auto
  then show ?thesis
    using paused_alike_rest [OF l'(2)] assms(1-3)
    by (simp add: resource_round_def stop_stage_def restart_stage_def pause_stage_def then_stage_def)
qed

lemma pause_holds_witness:
  "\<exists>l'. resource_round plain_machine (own_cycle plain_machine)
      (stop_round\<lparr>ri_stop := False, ri_commands := [CmdPause, CmdSnapshot]\<rparr>)
      ((runner_new (plain_runtime []) 1000 None 1)\<lparr>rl_paused := True\<rparr>) =
      Some (Over (RoundNext (WaitUntil 1000)) l') \<and>
    paused_alike ((runner_new (plain_runtime []) 1000 None 1)\<lparr>rl_paused := True\<rparr>) l'"
proof -
  have "saturating_add 0 1000 = 1000"
    by code_simp
  then show ?thesis
    using pause_holds [of "(runner_new (plain_runtime []) 1000 None 1)\<lparr>rl_paused := True\<rparr>"
      "stop_round\<lparr>ri_stop := False, ri_commands := [CmdPause, CmdSnapshot]\<rparr>"
      plain_machine "own_cycle plain_machine"]
    by (simp add: stop_round_def settings_command_def runner_new_def loop_wait_def scaled_sleep_interval_def)
qed

section \<open>Shared globals\<close>

lemma get_set_global:
  "get_global (set_global name value s) n = (if n = name then Some value else get_global s n)"
  by (simp add: get_global_def set_global_def im_get_insert)

lemma sync_into_global:
  assumes "set names \<subseteq> dom (im_get globals)"
  shows "\<exists>rt'. sync_into names globals rt = (Inr (), rt') \<and>
    (\<forall>n. get_global (rt_storage rt') n =
      (if n \<in> set names then im_get globals n else get_global (rt_storage rt) n))"
  using assms
proof (induction names arbitrary: rt)
  case (Cons name names)
  then obtain v where v: "im_get globals name = Some v"
    by auto
  let ?rt = "rt\<lparr>rt_storage := set_global name v (rt_storage rt)\<rparr>"
  obtain rt' where rt': "sync_into names globals ?rt = (Inr (), rt')"
    and get: "\<forall>n. get_global (rt_storage rt') n = (if n \<in> set names then im_get globals n
      else get_global (rt_storage ?rt) n)"
    using Cons.IH [of ?rt] Cons.prems by auto
  show ?case
    using rt' get v by (auto simp: get_set_global)
qed simp

lemma dom_insert: "dom (im_get (im_insert k v m)) = insert k (dom (im_get m))"
  by (auto simp: im_get_insert dom_def)

lemma sync_from_names:
  "sync_from names rt globals = (r, globals') \<Longrightarrow> dom (im_get globals) \<subseteq> dom (im_get globals')"
proof (induction names arbitrary: globals)
  case (Cons name names)
  show ?case
  proof (cases "get_global (rt_storage rt) name")
    case (Some v)
    then show ?thesis
      using Cons.IH [of "im_insert name v globals"] Cons.prems by (auto simp: dom_insert)
  qed (use Cons.prems in simp)
qed simp

lemma sync_from_values:
  "sync_from names rt globals = (Inr u, globals') \<Longrightarrow>
    im_get globals' n = (if n \<in> set names then get_global (rt_storage rt) n else im_get globals n)"
proof (induction names arbitrary: globals)
  case (Cons name names)
  then obtain v where v: "get_global (rt_storage rt) name = Some v"
    by (cases "get_global (rt_storage rt) name") auto
  then show ?case
    using Cons.IH [of "im_insert name v globals"] Cons.prems by (auto simp: im_get_insert)
qed simp

lemma shared_from_names:
  "shared_from_runtime names rt globals = Inr globals' \<Longrightarrow>
    set names \<union> dom (im_get globals) \<subseteq> dom (im_get globals')"
proof (induction names arbitrary: globals)
  case (Cons name names)
  then obtain v where v: "get_global (rt_storage rt) name = Some v"
    by (cases "get_global (rt_storage rt) name") auto
  then show ?case
    using Cons.IH [of "im_insert name v globals"] Cons.prems by (auto simp: dom_insert)
qed simp

lemma shared_cycle_names:
  assumes "shared_cycle M names globals rt = Some (r, globals', rt')"
  shows "dom (im_get globals) \<subseteq> dom (im_get globals')"
  using assms sync_from_names
  by (fastforce simp: shared_cycle_def split: prod.splits sum.splits option.splits)

text \<open>
  Resources that take turns on the shared globals, each under the lock, in any order; between its
  turns a resource may do anything to its own runtime.
\<close>

inductive shared_system ::
    "('st, 'd) machine list \<Rightarrow> rstr list \<Rightarrow> shared_map \<Rightarrow> shared_map \<Rightarrow> bool"
  for Ms names globals0 where
  created: "shared_system Ms names globals0 globals0"
| turn: "shared_system Ms names globals0 globals \<Longrightarrow> M \<in> set Ms \<Longrightarrow>
    shared_cycle M names globals rt = Some (r, globals', rt') \<Longrightarrow>
    shared_system Ms names globals0 globals'"

lemma system_names:
  assumes "shared_system Ms names globals0 globals" and "shared_from_runtime names rt0 [] = Inr globals0"
  shows "set names \<subseteq> dom (im_get globals)"
  using assms
proof (induction rule: shared_system.induct)
  case created
  then show ?case
    using shared_from_names by blast
next
  case (turn globals M rt r globals' rt')
  then show ?case
    using shared_cycle_names [OF turn.hyps(3)] by blast
qed

text \<open>C15: Resources exchange their shared globals completely: whatever resources have taken turns in
  whatever order, the next cycle of any resource starts with exactly the shared value of every
  shared name, its other globals as they were, and when it succeeds the shared values are those the
  cycle left and nothing else is shared.\<close>

theorem shared_globals_exchange:
  assumes "shared_from_runtime names rt0 [] = Inr globals0"
    and "shared_system Ms names globals0 globals"
    and "shared_cycle M names globals rt = Some (r, globals', rt')"
  shows "\<exists>rt1. sync_into names globals rt = (Inr (), rt1) \<and>
    (\<forall>n. get_global (rt_storage rt1) n =
      (if n \<in> set names then im_get globals n else get_global (rt_storage rt) n)) \<and>
    (r = Inr () \<longrightarrow> execute_cycle (ma_fuel M) (ma_platform M) rt1 = Some (Inr (), rt') \<and>
      (\<forall>n. im_get globals' n =
        (if n \<in> set names then get_global (rt_storage rt') n else im_get globals n)))"
proof -
  obtain rt1 where rt1: "sync_into names globals rt = (Inr (), rt1)"
    and get: "\<forall>n. get_global (rt_storage rt1) n =
      (if n \<in> set names then im_get globals n else get_global (rt_storage rt) n)"
    using sync_into_global [OF system_names [OF assms(2,1)], of rt] by blast
  have "execute_cycle (ma_fuel M) (ma_platform M) rt1 = Some (Inr (), rt') \<and>
      sync_from names rt' globals = (Inr (), globals')" if "r = Inr ()"
    using assms(3) rt1 that
    by (auto simp: shared_cycle_def split: prod.splits sum.splits option.splits)
  then show ?thesis
    using rt1 get sync_from_values [of names rt' globals "()" globals'] by blast
qed

definition sharing_runtime :: "i16 \<Rightarrow> (unit, unit) runtime_core" where
  "sharing_runtime v =
     (plain_runtime [])\<lparr>rt_storage := set_global ''X'' (VInt v) storage_new\<rparr>"

lemma sharing_cycle:
  "execute_cycle 3 plain_platform (sharing_runtime v) =
     Some (Inr (), (sharing_runtime v)\<lparr>rc_cycle_counter := 1\<rparr>)"
  by (simp add: sharing_runtime_def plain_simps collect_ready_tasks_def sort_ready_def
      execute_background_programs_def background_programs_def write_cycle_outputs_def
      io_write_outputs_def is_write_outputs_def save_retained_def rm_has_store_def
      retain_manager_default_def saturating_add_u64_def)

text \<open>A resource with 5 in X shares it; the next one, with 7, takes over 5.\<close>

lemma shared_globals_exchange_witness:
  "\<exists>rt1. sync_into [''X''] [(''X'', VInt 5)] (sharing_runtime 7) = (Inr (), rt1) \<and>
     get_global (rt_storage rt1) ''X'' = Some (VInt 5)"
proof -
  have start: "shared_from_runtime [''X''] (sharing_runtime 5) [] = Inr [(''X'', VInt 5)]"
    by (simp add: sharing_runtime_def get_set_global im_insert_def)
  have into: "sync_into [''X''] [(''X'', VInt 5)] (sharing_runtime 7) = (Inr (), sharing_runtime 5)"
    by (simp add: sharing_runtime_def im_get_def set_global_def im_insert_def storage_new_def)
  have run: "shared_cycle plain_machine [''X''] [(''X'', VInt 5)] (sharing_runtime 7) =
      Some (Inr (), [(''X'', VInt 5)], (sharing_runtime 5)\<lparr>rc_cycle_counter := 1\<rparr>)"
    using into
    by (simp add: shared_cycle_def plain_machine_def sharing_cycle)
      (simp add: sharing_runtime_def get_set_global im_insert_def)
  show ?thesis
    using shared_globals_exchange [OF start shared_system.created run]
    by (auto simp: im_get_def)
qed

section \<open>Clocks\<close>

text \<open>
  The sleep of a scaled clock, in real nanoseconds, is the simulated time that is left divided by
  the scale, rounded up.
\<close>

lemma ceil_div:
  fixes d s :: int
  assumes "0 < s"
  shows "d \<le> ((d + s - 1) div s) * s" and "((d + s - 1) div s) * s < d + s"
proof -
  have "(d + s - 1) div s * s + (d + s - 1) mod s = d + s - 1"
    by simp
  moreover have "0 \<le> (d + s - 1) mod s" "(d + s - 1) mod s < s"
    using assms by simp_all
  ultimately show "d \<le> ((d + s - 1) div s) * s" and "((d + s - 1) div s) * s < d + s"
    by linarith+
qed

lemma nonnegative_fits: "0 \<le> x \<Longrightarrow> signed_min TYPE(64) \<le> x"
  by (rule order_trans [of _ 0]) (simp_all add: signed_min_def)

lemma sint_ucast_scale:
  assumes "uint (s :: u32) < 2 ^ 32"
  shows "sint (ucast s :: i64) = uint s"
proof -
  have "uint s < 2 ^ 63"
    by (rule order.strict_trans [OF assms]) simp
  then have "sint (word_of_int (uint s) :: i64) = uint s"
    by (intro sint_of_int_id nonnegative_fits) (simp_all add: signed_max_def)
  then show ?thesis
    by (simp only: ucast_eq)
qed

lemma scaled_sleep_value:
  assumes "scaled_clock_sleep scale deadline now = SleepFor d"
    and "sint deadline - sint now + uint (max scale 1) \<le> signed_max TYPE(64)"
  shows "sint now < sint deadline \<and>
    int d = (sint deadline - sint now + uint (max scale 1) - 1) div uint (max scale 1)"
proof -
  let ?s = "uint (max scale 1)" and ?d = "sint deadline - sint now"
  let ?delta = "saturating_sub deadline now" and ?scale = "ucast (max scale 1) :: i64"
  have s: "1 \<le> ?s" "?s < 2 ^ 32"
    using uint_lt2p [of "max scale 1"] by (auto simp: max_def word_le_def)
  have pos: "0 < sint ?delta"
    using assms(1) by (auto simp: scaled_clock_sleep_def Let_def split: if_splits)
  have delta: "sint ?delta = ?d"
    using pos assms(2) s unfolding sint_saturating_sub by (auto simp: signed_min_def signed_max_def)
  have scale: "sint ?scale = ?s"
    by (rule sint_ucast_scale) (rule s)
  have plus: "sint (?delta + ?scale) = ?d + ?s"
    using sint_plus_no_wrap [of ?delta ?scale] delta scale pos s assms(2)
    by (simp add: signed_min_def)
  have total: "sint (?delta + ?scale - 1) = ?d + ?s - 1"
    using sint_minus_no_wrap [of "?delta + ?scale" 1] plus delta pos s assms(2)
    by (simp add: signed_min_def)
  have q: "quot (?d + ?s - 1) ?s = (?d + ?s - 1) div ?s"
    using delta pos s by (auto simp: quot_def signed_divide_int_def)
  have small: "0 \<le> (?d + ?s - 1) div ?s" "(?d + ?s - 1) div ?s \<le> ?d + ?s - 1"
    using delta pos s zdiv_mono2 [of "?d + ?s - 1" 1 ?s] by (simp_all add: pos_imp_zdiv_nonneg_iff)
  then have exact: "sint (word_of_int ((?d + ?s - 1) div ?s) :: i64) = (?d + ?s - 1) div ?s"
    using assms(2) by (intro sint_of_int_id) (auto simp: signed_min_def)
  have "d = nat (sint (word_of_int (quot (sint (?delta + ?scale - 1)) (sint ?scale)) :: i64))"
    using assms(1) by (auto simp only: scaled_clock_sleep_def Let_def sleep.simps split: if_splits)
  then have "int d = (?d + ?s - 1) div ?s"
    unfolding total scale q exact using small(1) by simp
  then show ?thesis
    using pos delta by simp
qed

text \<open>A reading of the scaled clock that fits 64 bits.\<close>

lemma scaled_reading:
  assumes "int n * uint s < 2 ^ 63"
  shows "sint (scaled_clock_now s n) = int n * uint s"
proof -
  have int: "int (n * unat s) = int n * uint s"
    by simp
  have "int (n * unat s) < int (2 ^ 63)"
    unfolding int using assms by simp
  then have less: "n * unat s < 2 ^ 63"
    by (simp only: of_nat_less_iff)
  have "min (min (2 ^ 128 - 1) (n * unat s)) (2 ^ 63 - 1) = n * unat s"
    using less by (auto simp: min_def)
  then have "scaled_clock_now s n = word_of_int (int n * uint s)"
    unfolding scaled_clock_now_def int [symmetric] by simp
  moreover have "sint (word_of_int (int n * uint s) :: duration) = int n * uint s"
    using assms by (intro sint_of_int_id nonnegative_fits) (simp_all add: signed_max_def)
  ultimately show ?thesis
    by (simp only:)
qed

text \<open>A sleep of the scaled clock is neither too short nor more than one real nanosecond too long:
  after the real time it sleeps the clock shows at least the deadline and less than the deadline
  plus the scale, as long as the times fit 64 bits.\<close>

theorem scaled_sleep_exact:
  assumes "s = scaled_clock_scale scale" and "now = scaled_clock_now s t"
    and "scaled_clock_sleep s deadline now = SleepFor d"
    and "sint deadline + uint s < 2 ^ 63" and "t * unat s < 2 ^ 63"
  shows "sint deadline \<le> sint (scaled_clock_now s (t + d)) \<and>
    sint (scaled_clock_now s (t + d)) < sint deadline + uint s"
proof -
  have s: "1 \<le> s" "max s 1 = s"
    using assms(1) by (auto simp: scaled_clock_scale_def max_def)
  then have "0 < uint s"
    using word_le_def [of 1 s] by simp
  have now: "sint now = int t * uint s"
  proof -
    have "int (t * unat s) < int (2 ^ 63)"
      using assms(5) by (simp only: of_nat_less_iff)
    then show ?thesis
      unfolding assms(2) by (intro scaled_reading) simp
  qed
  then have "0 \<le> sint now"
    using \<open>0 < uint s\<close> by simp
  then have v: "sint now < sint deadline"
    "int d = (sint deadline - sint now + uint s - 1) div uint s"
    using scaled_sleep_value [OF assms(3)] assms(4) unfolding s(2) by (auto simp: signed_max_def)
  have lo: "sint deadline - sint now \<le> int d * uint s"
    and hi: "int d * uint s < sint deadline - sint now + uint s"
    unfolding v(2) using ceil_div [OF \<open>0 < uint s\<close>, of "sint deadline - sint now"] by (simp_all add: algebra_simps)
  have "int (t + d) * uint s = sint now + int d * uint s"
    unfolding now by (simp add: algebra_simps)
  moreover from this have "sint (scaled_clock_now s (t + d)) = int (t + d) * uint s"
    using hi assms(4) by (intro scaled_reading) linarith
  ultimately show ?thesis
    using lo hi by linarith
qed

lemma scaled_sleep_exact_witness:
  "scaled_clock_sleep 10 105 0 = SleepFor 11 \<and> 105 \<le> sint (scaled_clock_now 10 (0 + 11)) \<and>
   sint (scaled_clock_now 10 (0 + 11)) < 115"
proof -
  have sleep: "scaled_clock_sleep 10 105 0 = SleepFor 11"
    by code_simp
  have "sint (105 :: i64) = 105" "uint (10 :: u32) = 10" "unat (10 :: u32) = 10"
    "scaled_clock_now 10 0 = 0" "scaled_clock_scale 10 = 10"
    by (simp_all add: scaled_clock_now_def scaled_clock_scale_def)
  then show ?thesis
    using scaled_sleep_exact [of 10 10 0 0 105 11] sleep by simp
qed

text \<open>
  The manual clock never sleeps again once it has been woken: \<open>interrupt\<close> is not undone, although a
  pause or a resume of a resource calls it through \<open>wake\<close>.
\<close>

definition manual_steps :: "(manual_clock \<Rightarrow> manual_clock) set" where
  "manual_steps = range mc_advance \<union> range mc_set_time \<union> {mc_interrupt, mc_begin_sleep}"

lemma woken_clock_never_sleeps:
  assumes "set steps \<subseteq> manual_steps"
  shows "\<not> mc_sleeping deadline (foldl (\<lambda>c step. step c) (mc_interrupt c) steps)"
proof -
  have "mc_interrupted (foldl (\<lambda>c step. step c) c steps)" if "mc_interrupted c" for c
    using assms that
  proof (induction steps arbitrary: c)
    case (Cons step steps)
    then have "mc_interrupted (step c)"
      by (auto simp: manual_steps_def mc_advance_def mc_set_time_def mc_interrupt_def mc_begin_sleep_def)
    then show ?case
      using Cons by simp
  qed simp
  then show ?thesis
    by (simp add: mc_sleeping_def mc_interrupt_def)
qed

end
