(* ===== verification/Simulation_Properties.thy ===== *)
theory Simulation_Properties
  imports Bytecode_Apply Cycle_Properties
begin

text \<open>
  Properties of simulated plants: the effects of couplings and the disturbances reach the inputs in
  the order of their times.
\<close>

section \<open>Effects in order\<close>

definition effect_key :: "pending_effect \<Rightarrow> int \<times> int" where
  "effect_key e = (sint (pe_due e), uint (pe_sequence e))"

definition effects_ordered :: "pending_effect list \<Rightarrow> bool" where
  "effects_ordered es \<longleftrightarrow> sorted (map effect_key es)"

lemma enqueue_ordered: "effects_ordered (enqueue_effect e es)"
  unfolding effects_ordered_def enqueue_effect_def effect_key_def [abs_def] by (rule sorted_sort_key)

text \<open>In order of their times, those that are due come first.\<close>

lemma ordered_due:
  assumes "effects_ordered es"
  shows "takeWhile (\<lambda>e. sint (pe_due e) \<le> now) es = filter (\<lambda>e. sint (pe_due e) \<le> now) es"
    and "dropWhile (\<lambda>e. sint (pe_due e) \<le> now) es = filter (\<lambda>e. now < sint (pe_due e)) es"
proof -
  have le: "sint (pe_due a) \<le> sint (pe_due b)" if "effect_key a \<le> effect_key b" for a b
    using that by (auto simp: effect_key_def less_eq_prod_def)
  have "takeWhile (\<lambda>e. sint (pe_due e) \<le> now) es = filter (\<lambda>e. sint (pe_due e) \<le> now) es \<and>
    dropWhile (\<lambda>e. sint (pe_due e) \<le> now) es = filter (\<lambda>e. now < sint (pe_due e)) es"
    using assms
  proof (induction es)
    case (Cons e es)
    then have later: "sint (pe_due e) \<le> sint (pe_due f)" if "f \<in> set es" for f
      using that le by (auto simp: effects_ordered_def)
    show ?case
    proof (cases "sint (pe_due e) \<le> now")
      case False
      then have "filter (\<lambda>e. sint (pe_due e) \<le> now) es = []"
        "filter (\<lambda>e. now < sint (pe_due e)) es = es"
        using later by (auto simp: filter_empty_conv intro!: filter_True) (fastforce+)
      then show ?thesis
        using False by simp
    qed (use Cons in \<open>auto simp: effects_ordered_def\<close>)
  qed simp
  then show "takeWhile (\<lambda>e. sint (pe_due e) \<le> now) es = filter (\<lambda>e. sint (pe_due e) \<le> now) es"
    and "dropWhile (\<lambda>e. sint (pe_due e) \<le> now) es = filter (\<lambda>e. now < sint (pe_due e)) es"
    by simp_all
qed

text \<open>The writes to the image, one after the other.\<close>

definition write_all :: "(io_address \<times> rvalue) list \<Rightarrow> io_interface \<Rightarrow> io_interface" where
  "write_all ws io = foldl (\<lambda>io (a, v). snd (io_write a v io)) io ws"

lemma write_all_simps [simp]:
  "write_all [] io = io"
  "write_all ((a, v) # ws) io = write_all ws (snd (io_write a v io))"
  "write_all (ws @ ws') io = write_all ws' (write_all ws io)"
  by (simp_all add: write_all_def)

definition image_of :: "('st, 'd) runtime_core \<Rightarrow> io_interface" where
  "image_of rt = is_interface (rc_io rt)"

lemma write_image_image:
  "write_image a v rt = (r, rt') \<Longrightarrow> image_of rt' = snd (io_write a v (image_of rt))"
  by (auto simp: write_image_def image_of_def split: prod.splits)

definition input_of :: "simulation_disturbance \<Rightarrow> (io_address \<times> rvalue) list" where
  "input_of d = (case sd_kind d of SetInput a v \<Rightarrow> [(a, v)] | InjectFault _ \<Rightarrow> [])"

lemma disturbance_applied:
  assumes "apply_disturbance ops d rt = (Inr u, rt')"
  shows "image_of rt' = write_all (input_of d) (image_of rt)" and "\<exists>a v. sd_kind d = SetInput a v"
  using assms
  by (auto simp: apply_disturbance_def simulation_failure_def input_of_def dest!: write_image_image
      split: disturbance_kind.splits prod.splits sum.splits)

lemma disturbances_applied:
  "apply_disturbances ops now ds rt = (Inr u, n, rt') \<Longrightarrow>
    n = length (takeWhile (\<lambda>d. sint (sd_at d) \<le> sint now) ds) \<and>
    image_of rt' = write_all (concat (map input_of (takeWhile (\<lambda>d. sint (sd_at d) \<le> sint now) ds))) (image_of rt)"
proof (induction ds arbitrary: rt n)
  case (Cons d ds)
  show ?case
  proof (cases "sint now < sint (sd_at d)")
    case False
    then obtain rt1 m where d: "apply_disturbance ops d rt = (Inr (), rt1)"
      and rest: "apply_disturbances ops now ds rt1 = (Inr u, m, rt')" "n = Suc m"
      using Cons.prems by (auto split: prod.splits sum.splits)
    then show ?thesis
      using Cons.IH [OF rest(1)] disturbance_applied(1) [OF d] False by simp
  qed (use Cons.prems in auto)
qed simp

definition effect_write :: "pending_effect \<Rightarrow> io_address \<times> rvalue" where
  "effect_write e = (pe_target e, pe_value e)"

lemma effects_applied:
  "apply_effects ops now es rt = (Inr u, es', rt') \<Longrightarrow>
    es' = dropWhile (\<lambda>e. sint (pe_due e) \<le> sint now) es \<and>
    image_of rt' = write_all (map effect_write (takeWhile (\<lambda>e. sint (pe_due e) \<le> sint now) es)) (image_of rt)"
proof (induction es arbitrary: rt)
  case (Cons e es)
  show ?case
  proof (cases "sint now < sint (pe_due e)")
    case False
    then obtain rt1 where e: "write_image (pe_target e) (pe_value e) rt = (Inr (), rt1)"
      and rest: "apply_effects ops now es rt1 = (Inr u, es', rt')"
      using Cons.prems by (auto simp: simulation_failure_def split: prod.splits sum.splits)
    then show ?thesis
      using Cons.IH [OF rest] write_image_image [OF e] False by (simp add: effect_write_def)
  qed (use Cons.prems in auto)
qed simp

lemma effects_left_ordered:
  "apply_effects ops now es rt = (r, es', rt') \<Longrightarrow> effects_ordered es \<Longrightarrow> effects_ordered es'"
  by (induction es arbitrary: rt)
    (fastforce simp: effects_ordered_def simulation_failure_def split: if_splits prod.splits sum.splits)+

text \<open>
  The states of a controller with the runtime it is coupled to; between the two steps the runtime
  runs a cycle, which may change it in any way.
\<close>

inductive simulated ::
    "simulation_config \<Rightarrow> simulation_controller \<Rightarrow> ('st, 'd) runtime_core \<Rightarrow> bool" for config where
  fresh: "simulated config (simulation_new config) rt"
| before_cycle: "simulated config c rt \<Longrightarrow> apply_pre_cycle ops now c rt = (r, c', rt') \<Longrightarrow>
    simulated config c' rt'"
| cycle: "simulated config c rt \<Longrightarrow> simulated config c rt'"
| after_cycle: "simulated config c rt \<Longrightarrow> apply_post_cycle now rt c = (r, c') \<Longrightarrow>
    simulated config c' rt"

definition controller_ok :: "simulation_config \<Rightarrow> simulation_controller \<Rightarrow> bool" where
  "controller_ok config c \<longleftrightarrow>
     effects_ordered (sc_pending c) \<and> sc_config c = config \<and> sc_disturbances c = sf_disturbances config"

lemma pre_cycle_ok:
  assumes "controller_ok config c" and "apply_pre_cycle ops now c rt = (r, c', rt')"
  shows "controller_ok config c'"
  using assms
  by (auto simp: apply_pre_cycle_def controller_ok_def Let_def dest: effects_left_ordered
      split: if_splits prod.splits sum.splits)

lemma couple_ok:
  "controller_ok config c \<Longrightarrow> couple now io idx coupling c = (r, c') \<Longrightarrow> controller_ok config c'"
  by (auto simp: couple_def controller_ok_def enqueue_ordered split: sum.splits if_splits)

lemma couple_all_ok:
  "controller_ok config c \<Longrightarrow> couple_all now io idx rs c = (r, c') \<Longrightarrow> controller_ok config c'"
  by (induction rs arbitrary: idx c) (auto split: prod.splits sum.splits dest: couple_ok)

lemma simulated_ok: "simulated config c rt \<Longrightarrow> controller_ok config c"
proof (induction rule: simulated.induct)
  case fresh
  then show ?case
    by (simp add: simulation_new_def controller_ok_def effects_ordered_def)
qed (auto simp: apply_post_cycle_def split: if_splits dest: pre_cycle_ok couple_all_ok)

text \<open>C16: In every state of a simulation, what a successful step before a cycle writes to the process
  image are, in this order, the inputs of the disturbances that have come due, which are not
  repeated, and the effects of the couplings whose time has come, by due time and then in the order
  in which they arose; exactly the effects that are not due yet stay pending.\<close>

theorem effects_delivered_in_order:
  assumes "simulated config c rt" and "sf_enabled config"
    and "apply_pre_cycle ops now c rt = (Inr u, c', rt')"
  shows "let passed = takeWhile (\<lambda>d. sint (sd_at d) \<le> sint now) (drop (sc_cursor c) (sf_disturbances config));
      due = filter (\<lambda>e. sint (pe_due e) \<le> sint now) (sc_pending c)
    in image_of rt' =
        write_all (concat (map input_of passed) @ map effect_write due) (image_of rt) \<and>
      sc_cursor c' = sc_cursor c + length passed \<and> sorted (map effect_key due) \<and>
      sc_pending c' = filter (\<lambda>e. sint now < sint (pe_due e)) (sc_pending c)"
proof -
  have ok: "effects_ordered (sc_pending c)" "sc_config c = config" "sc_disturbances c = sf_disturbances config"
    using simulated_ok [OF assms(1)] by (simp_all add: controller_ok_def)
  obtain n rt1 es where d: "apply_disturbances ops now (drop (sc_cursor c) (sf_disturbances config)) rt = (Inr (), n, rt1)"
    and e: "apply_effects ops now (sc_pending c) rt1 = (Inr u, es, rt')"
    and c': "c' = c\<lparr>sc_cursor := sc_cursor c + n, sc_pending := es\<rparr>"
    using assms(2,3) ok by (auto simp: apply_pre_cycle_def Let_def split: prod.splits sum.splits)
  have "sorted (map effect_key (filter P (sc_pending c)))" for P
    using ok(1) by (simp add: effects_ordered_def sorted_filter)
  then show ?thesis
    using disturbances_applied [OF d] effects_applied [OF e] ordered_due [OF ok(1)] c'
    by (simp add: Let_def)
qed

definition input_bit :: io_address where
  "input_bit =
     \<lparr>ia_area = AreaInput, ia_size = IoBit, ia_byte = 0, ia_bit = 0, ia_path = [0], ia_wildcard = False\<rparr>"

definition one_disturbance :: simulation_config where
  "one_disturbance =
     \<lparr>sf_enabled = True, sf_seed = 0, sf_time_scale = 1, sf_couplings = [],
      sf_disturbances = [\<lparr>sd_at = 5, sd_kind = SetInput input_bit (VBool True)\<rparr>]\<rparr>"

lemma effects_delivered_in_order_witness:
  "\<exists>c' rt'. apply_pre_cycle (pf_drivers plain_platform) 7 (simulation_new one_disturbance) (plain_runtime []) =
      (Inr (), c', rt') \<and> sc_cursor c' = 1 \<and> ii_inputs (image_of rt') = [1]"
proof -
  let ?c = "simulation_new one_disturbance"
  have writes: "io_write input_bit (VBool True) io_interface_new = (Inr (), io_interface_new\<lparr>ii_inputs := [1]\<rparr>)"
    by (simp add: io_write_def input_bit_def put_bit_def ensure_len_def io_interface_new_def set_area_def
        io_area_of_def Let_def)
  have image: "is_interface (rc_io (plain_runtime [])) = io_interface_new"
    by (simp add: plain_runtime_def io_subsystem_new_def)
  obtain c' rt' where run: "apply_pre_cycle (pf_drivers plain_platform) 7 ?c (plain_runtime []) = (Inr (), c', rt')"
    by (simp add: apply_pre_cycle_def simulation_new_def one_disturbance_def apply_disturbance_def
        write_image_def writes image)
  have "sf_enabled one_disturbance"
    by (simp add: one_disturbance_def)
  note effects_delivered_in_order [OF simulated.fresh this run]
  then have "image_of rt' = write_all [(input_bit, VBool True)] io_interface_new \<and> sc_cursor c' = 1"
    by (simp add: Let_def simulation_new_def one_disturbance_def input_of_def image_of_def image)
  then show ?thesis
    using run writes by auto
qed

text \<open>
  A value of 64 bits goes through an f64 on its way to an input, and a value that is too wide for
  the input is cut: an output of 256 sets an input byte to 0.
\<close>

lemma coupling_cuts: "f64_as_u64 (f64_of_int 256) = 256 \<Longrightarrow> f64_is_finite (f64_of_int 256) \<Longrightarrow>
    \<not> f64_lt (f64_of_int 256) 0 \<Longrightarrow> coerce_to_size (VWord 256) IoByte = Inr (VByte 0)"
  by (simp add: coerce_to_size_def value_to_u64_def value_to_f64_def)

end
