(* ===== verification/Reload_Properties.thy ===== *)
theory Reload_Properties
  imports Bytecode_Properties Bytecode_Apply Cycle_Properties
begin

text \<open>
  What a container that is applied to a runtime leaves of its tasks.
\<close>

section \<open>Containers that are applied\<close>

text \<open>What a task must name: programs, whatever the case of their letters, and blocks.\<close>

definition task_runnable :: "('st, 'd) runtime_core \<Rightarrow> task_config \<Rightarrow> bool" where
  "task_runnable rt task \<longleftrightarrow>
     (\<forall>p\<in>set (tc_programs task). \<exists>name\<in>set (map fst (rc_programs rt)). eq_ignore_ascii_case name p) \<and>
     (\<forall>r\<in>set (tc_fb_instances task). \<exists>i d. block_of_ref rt r = Inr (i, d))"

lemma check_programs_ok:
  "check_programs programs ps = Inr u \<Longrightarrow>
    \<forall>p\<in>set ps. \<exists>name\<in>set (map fst programs). eq_ignore_ascii_case name p"
  by (induction ps) (auto simp: list_ex_iff split: if_splits)

lemma check_block_ok: "check_block rt r = Inr u \<Longrightarrow> \<exists>i d. block_of_ref rt r = Inr (i, d)"
  by (auto simp: check_block_def block_of_ref_def rbind_eq_Inr ok_or_def split: option.splits rvalue.splits if_splits)

lemma validate_task_runnable: "validate_task_config rt task = Inr u \<Longrightarrow> task_runnable rt task"
  using check_programs_ok check_block_ok
  by (fastforce simp: validate_task_config_def task_runnable_def rbind_eq_Inr each_eq_Inr)

text \<open>What the installation of tasks does not touch.\<close>

definition task_frame :: "('st, 'd) runtime_core \<Rightarrow> ('st, 'd) runtime_core" where
  "task_frame rt =
     rt\<lparr>rc_tasks := [], rc_task_state := [], rc_task_thread_ids := [], rc_next_thread_id := 0,
        rc_background_thread_id := None\<rparr>"

lemma register_frame: "task_frame (register_task task rt) = task_frame rt"
  by (simp add: register_task_def task_frame_def Let_def)

lemma runnable_cong:
  assumes "rc_programs rt' = rc_programs rt" and "rt_storage rt' = rt_storage rt"
    and "rc_function_blocks rt' = rc_function_blocks rt"
  shows "task_runnable rt' task = task_runnable rt task"
  unfolding task_runnable_def block_of_ref_def assms ..

lemma frame_runnable: "task_frame rt' = task_frame rt \<Longrightarrow> task_runnable rt' task = task_runnable rt task"
proof -
  assume "task_frame rt' = task_frame rt"
  then have "rc_programs (task_frame rt') = rc_programs (task_frame rt)"
    "rt_storage (task_frame rt') = rt_storage (task_frame rt)"
    "rc_function_blocks (task_frame rt') = rc_function_blocks (task_frame rt)"
    by simp_all
  then show ?thesis
    by (intro runnable_cong) (simp_all add: task_frame_def)
qed

lemma install_tasks_effect:
  "install_tasks tasks rt = (r, rt') \<Longrightarrow>
    task_frame rt' = task_frame rt \<and>
    (\<exists>n. rc_tasks rt' = rc_tasks rt @ take n tasks \<and>
      (\<forall>t\<in>set (take n tasks). task_runnable rt t \<and> im_contains (rc_task_state rt') (tc_name t)) \<and>
      (r = Inr () \<longrightarrow> take n tasks = tasks)) \<and>
    (\<forall>name. im_contains (rc_task_state rt) name \<longrightarrow> im_contains (rc_task_state rt') name)"
proof (induction tasks arbitrary: rt)
  case (Cons task tasks)
  show ?case
  proof (cases "validate_task_config rt task")
    case (Inr u)
    let ?rt = "register_task task rt"
    have rest: "install_tasks tasks ?rt = (r, rt')"
      using Cons.prems Inr by simp
    have state: "im_contains (rc_task_state ?rt) name \<longleftrightarrow> name = tc_name task \<or> im_contains (rc_task_state rt) name"
      "rc_tasks ?rt = rc_tasks rt @ [task]" for name
      by (auto simp: register_task_def Let_def im_contains_def im_get_insert)
    obtain n where n: "rc_tasks rt' = rc_tasks ?rt @ take n tasks"
      "\<forall>t\<in>set (take n tasks). task_runnable ?rt t \<and> im_contains (rc_task_state rt') (tc_name t)"
      "r = Inr () \<longrightarrow> take n tasks = tasks"
      using Cons.IH [OF rest] by blast
    have "task_runnable ?rt t = task_runnable rt t" for t
      by (rule frame_runnable) (rule register_frame)
    then have "rc_tasks rt' = rc_tasks rt @ take (Suc n) (task # tasks) \<and>
      (\<forall>t\<in>set (take (Suc n) (task # tasks)). task_runnable rt t \<and> im_contains (rc_task_state rt') (tc_name t)) \<and>
      (r = Inr () \<longrightarrow> take (Suc n) (task # tasks) = task # tasks)"
      using n state Cons.IH [OF rest] validate_task_runnable [OF Inr] by auto
    then show ?thesis
      using Cons.IH [OF rest] state(1) register_frame [of task rt] by metis
  qed (use Cons.prems in \<open>auto intro: exI [of _ 0]\<close>)
qed auto

text \<open>C12: A container that is applied to a runtime is either refused before anything changes, or its
  configuration takes effect: then the tasks of the chosen resource are installed up to the first
  that names an unknown program or block, all of them on success, each with its state, and nothing
  but tasks, threads and the size of the process image changes. A success means that the bytes are a
  valid container.\<close>

theorem container_applied:
  assumes "apply_bytecode_bytes crc stack bytes name rt = Some (r, rt')"
  shows "(\<exists>e. r = Inl e) \<and> rt' = rt \<or>
    (\<exists>m meta resource n. decode crc bytes = Inr m \<and> validate stack m = Some (Inr ()) \<and>
      metadata m = Inr meta \<and> choose_resource meta name = Some resource \<and>
      task_frame rt' = task_frame (rt\<lparr>rc_io := is_resize (ic_inputs (md_process_image resource))
        (ic_outputs (md_process_image resource)) (ic_memory (md_process_image resource)) (rc_io rt)\<rparr>) \<and>
      rc_tasks rt' = take n (md_tasks resource) \<and>
      (\<forall>t\<in>set (rc_tasks rt'). task_runnable rt t \<and> im_contains (rc_task_state rt') (tc_name t)) \<and>
      (r = Inr () \<longrightarrow> rc_tasks rt' = md_tasks resource))"
proof -
  consider (refused) e where "r = Inl e" "rt' = rt"
    | (applied) m meta resource where "decode crc bytes = Inr m" "validate stack m = Some (Inr ())"
      "metadata m = Inr meta" "choose_resource meta name = Some resource"
      "apply_resource_metadata resource rt = (r, rt')"
    using assms
    by (auto simp: apply_bytecode_bytes_def apply_bytecode_module_def apply_bytecode_metadata_def Let_def
        split: sum.splits option.splits if_splits)
  then show ?thesis
  proof cases
    case applied
    let ?image = "md_process_image resource"
    let ?rt = "rt\<lparr>rc_io := is_resize (ic_inputs ?image) (ic_outputs ?image) (ic_memory ?image) (rc_io rt)\<rparr>"
    obtain r1 rt1 where inst: "install_tasks (md_tasks resource) (?rt\<lparr>rc_tasks := [], rc_task_state := []\<rparr>) = (r1, rt1)"
      by fastforce
    then have r: "r = r1" and rt': "rt' = (if r = Inr () then snd (ensure_background_thread_id rt1) else rt1)"
      using applied(5) by (auto simp: apply_resource_metadata_def Let_def split: sum.splits)
    have same: "rc_tasks rt' = rc_tasks rt1" "rc_task_state rt' = rc_task_state rt1" "task_frame rt' = task_frame rt1"
      unfolding rt' by (simp_all add: ensure_background_thread_id_def task_frame_def)
    have runnable: "task_runnable (?rt\<lparr>rc_tasks := [], rc_task_state := []\<rparr>) t = task_runnable rt t" for t
      by (rule runnable_cong) simp_all
    have frame: "task_frame (?rt\<lparr>rc_tasks := [], rc_task_state := []\<rparr>) = task_frame ?rt"
      by (simp add: task_frame_def)
    obtain n where n: "rc_tasks rt1 = take n (md_tasks resource)"
      "\<forall>t\<in>set (take n (md_tasks resource)). task_runnable rt t \<and> im_contains (rc_task_state rt1) (tc_name t)"
      "r = Inr () \<longrightarrow> take n (md_tasks resource) = md_tasks resource"
      using install_tasks_effect [OF inst] unfolding runnable r by auto
    have "task_frame rt' = task_frame ?rt"
      using install_tasks_effect [OF inst] same(3) frame by metis
    then have "decode crc bytes = Inr m \<and> validate stack m = Some (Inr ()) \<and> metadata m = Inr meta \<and>
      choose_resource meta name = Some resource \<and> task_frame rt' = task_frame ?rt \<and>
      rc_tasks rt' = take n (md_tasks resource) \<and>
      (\<forall>t\<in>set (rc_tasks rt'). task_runnable rt t \<and> im_contains (rc_task_state rt') (tc_name t)) \<and>
      (r = Inr () \<longrightarrow> rc_tasks rt' = md_tasks resource)"
      using applied n same by simp
    then show ?thesis
      by (intro disjI2 exI)
  qed simp
qed

lemma container_applied_witness:
  "\<exists>bytes r rt'. decode sum_crc bytes = Inr (normal_module sample_module) \<and>
     apply_bytecode_bytes sum_crc 5 bytes None (plain_runtime []) = Some (r, rt') \<and>
     (\<forall>t\<in>set (rc_tasks rt'). task_runnable (plain_runtime []) t)"
proof -
  obtain bytes where dec: "decode sum_crc bytes = Inr (normal_module sample_module)"
    using decode_encode [OF sample_wf] by blast
  have "apply_bytecode_bytes sum_crc 5 bytes None (plain_runtime []) \<noteq> None"
    using sample_valid
    by (auto simp: apply_bytecode_bytes_def apply_bytecode_module_def dec validate_normal split: sum.split)
  then obtain r rt' where run: "apply_bytecode_bytes sum_crc 5 bytes None (plain_runtime []) = Some (r, rt')"
    by auto
  have "rc_tasks (plain_runtime []) = []"
    by (simp add: plain_runtime_def)
  then show ?thesis
    using container_applied [OF run] dec run by auto
qed

text \<open>
  The check of a task ignores the case of letters in the name of a program, the cycle that runs it
  does not: a task for \<open>MAIN\<close> is accepted in a runtime with \<open>Main\<close>, and its first cycle fails.
\<close>

lemma program_case_mismatch:
  assumes "im_get (rc_programs rt) ''Main'' = Some program" and "im_get (rc_programs rt) ''MAIN'' = None"
  shows "check_programs (rc_programs rt) [''MAIN''] = Inr ()"
    and "execute_program_by_name fuel ''MAIN'' rt = Some (Inl (UndefinedProgram ''MAIN''), rt)"
proof -
  have "(''Main'', program) \<in> set (rc_programs rt)"
    using assms(1) by (simp add: im_get_def map_of_SomeD)
  then have "''Main'' \<in> set (map fst (rc_programs rt))"
    by force
  moreover have "eq_ignore_ascii_case ''Main'' ''MAIN''"
    by code_simp
  ultimately have "list_ex (\<lambda>name. eq_ignore_ascii_case name ''MAIN'') (map fst (rc_programs rt))"
    unfolding list_ex_iff by blast
  then show "check_programs (rc_programs rt) [''MAIN''] = Inr ()"
    by simp
  show "execute_program_by_name fuel ''MAIN'' rt = Some (Inl (UndefinedProgram ''MAIN''), rt)"
    using assms(2) by (simp add: execute_program_by_name_def ebind_def)
qed

end
