(* ===== verification/Debug_Lines.thy ===== *)
theory Debug_Lines
  imports Memory
begin

text \<open>
  Statement locations and lines (\<open>debug/types.rs\<close>, \<open>debug/resolve.rs\<close>): a position of the editor is
  taken to a statement, an offset to a line and a column. Lines and columns count from 0, columns in
  bytes.
\<close>

record source_location =
  lo_file :: u32
  lo_start :: u32
  lo_end :: u32

section \<open>Lines of a text\<close>

definition newline :: char where
  "newline = CHR 0x0A"

fun starts_after :: "nat \<Rightarrow> rstr \<Rightarrow> nat list" where
  "starts_after idx [] = []"
| "starts_after idx (b # bs) =
     (if b = newline then Suc idx # starts_after (Suc idx) bs else starts_after (Suc idx) bs)"

definition line_starts :: "rstr \<Rightarrow> nat list" where
  "line_starts source = 0 # starts_after 0 source"

text \<open>\<open>binary_search\<close> on the ordered starts: the index of the offset, else the one before its place.\<close>

definition line_index :: "nat list \<Rightarrow> nat \<Rightarrow> nat" where
  "line_index starts offset =
     (case find_index (\<lambda>s. s = offset) starts of
        Some idx \<Rightarrow> idx
      | None \<Rightarrow> length (filter (\<lambda>s. s < offset) starts) - 1)"

definition to_u32 :: "nat \<Rightarrow> u32 option" where
  "to_u32 n = (if n < 2 ^ 32 then Some (of_nat n) else None)"

definition to_u32_or_0 :: "nat \<Rightarrow> u32" where
  "to_u32_or_0 n = (case to_u32 n of Some w \<Rightarrow> w | None \<Rightarrow> 0)"

definition offset_to_line_col :: "rstr \<Rightarrow> u32 \<Rightarrow> u32 \<times> u32" where
  "offset_to_line_col source offset =
     (let starts = line_starts source;
          line_idx = line_index starts (unat offset);
          line_start = (if line_idx < length starts then starts ! line_idx else 0)
      in (to_u32_or_0 line_idx, to_u32_or_0 (unat offset - line_start)))"

definition location_to_line_col :: "rstr \<Rightarrow> source_location \<Rightarrow> u32 \<times> u32" where
  "location_to_line_col source loc = offset_to_line_col source (lo_start loc)"

section \<open>The statement of a position\<close>

text \<open>
  The last statement that starts on the line at the column or before it, and the first one after it;
  of several at one column the first. A statement is kept with its column.
\<close>

definition statement_col :: "nat list \<Rightarrow> nat \<Rightarrow> source_location \<Rightarrow> u32" where
  "statement_col starts line_idx stmt =
     (if starts ! line_idx \<le> unat (lo_start stmt)
      then to_u32_or_0 (unat (lo_start stmt) - starts ! line_idx) else 0)"

fun best_on_line ::
    "nat list \<Rightarrow> nat \<Rightarrow> u32 \<Rightarrow> source_location list
      \<Rightarrow> (u32 \<times> source_location) option \<Rightarrow> (u32 \<times> source_location) option
      \<Rightarrow> (u32 \<times> source_location) option \<times> (u32 \<times> source_location) option" where
  "best_on_line starts line_idx column [] best_before best_after = (best_before, best_after)"
| "best_on_line starts line_idx column (stmt # stmts) best_before best_after =
     (let stmt_line_idx = line_index starts (unat (lo_start stmt));
          stmt_col = statement_col starts stmt_line_idx stmt
      in if stmt_line_idx \<noteq> line_idx
         then best_on_line starts line_idx column stmts best_before best_after
         else if stmt_col \<le> column
         then best_on_line starts line_idx column stmts
           (case best_before of
              Some (best_col, _) \<Rightarrow> if stmt_col \<le> best_col then best_before else Some (stmt_col, stmt)
            | None \<Rightarrow> Some (stmt_col, stmt)) best_after
         else best_on_line starts line_idx column stmts best_before
           (case best_after of
              Some (best_col, _) \<Rightarrow> if best_col \<le> stmt_col then best_after else Some (stmt_col, stmt)
            | None \<Rightarrow> Some (stmt_col, stmt)))"

definition span_of :: "source_location \<Rightarrow> nat" where
  "span_of stmt = unat (lo_end stmt) - unat (lo_start stmt)"

fun best_containing ::
    "u32 \<Rightarrow> source_location list \<Rightarrow> source_location option \<Rightarrow> source_location option" where
  "best_containing offset [] best = best"
| "best_containing offset (stmt # stmts) best =
     best_containing offset stmts
       (if lo_start stmt \<le> offset \<and> offset \<le> lo_end stmt \<and>
          (case best of Some current \<Rightarrow> span_of stmt < span_of current | None \<Rightarrow> True)
        then Some stmt else best)"

fun next_stmt :: "u32 \<Rightarrow> source_location list \<Rightarrow> source_location option \<Rightarrow> source_location option" where
  "next_stmt offset [] best = best"
| "next_stmt offset (stmt # stmts) best =
     next_stmt offset stmts
       (if offset \<le> lo_start stmt \<and>
          (case best of Some current \<Rightarrow> lo_start stmt < lo_start current | None \<Rightarrow> True)
        then Some stmt else best)"

definition resolve_breakpoint_location ::
    "rstr \<Rightarrow> u32 \<Rightarrow> source_location list \<Rightarrow> u32 \<Rightarrow> u32 \<Rightarrow> source_location option" where
  "resolve_breakpoint_location source file_id statements line column =
     (let starts = line_starts source; line_idx = unat line in
      if length starts \<le> line_idx then None
      else
        (let line_start = starts ! line_idx;
             line_end = (if line_idx + 1 < length starts then starts ! (line_idx + 1) - 1
                         else length source);
             stmts = filter (\<lambda>s. lo_file s = file_id) statements
         in case to_u32 (min (line_start + unat column) line_end) of
              None \<Rightarrow> None
            | Some offset \<Rightarrow>
                (let (best_before, best_after) = best_on_line starts line_idx column stmts None None in
                 case (if best_before = None then best_after else best_before) of
                   Some (_, stmt) \<Rightarrow> Some stmt
                 | None \<Rightarrow>
                     (case best_containing offset stmts None of
                        Some stmt \<Rightarrow> Some stmt
                      | None \<Rightarrow> next_stmt offset stmts None))))"

end
