(* ===== verification/Debug_Control.thy ===== *)
theory Debug_Control
  imports Debug_Lines Cycle Error_Text
begin

text \<open>
  The debugger of a runtime (\<open>debug/types.rs\<close>, \<open>debug/control.rs\<close>): the state that the adapter and
  the interpreter share under a lock and the operations on it, and at the end what a scan cycle does with
  it (\<open>runtime/cycle.rs\<close>). A \<open>HashMap\<close> is a list of entries of which only lookups are used; a
  \<open>Sender\<close> is the list of what was sent through it. The traces of \<open>debug/trace.rs\<close> are left out.
\<close>

section \<open>Data\<close>

datatype hit_condition = HitEqual u64 | HitAtLeast u64 | HitGreaterThan u64

fun hit_is_met :: "hit_condition \<Rightarrow> u64 \<Rightarrow> bool" where
  "hit_is_met (HitEqual target) hits = (hits = target)"
| "hit_is_met (HitAtLeast target) hits = (target \<le> hits)"
| "hit_is_met (HitGreaterThan target) hits = (target < hits)"

datatype log_fragment = LogText rstr | LogExpr expr

record debug_breakpoint =
  bk_location :: source_location
  bk_condition :: "expr option"
  bk_hit_condition :: "hit_condition option"
  bk_log_message :: "log_fragment list option"
  bk_hits :: u64
  bk_generation :: u64

definition debug_breakpoint_new :: "source_location \<Rightarrow> debug_breakpoint" where
  "debug_breakpoint_new loc =
     \<lparr>bk_location = loc, bk_condition = None, bk_hit_condition = None, bk_log_message = None,
      bk_hits = 0, bk_generation = 0\<rparr>"

record debug_log =
  dl_message :: rstr
  dl_location :: "source_location option"

record debug_snapshot =
  dp_storage :: variable_storage
  dp_now :: duration

datatype runtime_event =
    CycleStart u64 duration
  | CycleEnd u64 duration
  | TaskStart rstr u32 duration
  | TaskEnd rstr u32 duration
  | TaskOverrun rstr u64 duration
  | FaultEvent rstr duration

datatype debug_stop_reason = StopBreakpoint | StopStep | StopPause | StopEntry

record debug_stop =
  dt_reason :: debug_stop_reason
  dt_location :: "source_location option"
  dt_thread_id :: "u32 option"
  dt_generation :: "u64 option"

datatype debug_mode = ModeRunning | ModePaused

datatype control_action =
    ActPause "u32 option"
  | ActContinue
  | ActStepIn "u32 option"
  | ActStepOver "u32 option"
  | ActStepOut "u32 option"

datatype control_outcome = Applied | Ignored

datatype step_kind = StepInto | StepOverCall | StepOutOf

record step_state =
  sp_kind :: step_kind
  sp_target_depth :: u32
  sp_started :: bool

record watch_entry =
  we_expr :: expr
  we_last :: "rvalue option"

datatype forced_target = ForcedGlobal rstr | ForcedRetain rstr | ForcedInstance instance_id rstr

datatype pending_target =
    PendingGlobal rstr
  | PendingRetain rstr
  | PendingInstance instance_id rstr
  | PendingLocal frame_id rstr

record pending_lvalue_write =
  pl_frame_id :: "frame_id option"
  pl_using :: "rstr list"
  pl_target :: lvalue
  pl_value :: rvalue

record debug_state =
  db_mode :: debug_mode
  db_last_location :: "source_location option"
  db_last_call_depth :: u32
  db_last_call_depths :: "(u32, u32) index_map"
  db_current_thread :: "u32 option"
  db_target_thread :: "u32 option"
  db_breakpoints :: "debug_breakpoint list"
  db_generation :: "(u32, u64) index_map"
  db_frame_locations :: "(frame_id, source_location) index_map"
  db_logs :: "debug_log list"
  db_snapshot :: "debug_snapshot option"
  db_watches :: "watch_entry list"
  db_watch_changed :: bool
  db_log_tx :: "debug_log list option"
  db_io_tx :: "io_snapshot list option"
  db_stop_tx :: "debug_stop list option"
  db_runtime_tx :: "runtime_event list option"
  db_runtime_events :: "runtime_event list"
  db_pending_stop :: "debug_stop_reason option"
  db_stops :: "debug_stop list"
  db_last_stop :: "debug_stop option"
  db_steps :: "(u32, step_state) index_map"
  db_io_writes :: "(io_address \<times> rvalue) list"
  db_var_writes :: "(pending_target, rvalue) index_map"
  db_lvalue_writes :: "pending_lvalue_write list"
  db_forced_vars :: "(forced_target, rvalue) index_map"
  db_forced_io :: "(io_address, rvalue) index_map"

definition debug_control_new :: debug_state where
  "debug_control_new =
     \<lparr>db_mode = ModeRunning, db_last_location = None, db_last_call_depth = 0, db_last_call_depths = [],
      db_current_thread = Some 1, db_target_thread = None, db_breakpoints = [], db_generation = [],
      db_frame_locations = [], db_logs = [], db_snapshot = None, db_watches = [],
      db_watch_changed = False, db_log_tx = None, db_io_tx = None, db_stop_tx = None,
      db_runtime_tx = None, db_runtime_events = [], db_pending_stop = None, db_stops = [],
      db_last_stop = None, db_steps = [], db_io_writes = [], db_var_writes = [],
      db_lvalue_writes = [], db_forced_vars = [], db_forced_io = []\<rparr>"

section \<open>Actions\<close>

definition or_else :: "'a option \<Rightarrow> 'a option \<Rightarrow> 'a option" where
  "or_else x y = (case x of None \<Rightarrow> y | Some v \<Rightarrow> Some v)"

definition depth_of_thread :: "debug_state \<Rightarrow> u32 option \<Rightarrow> u32" where
  "depth_of_thread s thread =
     (case Option.bind thread (im_get (db_last_call_depths s)) of
        Some depth \<Rightarrow> depth
      | None \<Rightarrow> db_last_call_depth s)"

definition run_step :: "step_kind \<Rightarrow> u32 \<Rightarrow> u32 option \<Rightarrow> debug_state \<Rightarrow> debug_state" where
  "run_step kind target_depth target_thread s =
     s\<lparr>db_steps := [(case target_thread of Some t \<Rightarrow> t | None \<Rightarrow> 0,
        \<lparr>sp_kind = kind, sp_target_depth = target_depth, sp_started = (db_mode s = ModePaused)\<rparr>)],
       db_mode := ModeRunning, db_pending_stop := None, db_snapshot := None,
       db_target_thread := target_thread\<rparr>"

definition apply_action :: "control_action \<Rightarrow> debug_state \<Rightarrow> control_outcome \<times> debug_state" where
  "apply_action action s =
     (case action of
        ActPause thread_id \<Rightarrow>
          if db_mode s = ModePaused then (Ignored, s)
          else (Applied, s\<lparr>db_mode := ModePaused, db_steps := [], db_pending_stop := Some StopPause,
            db_snapshot := None, db_target_thread := thread_id\<rparr>)
      | ActContinue \<Rightarrow>
          (Applied, s\<lparr>db_mode := ModeRunning, db_steps := [], db_pending_stop := None,
            db_snapshot := None, db_target_thread := None\<rparr>)
      | ActStepIn thread_id \<Rightarrow>
          (Applied, run_step StepInto (db_last_call_depth s) (or_else thread_id (db_current_thread s)) s)
      | ActStepOver thread_id \<Rightarrow>
          (let target = or_else thread_id (db_current_thread s) in
           (Applied, run_step StepOverCall (depth_of_thread s target) target s))
      | ActStepOut thread_id \<Rightarrow>
          (let target = or_else thread_id (db_current_thread s); depth = depth_of_thread s target in
           (Applied, run_step StepOutOf (if depth = 0 then 0 else depth - 1) target s)))"

definition pause_entry :: "debug_state \<Rightarrow> debug_state" where
  "pause_entry s =
     (if db_mode s = ModePaused then s
      else s\<lparr>db_mode := ModePaused, db_steps := [], db_pending_stop := Some StopEntry,
        db_snapshot := None, db_target_thread := None\<rparr>)"

definition set_current_thread :: "u32 option \<Rightarrow> debug_state \<Rightarrow> debug_state" where
  "set_current_thread thread_id s = s\<lparr>db_current_thread := thread_id\<rparr>"

definition set_breakpoints_for_file ::
    "u32 \<Rightarrow> debug_breakpoint list \<Rightarrow> debug_state \<Rightarrow> debug_state" where
  "set_breakpoints_for_file file_id breakpoints s =
     (let generation = saturating_add_u64
            (case im_get (db_generation s) file_id of Some g \<Rightarrow> g | None \<Rightarrow> 0) 1
      in s\<lparr>db_generation := im_insert file_id generation (db_generation s),
           db_breakpoints :=
             filter (\<lambda>bp. lo_file (bk_location bp) \<noteq> file_id) (db_breakpoints s) @
             map (\<lambda>bp. bp\<lparr>bk_generation := generation\<rparr>) breakpoints\<rparr>)"

definition clear_breakpoints :: "debug_state \<Rightarrow> debug_state" where
  "clear_breakpoints s = s\<lparr>db_breakpoints := [], db_generation := []\<rparr>"

section \<open>Queues\<close>

text \<open>A queue that is drained: what it held, and the state without it.\<close>

definition drain_logs :: "debug_state \<Rightarrow> debug_log list \<times> debug_state" where
  "drain_logs s = (db_logs s, s\<lparr>db_logs := []\<rparr>)"

definition drain_runtime_events :: "debug_state \<Rightarrow> runtime_event list \<times> debug_state" where
  "drain_runtime_events s = (db_runtime_events s, s\<lparr>db_runtime_events := []\<rparr>)"

definition drain_stops :: "debug_state \<Rightarrow> debug_stop list \<times> debug_state" where
  "drain_stops s = (db_stops s, s\<lparr>db_stops := []\<rparr>)"

definition drain_io_writes :: "debug_state \<Rightarrow> (io_address \<times> rvalue) list \<times> debug_state" where
  "drain_io_writes s = (db_io_writes s, s\<lparr>db_io_writes := []\<rparr>)"

definition drain_var_writes :: "debug_state \<Rightarrow> (pending_target, rvalue) index_map \<times> debug_state" where
  "drain_var_writes s = (db_var_writes s, s\<lparr>db_var_writes := []\<rparr>)"

definition drain_lvalue_writes :: "debug_state \<Rightarrow> pending_lvalue_write list \<times> debug_state" where
  "drain_lvalue_writes s = (db_lvalue_writes s, s\<lparr>db_lvalue_writes := []\<rparr>)"

definition with_snapshot ::
    "(debug_snapshot \<Rightarrow> 'a \<times> debug_snapshot) \<Rightarrow> debug_state \<Rightarrow> 'a option \<times> debug_state" where
  "with_snapshot f s =
     (case db_snapshot s of
        None \<Rightarrow> (None, s)
      | Some snapshot \<Rightarrow>
          (case f snapshot of (x, snapshot) \<Rightarrow> (Some x, s\<lparr>db_snapshot := Some snapshot\<rparr>)))"

definition enqueue_io_write :: "io_address \<Rightarrow> rvalue \<Rightarrow> debug_state \<Rightarrow> debug_state" where
  "enqueue_io_write address v s = s\<lparr>db_io_writes := db_io_writes s @ [(address, v)]\<rparr>"

text \<open>
  An entry of the target that is there gets the new value, else one is appended: what
  \<^const>\<open>im_insert\<close> does.
\<close>

definition enqueue_var_write :: "pending_target \<Rightarrow> rvalue \<Rightarrow> debug_state \<Rightarrow> debug_state" where
  "enqueue_var_write target v s = s\<lparr>db_var_writes := im_insert target v (db_var_writes s)\<rparr>"

definition enqueue_lvalue_write :: "pending_lvalue_write \<Rightarrow> debug_state \<Rightarrow> debug_state" where
  "enqueue_lvalue_write w s = s\<lparr>db_lvalue_writes := db_lvalue_writes s @ [w]\<rparr>"

definition set_forced_var :: "forced_target \<Rightarrow> rvalue \<Rightarrow> debug_state \<Rightarrow> debug_state" where
  "set_forced_var target v s = s\<lparr>db_forced_vars := im_insert target v (db_forced_vars s)\<rparr>"

definition clear_forced_var :: "forced_target \<Rightarrow> debug_state \<Rightarrow> debug_state" where
  "clear_forced_var target s =
     s\<lparr>db_forced_vars := filter (\<lambda>(current, _). current \<noteq> target) (db_forced_vars s)\<rparr>"

definition force_io :: "io_address \<Rightarrow> rvalue \<Rightarrow> debug_state \<Rightarrow> debug_state" where
  "force_io address v s = s\<lparr>db_forced_io := im_insert address v (db_forced_io s)\<rparr>"

definition release_io :: "io_address \<Rightarrow> debug_state \<Rightarrow> debug_state" where
  "release_io address s =
     s\<lparr>db_forced_io := filter (\<lambda>(current, _). current \<noteq> address) (db_forced_io s)\<rparr>"

section \<open>Watches and senders\<close>

definition register_watch_expression :: "expr \<Rightarrow> debug_state \<Rightarrow> debug_state" where
  "register_watch_expression e s =
     s\<lparr>db_watches := db_watches s @ [\<lparr>we_expr = e, we_last = None\<rparr>]\<rparr>"

definition clear_watch_expressions :: "debug_state \<Rightarrow> debug_state" where
  "clear_watch_expressions s = s\<lparr>db_watches := [], db_watch_changed := False\<rparr>"

definition take_watch_changed :: "debug_state \<Rightarrow> bool \<times> debug_state" where
  "take_watch_changed s = (db_watch_changed s, s\<lparr>db_watch_changed := False\<rparr>)"

definition set_log_sender :: "bool \<Rightarrow> debug_state \<Rightarrow> debug_state" where
  "set_log_sender on s = s\<lparr>db_log_tx := (if on then Some [] else None)\<rparr>"

definition set_io_sender :: "bool \<Rightarrow> debug_state \<Rightarrow> debug_state" where
  "set_io_sender on s = s\<lparr>db_io_tx := (if on then Some [] else None)\<rparr>"

definition set_runtime_sender :: "bool \<Rightarrow> debug_state \<Rightarrow> debug_state" where
  "set_runtime_sender on s = s\<lparr>db_runtime_tx := (if on then Some [] else None)\<rparr>"

definition set_stop_sender :: "bool \<Rightarrow> debug_state \<Rightarrow> debug_state" where
  "set_stop_sender on s = s\<lparr>db_stop_tx := (if on then Some [] else None)\<rparr>"

definition push_io_snapshot :: "io_snapshot \<Rightarrow> debug_state \<Rightarrow> debug_state" where
  "push_io_snapshot snapshot s = s\<lparr>db_io_tx := map_option (\<lambda>sent. sent @ [snapshot]) (db_io_tx s)\<rparr>"

definition push_runtime_event :: "runtime_event \<Rightarrow> debug_state \<Rightarrow> debug_state" where
  "push_runtime_event event s =
     (case db_runtime_tx s of
        Some sent \<Rightarrow> s\<lparr>db_runtime_tx := Some (sent @ [event])\<rparr>
      | None \<Rightarrow> s\<lparr>db_runtime_events := db_runtime_events s @ [event]\<rparr>)"

section \<open>The debugger in a cycle\<close>

text \<open>
  What a scan cycle does with an attached debugger (\<open>runtime/cycle.rs\<close>): writes that were queued are
  applied at its start, forced values after the inputs are read and after the outputs are written to
  the image, and the events are pushed. The state is the debugger beside the runtime.
\<close>

type_synonym ('st, 'd) debugged = "debug_state \<times> ('st, 'd) runtime_core"

section \<open>Queued writes\<close>

text \<open>\<^const>\<open>None\<close> is the panic of \<open>with_frame\<close>.\<close>

definition apply_var_write :: "pending_target \<Rightarrow> rvalue \<Rightarrow> variable_storage \<Rightarrow> variable_storage option" where
  "apply_var_write target v s =
     (case target of
        PendingGlobal name \<Rightarrow> Some (set_global name v s)
      | PendingRetain name \<Rightarrow> Some (set_retain name v s)
      | PendingInstance i name \<Rightarrow> Some (snd (set_instance_var i name v s))
      | PendingLocal frame_id name \<Rightarrow> map_option snd (with_frame frame_id (set_local name v) s))"

fun apply_var_writes ::
    "(pending_target \<times> rvalue) list \<Rightarrow> variable_storage \<Rightarrow> variable_storage option" where
  "apply_var_writes [] s = Some s"
| "apply_var_writes ((target, v) # ws) s =
     (case apply_var_write target v s of None \<Rightarrow> None | Some s \<Rightarrow> apply_var_writes ws s)"

text \<open>The result of a write through an expression is dropped.\<close>

definition apply_lvalue_write ::
    "interp \<Rightarrow> pending_lvalue_write \<Rightarrow> ('st, 'd) runtime_core \<Rightarrow> ('st, 'd) runtime_core option" where
  "apply_lvalue_write I w rt =
     map_option snd
       (with_eval_context (pl_frame_id w) (if pl_using w = [] then None else Some (pl_using w))
         (write_lvalue I (pl_target w) (pl_value w)) rt)"

fun apply_lvalue_writes ::
    "interp \<Rightarrow> pending_lvalue_write list \<Rightarrow> ('st, 'd) runtime_core \<Rightarrow> ('st, 'd) runtime_core option" where
  "apply_lvalue_writes I [] rt = Some rt"
| "apply_lvalue_writes I (w # ws) rt =
     (case apply_lvalue_write I w rt of None \<Rightarrow> None | Some rt \<Rightarrow> apply_lvalue_writes I ws rt)"

definition apply_queued_writes :: "interp \<Rightarrow> ('st, 'd) debugged \<Rightarrow> ('st, 'd) debugged option" where
  "apply_queued_writes I = (\<lambda>(s, rt).
     (case drain_var_writes s of
        (var_writes, s) \<Rightarrow>
          (case apply_var_writes var_writes (rt_storage rt) of
             None \<Rightarrow> None
           | Some storage \<Rightarrow>
               (case drain_lvalue_writes s of
                  (lvalue_writes, s) \<Rightarrow>
                    map_option (\<lambda>rt. (s, rt))
                      (apply_lvalue_writes I lvalue_writes (rt\<lparr>rt_storage := storage\<rparr>))))))"

text \<open>The start of a cycle of a runtime that is not faulted.\<close>

definition debug_cycle_start :: "interp \<Rightarrow> ('st, 'd) debugged \<Rightarrow> ('st, 'd) debugged option" where
  "debug_cycle_start I x =
     (case apply_queued_writes I x of
        None \<Rightarrow> None
      | Some (s, rt) \<Rightarrow>
          Some (push_runtime_event (CycleStart (rc_cycle_counter rt) (rt_current_time rt)) s, rt))"

section \<open>Forced values\<close>

fun force_image :: "(io_address \<times> rvalue) list \<Rightarrow> io_interface \<Rightarrow> (runtime_error + unit) \<times> io_interface"
where
  "force_image [] io = (Inr (), io)"
| "force_image ((address, v) # ws) io =
     (case io_write address v io of
        (Inl err, io) \<Rightarrow> (Inl err, io)
      | (Inr _, io) \<Rightarrow> force_image ws io)"

definition force_var :: "forced_target \<times> rvalue \<Rightarrow> variable_storage \<Rightarrow> variable_storage" where
  "force_var = (\<lambda>(target, v) s.
     (case target of
        ForcedGlobal name \<Rightarrow> set_global name v s
      | ForcedRetain name \<Rightarrow> set_retain name v s
      | ForcedInstance i name \<Rightarrow> snd (set_instance_var i name v s)))"

definition set_interface :: "io_interface \<Rightarrow> ('st, 'd) runtime_core \<Rightarrow> ('st, 'd) runtime_core" where
  "set_interface io rt = rt\<lparr>rc_io := (rc_io rt)\<lparr>is_interface := io\<rparr>\<rparr>"

definition apply_forced_values ::
    "debug_state \<Rightarrow> ('st, 'd) runtime_core \<Rightarrow> (runtime_error + unit) \<times> ('st, 'd) runtime_core" where
  "apply_forced_values s rt =
     (case force_image (db_forced_io s) (is_interface (rc_io rt)) of
        (Inl err, io) \<Rightarrow> (Inl err, set_interface io rt)
      | (Inr _, io) \<Rightarrow>
          (Inr (), (set_interface io rt)\<lparr>rt_storage := fold force_var (db_forced_vars s) (rt_storage rt)\<rparr>))"

section \<open>Inputs and outputs\<close>

text \<open>A step of the runtime beside the debugger.\<close>

definition beside :: "(('st, 'd) runtime_core, 'a) op \<Rightarrow> (('st, 'd) debugged, 'a) op" where
  "beside m = (\<lambda>(s, rt). case m rt of None \<Rightarrow> None | Some (r, rt) \<Rightarrow> Some (r, s, rt))"

text \<open>Queued writes to the image: those after one that fails are lost.\<close>

definition apply_io_writes :: "(('st, 'd) debugged, unit) op" where
  "apply_io_writes = (\<lambda>(s, rt).
     (case drain_io_writes s of
        (io_writes, s) \<Rightarrow>
          (case force_image io_writes (is_interface (rc_io rt)) of
             (r, io) \<Rightarrow> Some (r, s, set_interface io rt))))"

definition hold_forced :: "(('st, 'd) debugged, unit) op" where
  "hold_forced = (\<lambda>(s, rt). case apply_forced_values s rt of (r, rt) \<Rightarrow> Some (r, s, rt))"

definition emit_io_snapshot :: "('st, 'd) debugged \<Rightarrow> ('st, 'd) debugged" where
  "emit_io_snapshot = (\<lambda>(s, rt).
     (push_io_snapshot (io_snapshot_of show_error (is_interface (rc_io rt))) s, rt))"

definition read_bound :: "(('st, 'd) runtime_core, unit) op" where
  "read_bound = (\<lambda>rt.
     case io_read_inputs (is_interface (rc_io rt)) (rt_storage rt) of
       (r, s) \<Rightarrow> Some (r, rt\<lparr>rt_storage := s\<rparr>))"

definition write_bound :: "(('st, 'd) runtime_core, unit) op" where
  "write_bound = (\<lambda>rt.
     case io_write_outputs (rt_storage rt) (is_interface (rc_io rt)) of
       (r, io) \<Rightarrow> Some (r, set_interface io rt))"

definition debug_read_cycle_inputs :: "'d driver_ops \<Rightarrow> (('st, 'd) debugged, unit) op" where
  "debug_read_cycle_inputs ops =
     ebind (beside (io_step (is_read_inputs ops))) (\<lambda>_.
     ebind apply_io_writes (\<lambda>_.
     ebind hold_forced (\<lambda>_.
     ebind (beside read_bound) (\<lambda>_. emodify emit_io_snapshot))))"

definition debug_write_cycle_outputs :: "'d driver_ops \<Rightarrow> (('st, 'd) debugged, unit) op" where
  "debug_write_cycle_outputs ops =
     ebind (beside write_bound) (\<lambda>_.
     ebind hold_forced (\<lambda>_.
     ebind (emodify emit_io_snapshot) (\<lambda>_. beside (io_step (is_write_outputs ops)))))"

section \<open>Events of tasks\<close>

definition debug_task_start :: "task_config \<Rightarrow> ('st, 'd) debugged \<Rightarrow> ('st, 'd) debugged" where
  "debug_task_start task = (\<lambda>(s, rt).
     (push_runtime_event (TaskStart (tc_name task) (tc_priority task) (rt_current_time rt))
        (set_current_thread (im_get (rc_task_thread_ids rt) (tc_name task)) s), rt))"

definition debug_task_end :: "task_config \<Rightarrow> ('st, 'd) debugged \<Rightarrow> ('st, 'd) debugged" where
  "debug_task_end task = (\<lambda>(s, rt).
     (push_runtime_event (TaskEnd (tc_name task) (tc_priority task) (rt_current_time rt)) s, rt))"

definition debug_cycle_end :: "('st, 'd) debugged \<Rightarrow> ('st, 'd) debugged" where
  "debug_cycle_end = (\<lambda>(s, rt).
     (push_runtime_event (CycleEnd (rc_cycle_counter rt) (rt_current_time rt)) s, rt))"

end
