(* ===== verification/Debug_Hook.thy ===== *)
theory Debug_Hook
  imports Debug_Control Std_Conversions
begin

text \<open>
  The hook of the debugger before each statement (\<open>on_statement_inner\<close> of \<open>debug/control.rs\<close>) and
  the breakpoints it looks at (\<open>debug/breakpoints.rs\<close>). The interpreter has taken the debugger out of
  the evaluation context, so expressions of the debugger run without a hook. Waiting on the condition
  variable ends a call of \<open>poll_hook\<close>; after a wake it is called again on the state that the others
  have left. The printing of values (\<open>Debug\<close>) is the argument \<open>show\<close>. An operation is
  \<^const>\<open>None\<close> when the evaluation of an expression panics or runs out of fuel.
\<close>

section \<open>Breakpoints\<close>

definition format_log_value :: "(rvalue \<Rightarrow> rstr) \<Rightarrow> rvalue \<Rightarrow> rstr" where
  "format_log_value show v =
     (case v of
        VBool b \<Rightarrow> if b then ''TRUE'' else ''FALSE''
      | VString s \<Rightarrow> s
      | VWString s \<Rightarrow> s
      | VChar c \<Rightarrow> utf8_encode (unat c)
      | VWChar c \<Rightarrow> (case char_from_u32 (unat c) of Inr ch \<Rightarrow> utf8_encode ch | Inl _ \<Rightarrow> ''?'')
      | VArray elements _ \<Rightarrow> ''['' @ show_nat (length elements) @ '']''
      | VStruct type_name _ \<Rightarrow> type_name @ '' {...}''
      | VEnum type_name variant_name _ \<Rightarrow> type_name @ ''::'' @ variant_name
      | VReference (Some _) \<Rightarrow> ''REF''
      | VReference None \<Rightarrow> ''NULL_REF''
      | VInstance i \<Rightarrow> ''Instance('' @ show_nat (unat i) @ '')''
      | VNull \<Rightarrow> ''NULL''
      | _ \<Rightarrow> show v)"

text \<open>The evaluation of an expression of the debugger: an error is a result too.\<close>

definition attempt :: "interp \<Rightarrow> expr \<Rightarrow> eval_ctx \<Rightarrow> ((runtime_error + rvalue) \<times> eval_ctx) option" where
  "attempt I e c = eval_expr I e c"

definition condition_matches :: "interp \<Rightarrow> expr \<Rightarrow> eval_ctx \<Rightarrow> (bool \<times> eval_ctx) option" where
  "condition_matches I e c =
     (case attempt I e c of
        None \<Rightarrow> None
      | Some (r, c) \<Rightarrow> Some (case r of Inr (VBool b) \<Rightarrow> b | _ \<Rightarrow> False, c))"

fun format_log_message ::
    "interp \<Rightarrow> (rvalue \<Rightarrow> rstr) \<Rightarrow> log_fragment list \<Rightarrow> eval_ctx \<Rightarrow> (rstr \<times> eval_ctx) option" where
  "format_log_message I show [] c = Some ([], c)"
| "format_log_message I show (LogText text # fs) c =
     (case format_log_message I show fs c of
        None \<Rightarrow> None
      | Some (rest, c) \<Rightarrow> Some (text @ rest, c))"
| "format_log_message I show (LogExpr e # fs) c =
     (case attempt I e c of
        None \<Rightarrow> None
      | Some (r, c) \<Rightarrow>
          (let text = (case r of
                 Inr v \<Rightarrow> format_log_value show v
               | Inl err \<Rightarrow> ''<error: '' @ show_error err @ ''>'')
           in case format_log_message I show fs c of
                None \<Rightarrow> None
              | Some (rest, c) \<Rightarrow> Some (text @ rest, c)))"

text \<open>What a breakpoint says to a statement: nothing, a log message or a stop of its generation.\<close>

datatype bp_outcome = BpPassed | BpLogged debug_log | BpHit u64

definition overlaps :: "source_location \<Rightarrow> source_location \<Rightarrow> bool" where
  "overlaps loc bp_loc \<longleftrightarrow>
     lo_file bp_loc = lo_file loc \<and> lo_start loc < lo_end bp_loc \<and> lo_start bp_loc < lo_end loc"

definition bp_condition ::
    "interp \<Rightarrow> debug_breakpoint \<Rightarrow> eval_ctx option \<Rightarrow> (bool \<times> eval_ctx option) option" where
  "bp_condition I bp ctx =
     (case bk_condition bp of
        None \<Rightarrow> Some (True, ctx)
      | Some condition \<Rightarrow>
          (case ctx of
             None \<Rightarrow> Some (False, None)
           | Some c \<Rightarrow>
               (case condition_matches I condition c of
                  None \<Rightarrow> None
                | Some (met, c) \<Rightarrow> Some (met, Some c))))"

definition bp_stop ::
    "interp \<Rightarrow> (rvalue \<Rightarrow> rstr) \<Rightarrow> source_location \<Rightarrow> debug_breakpoint \<Rightarrow> eval_ctx option
      \<Rightarrow> (bp_outcome \<times> eval_ctx option) option" where
  "bp_stop I show loc bp ctx =
     (case bk_log_message bp of
        None \<Rightarrow> Some (BpHit (bk_generation bp), ctx)
      | Some message \<Rightarrow>
          (case ctx of
             None \<Rightarrow> Some (BpPassed, None)
           | Some c \<Rightarrow>
               (case format_log_message I show message c of
                  None \<Rightarrow> None
                | Some (text, c) \<Rightarrow>
                    Some (BpLogged \<lparr>dl_message = text, dl_location = Some loc\<rparr>, Some c))))"

definition visit_breakpoint ::
    "interp \<Rightarrow> (rvalue \<Rightarrow> rstr) \<Rightarrow> source_location \<Rightarrow> debug_breakpoint \<Rightarrow> eval_ctx option
      \<Rightarrow> (bp_outcome \<times> debug_breakpoint \<times> eval_ctx option) option" where
  "visit_breakpoint I show loc bp ctx =
     (if \<not> overlaps loc (bk_location bp) then Some (BpPassed, bp, ctx)
      else
        (let bp = bp\<lparr>bk_hits := saturating_add_u64 (bk_hits bp) 1\<rparr> in
         if (case bk_hit_condition bp of Some h \<Rightarrow> \<not> hit_is_met h (bk_hits bp) | None \<Rightarrow> False)
         then Some (BpPassed, bp, ctx)
         else
           (case bp_condition I bp ctx of
              None \<Rightarrow> None
            | Some (False, ctx) \<Rightarrow> Some (BpPassed, bp, ctx)
            | Some (True, ctx) \<Rightarrow>
                (case bp_stop I show loc bp ctx of
                   None \<Rightarrow> None
                 | Some (outcome, ctx) \<Rightarrow> Some (outcome, bp, ctx)))))"

definition emit_log :: "debug_log \<Rightarrow> debug_state \<Rightarrow> debug_state" where
  "emit_log log s =
     (case db_log_tx s of
        Some sent \<Rightarrow> s\<lparr>db_log_tx := Some (sent @ [log])\<rparr>
      | None \<Rightarrow> s\<lparr>db_logs := db_logs s @ [log]\<rparr>)"

text \<open>Breakpoints after the first one that stops are not looked at. The list is walked in place.\<close>

fun match_from ::
    "interp \<Rightarrow> (rvalue \<Rightarrow> rstr) \<Rightarrow> source_location \<Rightarrow> debug_breakpoint list \<Rightarrow> debug_state
      \<Rightarrow> eval_ctx option
      \<Rightarrow> (u64 option \<times> debug_breakpoint list \<times> debug_state \<times> eval_ctx option) option" where
  "match_from I show loc [] s ctx = Some (None, [], s, ctx)"
| "match_from I show loc (bp # bps) s ctx =
     (case visit_breakpoint I show loc bp ctx of
        None \<Rightarrow> None
      | Some (BpHit generation, bp, ctx) \<Rightarrow> Some (Some generation, bp # bps, s, ctx)
      | Some (outcome, bp, ctx) \<Rightarrow>
          (let s = (case outcome of BpLogged log \<Rightarrow> emit_log log s | _ \<Rightarrow> s) in
           case match_from I show loc bps s ctx of
             None \<Rightarrow> None
           | Some (hit, bps, s, ctx) \<Rightarrow> Some (hit, bp # bps, s, ctx)))"

definition matches_breakpoint ::
    "interp \<Rightarrow> (rvalue \<Rightarrow> rstr) \<Rightarrow> source_location \<Rightarrow> debug_state \<Rightarrow> eval_ctx option
      \<Rightarrow> (u64 option \<times> debug_state \<times> eval_ctx option) option" where
  "matches_breakpoint I show loc s ctx =
     (case match_from I show loc (db_breakpoints s) s ctx of
        None \<Rightarrow> None
      | Some (hit, bps, s, ctx) \<Rightarrow> Some (hit, s\<lparr>db_breakpoints := bps\<rparr>, ctx))"

section \<open>Stops\<close>

definition emit_stop ::
    "debug_stop_reason \<Rightarrow> source_location option \<Rightarrow> u64 option \<Rightarrow> debug_state \<Rightarrow> debug_state" where
  "emit_stop reason loc generation s =
     (let stop = \<lparr>dt_reason = reason, dt_location = loc, dt_thread_id = db_current_thread s,
            dt_generation = generation\<rparr>
      in s\<lparr>db_stop_tx := map_option (\<lambda>sent. sent @ [stop]) (db_stop_tx s),
           db_last_stop := Some stop, db_stops := db_stops s @ [stop]\<rparr>)"

text \<open>A value that is not equal to itself, like NaN, counts as a change.\<close>

definition same_watch :: "rvalue option \<Rightarrow> rvalue option \<Rightarrow> bool" where
  "same_watch x y =
     (case (x, y) of
        (None, None) \<Rightarrow> True
      | (Some v, Some w) \<Rightarrow> value_eq v w
      | _ \<Rightarrow> False)"

fun update_watches ::
    "interp \<Rightarrow> watch_entry list \<Rightarrow> eval_ctx \<Rightarrow> (bool \<times> watch_entry list \<times> eval_ctx) option" where
  "update_watches I [] c = Some (False, [], c)"
| "update_watches I (w # ws) c =
     (case attempt I (we_expr w) c of
        None \<Rightarrow> None
      | Some (r, c) \<Rightarrow>
          (let next_value = (case r of Inr v \<Rightarrow> Some v | Inl _ \<Rightarrow> None);
               changed = (\<not> same_watch (we_last w) next_value);
               w = (if changed then w\<lparr>we_last := next_value\<rparr> else w)
           in case update_watches I ws c of
                None \<Rightarrow> None
              | Some (others, ws, c) \<Rightarrow> Some (changed \<or> others, w # ws, c)))"

definition update_watch_snapshot ::
    "interp \<Rightarrow> debug_state \<Rightarrow> eval_ctx \<Rightarrow> (debug_state \<times> eval_ctx) option" where
  "update_watch_snapshot I s c =
     (case update_watches I (db_watches s) c of
        None \<Rightarrow> None
      | Some (changed, ws, c) \<Rightarrow>
          Some (s\<lparr>db_watches := ws, db_watch_changed := (db_watch_changed s \<or> changed)\<rparr>, c))"

definition update_snapshot :: "debug_state \<Rightarrow> eval_ctx \<Rightarrow> debug_state" where
  "update_snapshot s c = s\<lparr>db_snapshot := Some \<lparr>dp_storage = cx_storage c, dp_now = cx_now c\<rparr>\<rparr>"

definition refresh_snapshot ::
    "interp \<Rightarrow> debug_state \<Rightarrow> eval_ctx \<Rightarrow> (debug_state \<times> eval_ctx) option" where
  "refresh_snapshot I s c =
     (case update_watch_snapshot I s c of
        None \<Rightarrow> None
      | Some (s, c) \<Rightarrow> Some (update_snapshot s c, c))"

text \<open>The report of a stop, with watches and snapshot when there is a context.\<close>

definition report_stop ::
    "interp \<Rightarrow> debug_stop_reason \<Rightarrow> source_location option \<Rightarrow> u64 option
      \<Rightarrow> debug_state \<Rightarrow> eval_ctx option \<Rightarrow> (debug_state \<times> eval_ctx option) option" where
  "report_stop I reason loc generation s ctx =
     (case ctx of
        None \<Rightarrow> Some (emit_stop reason loc generation s, None)
      | Some c \<Rightarrow>
          (case refresh_snapshot I s c of
             None \<Rightarrow> None
           | Some (s, c) \<Rightarrow> Some (emit_stop reason loc generation s, Some c)))"

section \<open>The hook\<close>

definition is_target_thread :: "debug_state \<Rightarrow> bool" where
  "is_target_thread s \<longleftrightarrow> db_target_thread s = None \<or> db_target_thread s = db_current_thread s"

definition note_arrival ::
    "source_location option \<Rightarrow> u32 \<Rightarrow> eval_ctx option \<Rightarrow> debug_state \<Rightarrow> debug_state" where
  "note_arrival loc depth ctx s =
     (let s = s\<lparr>db_last_location := loc, db_last_call_depth := depth\<rparr>;
          s = (case db_current_thread s of
                 Some thread \<Rightarrow>
                   s\<lparr>db_last_call_depths := im_insert thread depth (db_last_call_depths s)\<rparr>
               | None \<Rightarrow> s)
      in case (loc, ctx) of
           (Some l, Some c) \<Rightarrow>
             (let frames = vs_frames (cx_storage c);
                  kept = filter (\<lambda>(i, _). list_ex (\<lambda>fr. lf_id fr = i) frames) (db_frame_locations s)
              in s\<lparr>db_frame_locations :=
                     (case current_frame (cx_storage c) of
                        Some fr \<Rightarrow> im_insert (lf_id fr) l kept
                      | None \<Rightarrow> kept)\<rparr>)
         | _ \<Rightarrow> s)"

text \<open>A stop that was asked for is reported by the first statement of its thread, once.\<close>

definition consume_pending_stop ::
    "interp \<Rightarrow> source_location option \<Rightarrow> debug_state \<Rightarrow> eval_ctx option
      \<Rightarrow> (debug_state \<times> eval_ctx option) option" where
  "consume_pending_stop I loc s ctx =
     (if db_mode s = ModePaused \<and> is_target_thread s then
        (case db_pending_stop s of
           Some reason \<Rightarrow> report_stop I reason loc None (s\<lparr>db_pending_stop := None\<rparr>) ctx
         | None \<Rightarrow> Some (s, ctx))
      else Some (s, ctx))"

definition step_key :: "debug_state \<Rightarrow> u32 option" where
  "step_key s =
     or_else
       (case db_current_thread s of
          Some t \<Rightarrow> if im_contains (db_steps s) t then Some t else None
        | None \<Rightarrow> None)
       (if im_contains (db_steps s) 0 then Some 0 else None)"

fun step_reached :: "step_kind \<Rightarrow> u32 \<Rightarrow> u32 \<Rightarrow> bool" where
  "step_reached StepInto depth target_depth = True"
| "step_reached StepOverCall depth target_depth = (depth \<le> target_depth)"
| "step_reached StepOutOf depth target_depth = (depth \<le> target_depth)"

text \<open>The step of the thread: a step that was asked for while running is armed by this statement.\<close>

definition check_step :: "u32 \<Rightarrow> debug_state \<Rightarrow> bool \<times> debug_state" where
  "check_step depth s =
     (case step_key s of
        None \<Rightarrow> (False, s)
      | Some key \<Rightarrow>
          (case im_get (db_steps s) key of
             None \<Rightarrow> (False, s)
           | Some step \<Rightarrow>
               if \<not> sp_started step
               then (False, s\<lparr>db_steps := im_insert key (step\<lparr>sp_started := True\<rparr>) (db_steps s)\<rparr>)
               else if step_reached (sp_kind step) depth (sp_target_depth step)
               then (True, s\<lparr>db_steps := filter (\<lambda>(k, _). k \<noteq> key) (db_steps s)\<rparr>)
               else (False, s)))"

definition pause_at ::
    "interp \<Rightarrow> debug_stop_reason \<Rightarrow> source_location \<Rightarrow> u64 option \<Rightarrow> debug_state \<Rightarrow> eval_ctx option
      \<Rightarrow> (debug_state \<times> eval_ctx option) option" where
  "pause_at I reason loc generation s ctx =
     report_stop I reason (Some loc) generation (s\<lparr>db_mode := ModePaused, db_pending_stop := None\<rparr>) ctx"

text \<open>A running statement: the step of its thread, then the breakpoints.\<close>

definition check_running ::
    "interp \<Rightarrow> (rvalue \<Rightarrow> rstr) \<Rightarrow> source_location \<Rightarrow> u32 \<Rightarrow> debug_state \<Rightarrow> eval_ctx option
      \<Rightarrow> (debug_state \<times> eval_ctx option) option" where
  "check_running I show loc depth s ctx =
     (case (if is_target_thread s then check_step depth s else (False, s)) of
        (True, s) \<Rightarrow> pause_at I StopStep loc None s ctx
      | (False, s) \<Rightarrow>
          (case matches_breakpoint I show loc s ctx of
             None \<Rightarrow> None
           | Some (None, s, ctx) \<Rightarrow> Some (s, ctx)
           | Some (Some generation, s, ctx) \<Rightarrow>
               pause_at I StopBreakpoint loc (Some generation)
                 (s\<lparr>db_steps := [], db_target_thread := None\<rparr>) ctx))"

definition arrive ::
    "interp \<Rightarrow> (rvalue \<Rightarrow> rstr) \<Rightarrow> source_location option \<Rightarrow> u32 \<Rightarrow> debug_state \<Rightarrow> eval_ctx option
      \<Rightarrow> (debug_state \<times> eval_ctx option) option" where
  "arrive I show loc depth s ctx =
     (case consume_pending_stop I loc (note_arrival loc depth ctx s) ctx of
        None \<Rightarrow> None
      | Some (s, ctx) \<Rightarrow>
          (case loc of
             Some l \<Rightarrow>
               if is_target_thread s \<and> db_mode s = ModePaused then Some (s, ctx)
               else check_running I show l depth s ctx
           | None \<Rightarrow> Some (s, ctx)))"

text \<open>One round of the loop at the end of the hook.\<close>

datatype hook_end = HookReturns | HookWaits

definition poll_hook ::
    "interp \<Rightarrow> source_location option \<Rightarrow> debug_state \<Rightarrow> eval_ctx option
      \<Rightarrow> (hook_end \<times> debug_state \<times> eval_ctx option) option" where
  "poll_hook I loc s ctx =
     (case consume_pending_stop I loc s ctx of
        None \<Rightarrow> None
      | Some (s, ctx) \<Rightarrow>
          Some (if db_mode s = ModePaused \<and> is_target_thread s then HookWaits else HookReturns, s, ctx))"

definition on_statement_inner ::
    "interp \<Rightarrow> (rvalue \<Rightarrow> rstr) \<Rightarrow> source_location option \<Rightarrow> u32 \<Rightarrow> debug_state \<Rightarrow> eval_ctx option
      \<Rightarrow> (hook_end \<times> debug_state \<times> eval_ctx option) option" where
  "on_statement_inner I show loc depth s ctx =
     (case arrive I show loc depth s ctx of
        None \<Rightarrow> None
      | Some (s, ctx) \<Rightarrow> poll_hook I loc s ctx)"

end
