(* ===== verification/Debug_Properties.thy ===== *)
theory Debug_Properties
  imports Debug_Hook
begin

text \<open>
  Properties of the debugger: a thread that stops says so once, and a step stops where it should.
\<close>

section \<open>What the parts of the hook leave alone\<close>

text \<open>The part of the state that decides whether a thread goes on, with the breakpoints.\<close>

definition control_view ::
    "debug_state \<Rightarrow> debug_mode \<times> u32 option \<times> u32 option \<times> debug_stop_reason option
      \<times> (u32, step_state) index_map" where
  "control_view s = (db_mode s, db_target_thread s, db_current_thread s, db_pending_stop s, db_steps s)"

lemma refresh_effect:
  assumes "refresh_snapshot I s c = Some (s', c')"
  shows "control_view s' = control_view s \<and> db_breakpoints s' = db_breakpoints s \<and>
    db_stops s' = db_stops s \<and> db_last_stop s' = db_last_stop s"
  using assms
  by (auto simp: refresh_snapshot_def update_watch_snapshot_def update_snapshot_def control_view_def
      split: option.splits)

lemma report_effect:
  assumes "report_stop I reason loc generation s ctx = Some (s', ctx')"
  shows "control_view s' = control_view s \<and> db_breakpoints s' = db_breakpoints s \<and>
    (\<exists>stop. stop = \<lparr>dt_reason = reason, dt_location = loc, dt_thread_id = db_current_thread s,
        dt_generation = generation\<rparr> \<and> db_stops s' = db_stops s @ [stop] \<and> db_last_stop s' = Some stop)"
proof (cases ctx)
  case None
  then show ?thesis
    using assms by (auto simp: report_stop_def emit_stop_def control_view_def Let_def)
next
  case (Some c)
  obtain s1 c1 where refresh: "refresh_snapshot I s c = Some (s1, c1)"
    and s': "s' = emit_stop reason loc generation s1"
    using assms Some by (auto simp: report_stop_def split: option.splits)
  show ?thesis
    using refresh_effect [OF refresh] unfolding s'
    by (auto simp: emit_stop_def control_view_def Let_def)
qed

lemma match_from_effect:
  "match_from I show loc bps s ctx = Some (hit, bps', s', ctx') \<Longrightarrow>
   control_view s' = control_view s \<and> db_stops s' = db_stops s \<and> db_last_stop s' = db_last_stop s"
proof (induction bps arbitrary: s ctx bps')
  case (Cons bp bps)
  have log: "control_view (emit_log l s) = control_view s" "db_stops (emit_log l s) = db_stops s"
    "db_last_stop (emit_log l s) = db_last_stop s" for l s
    by (simp_all add: emit_log_def control_view_def split: option.split)
  show ?case
    using Cons.prems
    by (auto simp: Let_def log dest!: Cons.IH split: option.splits prod.splits bp_outcome.splits)
qed simp

lemma match_effect:
  "matches_breakpoint I show loc s ctx = Some (hit, s', ctx') \<Longrightarrow>
   control_view s' = control_view s \<and> db_stops s' = db_stops s \<and> db_last_stop s' = db_last_stop s"
  by (auto simp: matches_breakpoint_def control_view_def dest!: match_from_effect split: option.splits)

lemma arrival_effect:
  "control_view (note_arrival loc depth ctx s) = control_view s \<and>
   db_stops (note_arrival loc depth ctx s) = db_stops s \<and>
   db_last_stop (note_arrival loc depth ctx s) = db_last_stop s \<and>
   db_breakpoints (note_arrival loc depth ctx s) = db_breakpoints s \<and>
   db_watches (note_arrival loc depth ctx s) = db_watches s"
  by (auto simp: note_arrival_def control_view_def Let_def split: option.split)

section \<open>Stops are announced\<close>

text \<open>What a step of the hook has reported: nothing, or one stop of the thread at the statement.\<close>

definition announced :: "source_location option \<Rightarrow> debug_state \<Rightarrow> debug_state \<Rightarrow> bool" where
  "announced loc s s' \<longleftrightarrow>
     (\<exists>stop. db_stops s' = db_stops s @ [stop] \<and> db_last_stop s' = Some stop \<and>
        dt_location stop = loc \<and> dt_thread_id stop = db_current_thread s)"

definition unchanged_stops :: "debug_state \<Rightarrow> debug_state \<Rightarrow> bool" where
  "unchanged_stops s s' \<longleftrightarrow> db_stops s' = db_stops s \<and> db_last_stop s' = db_last_stop s"

lemma consume_effect:
  assumes "consume_pending_stop I loc s ctx = Some (s', ctx')"
  shows "if db_mode s = ModePaused \<and> is_target_thread s \<and> db_pending_stop s \<noteq> None
    then control_view s' = control_view (s\<lparr>db_pending_stop := None\<rparr>) \<and> announced loc s s'
    else s' = s"
  using assms
  by (auto simp: consume_pending_stop_def announced_def control_view_def split: if_splits option.splits
      dest!: report_effect)

lemma pause_effect:
  assumes "pause_at I reason loc generation s ctx = Some (s', ctx')"
  shows "control_view s' = control_view (s\<lparr>db_mode := ModePaused, db_pending_stop := None\<rparr>) \<and>
    announced (Some loc) s s'"
  using report_effect [OF assms [unfolded pause_at_def]]
  by (auto simp: announced_def control_view_def)

lemma step_effect:
  "check_step depth s = (stop, s') \<Longrightarrow>
   db_mode s' = db_mode s \<and> db_target_thread s' = db_target_thread s \<and>
   db_current_thread s' = db_current_thread s \<and> db_pending_stop s' = db_pending_stop s \<and>
   db_stops s' = db_stops s \<and> db_last_stop s' = db_last_stop s"
  by (auto simp: check_step_def split: option.splits if_splits)

lemma running_effect:
  assumes "check_running I show loc depth s ctx = Some (s', ctx')"
  shows "db_current_thread s' = db_current_thread s \<and>
    (db_mode s' = db_mode s \<and> db_target_thread s' = db_target_thread s \<and>
       db_pending_stop s' = db_pending_stop s \<and> unchanged_stops s s' \<or>
     db_mode s' = ModePaused \<and> is_target_thread s' \<and> db_pending_stop s' = None \<and> announced (Some loc) s s')"
proof -
  obtain stop s1 where step: "(if is_target_thread s then check_step depth s else (False, s)) = (stop, s1)"
    by fastforce
  have kept: "db_mode s1 = db_mode s" "db_target_thread s1 = db_target_thread s"
    "db_current_thread s1 = db_current_thread s" "db_pending_stop s1 = db_pending_stop s"
    "unchanged_stops s s1"
    using step step_effect [of depth s stop s1] by (auto simp: unchanged_stops_def split: if_splits)
  show ?thesis
  proof (cases stop)
    case True
    then have "is_target_thread s"
      using step by (auto split: if_splits)
    moreover have "pause_at I StopStep loc None s1 ctx = Some (s', ctx')"
      using assms step True by (simp add: check_running_def)
    ultimately show ?thesis
      using pause_effect kept
      by (fastforce simp: control_view_def announced_def unchanged_stops_def is_target_thread_def)
  next
    case False
    obtain hit s2 ctx2 where match: "matches_breakpoint I show loc s1 ctx = Some (hit, s2, ctx2)"
      using assms step False by (auto simp: check_running_def split: option.splits)
    note view = match_effect [OF match]
    show ?thesis
    proof (cases hit)
      case None
      then show ?thesis
        using assms step False match kept view
        by (auto simp: check_running_def control_view_def unchanged_stops_def)
    next
      case (Some generation)
      then have "pause_at I StopBreakpoint loc (Some generation)
          (s2\<lparr>db_steps := [], db_target_thread := None\<rparr>) ctx2 = Some (s', ctx')"
        using assms step False match by (simp add: check_running_def)
      from pause_effect [OF this] show ?thesis
        using kept view
        by (auto simp: control_view_def announced_def unchanged_stops_def is_target_thread_def)
    qed
  qed
qed

text \<open>C13: Before a statement the hook keeps the thread exactly if the debugger is then paused and has
  this thread, or any thread, for its target. It keeps it only after one stop at this statement has
  been reported, unless the thread was already paused with its stop reported; when it lets the
  thread go, nothing has been reported.\<close>

theorem stops_announced:
  assumes "on_statement_inner I show loc depth s ctx = Some (e, s', ctx')"
  shows "(e = HookWaits \<longleftrightarrow> db_mode s' = ModePaused \<and> is_target_thread s') \<and>
    (case e of
       HookReturns \<Rightarrow> unchanged_stops s s'
     | HookWaits \<Rightarrow> db_pending_stop s' = None \<and>
         (announced loc s s' \<or>
          unchanged_stops s s' \<and> db_mode s = ModePaused \<and> is_target_thread s \<and> db_pending_stop s = None))"
proof -
  let ?s = "note_arrival loc depth ctx s"
  note view = arrival_effect [of loc depth ctx s]
  obtain s1 ctx1 where first: "consume_pending_stop I loc ?s ctx = Some (s1, ctx1)"
    and arrive: "arrive I show loc depth s ctx = (case loc of
      Some l \<Rightarrow> if is_target_thread s1 \<and> db_mode s1 = ModePaused then Some (s1, ctx1)
        else check_running I show l depth s1 ctx1
    | None \<Rightarrow> Some (s1, ctx1))"
    using assms by (auto simp: on_statement_inner_def arrive_def split: option.splits)
  obtain s2 ctx2 where second: "arrive I show loc depth s ctx = Some (s2, ctx2)"
    and poll: "poll_hook I loc s2 ctx2 = Some (e, s', ctx')"
    using assms by (auto simp: on_statement_inner_def split: option.splits)
  have end_view: "consume_pending_stop I loc s2 ctx2 = Some (s', ctx')"
    "e = (if db_mode s' = ModePaused \<and> is_target_thread s' then HookWaits else HookReturns)"
    using poll by (auto simp: poll_hook_def split: option.splits)
  note parts = consume_effect [OF first] consume_effect [OF end_view(1)]
  show ?thesis
  proof (cases "loc = None \<or> is_target_thread s1 \<and> db_mode s1 = ModePaused")
    case True
    then have "s2 = s1"
      using arrive second by (auto split: option.splits)
    then show ?thesis
      using parts view end_view(2)
      by (auto simp: control_view_def announced_def unchanged_stops_def is_target_thread_def split: if_splits)
  next
    case False
    then obtain l where "loc = Some l" and "check_running I show l depth s1 ctx1 = Some (s2, ctx2)"
      using arrive second by auto
    then show ?thesis
      using running_effect [of I "show" l depth s1 ctx1 s2 ctx2] parts view end_view(2) False
      by (auto simp: control_view_def announced_def unchanged_stops_def is_target_thread_def split: if_splits)
  qed
qed

lemma stops_announced_witness:
  "let s = snd (apply_action (ActPause None) debug_control_new) in
   announced None s (fst (snd (the (on_statement_inner (interp_at 0) (\<lambda>_. []) None 0 s None))))"
proof -
  let ?s = "snd (apply_action (ActPause None) debug_control_new)"
  obtain e s' ctx' where run: "on_statement_inner (interp_at 0) (\<lambda>_. []) None 0 ?s None = Some (e, s', ctx')"
    and e: "e = HookWaits"
    by (simp add: on_statement_inner_def arrive_def poll_hook_def consume_pending_stop_def note_arrival_def
        apply_action_def debug_control_new_def is_target_thread_def report_stop_def emit_stop_def Let_def)
  have "db_pending_stop ?s \<noteq> None"
    by (simp add: apply_action_def debug_control_new_def)
  then show ?thesis
    using stops_announced [OF run] e run by (auto simp: Let_def)
qed

section \<open>Steps\<close>

text \<open>A statement that a thread reaches.\<close>

record visit =
  vi_thread :: "u32 option"
  vi_loc :: source_location
  vi_depth :: u32
  vi_ctx :: "eval_ctx option"

text \<open>The statements up to the first one at which the thread is kept.\<close>

fun walk ::
    "interp \<Rightarrow> (rvalue \<Rightarrow> rstr) \<Rightarrow> visit list \<Rightarrow> debug_state \<Rightarrow> (visit option \<times> debug_state) option" where
  "walk I show [] s = Some (None, s)"
| "walk I show (v # vs) s =
     (case on_statement_inner I show (Some (vi_loc v)) (vi_depth v)
        (set_current_thread (vi_thread v) s) (vi_ctx v) of
        None \<Rightarrow> None
      | Some (HookWaits, s, _) \<Rightarrow> Some (Some v, s)
      | Some (HookReturns, s, _) \<Rightarrow> walk I show vs s)"

text \<open>A thread that runs on a step that is armed.\<close>

definition stepping :: "step_kind \<Rightarrow> u32 \<Rightarrow> u32 \<Rightarrow> debug_breakpoint list \<Rightarrow> debug_state \<Rightarrow> bool" where
  "stepping kind depth t bps s \<longleftrightarrow>
     db_mode s = ModeRunning \<and> db_target_thread s = Some t \<and> db_pending_stop s = None \<and>
     db_steps s = [(t, \<lparr>sp_kind = kind, sp_target_depth = depth, sp_started = True\<rparr>)] \<and>
     db_breakpoints s = bps \<and> db_watches s = []"

lemma no_overlap_match:
  assumes "\<forall>bp\<in>set bps. \<not> overlaps loc (bk_location bp)"
  shows "match_from I show loc bps s ctx = Some (None, bps, s, ctx)"
  using assms by (induction bps) (simp_all add: visit_breakpoint_def Let_def)

lemma running_consume: "db_mode s = ModeRunning \<Longrightarrow> consume_pending_stop I loc s ctx = Some (s, ctx)"
  by (simp add: consume_pending_stop_def)

lemma report_without_watches:
  assumes "db_watches s = []"
  shows "\<exists>s' ctx'. report_stop I reason loc generation s ctx = Some (s', ctx')"
  using assms
  by (auto simp: report_stop_def refresh_snapshot_def update_watch_snapshot_def split: option.split)

lemma step_visit:
  assumes "stepping kind depth t bps s"
    and "\<forall>bp\<in>set bps. \<not> overlaps (vi_loc v) (bk_location bp)"
    and "reached \<longleftrightarrow> vi_thread v = Some t \<and> step_reached kind (vi_depth v) depth"
  shows "\<exists>e s' ctx'. on_statement_inner I show (Some (vi_loc v)) (vi_depth v)
      (set_current_thread (vi_thread v) s) (vi_ctx v) = Some (e, s', ctx') \<and>
    (if reached
     then e = HookWaits \<and> db_last_stop s' = Some \<lparr>dt_reason = StopStep, dt_location = Some (vi_loc v),
        dt_thread_id = Some t, dt_generation = None\<rparr>
     else e = HookReturns \<and> stepping kind depth t bps s')"
proof -
  let ?s = "note_arrival (Some (vi_loc v)) (vi_depth v) (vi_ctx v) (set_current_thread (vi_thread v) s)"
  have view: "db_mode ?s = ModeRunning" "db_target_thread ?s = Some t" "db_pending_stop ?s = None"
    "db_current_thread ?s = vi_thread v" "db_breakpoints ?s = bps" "db_watches ?s = []"
    "db_steps ?s = [(t, \<lparr>sp_kind = kind, sp_target_depth = depth, sp_started = True\<rparr>)]"
    using assms(1) arrival_effect [of "Some (vi_loc v)" "vi_depth v" "vi_ctx v" "set_current_thread (vi_thread v) s"]
    by (auto simp: stepping_def control_view_def set_current_thread_def)
  then have going: "stepping kind depth t bps ?s"
    by (simp add: stepping_def)
  have arrive: "arrive I show (Some (vi_loc v)) (vi_depth v) (set_current_thread (vi_thread v) s) (vi_ctx v) =
      check_running I show (vi_loc v) (vi_depth v) ?s (vi_ctx v)"
    using view(1) by (simp add: arrive_def running_consume)
  have target: "is_target_thread ?s \<longleftrightarrow> vi_thread v = Some t"
    using view by (auto simp: is_target_thread_def)
  show ?thesis
  proof (cases reached)
    case True
    let ?t = "?s\<lparr>db_steps := [], db_mode := ModePaused, db_pending_stop := None\<rparr>"
    have "check_step (vi_depth v) ?s = (True, ?s\<lparr>db_steps := []\<rparr>)"
      using view True assms(3)
      by (simp add: check_step_def step_key_def or_else_def im_contains_def im_get_def)
    then have running: "check_running I show (vi_loc v) (vi_depth v) ?s (vi_ctx v) =
        report_stop I StopStep (Some (vi_loc v)) None ?t (vi_ctx v)"
      using target True assms(3) by (simp add: check_running_def pause_at_def)
    obtain s' ctx' where report: "report_stop I StopStep (Some (vi_loc v)) None ?t (vi_ctx v) = Some (s', ctx')"
      using report_without_watches [of ?t] view(6) by fastforce
    have "consume_pending_stop I (Some (vi_loc v)) s' ctx' = Some (s', ctx')"
      using report_effect [OF report] by (auto simp: consume_pending_stop_def control_view_def)
    moreover have "db_mode s' = ModePaused" "is_target_thread s'" "db_last_stop s' = Some
        \<lparr>dt_reason = StopStep, dt_location = Some (vi_loc v), dt_thread_id = Some t, dt_generation = None\<rparr>"
      using report_effect [OF report] view True assms(3) by (auto simp: control_view_def is_target_thread_def)
    ultimately show ?thesis
      using True unfolding on_statement_inner_def arrive running report by (simp add: poll_hook_def)
  next
    case False
    have "(if is_target_thread ?s then check_step (vi_depth v) ?s else (False, ?s)) = (False, ?s)"
      using view False target assms(3)
      by (auto simp: check_step_def step_key_def or_else_def im_contains_def im_get_def)
    then have "check_running I show (vi_loc v) (vi_depth v) ?s (vi_ctx v) = Some (?s, vi_ctx v)"
      using no_overlap_match [OF assms(2)] view(5) by (simp add: check_running_def matches_breakpoint_def)
    then show ?thesis
      using False going view(1) by (simp add: on_statement_inner_def arrive poll_hook_def running_consume)
  qed
qed

text \<open>Where a step of a paused debugger is to end, by the depth of the call at which the thread was.\<close>

fun step_ends :: "control_action \<Rightarrow> u32 \<Rightarrow> u32 \<Rightarrow> bool" where
  "step_ends (ActStepOver _) start depth = (depth \<le> start)"
| "step_ends (ActStepOut _) start depth = (depth < start \<or> start = 0 \<and> depth = 0)"
| "step_ends _ start depth = True"

text \<open>C9: A step that a paused debugger is asked for ends at the first statement that the thread reaches
  at the right depth of calls: at the next one of the thread for a step in, at the next one no deeper
  than where it was for a step over, at the next one of a caller for a step out. Every statement
  before, and every statement of another thread, is passed (the breakpoints are set elsewhere); if
  there is none, the debugger keeps running.\<close>

theorem step_ends_there:
  assumes "db_mode s = ModePaused" and "db_watches s = []"
    and "action \<in> {ActStepIn (Some t), ActStepOver (Some t), ActStepOut (Some t)}"
    and "\<forall>v\<in>set visits. \<forall>bp\<in>set (db_breakpoints s). \<not> overlaps (vi_loc v) (bk_location bp)"
    and "found = find (\<lambda>v. vi_thread v = Some t \<and> step_ends action (depth_of_thread s (Some t)) (vi_depth v)) visits"
  shows "\<exists>s'. walk I show visits (snd (apply_action action s)) = Some (found, s') \<and>
    (case found of
       None \<Rightarrow> db_mode s' = ModeRunning
     | Some v \<Rightarrow> db_last_stop s' = Some \<lparr>dt_reason = StopStep, dt_location = Some (vi_loc v),
         dt_thread_id = Some t, dt_generation = None\<rparr>)"
proof -
  obtain kind depth where go: "stepping kind depth t (db_breakpoints s) (snd (apply_action action s))"
    and ends: "\<And>d. step_reached kind d depth = step_ends action (depth_of_thread s (Some t)) d"
  proof -
    have out: "(d \<le> (if c = 0 then 0 else c - 1)) = (d < c \<or> c = 0 \<and> d = 0)" for d c :: u32
    proof (cases "c = 0")
      case False
      then have "unat (c - 1) = unat c - 1" "0 < unat c"
        by (simp_all add: unat_minus_one unat_gt_0)
      then show ?thesis
        using False by (auto simp: word_le_nat_alt word_less_nat_alt)
    qed simp
    show ?thesis
      using assms(1-3) that
      by (auto simp: apply_action_def run_step_def stepping_def or_else_def Let_def out)
  qed
  have "\<exists>s'. walk I show visits s0 = Some (find (\<lambda>v. vi_thread v = Some t \<and> step_reached kind (vi_depth v) depth) visits, s') \<and>
      (case find (\<lambda>v. vi_thread v = Some t \<and> step_reached kind (vi_depth v) depth) visits of
         None \<Rightarrow> db_mode s' = ModeRunning
       | Some v \<Rightarrow> db_last_stop s' = Some \<lparr>dt_reason = StopStep, dt_location = Some (vi_loc v),
           dt_thread_id = Some t, dt_generation = None\<rparr>)"
    if "stepping kind depth t (db_breakpoints s) s0" for s0
    using that assms(4)
  proof (induction visits arbitrary: s0)
    case (Cons v vs)
    then have "\<forall>bp\<in>set (db_breakpoints s). \<not> overlaps (vi_loc v) (bk_location bp)"
      by simp
    from step_visit [OF Cons.prems(1) this refl, of I "show"]
    obtain e s1 ctx1 where visit: "on_statement_inner I show (Some (vi_loc v)) (vi_depth v)
        (set_current_thread (vi_thread v) s0) (vi_ctx v) = Some (e, s1, ctx1)"
      and e: "if vi_thread v = Some t \<and> step_reached kind (vi_depth v) depth
        then e = HookWaits \<and> db_last_stop s1 = Some \<lparr>dt_reason = StopStep, dt_location = Some (vi_loc v),
          dt_thread_id = Some t, dt_generation = None\<rparr>
        else e = HookReturns \<and> stepping kind depth t (db_breakpoints s) s1"
      by blast
    show ?case
    proof (cases "vi_thread v = Some t \<and> step_reached kind (vi_depth v) depth")
      case False
      then show ?thesis
        using e visit False Cons.IH [of s1] Cons.prems(2) by (auto split: if_splits)
    qed (use e visit in auto)
  qed (simp add: stepping_def)
  from this [OF go] show ?thesis
    by (simp add: ends assms(5))
qed

lemma step_ends_there_witness:
  "let s = debug_control_new\<lparr>db_mode := ModePaused, db_last_call_depth := 1\<rparr>;
     deep = \<lparr>vi_thread = Some 1, vi_loc = \<lparr>lo_file = 0, lo_start = 0, lo_end = 4\<rparr>, vi_depth = 2, vi_ctx = None\<rparr>;
     other = \<lparr>vi_thread = Some 2, vi_loc = \<lparr>lo_file = 0, lo_start = 9, lo_end = 12\<rparr>, vi_depth = 0, vi_ctx = None\<rparr>;
     again = \<lparr>vi_thread = Some 1, vi_loc = \<lparr>lo_file = 0, lo_start = 5, lo_end = 8\<rparr>, vi_depth = 1, vi_ctx = None\<rparr>
   in \<exists>s'. walk (interp_at 0) (\<lambda>_. []) [deep, other, again] (snd (apply_action (ActStepOver (Some 1)) s)) = Some (Some again, s')"
proof -
  let ?s = "debug_control_new\<lparr>db_mode := ModePaused, db_last_call_depth := 1\<rparr>"
  let ?deep = "\<lparr>vi_thread = Some 1, vi_loc = \<lparr>lo_file = 0, lo_start = 0, lo_end = 4\<rparr>, vi_depth = 2, vi_ctx = None\<rparr>"
  let ?other = "\<lparr>vi_thread = Some 2, vi_loc = \<lparr>lo_file = 0, lo_start = 9, lo_end = 12\<rparr>, vi_depth = 0, vi_ctx = None\<rparr>"
  let ?again = "\<lparr>vi_thread = Some 1, vi_loc = \<lparr>lo_file = 0, lo_start = 5, lo_end = 8\<rparr>, vi_depth = 1, vi_ctx = None\<rparr>"
  have "db_mode ?s = ModePaused" "db_watches ?s = []"
    "ActStepOver (Some 1) \<in> {ActStepIn (Some 1), ActStepOver (Some 1), ActStepOut (Some 1)}"
    "\<forall>v\<in>set [?deep, ?other, ?again]. \<forall>bp\<in>set (db_breakpoints ?s). \<not> overlaps (vi_loc v) (bk_location bp)"
    "Some ?again = find (\<lambda>v. vi_thread v = Some 1 \<and> step_ends (ActStepOver (Some 1)) (depth_of_thread ?s (Some 1)) (vi_depth v))
       [?deep, ?other, ?again]"
    by (simp_all add: debug_control_new_def depth_of_thread_def im_get_def word_le_nat_alt)
  from step_ends_there [OF this, of "interp_at 0" "\<lambda>_. []"] show ?thesis
    unfolding Let_def by blast
qed

section \<open>A pause that is lost\<close>

text \<open>
  While a pause for one thread is pending, a pause of all threads is ignored: the statements of the
  other threads run on, although the debugger is paused.
\<close>

lemma pause_of_all_ignored:
  assumes "db_mode s = ModeRunning" and "db_breakpoints s = []" and "vi_thread v \<noteq> Some t"
  shows "fst (apply_action (ActPause None) (snd (apply_action (ActPause (Some t)) s))) = Ignored \<and>
    (\<exists>s' ctx'. on_statement_inner I show (Some (vi_loc v)) (vi_depth v)
       (set_current_thread (vi_thread v) (snd (apply_action (ActPause None)
          (snd (apply_action (ActPause (Some t)) s))))) (vi_ctx v) = Some (HookReturns, s', ctx'))"
proof -
  let ?p = "snd (apply_action (ActPause None) (snd (apply_action (ActPause (Some t)) s)))"
  let ?s = "note_arrival (Some (vi_loc v)) (vi_depth v) (vi_ctx v) (set_current_thread (vi_thread v) ?p)"
  have view: "db_mode ?s = ModePaused" "db_target_thread ?s = Some t" "db_current_thread ?s = vi_thread v"
    "db_breakpoints ?s = []"
    using assms arrival_effect [of "Some (vi_loc v)" "vi_depth v" "vi_ctx v" "set_current_thread (vi_thread v) ?p"]
    by (auto simp: apply_action_def control_view_def set_current_thread_def)
  then have other: "\<not> is_target_thread ?s" "\<not> is_target_thread (?s\<lparr>db_breakpoints := []\<rparr>)"
    using assms(3) by (auto simp: is_target_thread_def)
  have pass: "consume_pending_stop I loc s0 ctx = Some (s0, ctx)" if "\<not> is_target_thread s0" for loc s0 ctx
    using that by (simp add: consume_pending_stop_def)
  have "check_running I show (vi_loc v) (vi_depth v) ?s (vi_ctx v) = Some (?s\<lparr>db_breakpoints := []\<rparr>, vi_ctx v)"
    using other(1) view(4) by (simp add: check_running_def matches_breakpoint_def)
  then have "on_statement_inner I show (Some (vi_loc v)) (vi_depth v) (set_current_thread (vi_thread v) ?p) (vi_ctx v) =
      Some (HookReturns, ?s\<lparr>db_breakpoints := []\<rparr>, vi_ctx v)"
    by (simp add: on_statement_inner_def arrive_def pass [OF other(1)] pass [OF other(2)] other poll_hook_def)
  then show ?thesis
    using assms(1) by (auto simp: apply_action_def)
qed

end
