(* ===== verification/Force_Properties.thy ===== *)
theory Force_Properties
  imports Io_Properties Cycle_Properties Debug_Control
begin

text \<open>
  Forced values: which value holds a target after a history of forcing and releasing, and what the
  variables and the image show when a cycle has written its outputs.
\<close>

section \<open>Tables of overriding values\<close>

text \<open>
  A table that the debugger holds in its state: a value is put for a key, in the place of an earlier
  one, or the key is released. Forced variables and forced addresses are two of them.
\<close>

locale override_table =
  fixes table :: "'s \<Rightarrow> ('k, 'v) index_map"
    and put :: "'k \<Rightarrow> 'v \<Rightarrow> 's \<Rightarrow> 's"
    and release :: "'k \<Rightarrow> 's \<Rightarrow> 's"
  assumes table_put: "table (put k v s) = im_insert k v (table s)"
    and table_release: "table (release k s) = filter (\<lambda>(current, _). current \<noteq> k) (table s)"
begin

lemma get_put: "im_get (table (put k v s)) k' = (if k' = k then Some v else im_get (table s) k')"
  by (simp add: table_put im_get_insert)

lemma get_release: "im_get (table (release k s)) k' = (if k' = k then None else im_get (table s) k')"
proof -
  have "map_of (filter (\<lambda>(current, _). current \<noteq> k) m) k' = (if k' = k then None else map_of m k')" for m :: "('k \<times> 'v) list"
    by (induction m) auto
  then show ?thesis
    by (simp add: table_release im_get_def)
qed

lemma ok_put: "im_ok (table s) \<Longrightarrow> im_ok (table (put k v s))"
  by (simp add: table_put im_ok_insert)

lemma ok_release: "im_ok (table s) \<Longrightarrow> im_ok (table (release k s))"
proof -
  have "distinct (map fst m) \<Longrightarrow> distinct (map fst (filter P m))" for m :: "('k \<times> 'v) list" and P
    by (induction m) auto
  then show "im_ok (table s) \<Longrightarrow> ?thesis"
    by (simp add: table_release im_ok_def)
qed

end

interpretation vars: override_table db_forced_vars set_forced_var clear_forced_var
  by unfold_locales (simp_all add: set_forced_var_def clear_forced_var_def)

interpretation cells: override_table db_forced_io force_io release_io
  by unfold_locales (simp_all add: force_io_def release_io_def)

section \<open>Histories\<close>

datatype force_op =
    ForceVar forced_target rvalue
  | ReleaseVar forced_target
  | ForceIo io_address rvalue
  | ReleaseIo io_address

fun apply_force :: "force_op \<Rightarrow> debug_state \<Rightarrow> debug_state" where
  "apply_force (ForceVar target v) = set_forced_var target v"
| "apply_force (ReleaseVar target) = clear_forced_var target"
| "apply_force (ForceIo address v) = force_io address v"
| "apply_force (ReleaseIo address) = release_io address"

text \<open>The last word on a target, and on an address.\<close>

fun forced_value :: "forced_target \<Rightarrow> rvalue option \<Rightarrow> force_op list \<Rightarrow> rvalue option" where
  "forced_value t x [] = x"
| "forced_value t x (op # ops) =
     forced_value t (case op of
        ForceVar t' v \<Rightarrow> if t' = t then Some v else x
      | ReleaseVar t' \<Rightarrow> if t' = t then None else x
      | _ \<Rightarrow> x) ops"

fun forced_cell :: "io_address \<Rightarrow> rvalue option \<Rightarrow> force_op list \<Rightarrow> rvalue option" where
  "forced_cell a x [] = x"
| "forced_cell a x (op # ops) =
     forced_cell a (case op of
        ForceIo a' v \<Rightarrow> if a' = a then Some v else x
      | ReleaseIo a' \<Rightarrow> if a' = a then None else x
      | _ \<Rightarrow> x) ops"

lemma other_table:
  "db_forced_io (set_forced_var t v s) = db_forced_io s" "db_forced_io (clear_forced_var t s) = db_forced_io s"
  "db_forced_vars (force_io a v s) = db_forced_vars s" "db_forced_vars (release_io a s) = db_forced_vars s"
  by (simp_all add: set_forced_var_def clear_forced_var_def force_io_def release_io_def)

lemma history_tables:
  "im_get (db_forced_vars (fold apply_force ops s)) t = forced_value t (im_get (db_forced_vars s) t) ops"
  "im_get (db_forced_io (fold apply_force ops s)) a = forced_cell a (im_get (db_forced_io s) a) ops"
  "im_ok (db_forced_vars s) \<Longrightarrow> im_ok (db_forced_vars (fold apply_force ops s))"
  "im_ok (db_forced_io s) \<Longrightarrow> im_ok (db_forced_io (fold apply_force ops s))"
proof (induction ops arbitrary: s)
  case (Cons op ops)
  {
    case 1
    show ?case
      using Cons.IH(1) by (cases op) (simp_all add: vars.get_put vars.get_release other_table)
  next
    case 2
    show ?case
      using Cons.IH(2) by (cases op) (simp_all add: cells.get_put cells.get_release other_table)
  next
    case 3
    then show ?case
      using Cons.IH(3) by (cases op) (simp_all add: vars.ok_put vars.ok_release other_table)
  next
    case 4
    then show ?case
      using Cons.IH(4) by (cases op) (simp_all add: cells.ok_put cells.ok_release other_table)
  }
qed simp_all

section \<open>Variables\<close>

fun read_target :: "variable_storage \<Rightarrow> forced_target \<Rightarrow> rvalue option" where
  "read_target s (ForcedGlobal name) = get_global s name"
| "read_target s (ForcedRetain name) = get_retain s name"
| "read_target s (ForcedInstance i name) = get_instance_var s i name"

text \<open>A variable can be set unless it is one of an instance that does not exist.\<close>

fun target_exists :: "variable_storage \<Rightarrow> forced_target \<Rightarrow> bool" where
  "target_exists s (ForcedInstance i _) = (vs_instances s i \<noteq> None)"
| "target_exists s _ = True"

lemma force_var_exists: "target_exists (force_var e s) t = target_exists s t"
  by (cases e; cases "fst e"; cases t)
    (auto simp: force_var_def set_global_def set_retain_def set_instance_var_def split: option.split)

lemma force_var_read:
  "read_target (force_var (t, v) s) t' =
     (if t' = t \<and> target_exists s t then Some v else read_target s t')"
  by (cases t; cases t')
    (auto simp: force_var_def set_global_def get_global_def set_retain_def get_retain_def
      set_instance_var_def get_instance_var_def im_get_insert split: option.split)

lemma forced_read:
  assumes "im_ok forced"
  shows "read_target (fold force_var forced s) t =
    (case im_get forced t of
       Some v \<Rightarrow> if target_exists s t then Some v else read_target s t
     | None \<Rightarrow> read_target s t)"
  using assms
proof (induction forced arbitrary: s)
  case (Cons e forced)
  obtain t1 v where e: "e = (t1, v)"
    by fastforce
  have "im_get forced t1 = None"
    using Cons.prems by (auto simp: e im_ok_def im_get_def map_of_eq_None_iff)
  then show ?case
    using Cons.IH [of "force_var (t1, v) s"] Cons.prems unfolding e
    by (auto simp: force_var_exists force_var_read im_ok_def im_get_def split: option.split)
qed (simp add: im_get_def)

section \<open>The image\<close>

lemma force_image_writes: "force_image ws io = write_all io_write ws io"
  by (induction ws io rule: force_image.induct) (auto split: prod.splits sum.splits)

lemma write_all_append:
  assumes "write_all store (as @ bs) i = (Inr (), i')"
  obtains j where "write_all store as i = (Inr (), j)" and "write_all store bs j = (Inr (), i')"
  using assms by (induction as arbitrary: i thesis) (auto split: prod.splits sum.splits)

lemma forced_image_read:
  assumes "force_image ws io = (Inr (), io')" and "im_ok ws" and "im_get ws a = Some v"
    and "\<forall>c\<in>set ws. valid_address (fst c)"
    and "\<forall>c\<in>set ws. fst c \<noteq> a \<longrightarrow> cells_apart (fst c) a"
  shows "io_read io' a = Inr v"
proof -
  have "(a, v) \<in> set ws"
    using assms(3) by (simp add: im_get_def map_of_SomeD)
  then obtain as bs where ws: "ws = as @ (a, v) # bs"
    by (auto simp: in_set_conv_decomp)
  obtain j k where "io_write a v j = (Inr (), k)" and rest: "write_all io_write bs k = (Inr (), io')"
    using assms(1) unfolding force_image_writes ws
    by (elim write_all_append) (auto split: prod.splits sum.splits)
  then have "io_read k a = Inr v"
    using image.read_same assms(4) by (simp add: ws)
  moreover have "\<forall>c\<in>set bs. fst c \<noteq> a"
    using assms(2) by (auto simp: ws im_ok_def image_iff)
  ultimately show ?thesis
    using image.write_all_other [OF rest, of a] assms(4,5) by (simp add: ws)
qed

section \<open>The end of a cycle\<close>

lemma hold_forced_effect:
  assumes "hold_forced (s, rt) = Some (Inr u, s', rt')"
  shows "s' = s \<and> rt_storage rt' = fold force_var (db_forced_vars s) (rt_storage rt) \<and>
    force_image (db_forced_io s) (is_interface (rc_io rt)) = (Inr (), is_interface (rc_io rt'))"
  using assms
  by (auto simp: hold_forced_def apply_forced_values_def set_interface_def split: prod.splits sum.splits)

lemma beside_effect:
  "beside m (s, rt) = Some (r, s', rt') \<longleftrightarrow> m rt = Some (r, rt') \<and> s' = s"
  by (auto simp: beside_def split: option.splits prod.splits)

text \<open>C11: When a cycle has written its outputs, every variable that was forced, and not released since,
  has the value it was forced to last, and so has every forced address of the image that shares no
  bit with another one: this is what the drivers are given. Every other variable has the value that
  the programs left.\<close>

theorem forced_values_hold:
  assumes "s = fold apply_force ops debug_control_new"
    and "debug_write_cycle_outputs drv (s, rt) = Some (Inr u, s', rt')"
  shows "(\<forall>target. read_target (rt_storage rt') target =
      (case forced_value target None ops of
         Some v \<Rightarrow> if target_exists (rt_storage rt) target then Some v else read_target (rt_storage rt) target
       | None \<Rightarrow> read_target (rt_storage rt) target)) \<and>
    (\<forall>a v. forced_cell a None ops = Some v \<longrightarrow>
      (\<forall>b w. forced_cell b None ops = Some w \<longrightarrow> valid_address b \<and> (b \<noteq> a \<longrightarrow> cells_apart b a)) \<longrightarrow>
      io_read (is_interface (rc_io rt')) a = Inr v)"
proof -
  have new: "db_forced_vars debug_control_new = []" "db_forced_io debug_control_new = []"
    by (simp_all add: debug_control_new_def)
  have tables: "im_get (db_forced_vars s) t = forced_value t None ops"
    "im_get (db_forced_io s) a = forced_cell a None ops" "im_ok (db_forced_vars s)" "im_ok (db_forced_io s)" for t a
    using history_tables [where ops = ops and s = debug_control_new] unfolding assms(1) new by (simp_all add: im_get_def)
  obtain v1 rt1 v2 rt2 s3 where bound: "write_bound rt = Some (Inr v1, rt1)"
    and hold: "hold_forced (s, rt1) = Some (Inr v2, s, rt2)"
    and drivers: "io_step (is_write_outputs drv) rt2 = Some (Inr u, rt')"
  proof -
    from assms(2) obtain v1 rt1 v2 s2 rt2 where "write_bound rt = Some (Inr v1, rt1)"
      and hold: "hold_forced (s, rt1) = Some (Inr v2, s2, rt2)"
      and "io_step (is_write_outputs drv) rt2 = Some (Inr u, rt')"
      by (auto simp: debug_write_cycle_outputs_def ebind_def beside_effect emit_io_snapshot_def
          split: option.splits sum.splits)
    with that hold_forced_effect [OF hold] show ?thesis
      by blast
  qed
  have storage: "rt_storage rt1 = rt_storage rt" "rt_storage rt' = rt_storage rt2"
    "is_interface (rc_io rt') = is_interface (rc_io rt2)"
    using bound drivers
    by (auto simp: write_bound_def set_interface_def io_step_def is_write_outputs_def split: prod.splits)
  note effect = hold_forced_effect [OF hold]
  have "io_read (is_interface (rc_io rt')) a = Inr v" if "forced_cell a None ops = Some v"
    "\<forall>b w. forced_cell b None ops = Some w \<longrightarrow> valid_address b \<and> (b \<noteq> a \<longrightarrow> cells_apart b a)" for a v
  proof -
    have entry: "forced_cell b None ops = Some w" if "(b, w) \<in> set (db_forced_io s)" for b w
      using tables(4) that unfolding tables(2) [symmetric] by (simp add: im_get_def im_ok_def)
    have "\<forall>c\<in>set (db_forced_io s). valid_address (fst c)"
      "\<forall>c\<in>set (db_forced_io s). fst c \<noteq> a \<longrightarrow> cells_apart (fst c) a"
      using entry that(2) by (metis prod.collapse)+
    moreover have "force_image (db_forced_io s) (is_interface (rc_io rt1)) = (Inr (), is_interface (rc_io rt'))"
      using effect storage(3) by simp
    moreover have "im_get (db_forced_io s) a = Some v"
      using that(1) tables(2) by simp
    ultimately show ?thesis
      using forced_image_read tables(4) by blast
  qed
  then show ?thesis
    using effect storage forced_read [OF tables(3)] by (simp add: tables(1))
qed

lemma forced_values_hold_witness:
  "let ops = [ForceVar (ForcedGlobal ''X'') (VBool True), ForceIo (sample_address IoBit 3) (VBool True)];
     end = the (debug_write_cycle_outputs (pf_drivers plain_platform)
       (fold apply_force ops debug_control_new, plain_runtime []))
   in get_global (rt_storage (snd (snd end))) ''X'' = Some (VBool True) \<and>
     io_read (is_interface (rc_io (snd (snd end)))) (sample_address IoBit 3) = Inr (VBool True)"
proof -
  let ?ops = "[ForceVar (ForcedGlobal ''X'') (VBool True), ForceIo (sample_address IoBit 3) (VBool True)]"
  let ?s = "fold apply_force ?ops debug_control_new"
  obtain u s' rt' where run: "debug_write_cycle_outputs (pf_drivers plain_platform) (?s, plain_runtime []) =
      Some (Inr u, s', rt')"
    by (simp add: debug_write_cycle_outputs_def ebind_def beside_def write_bound_def io_write_outputs_def
        hold_forced_def apply_forced_values_def emit_io_snapshot_def io_step_def is_write_outputs_def
        set_interface_def plain_simps debug_control_new_def set_forced_var_def force_io_def im_insert_def
        io_write_def sample_address_def Let_def)
  have "valid_address (sample_address IoBit 3)"
    by (simp add: valid_address_def sample_address_def)
  then show ?thesis
    using forced_values_hold [OF refl run] unfolding Let_def run option.sel snd_conv
    by (fastforce dest: spec [of _ "ForcedGlobal ''X''"] split: if_splits)
qed

section \<open>Where forcing fails\<close>

text \<open>
  A forced global that is bound to an input gets the value of the image before the tasks run: the
  bound inputs are read after the forced values are set.
\<close>

lemma forced_global_lost_to_input:
  assumes "hold_forced (s, rt) = Some (Inr u, s', rt1)" and "read_bound rt1 = Some (Inr u', rt2)"
    and "ii_bindings (is_interface (rc_io rt1)) = [b]" and "ib_target b = TargetName name"
    and "ib_value_type b = None" and "ia_area (ib_address b) = AreaInput"
    and "io_read (is_interface (rc_io rt1)) (ib_address b) = Inr w"
  shows "get_global (rt_storage rt2) name = Some w"
  using assms(2-)
  by (auto simp: read_bound_def io_read_inputs_def is_input_area_def coerce_opt_def store_target_def
      set_global_def get_global_def im_get_insert split: prod.splits)

text \<open>
  A forced global that is bound to an output shows its forced value, but the drivers are given the
  value the programs wrote to it: the image is filled before the forced values are set.
\<close>

lemma forced_global_not_at_output:
  assumes "debug_write_cycle_outputs drv (s, rt) = Some (Inr u, s', rt')"
    and "db_forced_io s = []" and "im_ok (db_forced_vars s)"
    and "im_get (db_forced_vars s) (ForcedGlobal name) = Some v"
    and "ii_bindings (is_interface (rc_io rt)) = [b]" and "ib_target b = TargetName name"
    and "ib_value_type b = None" and "ia_area (ib_address b) = AreaOutput"
    and "valid_address (ib_address b)" and "get_global (rt_storage rt) name = Some w"
  shows "get_global (rt_storage rt') name = Some v \<and>
    io_read (is_interface (rc_io rt')) (ib_address b) = Inr w"
proof -
  obtain v1 rt1 v2 s2 rt2 where bound: "write_bound rt = Some (Inr v1, rt1)"
    and hold: "hold_forced (s, rt1) = Some (Inr v2, s2, rt2)"
    and drivers: "io_step (is_write_outputs drv) rt2 = Some (Inr u, rt')"
    using assms(1)
    by (auto simp: debug_write_cycle_outputs_def ebind_def beside_effect emit_io_snapshot_def
        split: option.splits sum.splits)
  have "io_write (ib_address b) w (is_interface (rc_io rt)) = (Inr (), is_interface (rc_io rt1))"
    "rt_storage rt1 = rt_storage rt"
    using bound assms(5-10)
    by (auto simp: write_bound_def set_interface_def io_write_outputs_def is_output_area_def
        load_target_def coerce_opt_def split: prod.splits sum.splits)
  then have "io_read (is_interface (rc_io rt1)) (ib_address b) = Inr w"
    using image.read_same [OF assms(9)] by blast
  moreover have "is_interface (rc_io rt') = is_interface (rc_io rt1)" "rt_storage rt' = rt_storage rt2"
    using hold_forced_effect [OF hold] drivers assms(2)
    by (auto simp: io_step_def is_write_outputs_def split: prod.splits)
  moreover have "get_global (rt_storage rt2) name = Some v"
    using hold_forced_effect [OF hold] forced_read [OF assms(3), of _ "ForcedGlobal name"] assms(4) by simp
  ultimately show ?thesis
    by simp
qed

end
