(* ===== verification/Line_Properties.thy ===== *)
theory Line_Properties
  imports Debug_Lines
begin

text \<open>
  Properties of positions: lines and columns agree with a count of the newlines, and a breakpoint goes
  to the nearest statement.
\<close>

section \<open>Lines counted\<close>

text \<open>The reference: the line is the number of newlines before the offset.\<close>

definition newlines_before :: "rstr \<Rightarrow> nat \<Rightarrow> nat" where
  "newlines_before source offset = length (filter (\<lambda>b. b = newline) (take offset source))"

text \<open>The number of bytes between the last newline before the offset, or the start of the text, and
  the offset.\<close>

definition column_of :: "rstr \<Rightarrow> nat \<Rightarrow> nat" where
  "column_of source offset = length (takeWhile (\<lambda>b. b \<noteq> newline) (rev (take offset source)))"

lemma starts_after_bounds: "s \<in> set (starts_after idx bs) \<Longrightarrow> idx < s \<and> s \<le> idx + length bs"
  by (induction bs arbitrary: idx) (fastforce split: if_splits)+

lemma sorted_starts_after: "sorted_wrt (<) (starts_after idx bs)"
  by (induction bs arbitrary: idx) (auto dest: starts_after_bounds)

lemma sorted_line_starts: "sorted_wrt (<) (line_starts source)"
  by (auto simp: line_starts_def sorted_starts_after dest: starts_after_bounds)

lemma starts_upto:
  "length (filter (\<lambda>s. s \<le> offset) (starts_after idx bs)) =
     length (filter (\<lambda>b. b = newline) (take (offset - idx) bs))"
proof (induction bs arbitrary: idx)
  case (Cons b bs)
  have none: "filter (\<lambda>s. s \<le> offset) (starts_after (Suc idx) bs) = []" if "offset \<le> idx"
    using that by (auto simp: filter_empty_conv dest!: starts_after_bounds)
  show ?case
  proof (cases "offset \<le> idx")
    case False
    then have "offset - idx = Suc (offset - Suc idx)"
      by simp
    then show ?thesis
      using Cons.IH [of "Suc idx"] False by simp
  qed (use none in auto)
qed simp

text \<open>In an ordered list the index is the number of the starts up to the offset, less one.\<close>

lemma sorted_index:
  assumes "sorted_wrt (<) (xs :: nat list)" and "find_index (\<lambda>s. s = x) xs = Some i"
  shows "Suc i = length (filter (\<lambda>s. s \<le> x) xs)"
  using assms
proof (induction xs arbitrary: i)
  case (Cons a xs)
  show ?case
  proof (cases "a = x")
    case True
    then have "filter (\<lambda>s. s \<le> x) xs = []"
      using Cons.prems(1) by (auto simp: filter_empty_conv)
    with True Cons.prems(2) show ?thesis
      by simp
  next
    case False
    then obtain j where j: "find_index (\<lambda>s. s = x) xs = Some j" and i: "i = Suc j"
      using Cons.prems(2) by (auto split: option.splits)
    have "x \<in> set xs"
      using j by (induction xs arbitrary: j) (auto split: if_splits option.splits)
    then have "a < x"
      using Cons.prems(1) by simp
    then show ?thesis
      using Cons.IH [of j] Cons.prems(1) j i by simp
  qed
qed simp

lemma index_absent: "find_index (\<lambda>s. s = x) xs = None \<Longrightarrow> x \<notin> set xs"
  by (induction xs) (auto split: if_splits option.splits)

lemma line_index_count:
  "Suc (line_index (line_starts source) offset) =
     length (filter (\<lambda>s. s \<le> offset) (line_starts source))"
proof (cases "find_index (\<lambda>s. s = offset) (line_starts source)")
  case None
  then have "filter (\<lambda>s. s \<le> offset) (line_starts source) = filter (\<lambda>s. s < offset) (line_starts source)"
    using index_absent [OF None] by (intro filter_cong) (auto simp: le_less)
  moreover have "0 < offset"
    using index_absent [OF None] by (auto simp: line_starts_def)
  ultimately show ?thesis
    using None by (simp add: line_index_def line_starts_def)
next
  case (Some i)
  then show ?thesis
    using sorted_index [OF sorted_line_starts Some] by (simp add: line_index_def)
qed

lemma line_index_newlines:
  "line_index (line_starts source) offset = newlines_before source offset"
  using line_index_count [of source offset] starts_upto [of offset 0 source]
  by (simp add: line_starts_def newlines_before_def)

text \<open>The starts of a text go on where those of its beginning end.\<close>

lemma starts_append:
  "starts_after idx (as @ bs) = starts_after idx as @ starts_after (idx + length as) bs"
  by (induction as arbitrary: idx) simp_all

lemma length_starts: "length (starts_after idx bs) = length (filter (\<lambda>b. b = newline) bs)"
  by (induction bs arbitrary: idx) simp_all

lemma last_start:
  "last (line_starts bs) + length (takeWhile (\<lambda>b. b \<noteq> newline) (rev bs)) = length bs"
  by (induction bs rule: rev_induct) (auto simp: line_starts_def starts_append)

lemma nth_last: "length xs = Suc n \<Longrightarrow> (xs @ ys) ! n = last xs"
  by (cases xs rule: rev_cases) (auto simp: nth_append)

lemma line_start_column:
  assumes "offset \<le> length source"
  shows "newlines_before source offset < length (line_starts source)"
    and "line_starts source ! newlines_before source offset + column_of source offset = offset"
proof -
  let ?pre = "take offset source"
  have split: "line_starts source = line_starts ?pre @ starts_after (length ?pre) (drop offset source)"
    using starts_append [of 0 ?pre "drop offset source"] by (simp add: line_starts_def)
  have len: "length (line_starts ?pre) = Suc (newlines_before source offset)"
    by (simp add: line_starts_def length_starts newlines_before_def)
  then show "newlines_before source offset < length (line_starts source)"
    unfolding split by simp
  have "line_starts source ! newlines_before source offset = last (line_starts ?pre)"
    unfolding split by (rule nth_last [OF len])
  then show "line_starts source ! newlines_before source offset + column_of source offset = offset"
    using last_start [of ?pre] assms by (simp add: column_of_def)
qed

lemma to_u32_small: "n < 2 ^ 32 \<Longrightarrow> to_u32_or_0 n = of_nat n"
  by (simp add: to_u32_or_0_def to_u32_def)

lemma newlines_le: "newlines_before source offset \<le> offset"
  using length_filter_le [of _ "take offset source"] by (simp add: newlines_before_def le_trans)

lemma unat_to_u32: "n < 2 ^ 32 \<Longrightarrow> unat (to_u32_or_0 n) = n"
  by (simp add: to_u32_small unsigned_of_nat take_bit_nat_eq_self)

text \<open>The line and the column of an offset are the number of newlines before it and the number of
  bytes since the last of them: for every offset of a text, and so the start of that line plus the
  column is the offset again.\<close>

theorem line_col_exact:
  assumes "unat offset \<le> length source" and "offset_to_line_col source offset = (line, column)"
  shows "unat line = newlines_before source (unat offset) \<and>
    unat column = column_of source (unat offset) \<and>
    unat line < length (line_starts source) \<and>
    line_starts source ! unat line + unat column = unat offset"
proof -
  let ?o = "unat offset"
  note at = line_start_column [OF assms(1)]
  have "?o < 2 ^ 32"
    using unsigned_less [of offset] by simp
  then have small: "newlines_before source ?o < 2 ^ 32" "column_of source ?o < 2 ^ 32"
    using newlines_le [of source ?o] at(2) by linarith+
  have "?o - line_starts source ! newlines_before source ?o = column_of source ?o"
    using at(2) by linarith
  then have "line = of_nat (newlines_before source ?o)" "column = of_nat (column_of source ?o)"
    using assms(2) at(1) small
    by (auto simp: offset_to_line_col_def Let_def line_index_newlines to_u32_small)
  then show ?thesis
    using at small by (simp add: unsigned_of_nat take_bit_nat_eq_self)
qed

lemma line_col_exact_witness:
  "offset_to_line_col [CHR ''a'', newline, CHR ''b'', CHR ''c''] 3 = (1, 1) \<and>
   newlines_before [CHR ''a'', newline, CHR ''b'', CHR ''c''] 3 = 1"
proof -
  have "offset_to_line_col [CHR ''a'', newline, CHR ''b'', CHR ''c''] 3 = (1, 1)"
    by (simp add: offset_to_line_col_def Let_def line_starts_def line_index_def newline_def
        to_u32_or_0_def to_u32_def)
  then show ?thesis
    using line_col_exact [of 3 "[CHR ''a'', newline, CHR ''b'', CHR ''c'']" 1 1] by simp
qed

section \<open>The statement of a position\<close>

text \<open>What the loop over the statements of the file keeps, for the statements it has seen.\<close>

definition before_ok ::
    "nat list \<Rightarrow> nat \<Rightarrow> u32 \<Rightarrow> source_location set \<Rightarrow> (u32 \<times> source_location) option \<Rightarrow> bool" where
  "before_ok starts line_idx column seen best \<longleftrightarrow>
     (let on_line = (\<lambda>s. line_index starts (unat (lo_start s)) = line_idx);
          col = statement_col starts line_idx
      in case best of
           None \<Rightarrow> \<forall>s\<in>seen. on_line s \<longrightarrow> \<not> col s \<le> column
         | Some (c, stmt) \<Rightarrow> stmt \<in> seen \<and> on_line stmt \<and> c = col stmt \<and> c \<le> column \<and>
             (\<forall>s\<in>seen. on_line s \<longrightarrow> col s \<le> column \<longrightarrow> col s \<le> c))"

definition after_ok ::
    "nat list \<Rightarrow> nat \<Rightarrow> u32 \<Rightarrow> source_location set \<Rightarrow> (u32 \<times> source_location) option \<Rightarrow> bool" where
  "after_ok starts line_idx column seen best \<longleftrightarrow>
     (let on_line = (\<lambda>s. line_index starts (unat (lo_start s)) = line_idx);
          col = statement_col starts line_idx
      in case best of
           None \<Rightarrow> \<forall>s\<in>seen. on_line s \<longrightarrow> col s \<le> column
         | Some (c, stmt) \<Rightarrow> stmt \<in> seen \<and> on_line stmt \<and> c = col stmt \<and> \<not> c \<le> column \<and>
             (\<forall>s\<in>seen. on_line s \<longrightarrow> \<not> col s \<le> column \<longrightarrow> c \<le> col s))"

lemma before_ok_step:
  assumes "before_ok starts n column seen best"
  shows "before_ok starts n column (insert stmt seen)
    (if line_index starts (unat (lo_start stmt)) \<noteq> n \<or> \<not> statement_col starts n stmt \<le> column then best
     else case best of
        Some (c, _) \<Rightarrow> if statement_col starts n stmt \<le> c then best
          else Some (statement_col starts n stmt, stmt)
      | None \<Rightarrow> Some (statement_col starts n stmt, stmt))"
  using assms by (fastforce simp: before_ok_def Let_def split: option.splits)

lemma after_ok_step:
  assumes "after_ok starts n column seen best"
  shows "after_ok starts n column (insert stmt seen)
    (if line_index starts (unat (lo_start stmt)) \<noteq> n \<or> statement_col starts n stmt \<le> column then best
     else case best of
        Some (c, _) \<Rightarrow> if c \<le> statement_col starts n stmt then best
          else Some (statement_col starts n stmt, stmt)
      | None \<Rightarrow> Some (statement_col starts n stmt, stmt))"
  using assms by (fastforce simp: after_ok_def Let_def split: option.splits)

lemma best_on_line_ok:
  assumes "before_ok starts n column seen b" and "after_ok starts n column seen a"
    and "best_on_line starts n column stmts b a = (b', a')"
  shows "before_ok starts n column (seen \<union> set stmts) b' \<and> after_ok starts n column (seen \<union> set stmts) a'"
  using assms
proof (induction stmts arbitrary: seen a b)
  case (Cons stmt stmts)
  note steps = before_ok_step [OF Cons.prems(1), of stmt] after_ok_step [OF Cons.prems(2), of stmt]
  have "insert stmt seen \<union> set stmts = seen \<union> set (stmt # stmts)"
    by simp
  then show ?case
    using Cons.IH [OF steps] Cons.prems(3) by (auto simp: Let_def split: if_splits)
qed simp

text \<open>Loops that keep the least element of those seen that qualify.\<close>

definition least_ok :: "('a \<Rightarrow> bool) \<Rightarrow> ('a \<Rightarrow> nat) \<Rightarrow> 'a set \<Rightarrow> 'a option \<Rightarrow> bool" where
  "least_ok P key seen best \<longleftrightarrow>
     (case best of
        None \<Rightarrow> \<forall>s\<in>seen. \<not> P s
      | Some x \<Rightarrow> x \<in> seen \<and> P x \<and> (\<forall>s\<in>seen. P s \<longrightarrow> key x \<le> key s))"

lemma least_ok_step:
  assumes "least_ok P key seen best"
  shows "least_ok P key (insert x seen)
    (if P x \<and> (case best of Some y \<Rightarrow> key x < key y | None \<Rightarrow> True) then Some x else best)"
  using assms by (fastforce simp: least_ok_def split: option.splits)

definition contains_offset :: "u32 \<Rightarrow> source_location \<Rightarrow> bool" where
  "contains_offset offset s \<longleftrightarrow> lo_start s \<le> offset \<and> offset \<le> lo_end s"

lemma best_containing_ok:
  "least_ok (contains_offset offset) span_of seen b \<Longrightarrow>
   least_ok (contains_offset offset) span_of (seen \<union> set stmts) (best_containing offset stmts b)"
proof (induction stmts arbitrary: seen b)
  case (Cons x xs)
  show ?case
    using Cons.IH [OF least_ok_step [OF Cons.prems, of x]] by (simp add: contains_offset_def)
qed simp

lemma next_stmt_ok:
  "least_ok (\<lambda>s. offset \<le> lo_start s) (\<lambda>s. unat (lo_start s)) seen b \<Longrightarrow>
   least_ok (\<lambda>s. offset \<le> lo_start s) (\<lambda>s. unat (lo_start s)) (seen \<union> set stmts)
     (next_stmt offset stmts b)"
proof (induction stmts arbitrary: seen b)
  case (Cons x xs)
  have "(case b of Some y \<Rightarrow> unat (lo_start x) < unat (lo_start y) | None \<Rightarrow> True) =
      (case b of Some y \<Rightarrow> lo_start x < lo_start y | None \<Rightarrow> True)"
    by (simp add: word_less_nat_alt split: option.split)
  then show ?case
    using Cons.IH [OF least_ok_step [OF Cons.prems, of x]] by simp
qed simp

text \<open>Columns on a line are distances from its start.\<close>

lemma newlines_min: "newlines_before source (min offset (length source)) = newlines_before source offset"
  by (simp add: newlines_before_def min_def)

lemma line_start_le: "line_starts source ! newlines_before source offset \<le> offset"
  using line_start_column(2) [of "min offset (length source)" source] by (simp add: newlines_min)

lemma unat_statement_col:
  assumes "newlines_before source (unat (lo_start s)) = line"
  shows "unat (statement_col (line_starts source) line s) + line_starts source ! line = unat (lo_start s)"
proof -
  have le: "line_starts source ! line \<le> unat (lo_start s)"
    using line_start_le [of source "unat (lo_start s)"] assms by simp
  have "unat (lo_start s) < 2 ^ LENGTH(32)"
    by (rule unsigned_less)
  then have "unat (to_u32_or_0 (unat (lo_start s) - line_starts source ! line)) =
      unat (lo_start s) - line_starts source ! line"
    by (intro unat_to_u32) simp
  then show ?thesis
    using le by (simp only: statement_col_def if_True le_add_diff_inverse2)
qed

text \<open>
  The reference: the statement that a position of the editor stands for. On a line on which
  statements start it is the last one at or before the position, else the first one of the line;
  on any other line it is the shortest one around the position, else the next one of the file.
\<close>

definition starts_on :: "rstr \<Rightarrow> nat \<Rightarrow> source_location \<Rightarrow> bool" where
  "starts_on source line s \<longleftrightarrow> newlines_before source (unat (lo_start s)) = line"

definition nearest_statement ::
    "rstr \<Rightarrow> nat \<Rightarrow> nat \<Rightarrow> u32 \<Rightarrow> source_location set \<Rightarrow> source_location \<Rightarrow> bool" where
  "nearest_statement source line position offset stmts stmt \<longleftrightarrow>
     (let at = (\<lambda>s. unat (lo_start s));
          reached = {s \<in> stmts. starts_on source line s \<and> at s \<le> position};
          on_line = {s \<in> stmts. starts_on source line s};
          around = {s \<in> stmts. contains_offset offset s};
          later = {s \<in> stmts. offset \<le> lo_start s}
      in if reached \<noteq> {} then stmt \<in> reached \<and> (\<forall>s\<in>reached. at s \<le> at stmt)
         else if on_line \<noteq> {} then stmt \<in> on_line \<and> (\<forall>s\<in>on_line. at stmt \<le> at s)
         else if around \<noteq> {} then stmt \<in> around \<and> (\<forall>s\<in>around. span_of stmt \<le> span_of s)
         else stmt \<in> later \<and> (\<forall>s\<in>later. at stmt \<le> at s))"

lemma col_le_column:
  assumes "starts_on source line s"
  shows "statement_col (line_starts source) line s \<le> column \<longleftrightarrow>
    unat (lo_start s) \<le> line_starts source ! line + unat column"
  using unat_statement_col [of source s line] assms unfolding starts_on_def word_le_nat_alt by linarith

lemma col_back:
  "starts_on source line s \<Longrightarrow>
   line_starts source ! line + unat (statement_col (line_starts source) line s) = unat (lo_start s)"
  using unat_statement_col [of source s line] unfolding starts_on_def by linarith

text \<open>What the two results of the first loop mean.\<close>

lemma before_meaning:
  assumes "before_ok (line_starts source) line column stmts b"
    and "position = line_starts source ! line + unat column"
  shows "case b of
      None \<Rightarrow> \<forall>s\<in>stmts. starts_on source line s \<longrightarrow> \<not> unat (lo_start s) \<le> position
    | Some (c, stmt) \<Rightarrow> stmt \<in> stmts \<and> starts_on source line stmt \<and> unat (lo_start stmt) \<le> position \<and>
        (\<forall>s\<in>stmts. starts_on source line s \<longrightarrow> unat (lo_start s) \<le> position \<longrightarrow>
          unat (lo_start s) \<le> unat (lo_start stmt))"
  using assms(1)
  unfolding before_ok_def Let_def line_index_newlines starts_on_def [symmetric] assms(2)
  by (cases b) (auto simp: col_le_column col_back)

lemma after_meaning:
  assumes "after_ok (line_starts source) line column stmts a"
    and "position = line_starts source ! line + unat column"
  shows "case a of
      None \<Rightarrow> \<forall>s\<in>stmts. starts_on source line s \<longrightarrow> unat (lo_start s) \<le> position
    | Some (c, stmt) \<Rightarrow> stmt \<in> stmts \<and> starts_on source line stmt \<and>
        (\<forall>s\<in>stmts. starts_on source line s \<longrightarrow> \<not> unat (lo_start s) \<le> position \<longrightarrow>
          unat (lo_start stmt) \<le> unat (lo_start s))"
  using assms(1)
  unfolding after_ok_def Let_def line_index_newlines starts_on_def [symmetric] assms(2)
  by (cases a) (auto simp: col_le_column col_back)

text \<open>
  The documents ask for the first statement at or after the position; the code prefers one that starts
  before it on the same line: here the second column of \<open>a; b;\<close>.
\<close>

lemma breakpoint_goes_back:
  "resolve_breakpoint_location ''a; b;'' 0
     [\<lparr>lo_file = 0, lo_start = 0, lo_end = 2\<rparr>, \<lparr>lo_file = 0, lo_start = 3, lo_end = 5\<rparr>] 0 1 =
   Some \<lparr>lo_file = 0, lo_start = 0, lo_end = 2\<rparr>"
proof -
  have "line_starts ''a; b;'' = [0]"
    by (simp add: line_starts_def newline_def)
  moreover have "\<not> (3 :: u32) \<le> 1"
    by (simp add: word_le_nat_alt)
  ultimately show ?thesis
    by (simp add: resolve_breakpoint_location_def Let_def line_index_def statement_col_def
        to_u32_or_0_def to_u32_def)
qed

text \<open>C17: Which statement a breakpoint at a line and a column goes to, among those of the file. If
  statements start on the line, it is the last of them that starts at or before the column, or the
  first one when all start after it; on a line where none starts it is the shortest one that spans
  the position, or else the next one behind it. Nothing is found only if no statement starts on the
  line, spans the position or starts at or behind it. (The documents ask for the first statement at
  or after the position, which is another one in the cases that look back.)\<close>

theorem breakpoint_resolved:
  assumes "unat line < length (line_starts source)" and "length source < 2 ^ 32"
    and "position = line_starts source ! unat line + unat column"
    and "offset = of_nat (min position
      (if unat line + 1 < length (line_starts source) then line_starts source ! (unat line + 1) - 1
       else length source))"
    and "stmts = {s \<in> set statements. lo_file s = file_id}"
  shows "case resolve_breakpoint_location source file_id statements line column of
      Some stmt \<Rightarrow> nearest_statement source (unat line) position offset stmts stmt
    | None \<Rightarrow> \<forall>s\<in>stmts. \<not> starts_on source (unat line) s \<and> \<not> contains_offset offset s \<and> lo_start s < offset"
proof -
  let ?starts = "line_starts source" and ?l = "unat line"
  let ?stop = "if ?l + 1 < length ?starts then ?starts ! (?l + 1) - 1 else length source"
  let ?stmts = "filter (\<lambda>s. lo_file s = file_id) statements"
  have "?stop \<le> length source"
    using starts_after_bounds [of "?starts ! Suc ?l" 0 source]
    by (auto simp: line_starts_def nth_Cons split: nat.splits)
  then have fits: "to_u32 (min position ?stop) = Some offset"
    using assms(2) by (auto simp: to_u32_def assms(4))
  obtain b a where loop: "best_on_line ?starts ?l column ?stmts None None = (b, a)"
    by fastforce
  have "before_ok ?starts ?l column {} None" "after_ok ?starts ?l column {} None"
    by (simp_all add: before_ok_def after_ok_def)
  from best_on_line_ok [OF this loop] have ok: "before_ok ?starts ?l column stmts b" "after_ok ?starts ?l column stmts a"
    by (simp_all add: assms(5))
  have found: "least_ok (contains_offset offset) span_of stmts (best_containing offset ?stmts None)"
    "least_ok (\<lambda>s. offset \<le> lo_start s) (\<lambda>s. unat (lo_start s)) stmts (next_stmt offset ?stmts None)"
    using best_containing_ok [of offset "{}" None ?stmts] next_stmt_ok [of offset "{}" None ?stmts]
    by (simp_all add: least_ok_def assms(5))
  have resolve: "resolve_breakpoint_location source file_id statements line column =
      (case (if b = None then a else b) of
         Some (_, stmt) \<Rightarrow> Some stmt
       | None \<Rightarrow> (case best_containing offset ?stmts None of
           Some stmt \<Rightarrow> Some stmt | None \<Rightarrow> next_stmt offset ?stmts None))"
    using assms(1) fits loop unfolding assms(3)
    by (simp add: resolve_breakpoint_location_def Let_def split del: if_split)
  note before = before_meaning [OF ok(1) assms(3)] and after = after_meaning [OF ok(2) assms(3)]
  show ?thesis
  proof (cases b)
    case (Some p)
    then show ?thesis
      using before unfolding resolve by (cases p) (auto simp: nearest_statement_def)
  next
    case b: None
    show ?thesis
    proof (cases a)
      case (Some p)
      then show ?thesis
        using before after b unfolding resolve
        by (cases p) (auto simp: nearest_statement_def)
    next
      case None
      then have none: "\<not> starts_on source ?l s" if "s \<in> stmts" for s
        using before after b that by auto
      show ?thesis
        using found none b None unfolding resolve
        by (cases "best_containing offset ?stmts None"; cases "next_stmt offset ?stmts None")
          (auto simp: nearest_statement_def least_ok_def)
    qed
  qed
qed

lemma breakpoint_resolved_witness:
  "let source = [CHR ''a'', newline, CHR ''b'', CHR ''c'']; stmt = \<lparr>lo_file = 0, lo_start = 2, lo_end = 4\<rparr> in
   resolve_breakpoint_location source 0 [stmt] 1 1 = Some stmt \<and> nearest_statement source 1 3 3 {stmt} stmt"
proof -
  let ?source = "[CHR ''a'', newline, CHR ''b'', CHR ''c'']"
  let ?stmt = "\<lparr>lo_file = 0, lo_start = 2, lo_end = 4\<rparr> :: source_location"
  have starts: "line_starts ?source = [0, 2]"
    by (simp add: line_starts_def newline_def)
  have resolve: "resolve_breakpoint_location ?source 0 [?stmt] 1 1 = Some ?stmt"
    by (simp add: resolve_breakpoint_location_def starts Let_def line_index_def statement_col_def
        to_u32_or_0_def to_u32_def)
  moreover have "{?stmt} = {s \<in> set [?stmt]. lo_file s = 0}"
    by auto
  then have "nearest_statement ?source 1 3 3 {?stmt} ?stmt"
    using breakpoint_resolved [of 1 ?source 3 1 3 "{?stmt}" "[?stmt]" 0] resolve
    by (simp only: starts) simp
  ultimately show ?thesis
    by simp
qed

end
