(* ===== verification/Debug_View.thy ===== *)
theory Debug_View
  imports Debug_Hook Simulation
begin

text \<open>
  What a debug client sees (\<open>debug/dap.rs\<close>): handles of structured values and the rows of a scope.
  The JSON form of the rows is made by the package \<open>serde\<close>; the printing of values (\<open>Debug\<close>) is the
  argument \<open>show\<close>. At the end: a handle stands for the value of its row until the table is cleared.
\<close>

record debug_variable =
  dv_name :: rstr
  dv_value :: rstr
  dv_type :: "rstr option"
  dv_reference :: u32
  dv_evaluate_name :: "rstr option"

datatype variable_handle =
    HandleLocals frame_id
  | HandleGlobals
  | HandleRetain
  | HandleInstances
  | HandleInstance instance_id
  | HandleStruct rstr "(rstr \<times> rvalue) list"
  | HandleArray "rvalue list" "(i64 \<times> i64) list"
  | HandleReference value_ref
  | HandleIoRoot
  | HandleIoInputs
  | HandleIoOutputs
  | HandleIoMemory

record variable_handles =
  vh_next_id :: u32
  vh_handles :: "(u32, variable_handle) index_map"

definition handles_new :: variable_handles where
  "handles_new = \<lparr>vh_next_id = 0, vh_handles = []\<rparr>"

definition handles_clear :: "variable_handles \<Rightarrow> variable_handles" where
  "handles_clear h = h\<lparr>vh_handles := [], vh_next_id := 1\<rparr>"

definition handles_alloc :: "variable_handle \<Rightarrow> variable_handles \<Rightarrow> u32 \<times> variable_handles" where
  "handles_alloc handle h =
     (let i = max (vh_next_id h) 1;
          next_id = (if vh_next_id h = - 1 then vh_next_id h else vh_next_id h + 1)
      in (i, \<lparr>vh_next_id = next_id, vh_handles = im_insert i handle (vh_handles h)\<rparr>))"

definition handles_get :: "variable_handles \<Rightarrow> u32 \<Rightarrow> variable_handle option" where
  "handles_get h i = im_get (vh_handles h) i"

definition value_type_name :: "rvalue \<Rightarrow> rstr option" where
  "value_type_name v =
     Some (case v of
        VBool _ \<Rightarrow> ''BOOL'' | VSInt _ \<Rightarrow> ''SINT'' | VInt _ \<Rightarrow> ''INT'' | VDInt _ \<Rightarrow> ''DINT''
      | VLInt _ \<Rightarrow> ''LINT'' | VUSInt _ \<Rightarrow> ''USINT'' | VUInt _ \<Rightarrow> ''UINT'' | VUDInt _ \<Rightarrow> ''UDINT''
      | VULInt _ \<Rightarrow> ''ULINT'' | VReal _ \<Rightarrow> ''REAL'' | VLReal _ \<Rightarrow> ''LREAL'' | VByte _ \<Rightarrow> ''BYTE''
      | VWord _ \<Rightarrow> ''WORD'' | VDWord _ \<Rightarrow> ''DWORD'' | VLWord _ \<Rightarrow> ''LWORD'' | VTime _ \<Rightarrow> ''TIME''
      | VLTime _ \<Rightarrow> ''LTIME'' | VDate _ \<Rightarrow> ''DATE'' | VLDate _ \<Rightarrow> ''LDATE'' | VTod _ \<Rightarrow> ''TOD''
      | VLTod _ \<Rightarrow> ''LTOD'' | VDt _ \<Rightarrow> ''DT'' | VLdt _ \<Rightarrow> ''LDT'' | VString _ \<Rightarrow> ''STRING''
      | VWString _ \<Rightarrow> ''WSTRING'' | VChar _ \<Rightarrow> ''CHAR'' | VWChar _ \<Rightarrow> ''WCHAR'' | VArray _ _ \<Rightarrow> ''ARRAY''
      | VStruct type_name _ \<Rightarrow> type_name | VEnum type_name _ _ \<Rightarrow> type_name
      | VReference _ \<Rightarrow> ''REF'' | VInstance _ \<Rightarrow> ''INSTANCE'' | VNull \<Rightarrow> ''NULL'')"

definition format_value :: "(rvalue \<Rightarrow> rstr) \<Rightarrow> rvalue \<Rightarrow> rstr" where
  "format_value show v =
     (case v of
        VBool b \<Rightarrow> if b then ''TRUE'' else ''FALSE''
      | VString s \<Rightarrow> s
      | VWString s \<Rightarrow> s
      | VChar c \<Rightarrow> utf8_encode (unat c)
      | VWChar c \<Rightarrow> (case char_from_u32 (unat c) of Inr ch \<Rightarrow> utf8_encode ch | Inl _ \<Rightarrow> ''?'')
      | VArray elements _ \<Rightarrow> ''['' @ show_nat (length elements) @ '']''
      | VStruct type_name _ \<Rightarrow> type_name @ '' {...}''
      | VEnum type_name variant_name _ \<Rightarrow> type_name @ ''::'' @ variant_name
      | VReference (Some _) \<Rightarrow> ''REF''
      | VReference None \<Rightarrow> ''NULL_REF''
      | VInstance i \<Rightarrow> ''Instance('' @ show_nat (unat i) @ '')''
      | VNull \<Rightarrow> ''NULL''
      | _ \<Rightarrow> show v)"

definition handle_of_value :: "rvalue \<Rightarrow> variable_handle option" where
  "handle_of_value v =
     (case v of
        VStruct type_name members \<Rightarrow> Some (HandleStruct type_name members)
      | VArray elements dims \<Rightarrow> Some (HandleArray elements dims)
      | VInstance i \<Rightarrow> Some (HandleInstance i)
      | VReference (Some r) \<Rightarrow> Some (HandleReference r)
      | _ \<Rightarrow> None)"

definition variable_from_value ::
    "(rvalue \<Rightarrow> rstr) \<Rightarrow> rstr \<Rightarrow> rvalue \<Rightarrow> rstr option \<Rightarrow> variable_handles
      \<Rightarrow> debug_variable \<times> variable_handles" where
  "variable_from_value show name v evaluate_name h =
     (let (reference, h) =
            (case handle_of_value v of Some handle \<Rightarrow> handles_alloc handle h | None \<Rightarrow> (0, h))
      in (\<lparr>dv_name = name, dv_value = format_value show v, dv_type = value_type_name v,
           dv_reference = reference, dv_evaluate_name = evaluate_name\<rparr>, h))"

fun variables_from_entries ::
    "(rvalue \<Rightarrow> rstr) \<Rightarrow> (rstr \<times> rvalue) list \<Rightarrow> variable_handles
      \<Rightarrow> debug_variable list \<times> variable_handles" where
  "variables_from_entries show [] h = ([], h)"
| "variables_from_entries show ((name, v) # entries) h =
     (let (row, h) = variable_from_value show name v (Some name) h;
          (rows, h) = variables_from_entries show entries h
      in (row # rows, h))"

definition variables_from_struct ::
    "(rvalue \<Rightarrow> rstr) \<Rightarrow> (rstr \<times> rvalue) list \<Rightarrow> variable_handles
      \<Rightarrow> debug_variable list \<times> variable_handles" where
  "variables_from_struct show members h = variables_from_entries show members h"

definition variables_from_array ::
    "(rvalue \<Rightarrow> rstr) \<Rightarrow> rvalue list \<Rightarrow> variable_handles \<Rightarrow> debug_variable list \<times> variable_handles" where
  "variables_from_array show elements h =
     variables_from_entries show
       (map (\<lambda>(idx, v). (''['' @ show_nat idx @ '']'', v)) (enumerate 0 elements)) h"

fun variables_from_instances ::
    "(instance_id \<times> rstr) list \<Rightarrow> variable_handles \<Rightarrow> debug_variable list \<times> variable_handles" where
  "variables_from_instances [] h = ([], h)"
| "variables_from_instances ((i, name) # instances) h =
     (let (reference, h) = handles_alloc (HandleInstance i) h;
          (rows, h) = variables_from_instances instances h
      in (\<lparr>dv_name = name, dv_value = ''Instance('' @ show_nat (unat i) @ '')'',
           dv_type = Some ''INSTANCE'', dv_reference = reference, dv_evaluate_name = Some name\<rparr> # rows, h))"

definition format_snapshot_value :: "(rvalue \<Rightarrow> rstr) \<Rightarrow> io_snapshot_value \<Rightarrow> rstr" where
  "format_snapshot_value show v =
     (case v of
        SnapValue x \<Rightarrow> show x
      | SnapError err \<Rightarrow> ''error: '' @ err
      | SnapUnresolved \<Rightarrow> ''unresolved'')"

definition format_address :: "io_address \<Rightarrow> rstr" where
  "format_address a =
     (if ia_wildcard a
      then
        (let area = (case ia_area a of AreaInput \<Rightarrow> ''I'' | AreaOutput \<Rightarrow> ''Q'' | AreaMemory \<Rightarrow> ''M'');
             size = (case ia_size a of IoBit \<Rightarrow> ''X'' | IoByte \<Rightarrow> ''B'' | IoWord \<Rightarrow> ''W'' | IoDWord \<Rightarrow> ''D''
                     | IoLWord \<Rightarrow> ''L'')
         in ''%'' @ area @ size @ ''*'')
      else format_io a)"

definition variables_from_io_entries ::
    "(rvalue \<Rightarrow> rstr) \<Rightarrow> io_snapshot_entry list \<Rightarrow> debug_variable list" where
  "variables_from_io_entries show entries =
     map (\<lambda>entry.
       let name = (case se_name entry of Some n \<Rightarrow> n | None \<Rightarrow> format_address (se_address entry)) in
       \<lparr>dv_name = name, dv_value = format_snapshot_value show (se_value entry), dv_type = None,
        dv_reference = 0, dv_evaluate_name = Some name\<rparr>) entries"

definition io_scope_available :: "io_snapshot option \<Rightarrow> bool" where
  "io_scope_available snapshot =
     (case snapshot of
        Some st \<Rightarrow> \<not> (sn_inputs st = [] \<and> sn_outputs st = [] \<and> sn_memory st = [])
      | None \<Rightarrow> False)"

section \<open>Statements of the files\<close>

text \<open>The statement locations that a runtime keeps for each file, in the order of the lowering.\<close>

type_synonym statement_index = "(u32, source_location list) index_map"

definition register_statement_locations ::
    "u32 \<Rightarrow> source_location list \<Rightarrow> statement_index \<Rightarrow> statement_index" where
  "register_statement_locations file_id locations index = im_insert file_id locations index"

definition index_resolve_location ::
    "statement_index \<Rightarrow> rstr \<Rightarrow> u32 \<Rightarrow> u32 \<Rightarrow> u32 \<Rightarrow> source_location option" where
  "index_resolve_location index source file_id line column =
     Option.bind (im_get index file_id)
       (\<lambda>locations. resolve_breakpoint_location source file_id locations line column)"

definition index_resolve_position ::
    "statement_index \<Rightarrow> rstr \<Rightarrow> u32 \<Rightarrow> u32 \<Rightarrow> u32 \<Rightarrow> (source_location \<times> u32 \<times> u32) option" where
  "index_resolve_position index source file_id line column =
     map_option (\<lambda>loc. (loc, location_to_line_col source loc))
       (index_resolve_location index source file_id line column)"

section \<open>Rows resolve\<close>

text \<open>
  Properties of what a debug client sees: a handle stands for the value of its row as long as the
  table is not cleared.
\<close>

text \<open>A table that has given out the identifiers from 1 to \<open>n\<close>.\<close>

definition handles_ok :: "variable_handles \<Rightarrow> nat \<Rightarrow> bool" where
  "handles_ok h n \<longleftrightarrow>
     unat (vh_next_id h) = Suc n \<and> (\<forall>i. handles_get h i \<noteq> None \<longrightarrow> 0 < unat i \<and> unat i \<le> n)"

text \<open>What was in a table is still there.\<close>

definition handles_kept :: "variable_handles \<Rightarrow> variable_handles \<Rightarrow> bool" where
  "handles_kept h h' \<longleftrightarrow> (\<forall>i x. handles_get h i = Some x \<longrightarrow> handles_get h' i = Some x)"

lemma handles_kept_refl: "handles_kept h h"
  by (simp add: handles_kept_def)

lemma handles_kept_trans: "handles_kept h h' \<Longrightarrow> handles_kept h' h'' \<Longrightarrow> handles_kept h h''"
  by (simp add: handles_kept_def)

lemma cleared_ok: "handles_ok (handles_clear h) 0"
  by (simp add: handles_ok_def handles_clear_def handles_get_def im_get_def)

lemma alloc_ok:
  assumes "handles_ok h n" and "n + 2 < 2 ^ 32" and "handles_alloc x h = (i, h')"
  shows "unat i = Suc n \<and> handles_ok h' (Suc n) \<and> handles_get h' i = Some x \<and> handles_kept h h'"
proof -
  have next_id: "unat (vh_next_id h) = Suc n"
    using assms(1) by (simp add: handles_ok_def)
  then have pos: "1 \<le> vh_next_id h"
    by (simp add: word_le_nat_alt)
  have "unat (vh_next_id h + 1) = Suc (Suc n)"
    using next_id assms(2) by (simp add: unat_word_ariths)
  moreover have "vh_next_id h \<noteq> - 1"
  proof
    assume "vh_next_id h = - 1"
    then have "unat (vh_next_id h) = 2 ^ 32 - 1"
      by (simp add: unsigned_minus_1_eq_mask mask_eq_exp_minus_1)
    then show False
      using next_id assms(2) by simp
  qed
  ultimately have "i = vh_next_id h" "unat (vh_next_id h') = Suc (Suc n)"
    "vh_handles h' = im_insert (vh_next_id h) x (vh_handles h)"
    using assms(3) pos by (auto simp: handles_alloc_def Let_def max_def)
  then show ?thesis
    using assms(1) next_id
    by (fastforce simp: handles_ok_def handles_kept_def handles_get_def im_get_insert split: if_splits)
qed

text \<open>A row shows its entry; the reference of a structured value leads to the value.\<close>

definition row_shows ::
    "(rvalue \<Rightarrow> rstr) \<Rightarrow> variable_handles \<Rightarrow> rstr \<times> rvalue \<Rightarrow> debug_variable \<Rightarrow> bool" where
  "row_shows show h = (\<lambda>(name, v) row.
     dv_name row = name \<and> dv_value row = format_value show v \<and> dv_type row = value_type_name v \<and>
     (case handle_of_value v of
        None \<Rightarrow> dv_reference row = 0
      | Some x \<Rightarrow> dv_reference row \<noteq> 0 \<and> handles_get h (dv_reference row) = Some x))"

lemma row_shows_kept: "row_shows show h e row \<Longrightarrow> handles_kept h h' \<Longrightarrow> row_shows show h' e row"
  by (auto simp: row_shows_def handles_kept_def split: option.splits prod.splits)

lemma row_ok:
  assumes "handles_ok h n" and "n + 2 < 2 ^ 32" and "variable_from_value show name v ev h = (row, h')"
  shows "\<exists>m \<le> Suc n. handles_ok h' m \<and> handles_kept h h' \<and> row_shows show h' (name, v) row"
proof (cases "handle_of_value v")
  case None
  then show ?thesis
    using assms by (auto simp: variable_from_value_def row_shows_def handles_kept_refl intro!: exI [of _ n])
next
  case (Some x)
  obtain i h1 where alloc: "handles_alloc x h = (i, h1)"
    by fastforce
  show ?thesis
    using alloc_ok [OF assms(1,2) alloc] assms(3) Some alloc
    by (auto simp: variable_from_value_def row_shows_def intro!: exI [of _ "Suc n"])
qed

lemma rows_ok:
  assumes "handles_ok h n" and "n + length entries + 1 < 2 ^ 32"
    and "variables_from_entries show entries h = (rows, h')"
  shows "handles_kept h h' \<and> list_all2 (row_shows show h') entries rows"
  using assms
proof (induction entries arbitrary: h n rows)
  case (Cons e entries)
  obtain name v where e: "e = (name, v)"
    by fastforce
  obtain row h1 where row: "variable_from_value show name v (Some name) h = (row, h1)"
    by fastforce
  obtain rest where rest: "variables_from_entries show entries h1 = (rest, h')" and rows: "rows = row # rest"
    using Cons.prems(3) row by (auto simp: e split: prod.splits)
  have "n + 2 < 2 ^ 32"
    using Cons.prems(2) by simp
  then obtain m where m: "m \<le> Suc n" "handles_ok h1 m" "handles_kept h h1" "row_shows show h1 (name, v) row"
    using row_ok [OF Cons.prems(1) _ row] by blast
  have "handles_kept h1 h' \<and> list_all2 (row_shows show h') entries rest"
    using Cons.IH [OF m(2) _ rest] Cons.prems(2) m(1) by simp
  then show ?case
    using m row_shows_kept handles_kept_trans unfolding rows e by auto
qed (simp add: handles_kept_refl)

text \<open>The rows of a scope show its entries in order, and every structured value (structure, array,
  instance or reference) has a reference that leads to it, whatever rows come after it; any other
  value has the reference 0. This holds from a cleared table on, for as many rows as there are
  identifiers.\<close>

theorem scope_rows_resolve:
  assumes "variables_from_entries show first (handles_clear h) = (rows1, h1)"
    and "variables_from_entries show second h1 = (rows2, h2)"
    and "length first + length second + 2 < 2 ^ 32"
  shows "list_all2 (row_shows show h2) first rows1 \<and> list_all2 (row_shows show h2) second rows2"
proof -
  have append: "variables_from_entries show (as @ bs) h =
      (let (r1, h) = variables_from_entries show as h; (r2, h) = variables_from_entries show bs h
       in (r1 @ r2, h))" for as bs h
    by (induction as arbitrary: h) (auto simp: split: prod.splits)
  have "variables_from_entries show (first @ second) (handles_clear h) = (rows1 @ rows2, h2)"
    using assms(1,2) by (simp add: append)
  then have "list_all2 (row_shows show h2) (first @ second) (rows1 @ rows2)"
    using rows_ok [OF cleared_ok [of h]] assms(3) by fastforce
  moreover have "length rows1 = length first"
    using rows_ok [OF cleared_ok _ assms(1)] assms(3) by (auto dest: list_all2_lengthD)
  ultimately show ?thesis
    by (simp add: list_all2_append)
qed

lemma scope_rows_resolve_witness:
  "let rows = variables_from_entries (\<lambda>_. []) [(''a'', VInstance 7), (''b'', VBool True)] (handles_clear handles_new)
   in list_all2 (row_shows (\<lambda>_. []) (snd rows)) [(''a'', VInstance 7), (''b'', VBool True)] (fst rows)"
proof -
  let ?rows = "variables_from_entries (\<lambda>_. []) [(''a'', VInstance 7), (''b'', VBool True)] (handles_clear handles_new)"
  have "?rows = (fst ?rows, snd ?rows)" "variables_from_entries (\<lambda>_. []) [] (snd ?rows) = ([], snd ?rows)"
    by simp_all
  from scope_rows_resolve [OF this] show ?thesis
    unfolding Let_def by simp
qed

text \<open>A new table gives its first identifier twice: the second handle takes the place of the first.\<close>

lemma first_handles_collide:
  "fst (handles_alloc a handles_new) = 1 \<and>
   fst (handles_alloc b (snd (handles_alloc a handles_new))) = 1 \<and>
   handles_get (snd (handles_alloc b (snd (handles_alloc a handles_new)))) 1 = Some b"
  by (simp add: handles_alloc_def handles_new_def handles_get_def Let_def im_get_insert max_def)

end
