(* ===== verification/Spec2Isabelle.thy ===== *)
theory Spec2Isabelle
  imports Bytecode_Properties Memory_Properties Fb_Properties Retain_Properties Arithmetic_Properties
    Eval_Properties Schedule_Properties Cycle_Properties Std_Properties Io_Properties
    Scheduler_Properties Simulation_Properties Reload_Properties
    Debug_Properties Force_Properties Line_Properties Debug_View
begin

text \<open>
  Verification library of the truST runtime (\<open>src/crates/trust-runtime\<close>), the part of the truST
  platform that executes IEC 61131-3 Structured Text.

  \<^bold>\<open>The program.\<close> A compiler lowers Structured Text to definitions of functions, function blocks,
  classes and programs, which the runtime interprets directly. The state of a runtime holds the
  variables (\<open>memory.rs\<close>), the process image with its bindings (\<open>io.rs\<close>), the tasks
  (\<open>task.rs\<close>), the retained variables (\<open>retain.rs\<close>) and the fault state (\<open>watchdog.rs\<close>). Once
  per cycle \<open>execute_cycle\<close> (\<open>runtime/cycle.rs\<close>) reads the inputs, runs the tasks that are due
  through the interpreter (\<open>eval/\<close>), which calls the standard functions and function blocks
  (\<open>stdlib/\<close>), writes the outputs and saves the retained variables. A second form of a program is
  the STBC container (\<open>bytecode/\<close>), which carries the type tables, the configuration and
  instruction streams, and is decoded and validated before its configuration is applied.

  \<^bold>\<open>Base.\<close> \<open>Prelude\<close>, \<open>Bytes\<close>, \<open>Ordered_Map\<close> (the insertion-ordered \<open>IndexMap\<close>),
  \<open>Strings\<close> (the operations of \<open>str\<close> on UTF-8 bytes), \<open>Floats\<close> (f32 and f64 by their bits, with
  exact rounding). Integers of a fixed width are words, with the checked, wrapping or saturating
  operation of the source; a \<open>Result\<close> is a sum whose left side is the error; \<^const>\<open>None\<close> of an
  operation that returns an option of a result is a panic of the source or a lack of fuel.

  \<^bold>\<open>Container.\<close> \<open>Bytecode_Format\<close> (types of \<open>bytecode/format.rs\<close>), \<open>Bytecode_Reader\<close>
  (\<open>reader.rs\<close>, and the locale of an encoder with its decoder), \<open>Bytecode_Types\<close>,
  \<open>Bytecode_Sections\<close>, \<open>Bytecode_Container\<close> (\<open>encode.rs\<close>, \<open>decode.rs\<close>), \<open>Bytecode_Checks\<close>,
  \<open>Bytecode_Code\<close>, \<open>Bytecode_Validate\<close> (\<open>validate.rs\<close>), \<open>Bytecode_Metadata\<close>
  (\<open>metadata.rs\<close>). \<open>Bytecode_Properties\<close>: decoding inverts encoding, validated code has safe
  jumps, calls and casts, a changed byte is found by the checksum, which the function \<open>crc\<close> stands for.

  \<^bold>\<open>Values and variables.\<close> \<open>Hir_Types\<close> (the type model of \<open>crates/trust-hir/src/types\<close>),
  \<open>Value_Ref\<close>, \<open>Values\<close> (with \<open>error.rs\<close>), \<open>Type_Values\<close> (\<open>value/\<close>), \<open>Numeric\<close>,
  \<open>Coercion\<close> (\<open>harness/coerce.rs\<close>), \<open>Memory\<close>, \<open>Array_Index\<close>, \<open>Memory_Laws\<close>
  (\<open>memory.rs\<close>). \<open>Memory_Properties\<close>: what is written through a reference is read back, other
  references keep their values, and the index arithmetic of arrays is exact.

  \<^bold>\<open>Interpreter.\<close> \<open>Eval_Syntax\<close> (\<open>eval/expr/ast.rs\<close> and definitions), \<open>Operators\<close>,
  \<open>Arithmetic\<close> (\<open>eval/ops.rs\<close>), \<open>Eval_Context\<close>, \<open>Eval_Names\<close>, \<open>Eval_Calls\<close>,
  \<open>Evaluator\<close> (\<open>eval/mod.rs\<close>, \<open>eval/expr\<close>), \<open>Statements\<close> (\<open>eval/stmt.rs\<close>,
  \<open>instance.rs\<close>). Functions, methods and instances call each other, so the interpreter is a record
  of its recursive calls, iterated to a depth; \<open>Eval_Contract\<close>, \<open>Eval_Keeping\<close>,
  \<open>Eval_Frames\<close> and \<open>Eval_Invariant\<close> prove a contract of these calls as a locale and interpret it
  at every depth. \<open>Eval_Properties\<close> and \<open>Arithmetic_Properties\<close> state what a block leaves of its
  context, that the deadline ends every loop, and that integer arithmetic is exact or an error.

  \<^bold>\<open>Standard library.\<close> \<open>Fb_Instance\<close>, \<open>Fb_Logic\<close>, \<open>Fb_Counters\<close>, \<open>Fb_Timers\<close>,
  \<open>Fb_Registry\<close> (\<open>stdlib/fbs\<close>) with \<open>Fb_Properties\<close>, the behaviour of blocks over a history of
  calls; \<open>Std_Helpers\<close>, \<open>Std_Numeric\<close>, \<open>Std_Text\<close>, \<open>Calendar\<close>,
  \<open>Std_Conversions\<close>, \<open>Std_Library\<close> (the other files of \<open>stdlib/\<close>, \<open>datetime.rs\<close>) with
  \<open>Std_Selection\<close>, \<open>Std_Bits\<close>, \<open>Std_Calendar\<close> and \<open>Std_Properties\<close>. An index into the arguments or into the
  bytes of a string that is out of bounds is a panic, the result \<^const>\<open>None\<close>.

  \<^bold>\<open>Runtime.\<close> \<open>Io\<close> and \<open>Io_Properties\<close> (\<open>io.rs\<close>: the image as a set of cells),
  \<open>Watchdog\<close>, \<open>Runtime_Core\<close> (\<open>runtime/core.rs\<close>), \<open>Cycle\<close> (with \<open>runtime/restart.rs\<close>),
  \<open>Retain_Codec\<close>, \<open>Retain\<close> (\<open>retain.rs\<close>, \<open>runtime/retain_store.rs\<close>) with
  \<open>Schedule_Properties\<close>, \<open>Cycle_Properties\<close> and \<open>Retain_Properties\<close>: which tasks run and in
  which order, what a cycle that succeeds or fails leaves, and what survives a power cycle.

  \<^bold>\<open>Resources.\<close> \<open>Error_Text\<close> (the texts of \<open>error.rs\<close>), \<open>Simulation\<close> (\<open>simulation.rs\<close>:
  couplings and disturbances around a cycle), \<open>Bytecode_Apply\<close> (\<open>runtime/bytecode.rs\<close>,
  \<open>runtime/mesh.rs\<close> and the snapshot of \<open>runtime/metadata.rs\<close>), \<open>Scheduler\<close> (\<open>scheduler.rs\<close>). One
  round of the loop of a resource is a function of what its thread observes, \<open>round_input\<close>: the stop
  flag, the commands that have arrived, the requested restart, the time and the wall time of the
  cycle. \<open>Scheduler_Properties\<close> gives the status of a loop over all its rounds, what a pause stops
  and what resources exchange; its locale \<open>loop_cycle\<close> is what a round needs of a cycle, interpreted
  for a resource of its own and for one among others. \<open>Simulation_Properties\<close> follows a delayed
  effect to the image, \<open>Reload_Properties\<close> says what an applied container has changed.

  \<^bold>\<open>Debugger.\<close> \<open>Debug_Lines\<close> (\<open>debug/resolve.rs\<close>), \<open>Debug_Control\<close> (\<open>debug/types.rs\<close>,
  \<open>debug/control.rs\<close>: the state behind the lock and every operation on it, and what \<open>runtime/cycle.rs\<close> does with it), \<open>Debug_Hook\<close>
  (\<open>on_statement_inner\<close> there, \<open>debug/breakpoints.rs\<close>), and \<open>Debug_View\<close>
  (\<open>debug/dap.rs\<close>, and that the rows a client is shown resolve). A call of the hook ends either with the
  statement allowed to run or with the thread waiting on the condition variable; the thread is woken
  by \<open>poll_hook\<close>, which goes once more through the loop of the hook. The text that Rust's derived
  \<open>Debug\<close> gives a value is the argument \<open>show\<close> of what logs it. The interpreter itself is modelled
  without a control attached. \<open>Debug_Properties\<close> gives when a thread stops and where a step ends,
  \<open>Force_Properties\<close> that forced values hold (its locale \<open>override_table\<close> is interpreted for the
  forced variables and for the forced cells of the image), \<open>Line_Properties\<close> where a breakpoint
  falls.
  \<^bold>\<open>Arguments of the model.\<close> What the sources only call is an argument: the checksum \<open>crc32fast\<close>;
  in \<open>eval_env\<close> the power function of f64, the upper case of text and the size of a reference;
  in \<open>std_env\<close> the power function, the transcendental functions and the \<open>Debug\<close> printing of
  values; in \<open>platform\<close> the width of \<open>usize\<close>; the clock; the driver of I/O and the retain store
  as a state with its operations; the equality of retained snapshots (floats may be unequal to
  themselves).

  \<^bold>\<open>Fuel.\<close> The interpreter takes the depth of nested calls and the number of rounds of a loop as
  fuel; a claim about its results says what holds of every result, and
  \<open>Eval_Properties.loops_end_at_deadline\<close> and the totality lemmas say when there is one. The
  recursion of the validator through alias types has fuel for the call stack, and
  \<open>Bytecode_Properties.endless_alias_diverges\<close> shows an input that exceeds any. Loops of the
  decoders are structural in a count or bounded by the bytes that are left.

  \<^bold>\<open>Not modelled.\<close> The parser and type checker (syntax trees of the package \<open>rowan\<close>), the compiler
  that lowers them, the language server and editor services, the web and terminal interfaces, the
  import and export of XML, OPC UA, the drivers behind sockets and files, TOML configuration and
  the command line programs: they are built on third-party data structures that are not part of
  the sources, or they are input and output.
\<close>

end
